(* ===== verification/Prelude.thy ===== *)
theory Prelude
  imports Main "HOL-Library.Word" "HOL-Library.Sublist" "HOL-Library.List_Lexorder"
    "HOL-Library.Product_Lexorder"
begin

text \<open>
  Shared vocabulary of the development: the machine types of the Go program, the part of
  Go's string library the sources use, the error values, the error-and-state combinators in
  which the operations are written, and the generic lemmas on lists that stand for the SQL
  clauses \<open>WHERE\<close>, \<open>UPDATE\<close>, \<open>ORDER BY\<close> and \<open>LIMIT\<close>.

  A Go string is the list of its UTF-8 bytes (a \<^typ>\<open>string\<close>, whose characters are bytes).
\<close>

section \<open>Machine types\<close>

type_synonym byte = "8 word"
type_synonym uint8 = "8 word"
type_synonym uint32 = "32 word"
type_synonym uint64 = "64 word"

text \<open>A \<open>time.Time\<close> truncated to milliseconds: milliseconds since the Unix epoch.\<close>

type_synonym time_ms = int

named_theorems em_simps \<open>inversion of the error-and-state combinators\<close>
named_theorems triple_intros \<open>rules for preconditions and outcomes\<close>
named_theorems keeps_intros \<open>rules that propagate a state predicate through an operation\<close>

section \<open>Go strings\<close>

text \<open>The UTF-8 encodings of the runes for which \<open>unicode.IsSpace\<close> holds.\<close>

definition go_space_seqs :: "string list" where
  "go_space_seqs = map (map char_of)
     ([[9], [10], [11], [12], [13], [32], [194, 133], [194, 160], [225, 154, 128]]
      @ map (\<lambda>k. [226, 128, k]) ([128..<139] @ [168, 169, 175])
      @ [[226, 129, 159], [227, 128, 128 :: nat]])"

function trim_prefixes :: "string list \<Rightarrow> string \<Rightarrow> string" where
  "trim_prefixes ws s =
     (case find (\<lambda>w. w \<noteq> [] \<and> prefix w s) ws of
        None \<Rightarrow> s
      | Some w \<Rightarrow> trim_prefixes ws (drop (length w) s))"
  by pat_completeness auto
termination
  by (relation "measure (\<lambda>(ws, s). length s)")
    (auto simp: find_Some_iff prefix_def)

declare trim_prefixes.simps [simp del]

definition TrimLeftSpace :: "string \<Rightarrow> string" where
  "TrimLeftSpace s = trim_prefixes go_space_seqs s"

definition TrimRightSpace :: "string \<Rightarrow> string" where
  "TrimRightSpace s = rev (trim_prefixes (map rev go_space_seqs) (rev s))"

definition TrimSpace :: "string \<Rightarrow> string" where
  "TrimSpace s = TrimRightSpace (TrimLeftSpace s)"

text \<open>Lower case of the ASCII letters.\<close>

definition lower :: "char \<Rightarrow> char" where
  "lower c = (let n = of_char c :: nat in if 65 \<le> n \<and> n \<le> 90 then char_of (n + 32) else c)"

definition TrimPrefix :: "string \<Rightarrow> string \<Rightarrow> string" where
  "TrimPrefix s p = (if prefix p s then drop (length p) s else s)"

text \<open>
  The number of runes of a valid UTF-8 string: the bytes that are not continuation bytes
  (\<open>10xxxxxx\<close>). Strings that come out of a proto3 message are valid UTF-8.
\<close>

definition rune_count :: "string \<Rightarrow> nat" where
  "rune_count s = length (filter (\<lambda>c. \<not> (128 \<le> (of_char c :: nat) \<and> (of_char c :: nat) < 192)) s)"

definition hex_digit :: "nat \<Rightarrow> char" where
  "hex_digit n = ''0123456789abcdef'' ! n"

definition hex_byte :: "byte \<Rightarrow> string" where
  "hex_byte b = [hex_digit (unat b div 16), hex_digit (unat b mod 16)]"

text \<open>\<open>hex.EncodeToString\<close>: lower case already.\<close>

definition hex_encode :: "byte list \<Rightarrow> string" where
  "hex_encode bs = concat (map hex_byte bs)"

text \<open>The decimal format \<open>%d\<close>.\<close>

fun show_nat :: "nat \<Rightarrow> string" where
  "show_nat n =
     (if n < 10 then [hex_digit n] else show_nat (n div 10) @ [hex_digit (n mod 10)])"

declare show_nat.simps [simp del]

definition show_int :: "int \<Rightarrow> string" where
  "show_int i = (if i < 0 then CHR ''-'' # show_nat (nat (- i)) else show_nat (nat i))"

section \<open>Errors\<close>

text \<open>
  Go error values. The sentinels are compared by identity; \<open>fmt.Errorf\<close> without \<open>%w\<close> gives
  a fresh value with a text (\<open>Errorf\<close>), with \<open>%w\<close> it wraps another error between two texts
  (\<open>Wrapped\<close>). \<open>DriverErr\<close> stands for any failure the database driver, the file system or
  the stream reports, \<open>DuplicateKey\<close> for a violated unique key.
\<close>

datatype err =
    ErrNotFound
  | ErrDirectChatForbidden
  | ErrForbidden
  | ErrInvalidMessage
  | ErrAdminRoleRequired
  | ErrOwnerRoleRequired
  | ErrCreateSpacePermission
  | ErrAutoDeleteGroupOnly
  | ErrEnvelopeTooLarge
  | EOF
  | UnexpectedEOF
  | DriverErr
  | DuplicateKey
  | Errorf string
  | Wrapped string err string

abbreviation wrap :: "string \<Rightarrow> err \<Rightarrow> err" where
  "wrap msg e \<equiv> Wrapped (msg @ '': '') e []"

text \<open>\<open>errors.Is\<close>: the error itself or anything it wraps.\<close>

fun errors_is :: "err \<Rightarrow> err \<Rightarrow> bool" where
  "errors_is (Wrapped p e q) t = (Wrapped p e q = t \<or> errors_is e t)"
| "errors_is e t = (e = t)"

text \<open>\<open>err.Error()\<close>, the text a session puts into an \<open>ERROR\<close> frame.\<close>

fun error_text :: "err \<Rightarrow> string" where
  "error_text ErrNotFound = ''repository: not found''"
| "error_text ErrDirectChatForbidden = ''repository: direct chat forbidden''"
| "error_text ErrForbidden = ''forbidden''"
| "error_text ErrInvalidMessage = ''invalid message''"
| "error_text ErrAdminRoleRequired = ''admin role required''"
| "error_text ErrOwnerRoleRequired = ''owner role required''"
| "error_text ErrCreateSpacePermission = ''create space permission required''"
| "error_text ErrAutoDeleteGroupOnly = ''auto delete is only supported for group channels''"
| "error_text ErrEnvelopeTooLarge = ''envelope payload exceeds 8388608 bytes''"
| "error_text EOF = ''EOF''"
| "error_text UnexpectedEOF = ''unexpected EOF''"
| "error_text DriverErr = ''driver error''"
| "error_text DuplicateKey = ''Duplicate entry''"
| "error_text (Errorf m) = m"
| "error_text (Wrapped p e q) = p @ error_text e @ q"

section \<open>Errors and state\<close>

text \<open>
  An operation takes the state and returns an error or a value, and the new state. The
  state after an error is the state the code has reached when it returns: whatever it had
  changed by then stays changed, unless a transaction is rolled back.
\<close>

type_synonym ('s, 'e, 'a) em = "'s \<Rightarrow> ('e + 'a) \<times> 's"

definition ret :: "'a \<Rightarrow> ('s, 'e, 'a) em" where
  "ret x s = (Inr x, s)"

definition raise :: "'e \<Rightarrow> ('s, 'e, 'a) em" where
  "raise e s = (Inl e, s)"

definition bind_e :: "('s, 'e, 'a) em \<Rightarrow> ('a \<Rightarrow> ('s, 'e, 'b) em) \<Rightarrow> ('s, 'e, 'b) em" where
  "bind_e m k s = (case m s of (Inl e, s') \<Rightarrow> (Inl e, s') | (Inr x, s') \<Rightarrow> k x s')"

text \<open>\<open>x, err := m; if err != nil { \<dots> }\<close> with a handler that looks at the error.\<close>

definition handle_e :: "('s, 'e, 'a) em \<Rightarrow> ('e \<Rightarrow> ('s, 'f, 'b) em) \<Rightarrow> ('a \<Rightarrow> ('s, 'f, 'b) em)
    \<Rightarrow> ('s, 'f, 'b) em" where
  "handle_e m h k s = (case m s of (Inl e, s') \<Rightarrow> h e s' | (Inr x, s') \<Rightarrow> k x s')"

definition map_err :: "('e \<Rightarrow> 'f) \<Rightarrow> ('s, 'e, 'a) em \<Rightarrow> ('s, 'f, 'a) em" where
  "map_err f m s = (case m s of (Inl e, s') \<Rightarrow> (Inl (f e), s') | (Inr x, s') \<Rightarrow> (Inr x, s'))"

text \<open>Running an operation on a part of a larger state.\<close>

definition lift_e :: "('t \<Rightarrow> 's) \<Rightarrow> ('s \<Rightarrow> 't \<Rightarrow> 't) \<Rightarrow> ('s, 'e, 'a) em \<Rightarrow> ('t, 'e, 'a) em" where
  "lift_e get put m t = (case m (get t) of (r, s') \<Rightarrow> (r, put s' t))"

text \<open>A loop over a list that stops at the first error and collects the results.\<close>

fun mapM_e :: "('x \<Rightarrow> ('s, 'e, 'a) em) \<Rightarrow> 'x list \<Rightarrow> ('s, 'e, 'a list) em" where
  "mapM_e f [] = ret []"
| "mapM_e f (x # xs) = bind_e (f x) (\<lambda>y. bind_e (mapM_e f xs) (\<lambda>ys. ret (y # ys)))"

text \<open>\<open>keeps P m\<close>: whatever the outcome of \<open>m\<close>, it preserves the state predicate \<open>P\<close>.\<close>

definition keeps :: "('s \<Rightarrow> bool) \<Rightarrow> ('s, 'e, 'a) em \<Rightarrow> bool" where
  "keeps P m \<longleftrightarrow> (\<forall>s. P s \<longrightarrow> P (snd (m s)))"

text \<open>A stronger form: the value, when there is one, satisfies \<open>Q\<close> in the new state.\<close>

definition triple :: "('s \<Rightarrow> bool) \<Rightarrow> ('s, 'e, 'a) em \<Rightarrow> ('a \<Rightarrow> 's \<Rightarrow> bool) \<Rightarrow> ('e \<Rightarrow> 's \<Rightarrow> bool) \<Rightarrow> bool" where
  "triple P m Q E \<longleftrightarrow>
     (\<forall>s. P s \<longrightarrow> (case m s of (Inr x, s') \<Rightarrow> Q x s' | (Inl e, s') \<Rightarrow> E e s'))"

section \<open>SQL clauses on lists of rows\<close>

definition update_where :: "('r \<Rightarrow> bool) \<Rightarrow> ('r \<Rightarrow> 'r) \<Rightarrow> 'r list \<Rightarrow> 'r list" where
  "update_where p f rs = map (\<lambda>r. if p r then f r else r) rs"

definition delete_where :: "('r \<Rightarrow> bool) \<Rightarrow> 'r list \<Rightarrow> 'r list" where
  "delete_where p rs = filter (\<lambda>r. \<not> p r) rs"

definition count_where :: "('r \<Rightarrow> bool) \<Rightarrow> 'r list \<Rightarrow> nat" where
  "count_where p rs = length (filter p rs)"

text \<open>\<open>ORDER BY key ASC LIMIT n\<close>.\<close>

definition order_limit :: "('r \<Rightarrow> 'k::linorder) \<Rightarrow> nat \<Rightarrow> 'r list \<Rightarrow> 'r list" where
  "order_limit key n rs = take n (sort_key key rs)"

text \<open>\<open>LIMIT 1\<close>, scanned into one value.\<close>

definition first_row :: "'r list \<Rightarrow> 'r option" where
  "first_row rs = (case rs of [] \<Rightarrow> None | r # _ \<Rightarrow> Some r)"

section \<open>Lemmas: strings\<close>

lemma trim_prefixes_suffix: "suffix (trim_prefixes ws s) s"
proof (induction ws s rule: trim_prefixes.induct)
  case (1 ws s)
  show ?case
  proof (cases "find (\<lambda>w. w \<noteq> [] \<and> prefix w s) ws")
    case None
    then show ?thesis by (simp add: trim_prefixes.simps [of ws s])
  next
    case (Some w)
    then have "suffix (trim_prefixes ws (drop (length w) s)) (drop (length w) s)"
      by (rule "1.IH")
    then have "suffix (trim_prefixes ws (drop (length w) s)) s"
      by (meson suffix_drop suffix_order.trans)
    with Some show ?thesis by (simp add: trim_prefixes.simps [of ws s])
  qed
qed

text \<open>What is left does not start with anything that was to be trimmed.\<close>

definition untrimmed :: "string list \<Rightarrow> string \<Rightarrow> bool" where
  "untrimmed ws s \<longleftrightarrow> (\<forall>w \<in> set ws. w \<noteq> [] \<longrightarrow> \<not> prefix w s)"

lemma trim_prefixes_untrimmed: "untrimmed ws (trim_prefixes ws s)"
proof (induction ws s rule: trim_prefixes.induct)
  case (1 ws s)
  show ?case
  proof (cases "find (\<lambda>w. w \<noteq> [] \<and> prefix w s) ws")
    case None
    moreover from None have "untrimmed ws s"
      by (auto simp: find_None_iff untrimmed_def)
    ultimately show ?thesis by (simp add: trim_prefixes.simps [of ws s])
  next
    case (Some w)
    with "1.IH" show ?thesis by (simp add: trim_prefixes.simps [of ws s])
  qed
qed

lemma trim_prefixes_id: "untrimmed ws s \<Longrightarrow> trim_prefixes ws s = s"
proof -
  assume "untrimmed ws s"
  then have "find (\<lambda>w. w \<noteq> [] \<and> prefix w s) ws = None"
    by (auto simp: find_None_iff untrimmed_def)
  then show ?thesis by (simp add: trim_prefixes.simps [of ws s])
qed

lemma untrimmed_prefix: "untrimmed ws s \<Longrightarrow> prefix t s \<Longrightarrow> untrimmed ws t"
  by (auto simp: untrimmed_def dest: prefix_order.trans)

lemma TrimRightSpace_prefix: "prefix (TrimRightSpace s) s"
  using trim_prefixes_suffix [of "map rev go_space_seqs" "rev s"]
  by (simp add: TrimRightSpace_def suffix_to_prefix)

lemma TrimSpace_idem [simp]: "TrimSpace (TrimSpace s) = TrimSpace s"
proof -
  let ?l = "TrimLeftSpace s"
  have "untrimmed go_space_seqs ?l"
    by (simp add: TrimLeftSpace_def trim_prefixes_untrimmed)
  then have "untrimmed go_space_seqs (TrimSpace s)"
    unfolding TrimSpace_def by (rule untrimmed_prefix [OF _ TrimRightSpace_prefix])
  then have left: "TrimLeftSpace (TrimSpace s) = TrimSpace s"
    by (simp add: TrimLeftSpace_def trim_prefixes_id)
  have "TrimRightSpace (TrimRightSpace ?l) = TrimRightSpace ?l"
    by (simp add: TrimRightSpace_def trim_prefixes_id trim_prefixes_untrimmed)
  with left show ?thesis by (simp add: TrimSpace_def)
qed

lemma length_TrimSpace_le: "length (TrimSpace s) \<le> length s"
proof -
  have "length (TrimSpace s) \<le> length (TrimLeftSpace s)"
    unfolding TrimSpace_def by (rule prefix_length_le [OF TrimRightSpace_prefix])
  also have "\<dots> \<le> length s"
    unfolding TrimLeftSpace_def by (rule suffix_length_le [OF trim_prefixes_suffix])
  finally show ?thesis .
qed

lemma hex_digit_inj: "m < 16 \<Longrightarrow> n < 16 \<Longrightarrow> hex_digit m = hex_digit n \<longleftrightarrow> m = n"
proof -
  have "distinct ''0123456789abcdef''" by simp
  then show "m < 16 \<Longrightarrow> n < 16 \<Longrightarrow> hex_digit m = hex_digit n \<longleftrightarrow> m = n"
    unfolding hex_digit_def by (subst nth_eq_iff_index_eq) simp_all
qed

lemma hex_byte_inj [simp]: "hex_byte a = hex_byte b \<longleftrightarrow> a = b"
proof
  assume eq: "hex_byte a = hex_byte b"
  have lt: "unat (x :: byte) div 16 < 16" "unat x mod 16 < 16" for x
    using unsigned_less [of x, where 'a = nat] by simp_all
  from eq have "unat a div 16 = unat b div 16" "unat a mod 16 = unat b mod 16"
    by (simp_all add: hex_byte_def hex_digit_inj lt)
  then have "unat a = unat b" by (metis div_mult_mod_eq)
  then show "a = b" by (rule unsigned_word_eqI)
qed simp

lemma length_hex_byte [simp]: "length (hex_byte b) = 2"
  by (simp add: hex_byte_def)

lemma hex_encode_inj: "hex_encode xs = hex_encode ys \<Longrightarrow> xs = ys"
proof (induction xs arbitrary: ys)
  case Nil
  then show ?case by (cases ys) (auto simp: hex_encode_def hex_byte_def)
next
  case (Cons x xs)
  then show ?case
  proof (cases ys)
    case (Cons y ys')
    with Cons.prems have "hex_byte x @ hex_encode xs = hex_byte y @ hex_encode ys'"
      by (simp add: hex_encode_def)
    then have "hex_byte x = hex_byte y" "hex_encode xs = hex_encode ys'"
      by (simp_all add: append_eq_append_conv)
    with Cons Cons.IH show ?thesis by simp
  qed (auto simp: hex_encode_def hex_byte_def)
qed

lemma length_hex_encode: "length (hex_encode bs) = 2 * length bs"
  by (induction bs) (simp_all add: hex_encode_def)

section \<open>Lemmas: machine words\<close>

lemma unat_inc: "Suc (unat x) < 2 ^ LENGTH('w) \<Longrightarrow> unat (x + 1) = Suc (unat (x :: 'w::len word))"
  using unat_add_lem [of x 1] by simp

lemma unat_inc_max: "x \<noteq> - 1 \<Longrightarrow> unat (x + 1) = Suc (unat (x :: 'w::len word))"
  using unatSuc [of x] by (metis add.commute add_eq_0_iff)

lemma unat_of_nat_less: "n < 2 ^ LENGTH('w) \<Longrightarrow> unat (of_nat n :: 'w::len word) = n"
  by (simp add: unat_of_nat take_bit_nat_eq_self)

section \<open>Lemmas: the combinators\<close>

lemma ret_simp [simp]: "ret x s = (Inr x, s)"
  by (simp add: ret_def)

lemma raise_simp [simp]: "raise e s = (Inl e, s)"
  by (simp add: raise_def)

lemma bind_e_Inr [em_simps]:
  "bind_e m k s = (Inr y, s') \<longleftrightarrow> (\<exists>x s1. m s = (Inr x, s1) \<and> k x s1 = (Inr y, s'))"
  by (auto simp: bind_e_def split: prod.splits sum.splits)

lemma bind_e_Inl:
  "bind_e m k s = (Inl e, s') \<longleftrightarrow>
     m s = (Inl e, s') \<or> (\<exists>x s1. m s = (Inr x, s1) \<and> k x s1 = (Inl e, s'))"
  by (auto simp: bind_e_def split: prod.splits sum.splits)

text \<open>Branches are inverted as disjunctions, so that a branch that raises disappears.\<close>

lemma if_Inr [em_simps]:
  "(if b then m else n) s = (Inr y, s') \<longleftrightarrow> b \<and> m s = (Inr y, s') \<or> \<not> b \<and> n s = (Inr y, s')"
  by simp

lemma case_option_Inr [em_simps]:
  "(case x of None \<Rightarrow> m | Some z \<Rightarrow> k z) s = (Inr y, s') \<longleftrightarrow>
     x = None \<and> m s = (Inr y, s') \<or> (\<exists>z. x = Some z \<and> k z s = (Inr y, s'))"
  by (cases x) simp_all

lemma case_sum_Inr [em_simps]:
  "(case x of Inl e \<Rightarrow> h e | Inr z \<Rightarrow> k z) s = (Inr y, s') \<longleftrightarrow>
     (\<exists>e. x = Inl e \<and> h e s = (Inr y, s')) \<or> (\<exists>z. x = Inr z \<and> k z s = (Inr y, s'))"
  by (cases x) simp_all

lemma if_apply: "(if b then m else n) s = (if b then m s else n s)"
  by simp

lemma bind_e_ret_left [simp]: "bind_e (ret x) k = k x"
  by (rule ext) (simp add: bind_e_def)

lemma bind_e_raise [simp]: "bind_e (raise e) k = raise e"
  by (rule ext) (simp add: bind_e_def)

lemma bind_e_assoc: "bind_e (bind_e m k) l = bind_e m (\<lambda>x. bind_e (k x) l)"
  by (rule ext) (auto simp: bind_e_def split: prod.splits sum.splits)

lemma handle_e_Inr [em_simps]:
  "handle_e m h k s = (Inr y, s') \<longleftrightarrow>
     (\<exists>e s1. m s = (Inl e, s1) \<and> h e s1 = (Inr y, s')) \<or>
     (\<exists>x s1. m s = (Inr x, s1) \<and> k x s1 = (Inr y, s'))"
  by (auto simp: handle_e_def split: prod.splits sum.splits)

lemma map_err_Inr [em_simps]: "map_err f m s = (Inr y, s') \<longleftrightarrow> m s = (Inr y, s')"
  by (auto simp: map_err_def split: prod.splits sum.splits)

lemma map_err_Inl: "map_err f m s = (Inl d, s') \<longleftrightarrow> (\<exists>e. m s = (Inl e, s') \<and> d = f e)"
  by (auto simp: map_err_def split: prod.splits sum.splits)

lemma snd_map_err [simp]: "snd (map_err f m s) = snd (m s)"
  by (auto simp: map_err_def split: prod.splits sum.splits)

lemma lift_e_iff [em_simps]:
  "lift_e get put m t = (r, t') \<longleftrightarrow> (\<exists>s'. m (get t) = (r, s') \<and> t' = put s' t)"
  by (auto simp: lift_e_def split: prod.splits)

lemma keepsI: "(\<And>s. P s \<Longrightarrow> P (snd (m s))) \<Longrightarrow> keeps P m"
  by (simp add: keeps_def)

lemma keepsD: "keeps P m \<Longrightarrow> P s \<Longrightarrow> P (snd (m s))"
  by (simp add: keeps_def)

lemma keepsD2: "keeps P m \<Longrightarrow> m s = (r, s') \<Longrightarrow> P s \<Longrightarrow> P s'"
  by (auto simp: keeps_def dest: spec [of _ s])

lemma keeps_ret [keeps_intros]: "keeps P (ret x)"
  by (simp add: keeps_def)

lemma keeps_raise [keeps_intros]: "keeps P (raise e)"
  by (simp add: keeps_def)

lemma keeps_bind [keeps_intros]:
  "keeps P m \<Longrightarrow> (\<And>x. keeps P (k x)) \<Longrightarrow> keeps P (bind_e m k)"
  by (fastforce simp: keeps_def bind_e_def split: prod.splits sum.splits)

lemma keeps_handle [keeps_intros]:
  "keeps P m \<Longrightarrow> (\<And>e. keeps P (h e)) \<Longrightarrow> (\<And>x. keeps P (k x)) \<Longrightarrow> keeps P (handle_e m h k)"
  by (fastforce simp: keeps_def handle_e_def split: prod.splits sum.splits)

lemma keeps_map_err [keeps_intros]: "keeps P m \<Longrightarrow> keeps P (map_err f m)"
  by (simp add: keeps_def)

lemma keeps_if [keeps_intros]:
  "(b \<Longrightarrow> keeps P m) \<Longrightarrow> (\<not> b \<Longrightarrow> keeps P n) \<Longrightarrow> keeps P (if b then m else n)"
  by simp

lemma keeps_option [keeps_intros]:
  "(x = None \<Longrightarrow> keeps P m) \<Longrightarrow> (\<And>y. x = Some y \<Longrightarrow> keeps P (k y)) \<Longrightarrow>
     keeps P (case x of None \<Rightarrow> m | Some y \<Rightarrow> k y)"
  by (cases x) simp_all

lemma keeps_prod [keeps_intros]:
  "(\<And>a b. x = (a, b) \<Longrightarrow> keeps P (k a b)) \<Longrightarrow> keeps P (case x of (a, b) \<Rightarrow> k a b)"
  by (cases x) simp_all

lemma keeps_sum [keeps_intros]:
  "(\<And>e. x = Inl e \<Longrightarrow> keeps P (h e)) \<Longrightarrow> (\<And>y. x = Inr y \<Longrightarrow> keeps P (k y)) \<Longrightarrow>
     keeps P (case x of Inl e \<Rightarrow> h e | Inr y \<Rightarrow> k y)"
  by (cases x) simp_all

lemma keeps_mapM [keeps_intros]: "(\<And>x. keeps P (f x)) \<Longrightarrow> keeps P (mapM_e f xs)"
  by (induction xs) (auto intro!: keeps_intros)

lemma keeps_let [keeps_intros]: "keeps P (k x) \<Longrightarrow> keeps P (let y = x in k y)"
  by simp

lemma triple_bind:
  "triple P m R F \<Longrightarrow> (\<And>x. triple (R x) (k x) Q F) \<Longrightarrow> triple P (bind_e m k) Q F"
  by (fastforce simp: triple_def bind_e_def split: prod.splits sum.splits)

lemma triple_raise [triple_intros]: "triple P (raise e) Q (\<lambda>_. P)"
  by (simp add: triple_def raise_def)

lemma triple_if [triple_intros]:
  "(b \<Longrightarrow> triple P m Q F) \<Longrightarrow> (\<not> b \<Longrightarrow> triple P n Q F) \<Longrightarrow> triple P (if b then m else n) Q F"
  by simp

lemma triple_prod [triple_intros]:
  "(\<And>a b. x = (a, b) \<Longrightarrow> triple P (k a b) Q F) \<Longrightarrow> triple P (case x of (a, b) \<Rightarrow> k a b) Q F"
  by (cases x) simp

lemma triple_sum [triple_intros]:
  "(\<And>e. x = Inl e \<Longrightarrow> triple P (h e) Q F) \<Longrightarrow> (\<And>y. x = Inr y \<Longrightarrow> triple P (k y) Q F) \<Longrightarrow>
     triple P (case x of Inl e \<Rightarrow> h e | Inr y \<Rightarrow> k y) Q F"
  by (cases x) simp_all

lemma triple_option [triple_intros]:
  "(x = None \<Longrightarrow> triple P m Q F) \<Longrightarrow> (\<And>y. x = Some y \<Longrightarrow> triple P (k y) Q F) \<Longrightarrow>
     triple P (case x of None \<Rightarrow> m | Some y \<Rightarrow> k y) Q F"
  by (cases x) simp_all

lemma triple_keep: "keeps P m \<Longrightarrow> triple P m (\<lambda>_. P) (\<lambda>_. P)"
  by (auto simp: keeps_def triple_def split: prod.splits sum.splits)

lemma triple_at: "(\<And>s. triple P (f s) Q F) \<Longrightarrow> triple P (\<lambda>s. f s s) Q F"
  by (simp add: triple_def)

lemma triple_ret: "triple P (ret x) (\<lambda>_. P) F"
  by (simp add: triple_def)

section \<open>Lemmas: rows\<close>

lemma update_where_simps [simp]:
  "update_where p f [] = []"
  "update_where p f (r # rs) = (if p r then f r else r) # update_where p f rs"
  "update_where p f (rs @ ss) = update_where p f rs @ update_where p f ss"
  "length (update_where p f rs) = length rs"
  by (simp_all add: update_where_def)

lemma map_update_where [simp]:
  "(\<And>r. g (f r) = g r) \<Longrightarrow> map g (update_where p f rs) = map g rs"
  by (simp add: update_where_def)

lemma image_update_where [simp]:
  "(\<And>r. g (f r) = g r) \<Longrightarrow> g ` set (update_where p f rs) = g ` set rs"
  by (induction rs) simp_all

lemma set_update_where:
  "set (update_where p f rs) = {r \<in> set rs. \<not> p r} \<union> f ` {r \<in> set rs. p r}"
  by (auto simp: update_where_def)

lemma update_where_none: "(\<And>r. r \<in> set rs \<Longrightarrow> \<not> p r) \<Longrightarrow> update_where p f rs = rs"
  by (induction rs) (auto simp: update_where_def)

lemma filter_update_where [simp]:
  "(\<And>r. q (f r) = q r) \<Longrightarrow> filter q (update_where p f rs) = update_where p f (filter q rs)"
  by (induction rs) auto

lemma count_update_where [simp]:
  "(\<And>r. q (f r) = q r) \<Longrightarrow> count_where q (update_where p f rs) = count_where q rs"
  by (simp add: count_where_def)

lemma count_where_simps [simp]:
  "count_where p [] = 0"
  "count_where p (r # rs) = (if p r then Suc (count_where p rs) else count_where p rs)"
  "count_where p (rs @ ss) = count_where p rs + count_where p ss"
  by (simp_all add: count_where_def)

lemma count_where_0_iff: "count_where p rs = 0 \<longleftrightarrow> (\<forall>r \<in> set rs. \<not> p r)"
  by (auto simp: count_where_def filter_empty_conv)

lemma count_where_pos_iff: "0 < count_where p rs \<longleftrightarrow> (\<exists>r \<in> set rs. p r)"
  using count_where_0_iff [of p rs] by auto

lemma first_row_SomeD: "first_row rs = Some r \<Longrightarrow> r \<in> set rs"
  by (auto simp: first_row_def split: list.splits)

lemma find_update_where:
  "(\<And>r. q (f r) = q r) \<Longrightarrow>
     find q (update_where p f rs) = map_option (\<lambda>r. if p r then f r else r) (find q rs)"
  by (induction rs) auto

lemma find_append: "find p (xs @ ys) = (case find p xs of None \<Rightarrow> find p ys | Some x \<Rightarrow> Some x)"
  by (induction xs) auto

lemma find_SomeD: "find p xs = Some x \<Longrightarrow> x \<in> set xs \<and> p x"
  by (auto simp: find_Some_iff)

lemma find_NoneD: "find p xs = None \<Longrightarrow> x \<in> set xs \<Longrightarrow> \<not> p x"
  by (auto simp: find_None_iff)

lemma find_delete_where [simp]: "find p (delete_where p xs) = None"
  by (auto simp: find_None_iff delete_where_def)

text \<open>A key that is unique among the rows finds the row it belongs to.\<close>

lemma find_unique:
  assumes "distinct (map key rs)" "r \<in> set rs"
  shows "find (\<lambda>x. key x = key r) rs = Some r"
  using assms by (induction rs) auto

text \<open>A join on a unique key has one partner at most.\<close>

lemma join_unique:
  "distinct (map key us) \<Longrightarrow>
     concat (map (\<lambda>u. if key u = i then h u else []) us) =
       (case find (\<lambda>u. key u = i) us of None \<Rightarrow> [] | Some u \<Rightarrow> h u)"
proof (induction us)
  case (Cons u us)
  have "concat (map (\<lambda>u. if key u = i then h u else []) us) = []" if "i \<notin> key ` set us"
    using that by (induction us) auto
  with Cons show ?case by auto
qed simp

lemma distinct_concat_keys:
  assumes "distinct (map k xs)" "\<And>x. distinct (map key (g x))" "\<And>x y. x \<in> set xs \<Longrightarrow> y \<in> set (g x) \<Longrightarrow> key y = k x"
  shows "distinct (map key (concat (map g xs)))"
  using assms(1,3)
proof (induction xs)
  case (Cons x xs)
  have "set (map key (concat (map g xs))) \<subseteq> k ` set xs" using Cons.prems(2) by fastforce
  moreover have "set (map key (g x)) \<subseteq> {k x}" using Cons.prems(2) by fastforce
  moreover have "k x \<notin> k ` set xs" using Cons.prems(1) by simp
  ultimately have "set (map key (g x)) \<inter> set (map key (concat (map g xs))) = {}" by blast
  moreover have "distinct (map key (concat (map g xs)))" using Cons by simp
  ultimately have "distinct (map key (g x) @ map key (concat (map g xs)))"
    using assms(2) by (simp only: distinct_append simp_thms)
  then show ?case by simp
qed simp

lemma set_order_limit: "set (order_limit key n rs) \<subseteq> set rs"
  unfolding order_limit_def using set_take_subset by fastforce

lemma length_order_limit [simp]: "length (order_limit key n rs) = min n (length rs)"
  by (simp add: order_limit_def)

lemma sorted_order_limit [simp]: "sorted (map key (order_limit key n rs))"
  by (simp add: order_limit_def take_map [symmetric] sorted_wrt_take)

end
