(* ===== verification/Config.thy ===== *)
theory Config
  imports Prelude
begin

text \<open>
  Loading and validating the runtime configuration, \<open>internal/config/config.go\<close>: the built-in
  defaults, the optional JSON file, the \<open>MESHSERVER_\<close> environment variables, the
  normalisation of the IPFS block and the final validation. Durations are nanoseconds, a Go
  \<open>int\<close> or \<open>int64\<close> is an integer of the 64-bit range.

  The file system (\<open>os.Stat\<close>, \<open>os.ReadFile\<close>), the JSON decoder into \<open>fileConfig\<close>, the
  environment and \<open>time.ParseDuration\<close> are arguments. The lemmas show which source of a
  setting wins, and that a configuration that was loaded satisfies the limits on which the
  services rely.
\<close>

section \<open>The configuration\<close>

record ipfs_config =
  ic_Enabled :: bool
  ic_Root :: string
  ic_GatewayEnabled :: bool
  ic_GatewayWritable :: bool
  ic_APIEnabled :: bool
  ic_DatastoreType :: string
  ic_BlockstoreNoSync :: bool
  ic_Chunker :: string
  ic_RawLeaves :: bool
  ic_CIDVersion :: int
  ic_HashFunction :: string
  ic_AutoProvide :: bool
  ic_ReprovideIntervalSeconds :: int
  ic_RoutingMode :: string
  ic_FetchTimeoutSeconds :: int
  ic_AutoPinOnAdd :: bool
  ic_MaxUploadBytes :: int

record config =
  cf_ConfigFile :: string
  cf_Version :: string
  cf_NodeName :: string
  cf_MySQLDSN :: string
  cf_MySQLAdminDSN :: string
  cf_MySQLServerPubKeyPath :: string
  cf_MySQLConnMaxLifetime :: int
  cf_MySQLMaxIdleConns :: int
  cf_MySQLMaxOpenConns :: int
  cf_MySQLConnectTimeout :: int
  cf_MySQLRetryInterval :: int
  cf_MySQLMaxRetryDuration :: int
  cf_Libp2pListenAddrs :: "string list"
  cf_Libp2pProtocolID :: string
  cf_NodeKeyPath :: string
  cf_BlobRoot :: string
  cf_LogDir :: string
  cf_MigrationsDir :: string
  cf_HTTPListenAddr :: string
  cf_HTTPJWTSecret :: string
  cf_HTTPAccessTokenTTL :: int
  cf_ReadTimeout :: int
  cf_WriteTimeout :: int
  cf_HeartbeatInterval :: int
  cf_ChallengeTTL :: int
  cf_MaxTextLen :: int
  cf_MaxImagesPerMessage :: int
  cf_MaxFilesPerMessage :: int
  cf_MaxUploadBytes :: int
  cf_DefaultSyncLimit :: uint32
  cf_MaxSyncLimit :: uint32
  cf_EnableDebugConfig :: bool
  cf_ServeBlobsOverHTTP :: bool
  cf_BlobURLBase :: string
  cf_DHTDiscoveryNamespace :: string
  cf_DHTBootstrapPeers :: "string list"
  cf_DefaultAdminPeerID :: string
  cf_DefaultSpaceID :: uint32
  cf_IPFS :: ipfs_config

text \<open>The JSON file: a \<open>nil\<close> pointer is \<open>None\<close>, a missing list the empty list.\<close>

record ipfs_file_config =
  ifc_Enabled :: "bool option"
  ifc_Root :: "string option"
  ifc_GatewayEnabled :: "bool option"
  ifc_GatewayWritable :: "bool option"
  ifc_APIEnabled :: "bool option"
  ifc_DatastoreType :: "string option"
  ifc_BlockstoreNoSync :: "bool option"
  ifc_Chunker :: "string option"
  ifc_RawLeaves :: "bool option"
  ifc_CIDVersion :: "int option"
  ifc_HashFunction :: "string option"
  ifc_AutoProvide :: "bool option"
  ifc_ReprovideIntervalSeconds :: "int option"
  ifc_RoutingMode :: "string option"
  ifc_FetchTimeoutSeconds :: "int option"
  ifc_AutoPinOnAdd :: "bool option"
  ifc_MaxUploadBytes :: "int option"

record file_config =
  fc_Version :: "string option"
  fc_NodeName :: "string option"
  fc_MySQLDSN :: "string option"
  fc_MySQLAdminDSN :: "string option"
  fc_MySQLServerPubKeyPath :: "string option"
  fc_MySQLConnMaxLifetime :: "string option"
  fc_MySQLMaxIdleConns :: "int option"
  fc_MySQLMaxOpenConns :: "int option"
  fc_MySQLConnectTimeout :: "string option"
  fc_MySQLRetryInterval :: "string option"
  fc_MySQLMaxRetryDuration :: "string option"
  fc_Libp2pListenAddrs :: "string list"
  fc_Libp2pProtocolID :: "string option"
  fc_NodeKeyPath :: "string option"
  fc_BlobRoot :: "string option"
  fc_LogDir :: "string option"
  fc_MigrationsDir :: "string option"
  fc_HTTPListenAddr :: "string option"
  fc_HTTPJWTSecret :: "string option"
  fc_HTTPAccessTokenTTL :: "string option"
  fc_ReadTimeout :: "string option"
  fc_WriteTimeout :: "string option"
  fc_HeartbeatInterval :: "string option"
  fc_ChallengeTTL :: "string option"
  fc_MaxTextLen :: "int option"
  fc_MaxImagesPerMessage :: "int option"
  fc_MaxFilesPerMessage :: "int option"
  fc_MaxUploadBytes :: "int option"
  fc_DefaultSyncLimit :: "uint32 option"
  fc_MaxSyncLimit :: "uint32 option"
  fc_EnableDebugConfig :: "bool option"
  fc_ServeBlobsOverHTTP :: "bool option"
  fc_BlobURLBase :: "string option"
  fc_DHTDiscoveryNamespace :: "string option"
  fc_DHTBootstrapPeers :: "string list"
  fc_DefaultAdminPeerID :: "string option"
  fc_DefaultSpaceID :: "uint32 option"
  fc_IPFS :: "ipfs_file_config option"

section \<open>Parsing of texts\<close>

definition is_digit :: "char \<Rightarrow> bool" where
  "is_digit c \<longleftrightarrow> c \<in> set ''0123456789''"

definition digit_value :: "char \<Rightarrow> nat" where
  "digit_value c = of_char c - 48"

text \<open>\<open>strconv.ParseUint(s, 10, bits)\<close>.\<close>

definition ParseUint :: "nat \<Rightarrow> string \<Rightarrow> nat option" where
  "ParseUint bits s =
     (if s = [] \<or> \<not> list_all is_digit s then None
      else let n = foldl (\<lambda>n c. 10 * n + digit_value c) 0 s in if n < 2 ^ bits then Some n else None)"

text \<open>\<open>strconv.ParseInt(s, 10, 64)\<close>, which \<open>strconv.Atoi\<close> is on a 64-bit machine.\<close>

definition ParseInt :: "string \<Rightarrow> int option" where
  "ParseInt s =
     (let neg = (case s of c # _ \<Rightarrow> c = CHR ''-'' | [] \<Rightarrow> False);
          body = (case s of c # cs \<Rightarrow> if c = CHR ''-'' \<or> c = CHR ''+'' then cs else s | [] \<Rightarrow> s)
      in case ParseUint 64 body of
           None \<Rightarrow> None
         | Some n \<Rightarrow> if neg then (if n \<le> 2 ^ 63 then Some (- int n) else None)
                     else (if n < 2 ^ 63 then Some (int n) else None))"

definition ParseBool :: "string \<Rightarrow> bool option" where
  "ParseBool s =
     (if s \<in> {''1'', ''t'', ''T'', ''true'', ''TRUE'', ''True''} then Some True
      else if s \<in> {''0'', ''f'', ''F'', ''false'', ''FALSE'', ''False''} then Some False else None)"

text \<open>\<open>strings.Split\<close> at one byte.\<close>

fun split_at :: "char \<Rightarrow> string \<Rightarrow> string list" where
  "split_at d [] = [[]]"
| "split_at d (c # cs) =
     (if c = d then [] # split_at d cs
      else (case split_at d cs of [] \<Rightarrow> [[c]] | w # ws \<Rightarrow> (c # w) # ws))"

definition splitList :: "string \<Rightarrow> string list" where
  "splitList raw = filter (\<lambda>p. p \<noteq> []) (map TrimSpace (split_at (CHR '','') raw))"

fun firstNonEmpty :: "string list \<Rightarrow> string" where
  "firstNonEmpty [] = []"
| "firstNonEmpty (v # vs) = (if TrimSpace v \<noteq> [] then v else firstNonEmpty vs)"

text \<open>\<open>filepath.Clean\<close>, \<open>filepath.Join\<close> and \<open>filepath.Dir\<close> with the separator \<open>/\<close>.\<close>

fun clean_step :: "bool \<Rightarrow> string list \<Rightarrow> string \<Rightarrow> string list" where
  "clean_step rooted acc w =
     (if w = [] \<or> w = ''.'' then acc
      else if w = ''..'' then
        (case acc of
           [] \<Rightarrow> if rooted then [] else [''..'']
         | v # vs \<Rightarrow> if v = ''..'' then w # acc else vs)
      else w # acc)"

definition join_with :: "string \<Rightarrow> string list \<Rightarrow> string" where
  "join_with sep ws = (case ws of [] \<Rightarrow> [] | v # vs \<Rightarrow> v @ concat (map (\<lambda>w. sep @ w) vs))"

definition filepath_Clean :: "string \<Rightarrow> string" where
  "filepath_Clean p =
     (let rooted = (case p of c # _ \<Rightarrow> c = CHR ''/'' | [] \<Rightarrow> False);
          parts = rev (foldl (clean_step rooted) [] (split_at (CHR ''/'') p));
          out = (if rooted then ''/'' else []) @ join_with ''/'' parts
      in if out = [] then ''.'' else out)"

definition filepath_Join :: "string list \<Rightarrow> string" where
  "filepath_Join ws =
     (let nonempty = dropWhile (\<lambda>w. w = []) ws in
      if nonempty = [] then [] else filepath_Clean (join_with ''/'' nonempty))"

definition filepath_Dir :: "string \<Rightarrow> string" where
  "filepath_Dir p = filepath_Clean (rev (dropWhile (\<lambda>c. c \<noteq> CHR ''/'') (rev p)))"

section \<open>Sources of a setting\<close>

definition applyString :: "string \<Rightarrow> string option \<Rightarrow> string" where
  "applyString dst src = (case src of Some v \<Rightarrow> if v \<noteq> [] then v else dst | None \<Rightarrow> dst)"

definition applyDuration :: "(string \<Rightarrow> int option) \<Rightarrow> int \<Rightarrow> string option \<Rightarrow> int" where
  "applyDuration ParseDuration dst src =
     (case src of
        None \<Rightarrow> dst
      | Some v \<Rightarrow> if v = [] then dst else (case ParseDuration v of Some d \<Rightarrow> d | None \<Rightarrow> dst))"

text \<open>\<open>applyInt\<close>, \<open>applyInt64\<close>, \<open>applyUint32\<close> and \<open>applyBool\<close>.\<close>

definition applyPtr :: "'a \<Rightarrow> 'a option \<Rightarrow> 'a" where
  "applyPtr dst src = (case src of None \<Rightarrow> dst | Some v \<Rightarrow> v)"

text \<open>The shape of the six \<open>applyEnv\<close> helpers: a blank or unparsable value changes nothing.\<close>

definition apply_env :: "(string \<Rightarrow> 'a option) \<Rightarrow> (string \<Rightarrow> string) \<Rightarrow> string \<Rightarrow> 'a \<Rightarrow> 'a" where
  "apply_env parse getenv key dst =
     (let value = TrimSpace (getenv key) in
      if value \<noteq> [] then (case parse value of Some v \<Rightarrow> v | None \<Rightarrow> dst) else dst)"

definition applyEnvString :: "(string \<Rightarrow> string) \<Rightarrow> string \<Rightarrow> string \<Rightarrow> string" where
  "applyEnvString = apply_env Some"

definition applyEnvDuration :: "(string \<Rightarrow> int option) \<Rightarrow> (string \<Rightarrow> string) \<Rightarrow> string \<Rightarrow> int \<Rightarrow> int" where
  "applyEnvDuration ParseDuration = apply_env ParseDuration"

definition applyEnvInt :: "(string \<Rightarrow> string) \<Rightarrow> string \<Rightarrow> int \<Rightarrow> int" where
  "applyEnvInt = apply_env ParseInt"

definition applyEnvUint32 :: "(string \<Rightarrow> string) \<Rightarrow> string \<Rightarrow> uint32 \<Rightarrow> uint32" where
  "applyEnvUint32 = apply_env (\<lambda>s. map_option of_nat (ParseUint 32 s))"

definition applyEnvBool :: "(string \<Rightarrow> string) \<Rightarrow> string \<Rightarrow> bool \<Rightarrow> bool" where
  "applyEnvBool = apply_env ParseBool"

section \<open>Defaults, file and environment\<close>

definition zero_ipfs :: ipfs_config where
  "zero_ipfs = \<lparr>ic_Enabled = False, ic_Root = [], ic_GatewayEnabled = False, ic_GatewayWritable = False, ic_APIEnabled = False, ic_DatastoreType = [], ic_BlockstoreNoSync = False, ic_Chunker = [], ic_RawLeaves = False, ic_CIDVersion = 0, ic_HashFunction = [], ic_AutoProvide = False, ic_ReprovideIntervalSeconds = 0, ic_RoutingMode = [], ic_FetchTimeoutSeconds = 0, ic_AutoPinOnAdd = False, ic_MaxUploadBytes = 0\<rparr>"

definition defaults :: config where
  "defaults = \<lparr>cf_ConfigFile = [],
     cf_Version = ''dev'',
     cf_NodeName = ''meshserver-node'',
     cf_MySQLDSN = ''meshserver:meshserver@tcp(127.0.0.1:3306)/meshserver?parseTime=true&multiStatements=true&charset=utf8mb4&collation=utf8mb4_unicode_ci'',
     cf_MySQLAdminDSN = [],
     cf_MySQLServerPubKeyPath = [],
     cf_MySQLConnMaxLifetime = 300000000000,
     cf_MySQLMaxIdleConns = 5,
     cf_MySQLMaxOpenConns = 20,
     cf_MySQLConnectTimeout = 60000000000,
     cf_MySQLRetryInterval = 3000000000,
     cf_MySQLMaxRetryDuration = 120000000000,
     cf_Libp2pListenAddrs = [''/ip4/0.0.0.0/tcp/4001''],
     cf_Libp2pProtocolID = ''/meshserver/session/1.0.0'',
     cf_NodeKeyPath = filepath_Join [''docker-compose'', ''data'', ''config'', ''node.key''],
     cf_BlobRoot = filepath_Join [''docker-compose'', ''data'', ''blobs''],
     cf_LogDir = filepath_Join [''docker-compose'', ''data'', ''logs''],
     cf_MigrationsDir = ''migrations'',
     cf_HTTPListenAddr = '':8080'',
     cf_HTTPJWTSecret = [],
     cf_HTTPAccessTokenTTL = 86400000000000,
     cf_ReadTimeout = 10000000000,
     cf_WriteTimeout = 15000000000,
     cf_HeartbeatInterval = 30000000000,
     cf_ChallengeTTL = 300000000000,
     cf_MaxTextLen = 4000,
     cf_MaxImagesPerMessage = 9,
     cf_MaxFilesPerMessage = 5,
     cf_MaxUploadBytes = 10 * 2 ^ 20,
     cf_DefaultSyncLimit = 50,
     cf_MaxSyncLimit = 200,
     cf_EnableDebugConfig = False,
     cf_ServeBlobsOverHTTP = True,
     cf_BlobURLBase = ''/blobs/'',
     cf_DHTDiscoveryNamespace = ''meshserver'',
     cf_DHTBootstrapPeers = [],
     cf_DefaultAdminPeerID = [],
     cf_DefaultSpaceID = 0,
     cf_IPFS = zero_ipfs\<rparr>"

definition mergeIPFS :: "ipfs_config \<Rightarrow> ipfs_file_config option \<Rightarrow> ipfs_config" where
  "mergeIPFS dst src = (case src of None \<Rightarrow> dst | Some f \<Rightarrow> dst\<lparr>
       ic_Enabled := applyPtr (ic_Enabled dst) (ifc_Enabled f),
       ic_Root := applyPtr (ic_Root dst) (ifc_Root f),
       ic_GatewayEnabled := applyPtr (ic_GatewayEnabled dst) (ifc_GatewayEnabled f),
       ic_GatewayWritable := applyPtr (ic_GatewayWritable dst) (ifc_GatewayWritable f),
       ic_APIEnabled := applyPtr (ic_APIEnabled dst) (ifc_APIEnabled f),
       ic_DatastoreType := applyPtr (ic_DatastoreType dst) (ifc_DatastoreType f),
       ic_BlockstoreNoSync := applyPtr (ic_BlockstoreNoSync dst) (ifc_BlockstoreNoSync f),
       ic_Chunker := applyPtr (ic_Chunker dst) (ifc_Chunker f),
       ic_RawLeaves := applyPtr (ic_RawLeaves dst) (ifc_RawLeaves f),
       ic_CIDVersion := applyPtr (ic_CIDVersion dst) (ifc_CIDVersion f),
       ic_HashFunction := applyPtr (ic_HashFunction dst) (ifc_HashFunction f),
       ic_AutoProvide := applyPtr (ic_AutoProvide dst) (ifc_AutoProvide f),
       ic_ReprovideIntervalSeconds := applyPtr (ic_ReprovideIntervalSeconds dst) (ifc_ReprovideIntervalSeconds f),
       ic_RoutingMode := applyPtr (ic_RoutingMode dst) (ifc_RoutingMode f),
       ic_FetchTimeoutSeconds := applyPtr (ic_FetchTimeoutSeconds dst) (ifc_FetchTimeoutSeconds f),
       ic_AutoPinOnAdd := applyPtr (ic_AutoPinOnAdd dst) (ifc_AutoPinOnAdd f),
       ic_MaxUploadBytes := applyPtr (ic_MaxUploadBytes dst) (ifc_MaxUploadBytes f)\<rparr>)"

text \<open>\<open>applyFile\<close> on the decoded file.\<close>

definition apply_file_config :: "(string \<Rightarrow> int option) \<Rightarrow> config \<Rightarrow> file_config \<Rightarrow> config" where
  "apply_file_config ParseDuration cfg fc = cfg\<lparr>
     cf_Version := applyString (cf_Version cfg) (fc_Version fc),
     cf_NodeName := applyString (cf_NodeName cfg) (fc_NodeName fc),
     cf_MySQLDSN := applyString (cf_MySQLDSN cfg) (fc_MySQLDSN fc),
     cf_MySQLAdminDSN := applyString (cf_MySQLAdminDSN cfg) (fc_MySQLAdminDSN fc),
     cf_MySQLServerPubKeyPath := applyString (cf_MySQLServerPubKeyPath cfg) (fc_MySQLServerPubKeyPath fc),
     cf_MySQLConnMaxLifetime := applyDuration ParseDuration (cf_MySQLConnMaxLifetime cfg) (fc_MySQLConnMaxLifetime fc),
     cf_MySQLMaxIdleConns := applyPtr (cf_MySQLMaxIdleConns cfg) (fc_MySQLMaxIdleConns fc),
     cf_MySQLMaxOpenConns := applyPtr (cf_MySQLMaxOpenConns cfg) (fc_MySQLMaxOpenConns fc),
     cf_MySQLConnectTimeout := applyDuration ParseDuration (cf_MySQLConnectTimeout cfg) (fc_MySQLConnectTimeout fc),
     cf_MySQLRetryInterval := applyDuration ParseDuration (cf_MySQLRetryInterval cfg) (fc_MySQLRetryInterval fc),
     cf_MySQLMaxRetryDuration := applyDuration ParseDuration (cf_MySQLMaxRetryDuration cfg) (fc_MySQLMaxRetryDuration fc),
     cf_Libp2pListenAddrs := (if fc_Libp2pListenAddrs fc \<noteq> [] then fc_Libp2pListenAddrs fc else cf_Libp2pListenAddrs cfg),
     cf_Libp2pProtocolID := applyString (cf_Libp2pProtocolID cfg) (fc_Libp2pProtocolID fc),
     cf_NodeKeyPath := applyString (cf_NodeKeyPath cfg) (fc_NodeKeyPath fc),
     cf_BlobRoot := applyString (cf_BlobRoot cfg) (fc_BlobRoot fc),
     cf_LogDir := applyString (cf_LogDir cfg) (fc_LogDir fc),
     cf_MigrationsDir := applyString (cf_MigrationsDir cfg) (fc_MigrationsDir fc),
     cf_HTTPListenAddr := applyString (cf_HTTPListenAddr cfg) (fc_HTTPListenAddr fc),
     cf_HTTPJWTSecret := applyString (cf_HTTPJWTSecret cfg) (fc_HTTPJWTSecret fc),
     cf_HTTPAccessTokenTTL := applyDuration ParseDuration (cf_HTTPAccessTokenTTL cfg) (fc_HTTPAccessTokenTTL fc),
     cf_ReadTimeout := applyDuration ParseDuration (cf_ReadTimeout cfg) (fc_ReadTimeout fc),
     cf_WriteTimeout := applyDuration ParseDuration (cf_WriteTimeout cfg) (fc_WriteTimeout fc),
     cf_HeartbeatInterval := applyDuration ParseDuration (cf_HeartbeatInterval cfg) (fc_HeartbeatInterval fc),
     cf_ChallengeTTL := applyDuration ParseDuration (cf_ChallengeTTL cfg) (fc_ChallengeTTL fc),
     cf_MaxTextLen := applyPtr (cf_MaxTextLen cfg) (fc_MaxTextLen fc),
     cf_MaxImagesPerMessage := applyPtr (cf_MaxImagesPerMessage cfg) (fc_MaxImagesPerMessage fc),
     cf_MaxFilesPerMessage := applyPtr (cf_MaxFilesPerMessage cfg) (fc_MaxFilesPerMessage fc),
     cf_MaxUploadBytes := applyPtr (cf_MaxUploadBytes cfg) (fc_MaxUploadBytes fc),
     cf_DefaultSyncLimit := applyPtr (cf_DefaultSyncLimit cfg) (fc_DefaultSyncLimit fc),
     cf_MaxSyncLimit := applyPtr (cf_MaxSyncLimit cfg) (fc_MaxSyncLimit fc),
     cf_EnableDebugConfig := applyPtr (cf_EnableDebugConfig cfg) (fc_EnableDebugConfig fc),
     cf_ServeBlobsOverHTTP := applyPtr (cf_ServeBlobsOverHTTP cfg) (fc_ServeBlobsOverHTTP fc),
     cf_BlobURLBase := applyString (cf_BlobURLBase cfg) (fc_BlobURLBase fc),
     cf_DHTDiscoveryNamespace := applyString (cf_DHTDiscoveryNamespace cfg) (fc_DHTDiscoveryNamespace fc),
     cf_DHTBootstrapPeers := (if fc_DHTBootstrapPeers fc \<noteq> [] then fc_DHTBootstrapPeers fc else cf_DHTBootstrapPeers cfg),
     cf_DefaultAdminPeerID := applyString (cf_DefaultAdminPeerID cfg) (fc_DefaultAdminPeerID fc),
     cf_DefaultSpaceID := applyPtr (cf_DefaultSpaceID cfg) (fc_DefaultSpaceID fc),
     cf_IPFS := mergeIPFS (cf_IPFS cfg) (fc_IPFS fc)\<rparr>"

definition applyEnv :: "(string \<Rightarrow> int option) \<Rightarrow> (string \<Rightarrow> string) \<Rightarrow> config \<Rightarrow> config" where
  "applyEnv ParseDuration getenv cfg = cfg\<lparr>
     cf_Version := applyEnvString getenv ''MESHSERVER_VERSION'' (cf_Version cfg),
     cf_NodeName := applyEnvString getenv ''MESHSERVER_NODE_NAME'' (cf_NodeName cfg),
     cf_MySQLDSN := applyEnvString getenv ''MESHSERVER_MYSQL_DSN'' (cf_MySQLDSN cfg),
     cf_MySQLAdminDSN := applyEnvString getenv ''MESHSERVER_MYSQL_ADMIN_DSN'' (cf_MySQLAdminDSN cfg),
     cf_MySQLServerPubKeyPath := applyEnvString getenv ''MESHSERVER_MYSQL_SERVER_PUB_KEY_PATH'' (cf_MySQLServerPubKeyPath cfg),
     cf_MySQLConnMaxLifetime := applyEnvDuration ParseDuration getenv ''MESHSERVER_MYSQL_CONN_MAX_LIFETIME'' (cf_MySQLConnMaxLifetime cfg),
     cf_MySQLMaxIdleConns := applyEnvInt getenv ''MESHSERVER_MYSQL_MAX_IDLE_CONNS'' (cf_MySQLMaxIdleConns cfg),
     cf_MySQLMaxOpenConns := applyEnvInt getenv ''MESHSERVER_MYSQL_MAX_OPEN_CONNS'' (cf_MySQLMaxOpenConns cfg),
     cf_MySQLConnectTimeout := applyEnvDuration ParseDuration getenv ''MESHSERVER_MYSQL_CONNECT_TIMEOUT'' (cf_MySQLConnectTimeout cfg),
     cf_MySQLRetryInterval := applyEnvDuration ParseDuration getenv ''MESHSERVER_MYSQL_RETRY_INTERVAL'' (cf_MySQLRetryInterval cfg),
     cf_MySQLMaxRetryDuration := applyEnvDuration ParseDuration getenv ''MESHSERVER_MYSQL_MAX_RETRY_DURATION'' (cf_MySQLMaxRetryDuration cfg),
     cf_Libp2pListenAddrs := (if getenv ''MESHSERVER_LIBP2P_LISTEN_ADDRS'' \<noteq> [] then splitList (getenv ''MESHSERVER_LIBP2P_LISTEN_ADDRS'') else cf_Libp2pListenAddrs cfg),
     cf_Libp2pProtocolID := applyEnvString getenv ''MESHSERVER_LIBP2P_PROTOCOL_ID'' (cf_Libp2pProtocolID cfg),
     cf_NodeKeyPath := applyEnvString getenv ''MESHSERVER_NODE_KEY_PATH'' (cf_NodeKeyPath cfg),
     cf_BlobRoot := applyEnvString getenv ''MESHSERVER_BLOB_ROOT'' (cf_BlobRoot cfg),
     cf_LogDir := applyEnvString getenv ''MESHSERVER_LOG_DIR'' (cf_LogDir cfg),
     cf_MigrationsDir := applyEnvString getenv ''MESHSERVER_MIGRATIONS_DIR'' (cf_MigrationsDir cfg),
     cf_HTTPListenAddr := applyEnvString getenv ''MESHSERVER_HTTP_LISTEN_ADDR'' (cf_HTTPListenAddr cfg),
     cf_HTTPJWTSecret := applyEnvString getenv ''MESHSERVER_HTTP_JWT_SECRET'' (cf_HTTPJWTSecret cfg),
     cf_HTTPAccessTokenTTL := applyEnvDuration ParseDuration getenv ''MESHSERVER_HTTP_ACCESS_TOKEN_TTL'' (cf_HTTPAccessTokenTTL cfg),
     cf_ReadTimeout := applyEnvDuration ParseDuration getenv ''MESHSERVER_READ_TIMEOUT'' (cf_ReadTimeout cfg),
     cf_WriteTimeout := applyEnvDuration ParseDuration getenv ''MESHSERVER_WRITE_TIMEOUT'' (cf_WriteTimeout cfg),
     cf_HeartbeatInterval := applyEnvDuration ParseDuration getenv ''MESHSERVER_HEARTBEAT_INTERVAL'' (cf_HeartbeatInterval cfg),
     cf_ChallengeTTL := applyEnvDuration ParseDuration getenv ''MESHSERVER_CHALLENGE_TTL'' (cf_ChallengeTTL cfg),
     cf_MaxTextLen := applyEnvInt getenv ''MESHSERVER_MAX_TEXT_LEN'' (cf_MaxTextLen cfg),
     cf_MaxImagesPerMessage := applyEnvInt getenv ''MESHSERVER_MAX_IMAGES_PER_MESSAGE'' (cf_MaxImagesPerMessage cfg),
     cf_MaxFilesPerMessage := applyEnvInt getenv ''MESHSERVER_MAX_FILES_PER_MESSAGE'' (cf_MaxFilesPerMessage cfg),
     cf_MaxUploadBytes := applyEnvInt getenv ''MESHSERVER_MAX_UPLOAD_BYTES'' (cf_MaxUploadBytes cfg),
     cf_DefaultSyncLimit := applyEnvUint32 getenv ''MESHSERVER_DEFAULT_SYNC_LIMIT'' (cf_DefaultSyncLimit cfg),
     cf_MaxSyncLimit := applyEnvUint32 getenv ''MESHSERVER_MAX_SYNC_LIMIT'' (cf_MaxSyncLimit cfg),
     cf_EnableDebugConfig := applyEnvBool getenv ''MESHSERVER_ENABLE_DEBUG_CONFIG'' (cf_EnableDebugConfig cfg),
     cf_ServeBlobsOverHTTP := applyEnvBool getenv ''MESHSERVER_SERVE_BLOBS_OVER_HTTP'' (cf_ServeBlobsOverHTTP cfg),
     cf_BlobURLBase := applyEnvString getenv ''MESHSERVER_BLOB_URL_BASE'' (cf_BlobURLBase cfg),
     cf_DHTDiscoveryNamespace := applyEnvString getenv ''MESHSERVER_DHT_DISCOVERY_NAMESPACE'' (cf_DHTDiscoveryNamespace cfg),
     cf_DHTBootstrapPeers := (if getenv ''MESHSERVER_DHT_BOOTSTRAP_PEERS'' \<noteq> [] then splitList (getenv ''MESHSERVER_DHT_BOOTSTRAP_PEERS'') else cf_DHTBootstrapPeers cfg),
     cf_DefaultAdminPeerID := applyEnvString getenv ''MESHSERVER_DEFAULT_ADMIN_PEER_ID'' (cf_DefaultAdminPeerID cfg),
     cf_DefaultSpaceID := applyEnvUint32 getenv ''MESHSERVER_DEFAULT_SPACE_ID'' (cf_DefaultSpaceID cfg),
     cf_IPFS := (cf_IPFS cfg)\<lparr>
       ic_Enabled := applyEnvBool getenv ''MESHSERVER_IPFS_ENABLED'' (ic_Enabled (cf_IPFS cfg)),
       ic_Root := applyEnvString getenv ''MESHSERVER_IPFS_ROOT'' (ic_Root (cf_IPFS cfg)),
       ic_GatewayEnabled := applyEnvBool getenv ''MESHSERVER_IPFS_GATEWAY_ENABLED'' (ic_GatewayEnabled (cf_IPFS cfg)),
       ic_GatewayWritable := applyEnvBool getenv ''MESHSERVER_IPFS_GATEWAY_WRITABLE'' (ic_GatewayWritable (cf_IPFS cfg)),
       ic_APIEnabled := applyEnvBool getenv ''MESHSERVER_IPFS_API_ENABLED'' (ic_APIEnabled (cf_IPFS cfg)),
       ic_FetchTimeoutSeconds := applyEnvInt getenv ''MESHSERVER_IPFS_FETCH_TIMEOUT_SECONDS'' (ic_FetchTimeoutSeconds (cf_IPFS cfg)),
       ic_AutoPinOnAdd := applyEnvBool getenv ''MESHSERVER_IPFS_AUTO_PIN_ON_ADD'' (ic_AutoPinOnAdd (cf_IPFS cfg)),
       ic_MaxUploadBytes := applyEnvInt getenv ''MESHSERVER_IPFS_MAX_UPLOAD_BYTES'' (ic_MaxUploadBytes (cf_IPFS cfg))\<rparr>\<rparr>"

section \<open>Validation and loading\<close>

definition IPFSBaseDir :: "config \<Rightarrow> string" where
  "IPFSBaseDir c =
     (if ic_Root (cf_IPFS c) \<noteq> [] then filepath_Clean (ic_Root (cf_IPFS c))
      else filepath_Join [filepath_Dir (cf_BlobRoot c), ''ipfs''])"

definition Normalize :: "ipfs_config \<Rightarrow> ipfs_config" where
  "Normalize c = c\<lparr>
     ic_DatastoreType := (if ic_DatastoreType c = [] then ''leveldb'' else ic_DatastoreType c),
     ic_Chunker := (if ic_Chunker c = [] then ''size-1048576'' else ic_Chunker c),
     ic_CIDVersion := (if ic_CIDVersion c = 0 then 1 else ic_CIDVersion c),
     ic_HashFunction := (if ic_HashFunction c = [] then ''sha2-256'' else ic_HashFunction c),
     ic_RoutingMode := (if ic_RoutingMode c = [] then ''dht-client'' else ic_RoutingMode c),
     ic_FetchTimeoutSeconds := (if ic_FetchTimeoutSeconds c \<le> 0 then 60 else ic_FetchTimeoutSeconds c),
     ic_MaxUploadBytes := (if ic_MaxUploadBytes c \<le> 0 then 64 * 2 ^ 20 else ic_MaxUploadBytes c)\<rparr>"

definition Validate :: "config \<Rightarrow> err option" where
  "Validate c =
     (if cf_MySQLDSN c = [] then Some (Errorf ''mysql dsn is required'')
      else if cf_Libp2pListenAddrs c = [] then Some (Errorf ''at least one libp2p listen addr is required'')
      else if cf_Libp2pProtocolID c = [] then Some (Errorf ''libp2p protocol id is required'')
      else if cf_NodeKeyPath c = [] then Some (Errorf ''node key path is required'')
      else if cf_BlobRoot c = [] then Some (Errorf ''blob root is required'')
      else if cf_LogDir c = [] then Some (Errorf ''log dir is required'')
      else if cf_MigrationsDir c = [] then Some (Errorf ''migrations dir is required'')
      else if cf_HTTPListenAddr c = [] then Some (Errorf ''http listen addr is required'')
      else if cf_MaxTextLen c \<le> 0 \<or> cf_MaxImagesPerMessage c \<le> 0 \<or> cf_MaxFilesPerMessage c \<le> 0 \<or>
              cf_MaxUploadBytes c \<le> 0
        then Some (Errorf ''message and upload limits must be positive'')
      else if cf_DefaultSyncLimit c = 0 \<or> cf_MaxSyncLimit c = 0 \<or> cf_MaxSyncLimit c < cf_DefaultSyncLimit c
        then Some (Errorf ''sync limits are invalid'')
      else if ic_Enabled (cf_IPFS c) \<and> filepath_Clean (IPFSBaseDir c) = []
        then Some (Errorf ''ipfs base dir is invalid'')
      else None)"

text \<open>What the process finds outside of itself when it loads its configuration.\<close>

record config_env =
  ce_Getenv :: "string \<Rightarrow> string"
  ce_Stat :: "string \<Rightarrow> bool"
  ce_ReadFile :: "string \<Rightarrow> err + byte list"
  ce_Unmarshal :: "byte list \<Rightarrow> err + file_config"
  ce_ParseDuration :: "string \<Rightarrow> int option"

definition applyFile :: "config_env \<Rightarrow> config \<Rightarrow> string \<Rightarrow> err + config" where
  "applyFile E cfg path =
     (case ce_ReadFile E path of
        Inl e \<Rightarrow> Inl (wrap ''read config file'' e)
      | Inr raw \<Rightarrow>
          (case ce_Unmarshal E raw of
             Inl e \<Rightarrow> Inl (wrap ''parse config file'' e)
           | Inr fc \<Rightarrow> Inr (apply_file_config (ce_ParseDuration E) cfg fc)))"

definition Load :: "config_env \<Rightarrow> err + config" where
  "Load E =
     (let cfg0 = defaults\<lparr>cf_ConfigFile := firstNonEmpty [ce_Getenv E ''MESHSERVER_CONFIG_FILE'',
            filepath_Join [''docker-compose'', ''data'', ''config'', ''meshserver.json'']]\<rparr>
      in case (if ce_Stat E (cf_ConfigFile cfg0) then applyFile E cfg0 (cf_ConfigFile cfg0) else Inr cfg0) of
           Inl e \<Rightarrow> Inl e
         | Inr cfg1 \<Rightarrow>
             let cfg2 = applyEnv (ce_ParseDuration E) (ce_Getenv E) cfg1;
                 cfg3 = cfg2\<lparr>cf_IPFS := Normalize (cf_IPFS cfg2)\<rparr>
             in (case Validate cfg3 of Some e \<Rightarrow> Inl e | None \<Rightarrow> Inr cfg3))"

section \<open>Lemmas\<close>

text \<open>The limits on which the services rely.\<close>

definition config_ok :: "config \<Rightarrow> bool" where
  "config_ok c \<longleftrightarrow> 0 < cf_MaxTextLen c \<and> 0 < cf_MaxImagesPerMessage c \<and> 0 < cf_MaxFilesPerMessage c \<and>
     0 < cf_MaxUploadBytes c \<and> 0 < cf_DefaultSyncLimit c \<and> cf_DefaultSyncLimit c \<le> cf_MaxSyncLimit c \<and>
     cf_Libp2pProtocolID c \<noteq> [] \<and> cf_Libp2pListenAddrs c \<noteq> [] \<and> cf_BlobRoot c \<noteq> []"

lemma Validate_None: "Validate c = None \<Longrightarrow> config_ok c"
  by (auto simp: Validate_def config_ok_def word_gt_0 not_less split: if_splits)

lemma filepath_Clean_nonempty [simp]: "filepath_Clean p \<noteq> []"
  by (simp add: filepath_Clean_def Let_def)

lemma Load_Inr:
  assumes "Load E = Inr c"
  obtains cfg1 where "Validate c = None"
    "c = (let cfg2 = applyEnv (ce_ParseDuration E) (ce_Getenv E) cfg1
          in cfg2\<lparr>cf_IPFS := Normalize (cf_IPFS cfg2)\<rparr>)"
  using assms by (auto simp: Load_def Let_def split: sum.splits option.splits if_splits)

lemma apply_env_blank: "TrimSpace (getenv key) = [] \<Longrightarrow> apply_env parse getenv key dst = dst"
  by (simp add: apply_env_def)

lemma TrimSpace_Nil [simp]: "TrimSpace [] = []"
  by (simp add: TrimSpace_def TrimLeftSpace_def TrimRightSpace_def trim_prefixes.simps go_space_seqs_def)

text \<open>An environment without \<open>MESHSERVER_\<close> settings changes nothing.\<close>

lemma applyEnv_empty: "applyEnv PD (\<lambda>k. []) cfg = cfg"
  by (simp add: applyEnv_def applyEnvString_def applyEnvDuration_def applyEnvInt_def applyEnvUint32_def
      applyEnvBool_def apply_env_blank)

lemma Normalize_idem [simp]: "Normalize (Normalize c) = Normalize c"
  by (simp add: Normalize_def)

lemma Normalize_positive: "0 < ic_FetchTimeoutSeconds (Normalize c)" "0 < ic_MaxUploadBytes (Normalize c)"
  by (simp_all add: Normalize_def)

section \<open>Lemmas: decimal texts\<close>

lemma hex_digit_decimal:
  assumes "n < 10"
  shows "is_digit (hex_digit n) \<and> digit_value (hex_digit n) = n"
proof -
  from assms have "n \<in> {0, 1, 2, 3, 4, 5, 6, 7, 8, 9}" by auto
  then show ?thesis by (auto simp: hex_digit_def is_digit_def digit_value_def)
qed

lemma show_nat_digits: "list_all is_digit (show_nat n) \<and> show_nat n \<noteq> []"
proof (induction n rule: show_nat.induct)
  case (1 n)
  then show ?case
    by (cases "n < 10") (simp_all add: show_nat.simps [of n] hex_digit_decimal)
qed

lemma show_nat_value: "foldl (\<lambda>n c. 10 * n + digit_value c) 0 (show_nat n) = n"
proof (induction n rule: show_nat.induct)
  case (1 n)
  then show ?case
    by (cases "n < 10") (simp_all add: show_nat.simps [of n] hex_digit_decimal)
qed

text \<open>\<open>%d\<close> and the parsers of \<open>strconv\<close> are inverse to each other on the range of the type.\<close>

lemma ParseUint_show_nat: "ParseUint bits (show_nat n) = (if n < 2 ^ bits then Some n else None)"
  using show_nat_digits [of n] by (simp add: ParseUint_def show_nat_value Let_def)

lemma show_nat_inj: "show_nat m = show_nat n \<Longrightarrow> m = n"
  by (metis show_nat_value)

lemma digit_not_sign: "is_digit c \<Longrightarrow> c \<noteq> CHR ''-'' \<and> c \<noteq> CHR ''+''"
  by (auto simp: is_digit_def)

lemma show_int_inj: "show_int i = show_int j \<Longrightarrow> i = j"
proof -
  assume eq: "show_int i = show_int j"
  have sign: "show_nat n \<noteq> CHR ''-'' # xs" for n xs
    using show_nat_digits [of n] digit_not_sign by (cases "show_nat n") auto
  show ?thesis
  proof (cases "i < 0"; cases "j < 0")
    assume "i < 0" "\<not> j < 0"
    with eq sign [of "nat j" "show_nat (nat (- i))"] show ?thesis by (simp add: show_int_def)
  next
    assume "\<not> i < 0" "j < 0"
    with eq sign [of "nat i" "show_nat (nat (- j))"] show ?thesis by (simp add: show_int_def)
  qed (use eq in \<open>auto simp: show_int_def dest: show_nat_inj\<close>)
qed

lemma ParseInt_show_int:
  assumes "- (2 ^ 63) \<le> i" "i < 2 ^ 63"
  shows "ParseInt (show_int i) = Some i"
proof (cases "i < 0")
  case True
  then show ?thesis
    using assms by (simp add: ParseInt_def show_int_def ParseUint_show_nat nat_less_iff nat_le_iff)
next
  case False
  obtain c cs where c: "show_nat (nat i) = c # cs" "is_digit c"
    using show_nat_digits [of "nat i"] by (cases "show_nat (nat i)") auto
  from False assms(2) have "nat i < 2 ^ 63" "nat i < 2 ^ 64" by (simp_all add: nat_less_iff)
  then show ?thesis
    using False c digit_not_sign [OF c(2)] ParseUint_show_nat [of 64 "nat i"]
    by (simp add: ParseInt_def show_int_def)
qed

section \<open>Properties\<close>

text \<open>The settings of the configuration file, when there is one.\<close>

definition config_path :: "config_env \<Rightarrow> string" where
  "config_path E = firstNonEmpty [ce_Getenv E ''MESHSERVER_CONFIG_FILE'',
     filepath_Join [''docker-compose'', ''data'', ''config'', ''meshserver.json'']]"

definition config_file :: "config_env \<Rightarrow> file_config option" where
  "config_file E =
     (if ce_Stat E (config_path E)
      then (case ce_ReadFile E (config_path E) of
              Inl e \<Rightarrow> None | Inr raw \<Rightarrow> (case ce_Unmarshal E raw of Inl e \<Rightarrow> None | Inr fc \<Rightarrow> Some fc))
      else None)"

lemma Load_sources:
  assumes "Load E = Inr c"
  obtains cfg1 where
    "cfg1 = (case config_file E of None \<Rightarrow> defaults\<lparr>cf_ConfigFile := config_path E\<rparr>
       | Some fc \<Rightarrow> apply_file_config (ce_ParseDuration E) (defaults\<lparr>cf_ConfigFile := config_path E\<rparr>) fc)"
    "c = (applyEnv (ce_ParseDuration E) (ce_Getenv E) cfg1)\<lparr>cf_IPFS :=
        Normalize (cf_IPFS (applyEnv (ce_ParseDuration E) (ce_Getenv E) cfg1))\<rparr>" "Validate c = None"
  using assms unfolding Load_def Let_def config_path_def [symmetric]
  by (auto simp: applyFile_def config_file_def split: sum.splits option.splits if_splits)

lemma apply_env_parse:
  "parse [] = None \<Longrightarrow> apply_env parse getenv key dst =
     (case parse (TrimSpace (getenv key)) of Some v \<Rightarrow> v | None \<Rightarrow> dst)"
  by (auto simp: apply_env_def Let_def)

text \<open>
  A configuration that was loaded has passed the checks of \<open>Validate\<close>: the
  limits on texts, attachments and uploads are positive, the default page is not empty and
  not larger than the largest page, and the IPFS block has its defaults filled in.
\<close>

theorem loaded_config_ok:
  assumes "Load E = Inr c"
  shows "config_ok c \<and> cf_MySQLDSN c \<noteq> [] \<and> cf_HTTPListenAddr c \<noteq> [] \<and>
    0 < ic_FetchTimeoutSeconds (cf_IPFS c) \<and> 0 < ic_MaxUploadBytes (cf_IPFS c) \<and>
    Normalize (cf_IPFS c) = cf_IPFS c"
proof -
  obtain cfg1 where c: "Validate c = None" "c = (applyEnv (ce_ParseDuration E) (ce_Getenv E) cfg1)\<lparr>cf_IPFS :=
        Normalize (cf_IPFS (applyEnv (ce_ParseDuration E) (ce_Getenv E) cfg1))\<rparr>"
    using assms by (rule Load_sources)
  have "config_ok c" using c(1) by (rule Validate_None)
  moreover have "cf_MySQLDSN c \<noteq> [] \<and> cf_HTTPListenAddr c \<noteq> []"
    using c(1) by (auto simp: Validate_def split: if_splits)
  moreover have "Normalize (cf_IPFS c) = cf_IPFS c" by (simp add: c(2))
  ultimately show ?thesis using Normalize_positive [of "cf_IPFS c"] by simp
qed

definition ex_config_env :: config_env where
  "ex_config_env = \<lparr>ce_Getenv = \<lambda>k. if k = ''MESHSERVER_MAX_TEXT_LEN'' then ''500'' else [], ce_Stat = \<lambda>p. False,
     ce_ReadFile = \<lambda>p. Inl DriverErr, ce_Unmarshal = \<lambda>b. Inl DriverErr, ce_ParseDuration = \<lambda>s. None\<rparr>"

lemma ex_parse: "TrimSpace ''500'' = ''500''" "ParseInt ''500'' = Some 500"
  by (simp_all add: TrimSpace_def TrimLeftSpace_def TrimRightSpace_def go_space_seqs_def trim_prefixes.simps char_of_def
      ParseInt_def ParseUint_def is_digit_def digit_value_def)

lemma ex_load: "\<not> isl (Load ex_config_env)"
proof -
  have "filepath_Join [''docker-compose'', ''data'', ''config'', ''node.key''] \<noteq> []"
    "filepath_Join [''docker-compose'', ''data'', ''blobs''] \<noteq> []" "filepath_Join [''docker-compose'', ''data'', ''logs''] \<noteq> []"
    by (simp_all add: filepath_Join_def)
  then show ?thesis
    by (simp add: Load_def ex_config_env_def applyEnv_def applyEnvString_def applyEnvDuration_def applyEnvInt_def
      applyEnvUint32_def applyEnvBool_def apply_env_def ex_parse Validate_def defaults_def Let_def)
qed

theorem loaded_config_ok_witness: "\<exists>c. Load ex_config_env = Inr c \<and> config_ok c"
  using loaded_config_ok [of ex_config_env] ex_load by (cases "Load ex_config_env") auto

text \<open>
  A setting comes from the environment when the variable holds a value of the right form,
  otherwise from the configuration file, otherwise from the built-in defaults; a blank or
  malformed variable changes nothing.
\<close>

theorem setting_precedence:
  assumes "Load E = Inr c"
  shows "cf_MaxTextLen c = (case ParseInt (TrimSpace (ce_Getenv E ''MESHSERVER_MAX_TEXT_LEN'')) of
       Some v \<Rightarrow> v
     | None \<Rightarrow> (case Option.bind (config_file E) fc_MaxTextLen of Some v \<Rightarrow> v | None \<Rightarrow> 4000)) \<and>
    cf_MaxSyncLimit c = (case ParseUint 32 (TrimSpace (ce_Getenv E ''MESHSERVER_MAX_SYNC_LIMIT'')) of
       Some v \<Rightarrow> of_nat v
     | None \<Rightarrow> (case Option.bind (config_file E) fc_MaxSyncLimit of Some v \<Rightarrow> v | None \<Rightarrow> 200)) \<and>
    cf_DefaultAdminPeerID c = (let v = TrimSpace (ce_Getenv E ''MESHSERVER_DEFAULT_ADMIN_PEER_ID'') in
       if v \<noteq> [] then v else (case Option.bind (config_file E) fc_DefaultAdminPeerID of Some w \<Rightarrow> w | None \<Rightarrow> []))"
proof -
  have nil: "ParseInt [] = None" "map_option of_nat (ParseUint 32 []) = (None :: uint32 option)"
    by (simp_all add: ParseInt_def ParseUint_def)
  obtain cfg1 where cfg1: "cfg1 = (case config_file E of None \<Rightarrow> defaults\<lparr>cf_ConfigFile := config_path E\<rparr>
       | Some fc \<Rightarrow> apply_file_config (ce_ParseDuration E) (defaults\<lparr>cf_ConfigFile := config_path E\<rparr>) fc)"
    and c: "c = (applyEnv (ce_ParseDuration E) (ce_Getenv E) cfg1)\<lparr>cf_IPFS :=
        Normalize (cf_IPFS (applyEnv (ce_ParseDuration E) (ce_Getenv E) cfg1))\<rparr>"
    using assms by (rule Load_sources)
  have "cf_MaxTextLen cfg1 = (case Option.bind (config_file E) fc_MaxTextLen of Some v \<Rightarrow> v | None \<Rightarrow> 4000)"
    "cf_MaxSyncLimit cfg1 = (case Option.bind (config_file E) fc_MaxSyncLimit of Some v \<Rightarrow> v | None \<Rightarrow> 200)"
    "cf_DefaultAdminPeerID cfg1 = (case Option.bind (config_file E) fc_DefaultAdminPeerID of Some w \<Rightarrow> w | None \<Rightarrow> [])"
    unfolding cfg1 by (auto simp: apply_file_config_def applyPtr_def applyString_def defaults_def split: option.splits)
  then show ?thesis
    unfolding c applyEnv_def
    by (simp add: applyEnvInt_def applyEnvUint32_def applyEnvString_def apply_env_parse nil)
      (auto simp: apply_env_def Let_def split: option.splits)
qed

theorem setting_precedence_witness: "\<exists>c. Load ex_config_env = Inr c \<and> cf_MaxTextLen c = 500 \<and> cf_MaxSyncLimit c = 200"
proof -
  obtain c where c: "Load ex_config_env = Inr c" using ex_load by (cases "Load ex_config_env") auto
  from setting_precedence [OF this] have "cf_MaxTextLen c = 500" "cf_MaxSyncLimit c = 200"
    by (simp_all add: ex_config_env_def ex_parse ParseUint_def config_file_def)
  with c show ?thesis by blast
qed

end
