(* ===== verification/UnixFS.thy ===== *)
theory UnixFS
  imports Config
begin

text \<open>
  Importing a file into a UnixFS tree: \<open>internal/ipfsunixfs/add.go\<close>. The media service computes
  the identifier of an uploaded file with it, the embedded IPFS node adds files with it.

  The chunker, the DAG builder and the balanced layout are code of the IPFS libraries: the
  fields of \<open>unixfs_lib\<close>, over a type \<open>'d\<close> of block stores and a type \<open>'c\<close> of identifiers.
  \<open>ul_New\<close> is \<open>DagBuilderParams.New\<close>; \<open>ul_Layout\<close> is \<open>balanced.Layout\<close> of a reader (its bytes
  and whether it fails at their end), which gives the identifier of the root and leaves blocks
  behind.
\<close>

datatype mh_type = SHA2_256 | SHA2_512

record dag_params =
  dp_ChunkSize :: int
  dp_RawLeaves :: bool
  dp_MhType :: mh_type

record ('c, 'd) unixfs_lib =
  ul_New :: "dag_params \<Rightarrow> err option"
  ul_Layout :: "dag_params \<Rightarrow> byte list \<Rightarrow> bool \<Rightarrow> 'd \<Rightarrow> (err + 'c) \<times> 'd"

definition ChunkSizeFromSpec :: "string \<Rightarrow> int" where
  "ChunkSizeFromSpec spec =
     (if spec = [] then 1048576
      else if prefix ''size-'' spec then
        (case ParseInt (TrimPrefix spec ''size-'') of Some n \<Rightarrow> if n > 0 then n else 1048576 | None \<Rightarrow> 1048576)
      else 1048576)"

text \<open>No rune but an ASCII letter has a lower case letter of the names that are compared.\<close>

definition normalizeHashFunction :: "string \<Rightarrow> string" where
  "normalizeHashFunction v = map lower (TrimSpace v)"

definition CidBuilderV1UnixFS :: "string \<Rightarrow> err + mh_type" where
  "CidBuilderV1UnixFS hashFunction =
     (let h = normalizeHashFunction hashFunction in
      if h = [] \<or> h = ''sha2-256'' then Inr SHA2_256
      else if h = ''sha2-512'' then Inr SHA2_512
      else Inl (Errorf (''unsupported ipfs hash function: '' @ hashFunction)))"

definition AddFileFromReader :: "('c, 'd, 'z) unixfs_lib_scheme \<Rightarrow> byte list \<times> bool \<Rightarrow> int \<Rightarrow> bool \<Rightarrow> int \<Rightarrow> string
    \<Rightarrow> ('d, err, 'c) em" where
  "AddFileFromReader L r chunkSize rawLeaves cidVersion hashFunction d =
     (if cidVersion \<noteq> 1 then (Inl (Errorf ''only cidVersion=1 supported''), d)
      else (case CidBuilderV1UnixFS hashFunction of
          Inl e \<Rightarrow> (Inl e, d)
        | Inr mh \<Rightarrow>
            let dbp = \<lparr>dp_ChunkSize = chunkSize, dp_RawLeaves = rawLeaves, dp_MhType = mh\<rparr> in
            (case ul_New L dbp of
               Some e \<Rightarrow> (Inl e, d)
             | None \<Rightarrow> ul_Layout L dbp (fst r) (snd r) d)))"

lemma ChunkSizeFromSpec_pos: "0 < ChunkSizeFromSpec spec"
  by (simp add: ChunkSizeFromSpec_def split: option.splits)

lemma ChunkSizeFromSpec_size:
  "0 < n \<Longrightarrow> n < 2 ^ 63 \<Longrightarrow> ChunkSizeFromSpec (''size-'' @ show_int n) = n"
  by (simp add: ChunkSizeFromSpec_def TrimPrefix_def ParseInt_show_int)

end
