(* ===== verification/Schema.thy ===== *)
theory Schema
  imports Prelude
begin

text \<open>
  The data of the server: the domain models of \<open>internal/space\<close>, \<open>internal/channel\<close>,
  \<open>internal/message\<close> and \<open>internal/repository\<close>, the MySQL tables of \<open>migrations/\<close> as lists
  of rows in primary-key order, and the SQL primitives every repository method is built
  from: \<open>fetchOne\<close>, \<open>SelectContext\<close>, \<open>ExecContext\<close> and the transactions of
  \<open>database/sql\<close>.

  Any statement may fail: the store carries a schedule of outcomes (\<open>faults\<close>), one entry
  consumed per statement, \<open>True\<close> meaning that the driver reports an error (a lost
  connection, a lock wait timeout, a value too long for its column). Theorems quantify over
  every schedule. A Go string enumeration (\<open>type Role string\<close>) is a datatype with its named
  values and one constructor for any other text.

  MySQL compares and orders text columns by the collation of the column
  (\<open>utf8mb4_unicode_ci\<close>): each definition that compares text takes the weight function
  \<open>coll\<close> of that collation as a parameter.
\<close>

section \<open>Domain models\<close>

datatype visibility = VisibilityPublic | VisibilityPrivate | VisibilityOther string

datatype role = RoleOwner | RoleAdmin | RoleMember | RoleSubscriber | RoleOther string

datatype channel_type = TypeSpace | TypeBroadcast | ChannelTypeOther string

datatype message_type = TypeText | TypeImage | TypeFile | TypeSystem | MessageTypeOther string

datatype message_status = StatusNormal | StatusDeleted

datatype media_kind = KindImage | KindFile

type_synonym collation = "string \<Rightarrow> nat list"

record space =
  sp_ID :: uint32
  sp_HostNodeID :: uint64
  sp_OwnerUserID :: uint64
  sp_Name :: string
  sp_AvatarURL :: string
  sp_Description :: string
  sp_Visibility :: visibility
  sp_MemberCount :: uint32
  sp_ChannelCount :: uint32
  sp_AllowChannelCreation :: bool
  sp_Status :: uint8
  sp_CreatedAt :: time_ms
  sp_UpdatedAt :: time_ms

record permission =
  pm_Role :: role
  pm_CanView :: bool
  pm_CanSendMessage :: bool
  pm_CanSendImage :: bool
  pm_CanSendFile :: bool
  pm_CanDeleteMessage :: bool
  pm_CanManageChannel :: bool

record channel =
  cn_ID :: uint32
  cn_SpaceDBID :: uint32
  cn_Type :: channel_type
  cn_Name :: string
  cn_Description :: string
  cn_Visibility :: visibility
  cn_SlowModeSeconds :: uint32
  cn_AutoDeleteAfterSeconds :: uint32
  cn_MessageSeq :: uint64
  cn_MessageCount :: uint64
  cn_MemberCount :: uint32
  cn_CreatedBy :: uint64
  cn_Status :: uint8
  cn_SortOrder :: int
  cn_Permission :: permission
  cn_CreatedAt :: time_ms
  cn_UpdatedAt :: time_ms

record attachment =
  at_ID :: uint64
  at_MediaID :: string
  at_BlobDBID :: uint64
  at_BlobID :: string
  at_Kind :: media_kind
  at_OriginalName :: string
  at_MIMEType :: string
  at_Size :: uint64
  at_Width :: uint32
  at_Height :: uint32
  at_CreatedBy :: uint64
  at_CreatedAt :: time_ms
  at_SHA256 :: string
  at_FileCID :: string
  at_StoragePath :: string

record content =
  ct_Text :: string
  ct_Images :: "attachment list"
  ct_Files :: "attachment list"

record message =
  mg_ID :: uint64
  mg_MessageID :: string
  mg_ChannelDBID :: uint32
  mg_Seq :: uint64
  mg_SenderUserID :: uint64
  mg_SenderUserExtID :: string
  mg_ClientMsgID :: string
  mg_MessageType :: message_type
  mg_TextContent :: string
  mg_Status :: message_status
  mg_CreatedAt :: time_ms
  mg_UpdatedAt :: time_ms
  mg_DeletedAt :: "time_ms option"
  mg_Content :: content

record user =
  us_ID :: uint64
  us_UserID :: string
  us_PeerID :: string
  us_PubKey :: "byte list"
  us_DisplayName :: string
  us_AvatarURL :: string
  us_Bio :: string
  us_Status :: uint8
  us_LastLoginAt :: time_ms
  us_CreatedAt :: time_ms
  us_UpdatedAt :: time_ms

record space_member =
  mb_MemberID :: uint64
  mb_UserID :: string
  mb_DisplayName :: string
  mb_AvatarURL :: string
  mb_Role :: role
  mb_Nickname :: string
  mb_IsMuted :: bool
  mb_IsBanned :: bool
  mb_JoinedAt :: time_ms
  mb_LastSeenAt :: time_ms

section \<open>Tables\<close>

record user_row =
  u_id :: uint64
  u_user_id :: string
  u_peer_id :: string
  u_pubkey :: "byte list option"
  u_display_name :: string
  u_avatar_url :: "string option"
  u_bio :: "string option"
  u_status :: uint8
  u_last_login_at :: "time_ms option"
  u_created_at :: time_ms
  u_updated_at :: time_ms

record node_row =
  nd_id :: uint64
  nd_node_id :: string
  nd_peer_id :: string
  nd_name :: string
  nd_public_addrs :: string
  nd_status :: uint8
  nd_created_at :: time_ms
  nd_updated_at :: time_ms

record server_row =
  sv_id :: uint32
  sv_host_node_id :: uint64
  sv_owner_user_id :: uint64
  sv_name :: string
  sv_avatar_url :: "string option"
  sv_description :: "string option"
  sv_visibility :: visibility
  sv_allow_channel_creation :: bool
  sv_member_count :: uint32
  sv_channel_count :: uint32
  sv_status :: uint8
  sv_created_at :: time_ms
  sv_updated_at :: time_ms

record server_member_row =
  sm_id :: uint64
  sm_space_id :: uint32
  sm_user_id :: uint64
  sm_role :: role
  sm_nickname :: "string option"
  sm_is_muted :: bool
  sm_is_banned :: bool
  sm_joined_at :: time_ms
  sm_last_seen_at :: "time_ms option"
  sm_created_at :: time_ms
  sm_updated_at :: time_ms

record channel_row =
  ch_id :: uint32
  ch_space_id :: uint32
  ch_type :: channel_type
  ch_name :: string
  ch_description :: "string option"
  ch_visibility :: visibility
  ch_slow_mode_seconds :: uint32
  ch_auto_delete_after_seconds :: uint32
  ch_message_seq :: uint64
  ch_message_count :: uint64
  ch_subscriber_count :: uint32
  ch_member_count :: uint32
  ch_created_by :: uint64
  ch_status :: uint8
  ch_sort_order :: int
  ch_created_at :: time_ms
  ch_updated_at :: time_ms

record channel_member_row =
  cm_id :: uint64
  cm_channel_id :: uint32
  cm_user_id :: uint64
  cm_role :: role
  cm_can_view :: bool
  cm_can_send_message :: bool
  cm_can_send_image :: bool
  cm_can_send_file :: bool
  cm_can_delete_message :: bool
  cm_can_manage_channel :: bool
  cm_joined_at :: time_ms
  cm_created_at :: time_ms
  cm_updated_at :: time_ms

record message_row =
  ms_id :: uint64
  ms_message_id :: string
  ms_channel_id :: uint32
  ms_seq :: uint64
  ms_sender_user_id :: uint64
  ms_client_msg_id :: string
  ms_message_type :: message_type
  ms_text_content :: "string option"
  ms_status :: message_status
  ms_created_at :: time_ms
  ms_updated_at :: time_ms
  ms_deleted_at :: "time_ms option"

record blob_row =
  bl_id :: uint64
  bl_blob_id :: string
  bl_sha256 :: string
  bl_size :: uint64
  bl_mime_type :: "string option"
  bl_storage_path :: string
  bl_ref_count :: uint64
  bl_created_at :: time_ms

record media_row =
  mo_id :: uint64
  mo_media_id :: string
  mo_blob_id :: uint64
  mo_kind :: media_kind
  mo_original_name :: "string option"
  mo_mime_type :: "string option"
  mo_file_cid :: "string option"
  mo_size :: uint64
  mo_width :: "uint32 option"
  mo_height :: "uint32 option"
  mo_created_by :: "uint64 option"
  mo_created_at :: time_ms

record attachment_row =
  ma_id :: uint64
  ma_message_id :: uint64
  ma_media_id :: uint64
  ma_sort_order :: int
  ma_created_at :: time_ms

record read_row =
  rd_id :: uint64
  rd_user_id :: uint64
  rd_channel_id :: uint32
  rd_last_delivered_seq :: uint64
  rd_last_read_seq :: uint64
  rd_updated_at :: time_ms

record nonce_row =
  an_id :: uint64
  an_nonce_hash :: string
  an_client_peer_id :: string
  an_node_peer_id :: string
  an_issued_at :: time_ms
  an_expires_at :: time_ms
  an_used_at :: "time_ms option"
  an_created_at :: time_ms

record conversation_row =
  dc_id :: uint64
  dc_conversation_id :: string
  dc_user_low_id :: uint64
  dc_user_high_id :: uint64
  dc_last_seq :: uint64
  dc_last_message_at_ms :: uint64
  dc_created_at :: time_ms
  dc_updated_at :: time_ms

record direct_message_row =
  dm_id :: uint64
  dm_message_id :: string
  dm_conversation_id :: string
  dm_seq :: uint64
  dm_sender_user_id :: uint64
  dm_recipient_user_id :: uint64
  dm_client_msg_id :: string
  dm_message_type :: message_type
  dm_text_content :: "string option"
  dm_created_at_ms :: uint64
  dm_recipient_acked_at_ms :: "uint64 option"
  dm_created_at :: time_ms

text \<open>The counters are the next values of the tables' \<open>AUTO_INCREMENT\<close> columns.\<close>

record tables =
  users :: "user_row list"
  nodes :: "node_row list"
  servers :: "server_row list"
  server_members :: "server_member_row list"
  channels :: "channel_row list"
  channel_members :: "channel_member_row list"
  messages :: "message_row list"
  blobs :: "blob_row list"
  media_objects :: "media_row list"
  message_attachments :: "attachment_row list"
  user_channel_reads :: "read_row list"
  auth_nonces :: "nonce_row list"
  direct_conversations :: "conversation_row list"
  direct_messages :: "direct_message_row list"
  next_user :: nat
  next_node :: nat
  next_server :: nat
  next_server_member :: nat
  next_channel :: nat
  next_channel_member :: nat
  next_message :: nat
  next_blob :: nat
  next_media :: nat
  next_attachment :: nat
  next_read :: nat
  next_nonce :: nat
  next_conversation :: nat
  next_direct_message :: nat

definition empty_tables :: tables where
  "empty_tables = \<lparr>users = [], nodes = [], servers = [], server_members = [], channels = [],
     channel_members = [], messages = [], blobs = [], media_objects = [],
     message_attachments = [], user_channel_reads = [], auth_nonces = [],
     direct_conversations = [], direct_messages = [],
     next_user = 1, next_node = 1, next_server = 1, next_server_member = 1, next_channel = 1,
     next_channel_member = 1, next_message = 1, next_blob = 1, next_media = 1,
     next_attachment = 1, next_read = 1, next_nonce = 1, next_conversation = 1,
     next_direct_message = 1\<rparr>"

section \<open>The store and its statements\<close>

text \<open>
  The state behind a repository: the tables, the outcomes of the coming statements, the
  clock in nanoseconds, the results of the coming \<open>rand.Read\<close> calls (\<open>None\<close>, or an
  exhausted list, is a failed read), the blob files by path, and the number of transactions
  that were neither committed nor rolled back.
\<close>

record store =
  tabs :: tables
  faults :: "bool list"
  clock_ns :: int
  entropy :: "byte list option list"
  files :: "(string \<times> byte list) list"
  open_txs :: nat

definition faulty :: "store \<Rightarrow> bool" where
  "faulty s = (case faults s of [] \<Rightarrow> False | b # bs \<Rightarrow> b)"

definition tick :: "store \<Rightarrow> store" where
  "tick s = s\<lparr>faults := tl (faults s)\<rparr>"

text \<open>\<open>s.now()\<close>: the current time truncated to milliseconds.\<close>

definition now_ms :: "store \<Rightarrow> time_ms" where
  "now_ms s = clock_ns s div 1000000"

definition now :: "(store, 'e, time_ms) em" where
  "now s = (Inr (now_ms s), s)"

definition time_Now :: "(store, 'e, int) em" where
  "time_Now s = (Inr (clock_ns s), s)"

text \<open>\<open>rand.Read\<close> fills a buffer of \<open>n\<close> bytes.\<close>

definition rand_buffer :: "nat \<Rightarrow> byte list \<Rightarrow> byte list" where
  "rand_buffer n b = take n (b @ replicate n 0)"

definition rand_Read :: "nat \<Rightarrow> (store, 'e, byte list option) em" where
  "rand_Read n s = (case entropy s of
       [] \<Rightarrow> (Inr None, s)
     | b # bs \<Rightarrow> (Inr (map_option (rand_buffer n) b), s\<lparr>entropy := bs\<rparr>))"

text \<open>A query that returns rows.\<close>

definition sql_select :: "(tables \<Rightarrow> 'a) \<Rightarrow> (store, err, 'a) em" where
  "sql_select q s = (if faulty s then (Inl DriverErr, tick s) else (Inr (q (tabs s)), tick s))"

text \<open>\<open>fetchOne\<close>: \<open>sql.ErrNoRows\<close> is normalised to \<open>ErrNotFound\<close>.\<close>

definition fetchOne :: "(tables \<Rightarrow> 'a option) \<Rightarrow> (store, err, 'a) em" where
  "fetchOne q = bind_e (sql_select q) (\<lambda>r. case r of None \<Rightarrow> raise ErrNotFound | Some x \<Rightarrow> ret x)"

text \<open>
  A statement that changes the tables and reports a value, or is refused by the database
  (a key violation, a value outside an \<open>ENUM\<close> column, an exhausted \<open>AUTO_INCREMENT\<close>).
\<close>

definition sql_exec :: "(tables \<Rightarrow> err + ('a \<times> tables)) \<Rightarrow> (store, err, 'a) em" where
  "sql_exec f s =
     (if faulty s then (Inl DriverErr, tick s)
      else case f (tabs s) of
             Inl e \<Rightarrow> (Inl e, tick s)
           | Inr (x, t) \<Rightarrow> (Inr x, (tick s)\<lparr>tabs := t\<rparr>))"

text \<open>An \<open>UPDATE\<close> or \<open>DELETE\<close>, which violates no key.\<close>

definition sql_update :: "(tables \<Rightarrow> tables) \<Rightarrow> (store, err, unit) em" where
  "sql_update f = sql_exec (\<lambda>t. Inr ((), f t))"

text \<open>The next value of an \<open>AUTO_INCREMENT\<close> column; an exhausted column refuses the row.\<close>

definition auto_id :: "nat \<Rightarrow> 'w::len word option" where
  "auto_id n = (if n < 2 ^ LENGTH('w) then Some (of_nat n) else None)"

text \<open>
  \<open>INSERT\<close> of one row into a table: the row gets the next identifier and is refused when it
  agrees with a stored row on a unique key (\<open>clash\<close>). The result is the identifier
  (\<open>LastInsertId\<close>, which the driver reports without an error of its own), the rows and the
  counter.
\<close>

definition insert_row :: "('w::len word \<Rightarrow> 'r) \<Rightarrow> ('r \<Rightarrow> 'r \<Rightarrow> bool) \<Rightarrow> nat \<Rightarrow> 'r list
    \<Rightarrow> err + ('w word \<times> 'r list \<times> nat)" where
  "insert_row mk clash n rs =
     (case auto_id n of
        None \<Rightarrow> Inl DriverErr
      | Some i \<Rightarrow> if \<exists>r \<in> set rs. clash r (mk i) then Inl DuplicateKey
                  else Inr (i, rs @ [mk i], Suc n))"

subsection \<open>Transactions\<close>

text \<open>
  The repository methods open a transaction with \<open>tx, err := BeginTxx\<close>, register
  \<open>defer func() { if err != nil { tx.Rollback() } }()\<close> and assign the outcome of every later
  statement to \<open>err\<close>. A method that returns early leaves with \<open>TxReturn err e\<close>: the value of the
  variable \<open>err\<close> at the \<open>return\<close> (\<open>None\<close>: \<open>nil\<close>) and the error it returns. \<open>tx_try\<close> is the common
  \<open>if err = ...; err != nil { return f(err) }\<close>. The deferred function looks at the variable alone:
  a fresh error returned while \<open>err\<close> is \<open>nil\<close> ends neither in a commit nor in a rollback; the changes
  are not committed, and the connection is not given back (\<open>open_txs\<close>).

  A transaction that is rolled back gives its \<open>AUTO_INCREMENT\<close> values back, and a \<open>COMMIT\<close> that
  reports an error has not been applied.
\<close>

datatype tx_exit = TxReturn "err option" err

definition tx_try :: "(err \<Rightarrow> err) \<Rightarrow> (store, err, 'a) em \<Rightarrow> (store, tx_exit, 'a) em" where
  "tx_try f m = map_err (\<lambda>e. TxReturn (Some e) (f e)) m"

definition tx_commit :: "(err \<Rightarrow> err) \<Rightarrow> (store, tx_exit, unit) em" where
  "tx_commit f = tx_try f (sql_select (\<lambda>t. ()))"

text \<open>The deferred function, on the store at the begin and at the return.\<close>

definition deferred_rollback :: "err option \<Rightarrow> store \<Rightarrow> store \<Rightarrow> store" where
  "deferred_rollback err s s' =
     (if err \<noteq> None then s'\<lparr>tabs := tabs s\<rparr>
      else s'\<lparr>tabs := tabs s, open_txs := Suc (open_txs s')\<rparr>)"

definition with_tx :: "(err \<Rightarrow> err) \<Rightarrow> (store, tx_exit, 'a) em \<Rightarrow> (store, err, 'a) em" where
  "with_tx f body s =
     (if faulty s then (Inl (f DriverErr), tick s)
      else case body (tick s) of
             (Inr x, s') \<Rightarrow> (Inr x, s')
           | (Inl (TxReturn err e), s') \<Rightarrow> (Inl e, deferred_rollback err s s'))"

lemma deferred_rollback_simps [simp]:
  "tabs (deferred_rollback err s s') = tabs s" "files (deferred_rollback err s s') = files s'"
  "faults (deferred_rollback err s s') = faults s'" "clock_ns (deferred_rollback err s s') = clock_ns s'"
  by (simp_all add: deferred_rollback_def)

text \<open>\<open>newExternalID\<close>: ten random bytes in hexadecimal, or the clock when there are none.\<close>

definition newExternalID :: "string \<Rightarrow> (store, 'e, string) em" where
  "newExternalID pre = bind_e (rand_Read 10) (\<lambda>buf. case buf of
       None \<Rightarrow> bind_e time_Now (\<lambda>n. ret (pre @ ''_'' @ show_int n))
     | Some b \<Rightarrow> ret (pre @ ''_'' @ hex_encode b))"

text \<open>\<open>nullableString\<close>: an empty text is stored as \<open>NULL\<close>.\<close>

definition nullableString :: "string \<Rightarrow> string option" where
  "nullableString v = (if v = [] then None else Some v)"

text \<open>\<open>COALESCE(column, '')\<close>.\<close>

definition coalesce :: "'a \<Rightarrow> 'a option \<Rightarrow> 'a" where
  "coalesce d v = (case v of None \<Rightarrow> d | Some x \<Rightarrow> x)"

section \<open>Lemmas: statements\<close>

lemma tick_simps [simp]:
  "tabs (tick s) = tabs s" "clock_ns (tick s) = clock_ns s" "entropy (tick s) = entropy s"
  "files (tick s) = files s" "open_txs (tick s) = open_txs s" "now_ms (tick s) = now_ms s"
  by (simp_all add: tick_def now_ms_def)

lemma tick_tabs [simp]:
  "faulty (s\<lparr>tabs := t\<rparr>) = faulty s" "tick (s\<lparr>tabs := t\<rparr>) = (tick s)\<lparr>tabs := t\<rparr>"
  by (simp_all add: faulty_def tick_def)

lemma now_ms_update [simp]:
  "now_ms (s\<lparr>tabs := t\<rparr>) = now_ms s" "now_ms (s\<lparr>open_txs := n\<rparr>) = now_ms s"
  "now_ms (s\<lparr>files := f\<rparr>) = now_ms s" "now_ms (s\<lparr>entropy := e\<rparr>) = now_ms s"
  by (simp_all add: now_ms_def)

lemma no_faults [simp]: "faults s = [] \<Longrightarrow> \<not> faulty s"
  by (simp add: faulty_def)

lemma now_iff [em_simps]: "now s = (r, s') \<longleftrightarrow> r = Inr (now_ms s) \<and> s' = s"
  by (auto simp: now_def)

lemma time_Now_iff [em_simps]: "time_Now s = (r, s') \<longleftrightarrow> r = Inr (clock_ns s) \<and> s' = s"
  by (auto simp: time_Now_def)

text \<open>The identifier that \<open>newExternalID\<close> gives, and what it leaves of the random source.\<close>

definition ext_id :: "string \<Rightarrow> store \<Rightarrow> string" where
  "ext_id p s = p @ ''_'' @ (case entropy s of Some b # bs \<Rightarrow> hex_encode (rand_buffer 10 b)
     | _ \<Rightarrow> show_int (clock_ns s))"

definition rand_used :: "store \<Rightarrow> store" where
  "rand_used s = s\<lparr>entropy := tl (entropy s)\<rparr>"

lemma rand_used_simps [simp]:
  "tabs (rand_used s) = tabs s" "clock_ns (rand_used s) = clock_ns s" "faults (rand_used s) = faults s"
  "files (rand_used s) = files s" "open_txs (rand_used s) = open_txs s"
  "now_ms (rand_used s) = now_ms s" "faulty (rand_used s) = faulty s"
  by (simp_all add: rand_used_def now_ms_def faulty_def)

lemma newExternalID_iff [em_simps]:
  "newExternalID p s = (r, s') \<longleftrightarrow> r = Inr (ext_id p s) \<and> s' = rand_used s"
  by (auto simp: newExternalID_def bind_e_def rand_Read_def time_Now_def ext_id_def rand_used_def
      split: list.splits option.splits)

lemma newExternalID_simp: "newExternalID p s = (Inr (ext_id p s), rand_used s)"
  by (simp add: newExternalID_iff)

lemma sql_select_Inr [em_simps]:
  "sql_select q s = (Inr x, s') \<longleftrightarrow> \<not> faulty s \<and> x = q (tabs s) \<and> s' = tick s"
  by (auto simp: sql_select_def)

lemma fetchOne_Inr [em_simps]:
  "fetchOne q s = (Inr x, s') \<longleftrightarrow> \<not> faulty s \<and> q (tabs s) = Some x \<and> s' = tick s"
  by (auto simp: fetchOne_def em_simps split: option.splits)

lemma fetchOne_Inl:
  "fetchOne q s = (Inl e, s') \<longleftrightarrow>
     s' = tick s \<and> (faulty s \<and> e = DriverErr \<or> \<not> faulty s \<and> q (tabs s) = None \<and> e = ErrNotFound)"
  by (auto simp: fetchOne_def sql_select_def bind_e_def split: option.splits)

lemma fetchOne_simp:
  "fetchOne q s = (if faulty s then (Inl DriverErr, tick s)
     else case q (tabs s) of None \<Rightarrow> (Inl ErrNotFound, tick s) | Some x \<Rightarrow> (Inr x, tick s))"
  by (simp add: fetchOne_def sql_select_def bind_e_def split: option.splits)

lemma sql_exec_Inr [em_simps]:
  "sql_exec f s = (Inr x, s') \<longleftrightarrow>
     \<not> faulty s \<and> (\<exists>t. f (tabs s) = Inr (x, t) \<and> s' = (tick s)\<lparr>tabs := t\<rparr>)"
  by (auto simp: sql_exec_def split: sum.splits prod.splits)

lemma sql_update_Inr [em_simps]:
  "sql_update f s = (Inr x, s') \<longleftrightarrow> \<not> faulty s \<and> s' = (tick s)\<lparr>tabs := f (tabs s)\<rparr>"
  by (auto simp: sql_update_def em_simps)

lemma tx_try_Inr [em_simps]: "tx_try f m s = (Inr x, s') \<longleftrightarrow> m s = (Inr x, s')"
  by (simp add: tx_try_def em_simps)

lemma tx_commit_Inr [em_simps]: "tx_commit f s = (Inr x, s') \<longleftrightarrow> \<not> faulty s \<and> s' = tick s"
  by (auto simp: tx_commit_def em_simps)

lemma with_tx_Inr [em_simps]:
  "with_tx f body s = (Inr x, s') \<longleftrightarrow> \<not> faulty s \<and> body (tick s) = (Inr x, s')"
  by (auto simp: with_tx_def split: prod.splits sum.splits tx_exit.splits)

text \<open>A transaction that does not commit changes no table.\<close>

lemma with_tx_Inl_tabs: "with_tx f body s = (Inl e, s') \<Longrightarrow> tabs s' = tabs s"
  by (auto simp: with_tx_def split: prod.splits sum.splits tx_exit.splits if_splits)

lemma with_tx_tabs:
  "with_tx f body s = (r, s') \<Longrightarrow>
     tabs s' = tabs s \<or> (\<exists>x. r = Inr x \<and> \<not> faulty s \<and> body (tick s) = (Inr x, s'))"
  by (cases r) (auto simp: em_simps with_tx_Inl_tabs)

text \<open>
  A transaction followed by a query: the tables are as before, or the transaction has
  committed, whatever the query reports.
\<close>

lemma fetchOne_tabs: "fetchOne q s = (r, s') \<Longrightarrow> tabs s' = tabs s"
  by (cases r) (auto simp: em_simps fetchOne_Inl)

lemma tx_then_fetch:
  assumes "bind_e (with_tx f body) (\<lambda>x. fetchOne (q x)) s = (r, s')"
  shows "tabs s' = tabs s \<or>
    (\<exists>x s1. \<not> faulty s \<and> body (tick s) = (Inr x, s1) \<and> tabs s' = tabs s1)"
proof -
  obtain r1 s1 where tx: "with_tx f body s = (r1, s1)" by (cases "with_tx f body s")
  from tx assms have "tabs s' = tabs s1"
    by (auto simp: bind_e_def split: sum.splits dest: fetchOne_tabs)
  with with_tx_tabs [OF tx] show ?thesis by auto
qed

section \<open>Lemmas: propagation of table invariants\<close>

text \<open>
  A predicate on the tables. \<open>sql_keeps I f\<close>: the statement \<open>f\<close> preserves it. Selects and
  failed statements preserve everything.
\<close>

definition on_tabs :: "(tables \<Rightarrow> bool) \<Rightarrow> store \<Rightarrow> bool" where
  "on_tabs I s = I (tabs s)"

lemma on_tabs_simps [simp]:
  "on_tabs I (tick s) = on_tabs I s" "on_tabs I (s\<lparr>tabs := t\<rparr>) = I t"
  "on_tabs I (s\<lparr>open_txs := n\<rparr>) = on_tabs I s" "on_tabs I (s\<lparr>files := f\<rparr>) = on_tabs I s"
  "on_tabs I (s\<lparr>entropy := en\<rparr>) = on_tabs I s"
  by (simp_all add: on_tabs_def)

lemma keeps_select [keeps_intros]: "keeps (on_tabs I) (sql_select q)"
  by (auto simp: keeps_def sql_select_def)

lemma keeps_fetchOne [keeps_intros]: "keeps (on_tabs I) (fetchOne q)"
  unfolding fetchOne_def by (intro keeps_intros)

lemma keeps_now [keeps_intros]: "keeps P now" "keeps P time_Now"
  by (auto simp: keeps_def now_def time_Now_def)

lemma keeps_rand [keeps_intros]: "keeps (on_tabs I) (rand_Read n)"
  by (auto simp: keeps_def rand_Read_def split: list.splits)

lemma keeps_newExternalID [keeps_intros]: "keeps (on_tabs I) (newExternalID p)"
  unfolding newExternalID_def by (intro keeps_intros)

lemma keeps_exec [keeps_intros]:
  "(\<And>t x t'. I t \<Longrightarrow> f t = Inr (x, t') \<Longrightarrow> I t') \<Longrightarrow> keeps (on_tabs I) (sql_exec f)"
  by (auto simp: keeps_def sql_exec_def on_tabs_def split: sum.splits)

lemma keeps_update [keeps_intros]:
  "(\<And>t. I t \<Longrightarrow> I (f t)) \<Longrightarrow> keeps (on_tabs I) (sql_update f)"
  unfolding sql_update_def by (rule keeps_exec) auto

lemma keeps_tx_try [keeps_intros]: "keeps P m \<Longrightarrow> keeps P (tx_try f m)"
  unfolding tx_try_def by (intro keeps_intros)

lemma keeps_tx_commit [keeps_intros]: "keeps (on_tabs I) (tx_commit f)"
  unfolding tx_commit_def by (intro keeps_intros)

text \<open>
  A transaction preserves an invariant as soon as its committed outcomes do: inside the
  transaction the invariant may be broken for a while.
\<close>

lemma keeps_with_tx_commit:
  assumes "\<And>s x s'. I (tabs s) \<Longrightarrow> body s = (Inr x, s') \<Longrightarrow> I (tabs s')"
  shows "keeps (on_tabs I) (with_tx f body)"
  using assms
  by (auto simp: keeps_def with_tx_def on_tabs_def split: prod.splits sum.splits tx_exit.splits)
    (metis tick_simps(1))

lemma keeps_tabsI: "(\<And>s r s'. I (tabs s) \<Longrightarrow> m s = (r, s') \<Longrightarrow> I (tabs s')) \<Longrightarrow> keeps (on_tabs I) m"
  by (auto simp: keeps_def on_tabs_def) (metis surjective_pairing)

text \<open>An operation keeps every invariant that does not depend on what it changes.\<close>

lemma keeps_frame:
  assumes "\<And>s r s'. m s = (r, s') \<Longrightarrow> F (tabs s) (tabs s')" "\<And>t t'. I t \<Longrightarrow> F t t' \<Longrightarrow> I t'"
  shows "keeps (on_tabs I) m"
  by (rule keeps_tabsI) (blast intro: assms)


lemma auto_id_Some:
  "auto_id n = Some (w :: 'w::len word) \<longleftrightarrow> n < 2 ^ LENGTH('w) \<and> w = of_nat n"
  by (auto simp: auto_id_def)

lemma unat_auto_id: "auto_id n = Some (w :: 'w::len word) \<Longrightarrow> unat w = n"
  by (auto simp: auto_id_Some unat_of_nat take_bit_nat_eq_self)

section \<open>Lemmas: tables with keys\<close>

text \<open>
  The rows of a table stand in the order of their identifiers, all of them below the
  counter.
\<close>

definition ids_below :: "('r \<Rightarrow> 'w::len word) \<Rightarrow> nat \<Rightarrow> 'r list \<Rightarrow> bool" where
  "ids_below rid n rs \<longleftrightarrow> sorted_wrt (<) (map rid rs) \<and> (\<forall>i \<in> set (map rid rs). unat i < n)"

lemma insert_row_Inr:
  "insert_row mk clash n rs = Inr (i, rs', n') \<longleftrightarrow>
     n < 2 ^ LENGTH('w) \<and> i = (of_nat n :: 'w::len word) \<and> (\<forall>r \<in> set rs. \<not> clash r (mk i)) \<and>
     rs' = rs @ [mk i] \<and> n' = Suc n"
  by (auto simp: insert_row_def auto_id_def split: option.splits)

lemma ids_below_insert:
  assumes "insert_row mk clash n rs = Inr (i, rs', n')" "ids_below rid n rs"
    and "\<And>j. rid (mk j) = j"
  shows "ids_below rid n' rs'"
  using assms
  by (auto simp: ids_below_def insert_row_Inr sorted_wrt_append word_less_nat_alt
      unat_of_nat take_bit_nat_eq_self less_Suc_eq)

lemma ids_below_update:
  "(\<And>r. rid (f r) = rid r) \<Longrightarrow> ids_below rid n (update_where p f rs) = ids_below rid n rs"
  by (simp only: ids_below_def map_update_where)

lemma ids_below_filter: "ids_below rid n rs \<Longrightarrow> ids_below rid n (filter p rs)"
  by (auto simp: ids_below_def sorted_wrt_map sorted_wrt_filter)

lemma ids_below_distinct: "ids_below rid n rs \<Longrightarrow> distinct (map rid rs)"
  by (simp add: ids_below_def strict_sorted_iff)

text \<open>
  A unique key that the \<open>INSERT\<close> of its table enforces: no two rows agree on it, and a row
  just inserted is the one the key finds.
\<close>

locale unique_key =
  fixes clash :: "'r \<Rightarrow> 'r \<Rightarrow> bool"
    and key :: "'r \<Rightarrow> 'k"
  assumes key_clash: "key a = key b \<Longrightarrow> clash a b"
begin

lemma distinct_insert:
  "insert_row mk clash n rs = Inr (i, rs', n') \<Longrightarrow> distinct (map key rs) \<Longrightarrow> distinct (map key rs')"
  using key_clash by (fastforce simp: insert_row_Inr)

lemma find_insert:
  assumes "insert_row mk clash n rs = Inr (i, rs', n')"
  shows "find (\<lambda>r. key r = key (mk i)) rs' = Some (mk i)"
proof -
  from assms have "find (\<lambda>r. key r = key (mk i)) rs = None"
    using key_clash by (auto simp: insert_row_Inr find_None_iff)
  with assms show ?thesis by (simp add: insert_row_Inr find_append)
qed

lemma find_other:
  assumes "insert_row mk clash n rs = Inr (i, rs', n')" "k \<noteq> key (mk i)"
  shows "find (\<lambda>r. key r = k) rs' = find (\<lambda>r. key r = k) rs"
  using assms by (simp add: insert_row_Inr find_append split: option.splits)

lemma distinct_update:
  "(\<And>r. key (f r) = key r) \<Longrightarrow> distinct (map key (update_where p f rs)) = distinct (map key rs)"
  by simp

lemma distinct_filter: "distinct (map key rs) \<Longrightarrow> distinct (map key (filter p rs))"
  by (rule distinct_map_filter)

end

end
