(* ===== verification/Example_Store.thy ===== *)
theory Example_Store
  imports Schema
begin

text \<open>
  A small populated database on which the theorems with hypotheses are instantiated: two
  users, a public and a private space, a channel with two messages, a direct conversation
  with one message, a stored image. The collection \<open>run_simps\<close> holds the definitions with
  which the simplifier runs an operation on it.
\<close>

named_theorems run_simps \<open>definitions that evaluate an operation on a concrete store\<close>

lemmas [run_simps] =
  Let_def if_apply with_tx_def deferred_rollback_def bind_e_def handle_e_def map_err_def tx_try_def tx_commit_def
  sql_exec_def sql_select_def sql_update_def fetchOne_def now_def now_ms_def time_Now_def tick_def
  faulty_def insert_row_def auto_id_def count_where_def update_where_def delete_where_def
  newExternalID_def rand_Read_def rand_buffer_def coalesce_def nullableString_def first_row_def
  order_limit_def lift_e_def

text \<open>A run of an operation that ends without an error.\<close>

lemma succeeds: "\<not> isl (fst x) \<Longrightarrow> x = (Inr (projr (fst x)), snd x)"
  by (cases x; cases "fst x") auto

definition ex_coll :: collation where
  "ex_coll s = map of_char s"

definition ex_user :: "uint64 \<Rightarrow> string \<Rightarrow> string \<Rightarrow> user_row" where
  "ex_user i uid pid = \<lparr>u_id = i, u_user_id = uid, u_peer_id = pid, u_pubkey = Some [1], u_display_name = uid,
     u_avatar_url = None, u_bio = None, u_status = 1, u_last_login_at = Some 1000, u_created_at = 1000,
     u_updated_at = 1000\<rparr>"

definition ex_server :: "uint32 \<Rightarrow> visibility \<Rightarrow> uint32 \<Rightarrow> uint32 \<Rightarrow> server_row" where
  "ex_server i vis members chans = \<lparr>sv_id = i, sv_host_node_id = 1, sv_owner_user_id = 1, sv_name = ''lobby'',
     sv_avatar_url = None, sv_description = None, sv_visibility = vis, sv_allow_channel_creation = True,
     sv_member_count = members, sv_channel_count = chans, sv_status = 1, sv_created_at = 2000, sv_updated_at = 2000\<rparr>"

definition ex_member :: "uint64 \<Rightarrow> uint32 \<Rightarrow> uint64 \<Rightarrow> role \<Rightarrow> server_member_row" where
  "ex_member i sp u rl = \<lparr>sm_id = i, sm_space_id = sp, sm_user_id = u, sm_role = rl, sm_nickname = None,
     sm_is_muted = False, sm_is_banned = False, sm_joined_at = 2000, sm_last_seen_at = None,
     sm_created_at = 2000, sm_updated_at = 2000\<rparr>"

definition ex_channel :: channel_row where
  "ex_channel = \<lparr>ch_id = 1, ch_space_id = 1, ch_type = TypeSpace, ch_name = ''general'', ch_description = None,
     ch_visibility = VisibilityPublic, ch_slow_mode_seconds = 0, ch_auto_delete_after_seconds = 60,
     ch_message_seq = 2, ch_message_count = 2, ch_subscriber_count = 1, ch_member_count = 1, ch_created_by = 1,
     ch_status = 1, ch_sort_order = 10, ch_created_at = 2000, ch_updated_at = 2000\<rparr>"

definition ex_channel_member :: channel_member_row where
  "ex_channel_member = \<lparr>cm_id = 1, cm_channel_id = 1, cm_user_id = 1, cm_role = RoleOwner, cm_can_view = True,
     cm_can_send_message = True, cm_can_send_image = True, cm_can_send_file = True,
     cm_can_delete_message = True, cm_can_manage_channel = True, cm_joined_at = 2000, cm_created_at = 2000,
     cm_updated_at = 2000\<rparr>"

definition ex_message :: "uint64 \<Rightarrow> string \<Rightarrow> string \<Rightarrow> time_ms \<Rightarrow> message_row" where
  "ex_message i mid client at = \<lparr>ms_id = i, ms_message_id = mid, ms_channel_id = 1, ms_seq = i, ms_sender_user_id = 1,
     ms_client_msg_id = client, ms_message_type = TypeText, ms_text_content = Some ''hello'',
     ms_status = StatusNormal, ms_created_at = at, ms_updated_at = at, ms_deleted_at = None\<rparr>"

definition ex_nonce :: nonce_row where
  "ex_nonce = \<lparr>an_id = 1, an_nonce_hash = ''ff'', an_client_peer_id = ''p1'', an_node_peer_id = ''n1'',
     an_issued_at = 90000, an_expires_at = 390000, an_used_at = None, an_created_at = 90000\<rparr>"

definition ex_conversation :: conversation_row where
  "ex_conversation = \<lparr>dc_id = 1, dc_conversation_id = ''dmcnv_1'', dc_user_low_id = 1, dc_user_high_id = 2,
     dc_last_seq = 1, dc_last_message_at_ms = 3000, dc_created_at = 3000, dc_updated_at = 3000\<rparr>"

definition ex_direct :: direct_message_row where
  "ex_direct = \<lparr>dm_id = 1, dm_message_id = ''dmmsg_1'', dm_conversation_id = ''dmcnv_1'', dm_seq = 1,
     dm_sender_user_id = 1, dm_recipient_user_id = 2, dm_client_msg_id = ''c1'', dm_message_type = TypeText,
     dm_text_content = Some ''hi'', dm_created_at_ms = 3000, dm_recipient_acked_at_ms = None,
     dm_created_at = 3000\<rparr>"

definition ex_tables :: tables where
  "ex_tables = empty_tables\<lparr>
     users := [ex_user 1 ''u_1'' ''p1'', ex_user 2 ''u_2'' ''p2''],
     servers := [ex_server 1 VisibilityPublic 2 1, ex_server 2 VisibilityPrivate 1 0],
     server_members := [ex_member 1 1 1 RoleOwner, ex_member 2 1 2 RoleMember, ex_member 3 2 1 RoleOwner],
     channels := [ex_channel], channel_members := [ex_channel_member],
     messages := [ex_message 1 ''msg_1'' ''client-1'' 5000, ex_message 2 ''msg_2'' ''client-2'' 99000],
     auth_nonces := [ex_nonce],
     direct_conversations := [ex_conversation], direct_messages := [ex_direct],
     next_user := 3, next_server := 3, next_server_member := 4, next_channel := 2, next_channel_member := 2,
     next_message := 3, next_nonce := 2, next_conversation := 2, next_direct_message := 2\<rparr>"

text \<open>The clock stands at 100 seconds.\<close>

definition ex_store :: store where
  "ex_store = \<lparr>tabs = ex_tables, faults = [], clock_ns = 100000000000, entropy = [], files = [], open_txs = 0\<rparr>"

lemmas ex_defs =
  ex_store_def ex_tables_def ex_coll_def ex_user_def ex_server_def ex_member_def ex_channel_def
  ex_channel_member_def ex_message_def ex_nonce_def ex_conversation_def ex_direct_def empty_tables_def

lemmas trim_simps = TrimSpace_def TrimLeftSpace_def TrimRightSpace_def go_space_seqs_def trim_prefixes.simps char_of_def

lemma ex_clock_text: "show_nat 100000000000 = ''100000000000''"
  by (simp add: show_nat.simps hex_digit_def)

end
