(* ===== verification/Store_Users.thy ===== *)
theory Store_Users
  imports Example_Store
begin

text \<open>
  The user, node and nonce repositories: \<open>internal/repository/mysql/user.go\<close>,
  \<open>NodeRepository.Upsert\<close> of \<open>bootstrap.go\<close>, and the nonce operations of
  \<open>read_and_auth.go\<close>. The lemmas show that a user row is never duplicated or renamed, that
  the row of a peer is found again after it was created, and that a nonce is accepted at
  most once, before it expires, and only for the peers it was issued for.
\<close>

section \<open>Users\<close>

definition to_user :: "user_row \<Rightarrow> user" where
  "to_user r = \<lparr>us_ID = u_id r, us_UserID = u_user_id r, us_PeerID = u_peer_id r,
     us_PubKey = coalesce [] (u_pubkey r), us_DisplayName = u_display_name r,
     us_AvatarURL = coalesce [] (u_avatar_url r), us_Bio = coalesce [] (u_bio r),
     us_Status = u_status r, us_LastLoginAt = coalesce (u_created_at r) (u_last_login_at r),
     us_CreatedAt = u_created_at r, us_UpdatedAt = u_updated_at r\<rparr>"

definition GetByPeerID :: "collation \<Rightarrow> string \<Rightarrow> (store, err, user) em" where
  "GetByPeerID coll peerID =
     fetchOne (\<lambda>t. map_option to_user (find (\<lambda>u. coll (u_peer_id u) = coll peerID) (users t)))"

definition GetByID :: "uint64 \<Rightarrow> (store, err, user) em" where
  "GetByID i = fetchOne (\<lambda>t. map_option to_user (find (\<lambda>u. u_id u = i) (users t)))"

definition GetByUserID :: "collation \<Rightarrow> string \<Rightarrow> (store, err, user) em" where
  "GetByUserID coll userID =
     fetchOne (\<lambda>t. map_option to_user (find (\<lambda>u. coll (u_user_id u) = coll userID) (users t)))"

definition shortPeerID :: "string \<Rightarrow> string" where
  "shortPeerID peerID =
     (let p = TrimSpace peerID in if length p \<le> 8 then p else drop (length p - 8) p)"

definition emptyBytesToNil :: "byte list \<Rightarrow> byte list option" where
  "emptyBytesToNil value = (if value = [] then None else Some value)"

text \<open>\<open>uk_users_user_id\<close> and \<open>uk_users_peer_id\<close>.\<close>

definition user_clash :: "collation \<Rightarrow> user_row \<Rightarrow> user_row \<Rightarrow> bool" where
  "user_clash coll a b \<longleftrightarrow>
     coll (u_user_id a) = coll (u_user_id b) \<or> coll (u_peer_id a) = coll (u_peer_id b)"

text \<open>\<open>CASE WHEN v IS NULL OR LENGTH(v) = 0 THEN pubkey ELSE v END\<close>.\<close>

definition new_pubkey :: "byte list option \<Rightarrow> byte list option \<Rightarrow> byte list option" where
  "new_pubkey v old = (case v of None \<Rightarrow> old | Some k \<Rightarrow> if k = [] then old else Some k)"

text \<open>
  \<open>INSERT ... ON DUPLICATE KEY UPDATE\<close>: when a unique key is taken, MySQL updates the row
  that the first such key finds.
\<close>

definition upsert_user :: "collation \<Rightarrow> string \<Rightarrow> string \<Rightarrow> byte list option \<Rightarrow> string \<Rightarrow> time_ms
    \<Rightarrow> tables \<Rightarrow> err + (unit \<times> tables)" where
  "upsert_user coll uid peerID pubKey displayName nw t =
     (case (case find (\<lambda>u. coll (u_user_id u) = coll uid) (users t) of
              Some u \<Rightarrow> Some u
            | None \<Rightarrow> find (\<lambda>u. coll (u_peer_id u) = coll peerID) (users t)) of
        Some u \<Rightarrow>
          Inr ((), t\<lparr>users := update_where (\<lambda>r. u_id r = u_id u)
                      (\<lambda>r. r\<lparr>u_pubkey := new_pubkey pubKey (u_pubkey r), u_updated_at := nw\<rparr>)
                      (users t)\<rparr>)
      | None \<Rightarrow>
          (case insert_row (\<lambda>i. \<lparr>u_id = i, u_user_id = uid, u_peer_id = peerID, u_pubkey = pubKey,
                   u_display_name = displayName, u_avatar_url = None, u_bio = None, u_status = 1,
                   u_last_login_at = Some nw, u_created_at = nw, u_updated_at = nw\<rparr>)
                 (user_clash coll) (next_user t) (users t) of
             Inl e \<Rightarrow> Inl e
           | Inr (i, rs, n) \<Rightarrow> Inr ((), t\<lparr>users := rs, next_user := n\<rparr>)))"

definition CreateIfNotExistsByPeerID :: "collation \<Rightarrow> string \<Rightarrow> byte list \<Rightarrow> (store, err, user) em" where
  "CreateIfNotExistsByPeerID coll peerID pubKey =
     bind_e now (\<lambda>nw.
     bind_e (newExternalID ''u'') (\<lambda>uid.
     bind_e (map_err (wrap ''insert user by peer id'')
        (sql_exec (upsert_user coll uid peerID (emptyBytesToNil pubKey)
           (''Peer '' @ shortPeerID peerID) nw))) (\<lambda>_.
     GetByPeerID coll peerID)))"

definition UpdateLogin :: "uint64 \<Rightarrow> byte list \<Rightarrow> time_ms \<Rightarrow> (store, err, unit) em" where
  "UpdateLogin userID pubKey when =
     map_err (wrap ''update user login'')
       (sql_update (\<lambda>t. t\<lparr>users := update_where (\<lambda>u. u_id u = userID)
          (\<lambda>u. u\<lparr>u_pubkey := new_pubkey (emptyBytesToNil pubKey) (u_pubkey u),
                u_last_login_at := Some when, u_updated_at := when\<rparr>) (users t)\<rparr>))"

section \<open>The node record\<close>

record node_record =
  nr_ID :: uint64
  nr_NodeID :: string
  nr_PeerID :: string
  nr_Name :: string
  nr_PublicAddrs :: "string list"
  nr_Status :: uint8
  nr_CreatedAt :: time_ms
  nr_UpdatedAt :: time_ms

definition node_clash :: "collation \<Rightarrow> node_row \<Rightarrow> node_row \<Rightarrow> bool" where
  "node_clash coll a b \<longleftrightarrow>
     coll (nd_node_id a) = coll (nd_node_id b) \<or> coll (nd_peer_id a) = coll (nd_peer_id b)"

definition upsert_node :: "collation \<Rightarrow> (string list \<Rightarrow> string) \<Rightarrow> node_record \<Rightarrow> time_ms
    \<Rightarrow> tables \<Rightarrow> err + (unit \<times> tables)" where
  "upsert_node coll marshalJSON rec nw t =
     (case (case find (\<lambda>u. coll (nd_node_id u) = coll (nr_NodeID rec)) (nodes t) of
              Some u \<Rightarrow> Some u
            | None \<Rightarrow> find (\<lambda>u. coll (nd_peer_id u) = coll (nr_PeerID rec)) (nodes t)) of
        Some u \<Rightarrow>
          Inr ((), t\<lparr>nodes := update_where (\<lambda>r. nd_id r = nd_id u)
             (\<lambda>r. r\<lparr>nd_name := nr_Name rec, nd_public_addrs := marshalJSON (nr_PublicAddrs rec),
                   nd_status := nr_Status rec, nd_updated_at := nw\<rparr>) (nodes t)\<rparr>)
      | None \<Rightarrow>
          (case insert_row (\<lambda>i. \<lparr>nd_id = i, nd_node_id = nr_NodeID rec, nd_peer_id = nr_PeerID rec,
                   nd_name = nr_Name rec, nd_public_addrs = marshalJSON (nr_PublicAddrs rec),
                   nd_status = nr_Status rec, nd_created_at = nw, nd_updated_at = nw\<rparr>)
                 (node_clash coll) (next_node t) (nodes t) of
             Inl e \<Rightarrow> Inl e
           | Inr (i, rs, n) \<Rightarrow> Inr ((), t\<lparr>nodes := rs, next_node := n\<rparr>)))"

text \<open>\<open>Upsert\<close> of the node record; \<open>marshalJSON\<close> is the JSON text of the address list.\<close>

definition UpsertNode :: "collation \<Rightarrow> (string list \<Rightarrow> string) \<Rightarrow> node_record
    \<Rightarrow> (store, err, node_record) em" where
  "UpsertNode coll marshalJSON rec0 =
     bind_e now (\<lambda>nw.
     bind_e (if nr_NodeID rec0 = [] then newExternalID ''node'' else ret (nr_NodeID rec0)) (\<lambda>nid.
     let rec = rec0\<lparr>nr_NodeID := nid\<rparr> in
     bind_e (map_err (wrap ''upsert node'') (sql_exec (upsert_node coll marshalJSON rec nw))) (\<lambda>_.
     fetchOne (\<lambda>t. map_option
        (\<lambda>r. \<lparr>nr_ID = nd_id r, nr_NodeID = nd_node_id r, nr_PeerID = nd_peer_id r,
             nr_Name = nd_name r, nr_PublicAddrs = nr_PublicAddrs rec, nr_Status = nd_status r,
             nr_CreatedAt = nd_created_at r, nr_UpdatedAt = nd_updated_at r\<rparr>)
        (find (\<lambda>r. coll (nd_peer_id r) = coll (nr_PeerID rec)) (nodes t))))))"

section \<open>Nonces\<close>

definition nonce_clash :: "collation \<Rightarrow> nonce_row \<Rightarrow> nonce_row \<Rightarrow> bool" where
  "nonce_clash coll a b \<longleftrightarrow> coll (an_nonce_hash a) = coll (an_nonce_hash b)"

definition StoreNonce :: "collation \<Rightarrow> string \<Rightarrow> string \<Rightarrow> string \<Rightarrow> time_ms \<Rightarrow> time_ms
    \<Rightarrow> (store, err, unit) em" where
  "StoreNonce coll nonceHash clientPeerID nodePeerID issuedAt expiresAt =
     bind_e now (\<lambda>nw.
     map_err (wrap ''store nonce'')
       (sql_exec (\<lambda>t.
          case insert_row (\<lambda>i. \<lparr>an_id = i, an_nonce_hash = nonceHash, an_client_peer_id = clientPeerID,
                 an_node_peer_id = nodePeerID, an_issued_at = issuedAt, an_expires_at = expiresAt,
                 an_used_at = None, an_created_at = nw\<rparr>)
               (nonce_clash coll) (next_nonce t) (auth_nonces t) of
            Inl e \<Rightarrow> Inl e
          | Inr (i, rs, n) \<Rightarrow> Inr ((), t\<lparr>auth_nonces := rs, next_nonce := n\<rparr>))))"

text \<open>The \<open>WHERE\<close> clause of \<open>UseNonce\<close>.\<close>

definition usable_nonce :: "collation \<Rightarrow> string \<Rightarrow> string \<Rightarrow> string \<Rightarrow> time_ms \<Rightarrow> nonce_row \<Rightarrow> bool" where
  "usable_nonce coll nonceHash clientPeerID nodePeerID nw r \<longleftrightarrow>
     coll (an_nonce_hash r) = coll nonceHash \<and> coll (an_client_peer_id r) = coll clientPeerID \<and>
     coll (an_node_peer_id r) = coll nodePeerID \<and> an_used_at r = None \<and> nw \<le> an_expires_at r"

definition UseNonce :: "collation \<Rightarrow> string \<Rightarrow> string \<Rightarrow> string \<Rightarrow> time_ms \<Rightarrow> (store, err, unit) em" where
  "UseNonce coll nonceHash clientPeerID nodePeerID nw =
     bind_e (map_err (wrap ''use nonce'')
       (sql_exec (\<lambda>t.
          let p = usable_nonce coll nonceHash clientPeerID nodePeerID nw in
          Inr (count_where p (auth_nonces t),
               t\<lparr>auth_nonces := update_where p (\<lambda>r. r\<lparr>an_used_at := Some nw\<rparr>) (auth_nonces t)\<rparr>))))
     (\<lambda>affected. if affected = 0 then raise ErrNotFound else ret ())"

section \<open>Lemmas: users\<close>

definition users_ok :: "collation \<Rightarrow> tables \<Rightarrow> bool" where
  "users_ok coll t \<longleftrightarrow> ids_below u_id (next_user t) (users t) \<and>
     distinct (map (\<lambda>u. coll (u_user_id u)) (users t)) \<and>
     distinct (map (\<lambda>u. coll (u_peer_id u)) (users t))"

interpretation uk_user_id: unique_key "user_clash coll" "\<lambda>u. coll (u_user_id u)" for coll
  by unfold_locales (simp add: user_clash_def)

interpretation uk_peer_id: unique_key "user_clash coll" "\<lambda>u. coll (u_peer_id u)" for coll
  by unfold_locales (simp add: user_clash_def)

text \<open>Every user of \<open>t\<close> is still there in \<open>t'\<close>, with its identifiers.\<close>

definition users_kept :: "tables \<Rightarrow> tables \<Rightarrow> bool" where
  "users_kept t t' \<longleftrightarrow> prefix (map (\<lambda>u. (u_id u, u_user_id u, u_peer_id u)) (users t))
                            (map (\<lambda>u. (u_id u, u_user_id u, u_peer_id u)) (users t'))"

lemma users_kept_refl [simp]: "users_kept t t"
  by (simp add: users_kept_def)

lemma users_kept_trans: "users_kept t t' \<Longrightarrow> users_kept t' t'' \<Longrightarrow> users_kept t t''"
  unfolding users_kept_def by (rule prefix_order.trans)

lemma upsert_user_cases:
  assumes "upsert_user coll uid peerID pk dn nw t = Inr (x, t')"
  obtains (update) u where "t' = t\<lparr>users := update_where (\<lambda>r. u_id r = u_id u)
        (\<lambda>r. r\<lparr>u_pubkey := new_pubkey pk (u_pubkey r), u_updated_at := nw\<rparr>) (users t)\<rparr>"
      and "u \<in> set (users t)"
      and "coll (u_user_id u) = coll uid \<or> coll (u_peer_id u) = coll peerID"
  | (insert) i rs n mk where "insert_row mk (user_clash coll) (next_user t) (users t) = Inr (i, rs, n)"
      and "t' = t\<lparr>users := rs, next_user := n\<rparr>"
      and "\<And>j. u_id (mk j) = j" and "\<And>j. u_peer_id (mk j) = peerID" and "\<And>j. u_user_id (mk j) = uid"
      and "find (\<lambda>u. coll (u_peer_id u) = coll peerID) (users t) = None"
  using assms
  by (auto simp: upsert_user_def split: option.splits sum.splits prod.splits dest!: find_SomeD)

lemma upsert_user_ok:
  assumes "users_ok coll t" "upsert_user coll uid peerID pk dn nw t = Inr (x, t')"
  shows "users_ok coll t'"
  using assms(2)
proof (cases rule: upsert_user_cases)
  case (update u)
  with assms(1) show ?thesis by (simp add: users_ok_def ids_below_update)
next
  case (insert i rs n mk)
  with assms(1) show ?thesis
    by (simp add: users_ok_def ids_below_insert uk_user_id.distinct_insert
        uk_peer_id.distinct_insert)
qed

lemma upsert_user_kept: "upsert_user coll uid peerID pk dn nw t = Inr (x, t') \<Longrightarrow> users_kept t t'"
  by (elim upsert_user_cases) (auto simp: users_kept_def insert_row_Inr)

lemma keeps_CreateIfNotExistsByPeerID [keeps_intros]:
  "keeps (on_tabs (users_ok coll)) (CreateIfNotExistsByPeerID coll peerID pk)"
  unfolding CreateIfNotExistsByPeerID_def GetByPeerID_def
  by (intro keeps_intros) (rule upsert_user_ok)

lemma users_ok_update_login:
  "users_ok coll t \<Longrightarrow> users_ok coll (t\<lparr>users := update_where p
     (\<lambda>u. u\<lparr>u_pubkey := f u, u_last_login_at := g u, u_updated_at := h u\<rparr>) (users t)\<rparr>)"
  by (simp add: users_ok_def ids_below_update)

lemma keeps_UpdateLogin [keeps_intros]: "keeps (on_tabs (users_ok coll)) (UpdateLogin i pk w)"
  unfolding UpdateLogin_def by (intro keeps_intros users_ok_update_login)

text \<open>A frame: the operations of this theory change no other table.\<close>

definition same_but_users :: "tables \<Rightarrow> tables \<Rightarrow> bool" where
  "same_but_users t t' \<longleftrightarrow> t' = t\<lparr>users := users t', next_user := next_user t'\<rparr>"

lemma CreateIfNotExistsByPeerID_Inr:
  assumes "CreateIfNotExistsByPeerID coll peerID pk s = (Inr u, s')"
  shows "\<exists>uid x. upsert_user coll uid peerID (emptyBytesToNil pk) (''Peer '' @ shortPeerID peerID)
            (now_ms s) (tabs s) = Inr (x, tabs s') \<and>
         map_option to_user (find (\<lambda>u. coll (u_peer_id u) = coll peerID) (users (tabs s'))) = Some u"
  using assms unfolding CreateIfNotExistsByPeerID_def GetByPeerID_def
  by (auto simp: em_simps)

lemma users_kept_id:
  assumes "users_ok coll t'" "users_kept t t'" "u \<in> set (users t)"
  shows "\<exists>u' \<in> set (users t'). u_id u' = u_id u \<and> u_user_id u' = u_user_id u \<and>
           u_peer_id u' = u_peer_id u"
proof -
  from assms(2) have "set (map (\<lambda>u. (u_id u, u_user_id u, u_peer_id u)) (users t)) \<subseteq>
      set (map (\<lambda>u. (u_id u, u_user_id u, u_peer_id u)) (users t'))"
    unfolding users_kept_def by (rule set_mono_prefix)
  with assms(3) have "(u_id u, u_user_id u, u_peer_id u)
      \<in> set (map (\<lambda>u. (u_id u, u_user_id u, u_peer_id u)) (users t'))"
    by auto
  then show ?thesis by auto
qed

lemma find_peer_unique:
  assumes "users_ok coll t" "u \<in> set (users t)" "coll (u_peer_id u) = coll peerID"
  shows "find (\<lambda>u. coll (u_peer_id u) = coll peerID) (users t) = Some u"
  using find_unique [of "\<lambda>u. coll (u_peer_id u)" "users t" u] assms by (simp add: users_ok_def)

section \<open>Lemmas: nonces\<close>

interpretation uk_nonce: unique_key "nonce_clash coll" "\<lambda>r. coll (an_nonce_hash r)" for coll
  by unfold_locales (simp add: nonce_clash_def)

definition nonces_ok :: "collation \<Rightarrow> tables \<Rightarrow> bool" where
  "nonces_ok coll t \<longleftrightarrow> ids_below an_id (next_nonce t) (auth_nonces t) \<and>
     distinct (map (\<lambda>r. coll (an_nonce_hash r)) (auth_nonces t))"

text \<open>The nonce with this hash was issued and has been used.\<close>

definition nonce_spent :: "collation \<Rightarrow> string \<Rightarrow> tables \<Rightarrow> bool" where
  "nonce_spent coll h t \<longleftrightarrow>
     (\<exists>r \<in> set (auth_nonces t). coll (an_nonce_hash r) = coll h) \<and>
     (\<forall>r \<in> set (auth_nonces t). coll (an_nonce_hash r) = coll h \<longrightarrow> an_used_at r \<noteq> None)"

lemma StoreNonce_Inr [em_simps]:
  "StoreNonce coll h c n iss ex s = (Inr x, s') \<longleftrightarrow> \<not> faulty s \<and>
     (\<exists>i rs m. insert_row (\<lambda>i. \<lparr>an_id = i, an_nonce_hash = h, an_client_peer_id = c,
                 an_node_peer_id = n, an_issued_at = iss, an_expires_at = ex,
                 an_used_at = None, an_created_at = now_ms s\<rparr>)
               (nonce_clash coll) (next_nonce (tabs s)) (auth_nonces (tabs s)) = Inr (i, rs, m) \<and>
        s' = (tick s)\<lparr>tabs := (tabs s)\<lparr>auth_nonces := rs, next_nonce := m\<rparr>\<rparr>)"
  unfolding StoreNonce_def by (auto simp: em_simps split: sum.splits prod.splits)

lemma UseNonce_Inr [em_simps]:
  "UseNonce coll h c n w s = (Inr x, s') \<longleftrightarrow>
     \<not> faulty s \<and> (\<exists>r \<in> set (auth_nonces (tabs s)). usable_nonce coll h c n w r) \<and>
     s' = (tick s)\<lparr>tabs := (tabs s)\<lparr>auth_nonces := update_where (usable_nonce coll h c n w)
            (\<lambda>r. r\<lparr>an_used_at := Some w\<rparr>) (auth_nonces (tabs s))\<rparr>\<rparr>"
  unfolding UseNonce_def
  by (auto simp: em_simps Let_def count_where_0_iff count_where_pos_iff)

lemma nonces_ok_insert:
  "nonces_ok coll t \<Longrightarrow> insert_row mk (nonce_clash coll) (next_nonce t) (auth_nonces t) = Inr (i, rs, n)
     \<Longrightarrow> (\<And>j. an_id (mk j) = j) \<Longrightarrow> nonces_ok coll (t\<lparr>auth_nonces := rs, next_nonce := n\<rparr>)"
  by (simp add: nonces_ok_def ids_below_insert uk_nonce.distinct_insert)

lemma nonces_ok_use:
  "nonces_ok coll t \<Longrightarrow>
     nonces_ok coll (t\<lparr>auth_nonces := update_where p (\<lambda>r. r\<lparr>an_used_at := u\<rparr>) (auth_nonces t)\<rparr>)"
  by (simp add: nonces_ok_def ids_below_update)

lemma keeps_StoreNonce [keeps_intros]: "keeps (on_tabs (nonces_ok coll)) (StoreNonce coll h c n iss ex)"
  unfolding StoreNonce_def
  by (intro keeps_intros) (auto split: sum.splits prod.splits intro!: nonces_ok_insert)

lemma keeps_UseNonce [keeps_intros]: "keeps (on_tabs (nonces_ok coll)) (UseNonce coll h c n w)"
  unfolding UseNonce_def by (intro keeps_intros) (auto simp: Let_def intro!: nonces_ok_use)

lemma UseNonce_spends_distinct:
  assumes "distinct (map (\<lambda>r. coll (an_nonce_hash r)) (auth_nonces (tabs s)))"
    "UseNonce coll h c n w s = (Inr (), s')"
  shows "nonce_spent coll h (tabs s')"
proof -
  from assms(2) obtain r where r: "r \<in> set (auth_nonces (tabs s))" "usable_nonce coll h c n w r"
    and s': "auth_nonces (tabs s') = update_where (usable_nonce coll h c n w)
            (\<lambda>r. r\<lparr>an_used_at := Some w\<rparr>) (auth_nonces (tabs s))"
    by (auto simp: em_simps)
  have inj: "inj_on (\<lambda>r. coll (an_nonce_hash r)) (set (auth_nonces (tabs s)))"
    using assms(1) by (simp add: distinct_map)
  have "r' = r" if "r' \<in> set (auth_nonces (tabs s))" "coll (an_nonce_hash r') = coll h" for r'
    using inj_onD [OF inj _ that(1) r(1)] that(2) r(2) by (simp add: usable_nonce_def)
  then have "\<not> (\<not> usable_nonce coll h c n w x \<and> coll (an_nonce_hash x) = coll h)"
    if "x \<in> set (auth_nonces (tabs s))" for x
    using that r(2) by blast
  then have "an_used_at x \<noteq> None" if "x \<in> set (auth_nonces (tabs s'))" "coll (an_nonce_hash x) = coll h" for x
    using that by (auto simp: s' set_update_where)
  moreover have "r\<lparr>an_used_at := Some w\<rparr> \<in> set (auth_nonces (tabs s'))"
    using r by (auto simp: s' set_update_where)
  moreover have "coll (an_nonce_hash (r\<lparr>an_used_at := Some w\<rparr>)) = coll h"
    using r(2) by (simp add: usable_nonce_def)
  ultimately show ?thesis unfolding nonce_spent_def by blast
qed

lemma UseNonce_spends:
  "nonces_ok coll (tabs s) \<Longrightarrow> UseNonce coll h c n w s = (Inr (), s') \<Longrightarrow> nonce_spent coll h (tabs s')"
  by (rule UseNonce_spends_distinct) (simp_all add: nonces_ok_def)

lemma spent_refused: "nonce_spent coll h (tabs s) \<Longrightarrow> UseNonce coll h c n w s \<noteq> (Inr x, s')"
  by (auto simp: em_simps nonce_spent_def usable_nonce_def)

lemma keeps_spent_StoreNonce [keeps_intros]:
  "keeps (on_tabs (nonce_spent coll h)) (StoreNonce coll h' c n iss ex)"
  unfolding StoreNonce_def
  by (intro keeps_intros)
    (auto simp: nonce_spent_def insert_row_Inr nonce_clash_def split: sum.splits prod.splits)

lemma keeps_spent_UseNonce [keeps_intros]:
  "keeps (on_tabs (nonce_spent coll h)) (UseNonce coll h' c n w)"
  unfolding UseNonce_def
  by (intro keeps_intros) (auto simp: nonce_spent_def set_update_where usable_nonce_def Let_def)

text \<open>The example satisfies the invariant.\<close>

lemma ex_users_ok: "users_ok ex_coll (tabs ex_store)"
  by (simp add: users_ok_def ids_below_def ex_defs)

end
