(* ===== verification/Auth.thy ===== *)
theory Auth
  imports Config Store_Users
begin

text \<open>
  Challenge-response authentication, \<open>internal/auth/service.go\<close> and \<open>internal/auth/model.go\<close>:
  a challenge is issued and its nonce stored, the client signs the payload of the challenge,
  and the proof is verified, the nonce consumed, the user created or updated and a session
  identifier made.

  The key operations of libp2p (\<open>UnmarshalPublicKey\<close>, \<open>IDFromPublicKey\<close> with
  \<open>ID.String\<close>, \<open>PubKey.Verify\<close>) and SHA-256 are arguments. Lifetimes are whole
  milliseconds. The lemmas show that a proof is accepted only for a signature of the key
  whose peer id is claimed, over exactly the fields of the challenge, that accepting it
  spends the nonce, and that a spent nonce is never accepted again.
\<close>

section \<open>Model\<close>

record challenge =
  cl_ClientPeerID :: string
  cl_NodePeerID :: string
  cl_Nonce :: "byte list"
  cl_IssuedAt :: time_ms
  cl_ExpiresAt :: time_ms
  cl_Payload :: "byte list"

record verify_challenge_input =
  vi_ClientPeerID :: string
  vi_NodePeerID :: string
  vi_Nonce :: "byte list"
  vi_IssuedAt :: time_ms
  vi_ExpiresAt :: time_ms
  vi_Signature :: "byte list"
  vi_PublicKey :: "byte list"

record auth_result =
  ar_SessionID :: string
  ar_User :: user
  ar_Message :: string

record 'pk auth_env =
  ae_coll :: collation
  ae_sha256 :: "byte list \<Rightarrow> byte list"
  ae_UnmarshalPublicKey :: "byte list \<Rightarrow> err + 'pk"
  ae_IDFromPublicKey :: "'pk \<Rightarrow> err + string"
  ae_Verify :: "'pk \<Rightarrow> byte list \<Rightarrow> byte list \<Rightarrow> err + bool"

section \<open>The payload\<close>

text \<open>\<open>base64.StdEncoding.EncodeToString\<close>.\<close>

definition b64_char :: "nat \<Rightarrow> char" where
  "b64_char n = ''ABCDEFGHIJKLMNOPQRSTUVWXYZabcdefghijklmnopqrstuvwxyz0123456789+/'' ! n"

fun base64_encode :: "byte list \<Rightarrow> string" where
  "base64_encode [] = []"
| "base64_encode [a] =
     [b64_char (unat a div 4), b64_char (unat a mod 4 * 16), CHR ''='', CHR ''='']"
| "base64_encode [a, b] =
     [b64_char (unat a div 4), b64_char (unat a mod 4 * 16 + unat b div 16),
      b64_char (unat b mod 16 * 4), CHR ''='']"
| "base64_encode (a # b # c # rest) =
     [b64_char (unat a div 4), b64_char (unat a mod 4 * 16 + unat b div 16),
      b64_char (unat b mod 16 * 4 + unat c div 64), b64_char (unat c mod 64)] @ base64_encode rest"

text \<open>\<open>[]byte(s)\<close>.\<close>

definition string_bytes :: "string \<Rightarrow> byte list" where
  "string_bytes s = map (\<lambda>c. word_of_nat (of_char c)) s"

abbreviation newline :: char where
  "newline \<equiv> CHR 0x0A"

definition payload_text :: "string \<Rightarrow> challenge \<Rightarrow> string" where
  "payload_text protocolID ch =
     ''protocol_id='' @ protocolID @ [newline] @
     ''client_peer_id='' @ cl_ClientPeerID ch @ [newline] @
     ''node_peer_id='' @ cl_NodePeerID ch @ [newline] @
     ''nonce='' @ base64_encode (cl_Nonce ch) @ [newline] @
     ''issued_at_ms='' @ show_int (cl_IssuedAt ch) @ [newline] @
     ''expires_at_ms='' @ show_int (cl_ExpiresAt ch) @ [newline]"

definition BuildChallengePayload :: "string \<Rightarrow> challenge \<Rightarrow> byte list" where
  "BuildChallengePayload protocolID ch = string_bytes (payload_text protocolID ch)"

definition nonceHash :: "'pk auth_env \<Rightarrow> byte list \<Rightarrow> string" where
  "nonceHash A nonce = hex_encode (ae_sha256 A nonce)"

definition newSessionID :: "(store, 'e, string) em" where
  "newSessionID = bind_e (rand_Read 12) (\<lambda>buf. case buf of
       None \<Rightarrow> bind_e time_Now (\<lambda>n. ret (''sess_'' @ show_int n))
     | Some b \<Rightarrow> ret (''sess_'' @ hex_encode b))"

section \<open>Operations\<close>

definition IssueChallenge :: "'pk auth_env \<Rightarrow> config \<Rightarrow> string \<Rightarrow> string \<Rightarrow> (store, err, challenge) em" where
  "IssueChallenge A cfg clientPeerID nodePeerID =
     bind_e (rand_Read 32) (\<lambda>buf. case buf of
       None \<Rightarrow> raise (wrap ''generate challenge nonce'' DriverErr)
     | Some rawNonce \<Rightarrow>
         bind_e now (\<lambda>nw.
         let expiresAt = nw + cf_ChallengeTTL cfg div 1000000 in
         bind_e (StoreNonce (ae_coll A) (nonceHash A rawNonce) clientPeerID nodePeerID nw expiresAt) (\<lambda>_.
         let ch = \<lparr>cl_ClientPeerID = clientPeerID, cl_NodePeerID = nodePeerID, cl_Nonce = rawNonce,
                   cl_IssuedAt = nw, cl_ExpiresAt = expiresAt, cl_Payload = []\<rparr> in
         ret (ch\<lparr>cl_Payload := BuildChallengePayload (cf_Libp2pProtocolID cfg) ch\<rparr>))))"

text \<open>The challenge that the fields of a proof describe.\<close>

definition proof_challenge :: "verify_challenge_input \<Rightarrow> challenge" where
  "proof_challenge inp = \<lparr>cl_ClientPeerID = vi_ClientPeerID inp, cl_NodePeerID = vi_NodePeerID inp,
     cl_Nonce = vi_Nonce inp, cl_IssuedAt = vi_IssuedAt inp, cl_ExpiresAt = vi_ExpiresAt inp,
     cl_Payload = []\<rparr>"

definition VerifyChallenge :: "'pk auth_env \<Rightarrow> config \<Rightarrow> verify_challenge_input
    \<Rightarrow> (store, err, auth_result) em" where
  "VerifyChallenge A cfg inp =
     bind_e now (\<lambda>nw.
     if vi_ExpiresAt inp < nw \<or> nw < vi_IssuedAt inp - 60000 then raise (Errorf ''challenge expired'')
     else case ae_UnmarshalPublicKey A (vi_PublicKey inp) of
       Inl e \<Rightarrow> raise (wrap ''unmarshal public key'' e)
     | Inr pubKey \<Rightarrow> (case ae_IDFromPublicKey A pubKey of
         Inl e \<Rightarrow> raise (wrap ''derive peer id from pubkey'' e)
       | Inr derivedPeerID \<Rightarrow>
         if derivedPeerID \<noteq> vi_ClientPeerID inp then raise (Errorf ''peer id mismatch'')
         else (case ae_Verify A pubKey
                (BuildChallengePayload (cf_Libp2pProtocolID cfg) (proof_challenge inp)) (vi_Signature inp) of
             Inl e \<Rightarrow> raise (wrap ''verify challenge signature'' e)
           | Inr ok \<Rightarrow>
             if \<not> ok then raise (Errorf ''invalid challenge signature'')
             else
               bind_e (map_err (wrap ''consume challenge nonce'')
                 (UseNonce (ae_coll A) (nonceHash A (vi_Nonce inp)) (vi_ClientPeerID inp) (vi_NodePeerID inp) nw)) (\<lambda>_.
               bind_e (CreateIfNotExistsByPeerID (ae_coll A) (vi_ClientPeerID inp) (vi_PublicKey inp)) (\<lambda>usr.
               bind_e (UpdateLogin (us_ID usr) (vi_PublicKey inp) nw) (\<lambda>_.
               bind_e newSessionID (\<lambda>sessionID.
               ret \<lparr>ar_SessionID = sessionID, ar_User = usr, ar_Message = ''authenticated''\<rparr>)))))))"

section \<open>Lemmas: the payload determines the challenge\<close>

lemma b64_char_inj: "m < 64 \<Longrightarrow> n < 64 \<Longrightarrow> b64_char m = b64_char n \<longleftrightarrow> m = n"
proof -
  let ?al = "''ABCDEFGHIJKLMNOPQRSTUVWXYZabcdefghijklmnopqrstuvwxyz0123456789+/''"
  have "distinct ?al" by simp
  then show "m < 64 \<Longrightarrow> n < 64 \<Longrightarrow> b64_char m = b64_char n \<longleftrightarrow> m = n"
    unfolding b64_char_def by (subst nth_eq_iff_index_eq) simp_all
qed

lemma b64_char_set:
  assumes "n < 64"
  shows "b64_char n \<noteq> CHR ''=''" "CHR ''='' \<noteq> b64_char n" "b64_char n \<noteq> newline" "newline \<noteq> b64_char n"
proof -
  let ?al = "''ABCDEFGHIJKLMNOPQRSTUVWXYZabcdefghijklmnopqrstuvwxyz0123456789+/''"
  have "b64_char n \<in> set ?al" unfolding b64_char_def using assms by (intro nth_mem) simp
  then show "b64_char n \<noteq> CHR ''=''" "CHR ''='' \<noteq> b64_char n" "b64_char n \<noteq> newline" "newline \<noteq> b64_char n"
    by auto
qed

text \<open>The four six-bit digits of a group are below 64 and give its bytes back.\<close>

lemma sextets:
  fixes a b c :: byte
  shows "unat a div 4 < 64" "unat a mod 4 * 16 < 64" "unat a mod 4 * 16 + unat b div 16 < 64"
    "unat b mod 16 * 4 < 64" "unat b mod 16 * 4 + unat c div 64 < 64" "unat c mod 64 < 64"
proof -
  have "unat a < 256" "unat b < 256" "unat c < 256"
    using unsigned_less [of a, where 'a = nat] unsigned_less [of b, where 'a = nat]
      unsigned_less [of c, where 'a = nat] by simp_all
  then have "unat a div 4 < 64" "unat b div 16 < 16" "unat c div 64 < 4" by auto
  moreover have "unat a mod 4 \<le> 3" "unat b mod 16 \<le> 15" by simp_all
  ultimately show "unat a div 4 < 64" "unat a mod 4 * 16 < 64" "unat a mod 4 * 16 + unat b div 16 < 64"
    "unat b mod 16 * 4 < 64" "unat b mod 16 * 4 + unat c div 64 < 64" "unat c mod 64 < 64"
    by auto
qed

lemmas sextet_simps = sextets b64_char_set b64_char_inj

lemma split_digits:
  fixes x y :: nat
  assumes "x * k + d = y * k + e" "d < k" "e < k"
  shows "x = y \<and> d = e"
proof -
  from assms have "(x * k + d) div k = (y * k + e) div k" "(x * k + d) mod k = (y * k + e) mod k" by simp_all
  with assms(2,3) show ?thesis by simp
qed

lemma byte_eqI:
  fixes x y :: byte
  assumes "unat x div k = unat y div k" "unat x mod k = unat y mod k"
  shows "x = y"
  using assms by (metis div_mult_mod_eq unsigned_word_eqI)

lemma group_digits:
  fixes a b c a' b' c' :: byte
  shows "unat a mod 4 * 16 + unat b div 16 = unat a' mod 4 * 16 + unat b' div 16 \<Longrightarrow>
      unat a mod 4 = unat a' mod 4 \<and> unat b div 16 = unat b' div 16"
    and "unat b mod 16 * 4 + unat c div 64 = unat b' mod 16 * 4 + unat c' div 64 \<Longrightarrow>
      unat b mod 16 = unat b' mod 16 \<and> unat c div 64 = unat c' div 64"
proof -
  have d: "unat x div 16 < 16" "unat x div 64 < 4" for x :: byte
  proof -
    have "unat x < 256" using unsigned_less [of x, where 'a = nat] by simp
    then show "unat x div 16 < 16" "unat x div 64 < 4" by auto
  qed
  show "unat a mod 4 * 16 + unat b div 16 = unat a' mod 4 * 16 + unat b' div 16 \<Longrightarrow>
      unat a mod 4 = unat a' mod 4 \<and> unat b div 16 = unat b' div 16"
    by (rule split_digits [OF _ d(1) d(1)])
  show "unat b mod 16 * 4 + unat c div 64 = unat b' mod 16 * 4 + unat c' div 64 \<Longrightarrow>
      unat b mod 16 = unat b' mod 16 \<and> unat c div 64 = unat c' div 64"
    by (rule split_digits [OF _ d(2) d(2)])
qed

lemma base64_encode_inj: "base64_encode xs = base64_encode ys \<Longrightarrow> xs = ys"
proof (induction xs arbitrary: ys rule: base64_encode.induct)
  case 1
  then show ?case by (cases ys rule: base64_encode.cases) simp_all
next
  case (2 a)
  then show ?case
    by (cases ys rule: base64_encode.cases) (auto simp: sextet_simps intro: byte_eqI [where k = 4])
next
  case (3 a b)
  then show ?case
    by (cases ys rule: base64_encode.cases)
      (auto simp: sextet_simps dest!: group_digits intro: byte_eqI [where k = 4] byte_eqI [where k = 16])
next
  case (4 a b c rest)
  show ?case
  proof (cases ys rule: base64_encode.cases)
    case (4 a' b' c' rest')
    with "4.prems" have eq: "unat a div 4 = unat a' div 4"
      "unat a mod 4 * 16 + unat b div 16 = unat a' mod 4 * 16 + unat b' div 16"
      "unat b mod 16 * 4 + unat c div 64 = unat b' mod 16 * 4 + unat c' div 64"
      "unat c mod 64 = unat c' mod 64" "base64_encode rest = base64_encode rest'"
      by (simp_all add: sextet_simps)
    have "a = a'" "b = b'" "c = c'"
      using eq(1,4) group_digits(1) [OF eq(2)] group_digits(2) [OF eq(3)]
      by (auto intro: byte_eqI [where k = 4] byte_eqI [where k = 16] byte_eqI [where k = 64])
    with eq(5) "4.IH" 4 show ?thesis by simp
  qed (use "4.prems" in \<open>auto simp: sextet_simps\<close>)
qed

lemma newline_free:
  "newline \<notin> set (base64_encode bs)" "newline \<notin> set (show_int i)"
proof -
  show "newline \<notin> set (base64_encode bs)"
    by (induction bs rule: base64_encode.induct) (auto simp: sextet_simps)
  have "\<not> is_digit newline" by (simp add: is_digit_def)
  then have "newline \<notin> set (show_nat n)" for n
    using show_nat_digits [of n] unfolding list_all_iff by blast
  then show "newline \<notin> set (show_int i)" by (simp add: show_int_def)
qed

lemma line_eq:
  assumes "newline \<notin> set xs" "newline \<notin> set ys" "xs @ newline # u = ys @ newline # v"
  shows "xs = ys \<and> u = v"
proof -
  have tw: "takeWhile (\<lambda>c. c \<noteq> newline) (zs @ newline # w) = zs"
      "dropWhile (\<lambda>c. c \<noteq> newline) (zs @ newline # w) = newline # w" if "newline \<notin> set zs" for zs w
    using that by (induction zs) auto
  show ?thesis
    using tw [OF assms(1), of u] tw [OF assms(2), of v] assms(3) by simp
qed

lemma string_bytes_inj: "string_bytes s = string_bytes t \<Longrightarrow> s = t"
proof -
  have "(word_of_nat (of_char c) :: byte) = word_of_nat (of_char d) \<longleftrightarrow> c = d" for c d
  proof
    assume "(word_of_nat (of_char c) :: byte) = word_of_nat (of_char d)"
    then have "unat (word_of_nat (of_char c) :: byte) = unat (word_of_nat (of_char d) :: byte)" by simp
    moreover have "(of_char x :: nat) < 2 ^ 8" for x by simp
    ultimately have "(of_char c :: nat) = of_char d" by (simp add: unat_of_nat_less)
    then show "c = d" by simp
  qed simp
  then have "inj (\<lambda>c. word_of_nat (of_char c) :: byte)" by (simp add: inj_def)
  then show "string_bytes s = string_bytes t \<Longrightarrow> s = t" by (simp add: string_bytes_def)
qed

text \<open>A challenge whose texts have no line break, as peer and protocol identifiers have none.\<close>

definition plain_challenge :: "string \<Rightarrow> challenge \<Rightarrow> bool" where
  "plain_challenge protocolID ch \<longleftrightarrow> newline \<notin> set protocolID \<and> newline \<notin> set (cl_ClientPeerID ch) \<and>
     newline \<notin> set (cl_NodePeerID ch)"

lemma lines_inj:
  assumes "\<forall>l \<in> set xs. newline \<notin> set l" "\<forall>l \<in> set ys. newline \<notin> set l" "length xs = length ys"
    and "concat (map (\<lambda>l. l @ [newline]) xs) = concat (map (\<lambda>l. l @ [newline]) ys)"
  shows "xs = ys"
  using assms
proof (induction xs arbitrary: ys)
  case (Cons x xs)
  then obtain y ys' where ys: "ys = y # ys'" by (cases ys) auto
  with Cons.prems(4) have "x @ newline # concat (map (\<lambda>l. l @ [newline]) xs) =
      y @ newline # concat (map (\<lambda>l. l @ [newline]) ys')" by simp
  moreover have "newline \<notin> set x" "newline \<notin> set y" using Cons.prems(1,2) ys by simp_all
  ultimately have "x = y" "concat (map (\<lambda>l. l @ [newline]) xs) = concat (map (\<lambda>l. l @ [newline]) ys')"
    using line_eq by blast+
  moreover have "xs = ys'" using Cons.IH [of ys'] Cons.prems(1-3) ys calculation(2) by simp
  ultimately show ?case using ys by simp
qed simp

definition payload_lines :: "string \<Rightarrow> challenge \<Rightarrow> string list" where
  "payload_lines p ch = [''protocol_id='' @ p, ''client_peer_id='' @ cl_ClientPeerID ch,
     ''node_peer_id='' @ cl_NodePeerID ch, ''nonce='' @ base64_encode (cl_Nonce ch),
     ''issued_at_ms='' @ show_int (cl_IssuedAt ch), ''expires_at_ms='' @ show_int (cl_ExpiresAt ch)]"

lemma payload_determines:
  assumes "BuildChallengePayload p ch = BuildChallengePayload p' ch'"
    and plain: "plain_challenge p ch" "plain_challenge p' ch'"
  shows "p = p' \<and> cl_ClientPeerID ch = cl_ClientPeerID ch' \<and> cl_NodePeerID ch = cl_NodePeerID ch' \<and>
    cl_Nonce ch = cl_Nonce ch' \<and> cl_IssuedAt ch = cl_IssuedAt ch' \<and> cl_ExpiresAt ch = cl_ExpiresAt ch'"
proof -
  have lines: "payload_text q c = concat (map (\<lambda>l. l @ [newline]) (payload_lines q c))" for q c
    by (simp add: payload_text_def payload_lines_def)
  have free: "\<forall>l \<in> set (payload_lines q c). newline \<notin> set l" if "plain_challenge q c" for q c
    using that by (simp add: payload_lines_def plain_challenge_def newline_free)
  have "payload_text p ch = payload_text p' ch'"
    using assms(1) unfolding BuildChallengePayload_def by (rule string_bytes_inj)
  then have "concat (map (\<lambda>l. l @ [newline]) (payload_lines p ch)) =
      concat (map (\<lambda>l. l @ [newline]) (payload_lines p' ch'))" by (simp only: lines)
  moreover have "length (payload_lines p ch) = length (payload_lines p' ch')" by (simp add: payload_lines_def)
  ultimately have "payload_lines p ch = payload_lines p' ch'"
    using lines_inj [OF free [OF plain(1)] free [OF plain(2)]] by blast
  then have "p = p' \<and> cl_ClientPeerID ch = cl_ClientPeerID ch' \<and> cl_NodePeerID ch = cl_NodePeerID ch' \<and>
      base64_encode (cl_Nonce ch) = base64_encode (cl_Nonce ch') \<and>
      show_int (cl_IssuedAt ch) = show_int (cl_IssuedAt ch') \<and>
      show_int (cl_ExpiresAt ch) = show_int (cl_ExpiresAt ch')"
    by (simp add: payload_lines_def)
  then show ?thesis by (blast intro: base64_encode_inj show_int_inj)
qed

section \<open>Lemmas: accepting a proof\<close>

lemma newSessionID_Inr: "newSessionID s = (r, s') \<Longrightarrow> tabs s' = tabs s \<and> (\<exists>x. r = Inr x)"
  by (auto simp: newSessionID_def bind_e_def rand_Read_def time_Now_def
      split: list.splits option.splits)

lemma VerifyChallenge_Inr:
  assumes "VerifyChallenge A cfg inp s = (Inr res, s')"
  obtains pubKey s1 s2 s3 where
    "now_ms s \<le> vi_ExpiresAt inp" "vi_IssuedAt inp - 60000 \<le> now_ms s"
    "ae_UnmarshalPublicKey A (vi_PublicKey inp) = Inr pubKey"
    "ae_IDFromPublicKey A pubKey = Inr (vi_ClientPeerID inp)"
    "ae_Verify A pubKey (BuildChallengePayload (cf_Libp2pProtocolID cfg) (proof_challenge inp))
       (vi_Signature inp) = Inr True"
    "UseNonce (ae_coll A) (nonceHash A (vi_Nonce inp)) (vi_ClientPeerID inp) (vi_NodePeerID inp)
       (now_ms s) s = (Inr (), s1)"
    "CreateIfNotExistsByPeerID (ae_coll A) (vi_ClientPeerID inp) (vi_PublicKey inp) s1 = (Inr (ar_User res), s2)"
    "UpdateLogin (us_ID (ar_User res)) (vi_PublicKey inp) (now_ms s) s2 = (Inr (), s3)"
    "tabs s' = tabs s3"
  using assms
  by (auto simp: VerifyChallenge_def em_simps not_less dest: newSessionID_Inr)
    (metis (no_types, lifting) newSessionID_Inr not_less)

lemma UseNonce_Inl: "UseNonce coll h c n w s = (Inl e, s') \<Longrightarrow> tabs s' = tabs s"
proof -
  assume "UseNonce coll h c n w s = (Inl e, s')"
  moreover have "update_where p f rs = rs" if "count_where p rs = 0" for p :: "nonce_row \<Rightarrow> bool" and f rs
    using that by (intro update_where_none) (simp add: count_where_0_iff)
  ultimately show ?thesis
    by (auto simp: UseNonce_def bind_e_Inl map_err_Inl sql_exec_def Let_def em_simps
        split: if_splits sum.splits prod.splits)
qed

lemma StoreNonce_Inl: "StoreNonce coll h c n i x s = (Inl e, s') \<Longrightarrow> tabs s' = tabs s"
  by (auto simp: StoreNonce_def bind_e_Inl map_err_Inl sql_exec_def em_simps now_def
      split: if_splits sum.splits prod.splits)

text \<open>Creating or updating a user leaves the other tables alone.\<close>

lemma CreateIfNotExistsByPeerID_frame:
  "CreateIfNotExistsByPeerID coll p pk s = (r, s') \<Longrightarrow> same_but_users (tabs s) (tabs s')"
  by (auto simp: CreateIfNotExistsByPeerID_def GetByPeerID_def bind_e_def now_def newExternalID_simp
      map_err_def sql_exec_def upsert_user_def same_but_users_def
      split: if_splits sum.splits prod.splits option.splits dest!: fetchOne_tabs)

lemma UpdateLogin_frame: "UpdateLogin i pk w s = (r, s') \<Longrightarrow> same_but_users (tabs s) (tabs s')"
  by (auto simp: UpdateLogin_def map_err_def sql_update_def sql_exec_def same_but_users_def
      split: if_splits sum.splits prod.splits)

lemma same_but_users_trans: "same_but_users t t' \<Longrightarrow> same_but_users t' t'' \<Longrightarrow> same_but_users t t''"
  by (cases t; cases t'; cases t'') (simp add: same_but_users_def)

lemma same_but_users_nonces:
  assumes "same_but_users t t'"
  shows "auth_nonces t' = auth_nonces t \<and> next_nonce t' = next_nonce t"
proof -
  from assms have t': "t' = t\<lparr>users := users t', next_user := next_user t'\<rparr>" by (simp add: same_but_users_def)
  show ?thesis by (subst (1 2) t') simp
qed

lemmas user_frames = CreateIfNotExistsByPeerID_frame [THEN same_but_users_nonces]
  UpdateLogin_frame [THEN same_but_users_nonces]

lemma VerifyChallenge_nonces:
  assumes "VerifyChallenge A cfg inp s = (r, s')"
  shows "auth_nonces (tabs s') = auth_nonces (tabs s) \<and> next_nonce (tabs s') = next_nonce (tabs s) \<and>
      (\<exists>e. r = Inl e) \<or>
    (\<exists>s1. UseNonce (ae_coll A) (nonceHash A (vi_Nonce inp)) (vi_ClientPeerID inp) (vi_NodePeerID inp)
        (now_ms s) s = (Inr (), s1) \<and>
       auth_nonces (tabs s') = auth_nonces (tabs s1) \<and> next_nonce (tabs s') = next_nonce (tabs s1))"
  using assms
  by (auto simp: VerifyChallenge_def bind_e_def map_err_def now_def
      split: if_splits sum.splits prod.splits
      dest!: UseNonce_Inl user_frames newSessionID_Inr)

lemma IssueChallenge_effect:
  assumes "IssueChallenge A cfg c n s = (r, s')"
  shows "tabs s' = tabs s \<and> (\<exists>e. r = Inl e) \<or>
    (\<exists>ch x s1. r = Inr ch \<and> cl_ClientPeerID ch = c \<and> cl_NodePeerID ch = n \<and> length (cl_Nonce ch) = 32 \<and>
       cl_IssuedAt ch = now_ms s \<and> cl_ExpiresAt ch = now_ms s + cf_ChallengeTTL cfg div 1000000 \<and>
       cl_Payload ch = BuildChallengePayload (cf_Libp2pProtocolID cfg) (ch\<lparr>cl_Payload := []\<rparr>) \<and>
       tabs s1 = tabs s \<and>
       StoreNonce (ae_coll A) (nonceHash A (cl_Nonce ch)) c n (now_ms s) (cl_ExpiresAt ch) s1 = (Inr x, s'))"
  using assms
  by (auto simp: IssueChallenge_def bind_e_def rand_Read_def rand_buffer_def now_def Let_def
      split: if_splits sum.splits prod.splits list.splits option.splits dest!: StoreNonce_Inl)

section \<open>Lemmas: runs of the authentication service\<close>

text \<open>
  A run of the service: which challenges it has issued and which proofs it has accepted, in
  any interleaving with failing calls and with operations of the other components, which do
  not touch the nonces, and with the passage of time.
\<close>

inductive auth_run :: "'pk auth_env \<Rightarrow> config \<Rightarrow> challenge list \<Rightarrow> verify_challenge_input list \<Rightarrow> store \<Rightarrow> bool"
  for A :: "'pk auth_env" and cfg :: config where
  start: "auth_nonces (tabs s) = [] \<Longrightarrow> auth_run A cfg [] [] s"
| issue: "auth_run A cfg iss acc s \<Longrightarrow> IssueChallenge A cfg c n s = (Inr ch, s') \<Longrightarrow>
    auth_run A cfg (ch # iss) acc s'"
| issue_fails: "auth_run A cfg iss acc s \<Longrightarrow> IssueChallenge A cfg c n s = (Inl e, s') \<Longrightarrow>
    auth_run A cfg iss acc s'"
| accept: "auth_run A cfg iss acc s \<Longrightarrow> VerifyChallenge A cfg inp s = (Inr res, s') \<Longrightarrow>
    auth_run A cfg iss (inp # acc) s'"
| reject: "auth_run A cfg iss acc s \<Longrightarrow> VerifyChallenge A cfg inp s = (Inl e, s') \<Longrightarrow>
    auth_run A cfg iss acc s'"
| other: "auth_run A cfg iss acc s \<Longrightarrow> auth_nonces (tabs s') = auth_nonces (tabs s) \<Longrightarrow>
    next_nonce (tabs s') = next_nonce (tabs s) \<Longrightarrow> auth_run A cfg iss acc s'"

text \<open>A proof answers a challenge when the database takes their nonces and peers for equal.\<close>

definition answers :: "'pk auth_env \<Rightarrow> verify_challenge_input \<Rightarrow> challenge \<Rightarrow> bool" where
  "answers A inp ch \<longleftrightarrow>
     ae_coll A (nonceHash A (vi_Nonce inp)) = ae_coll A (nonceHash A (cl_Nonce ch)) \<and>
     ae_coll A (vi_ClientPeerID inp) = ae_coll A (cl_ClientPeerID ch) \<and>
     ae_coll A (vi_NodePeerID inp) = ae_coll A (cl_NodePeerID ch)"

definition issued_row :: "'pk auth_env \<Rightarrow> challenge list \<Rightarrow> nonce_row \<Rightarrow> bool" where
  "issued_row A iss r \<longleftrightarrow> (\<exists>ch \<in> set iss. an_nonce_hash r = nonceHash A (cl_Nonce ch) \<and>
     an_client_peer_id r = cl_ClientPeerID ch \<and> an_node_peer_id r = cl_NodePeerID ch \<and>
     an_expires_at r = cl_ExpiresAt ch)"

definition run_inv :: "'pk auth_env \<Rightarrow> challenge list \<Rightarrow> verify_challenge_input list \<Rightarrow> tables \<Rightarrow> bool" where
  "run_inv A iss acc t \<longleftrightarrow>
     distinct (map (\<lambda>r. ae_coll A (an_nonce_hash r)) (auth_nonces t)) \<and>
     (\<forall>r \<in> set (auth_nonces t). issued_row A iss r) \<and>
     (\<forall>inp \<in> set acc. nonce_spent (ae_coll A) (nonceHash A (vi_Nonce inp)) t \<and>
        (\<exists>ch \<in> set iss. answers A inp ch)) \<and>
     distinct (map (\<lambda>inp. ae_coll A (nonceHash A (vi_Nonce inp))) acc)"

lemma run_inv_nonces: "auth_nonces t' = auth_nonces t \<Longrightarrow> run_inv A iss acc t' = run_inv A iss acc t"
  by (simp add: run_inv_def nonce_spent_def)

lemma issued_row_more: "issued_row A iss r \<Longrightarrow> issued_row A (ch # iss) r"
  by (auto simp: issued_row_def)

lemma run_inv_issue:
  assumes "run_inv A iss acc (tabs s)" "tabs s1 = tabs s"
    and "StoreNonce (ae_coll A) (nonceHash A (cl_Nonce ch)) (cl_ClientPeerID ch) (cl_NodePeerID ch) w
      (cl_ExpiresAt ch) s1 = (Inr x, s')"
  shows "run_inv A (ch # iss) acc (tabs s')"
proof -
  have "nonce_spent (ae_coll A) h (tabs s) \<Longrightarrow> nonce_spent (ae_coll A) h (tabs s')" for h
    using keepsD2 [OF keeps_spent_StoreNonce assms(3), of h] assms(2) by (simp add: on_tabs_def)
  moreover define mk where "mk = (\<lambda>i. \<lparr>an_id = i, an_nonce_hash = nonceHash A (cl_Nonce ch),
      an_client_peer_id = cl_ClientPeerID ch, an_node_peer_id = cl_NodePeerID ch, an_issued_at = w,
      an_expires_at = cl_ExpiresAt ch, an_used_at = None, an_created_at = now_ms s1\<rparr>)"
  moreover obtain i rs n where ins: "insert_row mk (nonce_clash (ae_coll A)) (next_nonce (tabs s))
      (auth_nonces (tabs s)) = Inr (i, rs, n)" "auth_nonces (tabs s') = rs"
    using assms(2,3) by (auto simp: em_simps mk_def)
  moreover have "issued_row A (ch # iss) (mk i)" by (simp add: issued_row_def mk_def)
  ultimately show ?thesis
    using assms(1) uk_nonce.distinct_insert [OF ins(1)]
    by (auto simp: run_inv_def insert_row_Inr intro: issued_row_more)
qed

lemma run_inv_use:
  assumes inv: "run_inv A iss acc (tabs s)"
    and use: "UseNonce (ae_coll A) (nonceHash A (vi_Nonce inp)) (vi_ClientPeerID inp) (vi_NodePeerID inp) w s
      = (Inr (), s1)"
  shows "run_inv A iss (inp # acc) (tabs s1)"
proof -
  let ?h = "nonceHash A (vi_Nonce inp)" and ?c = "ae_coll A"
  obtain r where r: "r \<in> set (auth_nonces (tabs s))"
      "usable_nonce ?c ?h (vi_ClientPeerID inp) (vi_NodePeerID inp) w r"
    and s1: "auth_nonces (tabs s1) = update_where (usable_nonce ?c ?h (vi_ClientPeerID inp) (vi_NodePeerID inp) w)
      (\<lambda>r. r\<lparr>an_used_at := Some w\<rparr>) (auth_nonces (tabs s))"
    using use by (auto simp: em_simps)
  have "issued_row A iss r" using inv r(1) by (simp add: run_inv_def)
  then have ans: "\<exists>ch \<in> set iss. answers A inp ch"
    using r(2) unfolding issued_row_def answers_def usable_nonce_def by metis
  have kept: "nonce_spent ?c h (tabs s) \<Longrightarrow> nonce_spent ?c h (tabs s1)" for h
    using keepsD2 [OF keeps_spent_UseNonce use, of h] by (simp add: on_tabs_def)
  have fresh: "?c (nonceHash A (vi_Nonce i)) \<noteq> ?c ?h" if "i \<in> set acc" for i
  proof
    assume eq: "?c (nonceHash A (vi_Nonce i)) = ?c ?h"
    have "nonce_spent ?c (nonceHash A (vi_Nonce i)) (tabs s)" using inv that by (simp add: run_inv_def)
    then have "nonce_spent ?c ?h (tabs s)" by (simp add: nonce_spent_def eq)
    then show False using spent_refused use by blast
  qed
  have ids: "distinct (map (\<lambda>r. ?c (an_nonce_hash r)) (auth_nonces (tabs s)))"
    using inv by (simp add: run_inv_def)
  have "nonce_spent ?c ?h (tabs s1)"
    using UseNonce_spends_distinct [OF ids use] .
  moreover have "distinct (map (\<lambda>inp. ?c (nonceHash A (vi_Nonce inp))) (inp # acc))"
  proof -
    have "?c ?h \<notin> (\<lambda>i. ?c (nonceHash A (vi_Nonce i))) ` set acc"
    proof
      assume "?c ?h \<in> (\<lambda>i. ?c (nonceHash A (vi_Nonce i))) ` set acc"
      then obtain i where "i \<in> set acc" "?c (nonceHash A (vi_Nonce i)) = ?c ?h" by (auto elim!: imageE)
      with fresh show False by blast
    qed
    then show ?thesis using inv by (simp add: run_inv_def)
  qed
  moreover have "\<forall>r \<in> set (auth_nonces (tabs s1)). issued_row A iss r"
    using inv by (auto simp: run_inv_def s1 set_update_where issued_row_def)
  moreover have "distinct (map (\<lambda>r. ?c (an_nonce_hash r)) (auth_nonces (tabs s1)))"
    using ids by (simp add: s1)
  moreover have "\<forall>i \<in> set acc. nonce_spent ?c (nonceHash A (vi_Nonce i)) (tabs s1) \<and> (\<exists>ch \<in> set iss. answers A i ch)"
    using inv kept by (simp add: run_inv_def)
  ultimately show ?thesis using ans by (simp add: run_inv_def)
qed

lemma auth_run_inv: "auth_run A cfg iss acc s \<Longrightarrow> run_inv A iss acc (tabs s)"
proof (induction rule: auth_run.induct)
  case (start s)
  then show ?case by (simp add: run_inv_def)
next
  case (issue iss acc s c n ch s')
  from IssueChallenge_effect [OF issue.hyps(2)] obtain x s1 where "tabs s1 = tabs s"
    "StoreNonce (ae_coll A) (nonceHash A (cl_Nonce ch)) (cl_ClientPeerID ch) (cl_NodePeerID ch) (now_ms s)
      (cl_ExpiresAt ch) s1 = (Inr x, s')" by auto
  with issue.IH show ?case by (rule run_inv_issue)
next
  case (issue_fails iss acc s c n e s')
  from IssueChallenge_effect [OF issue_fails.hyps(2)] issue_fails.IH show ?case by auto
next
  case (accept iss acc s inp res s')
  from VerifyChallenge_nonces [OF accept.hyps(2)] obtain s1 where
    use: "UseNonce (ae_coll A) (nonceHash A (vi_Nonce inp)) (vi_ClientPeerID inp) (vi_NodePeerID inp)
        (now_ms s) s = (Inr (), s1)" and eq: "auth_nonces (tabs s') = auth_nonces (tabs s1)" by auto
  from run_inv_use [OF accept.IH use] show ?case by (simp only: run_inv_nonces [OF eq])
next
  case (reject iss acc s inp e s')
  have less: "run_inv A iss acc t" if "run_inv A iss (inp # acc) t" for t
    using that by (simp add: run_inv_def)
  from VerifyChallenge_nonces [OF reject.hyps(2)] consider
    "auth_nonces (tabs s') = auth_nonces (tabs s)"
    | s1 where "UseNonce (ae_coll A) (nonceHash A (vi_Nonce inp)) (vi_ClientPeerID inp) (vi_NodePeerID inp)
        (now_ms s) s = (Inr (), s1)" "auth_nonces (tabs s') = auth_nonces (tabs s1)" by blast
  then show ?case
  proof cases
    case 1
    from reject.IH show ?thesis by (simp only: run_inv_nonces [OF 1])
  next
    case 2
    from less [OF run_inv_use [OF reject.IH 2(1)]] show ?thesis by (simp only: run_inv_nonces [OF 2(2)])
  qed
next
  case (other iss acc s s')
  from other.IH show ?case by (simp only: run_inv_nonces [OF other.hyps(2)])
qed

section \<open>Lemmas: an honest proof is accepted\<close>

lemma upsert_known:
  assumes "\<exists>u \<in> set (users t). coll (u_peer_id u) = coll p"
  shows "\<exists>t'. upsert_user coll uid p pk dn nw t = Inr ((), t') \<and> map u_peer_id (users t') = map u_peer_id (users t)"
proof -
  have "find (\<lambda>u. coll (u_peer_id u) = coll p) (users t) \<noteq> None" using assms by (auto simp: find_None_iff)
  then show ?thesis unfolding upsert_user_def by (auto split: option.splits)
qed

text \<open>The user of a known peer is found or updated, whatever the random source gives.\<close>

lemma CreateIfNotExists_known:
  assumes s: "faults s = []" and u: "\<exists>u \<in> set (users (tabs s)). coll (u_peer_id u) = coll p"
  shows "\<exists>usr s'. CreateIfNotExistsByPeerID coll p pk s = (Inr usr, s') \<and> faults s' = []"
proof -
  obtain t where t: "upsert_user coll (ext_id ''u'' s) p (emptyBytesToNil pk) (''Peer '' @ shortPeerID p) (now_ms s) (tabs s)
      = Inr ((), t)" and ids: "map u_peer_id (users t) = map u_peer_id (users (tabs s))"
    using upsert_known [OF u] by blast
  let ?s = "(rand_used s)\<lparr>tabs := t\<rparr>"
  have f: "faults ?s = []" "tick (rand_used s) = rand_used s"
    using s by (simp_all add: tick_def rand_used_def)
  have "u_peer_id ` set (users t) = u_peer_id ` set (users (tabs s))" using ids by (metis set_map)
  then have "find (\<lambda>u. coll (u_peer_id u) = coll p) (users t) \<noteq> None"
    using u by (auto simp: find_None_iff) (metis imageE imageI)
  then obtain row where row: "find (\<lambda>u. coll (u_peer_id u) = coll p) (users t) = Some row" by blast
  have "CreateIfNotExistsByPeerID coll p pk s = (Inr (to_user row), tick ?s)"
    using s t row f
    by (simp add: CreateIfNotExistsByPeerID_def bind_e_def now_def newExternalID_simp map_err_def sql_exec_def
        GetByPeerID_def fetchOne_simp faulty_def)
  then show ?thesis using f(1) by (simp add: tick_def)
qed

text \<open>The proof with which the owner of a key answers a challenge.\<close>

definition answer :: "challenge \<Rightarrow> byte list \<Rightarrow> byte list \<Rightarrow> verify_challenge_input" where
  "answer ch sig pub = \<lparr>vi_ClientPeerID = cl_ClientPeerID ch, vi_NodePeerID = cl_NodePeerID ch, vi_Nonce = cl_Nonce ch,
     vi_IssuedAt = cl_IssuedAt ch, vi_ExpiresAt = cl_ExpiresAt ch, vi_Signature = sig, vi_PublicKey = pub\<rparr>"

lemma answer_accepted:
  assumes issue: "IssueChallenge A cfg c n s = (Inr ch, s1)"
    and key: "ae_UnmarshalPublicKey A pub = Inr pk" "ae_IDFromPublicKey A pk = Inr c"
      "ae_Verify A pk (cl_Payload ch) sig = Inr True"
    and s2: "faults s2 = []" "auth_nonces (tabs s2) = auth_nonces (tabs s1)"
      "cl_IssuedAt ch \<le> now_ms s2" "now_ms s2 \<le> cl_ExpiresAt ch"
      "\<exists>u \<in> set (users (tabs s2)). ae_coll A (u_peer_id u) = ae_coll A c"
  shows "\<exists>res s3. VerifyChallenge A cfg (answer ch sig pub) s2 = (Inr res, s3)"
proof -
  let ?h = "nonceHash A (cl_Nonce ch)"
  from IssueChallenge_effect [OF issue] obtain x s0 where ch: "cl_ClientPeerID ch = c" "cl_NodePeerID ch = n"
      "cl_Payload ch = BuildChallengePayload (cf_Libp2pProtocolID cfg) (ch\<lparr>cl_Payload := []\<rparr>)"
    and st: "StoreNonce (ae_coll A) ?h c n (now_ms s) (cl_ExpiresAt ch) s0 = (Inr x, s1)" by auto
  have pc: "proof_challenge (answer ch sig pub) = ch\<lparr>cl_Payload := []\<rparr>"
    by (simp add: proof_challenge_def answer_def)
  have "\<exists>r \<in> set (auth_nonces (tabs s2)). usable_nonce (ae_coll A) ?h c n (now_ms s2) r"
    using st s2(2,4) by (auto simp: StoreNonce_Inr insert_row_Inr usable_nonce_def)
  then obtain s3 where use: "UseNonce (ae_coll A) ?h c n (now_ms s2) s2 = (Inr (), s3)"
    and s3: "faults s3 = []" "users (tabs s3) = users (tabs s2)"
    using s2(1) by (simp add: UseNonce_Inr tick_def)
  obtain usr s4 where usr: "CreateIfNotExistsByPeerID (ae_coll A) c pub s3 = (Inr usr, s4)" "faults s4 = []"
    using CreateIfNotExists_known [of s3 "ae_coll A" c pub] s3 s2(5) by auto
  obtain s5 where login: "UpdateLogin (us_ID usr) pub (now_ms s2) s4 = (Inr (), s5)"
    using usr(2) by (simp add: UpdateLogin_def map_err_def sql_update_def sql_exec_def)
  obtain sid s6 where sess: "newSessionID s5 = (Inr sid :: err + string, s6)"
    using newSessionID_Inr [of s5] by (metis surj_pair)
  show ?thesis
    using key s2(3,4) ch pc use usr(1) login sess
    by (simp add: VerifyChallenge_def bind_e_def now_def map_err_def answer_def)
qed

section \<open>Properties\<close>

text \<open>
  C4: in every run of the service, in any interleaving of issued challenges, accepted and
  rejected proofs, failures and operations of other components, each accepted proof answers
  a challenge that was issued to the same peer by the same node, and no two accepted proofs
  carry the same nonce.
\<close>

theorem no_replay:
  assumes "auth_run A cfg iss acc s"
  shows "(\<forall>inp \<in> set acc. \<exists>ch \<in> set iss. answers A inp ch) \<and>
    distinct (map (\<lambda>inp. ae_coll A (nonceHash A (vi_Nonce inp))) acc)"
  using auth_run_inv [OF assms] by (auto simp: run_inv_def)

definition ex_auth :: "byte list auth_env" where
  "ex_auth = \<lparr>ae_coll = ex_coll, ae_sha256 = id, ae_UnmarshalPublicKey = Inr, ae_IDFromPublicKey = \<lambda>k. Inr ''p1'',
     ae_Verify = \<lambda>k payload sig. Inr (sig = k)\<rparr>"

definition ex_random :: store where
  "ex_random = ex_store\<lparr>entropy := [Some (replicate 32 7)], tabs := ex_tables\<lparr>auth_nonces := []\<rparr>\<rparr>"

definition ex_challenge :: challenge where
  "ex_challenge = (let ch = \<lparr>cl_ClientPeerID = ''p1'', cl_NodePeerID = ''n1'', cl_Nonce = replicate 32 7,
       cl_IssuedAt = 100000, cl_ExpiresAt = 400000, cl_Payload = []\<rparr>
     in ch\<lparr>cl_Payload := BuildChallengePayload (cf_Libp2pProtocolID defaults) ch\<rparr>)"

lemma ex_issue:
  "\<exists>s1. IssueChallenge ex_auth defaults ''p1'' ''n1'' ex_random = (Inr ex_challenge, s1) \<and> faults s1 = [] \<and>
    now_ms s1 = 100000 \<and> users (tabs s1) = users ex_tables"
proof -
  have ttl: "cf_ChallengeTTL defaults = 300000000000" by (simp add: defaults_def)
  have rnd: "rand_Read 32 ex_random = (Inr (Some (replicate 32 7)) :: err + byte list option, ex_random\<lparr>entropy := []\<rparr>)"
    by (simp add: rand_Read_def rand_buffer_def ex_random_def)
  have clk: "now_ms ex_random = 100000" by (simp add: now_ms_def ex_random_def ex_store_def)
  obtain s1 where st: "StoreNonce ex_coll (nonceHash ex_auth (replicate 32 7)) ''p1'' ''n1'' 100000 400000
      (ex_random\<lparr>entropy := []\<rparr>) = (Inr (), s1)" and s1: "faults s1 = []" "now_ms s1 = 100000" "users (tabs s1) = users ex_tables"
    by (simp add: StoreNonce_def bind_e_def now_def map_err_def sql_exec_def insert_row_def auto_id_def tick_def faulty_def
        now_ms_def ex_random_def ex_store_def ex_tables_def empty_tables_def)
  have coll: "ae_coll ex_auth = ex_coll" by (simp add: ex_auth_def)
  show ?thesis
    using st s1 by (simp add: IssueChallenge_def bind_e_def now_def ttl coll rnd clk ex_challenge_def Let_def)
qed

lemma ex_accept:
  "\<exists>s1 res s2. IssueChallenge ex_auth defaults ''p1'' ''n1'' ex_random = (Inr ex_challenge, s1) \<and>
     VerifyChallenge ex_auth defaults (answer ex_challenge [1] [1]) s1 = (Inr res, s2)"
proof -
  obtain s1 where i: "IssueChallenge ex_auth defaults ''p1'' ''n1'' ex_random = (Inr ex_challenge, s1)"
    and s1: "faults s1 = []" "now_ms s1 = 100000" "users (tabs s1) = users ex_tables" using ex_issue by blast
  have "\<exists>u \<in> set (users (tabs s1)). ae_coll ex_auth (u_peer_id u) = ae_coll ex_auth ''p1''"
    by (simp add: s1(3) ex_tables_def ex_user_def)
  then have "\<exists>res s2. VerifyChallenge ex_auth defaults (answer ex_challenge [1] [1]) s1 = (Inr res, s2)"
    using s1 by (intro answer_accepted [OF i]) (simp_all add: ex_auth_def ex_challenge_def Let_def)
  with i show ?thesis by blast
qed

theorem no_replay_witness:
  "\<exists>s. auth_run ex_auth defaults [ex_challenge] [answer ex_challenge [1] [1]] s \<and>
     (\<exists>ch \<in> set [ex_challenge]. answers ex_auth (answer ex_challenge [1] [1]) ch)"
proof -
  obtain s1 res s2 where run: "IssueChallenge ex_auth defaults ''p1'' ''n1'' ex_random = (Inr ex_challenge, s1)"
    "VerifyChallenge ex_auth defaults (answer ex_challenge [1] [1]) s1 = (Inr res, s2)" using ex_accept by blast
  have "auth_nonces (tabs ex_random) = []" by (simp add: ex_random_def)
  then have "auth_run ex_auth defaults [ex_challenge] [answer ex_challenge [1] [1]] s2"
    by (intro auth_run.accept [OF auth_run.issue [OF auth_run.start run(1)] run(2)])
  from no_replay [OF this] this show ?thesis by auto
qed

text \<open>
  C25: a proof is accepted only when the server has stored the nonce for this client and this
  node, the nonce is unused and the expiry the server stored with it has not passed, whatever
  expiry the proof names, which must not have passed either; only from the key whose peer id
  the proof claims, and only with a signature of that key over exactly the fields of the
  proof. Accepting it spends the nonce, and a later proof with that nonce is refused in
  every state that still holds the nonce rows.
\<close>

theorem accepted_proof_sound:
  assumes "nonces_ok (ae_coll A) (tabs s)" "VerifyChallenge A cfg inp s = (Inr res, s')"
    and "auth_nonces (tabs s2) = auth_nonces (tabs s')" "nonceHash A (vi_Nonce inp2) = nonceHash A (vi_Nonce inp)"
  shows "now_ms s \<le> vi_ExpiresAt inp \<and>
    (\<exists>r \<in> set (auth_nonces (tabs s)). ae_coll A (an_nonce_hash r) = ae_coll A (nonceHash A (vi_Nonce inp)) \<and>
       ae_coll A (an_client_peer_id r) = ae_coll A (vi_ClientPeerID inp) \<and>
       ae_coll A (an_node_peer_id r) = ae_coll A (vi_NodePeerID inp) \<and>
       an_used_at r = None \<and> now_ms s \<le> an_expires_at r) \<and>
    (\<exists>pk. ae_UnmarshalPublicKey A (vi_PublicKey inp) = Inr pk \<and> ae_IDFromPublicKey A pk = Inr (vi_ClientPeerID inp) \<and>
       ae_Verify A pk (BuildChallengePayload (cf_Libp2pProtocolID cfg) (proof_challenge inp)) (vi_Signature inp) = Inr True) \<and>
    ae_coll A (us_PeerID (ar_User res)) = ae_coll A (vi_ClientPeerID inp) \<and>
    (\<forall>res2 s3. VerifyChallenge A cfg inp2 s2 \<noteq> (Inr res2, s3))"
proof -
  obtain pk s1 s1' where v: "now_ms s \<le> vi_ExpiresAt inp" "ae_UnmarshalPublicKey A (vi_PublicKey inp) = Inr pk"
    "ae_IDFromPublicKey A pk = Inr (vi_ClientPeerID inp)"
    "ae_Verify A pk (BuildChallengePayload (cf_Libp2pProtocolID cfg) (proof_challenge inp)) (vi_Signature inp) = Inr True"
    and use: "UseNonce (ae_coll A) (nonceHash A (vi_Nonce inp)) (vi_ClientPeerID inp) (vi_NodePeerID inp) (now_ms s) s = (Inr (), s1)"
    and cr: "CreateIfNotExistsByPeerID (ae_coll A) (vi_ClientPeerID inp) (vi_PublicKey inp) s1 = (Inr (ar_User res), s1')"
    using assms(2) by (rule VerifyChallenge_Inr)
  have peer: "ae_coll A (us_PeerID (ar_User res)) = ae_coll A (vi_ClientPeerID inp)"
  proof -
    obtain row where "find (\<lambda>u. ae_coll A (u_peer_id u) = ae_coll A (vi_ClientPeerID inp)) (users (tabs s1')) = Some row"
      "ar_User res = to_user row" using CreateIfNotExistsByPeerID_Inr [OF cr] by auto
    then show ?thesis by (auto simp: to_user_def dest!: find_SomeD)
  qed
  have "nonce_spent (ae_coll A) (nonceHash A (vi_Nonce inp)) (tabs s1)"
    by (rule UseNonce_spends [OF assms(1) use])
  moreover have "auth_nonces (tabs s') = auth_nonces (tabs s1)"
    using VerifyChallenge_nonces [OF assms(2)] use by auto
  ultimately have spent: "nonce_spent (ae_coll A) (nonceHash A (vi_Nonce inp2)) (tabs s2)"
    by (simp add: nonce_spent_def assms(3,4))
  have "VerifyChallenge A cfg inp2 s2 \<noteq> (Inr res2, s3)" for res2 s3
  proof
    assume "VerifyChallenge A cfg inp2 s2 = (Inr res2, s3)"
    then obtain s4 where "UseNonce (ae_coll A) (nonceHash A (vi_Nonce inp2)) (vi_ClientPeerID inp2) (vi_NodePeerID inp2)
        (now_ms s2) s2 = (Inr (), s4)" by (rule VerifyChallenge_Inr)
    then show False using spent_refused [OF spent] by blast
  qed
  moreover from use have "\<exists>r \<in> set (auth_nonces (tabs s)). usable_nonce (ae_coll A) (nonceHash A (vi_Nonce inp))
      (vi_ClientPeerID inp) (vi_NodePeerID inp) (now_ms s) r" by (simp add: UseNonce_Inr)
  ultimately show ?thesis using v peer unfolding usable_nonce_def by blast
qed

theorem accepted_proof_sound_witness:
  "\<exists>s1 res s2. VerifyChallenge ex_auth defaults (answer ex_challenge [1] [1]) s1 = (Inr res, s2) \<and>
     (\<forall>res2 s3. VerifyChallenge ex_auth defaults (answer ex_challenge [1] [1]) s2 \<noteq> (Inr res2, s3))"
proof -
  obtain s1 res s2 where run: "IssueChallenge ex_auth defaults ''p1'' ''n1'' ex_random = (Inr ex_challenge, s1)"
    "VerifyChallenge ex_auth defaults (answer ex_challenge [1] [1]) s1 = (Inr res, s2)" using ex_accept by blast
  have "nonces_ok ex_coll (tabs ex_random)"
    by (simp add: nonces_ok_def ids_below_def ex_random_def ex_tables_def)
  moreover have k: "keeps (on_tabs (nonces_ok ex_coll)) (IssueChallenge ex_auth defaults ''p1'' ''n1'')"
    unfolding IssueChallenge_def Let_def ex_auth_def by (intro keeps_intros | simp)+
  ultimately have "nonces_ok (ae_coll ex_auth) (tabs s1)"
    using keepsD [OF k, of ex_random] run(1) by (simp add: on_tabs_def ex_auth_def)
  from accepted_proof_sound [OF this run(2) refl refl] run(2) show ?thesis by blast
qed



text \<open>
  The signed payload determines the challenge: two challenges with the same payload have
  the same protocol, peers, nonce and times, so a signature cannot be moved to another one.
\<close>

theorem payload_binds_challenge:
  assumes "BuildChallengePayload p ch = BuildChallengePayload p' ch'" "plain_challenge p ch" "plain_challenge p' ch'"
  shows "p = p' \<and> cl_ClientPeerID ch = cl_ClientPeerID ch' \<and> cl_NodePeerID ch = cl_NodePeerID ch' \<and>
    cl_Nonce ch = cl_Nonce ch' \<and> cl_IssuedAt ch = cl_IssuedAt ch' \<and> cl_ExpiresAt ch = cl_ExpiresAt ch'"
  using assms by (rule payload_determines)

theorem payload_binds_challenge_witness:
  "cl_Nonce ex_challenge = cl_Nonce (ex_challenge\<lparr>cl_Payload := []\<rparr>) \<and> plain_challenge ''/p'' ex_challenge"
proof -
  have p: "plain_challenge ''/p'' ex_challenge" "plain_challenge ''/p'' (ex_challenge\<lparr>cl_Payload := []\<rparr>)"
    by (simp_all add: plain_challenge_def ex_challenge_def Let_def)
  have "BuildChallengePayload ''/p'' ex_challenge = BuildChallengePayload ''/p'' (ex_challenge\<lparr>cl_Payload := []\<rparr>)"
    by (simp add: BuildChallengePayload_def payload_text_def)
  from payload_binds_challenge [OF this p] p show ?thesis by blast
qed

end
