(* ===== verification/Store_Spaces.thy ===== *)
theory Store_Spaces
  imports Store_Users
begin

text \<open>
  The space repository \<open>internal/repository/mysql/server.go\<close>, \<open>refreshAggregateCounts\<close> of
  \<open>bootstrap.go\<close> and \<open>default_admin_bootstrap.go\<close>: creating a space, joining, inviting,
  kicking, banning and unbanning members, changing roles. The lemmas at the end state the
  ownership and counter invariants of the tables and that every operation keeps them.
\<close>

section \<open>Queries\<close>

definition to_space :: "server_row \<Rightarrow> space" where
  "to_space r = \<lparr>sp_ID = sv_id r, sp_HostNodeID = sv_host_node_id r, sp_OwnerUserID = sv_owner_user_id r,
     sp_Name = sv_name r, sp_AvatarURL = coalesce [] (sv_avatar_url r),
     sp_Description = coalesce [] (sv_description r), sp_Visibility = sv_visibility r,
     sp_MemberCount = sv_member_count r, sp_ChannelCount = sv_channel_count r,
     sp_AllowChannelCreation = sv_allow_channel_creation r, sp_Status = sv_status r,
     sp_CreatedAt = sv_created_at r, sp_UpdatedAt = sv_updated_at r\<rparr>"

text \<open>\<open>INNER JOIN servers s ON s.id = i\<close> with a condition on \<open>s\<close>, used only to filter.\<close>

definition joins_server :: "tables \<Rightarrow> (server_row \<Rightarrow> bool) \<Rightarrow> uint32 \<Rightarrow> bool" where
  "joins_server t p i \<longleftrightarrow> (\<exists>s \<in> set (servers t). sv_id s = i \<and> p s)"

definition ListByUserID :: "collation \<Rightarrow> uint64 \<Rightarrow> (store, err, space list) em" where
  "ListByUserID coll userID = map_err (wrap ''list spaces by user id'')
     (sql_select (\<lambda>t. map to_space (sort_key (\<lambda>s. coll (sv_name s))
        [s. s \<leftarrow> servers t, sm \<leftarrow> server_members t,
            sm_space_id sm = sv_id s \<and> sm_user_id sm = userID \<and> \<not> sm_is_banned sm \<and> sv_status s = 1])))"

definition GetBySpaceID :: "uint32 \<Rightarrow> (store, err, space) em" where
  "GetBySpaceID spaceID =
     fetchOne (\<lambda>t. map_option to_space (find (\<lambda>s. sv_id s = spaceID) (servers t)))"

definition GetMemberRole :: "uint32 \<Rightarrow> uint64 \<Rightarrow> (store, err, role) em" where
  "GetMemberRole spaceID userID =
     fetchOne (\<lambda>t. map_option sm_role
       (find (\<lambda>sm. joins_server t (\<lambda>s. sv_id s = spaceID) (sm_space_id sm) \<and>
                   sm_user_id sm = userID \<and> \<not> sm_is_banned sm) (server_members t)))"

definition CanCreateGroup :: "uint32 \<Rightarrow> uint64 \<Rightarrow> (store, err, bool) em" where
  "CanCreateGroup spaceID userID = map_err (wrap ''check create group permission'')
     (sql_select (\<lambda>t. 0 < count_where (\<lambda>sm.
        joins_server t (\<lambda>s. sv_id s = spaceID \<and> sv_status s = 1 \<and> sv_allow_channel_creation s)
          (sm_space_id sm) \<and>
        sm_user_id sm = userID \<and> \<not> sm_is_banned sm \<and>
        (sm_role sm = RoleOwner \<or> sm_role sm = RoleAdmin)) (server_members t)))"

section \<open>Statements\<close>

text \<open>\<open>uk_server_members_server_user\<close>.\<close>

definition member_clash :: "server_member_row \<Rightarrow> server_member_row \<Rightarrow> bool" where
  "member_clash a b \<longleftrightarrow> sm_space_id a = sm_space_id b \<and> sm_user_id a = sm_user_id b"

definition is_member_row :: "uint32 \<Rightarrow> uint64 \<Rightarrow> server_member_row \<Rightarrow> bool" where
  "is_member_row spaceID userID r \<longleftrightarrow> sm_space_id r = spaceID \<and> sm_user_id r = userID"

definition new_member :: "uint32 \<Rightarrow> uint64 \<Rightarrow> role \<Rightarrow> bool \<Rightarrow> time_ms \<Rightarrow> uint64 \<Rightarrow> server_member_row" where
  "new_member spaceID userID rl banned nw i =
     \<lparr>sm_id = i, sm_space_id = spaceID, sm_user_id = userID, sm_role = rl,
      sm_nickname = None, sm_is_muted = False, sm_is_banned = banned, sm_joined_at = nw,
      sm_last_seen_at = Some nw, sm_created_at = nw, sm_updated_at = nw\<rparr>"

definition insert_member :: "uint32 \<Rightarrow> uint64 \<Rightarrow> role \<Rightarrow> bool \<Rightarrow> time_ms
    \<Rightarrow> tables \<Rightarrow> err + (unit \<times> tables)" where
  "insert_member spaceID userID rl banned nw t =
     (case insert_row (new_member spaceID userID rl banned nw) member_clash (next_server_member t) (server_members t) of
        Inl e \<Rightarrow> Inl e
      | Inr (i, rs, n) \<Rightarrow> Inr ((), t\<lparr>server_members := rs, next_server_member := n\<rparr>))"

definition update_member :: "uint32 \<Rightarrow> uint64 \<Rightarrow> (server_member_row \<Rightarrow> server_member_row)
    \<Rightarrow> tables \<Rightarrow> tables" where
  "update_member spaceID userID f t =
     t\<lparr>server_members := update_where (is_member_row spaceID userID) f (server_members t)\<rparr>"

definition update_server :: "uint32 \<Rightarrow> (server_row \<Rightarrow> server_row) \<Rightarrow> tables \<Rightarrow> tables" where
  "update_server spaceID f t = t\<lparr>servers := update_where (\<lambda>s. sv_id s = spaceID) f (servers t)\<rparr>"

text \<open>\<open>SELECT ... FROM servers WHERE id = ? FOR UPDATE\<close>, and the same for a membership.\<close>

definition lock_server :: "uint32 \<Rightarrow> (store, err, server_row) em" where
  "lock_server spaceID = fetchOne (\<lambda>t. find (\<lambda>s. sv_id s = spaceID) (servers t))"

definition lock_member :: "uint32 \<Rightarrow> uint64 \<Rightarrow> (store, err, server_member_row) em" where
  "lock_member spaceID userID =
     fetchOne (\<lambda>t. find (is_member_row spaceID userID) (server_members t))"

definition server_counts :: "uint32 \<Rightarrow> time_ms \<Rightarrow> tables \<Rightarrow> tables" where
  "server_counts spaceID nw t = update_server spaceID
     (\<lambda>s. s\<lparr>sv_member_count := of_nat (count_where
              (\<lambda>m. sm_space_id m = spaceID \<and> \<not> sm_is_banned m) (server_members t)),
            sv_channel_count := of_nat (count_where
              (\<lambda>c. ch_space_id c = spaceID \<and> ch_status c = 1) (channels t)),
            sv_updated_at := nw\<rparr>) t"

definition channel_counts :: "uint32 \<Rightarrow> time_ms \<Rightarrow> tables \<Rightarrow> tables" where
  "channel_counts spaceID nw t =
     t\<lparr>channels := update_where (\<lambda>c. ch_space_id c = spaceID)
        (\<lambda>c. c\<lparr>ch_subscriber_count := of_nat (count_where (\<lambda>m. cm_channel_id m = ch_id c) (channel_members t)),
               ch_member_count := of_nat (count_where (\<lambda>m. cm_channel_id m = ch_id c) (channel_members t)),
               ch_updated_at := nw\<rparr>) (channels t)\<rparr>"

definition refreshAggregateCounts :: "uint32 \<Rightarrow> (store, err, unit) em" where
  "refreshAggregateCounts serverDBID =
     bind_e now (\<lambda>nw.
     bind_e (map_err (wrap ''refresh server counts'') (sql_update (server_counts serverDBID nw))) (\<lambda>_.
     map_err (wrap ''refresh channel counts'') (sql_update (channel_counts serverDBID nw))))"

section \<open>Operations\<close>

record create_space_input =
  csi_HostNodeID :: uint64
  csi_CreatorUserID :: uint64
  csi_Name :: string
  csi_Description :: string
  csi_Visibility :: visibility
  csi_AllowChannelCreation :: bool

definition insert_server :: "create_space_input \<Rightarrow> time_ms \<Rightarrow> tables \<Rightarrow> err + (uint32 \<times> tables)" where
  "insert_server inp nw t =
     (case insert_row (\<lambda>i. \<lparr>sv_id = i, sv_host_node_id = csi_HostNodeID inp,
              sv_owner_user_id = csi_CreatorUserID inp, sv_name = TrimSpace (csi_Name inp),
              sv_avatar_url = None, sv_description = Some (TrimSpace (csi_Description inp)),
              sv_visibility = csi_Visibility inp,
              sv_allow_channel_creation = csi_AllowChannelCreation inp,
              sv_member_count = 1, sv_channel_count = 0, sv_status = 1,
              sv_created_at = nw, sv_updated_at = nw\<rparr>)
            (\<lambda>a b. False) (next_server t) (servers t) of
        Inl e \<Rightarrow> Inl e
      | Inr (i, rs, n) \<Rightarrow> Inr (i, t\<lparr>servers := rs, next_server := n\<rparr>))"

definition create_space_tx :: "create_space_input \<Rightarrow> (store, tx_exit, uint32) em" where
  "create_space_tx inp =
     bind_e now (\<lambda>nw.
     bind_e (tx_try (wrap ''insert space'') (sql_exec (insert_server inp nw))) (\<lambda>spaceDBID.
     bind_e (tx_try (wrap ''insert space owner membership'')
       (sql_exec (insert_member spaceDBID (csi_CreatorUserID inp) RoleOwner False nw))) (\<lambda>_.
     bind_e (tx_try id (refreshAggregateCounts spaceDBID)) (\<lambda>_.
     bind_e (tx_commit (wrap ''commit create space tx'')) (\<lambda>_.
     ret spaceDBID)))))"

text \<open>The texts of \<open>%q\<close> arguments are left out of the error values here and below.\<close>

definition CreateSpace :: "create_space_input \<Rightarrow> (store, err, space) em" where
  "CreateSpace inp =
     (if TrimSpace (csi_Name inp) = [] then raise (Errorf ''create space: name is required'')
      else if csi_Visibility inp \<notin> {VisibilityPublic, VisibilityPrivate}
        then raise (Errorf ''create space: unsupported visibility'')
      else bind_e (with_tx (wrap ''begin create space tx'') (create_space_tx inp))
             (\<lambda>spaceDBID. GetBySpaceID spaceDBID))"

definition addSpaceMember :: "uint32 \<Rightarrow> uint64 \<Rightarrow> bool \<Rightarrow> (store, err, space) em" where
  "addSpaceMember spaceID userID publicOnly =
     bind_e (with_tx (wrap ''begin add space member tx'')
       (bind_e (tx_try (wrap ''load space for member add'') (lock_server spaceID)) (\<lambda>spaceRow.
        handle_e (lock_member (sv_id spaceRow) userID)
          (\<lambda>e. if e \<noteq> ErrNotFound
                then raise (TxReturn (Some e) (wrap ''check existing space membership'' e))
                else if publicOnly \<and> sv_visibility spaceRow \<noteq> VisibilityPublic
                then raise (TxReturn (Some e) (Errorf ''space is private''))
                else bind_e now (\<lambda>nw.
                  bind_e (tx_try (wrap ''insert space membership'')
                    (sql_exec (insert_member (sv_id spaceRow) userID RoleMember False nw))) (\<lambda>_.
                  bind_e (tx_try id (refreshAggregateCounts (sv_id spaceRow))) (\<lambda>_.
                  bind_e (tx_commit (wrap ''commit add space member tx'')) (\<lambda>_.
                  ret (sv_id spaceRow))))))
          (\<lambda>existing. if sm_is_banned existing then raise (TxReturn None (Errorf ''user is banned''))
                else bind_e (tx_commit (wrap ''commit add space member tx (existing)'')) (\<lambda>_.
                  ret (sv_id spaceRow))))))
     (\<lambda>spaceDBID. GetBySpaceID spaceDBID)"

definition JoinSpace :: "uint32 \<Rightarrow> uint64 \<Rightarrow> (store, err, space) em" where
  "JoinSpace spaceID userID = addSpaceMember spaceID userID True"

definition InviteSpaceMember :: "uint32 \<Rightarrow> uint64 \<Rightarrow> (store, err, space) em" where
  "InviteSpaceMember spaceID targetUserID = addSpaceMember spaceID targetUserID False"

definition KickSpaceMember :: "uint32 \<Rightarrow> uint64 \<Rightarrow> (store, err, space) em" where
  "KickSpaceMember spaceID targetUserID =
     bind_e (with_tx (wrap ''begin kick space member tx'')
       (bind_e (tx_try (wrap ''load space for kick'') (lock_server spaceID)) (\<lambda>spaceRow.
        if targetUserID = sv_owner_user_id spaceRow
        then raise (TxReturn None (Errorf ''current owner cannot be removed''))
        else bind_e (tx_try (wrap ''load target space membership'')
               (lock_member (sv_id spaceRow) targetUserID)) (\<lambda>existing.
          if sm_is_banned existing then raise (TxReturn None (Errorf ''user is banned''))
          else bind_e (tx_try (wrap ''delete space membership'')
                 (sql_update (\<lambda>t. t\<lparr>server_members := delete_where
                    (is_member_row (sv_id spaceRow) targetUserID) (server_members t)\<rparr>))) (\<lambda>_.
            bind_e (tx_try id (refreshAggregateCounts (sv_id spaceRow))) (\<lambda>_.
            bind_e (tx_commit (wrap ''commit kick space member tx'')) (\<lambda>_.
            ret (sv_id spaceRow))))))))
     (\<lambda>spaceDBID. GetBySpaceID spaceDBID)"

definition BanSpaceMember :: "uint32 \<Rightarrow> uint64 \<Rightarrow> (store, err, space) em" where
  "BanSpaceMember spaceID targetUserID =
     bind_e (with_tx (wrap ''begin ban space member tx'')
       (bind_e (tx_try (wrap ''load space for ban'') (lock_server spaceID)) (\<lambda>spaceRow.
        if targetUserID = sv_owner_user_id spaceRow
        then raise (TxReturn None (Errorf ''current owner cannot be banned''))
        else bind_e now (\<lambda>nw.
          let finish = bind_e (tx_try id (refreshAggregateCounts (sv_id spaceRow))) (\<lambda>_.
                bind_e (tx_commit (wrap ''commit ban space member tx'')) (\<lambda>_.
                ret (sv_id spaceRow)))
          in handle_e (lock_member (sv_id spaceRow) targetUserID)
            (\<lambda>e. if e = ErrNotFound
                  then bind_e (tx_try (wrap ''insert banned space member'')
                    (sql_exec (insert_member (sv_id spaceRow) targetUserID RoleMember True nw))) (\<lambda>_.
                    finish)
                  else raise (TxReturn (Some e) (wrap ''load target space membership'' e)))
            (\<lambda>existing. if sm_is_banned existing
                  then bind_e (tx_commit (wrap ''commit ban space member tx (existing banned)'')) (\<lambda>_.
                    ret (sv_id spaceRow))
                  else bind_e (tx_try (wrap ''mark space member banned'')
                    (sql_update (update_member (sv_id spaceRow) targetUserID
                      (\<lambda>m. m\<lparr>sm_is_banned := True, sm_role := RoleMember, sm_updated_at := nw\<rparr>)))) (\<lambda>_.
                    finish))))))
     (\<lambda>spaceDBID. GetBySpaceID spaceDBID)"

definition UnbanSpaceMember :: "uint32 \<Rightarrow> uint64 \<Rightarrow> (store, err, space) em" where
  "UnbanSpaceMember spaceID targetUserID =
     bind_e (with_tx (wrap ''begin unban space member tx'')
       (bind_e (tx_try (wrap ''load space for unban'') (lock_server spaceID)) (\<lambda>spaceRow.
        if targetUserID = sv_owner_user_id spaceRow
        then raise (TxReturn None (Errorf ''current owner cannot be unbanned''))
        else bind_e (tx_try (wrap ''load target space membership'')
               (lock_member (sv_id spaceRow) targetUserID)) (\<lambda>existing.
          if \<not> sm_is_banned existing
          then bind_e (tx_commit (wrap ''commit unban space member tx (already unbanned)'')) (\<lambda>_.
            ret (sv_id spaceRow))
          else bind_e now (\<lambda>nw.
            bind_e (tx_try (wrap ''mark space member unbanned'')
              (sql_update (update_member (sv_id spaceRow) targetUserID
                (\<lambda>m. m\<lparr>sm_is_banned := False, sm_updated_at := nw\<rparr>)))) (\<lambda>_.
            bind_e (tx_try id (refreshAggregateCounts (sv_id spaceRow))) (\<lambda>_.
            bind_e (tx_commit (wrap ''commit unban space member tx'')) (\<lambda>_.
            ret (sv_id spaceRow)))))))))
     (\<lambda>spaceDBID. GetBySpaceID spaceDBID)"

text \<open>One row of the member listing: \<open>INNER JOIN users u ON u.id = sm.user_id\<close>.\<close>

definition to_space_member :: "server_member_row \<Rightarrow> user_row \<Rightarrow> space_member" where
  "to_space_member sm u = \<lparr>mb_MemberID = sm_id sm, mb_UserID = u_user_id u,
     mb_DisplayName = u_display_name u, mb_AvatarURL = coalesce [] (u_avatar_url u),
     mb_Role = sm_role sm, mb_Nickname = coalesce [] (sm_nickname sm), mb_IsMuted = sm_is_muted sm,
     mb_IsBanned = sm_is_banned sm, mb_JoinedAt = sm_joined_at sm,
     mb_LastSeenAt = coalesce (sm_joined_at sm) (sm_last_seen_at sm)\<rparr>"

definition listed_members :: "uint32 \<Rightarrow> tables \<Rightarrow> space_member list" where
  "listed_members spaceID t =
     [to_space_member sm u. sm \<leftarrow> server_members t,
        joins_server t (\<lambda>s. sv_id s = spaceID \<and> sv_status s = 1) (sm_space_id sm) \<and> \<not> sm_is_banned sm,
        u \<leftarrow> users t, u_id u = sm_user_id sm]"

definition ListSpaceMembers :: "uint32 \<Rightarrow> uint64 \<Rightarrow> uint32 \<Rightarrow> (store, err, space_member list) em" where
  "ListSpaceMembers spaceID afterMemberID limit =
     (let lim = (if limit = 0 then 20 else limit) in
      map_err (wrap ''list space members'')
        (sql_select (\<lambda>t. order_limit mb_MemberID (unat lim)
           (filter (\<lambda>m. afterMemberID < mb_MemberID m) (listed_members spaceID t)))))"

definition SetSpaceAllowChannelCreation :: "uint32 \<Rightarrow> bool \<Rightarrow> (store, err, unit) em" where
  "SetSpaceAllowChannelCreation spaceID enabled =
     with_tx (wrap ''begin update space allow-channel-creation tx'')
       (bind_e (tx_try (wrap ''load space for allow-channel-creation update'') (lock_server spaceID)) (\<lambda>spaceRow.
        bind_e now (\<lambda>nw.
        bind_e (tx_try (wrap ''update space allow-channel-creation'')
          (sql_update (update_server (sv_id spaceRow)
            (\<lambda>s. s\<lparr>sv_allow_channel_creation := enabled, sv_updated_at := nw\<rparr>)))) (\<lambda>_.
        tx_commit (wrap ''commit update space allow-channel-creation tx'')))))"

definition set_member_role_row :: "uint32 \<Rightarrow> uint64 \<Rightarrow> role \<Rightarrow> time_ms \<Rightarrow> tables \<Rightarrow> tables" where
  "set_member_role_row spaceID userID rl nw =
     update_member spaceID userID (\<lambda>m. m\<lparr>sm_role := rl, sm_updated_at := nw\<rparr>)"

definition set_role_tx :: "uint32 \<Rightarrow> uint64 \<Rightarrow> role \<Rightarrow> (store, tx_exit, unit) em" where
  "set_role_tx spaceID targetUserID rl =
     bind_e (tx_try (wrap ''load space for member role update'') (lock_server spaceID)) (\<lambda>spaceRow.
     bind_e (tx_try (wrap ''load target space membership'')
       (lock_member (sv_id spaceRow) targetUserID)) (\<lambda>_.
     if targetUserID = sv_owner_user_id spaceRow \<and> rl \<noteq> RoleOwner
     then raise (TxReturn None (Errorf ''current owner role cannot be changed directly''))
     else bind_e now (\<lambda>nw.
       bind_e
         (if rl = RoleOwner then
            if targetUserID \<noteq> sv_owner_user_id spaceRow then
              bind_e (tx_try (wrap ''demote previous owner'')
                (sql_update (set_member_role_row (sv_id spaceRow) (sv_owner_user_id spaceRow) RoleAdmin nw))) (\<lambda>_.
              bind_e (tx_try (wrap ''promote target owner'')
                (sql_update (set_member_role_row (sv_id spaceRow) targetUserID RoleOwner nw))) (\<lambda>_.
              tx_try (wrap ''update space owner'')
                (sql_update (update_server (sv_id spaceRow)
                  (\<lambda>s. s\<lparr>sv_owner_user_id := targetUserID, sv_updated_at := nw\<rparr>)))))
            else tx_try (wrap ''refresh owner membership'')
              (sql_update (set_member_role_row (sv_id spaceRow) targetUserID RoleOwner nw))
          else tx_try (wrap ''update member role'')
            (sql_update (set_member_role_row (sv_id spaceRow) targetUserID rl nw))) (\<lambda>_.
       tx_commit (wrap ''commit update space member role tx'')))))"

definition SetSpaceMemberRole :: "uint32 \<Rightarrow> uint64 \<Rightarrow> role \<Rightarrow> (store, err, unit) em" where
  "SetSpaceMemberRole spaceID targetUserID rl =
     (if (case rl of RoleOther x \<Rightarrow> TrimSpace x = [] | _ \<Rightarrow> False) then raise (Errorf ''set member role: role is required'')
      else if rl \<notin> {RoleOwner, RoleAdmin, RoleMember, RoleSubscriber}
        then raise (Errorf ''set member role: unsupported role'')
      else with_tx (wrap ''begin update space member role tx'') (set_role_tx spaceID targetUserID rl))"

section \<open>Default administrator\<close>

definition ensureAdminMembership :: "uint32 \<Rightarrow> uint64 \<Rightarrow> (store, err, unit) em" where
  "ensureAdminMembership targetSpaceID userID =
     handle_e (GetMemberRole targetSpaceID userID)
       (\<lambda>e. if e \<noteq> ErrNotFound then raise (wrap ''bootstrap default admin: member role'' e)
             else bind_e (map_err (wrap ''bootstrap default admin: invite member'')
                    (InviteSpaceMember targetSpaceID userID)) (\<lambda>_.
               map_err (wrap ''bootstrap default admin: set admin role'')
                 (SetSpaceMemberRole targetSpaceID userID RoleAdmin)))
       (\<lambda>rl. if rl = RoleOwner \<or> rl = RoleAdmin then ret ()
              else map_err (wrap ''bootstrap default admin: promote to admin'')
                (SetSpaceMemberRole targetSpaceID userID RoleAdmin))"

text \<open>\<open>peer_Decode\<close> is \<open>peer.Decode(s)\<close> followed by \<open>String()\<close>: the canonical form of a peer id.\<close>

definition BootstrapDefaultAdmin :: "collation \<Rightarrow> (string \<Rightarrow> err + string) \<Rightarrow> string \<Rightarrow> uint32
    \<Rightarrow> (store, err, unit) em" where
  "BootstrapDefaultAdmin coll peer_Decode adminPeerID0 targetSpaceID0 =
     (let adminPeerID = TrimSpace adminPeerID0 in
      if adminPeerID = [] then ret ()
      else case peer_Decode adminPeerID of
        Inl e \<Rightarrow> raise (wrap ''default admin peer id'' e)
      | Inr canonical \<Rightarrow>
          let targetSpaceID = (if targetSpaceID0 = 0 then 1 else targetSpaceID0) in
          bind_e (map_err (wrap ''bootstrap default admin user'')
            (CreateIfNotExistsByPeerID coll canonical [])) (\<lambda>usr.
          handle_e (GetBySpaceID targetSpaceID)
            (\<lambda>e. if e = ErrNotFound then ret ()
                  else raise (wrap ''bootstrap default admin: load space'' e))
            (\<lambda>_. ensureAdminMembership targetSpaceID (us_ID usr))))"

section \<open>Lemmas: invariants of the space tables\<close>

interpretation uk_member: unique_key member_clash "\<lambda>m. (sm_space_id m, sm_user_id m)"
  by unfold_locales (simp add: member_clash_def)

text \<open>
  Identifiers and keys are unique, every membership belongs to a space, every space has a
  membership row of its owner, and a row has the owner role exactly when it is the owner's.
\<close>

definition space_keys :: "tables \<Rightarrow> bool" where
  "space_keys t \<longleftrightarrow> ids_below sv_id (next_server t) (servers t) \<and>
     ids_below sm_id (next_server_member t) (server_members t) \<and>
     distinct (map (\<lambda>m. (sm_space_id m, sm_user_id m)) (server_members t)) \<and>
     sm_space_id ` set (server_members t) \<subseteq> sv_id ` set (servers t)"

definition one_owner :: "server_row list \<Rightarrow> server_member_row list \<Rightarrow> bool" where
  "one_owner svs sms \<longleftrightarrow> (\<forall>s \<in> set svs.
     (sv_id s, sv_owner_user_id s) \<in> (\<lambda>m. (sm_space_id m, sm_user_id m)) ` set sms \<and>
     (\<forall>m \<in> set sms. sm_space_id m = sv_id s \<longrightarrow>
        (sm_role m = RoleOwner \<longleftrightarrow> sm_user_id m = sv_owner_user_id s)))"

lemma one_owner_row:
  assumes "one_owner svs sms" "s \<in> set svs"
  obtains m where "m \<in> set sms" "sm_space_id m = sv_id s" "sm_user_id m = sv_owner_user_id s"
  using assms by (auto simp: one_owner_def)

lemma one_owner_role:
  "one_owner svs sms \<Longrightarrow> s \<in> set svs \<Longrightarrow> m \<in> set sms \<Longrightarrow> sm_space_id m = sv_id s \<Longrightarrow>
     sm_role m = RoleOwner \<longleftrightarrow> sm_user_id m = sv_owner_user_id s"
  by (simp add: one_owner_def)

text \<open>The stored counters of a space and of its channels are the numbers they stand for.\<close>

definition space_counted :: "tables \<Rightarrow> server_row \<Rightarrow> bool" where
  "space_counted t s \<longleftrightarrow>
     sv_member_count s = of_nat (count_where (\<lambda>m. sm_space_id m = sv_id s \<and> \<not> sm_is_banned m) (server_members t)) \<and>
     sv_channel_count s = of_nat (count_where (\<lambda>c. ch_space_id c = sv_id s \<and> ch_status c = 1) (channels t))"

definition channel_counted :: "tables \<Rightarrow> channel_row \<Rightarrow> bool" where
  "channel_counted t c \<longleftrightarrow>
     ch_subscriber_count c = of_nat (count_where (\<lambda>m. cm_channel_id m = ch_id c) (channel_members t)) \<and>
     ch_member_count c = of_nat (count_where (\<lambda>m. cm_channel_id m = ch_id c) (channel_members t))"

definition counts_except :: "uint32 set \<Rightarrow> tables \<Rightarrow> bool" where
  "counts_except X t \<longleftrightarrow>
     (\<forall>s \<in> set (servers t). sv_id s \<notin> X \<longrightarrow> space_counted t s) \<and>
     (\<forall>c \<in> set (channels t). ch_space_id c \<notin> X \<longrightarrow> channel_counted t c)"

definition spaces_core :: "tables \<Rightarrow> bool" where
  "spaces_core t \<longleftrightarrow> space_keys t \<and> one_owner (servers t) (server_members t)"

definition spaces_ok :: "tables \<Rightarrow> bool" where
  "spaces_ok t \<longleftrightarrow> spaces_core t \<and> counts_except {} t"

lemma spaces_ok_empty: "spaces_ok empty_tables"
  by (simp add: spaces_ok_def spaces_core_def space_keys_def one_owner_def counts_except_def
      empty_tables_def ids_below_def)

subsection \<open>Refreshing the counters\<close>

definition refreshed :: "uint32 \<Rightarrow> time_ms \<Rightarrow> tables \<Rightarrow> tables" where
  "refreshed i nw t = channel_counts i nw (server_counts i nw t)"

lemma refreshAggregateCounts_Inr:
  "refreshAggregateCounts i s = (Inr x, s') \<Longrightarrow>
     tabs s' = refreshed i (now_ms s) (tabs s) \<and> now_ms s' = now_ms s \<and> open_txs s' = open_txs s"
  by (auto simp: refreshAggregateCounts_def em_simps refreshed_def)

lemma server_update_core:
  assumes "\<And>s. sv_id (f s) = sv_id s" "\<And>s. sv_owner_user_id (f s) = sv_owner_user_id s"
  shows "spaces_core (update_server i f t) = spaces_core t"
proof -
  have "one_owner (update_where p f svs) sms = one_owner svs sms" for p svs sms
    unfolding one_owner_def by (induction svs) (simp_all add: assms)
  then show ?thesis
    by (simp add: spaces_core_def space_keys_def update_server_def ids_below_update assms(1))
qed

lemma refreshed_core [simp]: "spaces_core (refreshed i nw t) = spaces_core t"
proof -
  have "spaces_core (channel_counts i nw t') = spaces_core t'" for t'
    by (simp add: spaces_core_def space_keys_def channel_counts_def)
  then show ?thesis by (simp add: refreshed_def server_counts_def server_update_core)
qed

lemma refreshed_counts:
  assumes "counts_except {i} t"
  shows "counts_except {} (refreshed i nw t)"
  using assms
  by (auto simp: counts_except_def refreshed_def server_counts_def channel_counts_def update_server_def
      set_update_where space_counted_def channel_counted_def)

lemma spaces_ok_refreshed:
  "spaces_core t \<Longrightarrow> counts_except {i} t \<Longrightarrow> spaces_ok (refreshed i nw t)"
  by (simp add: spaces_ok_def refreshed_counts)

subsection \<open>Statements on memberships\<close>

lemma lock_server_Inr [em_simps]:
  "lock_server i s = (Inr r, s') \<longleftrightarrow>
     \<not> faulty s \<and> find (\<lambda>v. sv_id v = i) (servers (tabs s)) = Some r \<and> sv_id r = i \<and> s' = tick s"
  by (auto simp: lock_server_def em_simps dest: find_SomeD)

lemma lock_member_Inr [em_simps]:
  "lock_member i u s = (Inr r, s') \<longleftrightarrow>
     \<not> faulty s \<and> find (is_member_row i u) (server_members (tabs s)) = Some r \<and> s' = tick s"
  by (simp add: lock_member_def em_simps)

lemma lock_member_Inl:
  "lock_member i u s = (Inl e, s') \<longleftrightarrow> s' = tick s \<and>
     (faulty s \<and> e = DriverErr \<or>
      \<not> faulty s \<and> find (is_member_row i u) (server_members (tabs s)) = None \<and> e = ErrNotFound)"
  by (simp add: lock_member_def fetchOne_Inl)

lemma new_member_simps [simp]:
  "sm_id (new_member i u rl b nw j) = j" "sm_space_id (new_member i u rl b nw j) = i"
  "sm_user_id (new_member i u rl b nw j) = u" "sm_role (new_member i u rl b nw j) = rl"
  "sm_is_banned (new_member i u rl b nw j) = b"
  by (simp_all add: new_member_def)

lemma insert_member_Inr:
  "insert_member i u rl b nw t = Inr (x, t') \<longleftrightarrow>
     (\<exists>j rs n. insert_row (new_member i u rl b nw) member_clash (next_server_member t)
          (server_members t) = Inr (j, rs, n) \<and>
        t' = t\<lparr>server_members := rs, next_server_member := n\<rparr>)"
  by (auto simp: insert_member_def split: sum.splits prod.splits)

text \<open>The server row of an identifier is unique.\<close>

lemma server_unique:
  assumes "spaces_core t" "s \<in> set (servers t)" "s' \<in> set (servers t)" "sv_id s = sv_id s'"
  shows "s = s'"
proof -
  from assms(1) have "inj_on sv_id (set (servers t))"
    using ids_below_distinct [of sv_id] by (auto simp: spaces_core_def space_keys_def distinct_map)
  then show ?thesis using assms(2-4) by (auto dest: inj_onD)
qed

lemma insert_member_core:
  assumes core: "spaces_core t" and ins: "insert_member i u rl b nw t = Inr (x, t')"
    and i: "i \<in> sv_id ` set (servers t)" and rl: "rl \<noteq> RoleOwner"
  shows "spaces_core t'"
proof -
  from ins obtain j rs n where r: "insert_row (new_member i u rl b nw) member_clash
      (next_server_member t) (server_members t) = Inr (j, rs, n)"
    and t': "t' = t\<lparr>server_members := rs, next_server_member := n\<rparr>"
    by (auto simp: insert_member_Inr)
  have keys: "space_keys t'"
    using core r i unfolding spaces_core_def space_keys_def t'
    by (auto simp: ids_below_insert uk_member.distinct_insert) (auto simp: insert_row_Inr)
  have "one_owner (servers t') (server_members t')"
    unfolding one_owner_def
  proof (intro ballI conjI impI)
    fix s assume "s \<in> set (servers t')"
    then have s: "s \<in> set (servers t)" by (simp add: t')
    have own: "one_owner (servers t) (server_members t)" using core by (simp add: spaces_core_def)
    from own s obtain m where m: "m \<in> set (server_members t)" "sm_space_id m = sv_id s"
        "sm_user_id m = sv_owner_user_id s" by (rule one_owner_row)
    then show "(sv_id s, sv_owner_user_id s) \<in> (\<lambda>m. (sm_space_id m, sm_user_id m)) ` set (server_members t')"
      using r by (auto simp: t' insert_row_Inr intro!: image_eqI [of _ _ m])
    fix m' assume "m' \<in> set (server_members t')" "sm_space_id m' = sv_id s"
    then consider "m' \<in> set (server_members t)" | "m' = new_member i u rl b nw j"
      using r by (auto simp: t' insert_row_Inr)
    then show "(sm_role m' = RoleOwner) = (sm_user_id m' = sv_owner_user_id s)"
    proof cases
      case 1
      then show ?thesis using one_owner_role [OF own s] \<open>sm_space_id m' = sv_id s\<close> by simp
    next
      case 2
      with r m \<open>sm_space_id m' = sv_id s\<close> rl show ?thesis by (auto simp: insert_row_Inr member_clash_def)
    qed
  qed
  with keys show ?thesis by (simp add: spaces_core_def)
qed

lemma member_update_core:
  assumes core: "spaces_core t"
    and f: "\<And>m. sm_id (f m) = sm_id m" "\<And>m. sm_space_id (f m) = sm_space_id m"
      "\<And>m. sm_user_id (f m) = sm_user_id m"
    and role: "\<And>m. m \<in> set (server_members t) \<Longrightarrow> is_member_row i u m \<Longrightarrow>
       sm_role (f m) = RoleOwner \<longleftrightarrow> sm_role m = RoleOwner"
  shows "spaces_core (update_member i u f t)"
proof -
  have keys: "space_keys (update_member i u f t)"
    using core by (simp add: spaces_core_def space_keys_def update_member_def ids_below_update f)
  have "one_owner (servers t) (server_members (update_member i u f t))"
    using core role unfolding spaces_core_def one_owner_def update_member_def
    by (auto simp: f) (auto simp: set_update_where f)
  with keys show ?thesis by (simp add: spaces_core_def update_member_def)
qed

lemma member_delete_core:
  assumes core: "spaces_core t" and s: "s \<in> set (servers t)" "sv_id s = i"
    and u: "u \<noteq> sv_owner_user_id s"
  shows "spaces_core (t\<lparr>server_members := delete_where (is_member_row i u) (server_members t)\<rparr>)"
proof -
  have owner: "s' = s" if "s' \<in> set (servers t)" "sv_id s' = i" for s'
    using server_unique [OF core that(1) s(1)] that(2) s(2) by simp
  have "one_owner (servers t) (delete_where (is_member_row i u) (server_members t))"
    unfolding one_owner_def
  proof (intro ballI conjI impI)
    fix s' assume s': "s' \<in> set (servers t)"
    with core obtain m where "m \<in> set (server_members t)"
        "sm_space_id m = sv_id s'" "sm_user_id m = sv_owner_user_id s'"
      unfolding spaces_core_def by (blast elim: one_owner_row)
    moreover from this have "\<not> is_member_row i u m"
      using u owner [OF s'] by (auto simp: is_member_row_def)
    ultimately show "(sv_id s', sv_owner_user_id s') \<in> (\<lambda>m. (sm_space_id m, sm_user_id m)) `
        set (delete_where (is_member_row i u) (server_members t))"
      by (auto simp: delete_where_def intro!: image_eqI [of _ _ m])
    fix m assume "m \<in> set (delete_where (is_member_row i u) (server_members t))" "sm_space_id m = sv_id s'"
    then show "(sm_role m = RoleOwner) = (sm_user_id m = sv_owner_user_id s')"
      using core s' by (simp add: spaces_core_def one_owner_def delete_where_def)
  qed
  then show ?thesis
    using core by (auto simp: spaces_core_def space_keys_def delete_where_def ids_below_filter
        distinct_map_filter)
qed

text \<open>Statements that touch the members of one space leave the counters of the others right.\<close>

lemma counts_except_members:
  assumes "counts_except {} t" "\<And>j. j \<noteq> i \<Longrightarrow> filter (\<lambda>m. sm_space_id m = j) ms =
       filter (\<lambda>m. sm_space_id m = j) (server_members t)"
  shows "counts_except {i} (t\<lparr>server_members := ms, next_server_member := n\<rparr>)"
    and "counts_except {i} (t\<lparr>server_members := ms\<rparr>)"
proof -
  have cnt: "count_where (\<lambda>m. sm_space_id m = j \<and> q m) ms =
      count_where (\<lambda>m. sm_space_id m = j \<and> q m) (server_members t)" if "j \<noteq> i" for j q
  proof -
    have "count_where (\<lambda>m. sm_space_id m = j \<and> q m) xs =
        length (filter q (filter (\<lambda>m. sm_space_id m = j) xs))" for xs
      by (simp add: count_where_def conj_commute)
    then show ?thesis by (simp only: assms(2) [OF that])
  qed
  from assms(1) show "counts_except {i} (t\<lparr>server_members := ms, next_server_member := n\<rparr>)"
    and "counts_except {i} (t\<lparr>server_members := ms\<rparr>)"
    by (auto simp: counts_except_def space_counted_def channel_counted_def cnt)
qed

lemma counts_except_insert:
  "counts_except {} t \<Longrightarrow> insert_member i u rl b nw t = Inr (x, t') \<Longrightarrow> counts_except {i} t'"
  by (auto simp: insert_member_Inr insert_row_Inr intro!: counts_except_members)

lemma counts_except_update:
  assumes "counts_except {} t" "\<And>m. sm_space_id (f m) = sm_space_id m"
  shows "counts_except {i} (update_member i u f t)"
  unfolding update_member_def
proof (rule counts_except_members(2) [OF assms(1)])
  fix j assume "j \<noteq> i"
  then have "update_where (is_member_row i u) f (filter (\<lambda>m. sm_space_id m = j) (server_members t)) =
      filter (\<lambda>m. sm_space_id m = j) (server_members t)"
    by (intro update_where_none) (auto simp: is_member_row_def)
  then show "filter (\<lambda>m. sm_space_id m = j) (update_where (is_member_row i u) f (server_members t)) =
      filter (\<lambda>m. sm_space_id m = j) (server_members t)"
    by (simp add: assms(2))
qed

lemma counts_except_delete:
  "counts_except {} t \<Longrightarrow>
     counts_except {i} (t\<lparr>server_members := delete_where (is_member_row i u) (server_members t)\<rparr>)"
  by (rule counts_except_members) (auto simp: delete_where_def is_member_row_def intro!: filter_cong)

section \<open>Lemmas: the effect of every operation\<close>

text \<open>
  Each lemma describes the tables after an operation, whatever it reports: they are
  unchanged, or the operation took the one branch that commits a change.
\<close>

lemma addSpaceMember_effect:
  assumes "addSpaceMember i u pub s = (r, s')"
  shows "tabs s' = tabs s \<or>
    (\<exists>v x t1. find (\<lambda>v. sv_id v = i) (servers (tabs s)) = Some v \<and>
       (pub \<longrightarrow> sv_visibility v = VisibilityPublic) \<and>
       find (is_member_row i u) (server_members (tabs s)) = None \<and>
       insert_member i u RoleMember False (now_ms s) (tabs s) = Inr (x, t1) \<and>
       tabs s' = refreshed i (now_ms s) t1)"
  using tx_then_fetch [OF assms [unfolded addSpaceMember_def GetBySpaceID_def]]
  by (auto simp: em_simps lock_member_Inl dest!: refreshAggregateCounts_Inr)

lemma KickSpaceMember_effect:
  assumes "KickSpaceMember i u s = (r, s')"
  shows "tabs s' = tabs s \<or>
    (\<exists>v m. find (\<lambda>v. sv_id v = i) (servers (tabs s)) = Some v \<and> u \<noteq> sv_owner_user_id v \<and>
       find (is_member_row i u) (server_members (tabs s)) = Some m \<and> \<not> sm_is_banned m \<and>
       tabs s' = refreshed i (now_ms s)
         ((tabs s)\<lparr>server_members := delete_where (is_member_row i u) (server_members (tabs s))\<rparr>))"
  using tx_then_fetch [OF assms [unfolded KickSpaceMember_def GetBySpaceID_def]]
  by (auto simp: em_simps dest!: refreshAggregateCounts_Inr)

lemma BanSpaceMember_effect:
  assumes "BanSpaceMember i u s = (r, s')"
  shows "tabs s' = tabs s \<or>
    (\<exists>v t1. find (\<lambda>v. sv_id v = i) (servers (tabs s)) = Some v \<and> u \<noteq> sv_owner_user_id v \<and>
       ((\<exists>m. find (is_member_row i u) (server_members (tabs s)) = Some m \<and> \<not> sm_is_banned m \<and>
           t1 = update_member i u (\<lambda>m. m\<lparr>sm_is_banned := True, sm_role := RoleMember,
                                         sm_updated_at := now_ms s\<rparr>) (tabs s)) \<or>
        find (is_member_row i u) (server_members (tabs s)) = None \<and>
          insert_member i u RoleMember True (now_ms s) (tabs s) = Inr ((), t1)) \<and>
       tabs s' = refreshed i (now_ms s) t1)"
  using tx_then_fetch [OF assms [unfolded BanSpaceMember_def GetBySpaceID_def Let_def]]
  by (auto simp: em_simps lock_member_Inl dest!: refreshAggregateCounts_Inr)

lemma UnbanSpaceMember_effect:
  assumes "UnbanSpaceMember i u s = (r, s')"
  shows "tabs s' = tabs s \<or>
    (\<exists>v m. find (\<lambda>v. sv_id v = i) (servers (tabs s)) = Some v \<and> u \<noteq> sv_owner_user_id v \<and>
       find (is_member_row i u) (server_members (tabs s)) = Some m \<and> sm_is_banned m \<and>
       tabs s' = refreshed i (now_ms s) (update_member i u
         (\<lambda>m. m\<lparr>sm_is_banned := False, sm_updated_at := now_ms s\<rparr>) (tabs s)))"
  using tx_then_fetch [OF assms [unfolded UnbanSpaceMember_def GetBySpaceID_def]]
  by (auto simp: em_simps dest!: refreshAggregateCounts_Inr)

lemma CreateSpace_effect:
  assumes "CreateSpace inp s = (r, s')"
  shows "tabs s' = tabs s \<or>
    (\<exists>i t1 t2. TrimSpace (csi_Name inp) \<noteq> [] \<and> csi_Visibility inp \<in> {VisibilityPublic, VisibilityPrivate} \<and>
       insert_server inp (now_ms s) (tabs s) = Inr (i, t1) \<and>
       insert_member i (csi_CreatorUserID inp) RoleOwner False (now_ms s) t1 = Inr ((), t2) \<and>
       tabs s' = refreshed i (now_ms s) t2)"
  using assms unfolding CreateSpace_def GetBySpaceID_def
  by (auto simp: if_apply create_space_tx_def em_simps
      dest!: tx_then_fetch refreshAggregateCounts_Inr split: if_splits)

lemma SetSpaceAllowChannelCreation_effect:
  assumes "SetSpaceAllowChannelCreation i b s = (r, s')"
  shows "tabs s' = tabs s \<or>
    (\<exists>v. find (\<lambda>v. sv_id v = i) (servers (tabs s)) = Some v \<and> r = Inr () \<and>
       tabs s' = update_server i (\<lambda>v. v\<lparr>sv_allow_channel_creation := b, sv_updated_at := now_ms s\<rparr>) (tabs s))"
  using with_tx_tabs [OF assms [unfolded SetSpaceAllowChannelCreation_def]]
  by (auto simp: em_simps)

text \<open>The tables after a change of role: an ordinary change, or the transfer of ownership.\<close>

definition transferred :: "uint32 \<Rightarrow> uint64 \<Rightarrow> uint64 \<Rightarrow> time_ms \<Rightarrow> tables \<Rightarrow> tables" where
  "transferred i old new nw t =
     update_server i (\<lambda>s. s\<lparr>sv_owner_user_id := new, sv_updated_at := nw\<rparr>)
       (set_member_role_row i new RoleOwner nw (set_member_role_row i old RoleAdmin nw t))"

lemma SetSpaceMemberRole_effect:
  assumes "SetSpaceMemberRole i u rl s = (r, s')"
  shows "tabs s' = tabs s \<or>
    (\<exists>v m. find (\<lambda>v. sv_id v = i) (servers (tabs s)) = Some v \<and>
       find (is_member_row i u) (server_members (tabs s)) = Some m \<and> r = Inr () \<and>
       (tabs s' = set_member_role_row i u rl (now_ms s) (tabs s) \<and>
          (rl = RoleOwner \<longleftrightarrow> u = sv_owner_user_id v) \<or>
        tabs s' = transferred i (sv_owner_user_id v) u (now_ms s) (tabs s) \<and>
          rl = RoleOwner \<and> u \<noteq> sv_owner_user_id v))"
proof -
  have "set_role_tx i u rl s1 = (Inr (), s') \<Longrightarrow> tabs s1 = tabs s \<Longrightarrow> now_ms s1 = now_ms s \<Longrightarrow>
    (\<exists>v m. find (\<lambda>v. sv_id v = i) (servers (tabs s)) = Some v \<and>
       find (is_member_row i u) (server_members (tabs s)) = Some m \<and>
       (tabs s' = set_member_role_row i u rl (now_ms s) (tabs s) \<and>
          (rl = RoleOwner \<longleftrightarrow> u = sv_owner_user_id v) \<or>
        tabs s' = transferred i (sv_owner_user_id v) u (now_ms s) (tabs s) \<and>
          rl = RoleOwner \<and> u \<noteq> sv_owner_user_id v))" for s1
    unfolding set_role_tx_def transferred_def by (auto simp: em_simps)
  note commit = this [of "tick s", simplified]
  from assms have "tabs s' = tabs s \<or> r = Inr () \<and> set_role_tx i u rl (tick s) = (Inr (), s')"
    unfolding SetSpaceMemberRole_def by (auto simp: if_apply dest!: with_tx_tabs split: if_splits)
  with commit show ?thesis by blast
qed

section \<open>Lemmas: every operation keeps the invariants\<close>

lemma transferred_member:
  assumes "m' \<in> set (server_members (transferred i old new nw t))"
  obtains m where "m \<in> set (server_members t)" "sm_space_id m' = sm_space_id m"
    "sm_user_id m' = sm_user_id m"
    "sm_role m' = (if is_member_row i new m then RoleOwner
                   else if is_member_row i old m then RoleAdmin else sm_role m)"
proof -
  from assms obtain m where "m \<in> set (server_members t)" and
    "m' = (let m1 = (if is_member_row i old m then m\<lparr>sm_role := RoleAdmin, sm_updated_at := nw\<rparr> else m)
           in if is_member_row i new m1 then m1\<lparr>sm_role := RoleOwner, sm_updated_at := nw\<rparr> else m1)"
    by (auto simp: transferred_def set_member_role_row_def update_member_def update_server_def
        update_where_def Let_def)
  then show thesis by (intro that [of m]) (auto simp: is_member_row_def Let_def)
qed

lemma transferred_core:
  assumes core: "spaces_core t" and s: "find (\<lambda>v. sv_id v = i) (servers t) = Some s"
    and m: "find (is_member_row i u) (server_members t) = Some m"
  shows "spaces_core (transferred i (sv_owner_user_id s) u nw t)"
proof -
  have s: "s \<in> set (servers t)" "sv_id s = i" using s by (auto dest: find_SomeD)
  have mm: "m \<in> set (server_members t)" "is_member_row i u m" using m by (auto dest: find_SomeD)
  have owner: "s' = s" if "s' \<in> set (servers t)" "sv_id s' = i" for s'
    using server_unique [OF core that(1) s(1)] that(2) s(2) by simp
  let ?t = "transferred i (sv_owner_user_id s) u nw t"
  have own: "one_owner (servers t) (server_members t)" using core by (simp add: spaces_core_def)
  have keys: "space_keys ?t"
    using core unfolding spaces_core_def space_keys_def transferred_def set_member_role_row_def
      update_member_def update_server_def
    by (simp add: ids_below_update)
  have ids: "(\<lambda>m. (sm_space_id m, sm_user_id m)) ` set (server_members ?t) =
      (\<lambda>m. (sm_space_id m, sm_user_id m)) ` set (server_members t)"
    by (simp add: transferred_def set_member_role_row_def update_member_def update_server_def)
  have "one_owner (servers ?t) (server_members ?t)"
    unfolding one_owner_def ids
  proof (intro ballI conjI impI)
    fix s' assume "s' \<in> set (servers ?t)"
    then consider "s' \<in> set (servers t)" "sv_id s' \<noteq> i"
      | "s' = s\<lparr>sv_owner_user_id := u, sv_updated_at := nw\<rparr>"
      using owner by (auto simp: transferred_def set_member_role_row_def update_member_def
          update_server_def set_update_where)
    note cases_s' = this
    then show "(sv_id s', sv_owner_user_id s') \<in> (\<lambda>m. (sm_space_id m, sm_user_id m)) ` set (server_members t)"
    proof cases
      case 1
      then show ?thesis using own by (simp add: one_owner_def)
    next
      case 2
      then show ?thesis using mm s by (auto simp: is_member_row_def intro!: image_eqI [of _ _ m])
    qed
    fix m' assume m': "m' \<in> set (server_members ?t)" "sm_space_id m' = sv_id s'"
    from m'(1) obtain m0 where m0: "m0 \<in> set (server_members t)" "sm_space_id m' = sm_space_id m0"
      "sm_user_id m' = sm_user_id m0" "sm_role m' = (if is_member_row i u m0 then RoleOwner
         else if is_member_row i (sv_owner_user_id s) m0 then RoleAdmin else sm_role m0)"
      by (rule transferred_member)
    from cases_s' show "(sm_role m' = RoleOwner) = (sm_user_id m' = sv_owner_user_id s')"
    proof cases
      case 1
      with m0 m'(2) one_owner_role [OF own 1(1) m0(1)] show ?thesis by (simp add: is_member_row_def)
    next
      case 2
      with m0 m'(2) s one_owner_role [OF own s(1) m0(1)] show ?thesis by (auto simp: is_member_row_def)
    qed
  qed
  with keys show ?thesis by (simp add: spaces_core_def)
qed

lemma insert_server_Inr:
  "insert_server inp nw t = Inr (i, t') \<Longrightarrow>
     i = of_nat (next_server t) \<and> next_server t < 2 ^ 32 \<and> next_server t' = Suc (next_server t) \<and>
     (\<exists>v. servers t' = servers t @ [v] \<and> sv_id v = i \<and> sv_owner_user_id v = csi_CreatorUserID inp \<and>
          sv_visibility v = csi_Visibility inp \<and> sv_name v = TrimSpace (csi_Name inp)) \<and>
     t' = t\<lparr>servers := servers t', next_server := next_server t'\<rparr>"
  by (auto simp: insert_server_def insert_row_Inr split: sum.splits prod.splits)

lemma new_space_core:
  assumes core: "spaces_core t" and sv: "insert_server inp nw t = Inr (i, t1)"
    and sm: "insert_member i (csi_CreatorUserID inp) RoleOwner False nw t1 = Inr (x, t2)"
  shows "spaces_core t2"
proof -
  from sv obtain v where i: "i = of_nat (next_server t)" "next_server t < 2 ^ 32"
    and v: "servers t1 = servers t @ [v]" "sv_id v = i" "sv_owner_user_id v = csi_CreatorUserID inp"
    and t1: "t1 = t\<lparr>servers := servers t1, next_server := Suc (next_server t)\<rparr>"
    using insert_server_Inr by metis
  have same: "next_server_member t1 = next_server_member t" "server_members t1 = server_members t"
    by (subst t1, simp)+
  from sm obtain j rs n where r: "insert_row (new_member i (csi_CreatorUserID inp) RoleOwner False nw)
      member_clash (next_server_member t) (server_members t) = Inr (j, rs, n)"
    and t2: "t2 = t1\<lparr>server_members := rs, next_server_member := n\<rparr>"
    using same by (auto simp: insert_member_Inr)
  have ids: "ids_below sv_id (next_server t) (servers t)"
    and refs: "sm_space_id ` set (server_members t) \<subseteq> sv_id ` set (servers t)"
    and own: "one_owner (servers t) (server_members t)"
    using core by (auto simp: spaces_core_def space_keys_def)
  have un: "unat i = next_server t" using i by (simp add: unat_of_nat take_bit_nat_eq_self)
  have fresh: "sv_id s \<noteq> i" if "s \<in> set (servers t)" for s
    using ids that un by (auto simp: ids_below_def)
  then have fresh_m: "sm_space_id m \<noteq> i" if "m \<in> set (server_members t)" for m
    using refs that by fastforce
  have "ids_below sv_id (Suc (next_server t)) (servers t @ [v])"
    using ids v(2) un by (auto simp: ids_below_def sorted_wrt_append word_less_nat_alt less_Suc_eq)
  then have keys: "space_keys t2"
    using core r t1 v unfolding spaces_core_def space_keys_def t2
    by (auto simp: ids_below_insert uk_member.distinct_insert) (auto simp: insert_row_Inr)
  have rs: "rs = server_members t @ [new_member i (csi_CreatorUserID inp) RoleOwner False nw j]"
    using r by (simp add: insert_row_Inr)
  have "one_owner (servers t @ [v]) rs"
    using own fresh fresh_m v(2,3) unfolding one_owner_def rs by auto
  with keys v(1) show ?thesis by (simp add: spaces_core_def t2)
qed

lemma counts_except_new_space:
  assumes "counts_except {} t" "insert_server inp nw t = Inr (i, t1)"
  shows "counts_except {i} t1"
proof -
  from insert_server_Inr [OF assms(2)] obtain v
    where v: "servers t1 = servers t @ [v]" "sv_id v = i"
      and t1: "t1 = t\<lparr>servers := servers t1, next_server := next_server t1\<rparr>" by blast
  have "server_members t1 = server_members t" "channels t1 = channels t"
    "channel_members t1 = channel_members t" by (subst t1, simp)+
  with v assms(1) show ?thesis
    by (auto simp: counts_except_def space_counted_def channel_counted_def)
qed

text \<open>A second statement on the members of the same space.\<close>

lemma counts_except_insert_again:
  assumes "counts_except {i} t" "insert_member i u rl b nw t = Inr (x, t')"
  shows "counts_except {i} t'"
  using assms
  by (auto simp: insert_member_Inr insert_row_Inr counts_except_def space_counted_def channel_counted_def)

lemma find_server_id: "find (\<lambda>v. sv_id v = i) xs = Some v \<Longrightarrow> i \<in> sv_id ` set xs"
  by (auto dest: find_SomeD)

lemma insert_plain_member_core:
  "spaces_core t \<Longrightarrow> find (\<lambda>v. sv_id v = i) (servers t) = Some v \<Longrightarrow>
     insert_member i u RoleMember b nw t = Inr (x, t') \<Longrightarrow> spaces_core t'"
  by (erule (1) insert_member_core, rule find_server_id) simp_all

lemma addSpaceMember_ok:
  "spaces_ok (tabs s) \<Longrightarrow> addSpaceMember i u pub s = (r, s') \<Longrightarrow> spaces_ok (tabs s')"
  by (drule addSpaceMember_effect)
    (auto simp: spaces_ok_def refreshed_counts counts_except_insert intro: insert_plain_member_core)

lemma KickSpaceMember_ok:
  "spaces_ok (tabs s) \<Longrightarrow> KickSpaceMember i u s = (r, s') \<Longrightarrow> spaces_ok (tabs s')"
  by (drule KickSpaceMember_effect)
    (auto simp: spaces_ok_def refreshed_counts counts_except_delete dest!: find_SomeD
      intro!: member_delete_core)

lemma ban_row_core:
  assumes "spaces_core t" "find (\<lambda>v. sv_id v = i) (servers t) = Some v" "u \<noteq> sv_owner_user_id v"
  shows "spaces_core (update_member i u
    (\<lambda>m. m\<lparr>sm_is_banned := b, sm_role := RoleMember, sm_updated_at := nw\<rparr>) t)"
proof (rule member_update_core [OF assms(1)])
  fix m assume m: "m \<in> set (server_members t)" "is_member_row i u m"
  have "sm_role m \<noteq> RoleOwner"
    using one_owner_role [of "servers t" "server_members t" v m] m assms
    by (auto simp: spaces_core_def is_member_row_def dest!: find_SomeD)
  then show "sm_role (m\<lparr>sm_is_banned := b, sm_role := RoleMember, sm_updated_at := nw\<rparr>) = RoleOwner
      \<longleftrightarrow> sm_role m = RoleOwner" by simp
qed simp_all

lemma BanSpaceMember_ok:
  "spaces_ok (tabs s) \<Longrightarrow> BanSpaceMember i u s = (r, s') \<Longrightarrow> spaces_ok (tabs s')"
  by (drule BanSpaceMember_effect)
    (auto simp: spaces_ok_def refreshed_counts counts_except_insert counts_except_update
      intro: insert_plain_member_core ban_row_core)

lemma UnbanSpaceMember_ok:
  "spaces_ok (tabs s) \<Longrightarrow> UnbanSpaceMember i u s = (r, s') \<Longrightarrow> spaces_ok (tabs s')"
  by (drule UnbanSpaceMember_effect)
    (auto simp: spaces_ok_def refreshed_counts counts_except_update intro!: member_update_core)

lemma CreateSpace_ok:
  "spaces_ok (tabs s) \<Longrightarrow> CreateSpace inp s = (r, s') \<Longrightarrow> spaces_ok (tabs s')"
  by (drule CreateSpace_effect)
    (auto simp: spaces_ok_def intro!: refreshed_counts intro: new_space_core
      counts_except_insert_again [OF counts_except_new_space])

lemma SetSpaceAllowChannelCreation_ok:
  assumes "spaces_ok (tabs s)" "SetSpaceAllowChannelCreation i b s = (r, s')"
  shows "spaces_ok (tabs s')"
proof -
  have "spaces_ok (update_server i (\<lambda>v. v\<lparr>sv_allow_channel_creation := b, sv_updated_at := nw\<rparr>) t)"
    if "spaces_ok t" for nw t
    using that by (auto simp: spaces_ok_def server_update_core)
      (auto simp: counts_except_def update_server_def set_update_where space_counted_def channel_counted_def)
  with assms show ?thesis by (auto dest: SetSpaceAllowChannelCreation_effect)
qed

text \<open>Changing the role of a member other than to or from owner, and refreshing the owner's own row.\<close>

lemma set_member_role_core:
  assumes "spaces_core t" "find (\<lambda>v. sv_id v = i) (servers t) = Some v"
    and "rl = RoleOwner \<longleftrightarrow> u = sv_owner_user_id v"
  shows "spaces_core (set_member_role_row i u rl nw t)"
  unfolding set_member_role_row_def
proof (rule member_update_core [OF assms(1)])
  fix m assume m: "m \<in> set (server_members t)" "is_member_row i u m"
  have "sm_role m = RoleOwner \<longleftrightarrow> u = sv_owner_user_id v"
    using one_owner_role [of "servers t" "server_members t" v m] m assms(1,2)
    by (auto simp: spaces_core_def is_member_row_def dest!: find_SomeD)
  with assms(3) show "sm_role (m\<lparr>sm_role := rl, sm_updated_at := nw\<rparr>) = RoleOwner
      \<longleftrightarrow> sm_role m = RoleOwner" by simp
qed simp_all

lemma set_member_role_counts:
  "counts_except {} t \<Longrightarrow> counts_except {} (set_member_role_row i u rl nw t)"
  by (simp add: set_member_role_row_def update_member_def counts_except_def space_counted_def
      channel_counted_def)

lemma transferred_counts: "counts_except {} t \<Longrightarrow> counts_except {} (transferred i old new nw t)"
proof -
  assume "counts_except {} t"
  then have "counts_except {} (set_member_role_row i new RoleOwner nw (set_member_role_row i old RoleAdmin nw t))"
    by (intro set_member_role_counts)
  then show ?thesis
    by (auto simp: transferred_def counts_except_def update_server_def set_update_where
        space_counted_def channel_counted_def)
qed

lemma SetSpaceMemberRole_ok:
  "spaces_ok (tabs s) \<Longrightarrow> SetSpaceMemberRole i u rl s = (r, s') \<Longrightarrow> spaces_ok (tabs s')"
  by (drule SetSpaceMemberRole_effect)
    (auto simp: spaces_ok_def transferred_counts set_member_role_counts
      intro: set_member_role_core transferred_core)

lemmas space_ops_ok =
  addSpaceMember_ok KickSpaceMember_ok BanSpaceMember_ok UnbanSpaceMember_ok CreateSpace_ok
  SetSpaceAllowChannelCreation_ok SetSpaceMemberRole_ok

lemma keeps_space_ops [keeps_intros]:
  "keeps (on_tabs spaces_ok) (CreateSpace inp)"
  "keeps (on_tabs spaces_ok) (JoinSpace i u)"
  "keeps (on_tabs spaces_ok) (InviteSpaceMember i u)"
  "keeps (on_tabs spaces_ok) (KickSpaceMember i u)"
  "keeps (on_tabs spaces_ok) (BanSpaceMember i u)"
  "keeps (on_tabs spaces_ok) (UnbanSpaceMember i u)"
  "keeps (on_tabs spaces_ok) (SetSpaceAllowChannelCreation i b)"
  "keeps (on_tabs spaces_ok) (SetSpaceMemberRole i u rl)"
  unfolding JoinSpace_def InviteSpaceMember_def by (rule keeps_tabsI, erule (1) space_ops_ok)+

section \<open>Lemmas: what the operations leave alone\<close>

text \<open>
  The space operations change the two space tables and, of the channels, only the derived
  counters and the time stamp.
\<close>

definition blank_counts :: "channel_row \<Rightarrow> channel_row" where
  "blank_counts c = c\<lparr>ch_subscriber_count := 0, ch_member_count := 0, ch_updated_at := 0\<rparr>"

definition space_frame :: "tables \<Rightarrow> tables \<Rightarrow> bool" where
  "space_frame t t' \<longleftrightarrow>
     users t' = users t \<and> nodes t' = nodes t \<and>
     channel_members t' = channel_members t \<and> messages t' = messages t \<and>
     blobs t' = blobs t \<and> media_objects t' = media_objects t \<and>
     message_attachments t' = message_attachments t \<and>
     user_channel_reads t' = user_channel_reads t \<and>
     auth_nonces t' = auth_nonces t \<and>
     direct_conversations t' = direct_conversations t \<and>
     direct_messages t' = direct_messages t \<and> next_user t' = next_user t \<and>
     next_node t' = next_node t \<and> next_channel t' = next_channel t \<and>
     next_channel_member t' = next_channel_member t \<and>
     next_message t' = next_message t \<and> next_blob t' = next_blob t \<and>
     next_media t' = next_media t \<and> next_attachment t' = next_attachment t \<and>
     next_read t' = next_read t \<and> next_nonce t' = next_nonce t \<and>
     next_conversation t' = next_conversation t \<and>
     next_direct_message t' = next_direct_message t \<and>
     prefix (map sv_id (servers t)) (map sv_id (servers t')) \<and>
     map blank_counts (channels t') = map blank_counts (channels t)"

lemma space_frame_refl [simp]: "space_frame t t"
  by (simp add: space_frame_def)

lemma space_frame_trans: "space_frame t t' \<Longrightarrow> space_frame t' t'' \<Longrightarrow> space_frame t t''"
  by (auto simp: space_frame_def intro: prefix_order.trans)

lemma space_frame_simps [simp]:
  "space_frame t (t\<lparr>server_members := b\<rparr>)"
  "space_frame t (t\<lparr>server_members := b, next_server_member := m\<rparr>)"
  by (simp_all add: space_frame_def)

lemma space_frame_channel_counts [simp]: "space_frame t (channel_counts i nw t)"
  by (simp add: space_frame_def channel_counts_def blank_counts_def)

lemma space_frame_refreshed [simp]: "space_frame t (refreshed i nw t1) = space_frame t t1"
  by (simp add: space_frame_def refreshed_def server_counts_def update_server_def channel_counts_def
      blank_counts_def)

lemma space_frame_insert_member: "insert_member i u rl b nw t = Inr (x, t') \<Longrightarrow> space_frame t t'"
  by (auto simp: insert_member_Inr)

lemma space_frame_insert_server: "insert_server inp nw t = Inr (x, t') \<Longrightarrow> space_frame t t'"
  by (auto simp: insert_server_def insert_row_Inr space_frame_def split: sum.splits prod.splits)

lemma space_frame_updates [simp]:
  "space_frame t (update_member i u f t)"
  "(\<And>v. sv_id (g v) = sv_id v) \<Longrightarrow> space_frame t (update_server i g t)"
  "space_frame t (set_member_role_row i u rl nw t)"
  by (simp_all add: update_member_def set_member_role_row_def) (simp add: space_frame_def update_server_def)

lemma space_frame_transferred [simp]: "space_frame t (transferred i old new nw t)"
  unfolding transferred_def
  by (rule space_frame_trans [OF space_frame_trans]) (rule space_frame_updates, simp?)+

lemma addSpaceMember_frame: "addSpaceMember i u pub s = (r, s') \<Longrightarrow> space_frame (tabs s) (tabs s')"
  by (drule addSpaceMember_effect) (auto intro: space_frame_insert_member)

lemma KickSpaceMember_frame: "KickSpaceMember i u s = (r, s') \<Longrightarrow> space_frame (tabs s) (tabs s')"
  by (drule KickSpaceMember_effect) auto

lemma BanSpaceMember_frame: "BanSpaceMember i u s = (r, s') \<Longrightarrow> space_frame (tabs s) (tabs s')"
  by (drule BanSpaceMember_effect) (auto intro: space_frame_insert_member)

lemma UnbanSpaceMember_frame: "UnbanSpaceMember i u s = (r, s') \<Longrightarrow> space_frame (tabs s) (tabs s')"
  by (drule UnbanSpaceMember_effect) auto

lemma CreateSpace_frame: "CreateSpace inp s = (r, s') \<Longrightarrow> space_frame (tabs s) (tabs s')"
  by (drule CreateSpace_effect)
    (auto intro: space_frame_trans [OF space_frame_insert_server space_frame_insert_member])

lemma SetSpaceAllowChannelCreation_frame:
  "SetSpaceAllowChannelCreation i b s = (r, s') \<Longrightarrow> space_frame (tabs s) (tabs s')"
  by (drule SetSpaceAllowChannelCreation_effect) auto

lemma SetSpaceMemberRole_frame:
  "SetSpaceMemberRole i u rl s = (r, s') \<Longrightarrow> space_frame (tabs s) (tabs s')"
  by (drule SetSpaceMemberRole_effect) auto

lemmas space_ops_frame =
  addSpaceMember_frame KickSpaceMember_frame BanSpaceMember_frame UnbanSpaceMember_frame
  CreateSpace_frame SetSpaceAllowChannelCreation_frame SetSpaceMemberRole_frame

section \<open>Properties: membership of a space\<close>

lemma GetBySpaceID_Inr [em_simps]:
  "GetBySpaceID i s = (Inr sp, s') \<longleftrightarrow> \<not> faulty s \<and>
     (\<exists>v. find (\<lambda>v. sv_id v = i) (servers (tabs s)) = Some v \<and> sp = to_space v) \<and> s' = tick s"
  unfolding GetBySpaceID_def by (auto simp: em_simps)

lemma server_members_refreshed [simp]: "server_members (refreshed i nw t) = server_members t"
  by (simp add: refreshed_def channel_counts_def server_counts_def update_server_def)

text \<open>The membership row that the repository reads for a user of a space.\<close>

definition membership :: "tables \<Rightarrow> uint32 \<Rightarrow> uint64 \<Rightarrow> server_member_row option" where
  "membership t i u = find (is_member_row i u) (server_members t)"

definition banned :: "tables \<Rightarrow> uint32 \<Rightarrow> uint64 \<Rightarrow> bool" where
  "banned t i u \<longleftrightarrow> (\<exists>m. membership t i u = Some m \<and> sm_is_banned m)"

lemma membership_inserted:
  assumes "insert_member i u rl b nw t = Inr (x, t')" "membership t i u = None"
  shows "\<exists>j. membership t' i u = Some (new_member i u rl b nw j)"
  using assms by (auto simp: insert_member_Inr insert_row_Inr membership_def find_append is_member_row_def)

lemma membership_updated:
  assumes "\<And>m. sm_space_id (f m) = sm_space_id m" "\<And>m. sm_user_id (f m) = sm_user_id m"
  shows "membership (update_member i u f t) i u = map_option f (membership t i u)"
proof -
  have "find (is_member_row i u) (update_where (is_member_row i u) f (server_members t)) =
      map_option (\<lambda>r. if is_member_row i u r then f r else r) (find (is_member_row i u) (server_members t))"
    by (rule find_update_where) (simp add: is_member_row_def assms)
  then show ?thesis
    by (cases "find (is_member_row i u) (server_members t)")
      (auto simp: membership_def update_member_def dest: find_SomeD)
qed

lemma membership_refreshed [simp]: "membership (refreshed i nw t) j u = membership t j u"
  by (simp add: membership_def)

text \<open>A user with a banned row is not let in, whoever asks.\<close>

lemma addSpaceMember_banned:
  assumes "banned (tabs s) i u"
  shows "\<exists>e s'. addSpaceMember i u pub s = (Inl e, s') \<and> tabs s' = tabs s"
proof -
  obtain r s' where run: "addSpaceMember i u pub s = (r, s')" by fastforce
  have "\<not> (\<exists>sp. r = Inr sp)"
    using run assms unfolding addSpaceMember_def banned_def membership_def
    by (auto simp: em_simps lock_member_Inl)
  moreover have "tabs s' = tabs s"
    using addSpaceMember_effect [OF run] assms by (auto simp: banned_def membership_def)
  ultimately show ?thesis using run by (cases r) auto
qed

lemmas [run_simps] =
  BanSpaceMember_def addSpaceMember_def JoinSpace_def InviteSpaceMember_def KickSpaceMember_def
  UnbanSpaceMember_def SetSpaceMemberRole_def set_role_tx_def set_member_role_row_def lock_server_def
  lock_member_def is_member_row_def new_member_def insert_member_def update_member_def member_clash_def
  refreshAggregateCounts_def server_counts_def channel_counts_def update_server_def GetBySpaceID_def
  to_space_def GetMemberRole_def joins_server_def

lemmas spaces_ok_unfold =
  spaces_ok_def spaces_core_def space_keys_def ids_below_def one_owner_def counts_except_def
  space_counted_def channel_counted_def

text \<open>
  What may happen while a ban lasts: any operation of the repository that writes memberships,
  for any space and user and with any outcome, the lifting of this very ban excepted; and
  anything else that leaves the memberships alone.
\<close>

definition member_ops :: "uint32 \<Rightarrow> uint64 \<Rightarrow> (store \<Rightarrow> store) set" where
  "member_ops i u =
     {snd \<circ> CreateSpace inp | inp. True} \<union>
     {snd \<circ> m j w | m j w. m \<in> {JoinSpace, InviteSpaceMember, KickSpaceMember, BanSpaceMember}} \<union>
     {snd \<circ> UnbanSpaceMember j w | j w. (j, w) \<noteq> (i, u)} \<union>
     {snd \<circ> SetSpaceMemberRole j w rl | j w rl. True}"

inductive while_banned :: "uint32 \<Rightarrow> uint64 \<Rightarrow> store \<Rightarrow> store \<Rightarrow> bool" for i u s where
  ban_start: "while_banned i u s s"
| ban_members: "while_banned i u s s1 \<Longrightarrow> m \<in> member_ops i u \<Longrightarrow> while_banned i u s (m s1)"
| ban_other: "while_banned i u s s1 \<Longrightarrow> server_members (tabs s2) = server_members (tabs s1) \<Longrightarrow> while_banned i u s s2"

lemma find_kept_by_delete:
  assumes "find p xs = Some m" "\<not> q m"
  shows "find p (delete_where q xs) = Some m"
  using assms by (induction xs) (auto simp: delete_where_def split: if_splits)

lemma banned_inserted: "insert_member j w rl b nw t = Inr (x, t') \<Longrightarrow> banned t i u \<Longrightarrow> banned t' i u"
  by (auto simp: banned_def membership_def insert_member_Inr insert_row_Inr find_append)

lemma banned_updated:
  assumes "banned t i u" "\<And>m. sm_space_id (f m) = sm_space_id m \<and> sm_user_id (f m) = sm_user_id m"
    "(j, w) = (i, u) \<Longrightarrow> \<forall>m. sm_is_banned m \<longrightarrow> sm_is_banned (f m)"
  shows "banned (update_member j w f t) i u"
proof -
  have "find (is_member_row i u) (update_where (is_member_row j w) f (server_members t)) =
      map_option (\<lambda>r. if is_member_row j w r then f r else r) (find (is_member_row i u) (server_members t))"
    by (rule find_update_where) (simp add: is_member_row_def assms(2))
  moreover from assms(1) obtain m where "find (is_member_row i u) (server_members t) = Some m" "sm_is_banned m"
    by (auto simp: banned_def membership_def)
  moreover from find_SomeD [OF this(1)] assms(3) this(2)
  have "is_member_row j w m \<longrightarrow> sm_is_banned (f m)" by (auto simp: is_member_row_def)
  ultimately show ?thesis by (simp add: banned_def membership_def update_member_def)
qed

lemma banned_refreshed [simp]: "banned (refreshed j nw t) i u = banned t i u"
  by (simp add: banned_def)

lemma banned_update_server [simp]: "banned (update_server j f t) i u = banned t i u"
  by (simp add: banned_def membership_def update_server_def)

lemma banned_role: "banned t i u \<Longrightarrow> banned (set_member_role_row j w rl nw t) i u"
  unfolding set_member_role_row_def by (rule banned_updated) auto

lemma banned_kicked:
  assumes "banned t i u" "find (is_member_row j w) (server_members t) = Some m" "\<not> sm_is_banned m"
  shows "banned (t\<lparr>server_members := delete_where (is_member_row j w) (server_members t)\<rparr>) i u"
proof -
  from assms(1) obtain r where r: "find (is_member_row i u) (server_members t) = Some r" "sm_is_banned r"
    by (auto simp: banned_def membership_def)
  have "\<not> is_member_row j w r"
    using r assms(2,3) find_SomeD [OF r(1)] by (auto simp: is_member_row_def)
  then show ?thesis using find_kept_by_delete [OF r(1)] r(2) by (simp add: banned_def membership_def)
qed

lemma banned_created:
  assumes "banned t i u" "insert_server inp nw t = Inr (j, t1)"
  shows "banned t1 i u"
  using assms by (auto simp: banned_def membership_def insert_server_def split: sum.splits prod.splits)

lemma addSpaceMember_keeps_ban: "banned (tabs s) i u \<Longrightarrow> banned (tabs (snd (addSpaceMember j w pub s))) i u"
  using addSpaceMember_effect [OF surjective_pairing [of "addSpaceMember j w pub s"]]
  by (elim disjE exE conjE) (simp_all add: banned_inserted)

lemma KickSpaceMember_keeps_ban: "banned (tabs s) i u \<Longrightarrow> banned (tabs (snd (KickSpaceMember j w s))) i u"
  using KickSpaceMember_effect [OF surjective_pairing [of "KickSpaceMember j w s"]]
  by (elim disjE exE conjE) (simp_all add: banned_kicked)

lemma BanSpaceMember_keeps_ban: "banned (tabs s) i u \<Longrightarrow> banned (tabs (snd (BanSpaceMember j w s))) i u"
  using BanSpaceMember_effect [OF surjective_pairing [of "BanSpaceMember j w s"]]
  by (elim disjE exE conjE) (simp_all add: banned_inserted banned_updated)

lemma UnbanSpaceMember_keeps_ban:
  "banned (tabs s) i u \<Longrightarrow> (j, w) \<noteq> (i, u) \<Longrightarrow> banned (tabs (snd (UnbanSpaceMember j w s))) i u"
  using UnbanSpaceMember_effect [OF surjective_pairing [of "UnbanSpaceMember j w s"]]
  by (elim disjE exE conjE) (simp, simp only: banned_refreshed, rule banned_updated, auto)

lemma SetSpaceMemberRole_keeps_ban:
  "banned (tabs s) i u \<Longrightarrow> banned (tabs (snd (SetSpaceMemberRole j w rl s))) i u"
  using SetSpaceMemberRole_effect [OF surjective_pairing [of "SetSpaceMemberRole j w rl s"]]
  by (elim disjE exE conjE) (simp_all add: banned_role transferred_def)

lemma CreateSpace_keeps_ban: "banned (tabs s) i u \<Longrightarrow> banned (tabs (snd (CreateSpace inp s))) i u"
  using CreateSpace_effect [OF surjective_pairing [of "CreateSpace inp s"]]
  by (elim disjE exE conjE) (simp_all add: banned_inserted [OF _ banned_created])

lemma member_ops_keep_ban:
  assumes "m \<in> member_ops i u" "banned (tabs s) i u"
  shows "banned (tabs (m s)) i u"
  using assms
  by (auto simp: member_ops_def JoinSpace_def InviteSpaceMember_def addSpaceMember_keeps_ban
      KickSpaceMember_keeps_ban BanSpaceMember_keeps_ban UnbanSpaceMember_keeps_ban
      SetSpaceMemberRole_keeps_ban CreateSpace_keeps_ban)

lemma while_banned_banned: "while_banned i u s s' \<Longrightarrow> banned (tabs s) i u \<Longrightarrow> banned (tabs s') i u"
  by (induction rule: while_banned.induct) (auto simp: member_ops_keep_ban, auto simp: banned_def membership_def)

text \<open>
  C5: a banned user stays out until the ban is lifted. After a successful ban, through any
  sequence of membership operations on any spaces and users (joins, invitations, kicks, bans,
  changes of role, other bans lifted) and anything else that leaves the memberships alone,
  neither joining nor an invitation succeeds for that user or changes anything.
\<close>

theorem banned_stays_out:
  assumes "BanSpaceMember i u s = (Inr sp, s1)" "while_banned i u s1 s2"
  shows "banned (tabs s2) i u \<and>
    (\<exists>e s'. JoinSpace i u s2 = (Inl e, s') \<and> tabs s' = tabs s2) \<and>
    (\<exists>e s'. InviteSpaceMember i u s2 = (Inl e, s') \<and> tabs s' = tabs s2)"
proof -
  from assms(1) consider "membership (tabs s) i u = None"
      "\<exists>t1. insert_member i u RoleMember True (now_ms s) (tabs s) = Inr ((), t1) \<and> tabs s1 = refreshed i (now_ms s) t1"
    | "\<exists>m. membership (tabs s) i u = Some m \<and> sm_is_banned m" "tabs s1 = tabs s"
    | "\<exists>m. membership (tabs s) i u = Some m"
      "tabs s1 = refreshed i (now_ms s) (update_member i u
         (\<lambda>m. m\<lparr>sm_is_banned := True, sm_role := RoleMember, sm_updated_at := now_ms s\<rparr>) (tabs s))"
    unfolding BanSpaceMember_def membership_def Let_def
    by (auto simp: em_simps lock_member_Inl dest!: refreshAggregateCounts_Inr)
  then have "banned (tabs s1) i u"
    by cases (auto simp: banned_def membership_updated dest: membership_inserted)
  with assms(2) have b: "banned (tabs s2) i u" by (rule while_banned_banned)
  then show ?thesis
    unfolding JoinSpace_def InviteSpaceMember_def by (simp add: addSpaceMember_banned)
qed

theorem banned_stays_out_witness:
  "\<exists>sp s1 s2. BanSpaceMember 1 2 ex_store = (Inr sp, s1) \<and> s2 = snd (KickSpaceMember 1 2 s1) \<and> banned (tabs s2) 1 2 \<and>
     (\<exists>e s'. JoinSpace 1 2 s2 = (Inl e, s') \<and> tabs s' = tabs s2)"
proof -
  have "\<not> isl (fst (BanSpaceMember 1 2 ex_store))" by (simp add: run_simps ex_defs)
  note ban = succeeds [OF this]
  have "snd \<circ> KickSpaceMember 1 2 \<in> member_ops 1 2" unfolding member_ops_def by blast
  from while_banned.ban_members [OF while_banned.ban_start this]
  have "while_banned 1 2 (snd (BanSpaceMember 1 2 ex_store)) (snd (KickSpaceMember 1 2 (snd (BanSpaceMember 1 2 ex_store))))"
    by (simp only: comp_apply)
  from banned_stays_out [OF ban this] ban show ?thesis by blast
qed

text \<open>
  The owner of a space can be neither kicked nor banned nor unbanned: each of the three
  operations reports an error and changes no table.
\<close>

theorem owner_protected:
  assumes "find (\<lambda>v. sv_id v = i) (servers (tabs s)) = Some v"
    and "m \<in> {KickSpaceMember i (sv_owner_user_id v), BanSpaceMember i (sv_owner_user_id v),
              UnbanSpaceMember i (sv_owner_user_id v)}"
  shows "\<exists>e s'. m s = (Inl e, s') \<and> tabs s' = tabs s"
proof -
  obtain r s' where run: "m s = (r, s')" by fastforce
  have "\<not> (\<exists>sp. r = Inr sp)"
    using run assms unfolding KickSpaceMember_def BanSpaceMember_def UnbanSpaceMember_def Let_def
    by (auto simp: em_simps)
  moreover have "tabs s' = tabs s"
    using run assms KickSpaceMember_effect BanSpaceMember_effect UnbanSpaceMember_effect by fastforce
  ultimately show ?thesis using run by (cases r) auto
qed

theorem owner_protected_witness:
  "\<exists>e s'. KickSpaceMember 1 1 ex_store = (Inl e, s') \<and> tabs s' = ex_tables"
proof -
  have v: "find (\<lambda>v. sv_id v = 1) (servers (tabs ex_store)) = Some (ex_server 1 VisibilityPublic 2 1)"
    and o: "sv_owner_user_id (ex_server 1 VisibilityPublic 2 1) = 1" by (simp_all add: ex_defs)
  show ?thesis
    using owner_protected [OF v, of "KickSpaceMember 1 1"] by (simp add: o) (simp add: ex_store_def)
qed

text \<open>
  Joining gives a plain membership in an existing space. Whoever was no member before
  gets the role member, and only in a public space; whoever was a member keeps the row.
\<close>

theorem join_membership:
  assumes "JoinSpace i u s = (Inr sp, s')"
  shows "sp_ID sp = i \<and>
    (case membership (tabs s) i u of
       Some m \<Rightarrow> membership (tabs s') i u = Some m \<and> \<not> sm_is_banned m \<and> tabs s' = tabs s
     | None \<Rightarrow> sp_Visibility sp = VisibilityPublic \<and>
         (\<exists>m. membership (tabs s') i u = Some m \<and> sm_role m = RoleMember \<and> \<not> sm_is_banned m))"
proof -
  have "sp_ID sp = i"
    using assms unfolding JoinSpace_def addSpaceMember_def
    by (auto simp: em_simps lock_member_Inl to_space_def dest: find_SomeD)
  moreover have "sp_Visibility sp = VisibilityPublic"
    if "membership (tabs s) i u = None"
    using assms that unfolding JoinSpace_def addSpaceMember_def membership_def
    by (auto simp: em_simps lock_member_Inl to_space_def refreshed_def channel_counts_def server_counts_def
        update_server_def find_update_where insert_member_Inr dest!: refreshAggregateCounts_Inr)
  moreover have "tabs s' = tabs s \<and> (\<exists>m. membership (tabs s) i u = Some m \<and> \<not> sm_is_banned m) \<or>
      membership (tabs s) i u = None \<and>
      (\<exists>m. membership (tabs s') i u = Some m \<and> sm_role m = RoleMember \<and> \<not> sm_is_banned m)"
  proof -
    have "(\<exists>m. membership (tabs s) i u = Some m \<and> \<not> sm_is_banned m \<and> tabs s' = tabs s) \<or>
        membership (tabs s) i u = None \<and>
        (\<exists>t1. insert_member i u RoleMember False (now_ms s) (tabs s) = Inr ((), t1) \<and>
           tabs s' = refreshed i (now_ms s) t1)"
      using assms unfolding JoinSpace_def addSpaceMember_def membership_def
      by (auto simp: em_simps lock_member_Inl dest!: refreshAggregateCounts_Inr)
    then show ?thesis using membership_inserted by fastforce
  qed
  ultimately show ?thesis by (auto split: option.splits)
qed

theorem join_membership_witness:
  "\<exists>sp s'. JoinSpace 1 7 ex_store = (Inr sp, s') \<and> sp_ID sp = 1 \<and> sp_Visibility sp = VisibilityPublic"
proof -
  have ok: "\<not> isl (fst (JoinSpace 1 7 ex_store))" by (simp add: run_simps ex_defs)
  have "membership (tabs ex_store) 1 7 = None" by (simp add: membership_def run_simps ex_defs)
  with join_membership [OF succeeds [OF ok]] succeeds [OF ok] show ?thesis by fastforce
qed

text \<open>
  C32: a kick removes the membership of a user who is not the owner and of nobody else. It
  leaves the memberships in the channels of the space as they are.
\<close>

theorem kick_membership:
  assumes "KickSpaceMember i u s = (Inr sp, s')"
  shows "(\<exists>v. find (\<lambda>v. sv_id v = i) (servers (tabs s)) = Some v \<and> u \<noteq> sv_owner_user_id v) \<and>
    server_members (tabs s') = filter (\<lambda>m. \<not> is_member_row i u m) (server_members (tabs s)) \<and>
    (\<exists>m. membership (tabs s) i u = Some m \<and> \<not> sm_is_banned m) \<and> membership (tabs s') i u = None \<and>
    channel_members (tabs s') = channel_members (tabs s)"
proof -
  obtain v where v: "find (\<lambda>v. sv_id v = i) (servers (tabs s)) = Some v" "u \<noteq> sv_owner_user_id v"
    and m: "\<exists>m. membership (tabs s) i u = Some m \<and> \<not> sm_is_banned m"
    and t: "tabs s' = refreshed i (now_ms s)
         ((tabs s)\<lparr>server_members := delete_where (is_member_row i u) (server_members (tabs s))\<rparr>)"
    using assms unfolding KickSpaceMember_def membership_def
    by (auto simp: em_simps dest!: refreshAggregateCounts_Inr)
  have "channel_members (tabs s') = channel_members (tabs s)"
    using KickSpaceMember_frame [OF assms] by (simp add: space_frame_def)
  moreover have "membership (tabs s') i u = None"
    unfolding t by (simp add: membership_def)
  ultimately show ?thesis using v m t by (simp add: delete_where_def)
qed

theorem kick_membership_witness:
  "\<exists>sp s'. KickSpaceMember 1 2 ex_store = (Inr sp, s') \<and> membership (tabs s') 1 2 = None"
proof -
  have ok: "\<not> isl (fst (KickSpaceMember 1 2 ex_store))" by (simp add: run_simps ex_defs)
  from kick_membership [OF succeeds [OF ok]] succeeds [OF ok] show ?thesis by blast
qed

lemma find_server_unique:
  "spaces_core t \<Longrightarrow> v \<in> set (servers t) \<Longrightarrow> find (\<lambda>x. sv_id x = sv_id v) (servers t) = Some v"
  by (rule find_unique) (auto simp: spaces_core_def space_keys_def dest: ids_below_distinct)

lemma transferred_server:
  assumes "find (\<lambda>v. sv_id v = i) (servers t) = Some v"
  shows "find (\<lambda>v. sv_id v = i) (servers (transferred i old new nw t)) =
    Some (v\<lparr>sv_owner_user_id := new, sv_updated_at := nw\<rparr>)"
  using assms find_SomeD [OF assms]
  by (simp add: transferred_def update_server_def set_member_role_row_def update_member_def find_update_where)

lemma membership_update_other:
  assumes "\<And>m. sm_space_id (f m) = sm_space_id m" "\<And>m. sm_user_id (f m) = sm_user_id m" "u \<noteq> w"
  shows "membership (update_member i w f t) i u = membership t i u"
proof -
  have "find (is_member_row i u) (update_where (is_member_row i w) f (server_members t)) =
    map_option (\<lambda>r. if is_member_row i w r then f r else r) (find (is_member_row i u) (server_members t))"
    by (rule find_update_where) (simp add: is_member_row_def assms)
  then show ?thesis using assms(3)
    by (cases "find (is_member_row i u) (server_members t)")
      (auto simp: membership_def update_member_def is_member_row_def dest: find_SomeD)
qed

lemma membership_update_server [simp]: "membership (update_server i f t) j w = membership t j w"
  by (simp add: membership_def update_server_def)

text \<open>The transfer changes the roles of the two users and no ban flag.\<close>

lemma transferred_membership:
  assumes "old \<noteq> new"
  shows "membership (transferred i old new nw t) i old =
      map_option (\<lambda>m. m\<lparr>sm_role := RoleAdmin, sm_updated_at := nw\<rparr>) (membership t i old)"
    and "membership (transferred i old new nw t) i new =
      map_option (\<lambda>m. m\<lparr>sm_role := RoleOwner, sm_updated_at := nw\<rparr>) (membership t i new)"
  using assms unfolding transferred_def set_member_role_row_def
  by (simp_all add: membership_update_other membership_updated)

text \<open>
  C33: making another member the owner moves the ownership: afterwards that member is the one
  with the owner role, in the membership table and in the space row, and the former owner is
  an administrator.
\<close>

theorem ownership_transfer:
  assumes ok: "spaces_ok (tabs s)" and v: "find (\<lambda>v. sv_id v = i) (servers (tabs s)) = Some v"
    and run: "SetSpaceMemberRole i u RoleOwner s = (Inr x, s')" and u: "u \<noteq> sv_owner_user_id v"
  shows "(\<exists>v'. find (\<lambda>v. sv_id v = i) (servers (tabs s')) = Some v' \<and> sv_owner_user_id v' = u) \<and>
    (\<forall>m \<in> set (server_members (tabs s')). sm_space_id m = i \<longrightarrow> (sm_role m = RoleOwner \<longleftrightarrow> sm_user_id m = u)) \<and>
    (\<exists>m. membership (tabs s') i (sv_owner_user_id v) = Some m \<and> sm_role m = RoleAdmin)"
proof -
  have t: "tabs s' = transferred i (sv_owner_user_id v) u (now_ms s) (tabs s)"
    using run v u unfolding SetSpaceMemberRole_def set_role_tx_def transferred_def
    by (auto simp: em_simps)
  have sv': "find (\<lambda>v. sv_id v = i) (servers (tabs s')) = Some (v\<lparr>sv_owner_user_id := u, sv_updated_at := now_ms s\<rparr>)"
    unfolding t by (rule transferred_server [OF v])
  have one: "one_owner (servers (tabs s')) (server_members (tabs s'))"
    using SetSpaceMemberRole_ok [OF ok run] by (simp add: spaces_ok_def spaces_core_def)
  have owners: "\<forall>m \<in> set (server_members (tabs s')). sm_space_id m = i \<longrightarrow>
      (sm_role m = RoleOwner \<longleftrightarrow> sm_user_id m = u)"
    using one_owner_role [OF one conjunct1 [OF find_SomeD [OF sv']]] find_SomeD [OF v] by auto
  obtain m where "m \<in> set (server_members (tabs s))" "is_member_row i (sv_owner_user_id v) m"
    using ok find_SomeD [OF v] unfolding spaces_ok_def spaces_core_def is_member_row_def
    by (auto elim!: one_owner_row)
  then obtain m where "membership (tabs s) i (sv_owner_user_id v) = Some m"
    by (cases "membership (tabs s) i (sv_owner_user_id v)") (auto simp: membership_def dest: find_NoneD)
  then have "\<exists>m. membership (tabs s') i (sv_owner_user_id v) = Some m \<and> sm_role m = RoleAdmin"
    using transferred_membership(1) [OF u [symmetric]] unfolding t by simp
  with sv' owners show ?thesis by simp
qed

lemma ex_spaces_ok: "spaces_ok (tabs ex_store)"
  by (simp add: spaces_ok_unfold ex_defs)

theorem ownership_transfer_witness:
  "\<exists>s'. SetSpaceMemberRole 1 2 RoleOwner ex_store = (Inr (), s') \<and>
     (\<exists>v'. find (\<lambda>v. sv_id v = 1) (servers (tabs s')) = Some v' \<and> sv_owner_user_id v' = 2) \<and>
     (\<exists>m. membership (tabs s') 1 1 = Some m \<and> sm_role m = RoleAdmin)"
proof -
  have ok: "\<not> isl (fst (SetSpaceMemberRole 1 2 RoleOwner ex_store))" by (simp add: run_simps ex_defs)
  have v: "find (\<lambda>v. sv_id v = 1) (servers (tabs ex_store)) = Some (ex_server 1 VisibilityPublic 2 1)"
    and o: "sv_owner_user_id (ex_server 1 VisibilityPublic 2 1) = 1" by (simp_all add: ex_defs)
  from ownership_transfer [OF ex_spaces_ok v succeeds [OF ok]] succeeds [OF ok] show ?thesis
    by (simp add: o) blast
qed

text \<open>
  C39: the role change does not look at the ban flag: a banned member can be made the owner,
  stays banned, and can then not be unbanned any more.
\<close>

theorem banned_owner:
  assumes v: "find (\<lambda>v. sv_id v = i) (servers (tabs s)) = Some v" and b: "banned (tabs s) i u"
    and s: "u \<noteq> sv_owner_user_id v" "faults s = []"
  shows "\<exists>s'. SetSpaceMemberRole i u RoleOwner s = (Inr (), s') \<and> banned (tabs s') i u \<and>
    (\<exists>v'. find (\<lambda>v. sv_id v = i) (servers (tabs s')) = Some v' \<and> sv_owner_user_id v' = u) \<and>
    (\<exists>e s''. UnbanSpaceMember i u s' = (Inl e, s'') \<and> tabs s'' = tabs s')"
proof -
  obtain m where m: "find (is_member_row i u) (server_members (tabs s)) = Some m"
    using b by (auto simp: banned_def membership_def)
  have run: "SetSpaceMemberRole i u RoleOwner s =
      (Inr (), s\<lparr>tabs := transferred i (sv_owner_user_id v) u (now_ms s) (tabs s)\<rparr>)"
    using v m s find_SomeD [OF v]
    by (simp add: run_simps transferred_def)
  let ?s = "s\<lparr>tabs := transferred i (sv_owner_user_id v) u (now_ms s) (tabs s)\<rparr>"
  have v': "find (\<lambda>v. sv_id v = i) (servers (tabs ?s)) = Some (v\<lparr>sv_owner_user_id := u, sv_updated_at := now_ms s\<rparr>)"
    using transferred_server [OF v] by simp
  have "banned (tabs ?s) i u"
    using b transferred_membership(2) [OF s(1) [symmetric]] by (auto simp: banned_def)
  moreover have "\<exists>e s''. UnbanSpaceMember i u ?s = (Inl e, s'') \<and> tabs s'' = tabs ?s"
    using owner_protected [OF v', of "UnbanSpaceMember i u"] by simp
  ultimately show ?thesis using run v' by fastforce
qed

theorem banned_owner_witness:
  "\<exists>s'. SetSpaceMemberRole 1 2 RoleOwner (snd (BanSpaceMember 1 2 ex_store)) = (Inr (), s') \<and> banned (tabs s') 1 2 \<and>
     (\<exists>e s''. UnbanSpaceMember 1 2 s' = (Inl e, s'') \<and> tabs s'' = tabs s')"
proof -
  let ?s = "snd (BanSpaceMember 1 2 ex_store)"
  have "\<exists>v. find (\<lambda>v. sv_id v = 1) (servers (tabs ?s)) = Some v \<and> sv_owner_user_id v = 1"
    by (simp add: run_simps ex_defs)
  then obtain v where v: "find (\<lambda>v. sv_id v = 1) (servers (tabs ?s)) = Some v" "2 \<noteq> sv_owner_user_id v" by auto
  have b: "banned (tabs ?s) 1 2" by (simp add: banned_def membership_def run_simps ex_defs)
  have f: "faults ?s = []" by (simp add: run_simps ex_defs)
  from banned_owner [OF v(1) b v(2) f] show ?thesis by blast
qed

text \<open>
  An attempt to kick, ban or unban the owner leaves the transaction it has opened neither
  committed nor rolled back: the variable \<open>err\<close> is \<open>nil\<close> at the \<open>return\<close>.
\<close>

lemma owner_attempt_leaks:
  assumes "find (\<lambda>v. sv_id v = i) (servers (tabs s)) = Some v" "faults s = []"
    and "m \<in> {KickSpaceMember i (sv_owner_user_id v), BanSpaceMember i (sv_owner_user_id v),
              UnbanSpaceMember i (sv_owner_user_id v)}"
  shows "open_txs (snd (m s)) = Suc (open_txs s)"
  using assms by (auto simp: run_simps deferred_rollback_def)

end
