(* ===== verification/Store_Channels.thy ===== *)
theory Store_Channels
  imports Store_Spaces
begin

text \<open>
  The channel repository \<open>internal/repository/mysql/channel.go\<close>: the channels of a space a
  user sees, membership and permissions, the creation of a channel and its auto-delete
  setting.
\<close>

section \<open>Queries\<close>

definition to_permission :: "channel_member_row \<Rightarrow> permission" where
  "to_permission m = \<lparr>pm_Role = cm_role m, pm_CanView = cm_can_view m,
     pm_CanSendMessage = cm_can_send_message m, pm_CanSendImage = cm_can_send_image m,
     pm_CanSendFile = cm_can_send_file m, pm_CanDeleteMessage = cm_can_delete_message m,
     pm_CanManageChannel = cm_can_manage_channel m\<rparr>"

text \<open>The zero value of \<open>channel.Permission\<close>.\<close>

definition no_permission :: permission where
  "no_permission = \<lparr>pm_Role = RoleOther [], pm_CanView = False, pm_CanSendMessage = False,
     pm_CanSendImage = False, pm_CanSendFile = False, pm_CanDeleteMessage = False,
     pm_CanManageChannel = False\<rparr>"

definition to_channel :: "permission \<Rightarrow> channel_row \<Rightarrow> channel" where
  "to_channel p c = \<lparr>cn_ID = ch_id c, cn_SpaceDBID = ch_space_id c, cn_Type = ch_type c,
     cn_Name = ch_name c, cn_Description = coalesce [] (ch_description c),
     cn_Visibility = ch_visibility c, cn_SlowModeSeconds = ch_slow_mode_seconds c,
     cn_AutoDeleteAfterSeconds = ch_auto_delete_after_seconds c, cn_MessageSeq = ch_message_seq c,
     cn_MessageCount = ch_message_count c, cn_MemberCount = ch_member_count c,
     cn_CreatedBy = ch_created_by c, cn_Status = ch_status c, cn_SortOrder = ch_sort_order c,
     cn_Permission = p, cn_CreatedAt = ch_created_at c, cn_UpdatedAt = ch_updated_at c\<rparr>"

definition ListBySpaceIDForUser :: "collation \<Rightarrow> uint32 \<Rightarrow> uint64 \<Rightarrow> (store, err, channel list) em" where
  "ListBySpaceIDForUser coll spaceID userID = map_err (wrap ''list channels'')
     (sql_select (\<lambda>t. map (\<lambda>(c, cm). to_channel (to_permission cm) c)
        (sort_key (\<lambda>(c, cm). (ch_sort_order c, coll (ch_name c)))
          [(c, cm). c \<leftarrow> channels t, joins_server t (\<lambda>s. sv_id s = spaceID) (ch_space_id c) \<and> ch_status c = 1,
             cm \<leftarrow> channel_members t, cm_channel_id cm = ch_id c \<and> cm_user_id cm = userID])))"

definition GetByChannelID :: "uint32 \<Rightarrow> (store, err, channel) em" where
  "GetByChannelID channelID =
     fetchOne (\<lambda>t. map_option (to_channel no_permission)
       (find (\<lambda>c. joins_server t (\<lambda>s. True) (ch_space_id c) \<and> ch_id c = channelID) (channels t)))"

text \<open>\<open>INNER JOIN channels c ON c.id = cm.channel_id WHERE c.id = ? AND cm.user_id = ?\<close>.\<close>

definition is_channel_member :: "tables \<Rightarrow> uint32 \<Rightarrow> uint64 \<Rightarrow> channel_member_row \<Rightarrow> bool" where
  "is_channel_member t channelID userID cm \<longleftrightarrow>
     (\<exists>c \<in> set (channels t). ch_id c = cm_channel_id cm \<and> ch_id c = channelID) \<and> cm_user_id cm = userID"

definition IsUserMember :: "uint32 \<Rightarrow> uint64 \<Rightarrow> (store, err, bool) em" where
  "IsUserMember channelID userID = map_err (wrap ''count channel membership'')
     (sql_select (\<lambda>t. 0 < count_where (is_channel_member t channelID userID) (channel_members t)))"

definition GetPermission :: "uint32 \<Rightarrow> uint64 \<Rightarrow> (store, err, permission) em" where
  "GetPermission channelID userID =
     fetchOne (\<lambda>t. map_option to_permission (find (is_channel_member t channelID userID) (channel_members t)))"

section \<open>Creating a channel\<close>

record create_channel_input =
  cci_SpaceID :: uint32
  cci_CreatorUserID :: uint64
  cci_Type :: channel_type
  cci_Name :: string
  cci_Description :: string
  cci_Visibility :: visibility
  cci_SlowModeSeconds :: uint32
  cci_Bypass :: bool

text \<open>The \<open>ENUM('public','private')\<close> column refuses any other text.\<close>

definition insert_channel :: "create_channel_input \<Rightarrow> uint32 \<Rightarrow> int \<Rightarrow> time_ms
    \<Rightarrow> tables \<Rightarrow> err + (uint32 \<times> tables)" where
  "insert_channel inp spaceID sortOrder nw t =
     (if cci_Visibility inp \<notin> {VisibilityPublic, VisibilityPrivate} then Inl DriverErr
      else case insert_row (\<lambda>i. \<lparr>ch_id = i, ch_space_id = spaceID, ch_type = cci_Type inp,
              ch_name = TrimSpace (cci_Name inp),
              ch_description = Some (TrimSpace (cci_Description inp)),
              ch_visibility = cci_Visibility inp, ch_slow_mode_seconds = cci_SlowModeSeconds inp,
              ch_auto_delete_after_seconds = 0, ch_message_seq = 0, ch_message_count = 0,
              ch_subscriber_count = 0, ch_member_count = 0, ch_created_by = cci_CreatorUserID inp,
              ch_status = 1, ch_sort_order = sortOrder, ch_created_at = nw, ch_updated_at = nw\<rparr>)
            (\<lambda>a b. False) (next_channel t) (channels t) of
        Inl e \<Rightarrow> Inl e
      | Inr (i, rs, n) \<Rightarrow> Inr (i, t\<lparr>channels := rs, next_channel := n\<rparr>))"

definition channel_member_clash :: "channel_member_row \<Rightarrow> channel_member_row \<Rightarrow> bool" where
  "channel_member_clash a b \<longleftrightarrow> cm_channel_id a = cm_channel_id b \<and> cm_user_id a = cm_user_id b"

definition new_channel_owner :: "uint32 \<Rightarrow> uint64 \<Rightarrow> time_ms \<Rightarrow> uint64 \<Rightarrow> channel_member_row" where
  "new_channel_owner channelID userID nw i =
     \<lparr>cm_id = i, cm_channel_id = channelID, cm_user_id = userID, cm_role = RoleOwner,
      cm_can_view = True, cm_can_send_message = True, cm_can_send_image = True,
      cm_can_send_file = True, cm_can_delete_message = True, cm_can_manage_channel = True,
      cm_joined_at = nw, cm_created_at = nw, cm_updated_at = nw\<rparr>"

definition upsert_channel_owner :: "uint32 \<Rightarrow> uint64 \<Rightarrow> time_ms \<Rightarrow> tables \<Rightarrow> err + (unit \<times> tables)" where
  "upsert_channel_owner channelID userID nw t =
     (if \<exists>m \<in> set (channel_members t). cm_channel_id m = channelID \<and> cm_user_id m = userID
      then Inr ((), t\<lparr>channel_members := update_where
             (\<lambda>m. cm_channel_id m = channelID \<and> cm_user_id m = userID)
             (\<lambda>m. m\<lparr>cm_role := RoleOwner, cm_can_send_message := True, cm_can_send_image := True,
                   cm_can_send_file := True, cm_can_delete_message := True,
                   cm_can_manage_channel := True, cm_updated_at := nw\<rparr>) (channel_members t)\<rparr>)
      else case insert_row (new_channel_owner channelID userID nw) channel_member_clash
             (next_channel_member t) (channel_members t) of
        Inl e \<Rightarrow> Inl e
      | Inr (i, rs, n) \<Rightarrow> Inr ((), t\<lparr>channel_members := rs, next_channel_member := n\<rparr>))"

text \<open>\<open>SELECT COALESCE(MAX(sort_order), 0) + 10\<close>.\<close>

definition next_sort_order :: "uint32 \<Rightarrow> tables \<Rightarrow> int" where
  "next_sort_order spaceID t =
     (case map ch_sort_order (filter (\<lambda>c. ch_space_id c = spaceID) (channels t)) of
        [] \<Rightarrow> 10 | x # xs \<Rightarrow> foldr max xs x + 10)"

definition create_channel_tx :: "create_channel_input \<Rightarrow> (store, tx_exit, channel) em" where
  "create_channel_tx inp =
     bind_e (tx_try (wrap ''load server for channel creation'') (lock_server (cci_SpaceID inp))) (\<lambda>serverRow.
     if \<not> sv_allow_channel_creation serverRow \<and> \<not> cci_Bypass inp
     then raise (TxReturn None (Errorf ''channel creation disabled for server''))
     else bind_e (tx_try (wrap ''load space membership'')
       (fetchOne (\<lambda>t. map_option sm_role
          (find (\<lambda>m. is_member_row (sv_id serverRow) (cci_CreatorUserID inp) m \<and> \<not> sm_is_banned m)
             (server_members t))))) (\<lambda>rl.
     if rl \<noteq> RoleOwner \<and> rl \<noteq> RoleAdmin then raise (TxReturn None (Errorf ''admin role required''))
     else bind_e (tx_try (wrap ''calculate channel sort order'')
       (sql_select (next_sort_order (sv_id serverRow)))) (\<lambda>sortOrder.
     bind_e now (\<lambda>nw.
     bind_e (tx_try (wrap ''insert channel'')
       (sql_exec (insert_channel inp (sv_id serverRow) sortOrder nw))) (\<lambda>channelDBID.
     bind_e (tx_try (wrap ''insert channel owner membership'')
       (sql_exec (upsert_channel_owner channelDBID (cci_CreatorUserID inp) nw))) (\<lambda>_.
     bind_e (tx_try id (refreshAggregateCounts (sv_id serverRow))) (\<lambda>_.
     bind_e (tx_commit (wrap ''commit create channel tx'')) (\<lambda>_.
     ret \<lparr>cn_ID = channelDBID, cn_SpaceDBID = sv_id serverRow, cn_Type = cci_Type inp,
          cn_Name = TrimSpace (cci_Name inp), cn_Description = TrimSpace (cci_Description inp),
          cn_Visibility = cci_Visibility inp, cn_SlowModeSeconds = cci_SlowModeSeconds inp,
          cn_AutoDeleteAfterSeconds = 0, cn_MessageSeq = 0, cn_MessageCount = 0,
          cn_MemberCount = 1, cn_CreatedBy = cci_CreatorUserID inp, cn_Status = 1,
          cn_SortOrder = sortOrder,
          cn_Permission = \<lparr>pm_Role = RoleOwner, pm_CanView = True, pm_CanSendMessage = True,
            pm_CanSendImage = True, pm_CanSendFile = True, pm_CanDeleteMessage = True,
            pm_CanManageChannel = True\<rparr>,
          cn_CreatedAt = nw, cn_UpdatedAt = nw\<rparr>))))))))"

definition CreateChannel :: "create_channel_input \<Rightarrow> (store, err, channel) em" where
  "CreateChannel inp =
     (if cci_SpaceID inp = 0 then raise (Errorf ''create channel: space id is required'')
      else if TrimSpace (cci_Name inp) = [] then raise (Errorf ''create channel: name is required'')
      else if cci_Type inp \<noteq> TypeSpace \<and> cci_Type inp \<noteq> TypeBroadcast
        then raise (Errorf ''create channel: unsupported channel type'')
      else with_tx (wrap ''begin create channel tx'') (create_channel_tx inp))"

section \<open>Auto-delete\<close>

definition SetGroupAutoDeleteAfterSeconds :: "uint32 \<Rightarrow> uint32 \<Rightarrow> (store, err, unit) em" where
  "SetGroupAutoDeleteAfterSeconds channelID seconds =
     with_tx (wrap ''begin set group auto delete tx'')
       (bind_e (tx_try (wrap ''load channel for auto delete'')
          (fetchOne (\<lambda>t. find (\<lambda>c. ch_id c = channelID) (channels t)))) (\<lambda>row.
        if ch_type row \<noteq> TypeSpace
        then raise (TxReturn None (Errorf ''auto delete is only supported for group channels''))
        else bind_e now (\<lambda>nw.
          bind_e (tx_try (wrap ''update channel auto delete'')
            (sql_update (\<lambda>t. t\<lparr>channels := update_where (\<lambda>c. ch_id c = ch_id row)
               (\<lambda>c. c\<lparr>ch_auto_delete_after_seconds := seconds, ch_updated_at := nw\<rparr>) (channels t)\<rparr>))) (\<lambda>_.
          tx_commit (wrap ''commit set group auto delete tx'')))))"

section \<open>Lemmas: invariants of the channel tables\<close>

interpretation uk_channel_member: unique_key channel_member_clash "\<lambda>m. (cm_channel_id m, cm_user_id m)"
  by unfold_locales (simp add: channel_member_clash_def)

definition channels_ok :: "tables \<Rightarrow> bool" where
  "channels_ok t \<longleftrightarrow> ids_below ch_id (next_channel t) (channels t) \<and>
     ids_below cm_id (next_channel_member t) (channel_members t) \<and>
     distinct (map (\<lambda>m. (cm_channel_id m, cm_user_id m)) (channel_members t)) \<and>
     ch_space_id ` set (channels t) \<subseteq> sv_id ` set (servers t)"

text \<open>Every member of a channel is the user who created it, and has full permissions.\<close>

definition creators_only :: "tables \<Rightarrow> bool" where
  "creators_only t \<longleftrightarrow> (\<forall>m \<in> set (channel_members t).
     (cm_channel_id m, cm_user_id m) \<in> (\<lambda>c. (ch_id c, ch_created_by c)) ` set (channels t) \<and>
     cm_role m = RoleOwner \<and> cm_can_view m \<and> cm_can_send_message m \<and> cm_can_send_image m \<and>
     cm_can_send_file m \<and> cm_can_delete_message m \<and> cm_can_manage_channel m)"

lemma channels_ok_empty [simp]: "channels_ok empty_tables" "creators_only empty_tables"
  by (simp_all add: channels_ok_def creators_only_def empty_tables_def ids_below_def)

lemma insert_channel_Inr:
  "insert_channel inp i so nw t = Inr (j, t') \<Longrightarrow>
     j = of_nat (next_channel t) \<and> next_channel t < 2 ^ 32 \<and>
     (\<exists>c. t' = t\<lparr>channels := channels t @ [c], next_channel := Suc (next_channel t)\<rparr> \<and>
          ch_id c = j \<and> ch_space_id c = i \<and> ch_created_by c = cci_CreatorUserID inp \<and>
          ch_status c = 1 \<and> ch_message_seq c = 0 \<and> ch_message_count c = 0 \<and> ch_sort_order c = so \<and>
          ch_type c = cci_Type inp)"
  by (auto simp: insert_channel_def insert_row_Inr split: sum.splits prod.splits if_splits)

lemma new_channel_owner_simps [simp]:
  "cm_id (new_channel_owner c u nw i) = i" "cm_channel_id (new_channel_owner c u nw i) = c"
  "cm_user_id (new_channel_owner c u nw i) = u"
  by (simp_all add: new_channel_owner_def)

lemma upsert_channel_owner_fresh:
  assumes "upsert_channel_owner j u nw t = Inr (x, t')" "\<forall>m \<in> set (channel_members t). cm_channel_id m \<noteq> j"
  obtains i rs n where "insert_row (new_channel_owner j u nw) channel_member_clash
      (next_channel_member t) (channel_members t) = Inr (i, rs, n)"
    "t' = t\<lparr>channel_members := rs, next_channel_member := n\<rparr>"
  using assms by (auto simp: upsert_channel_owner_def split: sum.splits prod.splits)

lemma CreateChannel_effect:
  assumes "CreateChannel inp s = (r, s')"
  shows "tabs s' = tabs s \<or>
    (\<exists>v m j t1 t2. find (\<lambda>v. sv_id v = cci_SpaceID inp) (servers (tabs s)) = Some v \<and>
       (sv_allow_channel_creation v \<or> cci_Bypass inp) \<and>
       find (\<lambda>m. is_member_row (cci_SpaceID inp) (cci_CreatorUserID inp) m \<and> \<not> sm_is_banned m)
         (server_members (tabs s)) = Some m \<and>
       sm_role m \<in> {RoleOwner, RoleAdmin} \<and>
       insert_channel inp (cci_SpaceID inp) (next_sort_order (cci_SpaceID inp) (tabs s)) (now_ms s) (tabs s)
         = Inr (j, t1) \<and>
       upsert_channel_owner j (cci_CreatorUserID inp) (now_ms s) t1 = Inr ((), t2) \<and>
       tabs s' = refreshed (cci_SpaceID inp) (now_ms s) t2 \<and> (\<exists>c. r = Inr c \<and> cn_ID c = j))"
proof -
  from assms have "tabs s' = tabs s \<or> (\<exists>x. r = Inr x \<and> create_channel_tx inp (tick s) = (Inr x, s'))"
    unfolding CreateChannel_def by (auto simp: if_apply dest!: with_tx_tabs split: if_splits)
  then show ?thesis
    unfolding create_channel_tx_def
    by (auto simp: em_simps dest!: refreshAggregateCounts_Inr)
qed

text \<open>The channel and the membership it creates, in a form that fits the invariants.\<close>

lemma CreateChannel_rows:
  assumes "channels_ok (tabs s)" "creators_only (tabs s)" "CreateChannel inp s = (r, s')"
    "tabs s' \<noteq> tabs s"
  obtains c i t2 where "ch_space_id c = cci_SpaceID inp" "ch_created_by c = cci_CreatorUserID inp"
    "ch_id c = of_nat (next_channel (tabs s))" "ch_message_seq c = 0" "ch_message_count c = 0"
    "ch_status c = 1"
    "unat (ch_id c) = next_channel (tabs s)"
    "t2 = (tabs s)\<lparr>channels := channels (tabs s) @ [c], next_channel := Suc (next_channel (tabs s)),
       channel_members := channel_members (tabs s) @
         [new_channel_owner (ch_id c) (cci_CreatorUserID inp) (now_ms s) i],
       next_channel_member := Suc (next_channel_member (tabs s))\<rparr>"
    "insert_row (new_channel_owner (ch_id c) (cci_CreatorUserID inp) (now_ms s)) channel_member_clash
       (next_channel_member (tabs s)) (channel_members (tabs s)) =
       Inr (i, channel_members t2, next_channel_member t2)"
    "tabs s' = refreshed (cci_SpaceID inp) (now_ms s) t2"
    "cci_SpaceID inp \<in> sv_id ` set (servers (tabs s))"
proof -
  from CreateChannel_effect [OF assms(3)] assms(4) obtain v j t1 t2 where
    v: "find (\<lambda>v. sv_id v = cci_SpaceID inp) (servers (tabs s)) = Some v"
    and ic: "insert_channel inp (cci_SpaceID inp) (next_sort_order (cci_SpaceID inp) (tabs s))
       (now_ms s) (tabs s) = Inr (j, t1)"
    and up: "upsert_channel_owner j (cci_CreatorUserID inp) (now_ms s) t1 = Inr ((), t2)"
    and s': "tabs s' = refreshed (cci_SpaceID inp) (now_ms s) t2" by blast
  from insert_channel_Inr [OF ic] obtain c where
    j: "j = of_nat (next_channel (tabs s))" "next_channel (tabs s) < 2 ^ 32"
    and t1: "t1 = (tabs s)\<lparr>channels := channels (tabs s) @ [c], next_channel := Suc (next_channel (tabs s))\<rparr>"
    and c: "ch_id c = j" "ch_space_id c = cci_SpaceID inp" "ch_created_by c = cci_CreatorUserID inp"
      "ch_message_seq c = 0" "ch_message_count c = 0" "ch_status c = 1" by blast
  have un: "unat j = next_channel (tabs s)" using j by (simp add: unat_of_nat take_bit_nat_eq_self)
  have "\<forall>m \<in> set (channel_members t1). cm_channel_id m \<noteq> j"
  proof
    fix m assume "m \<in> set (channel_members t1)"
    then obtain c' where "c' \<in> set (channels (tabs s))" "ch_id c' = cm_channel_id m"
      using assms(2) by (auto simp: t1 creators_only_def)
    then have "unat (cm_channel_id m) < next_channel (tabs s)"
      using assms(1) by (force simp: channels_ok_def ids_below_def)
    with un show "cm_channel_id m \<noteq> j" by auto
  qed
  with up obtain i rs n where "insert_row (new_channel_owner j (cci_CreatorUserID inp) (now_ms s))
      channel_member_clash (next_channel_member t1) (channel_members t1) = Inr (i, rs, n)"
    and "t2 = t1\<lparr>channel_members := rs, next_channel_member := n\<rparr>"
    by (rule upsert_channel_owner_fresh)
  with c j un s' t1 show thesis
    by (intro that [of c t2 i]) (auto simp: insert_row_Inr find_server_id [OF v])
qed

lemma blank_counts_map:
  assumes "map blank_counts cs = map blank_counts ds" "\<And>c. f (blank_counts c) = f c"
  shows "map f cs = map f ds"
proof -
  have "map f xs = map f (map blank_counts xs)" for xs using assms(2) by simp
  then show ?thesis using assms(1) by metis
qed

lemma space_frame_channels_ok:
  assumes "channels_ok t" "space_frame t t'"
  shows "channels_ok t'"
proof -
  have eq: "map ch_id (channels t') = map ch_id (channels t)"
    "map ch_space_id (channels t') = map ch_space_id (channels t)"
    using assms(2) by (auto simp: space_frame_def blank_counts_def intro!: blank_counts_map)
  have mono: "sv_id ` set (servers t) \<subseteq> sv_id ` set (servers t')"
    using assms(2) set_mono_prefix [of "map sv_id (servers t)" "map sv_id (servers t')"]
    by (simp add: space_frame_def)
  have sp: "ch_space_id ` set (channels t') = ch_space_id ` set (channels t)"
    using arg_cong [OF eq(2), of set] by simp
  have "ch_space_id ` set (channels t) \<subseteq> sv_id ` set (servers t')"
    using assms(1) mono unfolding channels_ok_def by (blast intro: order_trans)
  moreover have "next_channel t' = next_channel t" "next_channel_member t' = next_channel_member t"
    "channel_members t' = channel_members t" using assms(2) by (simp_all add: space_frame_def)
  ultimately show ?thesis
    using assms(1) unfolding channels_ok_def ids_below_def eq(1) sp by (simp only: simp_thms) blast
qed

lemma space_frame_creators_only:
  assumes "creators_only t" "space_frame t t'"
  shows "creators_only t'"
proof -
  have "map (\<lambda>c. (ch_id c, ch_created_by c)) (channels t') =
      map (\<lambda>c. (ch_id c, ch_created_by c)) (channels t)"
    using assms(2) by (auto simp: space_frame_def blank_counts_def intro!: blank_counts_map)
  from arg_cong [OF this, of set] have "(\<lambda>c. (ch_id c, ch_created_by c)) ` set (channels t') =
      (\<lambda>c. (ch_id c, ch_created_by c)) ` set (channels t)" by simp
  moreover have "channel_members t' = channel_members t" using assms(2) by (simp add: space_frame_def)
  ultimately show ?thesis using assms(1) unfolding creators_only_def by simp
qed

lemma CreateChannel_channels_ok:
  assumes "channels_ok (tabs s)" "creators_only (tabs s)" "CreateChannel inp s = (r, s')"
  shows "channels_ok (tabs s') \<and> creators_only (tabs s')"
proof (cases "tabs s' = tabs s")
  case False
  from assms False obtain c i t2 where c: "ch_space_id c = cci_SpaceID inp"
      "ch_created_by c = cci_CreatorUserID inp" "unat (ch_id c) = next_channel (tabs s)"
    and t2: "t2 = (tabs s)\<lparr>channels := channels (tabs s) @ [c], next_channel := Suc (next_channel (tabs s)),
       channel_members := channel_members (tabs s) @
         [new_channel_owner (ch_id c) (cci_CreatorUserID inp) (now_ms s) i],
       next_channel_member := Suc (next_channel_member (tabs s))\<rparr>"
    and row: "insert_row (new_channel_owner (ch_id c) (cci_CreatorUserID inp) (now_ms s)) channel_member_clash
       (next_channel_member (tabs s)) (channel_members (tabs s)) =
       Inr (i, channel_members t2, next_channel_member t2)"
    and s': "tabs s' = refreshed (cci_SpaceID inp) (now_ms s) t2"
    and sp: "cci_SpaceID inp \<in> sv_id ` set (servers (tabs s))"
    by (rule CreateChannel_rows)
  have "ids_below ch_id (Suc (next_channel (tabs s))) (channels (tabs s) @ [c])"
    using assms(1) c(3)
    by (auto simp: channels_ok_def ids_below_def sorted_wrt_append word_less_nat_alt less_Suc_eq)
  moreover have "ids_below cm_id (next_channel_member t2) (channel_members t2)"
    using row assms(1) by (auto simp: channels_ok_def intro: ids_below_insert)
  moreover have "distinct (map (\<lambda>m. (cm_channel_id m, cm_user_id m)) (channel_members t2))"
    using row assms(1) by (auto simp: channels_ok_def intro: uk_channel_member.distinct_insert)
  ultimately have "channels_ok t2"
    using assms(1) c(1) sp by (simp add: channels_ok_def t2)
  moreover have "creators_only t2"
    using assms(2) c unfolding creators_only_def by (auto simp: t2 new_channel_owner_def)
  moreover have "space_frame t2 (tabs s')" by (simp add: s')
  ultimately show ?thesis by (blast intro: space_frame_channels_ok space_frame_creators_only)
qed (use assms in auto)

lemma CreateChannel_spaces_ok:
  assumes "channels_ok (tabs s)" "creators_only (tabs s)" "spaces_ok (tabs s)"
    "CreateChannel inp s = (r, s')"
  shows "spaces_ok (tabs s')"
proof (cases "tabs s' = tabs s")
  case False
  from assms(1,2,4) False obtain c i t2 where c: "ch_space_id c = cci_SpaceID inp"
      "unat (ch_id c) = next_channel (tabs s)"
    and t2: "t2 = (tabs s)\<lparr>channels := channels (tabs s) @ [c], next_channel := Suc (next_channel (tabs s)),
       channel_members := channel_members (tabs s) @
         [new_channel_owner (ch_id c) (cci_CreatorUserID inp) (now_ms s) i],
       next_channel_member := Suc (next_channel_member (tabs s))\<rparr>"
    and s': "tabs s' = refreshed (cci_SpaceID inp) (now_ms s) t2"
    by (rule CreateChannel_rows)
  have fresh: "ch_id c \<noteq> ch_id c'" if "c' \<in> set (channels (tabs s))" for c'
    using assms(1) c(2) that by (force simp: channels_ok_def ids_below_def)
  have "counts_except {cci_SpaceID inp} t2"
    using assms(3) c(1) fresh
    by (auto simp: spaces_ok_def counts_except_def t2 space_counted_def channel_counted_def)
  moreover have "spaces_core t2"
    using assms(3) by (simp add: spaces_ok_def spaces_core_def space_keys_def t2)
  ultimately show ?thesis by (simp add: s' spaces_ok_refreshed)
qed (use assms in auto)

section \<open>Lemmas: auto-delete\<close>

lemma SetGroupAutoDelete_effect:
  assumes "SetGroupAutoDeleteAfterSeconds i sec s = (r, s')"
  shows "tabs s' = tabs s \<or>
    (\<exists>c. find (\<lambda>c. ch_id c = i) (channels (tabs s)) = Some c \<and> ch_type c = TypeSpace \<and> r = Inr () \<and>
       tabs s' = (tabs s)\<lparr>channels := update_where (\<lambda>c. ch_id c = i)
         (\<lambda>c. c\<lparr>ch_auto_delete_after_seconds := sec, ch_updated_at := now_ms s\<rparr>) (channels (tabs s))\<rparr>)"
  using with_tx_tabs [OF assms [unfolded SetGroupAutoDeleteAfterSeconds_def]]
  by (auto simp: em_simps) (auto dest: find_SomeD)

lemma SetGroupAutoDelete_ok:
  assumes "SetGroupAutoDeleteAfterSeconds i sec s = (r, s')"
  shows "channels_ok (tabs s) \<Longrightarrow> channels_ok (tabs s')"
    and "creators_only (tabs s) \<Longrightarrow> creators_only (tabs s')"
    and "spaces_ok (tabs s) \<Longrightarrow> spaces_ok (tabs s')"
proof -
  let ?t = "(tabs s)\<lparr>channels := update_where (\<lambda>c. ch_id c = i)
         (\<lambda>c. c\<lparr>ch_auto_delete_after_seconds := sec, ch_updated_at := now_ms s\<rparr>) (channels (tabs s))\<rparr>"
  have t: "tabs s' = tabs s \<or> tabs s' = ?t" using SetGroupAutoDelete_effect [OF assms] by blast
  show "channels_ok (tabs s) \<Longrightarrow> channels_ok (tabs s')"
    using t by (auto simp only:) (simp add: channels_ok_def ids_below_update)
  show "creators_only (tabs s) \<Longrightarrow> creators_only (tabs s')"
    using t by (auto simp only:) (simp add: creators_only_def)
  have "spaces_ok (tabs s) \<Longrightarrow> spaces_ok ?t"
    by (auto simp: spaces_ok_def spaces_core_def space_keys_def counts_except_def space_counted_def
        channel_counted_def set_update_where simp del: subset_image_iff image_subset_iff)
  then show "spaces_ok (tabs s) \<Longrightarrow> spaces_ok (tabs s')" using t by auto
qed

section \<open>Properties\<close>

lemma ex_channels_ok: "channels_ok (tabs ex_store)" "creators_only (tabs ex_store)"
  by (simp_all add: channels_ok_def creators_only_def ids_below_def ex_defs)

text \<open>
  A channel comes into being only in an existing space that allows it (or for a caller
  with the bypass), and only for an owner or administrator of the space who is not banned.
  The channel then has a number no channel had before, its creator is a member of it, and
  every other channel and membership is as it was. In all other cases the tables stay as
  they were.
\<close>

theorem channel_creation:
  assumes ok: "channels_ok (tabs s)" "creators_only (tabs s)" and run: "CreateChannel inp s = (r, s')"
    and changed: "tabs s' \<noteq> tabs s"
  shows "(\<exists>v \<in> set (servers (tabs s)). sv_id v = cci_SpaceID inp \<and> (sv_allow_channel_creation v \<or> cci_Bypass inp)) \<and>
    (\<exists>m \<in> set (server_members (tabs s)). is_member_row (cci_SpaceID inp) (cci_CreatorUserID inp) m \<and>
       \<not> sm_is_banned m \<and> sm_role m \<in> {RoleOwner, RoleAdmin}) \<and>
    (\<exists>c. r = Inr c \<and> cn_ID c \<notin> ch_id ` set (channels (tabs s)) \<and>
       map ch_id (channels (tabs s')) = map ch_id (channels (tabs s)) @ [cn_ID c] \<and>
       (\<exists>cm. channel_members (tabs s') = channel_members (tabs s) @ [cm] \<and>
          cm_channel_id cm = cn_ID c \<and> cm_user_id cm = cci_CreatorUserID inp))"
proof -
  from CreateChannel_effect [OF run] changed obtain v m j t1 where
    v: "find (\<lambda>v. sv_id v = cci_SpaceID inp) (servers (tabs s)) = Some v" "sv_allow_channel_creation v \<or> cci_Bypass inp"
    and m: "find (\<lambda>m. is_member_row (cci_SpaceID inp) (cci_CreatorUserID inp) m \<and> \<not> sm_is_banned m)
         (server_members (tabs s)) = Some m" "sm_role m \<in> {RoleOwner, RoleAdmin}"
    and ins: "insert_channel inp (cci_SpaceID inp) (next_sort_order (cci_SpaceID inp) (tabs s)) (now_ms s) (tabs s)
         = Inr (j, t1)" and res: "\<exists>c. r = Inr c \<and> cn_ID c = j" by auto
  have j: "j = of_nat (next_channel (tabs s))" using insert_channel_Inr [OF ins] by simp
  from CreateChannel_rows [OF ok run changed] obtain c i t2 where
    c: "ch_id c = of_nat (next_channel (tabs s))" "unat (ch_id c) = next_channel (tabs s)"
    and t2: "t2 = (tabs s)\<lparr>channels := channels (tabs s) @ [c], next_channel := Suc (next_channel (tabs s)),
       channel_members := channel_members (tabs s) @
         [new_channel_owner (ch_id c) (cci_CreatorUserID inp) (now_ms s) i],
       next_channel_member := Suc (next_channel_member (tabs s))\<rparr>"
    and t': "tabs s' = refreshed (cci_SpaceID inp) (now_ms s) t2" by metis
  have fresh: "ch_id c \<notin> ch_id ` set (channels (tabs s))"
    using ok(1) c(2) by (force simp: channels_ok_def ids_below_def)
  have frame: "space_frame t2 (tabs s')" by (simp add: t')
  then have "map ch_id (channels (tabs s')) = map ch_id (channels t2)" "channel_members (tabs s') = channel_members t2"
    by (auto simp: space_frame_def intro: blank_counts_map [of _ _ ch_id] simp: blank_counts_def)
  then have "map ch_id (channels (tabs s')) = map ch_id (channels (tabs s)) @ [j]"
    "channel_members (tabs s') = channel_members (tabs s) @
       [new_channel_owner j (cci_CreatorUserID inp) (now_ms s) i]" by (simp_all add: t2 c(1) j)
  moreover have "\<exists>v \<in> set (servers (tabs s)). sv_id v = cci_SpaceID inp \<and> (sv_allow_channel_creation v \<or> cci_Bypass inp)"
    using find_SomeD [OF v(1)] v(2) by blast
  moreover have "\<exists>m \<in> set (server_members (tabs s)). is_member_row (cci_SpaceID inp) (cci_CreatorUserID inp) m \<and>
       \<not> sm_is_banned m \<and> sm_role m \<in> {RoleOwner, RoleAdmin}" using find_SomeD [OF m(1)] m(2) by blast
  ultimately show ?thesis using res fresh c(1) j by auto
qed

definition ex_create_channel :: create_channel_input where
  "ex_create_channel = \<lparr>cci_SpaceID = 1, cci_CreatorUserID = 1, cci_Type = TypeSpace, cci_Name = ''new'',
     cci_Description = [], cci_Visibility = VisibilityPublic, cci_SlowModeSeconds = 0, cci_Bypass = False\<rparr>"

lemmas [run_simps] =
  CreateChannel_def create_channel_tx_def insert_channel_def upsert_channel_owner_def new_channel_owner_def
  next_sort_order_def channel_member_clash_def

theorem channel_creation_witness:
  "\<exists>c s'. CreateChannel ex_create_channel ex_store = (Inr c, s') \<and>
     map ch_id (channels (tabs s')) = [1, cn_ID c]"
proof -
  let ?r = "CreateChannel ex_create_channel ex_store"
  have ne: "tabs (snd ?r) \<noteq> tabs ex_store"
  proof
    assume "tabs (snd ?r) = tabs ex_store"
    then have "length (channels (tabs (snd ?r))) = length (channels (tabs ex_store))" by simp
    then show False by (simp add: run_simps ex_create_channel_def trim_simps ex_defs)
  qed
  have "map ch_id (channels (tabs ex_store)) = [1]" by (simp add: ex_defs)
  with channel_creation [OF ex_channels_ok surjective_pairing ne] show ?thesis
    by (metis append.simps surjective_pairing)
qed

end
