(* ===== verification/Store_Messages.thy ===== *)
theory Store_Messages
  imports Store_Channels
begin

text \<open>
  The message repository \<open>internal/repository/mysql/message.go\<close> and the read cursors of
  \<open>read_and_auth.go\<close>: creating a message inside its channel's sequence, listing the messages
  after a sequence number, finding a message by its client identifier, deleting expired
  messages.
\<close>

section \<open>Queries\<close>

definition joins_channel :: "tables \<Rightarrow> (channel_row \<Rightarrow> bool) \<Rightarrow> uint32 \<Rightarrow> bool" where
  "joins_channel t p i \<longleftrightarrow> (\<exists>c \<in> set (channels t). ch_id c = i \<and> p c)"

text \<open>A message row joined with its sender's row.\<close>

definition to_message :: "message_row \<Rightarrow> user_row \<Rightarrow> message" where
  "to_message m u = \<lparr>mg_ID = ms_id m, mg_MessageID = ms_message_id m, mg_ChannelDBID = ms_channel_id m,
     mg_Seq = ms_seq m, mg_SenderUserID = ms_sender_user_id m, mg_SenderUserExtID = u_user_id u,
     mg_ClientMsgID = ms_client_msg_id m, mg_MessageType = ms_message_type m,
     mg_TextContent = coalesce [] (ms_text_content m), mg_Status = ms_status m,
     mg_CreatedAt = ms_created_at m, mg_UpdatedAt = ms_updated_at m, mg_DeletedAt = ms_deleted_at m,
     mg_Content = \<lparr>ct_Text = coalesce [] (ms_text_content m), ct_Images = [], ct_Files = []\<rparr>\<rparr>"

definition joined_messages :: "(message_row \<Rightarrow> bool) \<Rightarrow> tables \<Rightarrow> message list" where
  "joined_messages p t =
     [to_message m u. m \<leftarrow> messages t, p m \<and> joins_channel t (\<lambda>c. True) (ms_channel_id m),
        u \<leftarrow> users t, u_id u = ms_sender_user_id m]"

definition to_attachment :: "media_row \<Rightarrow> blob_row \<Rightarrow> attachment" where
  "to_attachment mo b = \<lparr>at_ID = mo_id mo, at_MediaID = mo_media_id mo, at_BlobDBID = mo_blob_id mo,
     at_BlobID = bl_blob_id b, at_Kind = mo_kind mo, at_OriginalName = coalesce [] (mo_original_name mo),
     at_MIMEType = coalesce [] (mo_mime_type mo), at_Size = mo_size mo,
     at_Width = coalesce 0 (mo_width mo), at_Height = coalesce 0 (mo_height mo),
     at_CreatedBy = coalesce 0 (mo_created_by mo), at_CreatedAt = mo_created_at mo,
     at_SHA256 = bl_sha256 b, at_FileCID = coalesce [] (mo_file_cid mo),
     at_StoragePath = bl_storage_path b\<rparr>"

text \<open>
  The attachment rows of the given messages with the media objects and blobs they join, in
  the order of the query.
\<close>

definition attachment_rows :: "uint64 list \<Rightarrow> tables \<Rightarrow> (attachment_row \<times> media_row \<times> blob_row) list" where
  "attachment_rows ids t =
     sort_key (\<lambda>(ma, mo, b). (ma_message_id ma, ma_sort_order ma))
       [(ma, mo, b). ma \<leftarrow> message_attachments t, ma_message_id ma \<in> set ids,
          mo \<leftarrow> media_objects t, mo_id mo = ma_media_id ma, b \<leftarrow> blobs t, bl_id b = mo_blob_id mo]"

definition add_attachments :: "(attachment_row \<times> media_row \<times> blob_row) list \<Rightarrow> message \<Rightarrow> message" where
  "add_attachments rows m =
     (let own = map (\<lambda>(ma, mo, b). to_attachment mo b) (filter (\<lambda>(ma, mo, b). ma_message_id ma = mg_ID m) rows)
      in m\<lparr>mg_Content := (mg_Content m)\<lparr>ct_Images := filter (\<lambda>a. at_Kind a = KindImage) own,
                                        ct_Files := filter (\<lambda>a. at_Kind a \<noteq> KindImage) own\<rparr>\<rparr>)"

text \<open>
  \<open>hydrateMessages\<close> on the joined rows. A \<open>NULL\<close> creator cannot be scanned into the
  \<open>uint64\<close> field and fails the query.
\<close>

definition hydrateMessages :: "message list \<Rightarrow> (store, err, message list) em" where
  "hydrateMessages items =
     (if items = [] then ret []
      else bind_e (map_err (wrap ''load message attachments'')
             (sql_exec (\<lambda>t. let rows = attachment_rows (map mg_ID items) t in
                if \<exists>(ma, mo, b) \<in> set rows. mo_created_by mo = None then Inl DriverErr
                else Inr (rows, t)))) (\<lambda>rows.
           ret (map (add_attachments rows) items)))"

definition loadMessageByID :: "uint64 \<Rightarrow> (store, err, message) em" where
  "loadMessageByID i =
     bind_e (fetchOne (\<lambda>t. first_row (joined_messages (\<lambda>m. ms_id m = i) t))) (\<lambda>row.
     bind_e (hydrateMessages [row]) (\<lambda>items. ret (hd items)))"

definition ListAfterSeq :: "uint32 \<Rightarrow> uint64 \<Rightarrow> uint32 \<Rightarrow> (store, err, message list) em" where
  "ListAfterSeq channelID afterSeq limit =
     bind_e (map_err (wrap ''list messages after seq'')
       (sql_select (\<lambda>t. order_limit mg_Seq (unat limit)
          (joined_messages (\<lambda>m. ms_channel_id m = channelID \<and> afterSeq < ms_seq m \<and> ms_status m = StatusNormal) t))))
     hydrateMessages"

text \<open>\<open>getChannelForUpdate\<close> and \<open>getMessageByClientMsgIDTx\<close>.\<close>

definition getChannelForUpdate :: "uint32 \<Rightarrow> (store, err, channel_row) em" where
  "getChannelForUpdate channelID = fetchOne (\<lambda>t. find (\<lambda>c. ch_id c = channelID) (channels t))"

definition is_client_message :: "collation \<Rightarrow> uint32 \<Rightarrow> uint64 \<Rightarrow> string \<Rightarrow> message_row \<Rightarrow> bool" where
  "is_client_message coll channelID senderUserID clientMsgID m \<longleftrightarrow>
     ms_channel_id m = channelID \<and> ms_sender_user_id m = senderUserID \<and>
     coll (ms_client_msg_id m) = coll clientMsgID"

definition getMessageByClientMsgIDTx :: "collation \<Rightarrow> uint32 \<Rightarrow> uint64 \<Rightarrow> string \<Rightarrow> (store, err, uint64) em" where
  "getMessageByClientMsgIDTx coll channelDBID senderUserID clientMsgID =
     fetchOne (\<lambda>t. map_option ms_id (find (is_client_message coll channelDBID senderUserID clientMsgID) (messages t)))"

definition GetByClientMsgID :: "collation \<Rightarrow> uint32 \<Rightarrow> uint64 \<Rightarrow> string \<Rightarrow> (store, err, message) em" where
  "GetByClientMsgID coll channelID senderUserID clientMsgID =
     bind_e (GetByChannelID channelID) (\<lambda>channelRow.
     bind_e (getMessageByClientMsgIDTx coll (cn_ID channelRow) senderUserID clientMsgID) (\<lambda>i.
     loadMessageByID i))"

definition GetLastMessageTime :: "uint32 \<Rightarrow> uint64 \<Rightarrow> (store, err, time_ms option) em" where
  "GetLastMessageTime channelID senderUserID =
     map_err (wrap ''get last message time'')
       (sql_select (\<lambda>t. map_option ms_created_at (first_row (rev (sort_key ms_seq
          (filter (\<lambda>m. joins_channel t (\<lambda>c. ch_id c = channelID) (ms_channel_id m) \<and>
             ms_sender_user_id m = senderUserID) (messages t)))))))"

definition ListChannelIDsByMediaID :: "collation \<Rightarrow> string \<Rightarrow> (store, err, uint32 list) em" where
  "ListChannelIDsByMediaID coll mediaID =
     map_err (wrap ''list channel ids by media id'')
       (sql_select (\<lambda>t. sort (remdups
          [ms_channel_id m. ma \<leftarrow> message_attachments t, mo \<leftarrow> media_objects t,
             mo_id mo = ma_media_id ma \<and> coll (mo_media_id mo) = coll mediaID,
             m \<leftarrow> messages t, ms_id m = ma_message_id ma])))"

section \<open>Creating a message\<close>

record create_message_input =
  cmi_ChannelID :: uint32
  cmi_SenderUserID :: uint64
  cmi_ClientMsgID :: string
  cmi_MessageType :: message_type
  cmi_Text :: string
  cmi_AttachmentMedia :: "uint64 list"

text \<open>The three unique keys of \<open>messages\<close>.\<close>

definition message_clash :: "collation \<Rightarrow> message_row \<Rightarrow> message_row \<Rightarrow> bool" where
  "message_clash coll a b \<longleftrightarrow>
     coll (ms_message_id a) = coll (ms_message_id b) \<or>
     (ms_channel_id a, ms_seq a) = (ms_channel_id b, ms_seq b) \<or>
     (ms_channel_id a, ms_sender_user_id a, coll (ms_client_msg_id a)) =
       (ms_channel_id b, ms_sender_user_id b, coll (ms_client_msg_id b))"

definition new_message :: "create_message_input \<Rightarrow> uint32 \<Rightarrow> uint64 \<Rightarrow> string \<Rightarrow> time_ms \<Rightarrow> uint64 \<Rightarrow> message_row" where
  "new_message inp channelID nextSeq messageID nw i =
     \<lparr>ms_id = i, ms_message_id = messageID, ms_channel_id = channelID, ms_seq = nextSeq,
      ms_sender_user_id = cmi_SenderUserID inp, ms_client_msg_id = cmi_ClientMsgID inp,
      ms_message_type = cmi_MessageType inp, ms_text_content = nullableString (cmi_Text inp),
      ms_status = StatusNormal, ms_created_at = nw, ms_updated_at = nw, ms_deleted_at = None\<rparr>"

text \<open>The \<open>ENUM\<close> column refuses a type that is not one of its values.\<close>

definition insert_message :: "collation \<Rightarrow> create_message_input \<Rightarrow> uint32 \<Rightarrow> uint64 \<Rightarrow> string \<Rightarrow> time_ms
    \<Rightarrow> tables \<Rightarrow> err + (uint64 \<times> tables)" where
  "insert_message coll inp channelID nextSeq messageID nw t =
     (if cmi_MessageType inp \<notin> {TypeText, TypeImage, TypeFile, TypeSystem} then Inl DriverErr
      else case insert_row (new_message inp channelID nextSeq messageID nw) (message_clash coll)
             (next_message t) (messages t) of
        Inl e \<Rightarrow> Inl e
      | Inr (i, rs, n) \<Rightarrow> Inr (i, t\<lparr>messages := rs, next_message := n\<rparr>))"

definition attachment_clash :: "attachment_row \<Rightarrow> attachment_row \<Rightarrow> bool" where
  "attachment_clash a b \<longleftrightarrow> ma_message_id a = ma_message_id b \<and> ma_media_id a = ma_media_id b"

definition insert_attachment :: "uint64 \<Rightarrow> uint64 \<Rightarrow> nat \<Rightarrow> time_ms \<Rightarrow> tables \<Rightarrow> err + (unit \<times> tables)" where
  "insert_attachment messageDBID mediaID index nw t =
     (case insert_row (\<lambda>i. \<lparr>ma_id = i, ma_message_id = messageDBID, ma_media_id = mediaID,
              ma_sort_order = int index, ma_created_at = nw\<rparr>)
            attachment_clash (next_attachment t) (message_attachments t) of
        Inl e \<Rightarrow> Inl e
      | Inr (i, rs, n) \<Rightarrow> Inr ((), t\<lparr>message_attachments := rs, next_attachment := n\<rparr>))"

text \<open>
  \<open>UPDATE blobs b INNER JOIN media_objects mo ON mo.blob_id = b.id SET b.ref_count = b.ref_count + 1\<close>;
  an unsigned column out of range fails the statement.
\<close>

definition inc_blob_ref :: "uint64 \<Rightarrow> tables \<Rightarrow> err + (unit \<times> tables)" where
  "inc_blob_ref mediaID t =
     (let p = (\<lambda>b. \<exists>mo \<in> set (media_objects t). mo_blob_id mo = bl_id b \<and> mo_id mo = mediaID) in
      if \<exists>b \<in> set (blobs t). p b \<and> bl_ref_count b = - 1 then Inl DriverErr
      else Inr ((), t\<lparr>blobs := update_where p (\<lambda>b. b\<lparr>bl_ref_count := bl_ref_count b + 1\<rparr>) (blobs t)\<rparr>))"

text \<open>The loop over \<open>in.AttachmentMedia\<close>, from position \<open>index\<close> on.\<close>

fun insert_attachments :: "uint64 \<Rightarrow> time_ms \<Rightarrow> nat \<Rightarrow> uint64 list \<Rightarrow> (store, tx_exit, unit) em" where
  "insert_attachments messageDBID nw index [] = ret ()"
| "insert_attachments messageDBID nw index (mediaID # rest) =
     bind_e (tx_try (wrap ''insert message attachment'')
       (sql_exec (insert_attachment messageDBID mediaID index nw))) (\<lambda>_.
     bind_e (tx_try (wrap ''increment blob ref count'') (sql_exec (inc_blob_ref mediaID))) (\<lambda>_.
     insert_attachments messageDBID nw (Suc index) rest))"

definition bump_channel_seq :: "uint32 \<Rightarrow> uint64 \<Rightarrow> time_ms \<Rightarrow> tables \<Rightarrow> err + (unit \<times> tables)" where
  "bump_channel_seq channelID nextSeq nw t =
     (if \<exists>c \<in> set (channels t). ch_id c = channelID \<and> ch_message_count c = - 1 then Inl DriverErr
      else Inr ((), t\<lparr>channels := update_where (\<lambda>c. ch_id c = channelID)
             (\<lambda>c. c\<lparr>ch_message_seq := nextSeq, ch_message_count := ch_message_count c + 1,
                   ch_updated_at := nw\<rparr>) (channels t)\<rparr>))"

definition create_message_tx :: "collation \<Rightarrow> create_message_input \<Rightarrow> (store, tx_exit, uint64) em" where
  "create_message_tx coll inp =
     bind_e (tx_try id (getChannelForUpdate (cmi_ChannelID inp))) (\<lambda>channelRow.
     handle_e (getMessageByClientMsgIDTx coll (ch_id channelRow) (cmi_SenderUserID inp) (cmi_ClientMsgID inp))
       (\<lambda>e. if e \<noteq> ErrNotFound then raise (TxReturn (Some e) e)
             else bind_e now (\<lambda>nw.
               let nextSeq = ch_message_seq channelRow + 1 in
               bind_e (newExternalID ''msg'') (\<lambda>messageID.
               bind_e (tx_try (wrap ''insert message'')
                 (sql_exec (insert_message coll inp (ch_id channelRow) nextSeq messageID nw))) (\<lambda>messageDBID.
               bind_e (insert_attachments messageDBID nw 0 (cmi_AttachmentMedia inp)) (\<lambda>_.
               bind_e (tx_try (wrap ''update channel seq'')
                 (sql_exec (bump_channel_seq (ch_id channelRow) nextSeq nw))) (\<lambda>_.
               bind_e (tx_commit (wrap ''commit create message tx'')) (\<lambda>_.
               ret messageDBID)))))))
       (\<lambda>existing. bind_e (tx_commit (wrap ''commit create message tx (existing)'')) (\<lambda>_. ret existing)))"

definition Create :: "collation \<Rightarrow> create_message_input \<Rightarrow> (store, err, message) em" where
  "Create coll inp =
     bind_e (with_tx (wrap ''begin create message tx'') (create_message_tx coll inp)) loadMessageByID"

section \<open>Expired messages\<close>

text \<open>\<open>m.created_at < DATE_SUB(now, INTERVAL c.auto_delete_after_seconds SECOND)\<close>.\<close>

definition expired :: "tables \<Rightarrow> time_ms \<Rightarrow> message_row \<Rightarrow> bool" where
  "expired t nw m \<longleftrightarrow> ms_status m = StatusNormal \<and>
     joins_channel t (\<lambda>c. 0 < ch_auto_delete_after_seconds c \<and>
        ms_created_at m < nw - 1000 * int (unat (ch_auto_delete_after_seconds c))) (ms_channel_id m)"

definition deleted_row :: "time_ms \<Rightarrow> message_row \<Rightarrow> message_row" where
  "deleted_row nw m = m\<lparr>ms_status := StatusDeleted, ms_deleted_at := Some nw, ms_updated_at := nw\<rparr>"

definition mark_deleted :: "time_ms \<Rightarrow> uint64 \<Rightarrow> tables \<Rightarrow> err + (nat \<times> tables)" where
  "mark_deleted nw i t =
     (let p = (\<lambda>m. ms_id m = i \<and> ms_status m = StatusNormal) in
      Inr (count_where p (messages t),
           t\<lparr>messages := update_where p (deleted_row nw) (messages t)\<rparr>))"

text \<open>The loop over the expired rows; the result lists the channel of each row it changed.\<close>

fun mark_expired :: "time_ms \<Rightarrow> (uint64 \<times> uint32) list \<Rightarrow> (store, tx_exit, uint32 list) em" where
  "mark_expired nw [] = ret []"
| "mark_expired nw ((i, channelID) # rows) =
     bind_e (tx_try (wrap ''mark expired message deleted'') (sql_exec (mark_deleted nw i))) (\<lambda>affected.
     bind_e (mark_expired nw rows) (\<lambda>cs. ret (if affected > 0 then channelID # cs else cs)))"

definition lower_message_count :: "uint32 \<Rightarrow> uint64 \<Rightarrow> time_ms \<Rightarrow> tables \<Rightarrow> tables" where
  "lower_message_count channelID count nw t =
     t\<lparr>channels := update_where (\<lambda>c. ch_id c = channelID)
        (\<lambda>c. c\<lparr>ch_message_count := (if count < ch_message_count c then ch_message_count c - count else 0),
              ch_updated_at := nw\<rparr>) (channels t)\<rparr>"

text \<open>
  The loop over \<open>deletedByChannel\<close>. The map is iterated in the order in which its keys first
  appeared; Go leaves the order open, and the updates of different channels commute.
\<close>

fun lower_counts :: "time_ms \<Rightarrow> uint32 list \<Rightarrow> uint32 list \<Rightarrow> (store, tx_exit, unit) em" where
  "lower_counts nw cs [] = ret ()"
| "lower_counts nw cs (channelID # rest) =
     bind_e (tx_try (wrap ''update expired channel count'')
       (sql_update (lower_message_count channelID (of_nat (count_list cs channelID)) nw))) (\<lambda>_.
     lower_counts nw cs rest)"

definition cleanup_tx :: "time_ms \<Rightarrow> uint32 \<Rightarrow> (store, tx_exit, uint32) em" where
  "cleanup_tx nw limit =
     bind_e (tx_try (wrap ''load expired messages'')
       (sql_select (\<lambda>t. map (\<lambda>m. (ms_id m, ms_channel_id m))
          (order_limit (\<lambda>m. (ms_created_at m, ms_id m)) (unat limit) (filter (expired t nw) (messages t)))))) (\<lambda>rows.
     if rows = [] then bind_e (tx_commit (wrap ''commit cleanup expired messages tx (empty)'')) (\<lambda>_. ret 0)
     else bind_e (mark_expired nw rows) (\<lambda>cs.
       bind_e (lower_counts nw cs (remdups cs)) (\<lambda>_.
       bind_e (tx_commit (wrap ''commit cleanup expired messages tx'')) (\<lambda>_.
       ret (of_nat (length cs))))))"

definition CleanupExpiredMessages :: "time_ms \<Rightarrow> uint32 \<Rightarrow> (store, err, uint32) em" where
  "CleanupExpiredMessages nw limit =
     with_tx (wrap ''begin cleanup expired messages tx'') (cleanup_tx nw (if limit = 0 then 100 else limit))"

section \<open>Read cursors\<close>

definition upsert_cursor :: "uint64 \<Rightarrow> uint32 \<Rightarrow> uint64 \<Rightarrow> uint64 \<Rightarrow> time_ms
    \<Rightarrow> tables \<Rightarrow> err + (unit \<times> tables)" where
  "upsert_cursor userID channelID delivered seen nw t =
     (if \<not> joins_channel t (\<lambda>c. True) channelID then Inr ((), t)
      else if \<exists>r \<in> set (user_channel_reads t). rd_user_id r = userID \<and> rd_channel_id r = channelID
      then Inr ((), t\<lparr>user_channel_reads := update_where
             (\<lambda>r. rd_user_id r = userID \<and> rd_channel_id r = channelID)
             (\<lambda>r. r\<lparr>rd_last_delivered_seq := max (rd_last_delivered_seq r) delivered,
                   rd_last_read_seq := max (rd_last_read_seq r) seen, rd_updated_at := nw\<rparr>)
             (user_channel_reads t)\<rparr>)
      else case insert_row (\<lambda>i. \<lparr>rd_id = i, rd_user_id = userID, rd_channel_id = channelID,
              rd_last_delivered_seq = delivered, rd_last_read_seq = seen, rd_updated_at = nw\<rparr>)
            (\<lambda>a b. (rd_user_id a, rd_channel_id a) = (rd_user_id b, rd_channel_id b))
            (next_read t) (user_channel_reads t) of
        Inl e \<Rightarrow> Inl e
      | Inr (i, rs, n) \<Rightarrow> Inr ((), t\<lparr>user_channel_reads := rs, next_read := n\<rparr>))"

text \<open>
  Each upsert writes one of the two cursors; the other column keeps its value
  (\<open>GREATEST(x, 0) = x\<close>).
\<close>

definition UpsertDeliveredSeq :: "uint64 \<Rightarrow> uint32 \<Rightarrow> uint64 \<Rightarrow> (store, err, unit) em" where
  "UpsertDeliveredSeq userID channelID seq =
     bind_e now (\<lambda>nw. map_err (wrap ''upsert delivered seq'')
       (sql_exec (upsert_cursor userID channelID seq 0 nw)))"

definition UpsertReadSeq :: "uint64 \<Rightarrow> uint32 \<Rightarrow> uint64 \<Rightarrow> (store, err, unit) em" where
  "UpsertReadSeq userID channelID seq =
     bind_e now (\<lambda>nw. map_err (wrap ''upsert read seq'')
       (sql_exec (upsert_cursor userID channelID 0 seq nw)))"

section \<open>Lemmas: invariants of the message tables\<close>

interpretation uk_message_id: unique_key "message_clash coll" "\<lambda>m. coll (ms_message_id m)" for coll
  by unfold_locales (simp add: message_clash_def)

interpretation uk_client_msg: unique_key "message_clash coll"
  "\<lambda>m. (ms_channel_id m, ms_sender_user_id m, coll (ms_client_msg_id m))" for coll
  by unfold_locales (simp add: message_clash_def)

text \<open>The rows of a channel, in the order in which they were inserted.\<close>

definition channel_log :: "tables \<Rightarrow> uint32 \<Rightarrow> message_row list" where
  "channel_log t i = filter (\<lambda>m. ms_channel_id m = i) (messages t)"

text \<open>
  The sequence numbers of a channel are exactly \<open>1, \<dots>, message_seq\<close>, without a gap, and its
  message count is the number of messages that are not deleted.
\<close>

definition channel_sequenced :: "tables \<Rightarrow> channel_row \<Rightarrow> bool" where
  "channel_sequenced t c \<longleftrightarrow>
     map (unat \<circ> ms_seq) (channel_log t (ch_id c)) = [1..<Suc (unat (ch_message_seq c))] \<and>
     unat (ch_message_count c) = count_where (\<lambda>m. ms_status m = StatusNormal) (channel_log t (ch_id c))"

definition messages_ok :: "collation \<Rightarrow> tables \<Rightarrow> bool" where
  "messages_ok coll t \<longleftrightarrow>
     ids_below ms_id (next_message t) (messages t) \<and> length (messages t) < next_message t \<and>
     distinct (map (\<lambda>m. coll (ms_message_id m)) (messages t)) \<and>
     distinct (map (\<lambda>m. (ms_channel_id m, ms_sender_user_id m, coll (ms_client_msg_id m))) (messages t)) \<and>
     ms_channel_id ` set (messages t) \<subseteq> ch_id ` set (channels t) \<and>
     (\<forall>c \<in> set (channels t). channel_sequenced t c)"

lemma messages_ok_empty [simp]: "messages_ok coll empty_tables"
  by (simp add: messages_ok_def empty_tables_def ids_below_def)

lemma channel_sequenced_cong:
  "messages t' = messages t \<Longrightarrow> ch_id c' = ch_id c \<Longrightarrow> ch_message_seq c' = ch_message_seq c \<Longrightarrow>
     ch_message_count c' = ch_message_count c \<Longrightarrow> channel_sequenced t' c' = channel_sequenced t c"
  by (simp add: channel_sequenced_def channel_log_def)

text \<open>The invariant reads the messages and three columns of the channels only.\<close>

lemma messages_ok_cong:
  assumes "messages t' = messages t" "next_message t' = next_message t"
    and "map (\<lambda>c. (ch_id c, ch_message_seq c, ch_message_count c)) (channels t') =
         map (\<lambda>c. (ch_id c, ch_message_seq c, ch_message_count c)) (channels t)"
  shows "messages_ok coll t' = messages_ok coll t"
proof -
  let ?P = "\<lambda>(i, q, n). map (unat \<circ> ms_seq) (channel_log t i) = [1..<Suc (unat q)] \<and>
     unat n = count_where (\<lambda>m. ms_status m = StatusNormal) (channel_log t i)"
  let ?k = "\<lambda>c. (ch_id c, ch_message_seq c, ch_message_count c)"
  have "(\<forall>c \<in> set (channels t'). channel_sequenced t' c) = (\<forall>k \<in> set (map ?k (channels t')). ?P k)"
    by (simp add: channel_sequenced_def channel_log_def assms(1))
  moreover have "(\<forall>c \<in> set (channels t). channel_sequenced t c) = (\<forall>k \<in> set (map ?k (channels t)). ?P k)"
    by (simp add: channel_sequenced_def)
  moreover have "ch_id ` set (channels t') = ch_id ` set (channels t)"
    using arg_cong [OF assms(3), of "\<lambda>ks. fst ` set ks"] by (simp add: image_image)
  ultimately show ?thesis
    unfolding messages_ok_def assms(1,2,3) by (simp only:)
qed

lemma space_frame_messages_ok:
  "messages_ok coll t \<Longrightarrow> space_frame t t' \<Longrightarrow> messages_ok coll t'"
  by (subst messages_ok_cong [of t' t])
    (auto simp: space_frame_def blank_counts_def intro!: blank_counts_map)

lemma CreateChannel_messages_ok:
  assumes "channels_ok (tabs s)" "creators_only (tabs s)" "messages_ok coll (tabs s)"
    "CreateChannel inp s = (r, s')"
  shows "messages_ok coll (tabs s')"
proof (cases "tabs s' = tabs s")
  case False
  from assms(1,2,4) False obtain c i t2 where c: "ch_message_seq c = 0" "ch_message_count c = 0"
      "unat (ch_id c) = next_channel (tabs s)"
    and t2: "t2 = (tabs s)\<lparr>channels := channels (tabs s) @ [c], next_channel := Suc (next_channel (tabs s)),
       channel_members := channel_members (tabs s) @
         [new_channel_owner (ch_id c) (cci_CreatorUserID inp) (now_ms s) i],
       next_channel_member := Suc (next_channel_member (tabs s))\<rparr>"
    and s': "tabs s' = refreshed (cci_SpaceID inp) (now_ms s) t2"
    by (rule CreateChannel_rows)
  have "ms_channel_id m \<noteq> ch_id c" if "m \<in> set (messages (tabs s))" for m
  proof -
    from that assms(3) obtain c' where "c' \<in> set (channels (tabs s))" "ms_channel_id m = ch_id c'"
      by (auto simp: messages_ok_def)
    then show ?thesis using assms(1) c(3) by (force simp: channels_ok_def ids_below_def)
  qed
  then have "channel_log (tabs s) (ch_id c) = []" by (auto simp: channel_log_def filter_empty_conv)
  then have "messages_ok coll t2"
    using assms(3) c(1,2) by (auto simp: messages_ok_def t2 channel_sequenced_def channel_log_def)
  moreover have "space_frame t2 (tabs s')" by (simp add: s')
  ultimately show ?thesis by (rule space_frame_messages_ok)
qed (use assms in auto)

lemma SetGroupAutoDelete_messages_ok:
  "messages_ok coll (tabs s) \<Longrightarrow> SetGroupAutoDeleteAfterSeconds i sec s = (r, s') \<Longrightarrow>
     messages_ok coll (tabs s')"
  by (drule SetGroupAutoDelete_effect) (subst messages_ok_cong [of "tabs s'" "tabs s"], auto)

section \<open>Lemmas: creating a message\<close>

text \<open>What the loop over the attachments changes.\<close>

definition attach_frame :: "tables \<Rightarrow> tables \<Rightarrow> bool" where
  "attach_frame t t' \<longleftrightarrow>
     users t' = users t \<and> nodes t' = nodes t \<and> servers t' = servers t \<and>
     server_members t' = server_members t \<and> channels t' = channels t \<and>
     channel_members t' = channel_members t \<and> messages t' = messages t \<and>
     media_objects t' = media_objects t \<and>
     user_channel_reads t' = user_channel_reads t \<and>
     auth_nonces t' = auth_nonces t \<and>
     direct_conversations t' = direct_conversations t \<and>
     direct_messages t' = direct_messages t \<and> next_user t' = next_user t \<and>
     next_node t' = next_node t \<and> next_server t' = next_server t \<and>
     next_server_member t' = next_server_member t \<and>
     next_channel t' = next_channel t \<and>
     next_channel_member t' = next_channel_member t \<and>
     next_message t' = next_message t \<and> next_blob t' = next_blob t \<and>
     next_media t' = next_media t \<and> next_read t' = next_read t \<and>
     next_nonce t' = next_nonce t \<and> next_conversation t' = next_conversation t \<and>
     next_direct_message t' = next_direct_message t"

lemma insert_attachments_Inr:
  "insert_attachments d nw k ids s = (Inr x, s') \<Longrightarrow>
     attach_frame (tabs s) (tabs s') \<and> now_ms s' = now_ms s \<and> entropy s' = entropy s"
proof (induction ids arbitrary: k s)
  case (Cons a ids)
  then show ?case
    by (fastforce simp: em_simps insert_attachment_def inc_blob_ref_def Let_def attach_frame_def
        split: sum.splits prod.splits if_splits)
qed (simp add: attach_frame_def)

lemma getChannelForUpdate_Inr [em_simps]:
  "getChannelForUpdate i s = (Inr c, s') \<longleftrightarrow>
     \<not> faulty s \<and> find (\<lambda>c. ch_id c = i) (channels (tabs s)) = Some c \<and> ch_id c = i \<and> s' = tick s"
  by (auto simp: getChannelForUpdate_def em_simps dest: find_SomeD)

lemma getMessageByClientMsgIDTx_Inr [em_simps]:
  "getMessageByClientMsgIDTx coll c u k s = (Inr i, s') \<longleftrightarrow> \<not> faulty s \<and>
     (\<exists>m. find (is_client_message coll c u k) (messages (tabs s)) = Some m \<and> i = ms_id m) \<and> s' = tick s"
  by (auto simp: getMessageByClientMsgIDTx_def em_simps)

lemma getMessageByClientMsgIDTx_Inl:
  "getMessageByClientMsgIDTx coll c u k s = (Inl e, s') \<longleftrightarrow> s' = tick s \<and>
     (faulty s \<and> e = DriverErr \<or>
      \<not> faulty s \<and> find (is_client_message coll c u k) (messages (tabs s)) = None \<and> e = ErrNotFound)"
  by (auto simp: getMessageByClientMsgIDTx_def fetchOne_Inl)

lemma hydrateMessages_tabs: "hydrateMessages items s = (r, s') \<Longrightarrow> tabs s' = tabs s"
  by (auto simp: hydrateMessages_def bind_e_def map_err_def sql_exec_def Let_def
      split: if_splits sum.splits prod.splits)

lemma loadMessageByID_tabs: "loadMessageByID i s = (r, s') \<Longrightarrow> tabs s' = tabs s"
  unfolding loadMessageByID_def
  by (auto simp: bind_e_def split: sum.splits prod.splits dest!: fetchOne_tabs hydrateMessages_tabs)

text \<open>The committed outcomes of the transaction: the message was there already, or it is new.\<close>

lemma create_message_tx_Inr:
  assumes "create_message_tx coll inp s = (Inr i, s')"
  obtains (existing) m where "find (is_client_message coll (cmi_ChannelID inp) (cmi_SenderUserID inp)
        (cmi_ClientMsgID inp)) (messages (tabs s)) = Some m" "i = ms_id m" "tabs s' = tabs s"
  | (new) c mid t1 t2 where "find (\<lambda>c. ch_id c = cmi_ChannelID inp) (channels (tabs s)) = Some c"
      "find (is_client_message coll (cmi_ChannelID inp) (cmi_SenderUserID inp)
        (cmi_ClientMsgID inp)) (messages (tabs s)) = None"
      "insert_message coll inp (cmi_ChannelID inp) (ch_message_seq c + 1) mid (now_ms s) (tabs s) = Inr (i, t1)"
      "attach_frame t1 t2"
      "bump_channel_seq (cmi_ChannelID inp) (ch_message_seq c + 1) (now_ms s) t2 = Inr ((), tabs s')"
  using assms unfolding create_message_tx_def Let_def
  by (auto simp: em_simps getMessageByClientMsgIDTx_Inl dest!: insert_attachments_Inr)

lemma insert_message_Inr:
  "insert_message coll inp c q mid nw t = Inr (i, t') \<Longrightarrow>
     (\<exists>rs. insert_row (new_message inp c q mid nw) (message_clash coll) (next_message t) (messages t)
        = Inr (i, rs, Suc (next_message t)) \<and> rs = messages t @ [new_message inp c q mid nw i] \<and>
      t' = t\<lparr>messages := rs, next_message := Suc (next_message t)\<rparr>)"
  by (auto simp: insert_message_def insert_row_Inr split: sum.splits prod.splits if_splits)

lemma new_message_simps [simp]:
  "ms_id (new_message inp c q mid nw i) = i" "ms_channel_id (new_message inp c q mid nw i) = c"
  "ms_seq (new_message inp c q mid nw i) = q" "ms_status (new_message inp c q mid nw i) = StatusNormal"
  "ms_sender_user_id (new_message inp c q mid nw i) = cmi_SenderUserID inp"
  "ms_client_msg_id (new_message inp c q mid nw i) = cmi_ClientMsgID inp"
  "ms_message_id (new_message inp c q mid nw i) = mid"
  "ms_created_at (new_message inp c q mid nw i) = nw"
  by (simp_all add: new_message_def)

lemma bump_channel_seq_Inr:
  "bump_channel_seq i q nw t = Inr (x, t') \<longleftrightarrow>
     (\<forall>c \<in> set (channels t). ch_id c = i \<longrightarrow> ch_message_count c \<noteq> - 1) \<and>
     t' = t\<lparr>channels := update_where (\<lambda>c. ch_id c = i)
             (\<lambda>c. c\<lparr>ch_message_seq := q, ch_message_count := ch_message_count c + 1,
                   ch_updated_at := nw\<rparr>) (channels t)\<rparr>"
  by (auto simp: bump_channel_seq_def)

lemma channel_unique:
  assumes "channels_ok t" "c \<in> set (channels t)" "c' \<in> set (channels t)" "ch_id c = ch_id c'"
  shows "c = c'"
proof -
  from assms(1) have "inj_on ch_id (set (channels t))"
    using ids_below_distinct [of ch_id] by (auto simp: channels_ok_def distinct_map)
  then show ?thesis using assms(2-4) by (auto dest: inj_onD)
qed

text \<open>Appending the next message of a channel and counting it keeps the channel sequenced.\<close>

lemma sequenced_append:
  assumes seq: "channel_sequenced t c" and room: "length (messages t) < next_message t"
    "next_message t < 2 ^ 64"
    and m: "ms_channel_id m = ch_id c" "ms_seq m = ch_message_seq c + 1" "ms_status m = StatusNormal"
    and n: "ch_message_count c \<noteq> - 1"
    and t': "messages t' = messages t @ [m]"
    and c': "ch_id c' = ch_id c" "ch_message_seq c' = ch_message_seq c + 1"
      "ch_message_count c' = ch_message_count c + 1"
  shows "channel_sequenced t' c'"
proof -
  have len: "unat (ch_message_seq c) = length (channel_log t (ch_id c))"
  proof -
    from seq have "length (map (unat \<circ> ms_seq) (channel_log t (ch_id c))) = length [1..<Suc (unat (ch_message_seq c))]"
      unfolding channel_sequenced_def by (simp only:)
    then show ?thesis by simp
  qed
  also have "\<dots> \<le> length (messages t)" by (simp add: channel_log_def)
  finally have "Suc (unat (ch_message_seq c)) < 2 ^ 64" using room by simp
  then have inc: "unat (ch_message_seq c + 1) = Suc (unat (ch_message_seq c))"
    by (intro unat_inc) simp
  have log: "channel_log t' (ch_id c) = channel_log t (ch_id c) @ [m]"
    by (simp add: channel_log_def t' m)
  from seq show ?thesis
    by (simp add: channel_sequenced_def c' log m inc unat_inc_max [OF n])
qed

lemma sequenced_other:
  "channel_sequenced t c \<Longrightarrow> messages t' = messages t @ [m] \<Longrightarrow> ms_channel_id m \<noteq> ch_id c \<Longrightarrow>
     channel_sequenced t' c"
  by (simp add: channel_sequenced_def channel_log_def)

lemma create_message_tx_ok:
  assumes ok: "messages_ok coll (tabs s)" "channels_ok (tabs s)"
    and tx: "create_message_tx coll inp s = (Inr i, s')"
  shows "messages_ok coll (tabs s')"
  using tx
proof (cases rule: create_message_tx_Inr)
  case existing
  with ok show ?thesis by simp
next
  case (new c mid t1 t2)
  let ?t = "tabs s" and ?m = "new_message inp (cmi_ChannelID inp) (ch_message_seq c + 1) mid (now_ms s) i"
  have c: "c \<in> set (channels ?t)" "ch_id c = cmi_ChannelID inp" using new(1) by (auto dest: find_SomeD)
  from insert_message_Inr [OF new(3)] have
    ins: "insert_row (new_message inp (cmi_ChannelID inp) (ch_message_seq c + 1) mid (now_ms s))
      (message_clash coll) (next_message ?t) (messages ?t) =
      Inr (i, messages ?t @ [?m], Suc (next_message ?t))"
    and t1: "t1 = ?t\<lparr>messages := messages ?t @ [?m], next_message := Suc (next_message ?t)\<rparr>" by auto
  have t2: "messages t2 = messages ?t @ [?m]" "next_message t2 = Suc (next_message ?t)"
    "channels t2 = channels ?t"
    using new(4) by (simp_all add: attach_frame_def t1)
  have count: "\<forall>c \<in> set (channels ?t). ch_id c = cmi_ChannelID inp \<longrightarrow> ch_message_count c \<noteq> - 1"
    and t': "messages (tabs s') = messages ?t @ [?m]" "next_message (tabs s') = Suc (next_message ?t)"
      "channels (tabs s') = update_where (\<lambda>c. ch_id c = cmi_ChannelID inp)
         (\<lambda>c'. c'\<lparr>ch_message_seq := ch_message_seq c + 1, ch_message_count := ch_message_count c' + 1,
                 ch_updated_at := now_ms s\<rparr>) (channels ?t)"
    using new(5) t2 by (simp_all add: bump_channel_seq_Inr)
  have ids: "ids_below ms_id (Suc (next_message ?t)) (messages ?t @ [?m])"
    and keys: "distinct (map (\<lambda>m. coll (ms_message_id m)) (messages ?t @ [?m]))"
      "distinct (map (\<lambda>m. (ms_channel_id m, ms_sender_user_id m, coll (ms_client_msg_id m))) (messages ?t @ [?m]))"
    using ok(1) ids_below_insert [OF ins] uk_message_id.distinct_insert [OF ins]
      uk_client_msg.distinct_insert [OF ins] unfolding messages_ok_def by auto
  have refs: "ms_channel_id ` set (messages ?t @ [?m]) \<subseteq> ch_id ` set (channels (tabs s'))"
    using ok(1) imageI [OF c(1), of ch_id] c(2) by (simp add: t' messages_ok_def)
  have "channel_sequenced (tabs s') d" if d: "d \<in> set (channels (tabs s'))" for d
  proof (cases "ch_id d = cmi_ChannelID inp")
    case True
    with d obtain x where x: "x \<in> set (channels ?t)" "ch_id x = cmi_ChannelID inp"
      and dx: "d = x\<lparr>ch_message_seq := ch_message_seq c + 1, ch_message_count := ch_message_count x + 1,
        ch_updated_at := now_ms s\<rparr>" by (auto simp: t' set_update_where)
    have "x = c" using channel_unique [OF ok(2) x(1) c(1)] x(2) c(2) by simp
    with dx have d': "d = c\<lparr>ch_message_seq := ch_message_seq c + 1, ch_message_count := ch_message_count c + 1,
        ch_updated_at := now_ms s\<rparr>" by simp
    have seq: "channel_sequenced ?t c" and room: "length (messages ?t) < next_message ?t"
      using ok(1) c by (auto simp: messages_ok_def)
    have "next_message ?t < 2 ^ 64" using ins by (simp add: insert_row_Inr)
    from sequenced_append [OF seq room this, of ?m "tabs s'" d] show ?thesis
      using c count by (simp add: t' d')
  next
    case False
    with d have "d \<in> set (channels ?t)" by (auto simp: t' set_update_where)
    with False ok(1) show ?thesis
      using sequenced_other [of ?t d "tabs s'" ?m] by (auto simp: t' messages_ok_def)
  qed
  with ids keys refs ok(1) show ?thesis by (simp add: messages_ok_def t')
qed

text \<open>What no operation changes of a message once it is there.\<close>

definition msg_key :: "message_row \<Rightarrow> uint64 \<times> string \<times> uint32 \<times> uint64 \<times> uint64 \<times> string" where
  "msg_key m = (ms_id m, ms_message_id m, ms_channel_id m, ms_seq m, ms_sender_user_id m, ms_client_msg_id m)"

definition messages_kept :: "tables \<Rightarrow> tables \<Rightarrow> bool" where
  "messages_kept t t' \<longleftrightarrow> prefix (map msg_key (messages t)) (map msg_key (messages t'))"

lemma messages_kept_refl [simp]: "messages_kept t t"
  by (simp add: messages_kept_def)

lemma messages_kept_trans: "messages_kept t t' \<Longrightarrow> messages_kept t' t'' \<Longrightarrow> messages_kept t t''"
  unfolding messages_kept_def by (rule prefix_order.trans)

lemma messages_kept_row:
  assumes "messages_kept t t'" "m \<in> set (messages t)"
  obtains m' where "m' \<in> set (messages t')" "msg_key m' = msg_key m"
proof -
  have "msg_key m \<in> set (map msg_key (messages t'))"
    using assms set_mono_prefix [of "map msg_key (messages t)" "map msg_key (messages t')"]
    by (auto simp: messages_kept_def)
  then show thesis by (auto intro: that)
qed

lemma Create_effect:
  assumes "Create coll inp s = (r, s')"
  shows "tabs s' = tabs s \<or> (\<exists>i s1. create_message_tx coll inp (tick s) = (Inr i, s1) \<and> tabs s' = tabs s1)"
proof -
  obtain r1 s1 where tx: "with_tx (wrap ''begin create message tx'') (create_message_tx coll inp) s = (r1, s1)"
    by (cases "with_tx (wrap ''begin create message tx'') (create_message_tx coll inp) s")
  have "tabs s' = tabs s1"
    using assms tx unfolding Create_def bind_e_def
    by (auto split: sum.splits dest: loadMessageByID_tabs)
  with with_tx_tabs [OF tx] show ?thesis by auto
qed

lemma Create_ok:
  assumes "messages_ok coll (tabs s)" "channels_ok (tabs s)" "Create coll inp s = (r, s')"
  shows "messages_ok coll (tabs s')"
  using Create_effect [OF assms(3)] create_message_tx_ok [of coll "tick s"] assms(1,2) by auto

lemma create_message_tx_rows:
  assumes "create_message_tx coll inp s = (Inr i, s')"
  shows "messages (tabs s') = messages (tabs s) \<or>
    (\<exists>q mid. messages (tabs s') = messages (tabs s) @ [new_message inp (cmi_ChannelID inp) q mid (now_ms s) i])"
  using assms
proof (cases rule: create_message_tx_Inr)
  case (new c mid t1 t2)
  then have "messages (tabs s') = messages (tabs s) @
      [new_message inp (cmi_ChannelID inp) (ch_message_seq c + 1) mid (now_ms s) i]"
    by (auto simp: bump_channel_seq_Inr attach_frame_def dest!: insert_message_Inr)
  then show ?thesis by blast
qed simp

lemma Create_messages_kept: "Create coll inp s = (r, s') \<Longrightarrow> messages_kept (tabs s) (tabs s')"
  by (drule Create_effect) (auto dest!: create_message_tx_rows simp: messages_kept_def)

lemma hydrateMessages_Inr:
  "hydrateMessages items s = (Inr ms, s') \<Longrightarrow> \<exists>rows. ms = map (add_attachments rows) items"
  by (auto simp: hydrateMessages_def em_simps split: if_splits)

lemma add_attachments_simps [simp]:
  "mg_ID (add_attachments rows m) = mg_ID m" "mg_Seq (add_attachments rows m) = mg_Seq m"
  "mg_MessageID (add_attachments rows m) = mg_MessageID m"
  "mg_ChannelDBID (add_attachments rows m) = mg_ChannelDBID m"
  "mg_SenderUserID (add_attachments rows m) = mg_SenderUserID m"
  "mg_ClientMsgID (add_attachments rows m) = mg_ClientMsgID m"
  "mg_Status (add_attachments rows m) = mg_Status m"
  "mg_CreatedAt (add_attachments rows m) = mg_CreatedAt m"
  by (simp_all add: add_attachments_def Let_def)

lemma joined_messages_set:
  "x \<in> set (joined_messages p t) \<longleftrightarrow>
     (\<exists>m \<in> set (messages t). \<exists>u \<in> set (users t). p m \<and> joins_channel t (\<lambda>c. True) (ms_channel_id m) \<and>
        u_id u = ms_sender_user_id m \<and> x = to_message m u)"
  by (auto simp: joined_messages_def)

definition mg_key :: "message \<Rightarrow> uint64 \<times> string \<times> uint32 \<times> uint64 \<times> uint64 \<times> string" where
  "mg_key m = (mg_ID m, mg_MessageID m, mg_ChannelDBID m, mg_Seq m, mg_SenderUserID m, mg_ClientMsgID m)"

lemma mg_key_simps [simp]:
  "mg_key (to_message m u) = msg_key m" "mg_key (add_attachments rows x) = mg_key x"
  by (simp_all add: mg_key_def msg_key_def to_message_def)

lemma loadMessageByID_Inr:
  assumes "loadMessageByID i s = (Inr m, s')"
  obtains row where "row \<in> set (messages (tabs s))" "ms_id row = i" "mg_key m = msg_key row"
proof -
  from assms obtain x s1 items where
    x: "first_row (joined_messages (\<lambda>m. ms_id m = i) (tabs s)) = Some x"
    and h: "hydrateMessages [x] s1 = (Inr items, s')" and m: "m = hd items"
    by (auto simp: loadMessageByID_def em_simps)
  from x have "x \<in> set (joined_messages (\<lambda>m. ms_id m = i) (tabs s))" by (rule first_row_SomeD)
  then obtain row u where "row \<in> set (messages (tabs s))" "ms_id row = i" "x = to_message row u"
    by (auto simp: joined_messages_set)
  moreover from h m have "mg_key m = mg_key x" by (auto dest: hydrateMessages_Inr)
  ultimately show thesis by (auto intro: that)
qed

text \<open>A successful \<open>Create\<close> returns the one message with its client identifier.\<close>

lemma Create_Inr:
  assumes "messages_ok coll (tabs s)" "channels_ok (tabs s)" "Create coll inp s = (Inr m, s')"
  obtains row where "row \<in> set (messages (tabs s'))" "mg_key m = msg_key row"
    "is_client_message coll (cmi_ChannelID inp) (cmi_SenderUserID inp) (cmi_ClientMsgID inp) row"
    "(find (is_client_message coll (cmi_ChannelID inp) (cmi_SenderUserID inp) (cmi_ClientMsgID inp))
        (messages (tabs s)) = Some row \<and> tabs s' = tabs s) \<or>
     (\<exists>c \<in> set (channels (tabs s)). ch_id c = cmi_ChannelID inp \<and> ms_seq row = ch_message_seq c + 1 \<and>
        find (is_client_message coll (cmi_ChannelID inp) (cmi_SenderUserID inp) (cmi_ClientMsgID inp))
          (messages (tabs s)) = None)"
proof -
  from assms(3) obtain i s1 where tx: "create_message_tx coll inp (tick s) = (Inr i, s1)"
    and ld: "loadMessageByID i s1 = (Inr m, s')"
    by (auto simp: Create_def em_simps)
  have s': "tabs s' = tabs s1" using loadMessageByID_tabs [OF ld] .
  from ld obtain row where row: "row \<in> set (messages (tabs s1))" "ms_id row = i" "mg_key m = msg_key row"
    by (rule loadMessageByID_Inr)
  have "messages_ok coll (tabs s1)" using create_message_tx_ok [OF _ _ tx] assms(1,2) by simp
  then have inj: "inj_on ms_id (set (messages (tabs s1)))"
    using ids_below_distinct [of ms_id] by (auto simp: messages_ok_def distinct_map)
  from tx show thesis
  proof (cases rule: create_message_tx_Inr)
    case (existing m0)
    then have "m0 \<in> set (messages (tabs s1))" "is_client_message coll (cmi_ChannelID inp)
        (cmi_SenderUserID inp) (cmi_ClientMsgID inp) m0" by (auto dest: find_SomeD)
    moreover from this have "row = m0" using inj row existing by (auto dest: inj_onD)
    ultimately show ?thesis using that [of row] row existing s' by simp
  next
    case (new c mid t1 t2)
    let ?m = "new_message inp (cmi_ChannelID inp) (ch_message_seq c + 1) mid (now_ms s) i"
    have msgs: "messages (tabs s1) = messages (tabs s) @ [?m]"
      using new(3-5) by (auto simp: bump_channel_seq_Inr attach_frame_def dest!: insert_message_Inr)
    then have "row = ?m" using inj row by (auto dest: inj_onD)
    then show ?thesis
      using that [of row] row new s' by (auto simp: is_client_message_def dest: find_SomeD)
  qed
qed

section \<open>Lemmas: expired messages\<close>

lemma deleted_row_simps [simp]:
  "ms_id (deleted_row nw m) = ms_id m" "ms_channel_id (deleted_row nw m) = ms_channel_id m"
  "ms_seq (deleted_row nw m) = ms_seq m" "ms_status (deleted_row nw m) = StatusDeleted"
  "msg_key (deleted_row nw m) = msg_key m" "ms_message_id (deleted_row nw m) = ms_message_id m"
  "ms_sender_user_id (deleted_row nw m) = ms_sender_user_id m"
  "ms_client_msg_id (deleted_row nw m) = ms_client_msg_id m"
  by (simp_all add: deleted_row_def msg_key_def)

lemma update_where_cong: "(\<And>r. r \<in> set rs \<Longrightarrow> p r = q r) \<Longrightarrow> update_where p f rs = update_where q f rs"
  by (auto simp: update_where_def)

lemma update_where_twice:
  "(\<And>r. q (f r) = q r) \<Longrightarrow> (\<And>r. f (f r) = f r) \<Longrightarrow>
     update_where q f (update_where p f rs) = update_where (\<lambda>r. p r \<or> q r) f rs"
  by (auto simp: update_where_def)

text \<open>Marking a selection of rows, all of them normal and in the table.\<close>

lemma mark_expired_Inr:
  assumes "mark_expired nw (map (\<lambda>m. (ms_id m, ms_channel_id m)) sel) s = (Inr cs, s')"
    "distinct (map ms_id (messages (tabs s)))" "set sel \<subseteq> set (messages (tabs s))"
    "distinct (map ms_id sel)" "\<forall>m \<in> set sel. ms_status m = StatusNormal"
  shows "cs = map ms_channel_id sel \<and>
    tabs s' = (tabs s)\<lparr>messages := update_where (\<lambda>m. ms_id m \<in> ms_id ` set sel) (deleted_row nw)
      (messages (tabs s))\<rparr>"
  using assms
proof (induction sel arbitrary: s cs)
  case Nil
  then show ?case by (simp add: update_where_none)
next
  case (Cons a sel)
  let ?p = "\<lambda>m. ms_id m = ms_id a \<and> ms_status m = StatusNormal"
  let ?t1 = "(tabs s)\<lparr>messages := update_where ?p (deleted_row nw) (messages (tabs s))\<rparr>"
  have a: "a \<in> set (messages (tabs s))" "ms_status a = StatusNormal" using Cons.prems by auto
  have inj: "inj_on ms_id (set (messages (tabs s)))" using Cons.prems(2) by (simp add: distinct_map)
  have "0 < count_where ?p (messages (tabs s))" using a by (auto simp: count_where_pos_iff)
  with Cons.prems(1) obtain cs' where cs: "cs = ms_channel_id a # cs'"
    and rest: "mark_expired nw (map (\<lambda>m. (ms_id m, ms_channel_id m)) sel) ((tick s)\<lparr>tabs := ?t1\<rparr>) = (Inr cs', s')"
    by (auto simp: em_simps mark_deleted_def Let_def)
  have "ms_id x \<noteq> ms_id a" if "x \<in> set sel" for x
    using Cons.prems(4) imageI [OF that, of ms_id] by auto
  then have "set sel \<subseteq> set (messages ?t1)"
    using Cons.prems(3) by (auto simp: set_update_where)
  moreover have "distinct (map ms_id (messages ?t1))" using Cons.prems(2) by simp
  ultimately have ih: "cs' = map ms_channel_id sel"
    "tabs s' = ?t1\<lparr>messages := update_where (\<lambda>m. ms_id m \<in> ms_id ` set sel) (deleted_row nw) (messages ?t1)\<rparr>"
    using Cons.IH [OF rest] Cons.prems(4,5) by simp_all
  have "update_where ?p (deleted_row nw) (messages (tabs s)) =
      update_where (\<lambda>m. ms_id m = ms_id a) (deleted_row nw) (messages (tabs s))"
    using a inj by (intro update_where_cong) (auto dest: inj_onD)
  then have "update_where (\<lambda>m. ms_id m \<in> ms_id ` set sel) (deleted_row nw) (messages ?t1) =
      update_where (\<lambda>m. ms_id m \<in> ms_id ` set (a # sel)) (deleted_row nw) (messages (tabs s))"
    by (simp add: update_where_twice) (simp add: deleted_row_def update_where_twice)
  with ih cs show ?case by simp
qed

definition lowered :: "time_ms \<Rightarrow> uint32 list \<Rightarrow> channel_row \<Rightarrow> channel_row" where
  "lowered nw cs c = c\<lparr>ch_message_count :=
       (if of_nat (count_list cs (ch_id c)) < ch_message_count c
        then ch_message_count c - of_nat (count_list cs (ch_id c)) else 0), ch_updated_at := nw\<rparr>"

lemma lower_counts_Inr:
  "lower_counts nw cs ks s = (Inr x, s') \<Longrightarrow> distinct ks \<Longrightarrow>
     tabs s' = (tabs s)\<lparr>channels := update_where (\<lambda>c. ch_id c \<in> set ks) (lowered nw cs) (channels (tabs s))\<rparr>"
proof (induction ks arbitrary: s)
  case Nil
  then show ?case by (simp add: update_where_none)
next
  case (Cons k ks)
  let ?t1 = "(tabs s)\<lparr>channels := update_where (\<lambda>c. ch_id c = k) (lowered nw cs) (channels (tabs s))\<rparr>"
  have low: "lower_message_count k (of_nat (count_list cs k)) nw (tabs s) = ?t1"
    by (auto simp: lower_message_count_def lowered_def update_where_def)
  from Cons.prems(1) have "lower_counts nw cs ks ((tick s)\<lparr>tabs := ?t1\<rparr>) = (Inr x, s')"
    by (auto simp: em_simps low)
  from Cons.IH [OF this] Cons.prems(2) have
    "tabs s' = ?t1\<lparr>channels := update_where (\<lambda>c. ch_id c \<in> set ks) (lowered nw cs) (channels ?t1)\<rparr>" by simp
  moreover have "update_where (\<lambda>c. ch_id c \<in> set ks) (lowered nw cs) (channels ?t1) =
      update_where (\<lambda>c. ch_id c \<in> set (k # ks)) (lowered nw cs) (channels (tabs s))"
    using Cons.prems(2) by (auto simp: update_where_def lowered_def)
  ultimately show ?case by simp
qed

text \<open>The rows a clean-up selects.\<close>

definition selected :: "time_ms \<Rightarrow> uint32 \<Rightarrow> tables \<Rightarrow> message_row list" where
  "selected nw limit t =
     order_limit (\<lambda>m. (ms_created_at m, ms_id m)) (unat limit) (filter (expired t nw) (messages t))"

text \<open>The tables after a clean-up that has committed.\<close>

definition cleaned :: "time_ms \<Rightarrow> message_row list \<Rightarrow> tables \<Rightarrow> tables" where
  "cleaned nw sel t = t\<lparr>messages := update_where (\<lambda>m. ms_id m \<in> ms_id ` set sel) (deleted_row nw) (messages t),
      channels := update_where (\<lambda>c. ch_id c \<in> ms_channel_id ` set sel)
        (lowered nw (map ms_channel_id sel)) (channels t)\<rparr>"

lemma selected_props:
  assumes "distinct (map ms_id (messages t))"
  shows "set (selected nw limit t) \<subseteq> set (messages t)"
    "\<forall>m \<in> set (selected nw limit t). expired t nw m" "distinct (map ms_id (selected nw limit t))"
    "length (selected nw limit t) \<le> unat limit"
proof -
  let ?f = "filter (expired t nw) (messages t)" and ?key = "\<lambda>m. (ms_created_at m, ms_id m)"
  have "set (selected nw limit t) \<subseteq> set ?f" unfolding selected_def by (rule set_order_limit)
  then show "set (selected nw limit t) \<subseteq> set (messages t)"
    "\<forall>m \<in> set (selected nw limit t). expired t nw m" by auto
  have "distinct (map ms_id ?f)" using assms by (rule distinct_map_filter)
  then have "distinct (map ms_id (sort_key ?key ?f))"
    by (simp add: distinct_map)
  then show "distinct (map ms_id (selected nw limit t))"
    by (simp add: selected_def order_limit_def take_map [symmetric])
  show "length (selected nw limit t) \<le> unat limit" by (simp add: selected_def)
qed

lemma cleanup_tx_Inr:
  assumes "cleanup_tx nw limit s = (Inr n, s')" "distinct (map ms_id (messages (tabs s)))"
  shows "n = of_nat (length (selected nw limit (tabs s))) \<and>
    tabs s' = cleaned nw (selected nw limit (tabs s)) (tabs s)"
proof (cases "selected nw limit (tabs s) = []")
  case True
  with assms(1) show ?thesis
    by (auto simp: cleanup_tx_def em_simps selected_def cleaned_def update_where_none)
next
  case False
  let ?sel = "selected nw limit (tabs s)"
  from assms(1) False obtain cs s1 s2 x where
    m: "mark_expired nw (map (\<lambda>m. (ms_id m, ms_channel_id m)) ?sel) (tick s) = (Inr cs, s1)"
    and l: "lower_counts nw cs (remdups cs) s1 = (Inr x, s2)"
    and n: "n = of_nat (length cs)" "tabs s' = tabs s2"
    by (auto simp: cleanup_tx_def em_simps selected_def)
  have norm: "\<forall>m \<in> set ?sel. ms_status m = StatusNormal"
    using selected_props(2) [OF assms(2), of nw limit] by (auto simp: expired_def)
  from mark_expired_Inr [OF m] selected_props(1,3) [OF assms(2), of nw limit] assms(2) norm
  have cs: "cs = map ms_channel_id ?sel" and t1: "tabs s1 = (tabs s)\<lparr>messages :=
      update_where (\<lambda>m. ms_id m \<in> ms_id ` set ?sel) (deleted_row nw) (messages (tabs s))\<rparr>"
    by simp_all
  from lower_counts_Inr [OF l] t1 n cs show ?thesis by (simp add: cleaned_def)
qed

lemma count_list_filter: "count_list (map f xs) k = length (filter (\<lambda>x. f x = k) xs)"
  by (induction xs) auto

text \<open>Deleting a selection of normal rows takes as many off the count of each channel.\<close>

lemma count_after_delete:
  assumes "distinct (map ms_id ms)" "set sel \<subseteq> set ms" "distinct (map ms_id sel)"
    "\<forall>m \<in> set sel. ms_status m = StatusNormal"
  shows "count_where (\<lambda>m. ms_status m = StatusNormal) (filter (\<lambda>m. ms_channel_id m = i) ms) =
    count_where (\<lambda>m. ms_status m = StatusNormal) (filter (\<lambda>m. ms_channel_id m = i)
        (update_where (\<lambda>m. ms_id m \<in> ms_id ` set sel) (deleted_row nw) ms)) +
      count_list (map ms_channel_id sel) i"
proof -
  let ?n = "\<lambda>m. ms_status m = StatusNormal \<and> ms_channel_id m = i"
  let ?d = "\<lambda>m. ms_id m \<in> ms_id ` set sel"
  have split: "length (filter ?n ms) = length (filter (\<lambda>m. ?n m \<and> \<not> ?d m) ms) + length (filter (\<lambda>m. ?n m \<and> ?d m) ms)"
    by (induction ms) auto
  have up: "length (filter ?n (update_where ?d (deleted_row nw) ms)) = length (filter (\<lambda>m. ?n m \<and> \<not> ?d m) ms)"
    by (induction ms) auto
  have inj: "inj_on ms_id (set ms)" "distinct ms" "distinct sel" using assms by (auto simp: distinct_map)
  have "set (filter (\<lambda>m. ?n m \<and> ?d m) ms) = set (filter (\<lambda>m. ms_channel_id m = i) sel)"
    using assms(2,4) inj(1) by (auto dest: inj_onD)
  then have "length (filter (\<lambda>m. ?n m \<and> ?d m) ms) = length (filter (\<lambda>m. ms_channel_id m = i) sel)"
    using inj(2,3) distinct_card [of "filter (\<lambda>m. ?n m \<and> ?d m) ms"]
      distinct_card [of "filter (\<lambda>m. ms_channel_id m = i) sel"] by simp
  with split up show ?thesis
    by (simp add: count_where_def count_list_filter conj_commute del: filter_update_where)
qed

lemma cleaned_sequenced:
  assumes "channel_sequenced t c" "distinct (map ms_id (messages t))" "set sel \<subseteq> set (messages t)"
    "distinct (map ms_id sel)" "\<forall>m \<in> set sel. ms_status m = StatusNormal"
  shows "channel_sequenced (cleaned nw sel t)
    (if ch_id c \<in> ms_channel_id ` set sel then lowered nw (map ms_channel_id sel) c else c)"
proof -
  let ?k = "count_list (map ms_channel_id sel) (ch_id c)"
  let ?ms = "update_where (\<lambda>m. ms_id m \<in> ms_id ` set sel) (deleted_row nw) (messages t)"
  let ?cnt = "\<lambda>ms. count_where (\<lambda>m. ms_status m = StatusNormal) (filter (\<lambda>m. ms_channel_id m = ch_id c) ms)"
  have cnt: "unat (ch_message_count c) = ?cnt ?ms + ?k"
    using assms(1) count_after_delete [OF assms(2-5), of "ch_id c" nw]
    by (simp add: channel_sequenced_def channel_log_def)
  have "?k < 2 ^ 64" using cnt unsigned_less [of "ch_message_count c", where 'a = nat] by simp
  then have k: "unat (of_nat ?k :: uint64) = ?k" by (intro unat_of_nat_less) simp
  have low: "unat (ch_message_count (lowered nw (map ms_channel_id sel) c)) = ?cnt ?ms"
    using cnt k by (simp add: lowered_def word_less_nat_alt unat_sub word_le_nat_alt)
  have zero: "?k = 0" if "ch_id c \<notin> ms_channel_id ` set sel"
    using that by (simp add: count_list_0_iff)
  show ?thesis
    using assms(1) cnt low zero
    by (auto simp: channel_sequenced_def channel_log_def cleaned_def lowered_def)
qed

lemma cleaned_ok:
  assumes ok: "messages_ok coll t" and sel: "set sel \<subseteq> set (messages t)" "distinct (map ms_id sel)"
    "\<forall>m \<in> set sel. ms_status m = StatusNormal"
  shows "messages_ok coll (cleaned nw sel t)"
proof -
  have ids: "distinct (map ms_id (messages t))"
    using ok ids_below_distinct by (auto simp: messages_ok_def)
  have "\<forall>c \<in> set (channels (cleaned nw sel t)). channel_sequenced (cleaned nw sel t) c"
  proof
    fix d assume "d \<in> set (channels (cleaned nw sel t))"
    then obtain c where "c \<in> set (channels t)"
      and d: "d = (if ch_id c \<in> ms_channel_id ` set sel then lowered nw (map ms_channel_id sel) c else c)"
      by (auto simp: cleaned_def update_where_def)
    then have "channel_sequenced t c" using ok by (simp add: messages_ok_def)
    from cleaned_sequenced [OF this ids sel, of nw] d show "channel_sequenced (cleaned nw sel t) d" by simp
  qed
  moreover have "ch_id ` set (channels (cleaned nw sel t)) = ch_id ` set (channels t)"
    by (simp add: cleaned_def lowered_def)
  ultimately show ?thesis
    using ok by (simp add: messages_ok_def cleaned_def ids_below_update)
qed

lemma CleanupExpiredMessages_effect:
  assumes "messages_ok coll (tabs s)" "CleanupExpiredMessages nw limit s = (r, s')"
  shows "tabs s' = tabs s \<or>
    (let sel = selected nw (if limit = 0 then 100 else limit) (tabs s) in
     r = Inr (of_nat (length sel)) \<and> tabs s' = cleaned nw sel (tabs s))"
proof -
  have "distinct (map ms_id (messages (tabs s)))"
    using assms(1) ids_below_distinct by (auto simp: messages_ok_def)
  then show ?thesis
    using with_tx_tabs [OF assms(2) [unfolded CleanupExpiredMessages_def]]
    by (auto simp: Let_def dest!: cleanup_tx_Inr)
qed

lemma CleanupExpiredMessages_ok:
  assumes "messages_ok coll (tabs s)" "CleanupExpiredMessages nw limit s = (r, s')"
  shows "messages_ok coll (tabs s')"
proof -
  have ids: "distinct (map ms_id (messages (tabs s)))"
    using assms(1) ids_below_distinct by (auto simp: messages_ok_def)
  have "messages_ok coll (cleaned nw (selected nw lim (tabs s)) (tabs s))" for lim
    using selected_props [OF ids, of nw lim]
    by (intro cleaned_ok [OF assms(1)]) (auto simp: expired_def)
  with CleanupExpiredMessages_effect [OF assms] assms(1) show ?thesis by (auto simp: Let_def)
qed

section \<open>Lemmas: read cursors\<close>

definition cursors_kept :: "tables \<Rightarrow> tables \<Rightarrow> bool" where
  "cursors_kept t t' \<longleftrightarrow> (\<forall>r \<in> set (user_channel_reads t). \<exists>r' \<in> set (user_channel_reads t').
     rd_user_id r' = rd_user_id r \<and> rd_channel_id r' = rd_channel_id r \<and>
     rd_last_delivered_seq r \<le> rd_last_delivered_seq r' \<and> rd_last_read_seq r \<le> rd_last_read_seq r')"

lemma upsert_cursor_kept:
  assumes "upsert_cursor u c d k nw t = Inr (x, t')"
  shows "cursors_kept t t'"
  unfolding cursors_kept_def
proof
  fix r assume r: "r \<in> set (user_channel_reads t)"
  let ?p = "\<lambda>r. rd_user_id r = u \<and> rd_channel_id r = c"
  let ?f = "\<lambda>r. r\<lparr>rd_last_delivered_seq := max (rd_last_delivered_seq r) d,
                 rd_last_read_seq := max (rd_last_read_seq r) k, rd_updated_at := nw\<rparr>"
  let ?r' = "if ?p r then ?f r else r"
  have "r \<in> set (user_channel_reads t') \<or> ?r' \<in> set (user_channel_reads t')"
    using assms r
    by (auto simp: upsert_cursor_def update_where_def insert_row_Inr split: if_splits sum.splits prod.splits)
  then show "\<exists>r' \<in> set (user_channel_reads t'). rd_user_id r' = rd_user_id r \<and> rd_channel_id r' = rd_channel_id r \<and>
     rd_last_delivered_seq r \<le> rd_last_delivered_seq r' \<and> rd_last_read_seq r \<le> rd_last_read_seq r'"
    by (rule disjE) (rule bexI, simp_all)+
qed

lemma upsert_cursor_frame:
  "upsert_cursor u c d k nw t = Inr (x, t') \<Longrightarrow>
     t' = t\<lparr>user_channel_reads := user_channel_reads t', next_read := next_read t'\<rparr>"
  by (auto simp: upsert_cursor_def split: if_splits sum.splits prod.splits)

text \<open>After an upsert the row of the user and the channel is at least at the written number.\<close>

lemma upsert_cursor_reaches:
  assumes "upsert_cursor u c d k nw t = Inr (x, t')" "joins_channel t (\<lambda>c. True) c"
  shows "\<exists>r \<in> set (user_channel_reads t'). rd_user_id r = u \<and> rd_channel_id r = c \<and>
    d \<le> rd_last_delivered_seq r \<and> k \<le> rd_last_read_seq r"
proof (cases "\<exists>r \<in> set (user_channel_reads t). rd_user_id r = u \<and> rd_channel_id r = c")
  case True
  then obtain r where r: "r \<in> set (user_channel_reads t)" "rd_user_id r = u" "rd_channel_id r = c" by auto
  let ?r' = "r\<lparr>rd_last_delivered_seq := max (rd_last_delivered_seq r) d,
                 rd_last_read_seq := max (rd_last_read_seq r) k, rd_updated_at := nw\<rparr>"
  have "?r' \<in> set (user_channel_reads t')"
    using assms r True by (auto simp: upsert_cursor_def set_update_where)
  with r show ?thesis by (intro bexI [of _ ?r']) simp_all
next
  case False
  with assms show ?thesis
    by (auto simp: upsert_cursor_def insert_row_Inr split: sum.splits prod.splits)
qed

section \<open>Lemmas: listing\<close>

lemma ListAfterSeq_Inr:
  assumes "ListAfterSeq c a lim s = (Inr ms, s')"
  obtains rows where "ms = map (add_attachments rows) (order_limit mg_Seq (unat lim)
      (joined_messages (\<lambda>m. ms_channel_id m = c \<and> a < ms_seq m \<and> ms_status m = StatusNormal) (tabs s)))"
  using assms by (auto simp: ListAfterSeq_def em_simps dest!: hydrateMessages_Inr)

section \<open>Properties\<close>

lemmas [run_simps] =
  Create_def create_message_tx_def getChannelForUpdate_def getMessageByClientMsgIDTx_def is_client_message_def
  insert_message_def new_message_def message_clash_def bump_channel_seq_def loadMessageByID_def joined_messages_def
  joins_channel_def to_message_def hydrateMessages_def attachment_rows_def add_attachments_def
  CleanupExpiredMessages_def cleanup_tx_def expired_def mark_deleted_def deleted_row_def lower_message_count_def

lemma ex_messages_ok: "messages_ok ex_coll (tabs ex_store)"
  by (simp add: messages_ok_def channel_sequenced_def channel_log_def ids_below_def count_where_def upt_rec ex_defs)

text \<open>
  C6: storing a message is idempotent in its client identifier. Whatever happened in between,
  as long as no message was taken away, a second \<open>Create\<close> for the same channel, sender and
  client identifier returns the message of the first one, with its number, and changes
  nothing.
\<close>

theorem create_idempotent:
  assumes ok: "messages_ok coll (tabs s)" "channels_ok (tabs s)" and run: "Create coll inp s = (Inr m, s1)"
    and ok2: "messages_ok coll (tabs s2)" "channels_ok (tabs s2)" and kept: "messages_kept (tabs s1) (tabs s2)"
    and same: "cmi_ChannelID inp2 = cmi_ChannelID inp" "cmi_SenderUserID inp2 = cmi_SenderUserID inp"
      "coll (cmi_ClientMsgID inp2) = coll (cmi_ClientMsgID inp)"
    and run2: "Create coll inp2 s2 = (Inr m2, s3)"
  shows "mg_key m2 = mg_key m \<and> tabs s3 = tabs s2"
proof -
  let ?p = "is_client_message coll (cmi_ChannelID inp) (cmi_SenderUserID inp) (cmi_ClientMsgID inp)"
  have p2: "is_client_message coll (cmi_ChannelID inp2) (cmi_SenderUserID inp2) (cmi_ClientMsgID inp2) = ?p"
    by (rule ext) (simp add: is_client_message_def same)
  obtain row where row: "row \<in> set (messages (tabs s1))" "mg_key m = msg_key row" "?p row"
    using ok run by (rule Create_Inr)
  obtain row' where row': "row' \<in> set (messages (tabs s2))" "msg_key row' = msg_key row"
    using kept row(1) by (rule messages_kept_row)
  then have "?p row'" using row(3) by (simp add: is_client_message_def msg_key_def)
  then have "find ?p (messages (tabs s2)) \<noteq> None" using row'(1) by (auto simp: find_None_iff)
  moreover obtain row2 where "mg_key m2 = msg_key row2"
    "find ?p (messages (tabs s2)) = Some row2 \<and> tabs s3 = tabs s2 \<or> find ?p (messages (tabs s2)) = None"
    using ok2 run2 unfolding p2 [symmetric] by (rule Create_Inr) blast
  ultimately have two: "mg_key m2 = msg_key row2" "find ?p (messages (tabs s2)) = Some row2" "tabs s3 = tabs s2" by auto
  let ?k = "\<lambda>m. (ms_channel_id m, ms_sender_user_id m, coll (ms_client_msg_id m))"
  have inj: "inj_on ?k (set (messages (tabs s2)))"
    using ok2(1) by (simp add: messages_ok_def distinct_map)
  have row2: "row2 \<in> set (messages (tabs s2))" "?p row2" using find_SomeD [OF two(2)] by simp_all
  then have "?k row2 = ?k row'" using \<open>?p row'\<close> by (simp add: is_client_message_def)
  then have "row2 = row'" by (rule inj_onD [OF inj _ row2(1) row'(1)])
  with two row row' show ?thesis by simp
qed

definition ex_text :: create_message_input where
  "ex_text = \<lparr>cmi_ChannelID = 1, cmi_SenderUserID = 1, cmi_ClientMsgID = ''client-9'', cmi_MessageType = TypeText,
     cmi_Text = ''again'', cmi_AttachmentMedia = []\<rparr>"

theorem create_idempotent_witness:
  "\<exists>m s1 m2 s3. Create ex_coll ex_text ex_store = (Inr m, s1) \<and> Create ex_coll ex_text s1 = (Inr m2, s3) \<and>
     mg_key m2 = mg_key m \<and> tabs s3 = tabs s1"
proof -
  let ?s1 = "snd (Create ex_coll ex_text ex_store)"
  have ok: "\<not> isl (fst (Create ex_coll ex_text ex_store))"
    by (simp add: run_simps ex_text_def ex_clock_text show_int_def ex_defs)
  have ok2: "\<not> isl (fst (Create ex_coll ex_text ?s1))"
    by (simp add: run_simps ex_text_def ex_clock_text show_int_def ex_defs)
  note run = succeeds [OF ok] and run2 = succeeds [OF ok2]
  have m: "messages_ok ex_coll (tabs ?s1)" by (rule Create_ok [OF ex_messages_ok ex_channels_ok(1) run])
  have c: "channels_ok (tabs ?s1)"
    by (simp add: channels_ok_def ids_below_def run_simps ex_text_def ex_clock_text show_int_def ex_defs)
  from create_idempotent [OF ex_messages_ok ex_channels_ok(1) run m c messages_kept_refl refl refl refl run2] run run2
  show ?thesis by blast
qed

lemma joins_cleaned:
  assumes "\<And>c cs. p (lowered nw cs c) = p c"
  shows "joins_channel (cleaned nw sel t) p i = joins_channel t p i"
proof -
  let ?f = "\<lambda>c. (ch_id c, p c)"
  have "?f ` set (channels (cleaned nw sel t)) = ?f ` set (channels t)"
    unfolding cleaned_def using assms by (simp, intro image_update_where, simp, simp add: lowered_def)
  moreover have "joins_channel t' p i = ((i, True) \<in> ?f ` set (channels t'))" for t'
    by (auto simp: joins_channel_def)
  ultimately show ?thesis by simp
qed

text \<open>
  A clean-up that reports success has deleted exactly the messages it selected: each of
  them was a normal message past the lifetime of its channel, there are no more of them than
  the limit allows, every other message is untouched, and when it stayed below the limit no
  expired message is left.
\<close>

theorem cleanup_exact:
  assumes ok: "messages_ok coll (tabs s)" and run: "CleanupExpiredMessages nw limit s = (Inr n, s')"
  shows "\<exists>sel. n = of_nat (length sel) \<and> length sel \<le> unat (if limit = 0 then 100 else limit) \<and>
    (\<forall>m \<in> set sel. m \<in> set (messages (tabs s)) \<and> expired (tabs s) nw m) \<and>
    messages (tabs s') = update_where (\<lambda>m. ms_id m \<in> ms_id ` set sel) (deleted_row nw) (messages (tabs s)) \<and>
    (length sel < unat (if limit = 0 then 100 else limit) \<longrightarrow>
       (\<forall>m \<in> set (messages (tabs s')). \<not> expired (tabs s') nw m))"
proof -
  let ?lim = "if limit = 0 then 100 else limit"
  let ?sel = "selected nw ?lim (tabs s)"
  have dist: "distinct (map ms_id (messages (tabs s)))"
    using ok by (auto simp: messages_ok_def dest: ids_below_distinct)
  have n: "n = of_nat (length ?sel)" and t: "tabs s' = cleaned nw ?sel (tabs s)"
    using run cleanup_tx_Inr [of nw ?lim "tick s" n s'] dist
    unfolding CleanupExpiredMessages_def by (auto simp: with_tx_Inr)
  note sel = selected_props [OF dist, of nw ?lim]
  have exp: "expired (tabs s') nw m = expired (tabs s) nw m" for m
    unfolding expired_def by (simp add: t joins_cleaned lowered_def)
  have "\<not> expired (tabs s') nw m" if len: "length ?sel < unat ?lim" and m: "m \<in> set (messages (tabs s'))" for m
  proof
    assume "expired (tabs s') nw m"
    then have e: "expired (tabs s) nw m" "ms_status m = StatusNormal" by (simp_all add: exp) (simp add: expired_def)
    have "m \<in> set (messages (tabs s)) \<and> ms_id m \<notin> ms_id ` set ?sel"
      using m e(2) by (auto simp: t cleaned_def set_update_where)
    moreover have "set ?sel = set (filter (expired (tabs s) nw) (messages (tabs s)))"
      using len unfolding selected_def order_limit_def by simp
    ultimately show False using e(1) by auto
  qed
  then show ?thesis using n t sel by (intro exI [of _ ?sel]) (auto simp: cleaned_def)
qed

theorem cleanup_exact_witness:
  "\<exists>n s'. CleanupExpiredMessages 100000 10 ex_store = (Inr n, s') \<and>
     (\<exists>sel. n = of_nat (length sel) \<and> (\<forall>m \<in> set sel. expired (tabs ex_store) 100000 m))"
proof -
  have ok: "\<not> isl (fst (CleanupExpiredMessages 100000 10 ex_store))"
    by (simp add: run_simps ex_defs)
  from cleanup_exact [OF ex_messages_ok succeeds [OF ok]] succeeds [OF ok] show ?thesis by blast
qed

end
