(* ===== verification/Store_Direct.thy ===== *)
theory Store_Direct
  imports Store_Users
begin

text \<open>
  The direct-chat repository \<open>internal/repository/mysql/direct_chat.go\<close>: one conversation
  per pair of users, its numbered messages, their acknowledgement by the recipient and the
  listing of what is still unacknowledged.
\<close>

section \<open>Conversations\<close>

record direct_conversation =
  dv_ID :: uint64
  dv_ConversationID :: string
  dv_UserLowID :: uint64
  dv_UserHighID :: uint64
  dv_LastSeq :: uint64
  dv_LastMessageAtMs :: uint64

record direct_list_item =
  dl_ConversationID :: string
  dl_PeerUserID :: string
  dl_PeerDisplayName :: string
  dl_LastSeq :: uint64
  dl_LastMessageAtMs :: uint64

definition normalizeUserPair :: "uint64 \<Rightarrow> uint64 \<Rightarrow> uint64 \<times> uint64" where
  "normalizeUserPair a b = (if a < b then (a, b) else (b, a))"

definition to_conversation :: "conversation_row \<Rightarrow> direct_conversation" where
  "to_conversation r = \<lparr>dv_ID = dc_id r, dv_ConversationID = dc_conversation_id r,
     dv_UserLowID = dc_user_low_id r, dv_UserHighID = dc_user_high_id r, dv_LastSeq = dc_last_seq r,
     dv_LastMessageAtMs = dc_last_message_at_ms r\<rparr>"

definition conversation_clash :: "collation \<Rightarrow> conversation_row \<Rightarrow> conversation_row \<Rightarrow> bool" where
  "conversation_clash coll a b \<longleftrightarrow>
     coll (dc_conversation_id a) = coll (dc_conversation_id b) \<or>
     (dc_user_low_id a, dc_user_high_id a) = (dc_user_low_id b, dc_user_high_id b)"

definition new_conversation :: "string \<Rightarrow> uint64 \<Rightarrow> uint64 \<Rightarrow> time_ms \<Rightarrow> uint64 \<Rightarrow> conversation_row" where
  "new_conversation cid low high nw i =
     \<lparr>dc_id = i, dc_conversation_id = cid, dc_user_low_id = low, dc_user_high_id = high, dc_last_seq = 0,
      dc_last_message_at_ms = 0, dc_created_at = nw, dc_updated_at = nw\<rparr>"

definition insert_conversation :: "collation \<Rightarrow> string \<Rightarrow> uint64 \<Rightarrow> uint64 \<Rightarrow> time_ms
    \<Rightarrow> tables \<Rightarrow> err + (unit \<times> tables)" where
  "insert_conversation coll cid low high nw t =
     (case insert_row (new_conversation cid low high nw) (conversation_clash coll)
            (next_conversation t) (direct_conversations t) of
        Inl e \<Rightarrow> Inl e
      | Inr (i, rs, n) \<Rightarrow> Inr ((), t\<lparr>direct_conversations := rs, next_conversation := n\<rparr>))"

definition get_or_create_tx :: "collation \<Rightarrow> uint64 \<Rightarrow> uint64 \<Rightarrow> (store, tx_exit, direct_conversation) em" where
  "get_or_create_tx coll low high =
     handle_e (fetchOne (\<lambda>t. find (\<lambda>r. dc_user_low_id r = low \<and> dc_user_high_id r = high) (direct_conversations t)))
       (\<lambda>e. if e \<noteq> ErrNotFound then raise (TxReturn (Some e) e)
             else bind_e now (\<lambda>nw.
               bind_e (newExternalID ''dmcnv'') (\<lambda>cid.
               bind_e (tx_try (wrap ''insert direct_conversations'')
                 (sql_exec (insert_conversation coll cid low high nw))) (\<lambda>_.
               bind_e (tx_commit id) (\<lambda>_.
               ret \<lparr>dv_ID = 0, dv_ConversationID = cid, dv_UserLowID = low, dv_UserHighID = high,
                    dv_LastSeq = 0, dv_LastMessageAtMs = 0\<rparr>)))))
       (\<lambda>row. bind_e (tx_commit id) (\<lambda>_. ret (to_conversation row)))"

definition GetOrCreateConversation :: "collation \<Rightarrow> uint64 \<Rightarrow> uint64 \<Rightarrow> (store, err, direct_conversation) em" where
  "GetOrCreateConversation coll userAID userBID =
     (if userAID = userBID then raise (Errorf ''invalid peer'')
      else let (low, high) = normalizeUserPair userAID userBID in
        with_tx id (get_or_create_tx coll low high))"

definition GetConversationByExternalID :: "collation \<Rightarrow> string \<Rightarrow> (store, err, direct_conversation) em" where
  "GetConversationByExternalID coll conversationID =
     fetchOne (\<lambda>t. map_option to_conversation
       (find (\<lambda>r. coll (dc_conversation_id r) = coll (TrimSpace conversationID)) (direct_conversations t)))"

text \<open>The scan into \<open>out\<close>, the row newest first; rows of the same time stay in table order.\<close>

definition ListConversationsForUser :: "uint64 \<Rightarrow> (store, err, direct_list_item list) em" where
  "ListConversationsForUser userID =
     sql_select (\<lambda>t. map (\<lambda>(dc, ul, uh).
         \<lparr>dl_ConversationID = dc_conversation_id dc,
          dl_PeerUserID = (if userID = dc_user_low_id dc then u_user_id uh else u_user_id ul),
          dl_PeerDisplayName = (if userID = dc_user_low_id dc then u_display_name uh else u_display_name ul),
          dl_LastSeq = dc_last_seq dc, dl_LastMessageAtMs = dc_last_message_at_ms dc\<rparr>)
       (sort_key (\<lambda>(dc, ul, uh). - dc_updated_at dc)
         [(dc, ul, uh). dc \<leftarrow> direct_conversations t, dc_user_low_id dc = userID \<or> dc_user_high_id dc = userID,
            ul \<leftarrow> users t, u_id ul = dc_user_low_id dc, uh \<leftarrow> users t, u_id uh = dc_user_high_id dc]))"

section \<open>Messages\<close>

record direct_message =
  dx_MessageID :: string
  dx_ConversationID :: string
  dx_Seq :: uint64
  dx_SenderUserID :: uint64
  dx_RecipientUserID :: uint64
  dx_SenderExternalID :: string
  dx_RecipientExternalID :: string
  dx_ClientMsgID :: string
  dx_MessageType :: message_type
  dx_Text :: string
  dx_CreatedAtMs :: uint64
  dx_RecipientAckedAtMs :: "uint64 option"

definition to_direct_message :: "direct_message_row \<Rightarrow> user_row \<Rightarrow> user_row \<Rightarrow> direct_message" where
  "to_direct_message dm su ru = \<lparr>dx_MessageID = dm_message_id dm, dx_ConversationID = dm_conversation_id dm,
     dx_Seq = dm_seq dm, dx_SenderUserID = dm_sender_user_id dm, dx_RecipientUserID = dm_recipient_user_id dm,
     dx_SenderExternalID = u_user_id su, dx_RecipientExternalID = u_user_id ru,
     dx_ClientMsgID = dm_client_msg_id dm, dx_MessageType = dm_message_type dm,
     dx_Text = coalesce [] (dm_text_content dm), dx_CreatedAtMs = dm_created_at_ms dm,
     dx_RecipientAckedAtMs = dm_recipient_acked_at_ms dm\<rparr>"

definition joined_direct :: "(direct_message_row \<Rightarrow> bool) \<Rightarrow> tables \<Rightarrow> direct_message list" where
  "joined_direct p t =
     [to_direct_message dm su ru. dm \<leftarrow> direct_messages t, p dm,
        su \<leftarrow> users t, u_id su = dm_sender_user_id dm, ru \<leftarrow> users t, u_id ru = dm_recipient_user_id dm]"

definition loadDirectMessageRow :: "(direct_message_row \<Rightarrow> bool) \<Rightarrow> (store, err, direct_message) em" where
  "loadDirectMessageRow p = fetchOne (\<lambda>t. first_row (joined_direct p t))"

definition is_direct_client :: "collation \<Rightarrow> string \<Rightarrow> uint64 \<Rightarrow> string \<Rightarrow> direct_message_row \<Rightarrow> bool" where
  "is_direct_client coll conversationID senderUserID clientMsgID dm \<longleftrightarrow>
     coll (dm_conversation_id dm) = coll conversationID \<and> dm_sender_user_id dm = senderUserID \<and>
     coll (dm_client_msg_id dm) = coll clientMsgID"

definition GetDirectMessageByClientMsgID :: "collation \<Rightarrow> string \<Rightarrow> uint64 \<Rightarrow> string \<Rightarrow> (store, err, direct_message) em" where
  "GetDirectMessageByClientMsgID coll conversationID senderUserID clientMsgID =
     loadDirectMessageRow (is_direct_client coll conversationID senderUserID clientMsgID)"

definition GetDirectMessageByMessageID :: "collation \<Rightarrow> string \<Rightarrow> (store, err, direct_message) em" where
  "GetDirectMessageByMessageID coll messageID =
     loadDirectMessageRow (\<lambda>dm. coll (dm_message_id dm) = coll messageID)"

record create_direct_input =
  cdi_ConversationID :: string
  cdi_SenderUserID :: uint64
  cdi_RecipientUserID :: uint64
  cdi_ClientMsgID :: string
  cdi_MessageType :: message_type
  cdi_Text :: string

definition direct_clash :: "collation \<Rightarrow> direct_message_row \<Rightarrow> direct_message_row \<Rightarrow> bool" where
  "direct_clash coll a b \<longleftrightarrow>
     coll (dm_message_id a) = coll (dm_message_id b) \<or>
     (coll (dm_conversation_id a), dm_seq a) = (coll (dm_conversation_id b), dm_seq b) \<or>
     (coll (dm_conversation_id a), dm_sender_user_id a, coll (dm_client_msg_id a)) =
       (coll (dm_conversation_id b), dm_sender_user_id b, coll (dm_client_msg_id b))"

text \<open>The text of the type column: an empty type is stored as \<open>text\<close>.\<close>

definition direct_type :: "message_type \<Rightarrow> message_type" where
  "direct_type mt = (if mt = MessageTypeOther [] then TypeText else mt)"

definition new_direct_message :: "create_direct_input \<Rightarrow> string \<Rightarrow> uint64 \<Rightarrow> time_ms \<Rightarrow> uint64 \<Rightarrow> direct_message_row" where
  "new_direct_message inp msgID nextSeq nw i =
     \<lparr>dm_id = i, dm_message_id = msgID, dm_conversation_id = cdi_ConversationID inp, dm_seq = nextSeq,
      dm_sender_user_id = cdi_SenderUserID inp, dm_recipient_user_id = cdi_RecipientUserID inp,
      dm_client_msg_id = cdi_ClientMsgID inp, dm_message_type = direct_type (cdi_MessageType inp),
      dm_text_content = nullableString (cdi_Text inp), dm_created_at_ms = of_int nw,
      dm_recipient_acked_at_ms = None, dm_created_at = nw\<rparr>"

definition insert_direct_message :: "collation \<Rightarrow> create_direct_input \<Rightarrow> string \<Rightarrow> uint64 \<Rightarrow> time_ms
    \<Rightarrow> tables \<Rightarrow> err + (unit \<times> tables)" where
  "insert_direct_message coll inp msgID nextSeq nw t =
     (if direct_type (cdi_MessageType inp) \<notin> {TypeText, TypeImage, TypeFile, TypeSystem} then Inl DriverErr
      else case insert_row (new_direct_message inp msgID nextSeq nw) (direct_clash coll)
            (next_direct_message t) (direct_messages t) of
        Inl e \<Rightarrow> Inl e
      | Inr (i, rs, n) \<Rightarrow> Inr ((), t\<lparr>direct_messages := rs, next_direct_message := n\<rparr>))"

definition bump_conversation :: "uint64 \<Rightarrow> uint64 \<Rightarrow> time_ms \<Rightarrow> tables \<Rightarrow> tables" where
  "bump_conversation i nextSeq nw t =
     t\<lparr>direct_conversations := update_where (\<lambda>c. dc_id c = i)
        (\<lambda>c. c\<lparr>dc_last_seq := nextSeq, dc_last_message_at_ms := of_int nw, dc_updated_at := nw\<rparr>)
        (direct_conversations t)\<rparr>"

text \<open>
  The transaction ends with the message that is there already (\<open>Inl\<close>) or with the identifier
  of the new one (\<open>Inr\<close>), which is read back afterwards.
\<close>

definition create_direct_tx :: "collation \<Rightarrow> create_direct_input \<Rightarrow> (store, tx_exit, direct_message + string) em" where
  "create_direct_tx coll inp =
     bind_e (tx_try id (fetchOne (\<lambda>t. find (\<lambda>c. coll (dc_conversation_id c) = coll (cdi_ConversationID inp))
        (direct_conversations t)))) (\<lambda>conv.
     if cdi_SenderUserID inp \<noteq> dc_user_low_id conv \<and> cdi_SenderUserID inp \<noteq> dc_user_high_id conv
     then raise (TxReturn None ErrDirectChatForbidden)
     else if cdi_RecipientUserID inp \<noteq> dc_user_low_id conv \<and> cdi_RecipientUserID inp \<noteq> dc_user_high_id conv
     then raise (TxReturn None ErrDirectChatForbidden)
     else if cdi_SenderUserID inp = cdi_RecipientUserID inp
     then raise (TxReturn None (Errorf ''invalid recipient''))
     else handle_e (loadDirectMessageRow (is_direct_client coll (cdi_ConversationID inp) (cdi_SenderUserID inp)
                      (cdi_ClientMsgID inp)))
       (\<lambda>e. if e \<noteq> ErrNotFound then raise (TxReturn (Some e) e)
             else bind_e now (\<lambda>nw.
               bind_e (newExternalID ''dmmsg'') (\<lambda>msgID.
               let nextSeq = dc_last_seq conv + 1 in
               bind_e (tx_try (wrap ''insert direct_messages'')
                 (sql_exec (insert_direct_message coll inp msgID nextSeq nw))) (\<lambda>_.
               bind_e (tx_try (wrap ''update direct_conversations'')
                 (sql_update (bump_conversation (dc_id conv) nextSeq nw))) (\<lambda>_.
               bind_e (tx_commit id) (\<lambda>_. ret (Inr msgID)))))))
       (\<lambda>existing. bind_e (tx_commit id) (\<lambda>_. ret (Inl existing))))"

definition CreateDirectMessage :: "collation \<Rightarrow> create_direct_input \<Rightarrow> (store, err, direct_message) em" where
  "CreateDirectMessage coll inp =
     bind_e (with_tx id (create_direct_tx coll inp)) (\<lambda>r.
     case r of Inl existing \<Rightarrow> ret existing | Inr msgID \<Rightarrow> GetDirectMessageByMessageID coll msgID)"

section \<open>Acknowledgement\<close>

definition pending_ack :: "collation \<Rightarrow> string \<Rightarrow> uint64 \<Rightarrow> direct_message_row \<Rightarrow> bool" where
  "pending_ack coll messageID recipientUserID dm \<longleftrightarrow>
     coll (dm_message_id dm) = coll messageID \<and> dm_recipient_user_id dm = recipientUserID \<and>
     dm_recipient_acked_at_ms dm = None"

text \<open>The result: whether it was acknowledged before, the sender and the conversation.\<close>

definition AckDirectMessage :: "collation \<Rightarrow> string \<Rightarrow> uint64 \<Rightarrow> uint64
    \<Rightarrow> (store, err, bool \<times> uint64 \<times> string) em" where
  "AckDirectMessage coll messageID recipientUserID ackedAtMs =
     bind_e (GetDirectMessageByMessageID coll messageID) (\<lambda>msg.
     if dx_RecipientUserID msg \<noteq> recipientUserID then raise ErrDirectChatForbidden
     else if dx_RecipientAckedAtMs msg \<noteq> None then ret (True, dx_SenderUserID msg, dx_ConversationID msg)
     else bind_e (sql_exec (\<lambda>t.
         let p = pending_ack coll messageID recipientUserID in
         Inr (count_where p (direct_messages t),
              t\<lparr>direct_messages := update_where p (\<lambda>dm. dm\<lparr>dm_recipient_acked_at_ms := Some ackedAtMs\<rparr>)
                 (direct_messages t)\<rparr>))) (\<lambda>n.
       if n = 0
       then bind_e (GetDirectMessageByMessageID coll messageID) (\<lambda>m2.
         if dx_RecipientAckedAtMs m2 \<noteq> None then ret (True, dx_SenderUserID m2, dx_ConversationID m2)
         else raise (Errorf ''ack failed''))
       else ret (False, dx_SenderUserID msg, dx_ConversationID msg)))"

definition is_pending :: "collation \<Rightarrow> string \<Rightarrow> uint64 \<Rightarrow> uint64 \<Rightarrow> direct_message_row \<Rightarrow> bool" where
  "is_pending coll conversationID recipientUserID afterSeq dm \<longleftrightarrow>
     coll (dm_conversation_id dm) = coll conversationID \<and> dm_recipient_user_id dm = recipientUserID \<and>
     dm_recipient_acked_at_ms dm = None \<and> afterSeq < dm_seq dm"

text \<open>The page, where the next one starts, and whether there may be one.\<close>

definition ListPendingDirectMessages :: "collation \<Rightarrow> string \<Rightarrow> uint64 \<Rightarrow> uint64 \<Rightarrow> uint32
    \<Rightarrow> (store, err, direct_message list \<times> uint64 \<times> bool) em" where
  "ListPendingDirectMessages coll conversationID recipientUserID afterSeq limit0 =
     (let limit = (if limit0 = 0 \<or> limit0 > 500 then 100 else limit0) in
      bind_e (sql_select (\<lambda>t. order_limit dx_Seq (unat limit)
        (joined_direct (is_pending coll conversationID recipientUserID afterSeq) t))) (\<lambda>out.
      ret (out, (if out = [] then afterSeq else dx_Seq (last out)), of_nat (length out) = limit)))"

section \<open>Lemmas: invariants of the direct-chat tables\<close>

interpretation uk_conversation: unique_key "conversation_clash coll" "\<lambda>c. coll (dc_conversation_id c)" for coll
  by unfold_locales (simp add: conversation_clash_def)

interpretation uk_pair: unique_key "conversation_clash coll" "\<lambda>c. (dc_user_low_id c, dc_user_high_id c)" for coll
  by unfold_locales (simp add: conversation_clash_def)

interpretation uk_direct_id: unique_key "direct_clash coll" "\<lambda>m. coll (dm_message_id m)" for coll
  by unfold_locales (simp add: direct_clash_def)

interpretation uk_direct_client: unique_key "direct_clash coll"
  "\<lambda>m. (coll (dm_conversation_id m), dm_sender_user_id m, coll (dm_client_msg_id m))" for coll
  by unfold_locales (simp add: direct_clash_def)

text \<open>The messages of a conversation in the order in which they were stored.\<close>

definition direct_log :: "collation \<Rightarrow> tables \<Rightarrow> string \<Rightarrow> direct_message_row list" where
  "direct_log coll t cid = filter (\<lambda>m. coll (dm_conversation_id m) = coll cid) (direct_messages t)"

text \<open>
  A conversation joins two different users in ascending order, its messages are numbered
  \<open>1, \<dots>, last_seq\<close> without a gap, and each goes from one of the two to the other.
\<close>

definition conversation_ok :: "collation \<Rightarrow> tables \<Rightarrow> conversation_row \<Rightarrow> bool" where
  "conversation_ok coll t c \<longleftrightarrow> dc_user_low_id c < dc_user_high_id c \<and>
     map (unat \<circ> dm_seq) (direct_log coll t (dc_conversation_id c)) = [1..<Suc (unat (dc_last_seq c))] \<and>
     (\<forall>m \<in> set (direct_log coll t (dc_conversation_id c)).
        {dm_sender_user_id m, dm_recipient_user_id m} = {dc_user_low_id c, dc_user_high_id c})"

definition direct_ok :: "collation \<Rightarrow> tables \<Rightarrow> bool" where
  "direct_ok coll t \<longleftrightarrow>
     ids_below dc_id (next_conversation t) (direct_conversations t) \<and>
     ids_below dm_id (next_direct_message t) (direct_messages t) \<and>
     length (direct_messages t) < next_direct_message t \<and>
     distinct (map (\<lambda>c. coll (dc_conversation_id c)) (direct_conversations t)) \<and>
     distinct (map (\<lambda>c. (dc_user_low_id c, dc_user_high_id c)) (direct_conversations t)) \<and>
     distinct (map (\<lambda>m. coll (dm_message_id m)) (direct_messages t)) \<and>
     distinct (map (\<lambda>m. (coll (dm_conversation_id m), dm_sender_user_id m, coll (dm_client_msg_id m))) (direct_messages t)) \<and>
     (\<lambda>m. coll (dm_conversation_id m)) ` set (direct_messages t) \<subseteq>
       (\<lambda>c. coll (dc_conversation_id c)) ` set (direct_conversations t) \<and>
     (\<forall>c \<in> set (direct_conversations t). conversation_ok coll t c)"

lemma direct_ok_empty [simp]: "direct_ok coll empty_tables"
  by (simp add: direct_ok_def empty_tables_def ids_below_def)

lemma new_conversation_simps [simp]:
  "dc_id (new_conversation cid l h nw i) = i" "dc_conversation_id (new_conversation cid l h nw i) = cid"
  "dc_user_low_id (new_conversation cid l h nw i) = l" "dc_user_high_id (new_conversation cid l h nw i) = h"
  "dc_last_seq (new_conversation cid l h nw i) = 0"
  by (simp_all add: new_conversation_def)

lemma new_direct_message_simps [simp]:
  "dm_id (new_direct_message inp mid q nw i) = i" "dm_message_id (new_direct_message inp mid q nw i) = mid"
  "dm_conversation_id (new_direct_message inp mid q nw i) = cdi_ConversationID inp"
  "dm_seq (new_direct_message inp mid q nw i) = q"
  "dm_sender_user_id (new_direct_message inp mid q nw i) = cdi_SenderUserID inp"
  "dm_recipient_user_id (new_direct_message inp mid q nw i) = cdi_RecipientUserID inp"
  "dm_client_msg_id (new_direct_message inp mid q nw i) = cdi_ClientMsgID inp"
  "dm_recipient_acked_at_ms (new_direct_message inp mid q nw i) = None"
  by (simp_all add: new_direct_message_def)

lemma normalizeUserPair_less: "a \<noteq> b \<Longrightarrow> normalizeUserPair a b = (l, h) \<Longrightarrow> l < h \<and> {l, h} = {a, b}"
  by (auto simp: normalizeUserPair_def not_less split: if_splits)

lemma insert_conversation_ok:
  assumes ok: "direct_ok coll t" and lh: "l < h"
    and ins: "insert_conversation coll cid l h nw t = Inr (x, t')"
  shows "direct_ok coll t'"
proof -
  from ins obtain i rs n where r: "insert_row (new_conversation cid l h nw) (conversation_clash coll)
      (next_conversation t) (direct_conversations t) = Inr (i, rs, n)"
    and t': "t' = t\<lparr>direct_conversations := rs, next_conversation := n\<rparr>"
    by (auto simp: insert_conversation_def split: sum.splits prod.splits)
  have rs: "rs = direct_conversations t @ [new_conversation cid l h nw i]" using r by (simp add: insert_row_Inr)
  have "coll cid \<notin> (\<lambda>c. coll (dc_conversation_id c)) ` set (direct_conversations t)"
    using r by (auto simp: insert_row_Inr conversation_clash_def)
  moreover have "(\<lambda>m. coll (dm_conversation_id m)) ` set (direct_messages t) \<subseteq>
       (\<lambda>c. coll (dc_conversation_id c)) ` set (direct_conversations t)"
    using ok by (simp only: direct_ok_def)
  ultimately have "coll (dm_conversation_id m) \<noteq> coll cid" if "m \<in> set (direct_messages t)" for m
    using that by (metis (no_types, lifting) imageI subsetD)
  then have "direct_log coll t cid = []" by (auto simp: direct_log_def filter_empty_conv)
  then have "conversation_ok coll t' (new_conversation cid l h nw i)"
    using lh by (simp add: conversation_ok_def direct_log_def t')
  moreover have "conversation_ok coll t' c = conversation_ok coll t c" for c
    by (simp add: conversation_ok_def direct_log_def t')
  ultimately have "\<forall>c \<in> set rs. conversation_ok coll t' c" using ok by (auto simp: rs direct_ok_def)
  moreover have "(\<lambda>m. coll (dm_conversation_id m)) ` set (direct_messages t) \<subseteq>
       (\<lambda>c. coll (dc_conversation_id c)) ` set rs"
    using ok by (auto simp: direct_ok_def rs)
  ultimately show ?thesis
    using ok r unfolding direct_ok_def t'
    by (simp add: ids_below_insert uk_conversation.distinct_insert uk_pair.distinct_insert)
qed

lemma insert_conversation_row:
  "insert_conversation coll cid l h nw t = Inr (x, t') \<Longrightarrow>
     \<exists>row \<in> set (direct_conversations t'). dc_conversation_id row = cid \<and>
       dc_user_low_id row = l \<and> dc_user_high_id row = h"
  by (auto simp: insert_conversation_def insert_row_Inr split: sum.splits prod.splits)

lemma get_or_create_tx_Inr:
  assumes "get_or_create_tx coll l h s = (Inr c, s')"
  shows "tabs s' = tabs s \<and> (\<exists>row \<in> set (direct_conversations (tabs s)). dc_user_low_id row = l \<and>
       dc_user_high_id row = h \<and> c = to_conversation row) \<or>
     insert_conversation coll (dv_ConversationID c) l h (now_ms s) (tabs s) = Inr ((), tabs s') \<and>
       dv_UserLowID c = l \<and> dv_UserHighID c = h"
  using assms unfolding get_or_create_tx_def
  by (auto simp: em_simps fetchOne_Inl dest!: find_SomeD)

lemma GetOrCreateConversation_effect:
  assumes "GetOrCreateConversation coll a b s = (r, s')"
  shows "tabs s' = tabs s \<or>
    (\<exists>l h cid. a \<noteq> b \<and> normalizeUserPair a b = (l, h) \<and>
       insert_conversation coll cid l h (now_ms s) (tabs s) = Inr ((), tabs s'))"
  using assms unfolding GetOrCreateConversation_def
  by (fastforce simp: if_apply split: if_splits prod.splits dest!: with_tx_tabs get_or_create_tx_Inr)

lemma GetOrCreateConversation_ok:
  assumes "direct_ok coll (tabs s)" "GetOrCreateConversation coll a b s = (r, s')"
  shows "direct_ok coll (tabs s')"
  using GetOrCreateConversation_effect [OF assms(2)] assms(1)
  by (auto dest: normalizeUserPair_less intro: insert_conversation_ok)

text \<open>A successful call returns the conversation of the two users, and the table has it.\<close>

lemma GetOrCreateConversation_Inr:
  assumes "GetOrCreateConversation coll a b s = (Inr c, s')"
  shows "a \<noteq> b \<and> {dv_UserLowID c, dv_UserHighID c} = {a, b} \<and>
    (\<exists>row \<in> set (direct_conversations (tabs s')). dc_conversation_id row = dv_ConversationID c \<and>
       dc_user_low_id row = dv_UserLowID c \<and> dc_user_high_id row = dv_UserHighID c)"
proof -
  obtain l h where lh: "normalizeUserPair a b = (l, h)" by fastforce
  from assms have ab: "a \<noteq> b" and tx: "get_or_create_tx coll l h (tick s) = (Inr c, s')"
    by (auto simp: GetOrCreateConversation_def if_apply lh em_simps split: if_splits)
  from get_or_create_tx_Inr [OF tx] have "dv_UserLowID c = l \<and> dv_UserHighID c = h \<and>
    (\<exists>row \<in> set (direct_conversations (tabs s')). dc_conversation_id row = dv_ConversationID c \<and>
       dc_user_low_id row = l \<and> dc_user_high_id row = h)"
    by (auto simp: to_conversation_def dest: insert_conversation_row)
  with normalizeUserPair_less [OF ab lh] ab show ?thesis by simp
qed

section \<open>Lemmas: storing a direct message\<close>

lemma loadDirectMessageRow_Inr:
  assumes "loadDirectMessageRow p s = (Inr m, s')"
  obtains dm su ru where "dm \<in> set (direct_messages (tabs s))" "p dm" "su \<in> set (users (tabs s))"
    "ru \<in> set (users (tabs s))" "u_id su = dm_sender_user_id dm" "u_id ru = dm_recipient_user_id dm"
    "m = to_direct_message dm su ru" "s' = tick s"
proof -
  from assms have s': "s' = tick s" and m: "m \<in> set (joined_direct p (tabs s))"
    by (auto simp: loadDirectMessageRow_def em_simps dest: first_row_SomeD)
  from m show thesis by (auto simp: joined_direct_def intro: that [OF _ _ _ _ _ _ _ s'])
qed

lemma loadDirectMessageRow_tabs: "loadDirectMessageRow p s = (r, s') \<Longrightarrow> tabs s' = tabs s"
  unfolding loadDirectMessageRow_def by (rule fetchOne_tabs)

lemma insert_direct_message_Inr:
  "insert_direct_message coll inp mid q nw t = Inr (x, t') \<Longrightarrow>
     (\<exists>i. insert_row (new_direct_message inp mid q nw) (direct_clash coll) (next_direct_message t) (direct_messages t)
        = Inr (i, direct_messages t @ [new_direct_message inp mid q nw i], Suc (next_direct_message t)) \<and>
      t' = t\<lparr>direct_messages := direct_messages t @ [new_direct_message inp mid q nw i],
             next_direct_message := Suc (next_direct_message t)\<rparr>)"
  by (auto simp: insert_direct_message_def insert_row_Inr split: sum.splits prod.splits if_splits)

lemma create_direct_tx_Inr:
  assumes "create_direct_tx coll inp s = (Inr r, s')"
  obtains (existing) m where "r = Inl m" "tabs s' = tabs s"
      "loadDirectMessageRow (is_direct_client coll (cdi_ConversationID inp) (cdi_SenderUserID inp)
        (cdi_ClientMsgID inp)) (tick s) = (Inr m, tick (tick s))"
  | (new) c mid t1 where "r = Inr mid"
      "find (\<lambda>c. coll (dc_conversation_id c) = coll (cdi_ConversationID inp)) (direct_conversations (tabs s)) = Some c"
      "cdi_SenderUserID inp \<in> {dc_user_low_id c, dc_user_high_id c}"
      "cdi_RecipientUserID inp \<in> {dc_user_low_id c, dc_user_high_id c}"
      "cdi_SenderUserID inp \<noteq> cdi_RecipientUserID inp"
      "insert_direct_message coll inp mid (dc_last_seq c + 1) (now_ms s) (tabs s) = Inr ((), t1)"
      "tabs s' = bump_conversation (dc_id c) (dc_last_seq c + 1) (now_ms s) t1"
proof -
  from assms obtain c where c: "find (\<lambda>c. coll (dc_conversation_id c) = coll (cdi_ConversationID inp))
      (direct_conversations (tabs s)) = Some c"
    and part: "cdi_SenderUserID inp \<in> {dc_user_low_id c, dc_user_high_id c}"
      "cdi_RecipientUserID inp \<in> {dc_user_low_id c, dc_user_high_id c}"
      "cdi_SenderUserID inp \<noteq> cdi_RecipientUserID inp"
    and rest: "handle_e (loadDirectMessageRow (is_direct_client coll (cdi_ConversationID inp) (cdi_SenderUserID inp)
                      (cdi_ClientMsgID inp)))
       (\<lambda>e. if e \<noteq> ErrNotFound then raise (TxReturn (Some e) e)
             else bind_e now (\<lambda>nw.
               bind_e (newExternalID ''dmmsg'') (\<lambda>msgID.
               let nextSeq = dc_last_seq c + 1 in
               bind_e (tx_try (wrap ''insert direct_messages'')
                 (sql_exec (insert_direct_message coll inp msgID nextSeq nw))) (\<lambda>_.
               bind_e (tx_try (wrap ''update direct_conversations'')
                 (sql_update (bump_conversation (dc_id c) nextSeq nw))) (\<lambda>_.
               bind_e (tx_commit id) (\<lambda>_. ret (Inr msgID)))))))
       (\<lambda>existing. bind_e (tx_commit id) (\<lambda>_. ret (Inl existing))) (tick s) = (Inr r, s')"
    unfolding create_direct_tx_def by (auto simp: bind_e_Inr tx_try_Inr fetchOne_Inr if_Inr)
  show thesis
  proof (cases "loadDirectMessageRow (is_direct_client coll (cdi_ConversationID inp) (cdi_SenderUserID inp)
                      (cdi_ClientMsgID inp)) (tick s)")
    case (Pair x s1)
    have s1: "s1 = tick (tick s)"
      using Pair by (cases x) (auto simp: loadDirectMessageRow_def fetchOne_Inl em_simps)
    show ?thesis
    proof (cases x)
      case (Inr m)
      with rest Pair s1 have "r = Inl m" "tabs s' = tabs s" by (auto simp: handle_e_def em_simps)
      then show ?thesis using existing Pair Inr s1 by simp
    next
      case (Inl e)
      with rest Pair s1 obtain mid t1 where "r = Inr mid"
        "insert_direct_message coll inp mid (dc_last_seq c + 1) (now_ms s) (tabs s) = Inr ((), t1)"
        "tabs s' = bump_conversation (dc_id c) (dc_last_seq c + 1) (now_ms s) t1"
        by (auto simp: handle_e_def em_simps Let_def)
      then show ?thesis using new c part by blast
    qed
  qed
qed

lemma conversation_unique:
  assumes "direct_ok coll t" "c \<in> set (direct_conversations t)" "c' \<in> set (direct_conversations t)"
    "dc_id c = dc_id c'"
  shows "c = c'"
proof -
  from assms(1) have "inj_on dc_id (set (direct_conversations t))"
    using ids_below_distinct [of dc_id] by (auto simp: direct_ok_def distinct_map)
  then show ?thesis using assms(2-4) by (auto dest: inj_onD)
qed

lemma conversation_append:
  assumes ok: "conversation_ok coll t c" and room: "length (direct_messages t) < next_direct_message t"
    "next_direct_message t < 2 ^ 64"
    and m: "coll (dm_conversation_id m) = coll (dc_conversation_id c)" "dm_seq m = dc_last_seq c + 1"
      "dm_sender_user_id m \<in> {dc_user_low_id c, dc_user_high_id c}"
      "dm_recipient_user_id m \<in> {dc_user_low_id c, dc_user_high_id c}"
      "dm_sender_user_id m \<noteq> dm_recipient_user_id m"
    and t': "direct_messages t' = direct_messages t @ [m]"
    and c': "dc_conversation_id c' = dc_conversation_id c" "dc_last_seq c' = dc_last_seq c + 1"
      "dc_user_low_id c' = dc_user_low_id c" "dc_user_high_id c' = dc_user_high_id c"
  shows "conversation_ok coll t' c'"
proof -
  let ?log = "direct_log coll t (dc_conversation_id c)"
  have "length (map (unat \<circ> dm_seq) ?log) = length [1..<Suc (unat (dc_last_seq c))]"
    using ok unfolding conversation_ok_def by (simp only:)
  then have "unat (dc_last_seq c) = length ?log" by simp
  also have "\<dots> \<le> length (direct_messages t)" by (simp add: direct_log_def)
  finally have "Suc (unat (dc_last_seq c)) < 2 ^ 64" using room by simp
  then have inc: "unat (dc_last_seq c + 1) = Suc (unat (dc_last_seq c))" by (intro unat_inc) simp
  have log: "direct_log coll t' (dc_conversation_id c) = ?log @ [m]"
    by (simp add: direct_log_def t' m)
  have "{dm_sender_user_id m, dm_recipient_user_id m} = {dc_user_low_id c, dc_user_high_id c}"
    using m(3-5) by auto
  with ok show ?thesis by (simp add: conversation_ok_def c' log m(2) inc)
qed

lemma conversation_other:
  "conversation_ok coll t c \<Longrightarrow> direct_messages t' = direct_messages t @ [m] \<Longrightarrow>
     coll (dm_conversation_id m) \<noteq> coll (dc_conversation_id c) \<Longrightarrow> conversation_ok coll t' c"
  by (simp add: conversation_ok_def direct_log_def)

lemma create_direct_tx_ok:
  assumes ok: "direct_ok coll (tabs s)" and tx: "create_direct_tx coll inp s = (Inr r, s')"
  shows "direct_ok coll (tabs s')"
  using tx
proof (cases rule: create_direct_tx_Inr)
  case existing
  with ok show ?thesis by simp
next
  case (new c mid t1)
  let ?t = "tabs s"
  have c: "c \<in> set (direct_conversations ?t)" "coll (dc_conversation_id c) = coll (cdi_ConversationID inp)"
    using new(2) by (auto dest: find_SomeD)
  from insert_direct_message_Inr [OF new(6)] obtain i where
    ins: "insert_row (new_direct_message inp mid (dc_last_seq c + 1) (now_ms s)) (direct_clash coll)
      (next_direct_message ?t) (direct_messages ?t) = Inr (i, direct_messages ?t @
        [new_direct_message inp mid (dc_last_seq c + 1) (now_ms s) i], Suc (next_direct_message ?t))"
    and t1: "t1 = ?t\<lparr>direct_messages := direct_messages ?t @
        [new_direct_message inp mid (dc_last_seq c + 1) (now_ms s) i],
        next_direct_message := Suc (next_direct_message ?t)\<rparr>" by blast
  let ?m = "new_direct_message inp mid (dc_last_seq c + 1) (now_ms s) i"
  let ?f = "\<lambda>d. d\<lparr>dc_last_seq := dc_last_seq c + 1, dc_last_message_at_ms := of_int (now_ms s),
      dc_updated_at := now_ms s\<rparr>"
  have t': "tabs s' = ?t\<lparr>direct_messages := direct_messages ?t @ [?m],
      next_direct_message := Suc (next_direct_message ?t),
      direct_conversations := update_where (\<lambda>d. dc_id d = dc_id c) ?f (direct_conversations ?t)\<rparr>"
    by (simp add: new(7) bump_conversation_def t1)
  have conv: "conversation_ok coll (tabs s') d" if d: "d \<in> set (direct_conversations (tabs s'))" for d
  proof (cases "dc_id d = dc_id c")
    case True
    with d obtain x where x: "x \<in> set (direct_conversations ?t)" "dc_id x = dc_id c" "d = ?f x"
      by (auto simp: t' set_update_where)
    have "x = c" by (rule conversation_unique [OF ok x(1) c(1) x(2)])
    then have d': "d = ?f c" using x(3) by simp
    have cok: "conversation_ok coll ?t c" and room: "length (direct_messages ?t) < next_direct_message ?t"
      using ok c by (auto simp: direct_ok_def)
    have "next_direct_message ?t < 2 ^ 64" using ins by (simp add: insert_row_Inr)
    from conversation_append [OF cok room this, of ?m "tabs s'" d] show ?thesis
      using c new(3-5) by (simp add: t' d')
  next
    case False
    with d have d: "d \<in> set (direct_conversations ?t)" by (auto simp: t' set_update_where)
    have "coll (dc_conversation_id d) \<noteq> coll (dc_conversation_id c)"
    proof
      assume eq: "coll (dc_conversation_id d) = coll (dc_conversation_id c)"
      have "inj_on (\<lambda>c. coll (dc_conversation_id c)) (set (direct_conversations ?t))"
        using ok by (simp add: direct_ok_def distinct_map)
      from inj_onD [OF this eq d c(1)] False show False by simp
    qed
    with d c ok show ?thesis
      using conversation_other [of coll ?t d "tabs s'" ?m] by (auto simp: t' direct_ok_def)
  qed
  have "(\<lambda>m. coll (dm_conversation_id m)) ` set (direct_messages ?t @ [?m]) \<subseteq>
       (\<lambda>c. coll (dc_conversation_id c)) ` set (direct_conversations ?t)"
    using ok c by (auto simp: direct_ok_def intro!: image_eqI [of _ _ c])
  with ok conv ins show ?thesis
    unfolding direct_ok_def t'
    by (simp add: ids_below_update ids_below_insert [OF ins] uk_direct_id.distinct_insert [OF ins, simplified]
        uk_direct_client.distinct_insert [OF ins, simplified])
qed

lemma CreateDirectMessage_effect:
  assumes "CreateDirectMessage coll inp s = (r, s')"
  shows "tabs s' = tabs s \<or> (\<exists>x s1. create_direct_tx coll inp (tick s) = (Inr x, s1) \<and> tabs s' = tabs s1)"
proof -
  obtain r1 s1 where tx: "with_tx id (create_direct_tx coll inp) s = (r1, s1)" by fastforce
  have "tabs s' = tabs s1"
    using assms tx unfolding CreateDirectMessage_def bind_e_def GetDirectMessageByMessageID_def
    by (auto split: sum.splits dest: loadDirectMessageRow_tabs)
  with with_tx_tabs [OF tx] show ?thesis by auto
qed

lemma CreateDirectMessage_ok:
  assumes "direct_ok coll (tabs s)" "CreateDirectMessage coll inp s = (r, s')"
  shows "direct_ok coll (tabs s')"
  using CreateDirectMessage_effect [OF assms(2)] create_direct_tx_ok [of coll "tick s"] assms(1) by auto

text \<open>What never changes of a direct message.\<close>

definition dm_key :: "direct_message_row \<Rightarrow> uint64 \<times> string \<times> string \<times> uint64 \<times> uint64 \<times> uint64 \<times> string" where
  "dm_key m = (dm_id m, dm_message_id m, dm_conversation_id m, dm_seq m, dm_sender_user_id m,
     dm_recipient_user_id m, dm_client_msg_id m)"

definition acked_row :: "uint64 \<Rightarrow> direct_message_row \<Rightarrow> direct_message_row" where
  "acked_row a dm = dm\<lparr>dm_recipient_acked_at_ms := Some a\<rparr>"

lemma acked_row_simps [simp]:
  "dm_key (acked_row a m) = dm_key m" "dm_id (acked_row a m) = dm_id m"
  "dm_message_id (acked_row a m) = dm_message_id m" "dm_conversation_id (acked_row a m) = dm_conversation_id m"
  "dm_seq (acked_row a m) = dm_seq m" "dm_sender_user_id (acked_row a m) = dm_sender_user_id m"
  "dm_recipient_user_id (acked_row a m) = dm_recipient_user_id m"
  "dm_client_msg_id (acked_row a m) = dm_client_msg_id m"
  "dm_recipient_acked_at_ms (acked_row a m) = Some a"
  by (simp_all add: acked_row_def dm_key_def)

section \<open>Lemmas: acknowledgement\<close>

lemma AckDirectMessage_effect:
  assumes "AckDirectMessage coll mid u a s = (r, s')"
  shows "tabs s' = tabs s \<or>
    tabs s' = (tabs s)\<lparr>direct_messages := update_where (pending_ack coll mid u) (acked_row a) (direct_messages (tabs s))\<rparr>"
proof -
  have row: "acked_row a = (\<lambda>dm. dm\<lparr>dm_recipient_acked_at_ms := Some a\<rparr>)" by (rule ext) (simp add: acked_row_def)
  show ?thesis
    using assms unfolding AckDirectMessage_def row GetDirectMessageByMessageID_def
    by (auto simp: bind_e_def if_apply sql_exec_def Let_def split: prod.splits sum.splits if_splits
        dest!: loadDirectMessageRow_tabs)
qed

lemma conversation_ok_ack:
  assumes "direct_messages t' = update_where p (acked_row a) (direct_messages t)"
  shows "conversation_ok coll t' c = conversation_ok coll t c"
proof -
  have log: "direct_log coll t' cid = update_where p (acked_row a) (direct_log coll t cid)" for cid
    by (simp add: direct_log_def assms)
  have "(\<forall>m \<in> set (update_where p (acked_row a) ms).
        {dm_sender_user_id m, dm_recipient_user_id m} = {dc_user_low_id c, dc_user_high_id c}) =
      (\<forall>m \<in> set ms. {dm_sender_user_id m, dm_recipient_user_id m} = {dc_user_low_id c, dc_user_high_id c})" for ms
    by (induction ms) simp_all
  then show ?thesis by (simp add: conversation_ok_def log)
qed

lemma AckDirectMessage_ok:
  assumes "direct_ok coll (tabs s)" "AckDirectMessage coll mid u a s = (r, s')"
  shows "direct_ok coll (tabs s')"
proof -
  let ?t' = "(tabs s)\<lparr>direct_messages := update_where (pending_ack coll mid u) (acked_row a) (direct_messages (tabs s))\<rparr>"
  have "conversation_ok coll ?t' c = conversation_ok coll (tabs s) c" for c
    by (rule conversation_ok_ack) simp
  then have "direct_ok coll ?t'" using assms(1) by (simp add: direct_ok_def ids_below_update)
  with AckDirectMessage_effect [OF assms(2)] assms(1) show ?thesis by auto
qed

text \<open>
  A successful acknowledgement: the caller is the recipient of the message, the message is
  acknowledged afterwards, and \<open>False\<close> is reported exactly when this call did it.
\<close>

lemma AckDirectMessage_Inr:
  assumes ok: "direct_ok coll (tabs s)"
    and run: "AckDirectMessage coll mid u a s = (Inr (already, sender, cid), s')"
  obtains dm where "dm \<in> set (direct_messages (tabs s))" "coll (dm_message_id dm) = coll mid"
    "dm_recipient_user_id dm = u" "dm_sender_user_id dm = sender" "dm_conversation_id dm = cid"
    "already \<longleftrightarrow> dm_recipient_acked_at_ms dm \<noteq> None"
    "(if already then dm else acked_row a dm) \<in> set (direct_messages (tabs s'))"
proof -
  have inj: "inj_on (\<lambda>m. coll (dm_message_id m)) (set (direct_messages (tabs s)))"
    using ok by (simp add: direct_ok_def distinct_map)
  from run obtain msg s1 where ld: "loadDirectMessageRow (\<lambda>dm. coll (dm_message_id dm) = coll mid) s = (Inr msg, s1)"
    by (auto simp: AckDirectMessage_def GetDirectMessageByMessageID_def bind_e_Inr)
  then obtain dm su ru where dm: "dm \<in> set (direct_messages (tabs s))" "coll (dm_message_id dm) = coll mid"
    "msg = to_direct_message dm su ru" and s1: "s1 = tick s" by (rule loadDirectMessageRow_Inr)
  have u: "dm_recipient_user_id dm = u"
    using run ld dm(3) by (auto simp: AckDirectMessage_def GetDirectMessageByMessageID_def bind_e_def
        if_apply to_direct_message_def split: if_splits)
  show thesis
  proof (cases "dm_recipient_acked_at_ms dm")
    case (Some x)
    with run ld dm u s1 show ?thesis
      by (intro that [of dm]) (auto simp: AckDirectMessage_def GetDirectMessageByMessageID_def bind_e_def
          to_direct_message_def split: if_splits)
  next
    case None
    have row: "acked_row a = (\<lambda>dm. dm\<lparr>dm_recipient_acked_at_ms := Some a\<rparr>)" by (rule ext) (simp add: acked_row_def)
    have "pending_ack coll mid u dm" using dm u None by (simp add: pending_ack_def)
    then have n: "count_where (pending_ack coll mid u) (direct_messages (tabs s)) \<noteq> 0"
      and up: "acked_row a dm \<in> set (update_where (pending_ack coll mid u) (acked_row a) (direct_messages (tabs s)))"
      using dm(1) by (auto simp: count_where_0_iff set_update_where)
    with run ld dm u s1 None show ?thesis
      by (intro that [of dm]) (auto simp: AckDirectMessage_def GetDirectMessageByMessageID_def bind_e_def
          to_direct_message_def sql_exec_def Let_def row split: if_splits)
  qed
qed

end
