(* ===== verification/Media.thy ===== *)
theory Media
  imports Store_Messages UnixFS
begin

text \<open>
  Attachments: the blob and media repositories \<open>internal/repository/mysql/blob.go\<close>, the
  file store \<open>internal/storage/local.go\<close>, \<open>BlobService\<close> of
  \<open>internal/media/blob_service.go\<close> with \<open>internal/media/file_cid.go\<close>, and the media service
  \<open>internal/service/media.go\<close>.

  The record \<open>blob_env\<close> holds what these functions take from elsewhere: the collation,
  SHA-256, the content sniffer, the image decoder, the IPFS importer over an in-memory map of
  blocks with the textual form of an identifier, the IPFS settings, the upload limit, and how
  much of a file an \<open>os.WriteFile\<close> that fails in a given state leaves on the disk (\<open>None\<close>: no
  file).
\<close>

record blob_env =
  be_coll :: collation
  be_sha256 :: "byte list \<Rightarrow> byte list"
  be_DetectContentType :: "byte list \<Rightarrow> string"
  be_DecodeConfig :: "byte list \<Rightarrow> (uint32 \<times> uint32) option"
  be_dag :: "(string, (string \<times> byte list) list) unixfs_lib"
  be_CidString :: "string \<Rightarrow> string"
  be_ipfsCfg :: ipfs_config
  be_maxUploadBytes :: int
  be_torn :: "store \<Rightarrow> nat option"

record blob =
  bb_ID :: uint64
  bb_BlobID :: string
  bb_SHA256 :: string
  bb_Size :: uint64
  bb_MIMEType :: string
  bb_StoragePath :: string
  bb_RefCount :: uint64
  bb_CreatedAt :: time_ms

section \<open>Blob rows\<close>

definition to_blob :: "blob_row \<Rightarrow> blob" where
  "to_blob b = \<lparr>bb_ID = bl_id b, bb_BlobID = bl_blob_id b, bb_SHA256 = bl_sha256 b, bb_Size = bl_size b,
     bb_MIMEType = coalesce [] (bl_mime_type b), bb_StoragePath = bl_storage_path b,
     bb_RefCount = bl_ref_count b, bb_CreatedAt = bl_created_at b\<rparr>"

definition GetBySHA256 :: "collation \<Rightarrow> string \<Rightarrow> (store, err, blob) em" where
  "GetBySHA256 coll sha =
     fetchOne (\<lambda>t. map_option to_blob (find (\<lambda>b. coll (bl_sha256 b) = coll sha) (blobs t)))"

definition blob_clash :: "collation \<Rightarrow> blob_row \<Rightarrow> blob_row \<Rightarrow> bool" where
  "blob_clash coll a b \<longleftrightarrow>
     coll (bl_blob_id a) = coll (bl_blob_id b) \<or> coll (bl_sha256 a) = coll (bl_sha256 b)"

definition new_blob :: "string \<Rightarrow> string \<Rightarrow> uint64 \<Rightarrow> string \<Rightarrow> string \<Rightarrow> uint64 \<Rightarrow> time_ms \<Rightarrow> uint64 \<Rightarrow> blob_row" where
  "new_blob blobID sha sz mime path refs nw i =
     \<lparr>bl_id = i, bl_blob_id = blobID, bl_sha256 = sha, bl_size = sz, bl_mime_type = nullableString mime,
      bl_storage_path = path, bl_ref_count = refs, bl_created_at = nw\<rparr>"

definition CreateBlob :: "collation \<Rightarrow> string \<Rightarrow> string \<Rightarrow> uint64 \<Rightarrow> string \<Rightarrow> string \<Rightarrow> uint64
    \<Rightarrow> (store, err, blob) em" where
  "CreateBlob coll blobID sha sz mime path refs =
     bind_e now (\<lambda>nw.
     bind_e (map_err (wrap ''insert blob'')
       (sql_exec (\<lambda>t. case insert_row (new_blob blobID sha sz mime path refs nw) (blob_clash coll)
              (next_blob t) (blobs t) of
            Inl e \<Rightarrow> Inl e
          | Inr (i, rs, n) \<Rightarrow> Inr ((), t\<lparr>blobs := rs, next_blob := n\<rparr>)))) (\<lambda>_.
     GetBySHA256 coll sha))"

definition IncRef :: "uint64 \<Rightarrow> (store, err, unit) em" where
  "IncRef blobID = map_err (wrap ''increment blob ref count'')
     (sql_exec (\<lambda>t. if \<exists>b \<in> set (blobs t). bl_id b = blobID \<and> bl_ref_count b = - 1 then Inl DriverErr
        else Inr ((), t\<lparr>blobs := update_where (\<lambda>b. bl_id b = blobID)
               (\<lambda>b. b\<lparr>bl_ref_count := bl_ref_count b + 1\<rparr>) (blobs t)\<rparr>)))"

section \<open>Media rows\<close>

record create_media_input =
  cme_MediaID :: string
  cme_BlobID :: uint64
  cme_Kind :: media_kind
  cme_OriginalName :: string
  cme_MIMEType :: string
  cme_Size :: uint64
  cme_Width :: "uint32 option"
  cme_Height :: "uint32 option"
  cme_CreatedBy :: uint64
  cme_FileCID :: string

definition media_clash :: "collation \<Rightarrow> media_row \<Rightarrow> media_row \<Rightarrow> bool" where
  "media_clash coll a b \<longleftrightarrow> coll (mo_media_id a) = coll (mo_media_id b)"

definition new_media :: "create_media_input \<Rightarrow> time_ms \<Rightarrow> uint64 \<Rightarrow> media_row" where
  "new_media inp nw i =
     \<lparr>mo_id = i, mo_media_id = cme_MediaID inp, mo_blob_id = cme_BlobID inp, mo_kind = cme_Kind inp,
      mo_original_name = nullableString (cme_OriginalName inp),
      mo_mime_type = nullableString (cme_MIMEType inp), mo_file_cid = nullableString (cme_FileCID inp),
      mo_size = cme_Size inp, mo_width = cme_Width inp, mo_height = cme_Height inp,
      mo_created_by = Some (cme_CreatedBy inp), mo_created_at = nw\<rparr>"

definition GetByMediaID :: "collation \<Rightarrow> string \<Rightarrow> (store, err, attachment) em" where
  "GetByMediaID coll mediaID =
     fetchOne (\<lambda>t. first_row [to_attachment mo b. mo \<leftarrow> media_objects t, coll (mo_media_id mo) = coll mediaID,
                          b \<leftarrow> blobs t, bl_id b = mo_blob_id mo])"

definition CreateMedia :: "collation \<Rightarrow> create_media_input \<Rightarrow> (store, err, attachment) em" where
  "CreateMedia coll inp =
     bind_e now (\<lambda>nw.
     bind_e (map_err (wrap ''insert media object'')
       (sql_exec (\<lambda>t. case insert_row (new_media inp nw) (media_clash coll) (next_media t) (media_objects t) of
            Inl e \<Rightarrow> Inl e
          | Inr (i, rs, n) \<Rightarrow> Inr ((), t\<lparr>media_objects := rs, next_media := n\<rparr>)))) (\<lambda>_.
     GetByMediaID coll (cme_MediaID inp)))"

section \<open>The file store\<close>

text \<open>
  Files are keyed by their path below the root. The paths the service builds
  (\<open>ab/cd/abcd...\<close>, hexadecimal) are clean, so \<open>filepath.Clean\<close> leaves them as they are.
\<close>

definition Exists :: "string \<Rightarrow> store \<Rightarrow> bool" where
  "Exists path s \<longleftrightarrow> map_of (files s) path \<noteq> None"

definition file_step :: "(store, err, unit) em" where
  "file_step s = (if faulty s then (Inl DriverErr, tick s) else (Inr (), tick s))"

definition WriteFile :: "(store \<Rightarrow> nat option) \<Rightarrow> string \<Rightarrow> byte list \<Rightarrow> (store, err, unit) em" where
  "WriteFile torn path content s =
     (if faulty s
      then (Inl DriverErr, case torn s of None \<Rightarrow> tick s
              | Some k \<Rightarrow> (tick s)\<lparr>files := (path, take k content) # files s\<rparr>)
      else (Inr (), (tick s)\<lparr>files := (path, content) # files s\<rparr>))"

definition Write :: "(store \<Rightarrow> nat option) \<Rightarrow> string \<Rightarrow> byte list \<Rightarrow> (store, err, unit) em" where
  "Write torn path content =
     bind_e (map_err (wrap ''create blob directory'') file_step) (\<lambda>_ s.
       (if Exists path s then ret () s
        else map_err (wrap ''write blob'') (WriteFile torn path content) s))"

definition Open :: "string \<Rightarrow> (store, err, byte list) em" where
  "Open path = map_err (wrap ''open blob'') (\<lambda>s.
     if faulty s then (Inl DriverErr, tick s)
     else case map_of (files s) path of None \<Rightarrow> (Inl DriverErr, tick s) | Some c \<Rightarrow> (Inr c, tick s))"

section \<open>The blob service\<close>

record put_blob_input =
  pbi_Kind :: media_kind
  pbi_OriginalName :: string
  pbi_MIMEType :: string
  pbi_CreatedBy :: uint64

record put_blob_result =
  pbr_Blob :: blob
  pbr_Media :: attachment
  pbr_DedupHit :: bool

definition detectImageSize :: "blob_env \<Rightarrow> byte list \<Rightarrow> media_kind \<Rightarrow> uint32 option \<times> uint32 option" where
  "detectImageSize env payload kind =
     (if kind \<noteq> KindImage then (None, None)
      else case be_DecodeConfig env payload of None \<Rightarrow> (None, None) | Some (w, h) \<Rightarrow> (Some w, Some h))"

text \<open>The import goes into a fresh in-memory block store, which is dropped afterwards.\<close>

definition ComputeUnixFSFileCIDFromReader :: "blob_env \<Rightarrow> byte list \<times> bool \<Rightarrow> err + string" where
  "ComputeUnixFSFileCIDFromReader env r =
     (let c = Normalize (be_ipfsCfg env);
          n = ChunkSizeFromSpec (ic_Chunker c);
          chunkSize = (if n \<le> 0 then 1048576 else n)
      in case fst (AddFileFromReader (be_dag env) r chunkSize (ic_RawLeaves c) (ic_CIDVersion c) (ic_HashFunction c) []) of
           Inl e \<Rightarrow> Inl e
         | Inr cid \<Rightarrow> Inr (be_CidString env cid))"

definition ComputeUnixFSFileCID :: "blob_env \<Rightarrow> byte list \<Rightarrow> err + string" where
  "ComputeUnixFSFileCID env payload =
     (if payload = [] then Inl (Errorf ''file is empty'')
      else ComputeUnixFSFileCIDFromReader env (payload, False))"

text \<open>\<open>filepath.Join(shaHex[0:2], shaHex[2:4], shaHex)\<close>.\<close>

definition blob_path :: "string \<Rightarrow> string" where
  "blob_path shaHex = take 2 shaHex @ ''/'' @ take 2 (drop 2 shaHex) @ ''/'' @ shaHex"

text \<open>\<open>int64\<close> arithmetic wraps.\<close>

definition int64 :: "int \<Rightarrow> int" where
  "int64 x = (x + 2 ^ 63) mod 2 ^ 64 - 2 ^ 63"

text \<open>The row of the payload: the one there is, or a new one after its file was written.\<close>

definition ensure_blob :: "blob_env \<Rightarrow> byte list \<Rightarrow> string \<Rightarrow> string \<Rightarrow> (store, err, blob \<times> bool) em" where
  "ensure_blob env payload shaHex mimeType =
     handle_e (GetBySHA256 (be_coll env) shaHex)
       (\<lambda>e. if e \<noteq> ErrNotFound then raise e
             else bind_e (Write (be_torn env) (blob_path shaHex) payload) (\<lambda>_.
               bind_e (newExternalID ''blob'') (\<lambda>blobID.
               bind_e (CreateBlob (be_coll env) blobID shaHex (of_nat (length payload)) mimeType
                 (blob_path shaHex) 0) (\<lambda>b. ret (b, False)))))
       (\<lambda>b s. if \<not> Exists (bb_StoragePath b) s
               then bind_e (Write (be_torn env) (bb_StoragePath b) payload) (\<lambda>_. ret (b, True)) s
               else ret (b, True) s)"

text \<open>The media object of the payload.\<close>

definition add_media :: "blob_env \<Rightarrow> byte list \<Rightarrow> string \<Rightarrow> put_blob_input \<Rightarrow> blob \<Rightarrow> (store, err, attachment) em" where
  "add_media env payload mimeType meta b =
     (let (width, height) = detectImageSize env payload (pbi_Kind meta) in
      case (if pbi_Kind meta = KindFile then ComputeUnixFSFileCID env payload else Inr []) of
        Inl e \<Rightarrow> raise (wrap ''compute file cid'' e)
      | Inr fileCID \<Rightarrow>
          bind_e (newExternalID ''media'') (\<lambda>mediaID.
          CreateMedia (be_coll env)
            \<lparr>cme_MediaID = mediaID, cme_BlobID = bb_ID b, cme_Kind = pbi_Kind meta,
             cme_OriginalName = pbi_OriginalName meta, cme_MIMEType = mimeType,
             cme_Size = of_nat (length payload), cme_Width = width, cme_Height = height,
             cme_CreatedBy = pbi_CreatedBy meta, cme_FileCID = fileCID\<rparr>))"

definition Put :: "blob_env \<Rightarrow> byte list \<Rightarrow> put_blob_input \<Rightarrow> (store, err, put_blob_result) em" where
  "Put env content meta =
     (let payload = take (nat (int64 (be_maxUploadBytes env + 1))) content in
      if payload = [] then raise (Errorf ''empty blob payload'')
      else if int (length payload) > be_maxUploadBytes env then raise (Errorf ''blob exceeds max upload size'')
      else
        let shaHex = hex_encode (be_sha256 env payload);
            mimeType = (let m = TrimSpace (pbi_MIMEType meta)
                        in if m = [] then be_DetectContentType env payload else m)
        in bind_e (ensure_blob env payload shaHex mimeType) (\<lambda>(b, dedupHit).
           bind_e (add_media env payload mimeType meta b) (\<lambda>m.
           ret \<lparr>pbr_Blob = b, pbr_Media = m, pbr_DedupHit = dedupHit\<rparr>)))"

section \<open>The media service\<close>

definition SaveUploadedBlob :: "blob_env \<Rightarrow> byte list \<Rightarrow> put_blob_input \<Rightarrow> (store, err, attachment) em" where
  "SaveUploadedBlob env content meta = bind_e (Put env content meta) (\<lambda>r. ret (pbr_Media r))"

definition GetMediaByID :: "blob_env \<Rightarrow> string \<Rightarrow> (store, err, attachment) em" where
  "GetMediaByID env mediaID = GetByMediaID (be_coll env) mediaID"

definition DownloadMediaByID :: "blob_env \<Rightarrow> string \<Rightarrow> (store, err, attachment \<times> byte list) em" where
  "DownloadMediaByID env mediaID =
     bind_e (GetByMediaID (be_coll env) mediaID) (\<lambda>item.
     bind_e (Open (at_StoragePath item)) (\<lambda>content.
     bind_e file_step (\<lambda>_. ret (item, content))))"

section \<open>Lemmas: rows\<close>

interpretation uk_blob_sha: unique_key "blob_clash coll" "\<lambda>b. coll (bl_sha256 b)" for coll
  by unfold_locales (simp add: blob_clash_def)

interpretation uk_blob_id: unique_key "blob_clash coll" "\<lambda>b. coll (bl_blob_id b)" for coll
  by unfold_locales (simp add: blob_clash_def)

interpretation uk_media_id: unique_key "media_clash coll" "\<lambda>m. coll (mo_media_id m)" for coll
  by unfold_locales (simp add: media_clash_def)

definition media_ok :: "collation \<Rightarrow> tables \<Rightarrow> bool" where
  "media_ok coll t \<longleftrightarrow> ids_below bl_id (next_blob t) (blobs t) \<and>
     ids_below mo_id (next_media t) (media_objects t) \<and>
     distinct (map (\<lambda>b. coll (bl_sha256 b)) (blobs t)) \<and>
     distinct (map (\<lambda>b. coll (bl_blob_id b)) (blobs t)) \<and>
     distinct (map (\<lambda>m. coll (mo_media_id m)) (media_objects t)) \<and>
     mo_blob_id ` set (media_objects t) \<subseteq> bl_id ` set (blobs t)"

text \<open>
  What is assumed of the environment: SHA-256 sums have 32 bytes, the collation tells texts of
  lower-case hexadecimal digits apart, and the limit is an \<open>int64\<close>.
\<close>

definition blob_env_ok :: "blob_env \<Rightarrow> bool" where
  "blob_env_ok env \<longleftrightarrow> (\<forall>x. length (be_sha256 env x) = 32) \<and>
     (\<forall>x y. be_coll env (hex_encode x) = be_coll env (hex_encode y) \<longrightarrow> x = y) \<and>
     be_maxUploadBytes env < 2 ^ 63"

text \<open>
  The file of every blob is there, at the path of the digest in its row. A file at the path of
  a digest holds content of that digest, or a beginning of such content: what a write that
  failed has left.
\<close>

definition file_of_blob :: "blob_env \<Rightarrow> (string \<times> byte list) list \<Rightarrow> blob_row \<Rightarrow> bool" where
  "file_of_blob env fs b \<longleftrightarrow> bl_storage_path b = blob_path (bl_sha256 b) \<and>
     (\<exists>c d. map_of fs (bl_storage_path b) = Some c \<and> prefix c d \<and> bl_sha256 b = hex_encode (be_sha256 env d))"

definition at_digest :: "blob_env \<Rightarrow> (string \<times> byte list) list \<Rightarrow> bool" where
  "at_digest env fs \<longleftrightarrow>
     (\<forall>p c. map_of fs p = Some c \<longrightarrow> (\<exists>d. prefix c d \<and> p = blob_path (hex_encode (be_sha256 env d))))"

definition blob_files_ok :: "blob_env \<Rightarrow> store \<Rightarrow> bool" where
  "blob_files_ok env s \<longleftrightarrow>
     (\<forall>b \<in> set (blobs (tabs s)). file_of_blob env (files s) b) \<and> at_digest env (files s)"

lemma blob_path_inj: "length h = length h' \<Longrightarrow> blob_path h = blob_path h' \<Longrightarrow> h = h'"
  by (simp add: blob_path_def append_eq_append_conv)

lemma digest_path:
  assumes "blob_env_ok env" "blob_path (hex_encode (be_sha256 env c)) = blob_path (hex_encode (be_sha256 env d))"
  shows "be_sha256 env c = be_sha256 env d"
proof -
  have "hex_encode (be_sha256 env c) = hex_encode (be_sha256 env d)"
    by (rule blob_path_inj [OF _ assms(2)]) (use assms(1) in \<open>simp add: blob_env_ok_def length_hex_encode\<close>)
  then show ?thesis by (rule hex_encode_inj)
qed

lemma Exists_tick [simp]: "Exists p (tick s) = Exists p s"
  by (simp add: Exists_def)

text \<open>A write leaves the file that was there, or adds one with the content or a beginning of it.\<close>

lemma Write_effect:
  assumes "Write torn p c s = (r, s')"
  shows "tabs s' = tabs s \<and> (files s' = files s \<or> \<not> Exists p s \<and> (\<exists>d. prefix d c \<and> files s' = (p, d) # files s)) \<and>
    (r = Inr () \<longrightarrow> map_of (files s') p = Some (case map_of (files s) p of None \<Rightarrow> c | Some d \<Rightarrow> d))"
  using assms
  by (auto simp: Write_def bind_e_def map_err_def file_step_def WriteFile_def Exists_def take_is_prefix
      split: if_splits option.splits)

lemma file_of_blob_add: "file_of_blob env fs b \<Longrightarrow> map_of fs p = None \<Longrightarrow> file_of_blob env ((p, c) # fs) b"
  by (cases "p = bl_storage_path b") (auto simp: file_of_blob_def)

lemma at_digest_add:
  "at_digest env fs \<Longrightarrow> prefix d c \<Longrightarrow> at_digest env ((blob_path (hex_encode (be_sha256 env c)), d) # fs)"
  by (auto simp: at_digest_def)

lemma files_ok_add:
  assumes "blob_files_ok env s" "\<not> Exists p s" "p = blob_path (hex_encode (be_sha256 env c))" "prefix d c"
    "tabs s' = tabs s" "files s' = (p, d) # files s"
  shows "blob_files_ok env s'"
  using assms by (auto simp: blob_files_ok_def Exists_def intro: file_of_blob_add at_digest_add)

lemma files_ok_same:
  "blob_files_ok env s \<Longrightarrow> blobs (tabs s') = blobs (tabs s) \<Longrightarrow> files s' = files s \<Longrightarrow> blob_files_ok env s'"
  by (simp add: blob_files_ok_def)

lemma Write_files_ok:
  assumes "blob_env_ok env" "blob_files_ok env s"
    "Write torn (blob_path (hex_encode (be_sha256 env c))) c s = (r, s')"
  shows "blob_files_ok env s' \<and> tabs s' = tabs s \<and>
    (r = Inr () \<longrightarrow> map_of (files s') (blob_path (hex_encode (be_sha256 env c))) =
         Some (case map_of (files s) (blob_path (hex_encode (be_sha256 env c))) of None \<Rightarrow> c | Some d \<Rightarrow> d) \<and>
       (\<exists>x d. map_of (files s') (blob_path (hex_encode (be_sha256 env c))) = Some x \<and> prefix x d \<and>
          be_sha256 env d = be_sha256 env c))"
proof -
  let ?p = "blob_path (hex_encode (be_sha256 env c))"
  note eff = Write_effect [OF assms(3)]
  then have ok: "blob_files_ok env s'"
    using files_ok_add [OF assms(2), of ?p c _ s'] files_ok_same [OF assms(2), of s'] by auto
  moreover have "\<exists>x d. map_of (files s') ?p = Some x \<and> prefix x d \<and> be_sha256 env d = be_sha256 env c" if "r = Inr ()"
  proof -
    from eff that obtain x where x: "map_of (files s') ?p = Some x" by blast
    with ok obtain d where "prefix x d" "?p = blob_path (hex_encode (be_sha256 env d))"
      unfolding blob_files_ok_def at_digest_def by blast
    with digest_path [OF assms(1) this(2)] x show ?thesis by auto
  qed
  ultimately show ?thesis using eff by simp
qed

lemma GetBySHA256_Inr [em_simps]:
  "GetBySHA256 coll h s = (Inr b, s') \<longleftrightarrow> \<not> faulty s \<and>
     (\<exists>row. find (\<lambda>b. coll (bl_sha256 b) = coll h) (blobs (tabs s)) = Some row \<and> b = to_blob row) \<and> s' = tick s"
  by (auto simp: GetBySHA256_def em_simps)

lemma new_blob_simps [simp]:
  "bl_id (new_blob bid h n m p k nw i) = i" "bl_sha256 (new_blob bid h n m p k nw i) = h"
  "bl_storage_path (new_blob bid h n m p k nw i) = p" "bl_blob_id (new_blob bid h n m p k nw i) = bid"
  by (simp_all add: new_blob_def)

lemma new_media_simps [simp]:
  "mo_id (new_media inp nw i) = i" "mo_media_id (new_media inp nw i) = cme_MediaID inp"
  "mo_blob_id (new_media inp nw i) = cme_BlobID inp" "mo_kind (new_media inp nw i) = cme_Kind inp"
  "mo_size (new_media inp nw i) = cme_Size inp"
  by (simp_all add: new_media_def)

lemma CreateBlob_effect:
  assumes "CreateBlob coll bid h n mime p k s = (r, s')"
  shows "files s' = files s \<and> (tabs s' = tabs s \<and> (\<forall>b. r \<noteq> Inr b) \<or>
    (\<exists>i rs m. insert_row (new_blob bid h n mime p k (now_ms s)) (blob_clash coll)
         (next_blob (tabs s)) (blobs (tabs s)) = Inr (i, rs, m) \<and>
       tabs s' = (tabs s)\<lparr>blobs := rs, next_blob := m\<rparr>))"
  using assms
  by (auto simp: CreateBlob_def GetBySHA256_def bind_e_def now_def map_err_def sql_exec_def fetchOne_simp
      split: sum.splits prod.splits if_splits option.splits)

text \<open>The row that \<open>CreateBlob\<close> returns is the one it has inserted.\<close>

lemma CreateBlob_Inr:
  assumes "CreateBlob coll bid h n mime p k s = (Inr b, s')"
  obtains row where "row \<in> set (blobs (tabs s'))" "b = to_blob row" "bl_sha256 row = h" "bl_storage_path row = p"
proof -
  from assms obtain i rs m where
    ins: "insert_row (new_blob bid h n mime p k (now_ms s)) (blob_clash coll)
         (next_blob (tabs s)) (blobs (tabs s)) = Inr (i, rs, m)"
    and rs: "blobs (tabs s') = rs" and b: "find (\<lambda>b. coll (bl_sha256 b) = coll h) rs = Some row \<Longrightarrow> b = to_blob row" for row
    by (auto simp: CreateBlob_def em_simps split: sum.splits prod.splits)
  from uk_blob_sha.find_insert [OF ins]
  have f: "find (\<lambda>b. coll (bl_sha256 b) = coll h) rs = Some (new_blob bid h n mime p k (now_ms s) i)" by simp
  show thesis
    by (rule that [of "new_blob bid h n mime p k (now_ms s) i"])
      (use b [OF f] find_SomeD [OF f] rs in auto)
qed

lemma media_ok_insert_blob:
  assumes "media_ok coll t" "insert_row (new_blob bid h n mime p k nw) (blob_clash coll)
      (next_blob t) (blobs t) = Inr (i, rs, m)"
  shows "media_ok coll (t\<lparr>blobs := rs, next_blob := m\<rparr>)"
  using assms unfolding media_ok_def
  by (auto simp: ids_below_insert uk_blob_sha.distinct_insert uk_blob_id.distinct_insert)
    (auto simp: insert_row_Inr)

lemma create_blob_ok:
  assumes env: "blob_env_ok env" and ok: "media_ok (be_coll env) (tabs s)" "blob_files_ok env s"
    and h: "h = hex_encode (be_sha256 env c)"
    and run: "bind_e (Write torn (blob_path h) c) (\<lambda>_.
        bind_e (newExternalID ''blob'') (\<lambda>blobID.
        bind_e (CreateBlob (be_coll env) blobID h (of_nat (length c)) mime (blob_path h) 0)
          (\<lambda>b. ret (b, False)))) s = (r, s')"
  shows "media_ok (be_coll env) (tabs s') \<and> blob_files_ok env s' \<and>
    (\<forall>b d. r = Inr (b, d) \<longrightarrow> (\<exists>row \<in> set (blobs (tabs s')). b = to_blob row \<and> bl_sha256 row = h) \<and>
       map_of (files s') (blob_path h) = Some (case map_of (files s) (blob_path h) of None \<Rightarrow> c | Some d \<Rightarrow> d))"
proof -
  obtain w s2 where w: "Write torn (blob_path h) c s = (w, s2)" by fastforce
  from Write_files_ok [OF env ok(2) w [unfolded h], folded h]
  have s2: "blob_files_ok env s2" "tabs s2 = tabs s"
    and at: "w = Inr () \<Longrightarrow> map_of (files s2) (blob_path h) = Some (case map_of (files s) (blob_path h) of None \<Rightarrow> c | Some d \<Rightarrow> d)"
    and fl: "w = Inr () \<Longrightarrow> (\<exists>x d. map_of (files s2) (blob_path h) = Some x \<and> prefix x d \<and> be_sha256 env d = be_sha256 env c)"
    by auto
  show ?thesis
  proof (cases w)
    case (Inl e')
    with run w s2 ok show ?thesis by (auto simp: bind_e_def)
  next
    case (Inr u)
    let ?s3 = "rand_used s2" and ?bid = "ext_id ''blob'' s2"
    obtain x s4 where cb: "CreateBlob (be_coll env) ?bid h (of_nat (length c)) mime (blob_path h) 0 ?s3 = (x, s4)"
      by fastforce
    have s': "s' = s4" "r = (case x of Inl e \<Rightarrow> Inl e | Inr b \<Rightarrow> Inr (b, False))"
      using run w Inr cb by (auto simp: bind_e_def newExternalID_iff newExternalID_simp split: sum.splits)
    have file4: "file_of_blob env (files s2) (new_blob ?bid h n m (blob_path h) k nw i)" for n m k nw i
      using fl Inr h by (fastforce simp: file_of_blob_def)
    from CreateBlob_effect [OF cb] have "media_ok (be_coll env) (tabs s4) \<and> blob_files_ok env s4"
      using s2 ok file4
      by (auto simp: blob_files_ok_def intro: media_ok_insert_blob) (auto simp: insert_row_Inr)
    moreover have "files s4 = files s2" using CreateBlob_effect [OF cb] by simp
    moreover have "\<exists>row \<in> set (blobs (tabs s4)). b = to_blob row \<and> bl_sha256 row = h" if "x = Inr b" for b
      using cb [unfolded that] by (rule CreateBlob_Inr) blast
    ultimately show ?thesis using s' at Inr by (auto split: sum.splits)
  qed
qed

lemma ensure_blob_ok:
  assumes env: "blob_env_ok env" and ok: "media_ok (be_coll env) (tabs s)" "blob_files_ok env s"
    and run: "ensure_blob env c (hex_encode (be_sha256 env c)) mime s = (r, s')"
  shows "media_ok (be_coll env) (tabs s') \<and> blob_files_ok env s' \<and>
    (\<forall>b d. r = Inr (b, d) \<longrightarrow>
       (\<exists>row \<in> set (blobs (tabs s')). b = to_blob row \<and> bl_sha256 row = hex_encode (be_sha256 env c)) \<and>
       map_of (files s') (blob_path (hex_encode (be_sha256 env c))) =
         Some (case map_of (files s) (blob_path (hex_encode (be_sha256 env c))) of None \<Rightarrow> c | Some d \<Rightarrow> d))"
proof -
  let ?h = "hex_encode (be_sha256 env c)"
  obtain g s1 where g: "GetBySHA256 (be_coll env) ?h s = (g, s1)" by fastforce
  then have s1: "s1 = tick s" by (cases g) (auto simp: GetBySHA256_def fetchOne_Inl em_simps)
  have keep: "media_ok (be_coll env) (tabs s1)" "blob_files_ok env s1"
    using ok s1 by (auto intro: files_ok_same)
  show ?thesis
  proof (cases g)
    case (Inr b)
    with g obtain row where row: "row \<in> set (blobs (tabs s))" "be_coll env (bl_sha256 row) = be_coll env ?h"
      "b = to_blob row" by (auto simp: em_simps dest: find_SomeD)
    from row(1) ok(2) obtain x d where d: "map_of (files s) (bl_storage_path row) = Some x"
      "bl_sha256 row = hex_encode (be_sha256 env d)" "bl_storage_path row = blob_path (bl_sha256 row)"
      unfolding blob_files_ok_def file_of_blob_def by blast
    have "be_sha256 env d = be_sha256 env c" using env row(2) unfolding d(2) blob_env_ok_def by blast
    with d(2) have h: "bl_sha256 row = ?h" by simp
    have ex: "Exists (bb_StoragePath b) s1" using d row(3) s1 by (simp add: Exists_def to_blob_def)
    have at: "map_of (files s) (blob_path ?h) = Some x" using d(1,3) h by simp
    from run g Inr ex have "r = Inr (b, True)" "s' = s1" by (simp_all add: ensure_blob_def handle_e_def)
    with keep row h s1 at show ?thesis by auto
  next
    case (Inl e)
    show ?thesis
    proof (cases "e = ErrNotFound")
      case False
      with run g Inl keep show ?thesis by (auto simp: ensure_blob_def handle_e_def)
    next
      case True
      with run g Inl have "bind_e (Write (be_torn env) (blob_path ?h) c) (\<lambda>_.
        bind_e (newExternalID ''blob'') (\<lambda>blobID.
        bind_e (CreateBlob (be_coll env) blobID ?h (of_nat (length c)) mime (blob_path ?h) 0)
          (\<lambda>b. ret (b, False)))) s1 = (r, s')" by (simp add: ensure_blob_def handle_e_def)
      from create_blob_ok [OF env keep refl this] s1 show ?thesis by simp
    qed
  qed
qed

section \<open>Lemmas: storing and fetching media\<close>

lemma GetByMediaID_Inr:
  assumes "GetByMediaID coll i s = (Inr m, s')"
  obtains mo b where "mo \<in> set (media_objects (tabs s))" "coll (mo_media_id mo) = coll i"
    "b \<in> set (blobs (tabs s))" "bl_id b = mo_blob_id mo" "m = to_attachment mo b" "s' = tick s"
proof -
  from assms have s': "s' = tick s" and m: "m \<in> set [to_attachment mo b. mo \<leftarrow> media_objects (tabs s),
      coll (mo_media_id mo) = coll i, b \<leftarrow> blobs (tabs s), bl_id b = mo_blob_id mo]"
    by (auto simp: GetByMediaID_def em_simps simp del: set_concat dest!: first_row_SomeD)
  from m show thesis by (auto intro: that simp: s')
qed

lemma CreateMedia_effect:
  assumes "CreateMedia coll inp s = (r, s')"
  shows "files s' = files s \<and> (tabs s' = tabs s \<and> (\<forall>m. r \<noteq> Inr m) \<or>
    (\<exists>i rs n. insert_row (new_media inp (now_ms s)) (media_clash coll)
         (next_media (tabs s)) (media_objects (tabs s)) = Inr (i, rs, n) \<and>
       tabs s' = (tabs s)\<lparr>media_objects := rs, next_media := n\<rparr>))"
  using assms
  by (auto simp: CreateMedia_def GetByMediaID_def bind_e_def now_def map_err_def sql_exec_def fetchOne_simp
      split: sum.splits prod.splits if_splits option.splits)

lemma media_ok_insert_media:
  assumes "media_ok coll t" "insert_row (new_media inp nw) (media_clash coll) (next_media t) (media_objects t)
      = Inr (i, rs, n)" "cme_BlobID inp \<in> bl_id ` set (blobs t)"
  shows "media_ok coll (t\<lparr>media_objects := rs, next_media := n\<rparr>)"
proof -
  have "mo_blob_id ` set rs \<subseteq> bl_id ` set (blobs t)"
    using assms by (simp add: insert_row_Inr media_ok_def)
  with assms(1,2) show ?thesis
    unfolding media_ok_def by (simp add: ids_below_insert uk_media_id.distinct_insert)
qed

text \<open>The object \<open>CreateMedia\<close> returns joins the new row with its blob.\<close>

lemma CreateMedia_Inr:
  assumes "CreateMedia coll inp s = (Inr m, s')" "media_ok coll (tabs s)"
    "row \<in> set (blobs (tabs s))" "bl_id row = cme_BlobID inp"
  obtains mo where "mo \<in> set (media_objects (tabs s'))" "mo_media_id mo = cme_MediaID inp"
    "m = to_attachment mo row" "mo_kind mo = cme_Kind inp" "mo_size mo = cme_Size inp"
    "mo_blob_id mo = bl_id row" "blobs (tabs s') = blobs (tabs s)"
proof -
  from assms(1) obtain i rs n s1 where
    ins: "insert_row (new_media inp (now_ms s)) (media_clash coll)
         (next_media (tabs s)) (media_objects (tabs s)) = Inr (i, rs, n)"
    and s1: "s1 = (tick s)\<lparr>tabs := (tabs s)\<lparr>media_objects := rs, next_media := n\<rparr>\<rparr>"
    and get: "GetByMediaID coll (cme_MediaID inp) s1 = (Inr m, s')"
    by (auto simp: CreateMedia_def em_simps split: sum.splits prod.splits)
  from get obtain mo b where mo: "mo \<in> set rs" "coll (mo_media_id mo) = coll (cme_MediaID inp)"
    and b: "b \<in> set (blobs (tabs s))" "bl_id b = mo_blob_id mo" and m: "m = to_attachment mo b"
    and s': "s' = tick s1" using s1 by (auto elim!: GetByMediaID_Inr)
  have "mo = new_media inp (now_ms s) i"
    using ins mo by (auto simp: insert_row_Inr media_clash_def)
  moreover have inj: "inj_on bl_id (set (blobs (tabs s)))"
    using assms(2) ids_below_distinct [of bl_id] by (auto simp: media_ok_def distinct_map)
  have "b = row" if "mo_blob_id mo = cme_BlobID inp"
    using inj_onD [OF inj _ b(1) assms(3)] that assms(4) b(2) by simp
  ultimately show thesis using that [of mo] mo b m assms(4) s' s1 by auto
qed

lemma int64_id: "- (2 ^ 63) \<le> x \<Longrightarrow> x < 2 ^ 63 \<Longrightarrow> int64 x = x"
  unfolding int64_def by (subst mod_pos_pos_trivial) auto

text \<open>The payload that \<open>Put\<close> works on is the whole content, when it accepts it.\<close>

lemma limited_payload:
  assumes "be_maxUploadBytes env < 2 ^ 63" "take (nat (int64 (be_maxUploadBytes env + 1))) c \<noteq> []"
    "int (length (take (nat (int64 (be_maxUploadBytes env + 1))) c)) \<le> be_maxUploadBytes env"
  shows "take (nat (int64 (be_maxUploadBytes env + 1))) c = c \<and> int (length c) \<le> be_maxUploadBytes env"
proof -
  let ?m = "be_maxUploadBytes env"
  from assms(3) have m0: "0 \<le> ?m" by (metis of_nat_0_le_iff order_trans)
  have "?m + 1 \<noteq> 2 ^ 63" using assms(2) by (auto simp: int64_def)
  then have lim: "int64 (?m + 1) = ?m + 1" using assms(1) m0 by (intro int64_id) auto
  show ?thesis
  proof (cases "int (length c) \<le> ?m")
    case True
    then show ?thesis unfolding lim by simp
  next
    case False
    then have "nat (?m + 1) \<le> length c" using m0 by simp
    with assms(3) m0 show ?thesis unfolding lim by simp
  qed
qed

lemma add_media_ok:
  assumes ok: "media_ok (be_coll env) (tabs s)" "blob_files_ok env s"
    and row: "row \<in> set (blobs (tabs s))" "b = to_blob row"
    and run: "add_media env payload mime meta b s = (r, s')"
  shows "media_ok (be_coll env) (tabs s') \<and> blob_files_ok env s' \<and>
    (\<forall>m. r = Inr m \<longrightarrow> (\<exists>mo \<in> set (media_objects (tabs s')). m = to_attachment mo row \<and>
       mo_blob_id mo = bl_id row \<and> row \<in> set (blobs (tabs s')) \<and>
       mo_kind mo = pbi_Kind meta \<and> mo_size mo = of_nat (length payload)))"
proof -
  obtain w h where wh: "detectImageSize env payload (pbi_Kind meta) = (w, h)" by fastforce
  show ?thesis
  proof (cases "if pbi_Kind meta = KindFile then ComputeUnixFSFileCID env payload else Inr []")
    case (Inl e)
    with run wh ok show ?thesis by (auto simp: add_media_def)
  next
    case (Inr cid)
    define inp where "inp = \<lparr>cme_MediaID = ext_id ''media'' s, cme_BlobID = bb_ID b, cme_Kind = pbi_Kind meta,
             cme_OriginalName = pbi_OriginalName meta, cme_MIMEType = mime,
             cme_Size = of_nat (length payload), cme_Width = w, cme_Height = h,
             cme_CreatedBy = pbi_CreatedBy meta, cme_FileCID = cid\<rparr>"
    have cm: "CreateMedia (be_coll env) inp (rand_used s) = (r, s')"
      using run wh Inr by (simp add: add_media_def bind_e_def newExternalID_simp inp_def)
    have blob: "cme_BlobID inp = bl_id row" "cme_BlobID inp \<in> bl_id ` set (blobs (tabs s))"
      using row by (auto simp: inp_def to_blob_def)
    from CreateMedia_effect [OF cm] have inv: "media_ok (be_coll env) (tabs s') \<and> blob_files_ok env s'"
      using ok media_ok_insert_media [OF ok(1) _ blob(2)] by (auto intro: files_ok_same)
    have "\<exists>mo \<in> set (media_objects (tabs s')). m = to_attachment mo row \<and>
       mo_blob_id mo = bl_id row \<and> row \<in> set (blobs (tabs s')) \<and>
       mo_kind mo = pbi_Kind meta \<and> mo_size mo = of_nat (length payload)" if "r = Inr m" for m
    proof -
      from cm that have "CreateMedia (be_coll env) inp (rand_used s) = (Inr m, s')" by simp
      then obtain mo where "mo \<in> set (media_objects (tabs s'))" "m = to_attachment mo row"
        "mo_kind mo = cme_Kind inp" "mo_size mo = cme_Size inp" "mo_blob_id mo = bl_id row"
        "blobs (tabs s') = blobs (tabs (rand_used s))"
        using ok(1) row(1) blob(1) by (auto elim!: CreateMedia_Inr)
      then show ?thesis using row(1) by (auto simp: inp_def)
    qed
    with inv show ?thesis by blast
  qed
qed

lemma add_media_frame:
  "add_media env payload mime meta b s = (r, s') \<Longrightarrow> blobs (tabs s') = blobs (tabs s) \<and> files s' = files s"
  by (auto simp: add_media_def newExternalID_simp bind_e_def raise_def Let_def split: sum.splits prod.splits if_splits
      dest!: CreateMedia_effect)

text \<open>Storing content: the invariants, and what a successful \<open>Put\<close> has stored.\<close>

lemma Put_ok:
  assumes env: "blob_env_ok env" and ok: "media_ok (be_coll env) (tabs s)" "blob_files_ok env s"
    and run: "Put env content meta s = (r, s')"
  shows "media_ok (be_coll env) (tabs s') \<and> blob_files_ok env s' \<and>
    (\<forall>x. r = Inr x \<longrightarrow> content \<noteq> [] \<and> int (length content) \<le> be_maxUploadBytes env \<and>
       map_of (files s') (blob_path (hex_encode (be_sha256 env content))) =
         Some (case map_of (files s) (blob_path (hex_encode (be_sha256 env content))) of None \<Rightarrow> content | Some c \<Rightarrow> c) \<and>
       (\<exists>row \<in> set (blobs (tabs s')). \<exists>mo \<in> set (media_objects (tabs s')).
          pbr_Media x = to_attachment mo row \<and> mo_blob_id mo = bl_id row \<and>
          bl_sha256 row = hex_encode (be_sha256 env content) \<and> mo_kind mo = pbi_Kind meta \<and>
          mo_size mo = of_nat (length content)))"
proof -
  let ?p = "take (nat (int64 (be_maxUploadBytes env + 1))) content"
  show ?thesis
  proof (cases "?p = [] \<or> int (length ?p) > be_maxUploadBytes env")
    case True
    with run ok show ?thesis by (auto simp: Put_def Let_def split: if_splits)
  next
    case False
    with env have p: "?p = content" "int (length content) \<le> be_maxUploadBytes env"
      using limited_payload [of env content] by (auto simp: blob_env_ok_def)
    define mime where "mime = (if TrimSpace (pbi_MIMEType meta) = [] then be_DetectContentType env content
        else TrimSpace (pbi_MIMEType meta))"
    obtain e s1 where e: "ensure_blob env content (hex_encode (be_sha256 env content)) mime s = (e, s1)" by fastforce
    note eok = ensure_blob_ok [OF env ok e]
    have run': "(case e of Inl e \<Rightarrow> (Inl e, s1) | Inr (b, d) \<Rightarrow> bind_e (add_media env content mime meta b) (\<lambda>m.
           ret \<lparr>pbr_Blob = b, pbr_Media = m, pbr_DedupHit = d\<rparr>) s1) = (r, s')"
      using run e False p by (auto simp: Put_def Let_def mime_def bind_e_def split: sum.splits prod.splits)
    show ?thesis
    proof (cases e)
      case (Inl x)
      with run' eok show ?thesis by auto
    next
      case (Inr bd)
      obtain b d where bd: "bd = (b, d)" by fastforce
      with eok Inr obtain row where row: "row \<in> set (blobs (tabs s1))" "b = to_blob row"
        "bl_sha256 row = hex_encode (be_sha256 env content)" by auto
      obtain a s2 where a: "add_media env content mime meta b s1 = (a, s2)" by fastforce
      with run' Inr bd have "s' = s2" "\<And>x. r = Inr x \<Longrightarrow> a = Inr (pbr_Media x)"
        by (auto simp: bind_e_def split: sum.splits)
      moreover have "files s2 = files s1" using add_media_frame [OF a] by simp
      ultimately show ?thesis using add_media_ok [OF _ _ row(1,2) a] eok p False row Inr bd by fastforce
    qed
  qed
qed

lemma first_row_only:
  assumes "\<And>x. x \<in> set rs \<Longrightarrow> x = a" "a \<in> set rs"
  shows "first_row rs = Some a"
proof (cases rs)
  case Nil
  with assms(2) show ?thesis by simp
next
  case (Cons y ys)
  with assms(1) [of y] show ?thesis by (simp add: first_row_def)
qed

text \<open>Fetching a stored object gives the file at the path of the digest in its row.\<close>

lemma DownloadMediaByID_stored:
  assumes ok: "media_ok (be_coll env) (tabs s)" "blob_files_ok env s" "faults s = []"
    and row: "row \<in> set (blobs (tabs s))" "mo \<in> set (media_objects (tabs s))" "mo_blob_id mo = bl_id row"
  shows "\<exists>c. DownloadMediaByID env (mo_media_id mo) s = (Inr (to_attachment mo row, c), tick (tick (tick s))) \<and>
    map_of (files s) (blob_path (bl_sha256 row)) = Some c"
proof -
  let ?coll = "be_coll env"
  have nofault: "\<not> faulty s" "\<not> faulty (tick s)" "\<not> faulty (tick (tick s))"
    using ok(3) by (simp_all add: faulty_def tick_def)
  have inj: "inj_on (\<lambda>m. ?coll (mo_media_id m)) (set (media_objects (tabs s)))" "inj_on bl_id (set (blobs (tabs s)))"
    using ok(1) ids_below_distinct [of bl_id] by (auto simp: media_ok_def distinct_map)
  let ?l = "[to_attachment m b. m \<leftarrow> media_objects (tabs s), ?coll (mo_media_id m) = ?coll (mo_media_id mo),
     b \<leftarrow> blobs (tabs s), bl_id b = mo_blob_id m]"
  have "x = to_attachment mo row" if x: "x \<in> set ?l" for x
  proof -
    from x obtain m b where mb: "m \<in> set (media_objects (tabs s))" "?coll (mo_media_id m) = ?coll (mo_media_id mo)"
      "b \<in> set (blobs (tabs s))" "bl_id b = mo_blob_id m" "x = to_attachment m b" by auto
    have "m = mo" using inj_onD [OF inj(1) _ mb(1) row(2)] mb(2) by simp
    moreover from this have "b = row" using inj_onD [OF inj(2) _ mb(3) row(1)] mb(4) row(3) by simp
    ultimately show ?thesis using mb(5) by simp
  qed
  moreover have "to_attachment mo row \<in> set ?l"
    using row by (auto intro!: bexI [of _ mo] bexI [of _ row])
  ultimately have "first_row ?l = Some (to_attachment mo row)" by (rule first_row_only)
  then have get: "GetByMediaID ?coll (mo_media_id mo) s = (Inr (to_attachment mo row), tick s)"
    using nofault by (simp add: GetByMediaID_def fetchOne_simp)
  from ok(2) row(1) obtain c where c: "map_of (files s) (bl_storage_path row) = Some c"
    "bl_storage_path row = blob_path (bl_sha256 row)" unfolding blob_files_ok_def file_of_blob_def by blast
  then show ?thesis
    using get nofault
    by (simp add: DownloadMediaByID_def bind_e_def Open_def map_err_def to_attachment_def file_step_def)
qed

section \<open>Properties\<close>

text \<open>
  C23: what was uploaded can be downloaded again. After a successful \<open>Put\<close>, fetching the
  media identifier it has returned gives that media object and exactly the uploaded content
  when no file lay at the path of its digest before the upload. When one lay there, it is that
  file that is fetched, whatever it holds: the same content of an earlier upload, or the
  beginning of it that a failed write has left.
\<close>

theorem media_roundtrip:
  assumes env: "blob_env_ok env" and ok: "media_ok (be_coll env) (tabs s)" "blob_files_ok env s"
    and run: "Put env content meta s = (Inr x, s')" and quiet: "faults s' = []"
  shows "fst (DownloadMediaByID env (at_MediaID (pbr_Media x)) s') =
    Inr (pbr_Media x, case map_of (files s) (blob_path (hex_encode (be_sha256 env content))) of
                        None \<Rightarrow> content | Some c \<Rightarrow> c)"
proof -
  from Put_ok [OF env ok run] obtain row mo where
    ok': "media_ok (be_coll env) (tabs s')" "blob_files_ok env s'" and
    row: "row \<in> set (blobs (tabs s'))" "mo \<in> set (media_objects (tabs s'))" "mo_blob_id mo = bl_id row"
    and x: "pbr_Media x = to_attachment mo row" and h: "bl_sha256 row = hex_encode (be_sha256 env content)"
    and at: "map_of (files s') (blob_path (hex_encode (be_sha256 env content))) =
      Some (case map_of (files s) (blob_path (hex_encode (be_sha256 env content))) of None \<Rightarrow> content | Some c \<Rightarrow> c)" by blast
  from DownloadMediaByID_stored [OF ok' quiet row] h at x show ?thesis by (auto simp: to_attachment_def)
qed

lemma ensure_blob_hit:
  assumes env: "blob_env_ok env" and ok: "media_ok (be_coll env) (tabs s)" "blob_files_ok env s"
    and row: "row \<in> set (blobs (tabs s))" "bl_sha256 row = h"
    and run: "ensure_blob env c h mime s = (Inr (b, d), s')"
  shows "b = to_blob row \<and> d \<and> tabs s' = tabs s \<and> files s' = files s"
proof -
  have inj: "inj_on (\<lambda>b. be_coll env (bl_sha256 b)) (set (blobs (tabs s)))"
    using ok(1) by (simp add: media_ok_def distinct_map)
  have "find (\<lambda>b. be_coll env (bl_sha256 b) = be_coll env h) (blobs (tabs s)) \<noteq> None"
    using row by (auto simp: find_None_iff)
  then obtain row' where f: "find (\<lambda>b. be_coll env (bl_sha256 b) = be_coll env h) (blobs (tabs s)) = Some row'" by blast
  from find_SomeD [OF f] row have "row' = row" by (intro inj_onD [OF inj]) auto
  note f = f [unfolded this]
  have "file_of_blob env (files s) row" using ok(2) row(1) by (simp add: blob_files_ok_def)
  then have ex: "Exists (bl_storage_path row) s" by (auto simp: file_of_blob_def Exists_def)
  have g: "GetBySHA256 (be_coll env) h s = (if faulty s then Inl DriverErr else Inr (to_blob row), tick s)"
    by (auto simp: GetBySHA256_def fetchOne_def sql_select_def sql_exec_def bind_e_def f ret_def split: sum.splits prod.splits)
  from run show ?thesis
    by (auto simp: ensure_blob_def handle_e_def g raise_def ret_def to_blob_def ex split: if_splits)
qed

text \<open>
  C24: content is stored once. A second \<open>Put\<close> of the same content, by anybody and under any
  name, finds the blob of the first one, says so in \<open>DedupHit\<close>, and adds neither a blob row
  nor a file.
\<close>

theorem content_stored_once:
  assumes env: "blob_env_ok env" and ok: "media_ok (be_coll env) (tabs s)" "blob_files_ok env s"
    and run: "Put env content meta s = (Inr x, s1)" and run2: "Put env content meta2 s1 = (Inr y, s2)"
  shows "pbr_DedupHit y \<and> at_BlobDBID (pbr_Media y) = at_BlobDBID (pbr_Media x) \<and>
    blobs (tabs s2) = blobs (tabs s1) \<and> files s2 = files s1"
proof -
  let ?h = "hex_encode (be_sha256 env content)"
  from Put_ok [OF env ok run] obtain row mo where
    ok1: "media_ok (be_coll env) (tabs s1)" "blob_files_ok env s1" and
    row: "row \<in> set (blobs (tabs s1))" "bl_sha256 row = ?h" and
    x: "pbr_Media x = to_attachment mo row" "mo_blob_id mo = bl_id row" by blast
  from run2 obtain b d s3 m where
    e: "ensure_blob env content ?h (let m = TrimSpace (pbi_MIMEType meta2) in
        if m = [] then be_DetectContentType env content else m) s1 = (Inr (b, d), s3)"
    and a: "add_media env content (let m = TrimSpace (pbi_MIMEType meta2) in
        if m = [] then be_DetectContentType env content else m) meta2 b s3 = (Inr m, s2)"
    and y: "y = \<lparr>pbr_Blob = b, pbr_Media = m, pbr_DedupHit = d\<rparr>"
    using env limited_payload [of env content]
    by (auto simp: Put_def blob_env_ok_def Let_def em_simps split: if_splits)
  from ensure_blob_hit [OF env ok1 row e]
  have hit: "b = to_blob row" "d" "tabs s3 = tabs s1" "files s3 = files s1" by simp_all
  from add_media_frame [OF a] have fr: "blobs (tabs s2) = blobs (tabs s3)" "files s2 = files s3" by simp_all
  have ok3: "media_ok (be_coll env) (tabs s3)" "blob_files_ok env s3"
    using ok1 hit by (simp_all add: blob_files_ok_def)
  have row3: "row \<in> set (blobs (tabs s3))" using row(1) hit(3) by simp
  from add_media_ok [OF ok3 row3 hit(1) a] obtain mo' where "m = to_attachment mo' row" "mo_blob_id mo' = bl_id row" by blast
  with x y hit fr show ?thesis by (simp add: to_attachment_def)
qed

definition ex_blob_env :: blob_env where
  "ex_blob_env = \<lparr>be_coll = ex_coll, be_sha256 = \<lambda>c. replicate 32 (if c = [1, 2, 3] then 1 else 0),
     be_DetectContentType = \<lambda>c. ''image/png'', be_DecodeConfig = \<lambda>c. Some (4, 3),
     be_dag = \<lparr>ul_New = \<lambda>_. None, ul_Layout = \<lambda>_ c _ d. (Inr ''cid'', (''cid'', c) # d)\<rparr>, be_CidString = id,
     be_ipfsCfg = cf_IPFS defaults, be_maxUploadBytes = 1000, be_torn = \<lambda>s. if open_txs s = 0 then Some 2 else None\<rparr>"

definition ex_upload :: put_blob_input where
  "ex_upload = \<lparr>pbi_Kind = KindImage, pbi_OriginalName = ''a.png'', pbi_MIMEType = [], pbi_CreatedBy = 1\<rparr>"

lemma ex_coll_inj: "ex_coll x = ex_coll y \<longleftrightarrow> x = y"
  unfolding ex_coll_def by (rule inj_map_eq_map) (simp add: inj_def)

lemma ex_blob_env_ok: "blob_env_ok ex_blob_env"
  by (auto simp: blob_env_ok_def ex_blob_env_def ex_coll_inj dest: hex_encode_inj)

lemmas [run_simps] =
  Put_def ensure_blob_def add_media_def GetBySHA256_def Write_def file_step_def WriteFile_def Exists_def CreateBlob_def
  new_blob_def blob_clash_def CreateMedia_def new_media_def media_clash_def GetByMediaID_def to_attachment_def to_blob_def
  detectImageSize_def ComputeUnixFSFileCID_def int64_def

text \<open>The random source fails twice, then it works.\<close>

definition ex_disk :: store where
  "ex_disk = ex_store\<lparr>entropy := [None, None, Some [7]]\<rparr>"

lemma ex_media_ok: "media_ok ex_coll (tabs ex_disk)" "blob_files_ok ex_blob_env ex_disk"
  by (simp_all add: media_ok_def blob_files_ok_def at_digest_def ids_below_def ex_disk_def ex_defs)

lemma ex_random_id: "hex_encode (rand_buffer 10 [7]) = ''07'' @ hex_encode (replicate 9 0)"
proof -
  have "rand_buffer 10 [7] = 7 # replicate 9 0" by (simp add: rand_buffer_def take_Cons')
  then show ?thesis by (simp add: hex_encode_def hex_byte_def hex_digit_def)
qed

lemma ex_put: "\<not> isl (fst (Put ex_blob_env [1, 2, 3] ex_upload ex_disk))"
  "\<not> isl (fst (Put ex_blob_env [1, 2, 3] ex_upload (snd (Put ex_blob_env [1, 2, 3] ex_upload ex_disk))))"
  "faults (snd (Put ex_blob_env [1, 2, 3] ex_upload ex_disk)) = []"
  by (simp_all add: run_simps ex_blob_env_def ex_upload_def trim_simps ex_clock_text show_int_def ex_disk_def ex_random_id
      ex_defs del: rand_buffer_def)

theorem media_roundtrip_witness:
  "\<exists>x s'. Put ex_blob_env [1, 2, 3] ex_upload ex_disk = (Inr x, s') \<and>
     fst (DownloadMediaByID ex_blob_env (at_MediaID (pbr_Media x)) s') = Inr (pbr_Media x, [1, 2, 3])"
proof -
  have coll: "be_coll ex_blob_env = ex_coll" by (simp add: ex_blob_env_def)
  have "files ex_disk = []" by (simp add: ex_disk_def ex_defs)
  with media_roundtrip [OF ex_blob_env_ok ex_media_ok [folded coll] succeeds [OF ex_put(1)] ex_put(3)]
    succeeds [OF ex_put(1)] show ?thesis by auto
qed

theorem content_stored_once_witness:
  "\<exists>x s1 y s2. Put ex_blob_env [1, 2, 3] ex_upload ex_disk = (Inr x, s1) \<and>
     Put ex_blob_env [1, 2, 3] ex_upload s1 = (Inr y, s2) \<and> pbr_DedupHit y \<and> files s2 = files s1"
proof -
  have coll: "be_coll ex_blob_env = ex_coll" by (simp add: ex_blob_env_def)
  from content_stored_once [OF ex_blob_env_ok ex_media_ok [folded coll] succeeds [OF ex_put(1)] succeeds [OF ex_put(2)]]
    succeeds [OF ex_put(1)] succeeds [OF ex_put(2)] show ?thesis by blast
qed

end
