(* ===== verification/Paging.thy ===== *)
theory Paging
  imports Prelude
begin

text \<open>
  Cursor-based listing: the contract shared by the paged queries of the server (messages of a
  channel after a sequence number, members of a space after a member id, pending direct
  messages after a sequence number). A query returns the rows with a key above the cursor,
  in the order of the keys, at most \<open>n\<close> of them. The locale proves what a client gets that
  follows the last key of each page; the components interpret it on their own queries.
\<close>

locale cursor_listing =
  fixes key :: "'x \<Rightarrow> 'k::linorder"
    and rows :: "'s \<Rightarrow> 'x list"
    and ok :: "'s \<Rightarrow> bool"
  assumes keys_distinct: "ok s \<Longrightarrow> distinct (map key (rows s))"
begin

definition after :: "'s \<Rightarrow> 'k \<Rightarrow> 'x list" where
  "after s a = sort_key key (filter (\<lambda>x. a < key x) (rows s))"

definition fetch :: "'s \<Rightarrow> 'k \<Rightarrow> nat \<Rightarrow> 'x list" where
  "fetch s a n = order_limit key n (filter (\<lambda>x. a < key x) (rows s))"

text \<open>The cursor of the next page: the key of the last row, or the old cursor.\<close>

definition next_cursor :: "'k \<Rightarrow> 'x list \<Rightarrow> 'k" where
  "next_cursor a xs = (if xs = [] then a else key (last xs))"

text \<open>A client that asks for pages of \<open>n\<close> rows, \<open>k\<close> times at most.\<close>

fun pages :: "'s \<Rightarrow> nat \<Rightarrow> nat \<Rightarrow> 'k \<Rightarrow> 'x list" where
  "pages s n 0 a = []"
| "pages s n (Suc k) a =
     (let p = fetch s a n in if p = [] then [] else p @ pages s n k (next_cursor a p))"

lemma fetch_take: "fetch s a n = take n (after s a)"
  by (simp add: fetch_def after_def order_limit_def)

lemma after_strict:
  assumes "ok s"
  shows "sorted_wrt (<) (map key (after s a))"
proof -
  have "distinct (map key (filter (\<lambda>x. a < key x) (rows s)))"
    using keys_distinct [OF assms] by (rule distinct_map_filter)
  then have "distinct (map key (after s a))" by (simp add: after_def distinct_map)
  moreover have "sorted (map key (after s a))" by (simp add: after_def)
  ultimately show ?thesis by (simp add: strict_sorted_iff)
qed

lemma set_after: "set (after s a) = {x \<in> set (rows s). a < key x}"
  by (auto simp: after_def)

lemma after_after:
  assumes "a \<le> b"
  shows "after s b = filter (\<lambda>x. b < key x) (after s a)"
proof -
  have "filter (\<lambda>x. b < key x) (rows s) = filter (\<lambda>x. b < key x) (filter (\<lambda>x. a < key x) (rows s))"
    using assms by (auto intro: filter_cong)
  then show ?thesis by (simp add: after_def filter_sort)
qed

text \<open>After a page, what is left is exactly what the page did not contain.\<close>

lemma after_page:
  assumes "ok s" "0 < n" "after s a \<noteq> []"
  shows "after s (next_cursor a (fetch s a n)) = drop n (after s a)"
proof -
  let ?xs = "after s a" and ?p = "take n (after s a)"
  let ?k = "key (last ?p)"
  have p: "?p \<noteq> []" using assms(2,3) by simp
  have last_in: "last ?p \<in> set ?p" using p by (rule last_in_set)
  then have "last ?p \<in> set ?xs" by (rule in_set_takeD)
  then have ak: "a < ?k" by (simp add: set_after)
  have "sorted_wrt (<) (map key ?p @ map key (drop n ?xs))"
    using after_strict [OF assms(1)] by (simp flip: map_append)
  then have strict: "\<forall>x \<in> set ?p. \<forall>y \<in> set (drop n ?xs). key x < key y"
    unfolding sorted_wrt_append by simp
  have "key x \<le> ?k" if "x \<in> set ?p" for x
  proof -
    obtain ys where ys: "?p = ys @ [last ?p]" using p by (metis append_butlast_last_id)
    have "sorted (map key ?p)" by (simp flip: fetch_take add: fetch_def)
    then have "sorted (map key (ys @ [last ?p]))" using ys by simp
    moreover have "x \<in> set (ys @ [last ?p])" using that ys by simp
    ultimately show ?thesis by (auto simp: sorted_append)
  qed
  then have "filter (\<lambda>x. ?k < key x) ?p = []" by (auto simp: filter_empty_conv not_less)
  moreover have "filter (\<lambda>x. ?k < key x) (drop n ?xs) = drop n ?xs"
    using strict last_in by (intro filter_True) blast
  moreover have "filter (\<lambda>x. ?k < key x) ?xs =
      filter (\<lambda>x. ?k < key x) ?p @ filter (\<lambda>x. ?k < key x) (drop n ?xs)"
    by (metis append_take_drop_id filter_append)
  ultimately have "after s ?k = drop n ?xs" using after_after [of a ?k s] ak by simp
  then show ?thesis using p by (simp add: fetch_take next_cursor_def)
qed

text \<open>
  Following the cursor gives every row above it, once, in order, as soon as there are enough
  requests.
\<close>

lemma pages_complete:
  assumes "ok s" "0 < n" "length (after s a) \<le> k"
  shows "pages s n k a = after s a"
  using assms(3)
proof (induction k arbitrary: a)
  case (Suc k)
  show ?case
  proof (cases "after s a = []")
    case False
    have "length (after s (next_cursor a (fetch s a n))) \<le> k"
      using Suc.prems assms(2) False by (simp add: after_page [OF assms(1,2) False])
    from Suc.IH [OF this] show ?thesis
      using assms(2) False by (simp add: fetch_take after_page [OF assms(1,2) False, unfolded fetch_take])
  qed (simp add: fetch_take)
qed simp

text \<open>Asking for one row more than is returned tells whether anything is left.\<close>

lemma more_iff:
  assumes "ok s" "0 < n"
  shows "n < length (fetch s a (Suc n)) \<longleftrightarrow>
    (\<exists>x \<in> set (rows s). a < key x \<and> next_cursor a (fetch s a n) < key x)"
proof (cases "after s a = []")
  case True
  then have "\<not> (\<exists>x \<in> set (rows s). a < key x)" using set_after [of s a] by auto
  with True show ?thesis by (auto simp: fetch_take)
next
  case False
  have "n < length (fetch s a (Suc n)) \<longleftrightarrow> drop n (after s a) \<noteq> []" by (auto simp: fetch_take)
  also have "\<dots> \<longleftrightarrow> after s (next_cursor a (fetch s a n)) \<noteq> []"
    by (simp add: after_page [OF assms False])
  also have "\<dots> \<longleftrightarrow> (\<exists>x \<in> set (rows s). next_cursor a (fetch s a n) < key x)"
    using set_after [of s "next_cursor a (fetch s a n)"] by (auto simp flip: set_empty)
  also have "\<dots> \<longleftrightarrow> (\<exists>x \<in> set (rows s). a < key x \<and> next_cursor a (fetch s a n) < key x)"
  proof -
    have "take n (after s a) \<noteq> []" using assms(2) False by simp
    then have "last (take n (after s a)) \<in> set (after s a)" by (metis last_in_set in_set_takeD)
    then have "a < next_cursor a (fetch s a n)"
      using False assms(2) by (simp add: next_cursor_def fetch_take set_after)
    then show ?thesis by (auto intro: less_trans)
  qed
  finally show ?thesis .
qed

text \<open>A page holds every row between the old and the new cursor.\<close>

lemma set_fetch:
  assumes "ok s" "0 < n"
  shows "set (fetch s a n) = {x \<in> set (rows s). a < key x \<and> key x \<le> next_cursor a (fetch s a n)}"
proof (cases "after s a = []")
  case True
  then have "fetch s a n = []" by (simp add: fetch_take)
  with True show ?thesis using set_after [of s a] by (auto simp: next_cursor_def)
next
  case False
  let ?b = "next_cursor a (fetch s a n)"
  have split: "set (after s a) = set (fetch s a n) \<union> set (after s ?b)"
    unfolding fetch_take after_page [OF assms False, unfolded fetch_take] by (simp flip: set_append)
  have dist: "distinct (after s a)"
    using keys_distinct [OF assms(1)] by (simp add: after_def distinct_map)
  have "set (fetch s a n) \<inter> set (after s ?b) = {}"
    using dist set_take_disj_set_drop_if_distinct [of "after s a" n n]
    unfolding fetch_take after_page [OF assms False, unfolded fetch_take] by simp
  then have "set (fetch s a n) = {x \<in> set (after s a). x \<notin> set (after s ?b)}" using split by blast
  also have "\<dots> = {x \<in> set (rows s). a < key x \<and> key x \<le> ?b}" unfolding set_after by auto
  finally show ?thesis .
qed

end

end
