(* ===== verification/Messaging.thy ===== *)
theory Messaging
  imports Config Media Paging
begin

text \<open>
  The messaging and directory services, \<open>internal/service/messaging.go\<close> and
  \<open>internal/service/directory.go\<close>: sending a message with its permission and validation
  checks, resolving attachments, synchronising a channel from a cursor, delivery and read
  cursors, and the clean-up of expired messages. The lemmas show who may send, what a
  stored message satisfies, and that a client that follows the cursor gets every message of
  the channel once and in order.
\<close>

section \<open>Inputs\<close>

record attachment_input =
  ai_MediaID :: string
  ai_OriginalName :: string
  ai_MIMEType :: string
  ai_Content :: "byte list"

record send_message_input =
  si_ChannelID :: uint32
  si_ClientMsgID :: string
  si_MessageType :: message_type
  si_Text :: string
  si_Images :: "attachment_input list"
  si_Files :: "attachment_input list"

definition inferMessageType :: "send_message_input \<Rightarrow> message_type" where
  "inferMessageType inp =
     (if si_Images inp \<noteq> [] then TypeImage else if si_Files inp \<noteq> [] then TypeFile else TypeText)"

text \<open>\<open>fmt.Errorf("%w: ...", ErrInvalidMessage)\<close>.\<close>

definition invalid :: "string \<Rightarrow> err" where
  "invalid why = Wrapped [] ErrInvalidMessage ('': '' @ why)"

section \<open>Sending\<close>

definition validateMessage :: "config \<Rightarrow> channel \<Rightarrow> permission \<Rightarrow> uint64 \<Rightarrow> send_message_input
    \<Rightarrow> (store, err, unit) em" where
  "validateMessage cfg ch perm userID inp =
     (let clientMsgID = TrimSpace (si_ClientMsgID inp); text = TrimSpace (si_Text inp) in
      if length clientMsgID < 8 \<or> 64 < length clientMsgID
        then raise (invalid ''client_msg_id must be 8-64 chars'')
      else if cf_MaxTextLen cfg < int (length text) then raise (invalid ''text too long'')
      else if cf_MaxImagesPerMessage cfg < int (length (si_Images inp)) then raise (invalid ''too many images'')
      else if cf_MaxFilesPerMessage cfg < int (length (si_Files inp)) then raise (invalid ''too many files'')
      else if si_Images inp \<noteq> [] \<and> si_Files inp \<noteq> [] then raise (invalid ''images and files cannot coexist'')
      else if text = [] \<and> si_Images inp = [] \<and> si_Files inp = [] then raise (invalid ''empty message'')
      else if si_Images inp = [] \<and> si_Files inp = [] \<and> inferMessageType inp \<noteq> TypeText
        then raise (invalid ''invalid text message type'')
      else if si_Images inp \<noteq> [] \<and> \<not> pm_CanSendImage perm then raise ErrForbidden
      else if si_Images inp = [] \<and> si_Files inp \<noteq> [] \<and> \<not> pm_CanSendFile perm then raise ErrForbidden
      else if \<not> pm_CanSendMessage perm then raise ErrForbidden
      else if cn_Type ch = TypeBroadcast \<and> pm_Role perm \<noteq> RoleOwner \<and> pm_Role perm \<noteq> RoleAdmin
        then raise ErrForbidden
      else if 0 < cn_SlowModeSeconds ch then
        bind_e (GetLastMessageTime (cn_ID ch) userID) (\<lambda>lastTime.
        bind_e time_Now (\<lambda>clock.
        case lastTime of
          Some lt \<Rightarrow>
            if clock - 1000000 * lt < int (unat (cn_SlowModeSeconds ch)) * 1000000000
            then raise (invalid ''slow mode active'') else ret ()
        | None \<Rightarrow> ret ()))
      else ret ())"

text \<open>One attachment: a stored media object that is named, or an upload.\<close>

definition resolve_one :: "blob_env \<Rightarrow> uint64 \<Rightarrow> media_kind \<Rightarrow> attachment_input \<Rightarrow> (store, err, uint64) em" where
  "resolve_one env userID kind item =
     (if ai_MediaID item \<noteq> [] \<and> ai_Content item = []
      then bind_e (GetMediaByID env (ai_MediaID item)) (\<lambda>obj. ret (at_ID obj))
      else bind_e (SaveUploadedBlob env (ai_Content item)
             \<lparr>pbi_Kind = kind, pbi_OriginalName = ai_OriginalName item,
              pbi_MIMEType = ai_MIMEType item, pbi_CreatedBy = userID\<rparr>) (\<lambda>obj. ret (at_ID obj)))"

definition resolveAttachments :: "blob_env \<Rightarrow> uint64 \<Rightarrow> send_message_input \<Rightarrow> (store, err, uint64 list) em" where
  "resolveAttachments env userID inp =
     (if si_Images inp \<noteq> [] then mapM_e (resolve_one env userID KindImage) (si_Images inp)
      else if si_Files inp \<noteq> [] then mapM_e (resolve_one env userID KindFile) (si_Files inp)
      else ret [])"

definition SendMessage :: "config \<Rightarrow> blob_env \<Rightarrow> uint64 \<Rightarrow> send_message_input \<Rightarrow> (store, err, message) em" where
  "SendMessage cfg env userID inp =
     bind_e (GetByChannelID (si_ChannelID inp)) (\<lambda>ch.
     bind_e (GetPermission (si_ChannelID inp) userID) (\<lambda>perm.
     if \<not> pm_CanView perm then raise ErrForbidden
     else bind_e (validateMessage cfg ch perm userID inp) (\<lambda>_.
       bind_e (resolveAttachments env userID inp) (\<lambda>attachments.
       Create (be_coll env)
         \<lparr>cmi_ChannelID = si_ChannelID inp, cmi_SenderUserID = userID, cmi_ClientMsgID = si_ClientMsgID inp,
          cmi_MessageType = inferMessageType inp, cmi_Text = TrimSpace (si_Text inp),
          cmi_AttachmentMedia = attachments\<rparr>))))"

section \<open>Synchronising\<close>

definition sync_limit :: "config \<Rightarrow> uint32 \<Rightarrow> uint32" where
  "sync_limit cfg limit =
     (let l = (if limit = 0 then cf_DefaultSyncLimit cfg else limit)
      in if cf_MaxSyncLimit cfg < l then cf_MaxSyncLimit cfg else l)"

definition SyncChannel :: "config \<Rightarrow> uint64 \<Rightarrow> uint32 \<Rightarrow> uint64 \<Rightarrow> uint32
    \<Rightarrow> (store, err, message list \<times> uint64 \<times> bool) em" where
  "SyncChannel cfg userID channelID afterSeq limit0 =
     bind_e (IsUserMember channelID userID) (\<lambda>member.
     if \<not> member then raise ErrForbidden
     else
       let limit = sync_limit cfg limit0 in
       bind_e (ListAfterSeq channelID afterSeq (limit + 1)) (\<lambda>all_items.
       let hasMore = limit < of_nat (length all_items);
           items = (if hasMore then take (unat limit) all_items else all_items);
           nextAfterSeq = (if items \<noteq> [] then mg_Seq (last items) else afterSeq)
       in ret (items, nextAfterSeq, hasMore)))"

definition AckDelivered :: "uint64 \<Rightarrow> uint32 \<Rightarrow> uint64 \<Rightarrow> (store, err, unit) em" where
  "AckDelivered userID channelID seq =
     bind_e (IsUserMember channelID userID) (\<lambda>member.
     if \<not> member then raise ErrForbidden else UpsertDeliveredSeq userID channelID seq)"

definition UpdateRead :: "uint64 \<Rightarrow> uint32 \<Rightarrow> uint64 \<Rightarrow> (store, err, unit) em" where
  "UpdateRead userID channelID seq =
     bind_e (IsUserMember channelID userID) (\<lambda>member.
     if \<not> member then raise ErrForbidden else UpsertReadSeq userID channelID seq)"

definition svc_CleanupExpiredMessages :: "(store, err, uint32) em" where
  "svc_CleanupExpiredMessages = bind_e now (\<lambda>nw. CleanupExpiredMessages nw 200)"

section \<open>The directory\<close>

definition ListSpaces :: "collation \<Rightarrow> uint64 \<Rightarrow> (store, err, space list) em" where
  "ListSpaces coll userID = ListByUserID coll userID"

definition ListChannels :: "collation \<Rightarrow> uint64 \<Rightarrow> uint32 \<Rightarrow> (store, err, channel list) em" where
  "ListChannels coll userID spaceID = ListBySpaceIDForUser coll spaceID userID"

section \<open>Lemmas: what a stored message satisfies\<close>

text \<open>The checks of \<open>validateMessage\<close> as one condition, slow mode apart.\<close>

definition sendable :: "config \<Rightarrow> channel_type \<Rightarrow> permission \<Rightarrow> send_message_input \<Rightarrow> bool" where
  "sendable cfg ty perm inp \<longleftrightarrow>
     8 \<le> length (TrimSpace (si_ClientMsgID inp)) \<and> length (TrimSpace (si_ClientMsgID inp)) \<le> 64 \<and>
     int (length (TrimSpace (si_Text inp))) \<le> cf_MaxTextLen cfg \<and>
     int (length (si_Images inp)) \<le> cf_MaxImagesPerMessage cfg \<and>
     int (length (si_Files inp)) \<le> cf_MaxFilesPerMessage cfg \<and>
     (si_Images inp = [] \<or> si_Files inp = []) \<and>
     (TrimSpace (si_Text inp) \<noteq> [] \<or> si_Images inp \<noteq> [] \<or> si_Files inp \<noteq> []) \<and>
     pm_CanSendMessage perm \<and> (si_Images inp \<noteq> [] \<longrightarrow> pm_CanSendImage perm) \<and>
     (si_Files inp \<noteq> [] \<longrightarrow> pm_CanSendFile perm) \<and>
     (ty = TypeBroadcast \<longrightarrow> pm_Role perm \<in> {RoleOwner, RoleAdmin})"

lemma GetLastMessageTime_tabs: "GetLastMessageTime c u s = (r, s') \<Longrightarrow> tabs s' = tabs s \<and> files s' = files s"
  by (auto simp: GetLastMessageTime_def map_err_def sql_select_def split: if_splits)

lemma validateMessage_frame:
  "validateMessage cfg ch perm u inp s = (r, s') \<Longrightarrow> tabs s' = tabs s \<and> files s' = files s"
  by (auto simp: validateMessage_def Let_def bind_e_def time_Now_def
      split: if_splits sum.splits prod.splits option.splits dest!: GetLastMessageTime_tabs)

lemma validateMessage_Inr:
  assumes "validateMessage cfg ch perm u inp s = (Inr x, s')"
  shows "sendable cfg (cn_Type ch) perm inp"
  using assms by (auto simp: validateMessage_def Let_def sendable_def not_less split: if_splits)

text \<open>The tables but for blobs and media objects, which uploads add to.\<close>

definition media_rest :: "tables \<Rightarrow> tables" where
  "media_rest t = t\<lparr>blobs := [], media_objects := [], next_blob := 0, next_media := 0\<rparr>"

lemma media_rest_updates [simp]:
  "media_rest (t\<lparr>blobs := b\<rparr>) = media_rest t" "media_rest (t\<lparr>next_blob := n\<rparr>) = media_rest t"
  "media_rest (t\<lparr>media_objects := m\<rparr>) = media_rest t" "media_rest (t\<lparr>next_media := n\<rparr>) = media_rest t"
  by (simp_all add: media_rest_def)

lemma media_rest_eq:
  assumes "media_rest t' = media_rest t"
  shows "messages t' = messages t" "channels t' = channels t" "channel_members t' = channel_members t"
    "users t' = users t" "next_message t' = next_message t"
proof -
  note f = arg_cong [OF assms, unfolded media_rest_def]
  show "messages t' = messages t" "channels t' = channels t" "channel_members t' = channel_members t"
    "users t' = users t" "next_message t' = next_message t"
    using f [of messages] f [of channels] f [of channel_members] f [of users] f [of next_message] by simp_all
qed

lemma keeps_files:
  "keeps (on_tabs I) (Write torn p c)" "keeps (on_tabs I) file_step"
  "keeps (on_tabs I) (GetBySHA256 coll h)" "keeps (on_tabs I) (GetByMediaID coll i)"
proof -
  show "keeps (on_tabs I) (Write torn p c)" "keeps (on_tabs I) file_step"
    by (auto simp: keeps_def Write_def bind_e_def map_err_def file_step_def WriteFile_def
        split: if_splits option.splits sum.splits prod.splits)
  show "keeps (on_tabs I) (GetBySHA256 coll h)" "keeps (on_tabs I) (GetByMediaID coll i)"
    unfolding GetBySHA256_def GetByMediaID_def by (rule keeps_fetchOne)+
qed

lemma keeps_ensure_blob:
  "keeps (on_tabs (\<lambda>t. media_rest t = X)) (ensure_blob env c h mime)"
proof -
  have cb: "keeps (on_tabs (\<lambda>t. media_rest t = X)) (CreateBlob coll a b d e f g)" for coll a b d e f g
    unfolding CreateBlob_def
    by (intro keeps_intros keeps_files) (auto split: sum.splits prod.splits)
  have ex: "keeps (on_tabs (\<lambda>t. media_rest t = X)) (\<lambda>s. if \<not> Exists p s then m s else ret z s)"
    if "keeps (on_tabs (\<lambda>t. media_rest t = X)) m" for p m z
    using that by (auto simp: keeps_def)
  show ?thesis
    unfolding ensure_blob_def by (intro keeps_intros keeps_files cb ex)
qed

lemma keeps_add_media:
  "keeps (on_tabs (\<lambda>t. media_rest t = X)) (add_media env c mime meta b)"
proof -
  have "keeps (on_tabs (\<lambda>t. media_rest t = X)) (CreateMedia coll inp)" for coll inp
    unfolding CreateMedia_def
    by (intro keeps_intros keeps_files) (auto split: sum.splits prod.splits)
  then show ?thesis
    unfolding add_media_def Let_def by (intro keeps_intros)
qed

lemma keeps_resolve_one:
  "keeps (on_tabs (\<lambda>t. media_rest t = X)) (resolve_one env u k item)"
  unfolding resolve_one_def SaveUploadedBlob_def Put_def Let_def GetMediaByID_def
  by (intro keeps_intros keeps_files keeps_ensure_blob keeps_add_media)

lemma resolveAttachments_frame:
  assumes "resolveAttachments env u inp s = (r, s')"
  shows "media_rest (tabs s') = media_rest (tabs s)"
proof -
  have "keeps (on_tabs (\<lambda>t. media_rest t = media_rest (tabs s))) (resolveAttachments env u inp)"
    unfolding resolveAttachments_def by (intro keeps_intros keeps_resolve_one)
  from keepsD2 [OF this assms] show ?thesis by (simp add: on_tabs_def)
qed

text \<open>
  A message is stored only for a member of an existing channel whose permissions allow it,
  and only when it passes the checks.
\<close>

lemma SendMessage_Inr:
  assumes "SendMessage cfg env u inp s = (Inr m, s')"
  obtains c cm atts s1 where "c \<in> set (channels (tabs s))" "ch_id c = si_ChannelID inp"
    "cm \<in> set (channel_members (tabs s))" "cm_channel_id cm = si_ChannelID inp" "cm_user_id cm = u"
    "cm_can_view cm" "sendable cfg (ch_type c) (to_permission cm) inp"
    "media_rest (tabs s1) = media_rest (tabs s)"
    "Create (be_coll env) \<lparr>cmi_ChannelID = si_ChannelID inp, cmi_SenderUserID = u,
       cmi_ClientMsgID = si_ClientMsgID inp, cmi_MessageType = inferMessageType inp,
       cmi_Text = TrimSpace (si_Text inp), cmi_AttachmentMedia = atts\<rparr> s1 = (Inr m, s')"
proof -
  from assms obtain c cm s2 s3 atts where
    c: "find (\<lambda>c. joins_server (tabs s) (\<lambda>s. True) (ch_space_id c) \<and> ch_id c = si_ChannelID inp)
      (channels (tabs s)) = Some c"
    and cm: "find (is_channel_member (tabs s) (si_ChannelID inp) u) (channel_members (tabs s)) = Some cm"
    and view: "cm_can_view cm"
    and v: "validateMessage cfg (to_channel no_permission c) (to_permission cm) u inp (tick (tick s)) = (Inr (), s2)"
    and r: "resolveAttachments env u inp s2 = (Inr atts, s3)"
    and cr: "Create (be_coll env) \<lparr>cmi_ChannelID = si_ChannelID inp, cmi_SenderUserID = u,
       cmi_ClientMsgID = si_ClientMsgID inp, cmi_MessageType = inferMessageType inp,
       cmi_Text = TrimSpace (si_Text inp), cmi_AttachmentMedia = atts\<rparr> s3 = (Inr m, s')"
    by (auto simp: SendMessage_def GetByChannelID_def GetPermission_def em_simps to_permission_def)
  have "media_rest (tabs s3) = media_rest (tabs s)"
    using resolveAttachments_frame [OF r] validateMessage_frame [OF v] by simp
  moreover have "sendable cfg (ch_type c) (to_permission cm) inp"
    using validateMessage_Inr [OF v] by (simp add: to_channel_def)
  ultimately show thesis
    using that [of c cm s3 atts] find_SomeD [OF c] find_SomeD [OF cm] view cr
    by (auto simp: is_channel_member_def)
qed

lemma SendMessage_effect:
  assumes "SendMessage cfg env u inp s = (r, s')"
  shows "(\<exists>e. r = Inl e) \<and> media_rest (tabs s') = media_rest (tabs s) \<or>
    (\<exists>s1 cin. media_rest (tabs s1) = media_rest (tabs s) \<and> cmi_SenderUserID cin = u \<and>
       Create (be_coll env) cin s1 = (r, s'))"
  using assms
  by (auto simp: SendMessage_def GetByChannelID_def GetPermission_def bind_e_def fetchOne_simp
      split: if_splits sum.splits prod.splits option.splits
      dest!: validateMessage_frame resolveAttachments_frame)

section \<open>Lemmas: synchronising\<close>

definition visible_log :: "uint32 \<times> tables \<Rightarrow> message list" where
  "visible_log x = joined_messages (\<lambda>m. ms_channel_id m = fst x \<and> ms_status m = StatusNormal) (snd x)"

definition log_ok :: "uint32 \<times> tables \<Rightarrow> bool" where
  "log_ok x \<longleftrightarrow> (\<exists>coll. messages_ok coll (snd x)) \<and> distinct (map u_id (users (snd x)))"

lemma sender_seqs:
  "distinct (map u_id us) \<Longrightarrow>
     map mg_Seq [to_message m u. u \<leftarrow> us, u_id u = i] = (if i \<in> u_id ` set us then [ms_seq m] else [])"
  by (induction us) (auto simp: to_message_def)

lemma joined_seqs_distinct:
  fixes p q :: "message_row \<Rightarrow> bool" and us :: "user_row list"
  defines "J \<equiv> \<lambda>ms. [to_message m u. m \<leftarrow> ms, p m \<and> q m, u \<leftarrow> us, u_id u = ms_sender_user_id m]"
  assumes "distinct (map ms_seq (filter p ms))" "distinct (map u_id us)"
  shows "distinct (map mg_Seq (J ms)) \<and> set (map mg_Seq (J ms)) \<subseteq> ms_seq ` set (filter p ms)"
  using assms(2)
proof (induction ms)
  case Nil
  then show ?case by (simp add: J_def)
next
  case (Cons m ms)
  show ?case
  proof (cases "p m \<and> q m")
    case False
    then have "J (m # ms) = J ms" unfolding J_def by (simp only: list.map concat.simps if_False append_Nil)
    with Cons False show ?thesis by (cases "p m") auto
  next
    case True
    then have "map mg_Seq (J (m # ms)) =
        (if ms_sender_user_id m \<in> u_id ` set us then [ms_seq m] else []) @ map mg_Seq (J ms)"
      unfolding sender_seqs [OF assms(3), symmetric] by (simp add: J_def)
    moreover have "ms_seq m \<notin> ms_seq ` set (filter p ms)" "distinct (map ms_seq (filter p ms))"
      using Cons.prems True by simp_all
    ultimately show ?thesis using Cons.IH True by (auto simp del: set_map)
  qed
qed

lemma log_seqs_distinct:
  assumes "log_ok x"
  shows "distinct (map mg_Seq (visible_log x))"
proof (cases "fst x \<in> ch_id ` set (channels (snd x))")
  case True
  then obtain c where c: "c \<in> set (channels (snd x))" "ch_id c = fst x" by auto
  from assms obtain coll where "messages_ok coll (snd x)" and us: "distinct (map u_id (users (snd x)))"
    by (auto simp: log_ok_def)
  with c have "map (unat \<circ> ms_seq) (channel_log (snd x) (fst x)) = [1..<Suc (unat (ch_message_seq c))]"
    by (auto simp: messages_ok_def channel_sequenced_def)
  then have "distinct (map (unat \<circ> ms_seq) (channel_log (snd x) (fst x)))" by (simp only: distinct_upt)
  then have "distinct (map ms_seq (channel_log (snd x) (fst x)))"
    by (simp add: distinct_map comp_inj_on_iff [symmetric] inj_on_def)
  then have "distinct (map ms_seq (filter (\<lambda>m. ms_status m = StatusNormal) (channel_log (snd x) (fst x))))"
    by (rule distinct_map_filter)
  then have "distinct (map ms_seq (filter (\<lambda>m. ms_channel_id m = fst x \<and> ms_status m = StatusNormal)
      (messages (snd x))))"
    by (simp add: channel_log_def conj_commute)
  from joined_seqs_distinct [OF this us, of "\<lambda>m. joins_channel (snd x) (\<lambda>c. True) (ms_channel_id m)"]
  show ?thesis unfolding visible_log_def joined_messages_def by (rule conjunct1)
next
  case False
  have "y \<notin> set (visible_log x)" for y
    using False by (auto simp: visible_log_def joined_messages_set joins_channel_def image_iff)
  then show ?thesis by (cases "visible_log x") auto
qed

interpretation sync: cursor_listing mg_Seq visible_log log_ok
  by unfold_locales (rule log_seqs_distinct)

lemma joined_messages_filter:
  "joined_messages (\<lambda>m. ms_channel_id m = c \<and> a < ms_seq m \<and> ms_status m = StatusNormal) t =
     filter (\<lambda>x. a < mg_Seq x) (visible_log (c, t))"
  unfolding visible_log_def joined_messages_def
  by (simp add: filter_concat comp_def map_concat)
    (auto intro!: arg_cong [of _ _ concat] map_cong simp: to_message_def filter_concat comp_def
      filter_empty_conv)

text \<open>The limit is never zero and never the largest 32-bit number, so \<open>limit+1\<close> does not wrap.\<close>

lemma sync_limit_bounds:
  assumes "config_ok cfg" "cf_MaxSyncLimit cfg \<noteq> - 1"
  shows "0 < unat (sync_limit cfg l)" "sync_limit cfg l \<le> cf_MaxSyncLimit cfg"
    "unat (sync_limit cfg l + 1) = Suc (unat (sync_limit cfg l))"
proof -
  have pos: "sync_limit cfg l \<noteq> 0" and le: "sync_limit cfg l \<le> cf_MaxSyncLimit cfg"
    using assms(1) by (auto simp: sync_limit_def config_ok_def Let_def not_less)
  from pos show "0 < unat (sync_limit cfg l)" by (simp add: unat_gt_0)
  show "sync_limit cfg l \<le> cf_MaxSyncLimit cfg" by (rule le)
  have "sync_limit cfg l \<noteq> - 1"
    using le assms(2) by (metis word_n1_ge antisym)
  then show "unat (sync_limit cfg l + 1) = Suc (unat (sync_limit cfg l))" by (rule unat_inc_max)
qed

lemma fetch_map:
  "order_limit mg_Seq n (joined_messages (\<lambda>m. ms_channel_id m = c \<and> a < ms_seq m \<and> ms_status m = StatusNormal) t) =
     sync.fetch (c, t) a n"
  by (simp add: joined_messages_filter sync.fetch_def)

text \<open>What \<open>SyncChannel\<close> makes of the rows it has fetched, with one row more than the limit.\<close>

lemma sync_result:
  fixes l :: uint32
  assumes "unat (l + 1) = Suc (unat l)"
    and "items0 = map (add_attachments rs) (sync.fetch x a (unat (l + 1)))"
  shows "l < of_nat (length items0) \<longleftrightarrow> unat l < length (sync.fetch x a (Suc (unat l)))"
    and "(if l < of_nat (length items0) then take (unat l) items0 else items0) =
      map (add_attachments rs) (sync.fetch x a (unat l))"
proof -
  have len: "length items0 \<le> Suc (unat l)" using assms by (simp add: sync.fetch_take)
  have "length items0 < 2 ^ 32" using len assms(1) unsigned_less [of "l + 1", where 'a = nat] by simp
  then have un: "unat (of_nat (length items0) :: uint32) = length items0" by (intro unat_of_nat_less) simp
  show "l < of_nat (length items0) \<longleftrightarrow> unat l < length (sync.fetch x a (Suc (unat l)))"
    unfolding word_less_nat_alt un using assms by simp
  then show "(if l < of_nat (length items0) then take (unat l) items0 else items0) =
      map (add_attachments rs) (sync.fetch x a (unat l))"
    using assms by (auto simp: sync.fetch_take take_map min_def)
qed

lemma next_seq:
  "(if map (add_attachments rs) xs \<noteq> [] then mg_Seq (last (map (add_attachments rs) xs)) else a) =
     sync.next_cursor a xs"
  by (simp add: sync.next_cursor_def last_map)

lemma SyncChannel_Inr:
  assumes cfg: "config_ok cfg" "cf_MaxSyncLimit cfg \<noteq> - 1"
    and run: "SyncChannel cfg u c a l s = (Inr (items, nxt, hasmore), s')"
  obtains rs where "items = map (add_attachments rs) (sync.fetch (c, tabs s) a (unat (sync_limit cfg l)))"
    "nxt = sync.next_cursor a (sync.fetch (c, tabs s) a (unat (sync_limit cfg l)))"
    "hasmore \<longleftrightarrow> unat (sync_limit cfg l) < length (sync.fetch (c, tabs s) a (Suc (unat (sync_limit cfg l))))"
    "\<exists>cm \<in> set (channel_members (tabs s)). is_channel_member (tabs s) c u cm"
proof -
  let ?l = "sync_limit cfg l"
  from run obtain items0 s2 where
    mem: "\<exists>cm \<in> set (channel_members (tabs s)). is_channel_member (tabs s) c u cm"
    and ls: "ListAfterSeq c a (?l + 1) (tick s) = (Inr items0, s2)"
    and res: "items = (if ?l < of_nat (length items0) then take (unat ?l) items0 else items0)"
      "hasmore = (?l < of_nat (length items0))" "nxt = (if items \<noteq> [] then mg_Seq (last items) else a)"
    by (auto simp: SyncChannel_def IsUserMember_def em_simps Let_def count_where_pos_iff)
  from ls obtain rs where rs: "items0 = map (add_attachments rs) (sync.fetch (c, tabs s) a (unat (?l + 1)))"
    using fetch_map by (metis ListAfterSeq_Inr tick_simps(1))
  note r = sync_result [OF sync_limit_bounds(3) [OF cfg] rs]
  have items: "items = map (add_attachments rs) (sync.fetch (c, tabs s) a (unat ?l))"
    using res(1) r(2) by (rule trans)
  have "nxt = sync.next_cursor a (sync.fetch (c, tabs s) a (unat ?l))"
    unfolding res(3) items by (rule next_seq)
  with that [OF items] res(2) r(1) mem show thesis by simp
qed

text \<open>A client that follows the cursor until nothing is left, with \<open>k\<close> requests at most.\<close>

fun sync_all :: "config \<Rightarrow> uint64 \<Rightarrow> uint32 \<Rightarrow> uint32 \<Rightarrow> nat \<Rightarrow> uint64 \<Rightarrow> (store, err, message list) em" where
  "sync_all cfg u c l 0 a = ret []"
| "sync_all cfg u c l (Suc k) a =
     bind_e (SyncChannel cfg u c a l) (\<lambda>(items, nxt, hasmore).
       if hasmore then bind_e (sync_all cfg u c l k nxt) (\<lambda>rest. ret (items @ rest)) else ret items)"

text \<open>Without faults, a query of a member returns.\<close>

definition readable :: "uint64 \<Rightarrow> uint32 \<Rightarrow> store \<Rightarrow> bool" where
  "readable u c s \<longleftrightarrow> faults s = [] \<and> (\<forall>mo \<in> set (media_objects (tabs s)). mo_created_by mo \<noteq> None) \<and>
     (\<exists>cm \<in> set (channel_members (tabs s)). is_channel_member (tabs s) c u cm)"

lemma tick_no_faults [simp]: "faults s = [] \<Longrightarrow> tick s = s"
  by (simp add: tick_def)

lemma hydrateMessages_ret:
  assumes "faults s = []" "\<forall>mo \<in> set (media_objects (tabs s)). mo_created_by mo \<noteq> None"
  shows "\<exists>ms. hydrateMessages items s = (Inr ms, s)"
proof -
  have "\<not> (\<exists>(ma, mo, b) \<in> set (attachment_rows ids (tabs s)). mo_created_by mo = None)" for ids
    using assms(2) by (auto simp: attachment_rows_def)
  with assms(1) show ?thesis
    by (auto simp: hydrateMessages_def bind_e_def map_err_def sql_exec_def Let_def)
qed

lemma SyncChannel_ret:
  assumes "readable u c s"
  shows "\<exists>r. SyncChannel cfg u c a l s = (Inr r, s)"
proof -
  have f: "faults s = []" and mem: "0 < count_where (is_channel_member (tabs s) c u) (channel_members (tabs s))"
    using assms by (auto simp: readable_def count_where_pos_iff)
  have "\<exists>ms. ListAfterSeq c a n s = (Inr ms, s)" for n
    using assms hydrateMessages_ret [of s] f
    by (auto simp: readable_def ListAfterSeq_def bind_e_def map_err_def sql_select_def)
  from this [of "sync_limit cfg l + 1"] f mem show ?thesis
    by (auto simp: SyncChannel_def bind_e_def IsUserMember_def map_err_def sql_select_def Let_def)
qed

lemma sync_all_after:
  assumes cfg: "config_ok cfg" "cf_MaxSyncLimit cfg \<noteq> - 1"
    and s: "readable u c s" "log_ok (c, tabs s)"
    and k: "length (sync.after (c, tabs s) a) < k"
  shows "\<exists>xs. sync_all cfg u c l k a s = (Inr xs, s) \<and> map mg_key xs = map mg_key (sync.after (c, tabs s) a)"
  using k
proof (induction k arbitrary: a)
  case (Suc k)
  let ?n = "unat (sync_limit cfg l)" and ?x = "(c, tabs s)"
  have n: "0 < ?n" by (rule sync_limit_bounds(1) [OF cfg])
  obtain items nxt hasmore where run: "SyncChannel cfg u c a l s = (Inr (items, nxt, hasmore), s)"
    using SyncChannel_ret [OF s(1), of cfg a l] by (metis prod_cases3)
  from SyncChannel_Inr [OF cfg run] obtain rs where
    items: "items = map (add_attachments rs) (sync.fetch ?x a ?n)"
    and nxt: "nxt = sync.next_cursor a (sync.fetch ?x a ?n)"
    and hasmore: "hasmore \<longleftrightarrow> ?n < length (sync.fetch ?x a (Suc ?n))" by blast
  have keys: "map mg_key items = map mg_key (take ?n (sync.after ?x a))"
    by (simp add: items sync.fetch_take)
  show ?case
  proof (cases hasmore)
    case False
    then have "take ?n (sync.after ?x a) = sync.after ?x a" using hasmore by (simp add: sync.fetch_take)
    with False run keys show ?thesis by (simp add: bind_e_def)
  next
    case True
    then have ne: "sync.after ?x a \<noteq> []" using hasmore by (auto simp: sync.fetch_take)
    have rest: "sync.after ?x nxt = drop ?n (sync.after ?x a)"
      using sync.after_page [OF s(2) n ne] by (simp add: nxt)
    then have "length (sync.after ?x nxt) < k" using Suc.prems n ne by (cases "sync.after ?x a") auto
    from Suc.IH [OF this] obtain ys where
      ys: "sync_all cfg u c l k nxt s = (Inr ys, s)" "map mg_key ys = map mg_key (drop ?n (sync.after ?x a))"
      unfolding rest by blast
    have "map mg_key (items @ ys) = map mg_key (sync.after ?x a)"
      using keys ys(2) by (metis append_take_drop_id map_append)
    with True run ys(1) show ?thesis by (auto simp: bind_e_def)
  qed
qed simp

section \<open>Properties\<close>

lemma media_rest_ok:
  assumes "media_rest t' = media_rest t"
  shows "messages_ok coll t' = messages_ok coll t" "channels_ok t' = channels_ok t"
proof -
  note eqs = media_rest_eq [OF assms]
  show "messages_ok coll t' = messages_ok coll t" by (rule messages_ok_cong) (simp_all add: eqs)
  have "servers t' = servers t" "next_channel t' = next_channel t" "next_channel_member t' = next_channel_member t"
    using arg_cong [OF assms, of servers] arg_cong [OF assms, of next_channel] arg_cong [OF assms, of next_channel_member]
    by (simp_all add: media_rest_def)
  then show "channels_ok t' = channels_ok t" by (simp add: channels_ok_def eqs)
qed

text \<open>
  C8: a message is stored only when the sender is a member of the channel, may see it and
  has the permissions the message needs (in a broadcast channel the role of owner or
  administrator as well), and when the message obeys the configured limits. What is stored
  has the sender's number, and it is either the message that was stored before under the
  same client identifier or a new one with the next number of the channel.
\<close>

theorem send_authorised:
  assumes ok: "messages_ok (be_coll env) (tabs s)" "channels_ok (tabs s)"
    and run: "SendMessage cfg env u inp s = (Inr m, s')"
  shows "\<exists>c \<in> set (channels (tabs s)). \<exists>cm \<in> set (channel_members (tabs s)). \<exists>row \<in> set (messages (tabs s')).
    ch_id c = si_ChannelID inp \<and> cm_channel_id cm = si_ChannelID inp \<and> cm_user_id cm = u \<and> cm_can_view cm \<and>
    sendable cfg (ch_type c) (to_permission cm) inp \<and>
    mg_key m = msg_key row \<and> ms_sender_user_id row = u \<and> ms_channel_id row = si_ChannelID inp \<and>
    (row \<in> set (messages (tabs s)) \<or> ms_seq row = ch_message_seq c + 1)"
proof -
  from run obtain c cm atts s1 where
    c: "c \<in> set (channels (tabs s))" "ch_id c = si_ChannelID inp" and
    cm: "cm \<in> set (channel_members (tabs s))" "cm_channel_id cm = si_ChannelID inp" "cm_user_id cm = u"
      "cm_can_view cm" "sendable cfg (ch_type c) (to_permission cm) inp" and
    s1: "media_rest (tabs s1) = media_rest (tabs s)" and
    cr: "Create (be_coll env) \<lparr>cmi_ChannelID = si_ChannelID inp, cmi_SenderUserID = u,
       cmi_ClientMsgID = si_ClientMsgID inp, cmi_MessageType = inferMessageType inp,
       cmi_Text = TrimSpace (si_Text inp), cmi_AttachmentMedia = atts\<rparr> s1 = (Inr m, s')"
    by (rule SendMessage_Inr)
  have ok1: "messages_ok (be_coll env) (tabs s1)" "channels_ok (tabs s1)"
    using ok by (simp_all add: media_rest_ok [OF s1])
  let ?p = "is_client_message (be_coll env) (si_ChannelID inp) u (si_ClientMsgID inp)"
  obtain row where
    row: "row \<in> set (messages (tabs s'))" "mg_key m = msg_key row"
      "?p row" and
    new: "find ?p (messages (tabs s1)) = Some row \<and> tabs s' = tabs s1 \<or>
      (\<exists>c \<in> set (channels (tabs s1)). ch_id c = si_ChannelID inp \<and> ms_seq row = ch_message_seq c + 1 \<and>
         find ?p (messages (tabs s1)) = None)"
    by (rule Create_Inr [OF ok1 cr, unfolded create_message_input.simps])
  have "row \<in> set (messages (tabs s)) \<or> ms_seq row = ch_message_seq c + 1"
    using new
  proof (elim disjE bexE conjE)
    fix c' assume "c' \<in> set (channels (tabs s1))" "ch_id c' = si_ChannelID inp" "ms_seq row = ch_message_seq c' + 1"
    with channel_unique [OF ok(2), of c' c] c media_rest_eq(2) [OF s1] show ?thesis by auto
  qed (use media_rest_eq(1) [OF s1] in \<open>auto dest: find_SomeD\<close>)
  with c cm row show ?thesis by (auto simp: is_client_message_def)
qed

text \<open>
  C28: a page of a channel. A successful \<open>SyncChannel\<close> is for a member only; it returns
  messages of the channel that are not deleted and lie after the cursor, in strictly
  increasing order, and never skips one: every such message up to the new cursor is on the
  page. The page holds at most as many as the client asked for, the configured default when it
  asked for none, and never more than the configured maximum; it is that full whenever the
  flag is set. The flag tells exactly whether there is a message after the new cursor.
\<close>

theorem sync_page:
  assumes cfg: "config_ok cfg" "cf_MaxSyncLimit cfg \<noteq> - 1" and ok: "log_ok (c, tabs s)"
    and run: "SyncChannel cfg u c a l s = (Inr (items, nxt, hasmore), s')"
  shows "(\<exists>cm \<in> set (channel_members (tabs s)). is_channel_member (tabs s) c u cm) \<and>
    sorted_wrt (<) (map mg_Seq items) \<and>
    length items \<le> unat (min (if l = 0 then cf_DefaultSyncLimit cfg else l) (cf_MaxSyncLimit cfg)) \<and>
    (hasmore \<longrightarrow> length items = unat (min (if l = 0 then cf_DefaultSyncLimit cfg else l) (cf_MaxSyncLimit cfg))) \<and>
    mg_key ` set items = mg_key ` {x \<in> set (visible_log (c, tabs s)). a < mg_Seq x \<and> mg_Seq x \<le> nxt} \<and>
    (hasmore \<longleftrightarrow> (\<exists>x \<in> set (visible_log (c, tabs s)). a < mg_Seq x \<and> nxt < mg_Seq x))"
proof -
  let ?x = "(c, tabs s)" and ?n = "unat (sync_limit cfg l)"
  from SyncChannel_Inr [OF cfg run] obtain rs where
    items: "items = map (add_attachments rs) (sync.fetch ?x a ?n)" and nxt: "nxt = sync.next_cursor a (sync.fetch ?x a ?n)"
    and more: "hasmore \<longleftrightarrow> ?n < length (sync.fetch ?x a (Suc ?n))"
    and mem: "\<exists>cm \<in> set (channel_members (tabs s)). is_channel_member (tabs s) c u cm" by blast
  have n: "0 < ?n" using sync_limit_bounds [OF cfg, of l] by simp
  have lim: "sync_limit cfg l = min (if l = 0 then cf_DefaultSyncLimit cfg else l) (cf_MaxSyncLimit cfg)"
    unfolding sync_limit_def Let_def min_def by (simp add: not_le [symmetric])
  have strict: "sorted_wrt (<) (map mg_Seq (sync.fetch ?x a ?n))"
    using sync.after_strict [OF ok, of a] unfolding sync.fetch_take take_map [symmetric] by (rule sorted_wrt_take)
  have page: "set (sync.fetch ?x a ?n) = {x \<in> set (visible_log ?x). a < mg_Seq x \<and> mg_Seq x \<le> nxt}"
    unfolding nxt by (rule sync.set_fetch [OF ok n])
  have "mg_key ` set items = mg_key ` set (sync.fetch ?x a ?n)" by (simp add: items image_image)
  moreover have "length items \<le> ?n" "hasmore \<longrightarrow> length items = ?n"
    by (simp_all add: items sync.fetch_take more)
  moreover have "map mg_Seq items = map mg_Seq (sync.fetch ?x a ?n)" by (simp add: items add_attachments_def Let_def)
  moreover have "hasmore \<longleftrightarrow> (\<exists>x \<in> set (visible_log ?x). a < mg_Seq x \<and> nxt < mg_Seq x)"
    using sync.more_iff [OF ok n] more nxt by simp
  ultimately show ?thesis using mem strict page unfolding lim [symmetric] by simp
qed

text \<open>
  C7: a client that follows the cursor gets everything. When a member asks again from the
  returned cursor for as long as the flag is set, with one request more than the channel has
  messages at most, all requests succeed and the pages together are the messages of the
  channel after the first cursor: each once, in the order of their numbers.
\<close>

theorem sync_complete:
  assumes cfg: "config_ok cfg" "cf_MaxSyncLimit cfg \<noteq> - 1" and s: "readable u c s" "log_ok (c, tabs s)"
  shows "\<exists>xs. sync_all cfg u c l (Suc (length (visible_log (c, tabs s)))) a s = (Inr xs, s) \<and>
    map mg_key xs = map mg_key (sort_key mg_Seq (filter (\<lambda>x. a < mg_Seq x) (visible_log (c, tabs s))))"
proof -
  have "length (sync.after (c, tabs s) a) < Suc (length (visible_log (c, tabs s)))"
    by (simp add: sync.after_def le_imp_less_Suc)
  from sync_all_after [OF cfg s this, of l] show ?thesis unfolding sync.after_def .
qed

text \<open>
  C29: the delivery and read cursors never move back. Acknowledging or marking as read keeps
  every cursor at its value or raises it, and a successful request leaves the cursor of the
  user at the given number or above; somebody who is no member of the channel moves nothing.
\<close>

theorem cursors_monotone:
  assumes ack: "AckDelivered u c q s = (r1, s1)" and seen: "UpdateRead u c p s1 = (r2, s2)"
  shows "cursors_kept (tabs s) (tabs s1) \<and> cursors_kept (tabs s1) (tabs s2) \<and>
    (r1 = Inr () \<longrightarrow> (\<exists>r \<in> set (user_channel_reads (tabs s1)).
       rd_user_id r = u \<and> rd_channel_id r = c \<and> q \<le> rd_last_delivered_seq r)) \<and>
    (r2 = Inr () \<longrightarrow> (\<exists>r \<in> set (user_channel_reads (tabs s2)).
       rd_user_id r = u \<and> rd_channel_id r = c \<and> p \<le> rd_last_read_seq r)) \<and>
    (r1 = Inr () \<or> r2 = Inr () \<longrightarrow> (\<exists>cm \<in> set (channel_members (tabs s)). cm_channel_id cm = c \<and> cm_user_id cm = u))"
proof -
  have step: "tabs b = tabs a \<and> r \<noteq> Inr () \<or> r = Inr () \<and> upsert_cursor u c d k (now_ms a) (tabs a) = Inr ((), tabs b) \<and>
      joins_channel (tabs a) (\<lambda>c. True) c \<and>
      (\<exists>cm \<in> set (channel_members (tabs a)). cm_channel_id cm = c \<and> cm_user_id cm = u)"
    if "bind_e (IsUserMember c u) (\<lambda>member. if \<not> member then raise ErrForbidden
         else bind_e now (\<lambda>nw. map_err (wrap w) (sql_exec (upsert_cursor u c d k nw)))) a = (r, b)" for a b r d k w
    using that unfolding IsUserMember_def
    by (auto simp: bind_e_def map_err_def sql_select_def sql_exec_def now_def raise_def ret_def count_where_pos_iff
        is_channel_member_def joins_channel_def split: if_splits sum.splits prod.splits)
  note A = step [OF ack [unfolded AckDelivered_def UpsertDeliveredSeq_def]]
  note B = step [OF seen [unfolded UpdateRead_def UpsertReadSeq_def]]
  have refl: "cursors_kept t t" for t by (auto simp: cursors_kept_def)
  have kept: "cursors_kept (tabs s) (tabs s1)" "cursors_kept (tabs s1) (tabs s2)"
    using A B by (auto simp: refl dest: upsert_cursor_kept)
  have cm: "channel_members (tabs s1) = channel_members (tabs s)"
    using A arg_cong [OF upsert_cursor_frame, of _ _ _ _ _ _ _ _ channel_members] by auto
  have 1: "\<exists>r \<in> set (user_channel_reads (tabs s1)). rd_user_id r = u \<and> rd_channel_id r = c \<and> q \<le> rd_last_delivered_seq r"
    if "r1 = Inr ()" using A that upsert_cursor_reaches [of u c q 0 "now_ms s" "tabs s" _ "tabs s1"] by blast
  have 2: "\<exists>r \<in> set (user_channel_reads (tabs s2)). rd_user_id r = u \<and> rd_channel_id r = c \<and> p \<le> rd_last_read_seq r"
    if "r2 = Inr ()" using B that upsert_cursor_reaches [of u c 0 p "now_ms s1" "tabs s1" _ "tabs s2"] by blast
  have 3: "\<exists>cm \<in> set (channel_members (tabs s)). cm_channel_id cm = c \<and> cm_user_id cm = u"
    if "r1 = Inr () \<or> r2 = Inr ()" using that A B cm by auto
  show ?thesis using kept 1 2 3 by blast
qed

definition ex_send :: send_message_input where
  "ex_send = \<lparr>si_ChannelID = 1, si_ClientMsgID = ''client-9'', si_MessageType = TypeText, si_Text = ''hi'', si_Images = [],
     si_Files = []\<rparr>"

lemmas [run_simps] =
  SendMessage_def GetByChannelID_def joins_server_def GetPermission_def is_channel_member_def to_permission_def
  to_channel_def no_permission_def validateMessage_def inferMessageType_def resolveAttachments_def SyncChannel_def
  IsUserMember_def ListAfterSeq_def AckDelivered_def UpdateRead_def UpsertDeliveredSeq_def UpsertReadSeq_def
  upsert_cursor_def sync_limit_def

theorem send_authorised_witness:
  "\<exists>m s'. SendMessage defaults ex_blob_env 1 ex_send ex_store = (Inr m, s') \<and>
     (\<exists>row \<in> set (messages (tabs s')). mg_key m = msg_key row \<and> ms_sender_user_id row = 1)"
proof -
  have ok: "\<not> isl (fst (SendMessage defaults ex_blob_env 1 ex_send ex_store))"
    by (simp add: run_simps defaults_def ex_send_def ex_blob_env_def trim_simps ex_clock_text show_int_def ex_defs)
  have coll: "be_coll ex_blob_env = ex_coll" by (simp add: ex_blob_env_def)
  from send_authorised [OF ex_messages_ok [folded coll] ex_channels_ok(1) succeeds [OF ok]] succeeds [OF ok]
  show ?thesis by blast
qed

lemma ex_log_ok: "log_ok (1, tabs ex_store)"
proof -
  have "distinct (map u_id (users (tabs ex_store)))" by (simp add: ex_defs)
  with ex_messages_ok show ?thesis by (auto simp: log_ok_def)
qed

lemma ex_config_ok: "config_ok defaults"
  by (simp add: config_ok_def defaults_def filepath_Join_def Let_def)

lemma ex_readable: "readable 1 1 ex_store"
  by (simp add: readable_def is_channel_member_def ex_defs)

theorem sync_page_witness:
  "\<exists>items nxt more s'. SyncChannel defaults 1 1 1 50 ex_store = (Inr (items, nxt, more), s') \<and>
     sorted_wrt (<) (map mg_Seq items) \<and> length items \<le> 50"
proof -
  have "\<not> isl (fst (SyncChannel defaults 1 1 1 50 ex_store))"
    by (simp add: run_simps defaults_def ex_defs)
  note run = succeeds [OF this]
  obtain items nxt more where x: "projr (fst (SyncChannel defaults 1 1 1 50 ex_store)) = (items, nxt, more)"
    by (metis prod_cases3)
  have max: "cf_MaxSyncLimit defaults \<noteq> - 1" "min 50 (cf_MaxSyncLimit defaults) = 50" by (simp_all add: defaults_def)
  from sync_page [OF ex_config_ok max(1) ex_log_ok run [unfolded x]] max(2)
  have "sorted_wrt (<) (map mg_Seq items) \<and> length items \<le> 50" by simp
  with run x show ?thesis by metis
qed

theorem sync_complete_witness:
  "\<exists>xs. sync_all defaults 1 1 50 3 0 ex_store = (Inr xs, ex_store) \<and> map (\<lambda>(i, m, c, q, u, k). q) (map mg_key xs) = [1, 2]"
proof -
  have "cf_MaxSyncLimit defaults \<noteq> - 1" by (simp add: defaults_def)
  note all = sync_complete [OF ex_config_ok this ex_readable ex_log_ok, of 50 0]
  have "length (visible_log (1, tabs ex_store)) = 2" by (simp add: visible_log_def run_simps ex_defs)
  moreover have "map (\<lambda>(i, m, c, q, u, k). q) (map mg_key (sort_key mg_Seq
      (filter (\<lambda>x. 0 < mg_Seq x) (visible_log (1, tabs ex_store))))) = [1, 2]"
    by (simp add: visible_log_def mg_key_def run_simps ex_defs)
  ultimately show ?thesis using all by (auto simp: numeral_3_eq_3 numeral_2_eq_2 simp del: sync_all.simps)
qed

theorem cursors_monotone_witness:
  "\<exists>s1 s2. AckDelivered 1 1 2 ex_store = (Inr (), s1) \<and> UpdateRead 1 1 1 s1 = (Inr (), s2) \<and>
     (\<exists>r \<in> set (user_channel_reads (tabs s2)). rd_user_id r = 1 \<and> 1 \<le> rd_last_read_seq r)"
proof -
  let ?r1 = "AckDelivered 1 1 2 ex_store"
  have ok: "\<not> isl (fst ?r1)" "\<not> isl (fst (UpdateRead 1 1 1 (snd ?r1)))" by (simp_all add: run_simps ex_defs)
  from cursors_monotone [OF succeeds [OF ok(1)] succeeds [OF ok(2)]] succeeds [OF ok(1)] succeeds [OF ok(2)]
  show ?thesis by (metis (full_types) old.unit.exhaust)
qed

end
