(* ===== verification/Protocol.thy ===== *)
theory Protocol
  imports Example_Store
begin

text \<open>
  The messages of \<open>proto/meshserver/session/v1/session.proto\<close>. An open proto3 enumeration is
  a number with named values, as in the generated Go code. The protobuf encoder and decoder
  are arguments of the definitions that use them (\<open>pb\<close>): one decoder per request type and
  one encoder for everything the server sends.
\<close>

section \<open>Enumerations\<close>

type_synonym enum = int

abbreviation (input) MsgType_HELLO :: enum where "MsgType_HELLO \<equiv> 1"
abbreviation (input) MsgType_AUTH_CHALLENGE :: enum where "MsgType_AUTH_CHALLENGE \<equiv> 2"
abbreviation (input) MsgType_AUTH_PROVE :: enum where "MsgType_AUTH_PROVE \<equiv> 3"
abbreviation (input) MsgType_AUTH_RESULT :: enum where "MsgType_AUTH_RESULT \<equiv> 4"
abbreviation (input) MsgType_PING :: enum where "MsgType_PING \<equiv> 10"
abbreviation (input) MsgType_PONG :: enum where "MsgType_PONG \<equiv> 11"
abbreviation (input) MsgType_ERROR :: enum where "MsgType_ERROR \<equiv> 12"
abbreviation (input) MsgType_LIST_SPACES_REQ :: enum where "MsgType_LIST_SPACES_REQ \<equiv> 20"
abbreviation (input) MsgType_LIST_SPACES_RESP :: enum where "MsgType_LIST_SPACES_RESP \<equiv> 21"
abbreviation (input) MsgType_LIST_CHANNELS_REQ :: enum where "MsgType_LIST_CHANNELS_REQ \<equiv> 22"
abbreviation (input) MsgType_LIST_CHANNELS_RESP :: enum where "MsgType_LIST_CHANNELS_RESP \<equiv> 23"
abbreviation (input) MsgType_SUBSCRIBE_CHANNEL_REQ :: enum where "MsgType_SUBSCRIBE_CHANNEL_REQ \<equiv> 24"
abbreviation (input) MsgType_SUBSCRIBE_CHANNEL_RESP :: enum where "MsgType_SUBSCRIBE_CHANNEL_RESP \<equiv> 25"
abbreviation (input) MsgType_UNSUBSCRIBE_CHANNEL_REQ :: enum where "MsgType_UNSUBSCRIBE_CHANNEL_REQ \<equiv> 26"
abbreviation (input) MsgType_UNSUBSCRIBE_CHANNEL_RESP :: enum where "MsgType_UNSUBSCRIBE_CHANNEL_RESP \<equiv> 27"
abbreviation (input) MsgType_CREATE_GROUP_REQ :: enum where "MsgType_CREATE_GROUP_REQ \<equiv> 28"
abbreviation (input) MsgType_CREATE_GROUP_RESP :: enum where "MsgType_CREATE_GROUP_RESP \<equiv> 29"
abbreviation (input) MsgType_SEND_MESSAGE_REQ :: enum where "MsgType_SEND_MESSAGE_REQ \<equiv> 30"
abbreviation (input) MsgType_SEND_MESSAGE_ACK :: enum where "MsgType_SEND_MESSAGE_ACK \<equiv> 31"
abbreviation (input) MsgType_MESSAGE_EVENT :: enum where "MsgType_MESSAGE_EVENT \<equiv> 32"
abbreviation (input) MsgType_CHANNEL_DELIVER_ACK :: enum where "MsgType_CHANNEL_DELIVER_ACK \<equiv> 33"
abbreviation (input) MsgType_CHANNEL_READ_UPDATE :: enum where "MsgType_CHANNEL_READ_UPDATE \<equiv> 34"
abbreviation (input) MsgType_SYNC_CHANNEL_REQ :: enum where "MsgType_SYNC_CHANNEL_REQ \<equiv> 35"
abbreviation (input) MsgType_SYNC_CHANNEL_RESP :: enum where "MsgType_SYNC_CHANNEL_RESP \<equiv> 36"
abbreviation (input) MsgType_CREATE_CHANNEL_REQ :: enum where "MsgType_CREATE_CHANNEL_REQ \<equiv> 37"
abbreviation (input) MsgType_CREATE_CHANNEL_RESP :: enum where "MsgType_CREATE_CHANNEL_RESP \<equiv> 38"
abbreviation (input) MsgType_ADMIN_SET_SPACE_MEMBER_ROLE_REQ :: enum where "MsgType_ADMIN_SET_SPACE_MEMBER_ROLE_REQ \<equiv> 39"
abbreviation (input) MsgType_ADMIN_SET_SPACE_MEMBER_ROLE_RESP :: enum where "MsgType_ADMIN_SET_SPACE_MEMBER_ROLE_RESP \<equiv> 40"
abbreviation (input) MsgType_ADMIN_SET_SPACE_CHANNEL_CREATION_REQ :: enum where "MsgType_ADMIN_SET_SPACE_CHANNEL_CREATION_REQ \<equiv> 41"
abbreviation (input) MsgType_ADMIN_SET_SPACE_CHANNEL_CREATION_RESP :: enum where "MsgType_ADMIN_SET_SPACE_CHANNEL_CREATION_RESP \<equiv> 42"
abbreviation (input) MsgType_JOIN_SPACE_REQ :: enum where "MsgType_JOIN_SPACE_REQ \<equiv> 43"
abbreviation (input) MsgType_JOIN_SPACE_RESP :: enum where "MsgType_JOIN_SPACE_RESP \<equiv> 44"
abbreviation (input) MsgType_INVITE_SPACE_MEMBER_REQ :: enum where "MsgType_INVITE_SPACE_MEMBER_REQ \<equiv> 45"
abbreviation (input) MsgType_INVITE_SPACE_MEMBER_RESP :: enum where "MsgType_INVITE_SPACE_MEMBER_RESP \<equiv> 46"
abbreviation (input) MsgType_KICK_SPACE_MEMBER_REQ :: enum where "MsgType_KICK_SPACE_MEMBER_REQ \<equiv> 47"
abbreviation (input) MsgType_KICK_SPACE_MEMBER_RESP :: enum where "MsgType_KICK_SPACE_MEMBER_RESP \<equiv> 48"
abbreviation (input) MsgType_BAN_SPACE_MEMBER_REQ :: enum where "MsgType_BAN_SPACE_MEMBER_REQ \<equiv> 49"
abbreviation (input) MsgType_BAN_SPACE_MEMBER_RESP :: enum where "MsgType_BAN_SPACE_MEMBER_RESP \<equiv> 50"
abbreviation (input) MsgType_LIST_SPACE_MEMBERS_REQ :: enum where "MsgType_LIST_SPACE_MEMBERS_REQ \<equiv> 51"
abbreviation (input) MsgType_LIST_SPACE_MEMBERS_RESP :: enum where "MsgType_LIST_SPACE_MEMBERS_RESP \<equiv> 52"
abbreviation (input) MsgType_UNBAN_SPACE_MEMBER_REQ :: enum where "MsgType_UNBAN_SPACE_MEMBER_REQ \<equiv> 53"
abbreviation (input) MsgType_UNBAN_SPACE_MEMBER_RESP :: enum where "MsgType_UNBAN_SPACE_MEMBER_RESP \<equiv> 54"
abbreviation (input) MsgType_CREATE_SPACE_REQ :: enum where "MsgType_CREATE_SPACE_REQ \<equiv> 57"
abbreviation (input) MsgType_CREATE_SPACE_RESP :: enum where "MsgType_CREATE_SPACE_RESP \<equiv> 58"
abbreviation (input) MsgType_GET_CREATE_SPACE_PERMISSIONS_REQ :: enum where "MsgType_GET_CREATE_SPACE_PERMISSIONS_REQ \<equiv> 59"
abbreviation (input) MsgType_GET_CREATE_SPACE_PERMISSIONS_RESP :: enum where "MsgType_GET_CREATE_SPACE_PERMISSIONS_RESP \<equiv> 60"
abbreviation (input) MsgType_GET_CREATE_GROUP_PERMISSIONS_REQ :: enum where "MsgType_GET_CREATE_GROUP_PERMISSIONS_REQ \<equiv> 61"
abbreviation (input) MsgType_GET_CREATE_GROUP_PERMISSIONS_RESP :: enum where "MsgType_GET_CREATE_GROUP_PERMISSIONS_RESP \<equiv> 62"
abbreviation (input) MsgType_GET_MEDIA_REQ :: enum where "MsgType_GET_MEDIA_REQ \<equiv> 63"
abbreviation (input) MsgType_GET_MEDIA_RESP :: enum where "MsgType_GET_MEDIA_RESP \<equiv> 64"
abbreviation (input) MsgType_ADMIN_SET_GROUP_AUTO_DELETE_REQ :: enum where "MsgType_ADMIN_SET_GROUP_AUTO_DELETE_REQ \<equiv> 65"
abbreviation (input) MsgType_ADMIN_SET_GROUP_AUTO_DELETE_RESP :: enum where "MsgType_ADMIN_SET_GROUP_AUTO_DELETE_RESP \<equiv> 66"
abbreviation (input) MsgType_OPEN_DIRECT_CONVERSATION_REQ :: enum where "MsgType_OPEN_DIRECT_CONVERSATION_REQ \<equiv> 67"
abbreviation (input) MsgType_OPEN_DIRECT_CONVERSATION_RESP :: enum where "MsgType_OPEN_DIRECT_CONVERSATION_RESP \<equiv> 68"
abbreviation (input) MsgType_LIST_DIRECT_CONVERSATIONS_REQ :: enum where "MsgType_LIST_DIRECT_CONVERSATIONS_REQ \<equiv> 69"
abbreviation (input) MsgType_LIST_DIRECT_CONVERSATIONS_RESP :: enum where "MsgType_LIST_DIRECT_CONVERSATIONS_RESP \<equiv> 70"
abbreviation (input) MsgType_SEND_DIRECT_MESSAGE_REQ :: enum where "MsgType_SEND_DIRECT_MESSAGE_REQ \<equiv> 71"
abbreviation (input) MsgType_SEND_DIRECT_MESSAGE_ACK :: enum where "MsgType_SEND_DIRECT_MESSAGE_ACK \<equiv> 72"
abbreviation (input) MsgType_DIRECT_MESSAGE_EVENT :: enum where "MsgType_DIRECT_MESSAGE_EVENT \<equiv> 73"
abbreviation (input) MsgType_ACK_DIRECT_MESSAGE_REQ :: enum where "MsgType_ACK_DIRECT_MESSAGE_REQ \<equiv> 74"
abbreviation (input) MsgType_ACK_DIRECT_MESSAGE_RESP :: enum where "MsgType_ACK_DIRECT_MESSAGE_RESP \<equiv> 75"
abbreviation (input) MsgType_DIRECT_PEER_ACK_EVENT :: enum where "MsgType_DIRECT_PEER_ACK_EVENT \<equiv> 76"
abbreviation (input) MsgType_SYNC_DIRECT_MESSAGES_REQ :: enum where "MsgType_SYNC_DIRECT_MESSAGES_REQ \<equiv> 77"
abbreviation (input) MsgType_SYNC_DIRECT_MESSAGES_RESP :: enum where "MsgType_SYNC_DIRECT_MESSAGES_RESP \<equiv> 78"

abbreviation (input) Visibility_PUBLIC :: enum where "Visibility_PUBLIC \<equiv> 1"
abbreviation (input) Visibility_PRIVATE :: enum where "Visibility_PRIVATE \<equiv> 2"
abbreviation (input) ChannelType_GROUP :: enum where "ChannelType_GROUP \<equiv> 1"
abbreviation (input) ChannelType_BROADCAST :: enum where "ChannelType_BROADCAST \<equiv> 2"
abbreviation (input) MessageType_TEXT :: enum where "MessageType_TEXT \<equiv> 1"
abbreviation (input) MessageType_IMAGE :: enum where "MessageType_IMAGE \<equiv> 2"
abbreviation (input) MessageType_FILE :: enum where "MessageType_FILE \<equiv> 3"
abbreviation (input) MessageType_SYSTEM :: enum where "MessageType_SYSTEM \<equiv> 4"
abbreviation (input) MemberRole_UNSPECIFIED :: enum where "MemberRole_UNSPECIFIED \<equiv> 0"
abbreviation (input) MemberRole_OWNER :: enum where "MemberRole_OWNER \<equiv> 1"
abbreviation (input) MemberRole_ADMIN :: enum where "MemberRole_ADMIN \<equiv> 2"
abbreviation (input) MemberRole_MEMBER :: enum where "MemberRole_MEMBER \<equiv> 3"
abbreviation (input) MemberRole_SUBSCRIBER :: enum where "MemberRole_SUBSCRIBER \<equiv> 4"

section \<open>Messages\<close>

record envelope =
  ev_Version :: uint32
  ev_MsgType :: enum
  ev_RequestId :: string
  ev_TimestampMs :: uint64
  ev_Body :: "byte list"

subsection \<open>Requests\<close>

record hello =
  he_ClientPeerId :: string
  he_ClientAgent :: string
  he_ProtocolVersion :: string

record auth_prove =
  ap_ClientPeerId :: string
  ap_Nonce :: "byte list"
  ap_IssuedAtMs :: uint64
  ap_ExpiresAtMs :: uint64
  ap_Signature :: "byte list"
  ap_PublicKey :: "byte list"

record list_space_members_req =
  lm_SpaceId :: uint32
  lm_AfterMemberId :: uint64
  lm_Limit :: uint32

record create_space_req =
  cq_Name :: string
  cq_Description :: string
  cq_Visibility :: enum
  cq_AllowChannelCreation :: bool

text \<open>\<open>CreateGroupReq\<close> and \<open>CreateChannelReq\<close> have the same fields.\<close>

record create_channel_req =
  cr_SpaceId :: uint32
  cr_Name :: string
  cr_Description :: string
  cr_Visibility :: enum
  cr_SlowModeSeconds :: uint32

record set_role_req =
  sr_SpaceId :: uint32
  sr_TargetUserId :: string
  sr_Role :: enum

record media_image =
  mi_MediaId :: string
  mi_BlobId :: string
  mi_Sha256 :: string
  mi_Url :: string
  mi_Width :: uint32
  mi_Height :: uint32
  mi_MimeType :: string
  mi_Size :: uint64
  mi_InlineData :: "byte list"
  mi_OriginalName :: string

record media_file =
  mf_MediaId :: string
  mf_BlobId :: string
  mf_Sha256 :: string
  mf_FileName :: string
  mf_Url :: string
  mf_MimeType :: string
  mf_Size :: uint64
  mf_InlineData :: "byte list"
  mf_FileCid :: string

record message_content =
  mc_Images :: "media_image list"
  mc_Files :: "media_file list"
  mc_Text :: string

record send_message_req =
  sq_ChannelId :: uint32
  sq_ClientMsgId :: string
  sq_MessageType :: enum
  sq_Content :: "message_content option"

record sync_req =
  sy_ChannelId :: uint32
  sy_AfterSeq :: uint64
  sy_Limit :: uint32

record send_direct_req =
  sd_ConversationId :: string
  sd_ToUserId :: string
  sd_ClientMsgId :: string
  sd_MessageType :: enum
  sd_Text :: string

record sync_direct_req =
  sx_ConversationId :: string
  sx_AfterSeq :: uint64
  sx_Limit :: uint32

subsection \<open>Responses and events\<close>

record space_summary =
  ss_SpaceId :: uint32
  ss_Name :: string
  ss_AvatarUrl :: string
  ss_Description :: string
  ss_Visibility :: enum
  ss_MemberCount :: uint32
  ss_AllowChannelCreation :: bool

record channel_summary =
  cy_ChannelId :: uint32
  cy_SpaceId :: uint32
  cy_Type :: enum
  cy_Name :: string
  cy_Description :: string
  cy_Visibility :: enum
  cy_SlowModeSeconds :: uint32
  cy_AutoDeleteAfterSeconds :: uint32
  cy_LastSeq :: uint64
  cy_MemberCount :: uint32
  cy_CanView :: bool
  cy_CanSendMessage :: bool
  cy_CanSendImage :: bool
  cy_CanSendFile :: bool

record space_member_summary =
  my_MemberId :: uint64
  my_UserId :: string
  my_DisplayName :: string
  my_AvatarUrl :: string
  my_Role :: enum
  my_Nickname :: string
  my_IsMuted :: bool
  my_IsBanned :: bool
  my_JoinedAtMs :: uint64
  my_LastSeenAtMs :: uint64

record list_space_members_resp =
  lr_SpaceId :: uint32
  lr_Members :: "space_member_summary list"
  lr_NextAfterMemberId :: uint64
  lr_HasMore :: bool

record message_event =
  mv_ChannelId :: uint32
  mv_MessageId :: string
  mv_Seq :: uint64
  mv_SenderUserId :: string
  mv_MessageType :: enum
  mv_Content :: message_content
  mv_CreatedAtMs :: uint64

record send_message_ack =
  sa_Ok :: bool
  sa_ChannelId :: uint32
  sa_ClientMsgId :: string
  sa_MessageId :: string
  sa_Seq :: uint64
  sa_ServerTimeMs :: uint64
  sa_Message :: string

record direct_summary =
  ds_ConversationId :: string
  ds_PeerUserId :: string
  ds_PeerDisplayName :: string
  ds_LastSeq :: uint64
  ds_LastMessageAtMs :: uint64

record open_direct_resp =
  od_Ok :: bool
  od_ConversationId :: string
  od_PeerUserId :: string
  od_LastSeq :: uint64
  od_Message :: string

record send_direct_ack =
  da_Ok :: bool
  da_ConversationId :: string
  da_ClientMsgId :: string
  da_MessageId :: string
  da_Seq :: uint64
  da_ServerTimeMs :: uint64
  da_Message :: string

record direct_message_event =
  de_ConversationId :: string
  de_MessageId :: string
  de_Seq :: uint64
  de_FromUserId :: string
  de_ToUserId :: string
  de_MessageType :: enum
  de_Text :: string
  de_CreatedAtMs :: uint64

record direct_peer_ack =
  dp_ConversationId :: string
  dp_MessageId :: string
  dp_AckedAtMs :: uint64
  dp_PeerUserId :: string

record sync_direct_resp =
  sz_ConversationId :: string
  sz_Messages :: "direct_message_event list"
  sz_NextAfterSeq :: uint64
  sz_HasMore :: bool

text \<open>
  Everything the server sends, one constructor per message type; the arguments of the short
  messages are their fields in the order of the proto file.
\<close>

datatype body =
    AuthChallengeMsg string "byte list" uint64 uint64 string
  | AuthResultMsg bool string string string string "space_summary list"
  | PongMsg uint64
  | ErrorMsg uint32 string
  | ListSpacesResp "space_summary list"
  | ListChannelsResp uint32 "channel_summary list"
  | ListSpaceMembersResp list_space_members_resp
  | CreateSpaceResp bool uint32 space_summary string
  | GetCreateSpacePermissionsResp bool bool string
  | GetCreateGroupPermissionsResp bool uint32 space_summary enum bool string
  | SubscribeChannelResp bool uint32 uint64 string
  | UnsubscribeChannelResp bool uint32
  | AdminSetSpaceMemberRoleResp bool uint32 string enum string
  | AdminSetSpaceChannelCreationResp bool uint32 bool string
  | AdminSetGroupAutoDeleteResp bool uint32 uint32 channel_summary string
  | JoinSpaceResp bool uint32 space_summary string
  | InviteSpaceMemberResp bool uint32 string space_summary string
  | KickSpaceMemberResp bool uint32 string space_summary string
  | BanSpaceMemberResp bool uint32 string space_summary string
  | UnbanSpaceMemberResp bool uint32 string space_summary string
  | CreateGroupResp bool uint32 uint32 channel_summary string
  | CreateChannelResp bool uint32 uint32 channel_summary string
  | SendMessageAck send_message_ack
  | MessageEvent message_event
  | SyncChannelResp uint32 "message_event list" uint64 bool
  | OpenDirectConversationResp open_direct_resp
  | ListDirectConversationsResp "direct_summary list"
  | SendDirectMessageAck send_direct_ack
  | DirectMessageEvent direct_message_event
  | AckDirectMessageResp bool string string
  | DirectPeerAckEvent direct_peer_ack
  | SyncDirectMessagesResp sync_direct_resp
  | GetMediaResp bool string media_file string

text \<open>The protobuf library: \<open>proto.Marshal\<close> and \<open>proto.Unmarshal\<close> at each message type.\<close>

record pb =
  pb_Marshal :: "body \<Rightarrow> err + byte list"
  pb_MarshalEnvelope :: "envelope \<Rightarrow> err + byte list"
  pb_Envelope :: "byte list \<Rightarrow> err + envelope"
  pb_Hello :: "byte list \<Rightarrow> err + hello"
  pb_AuthProve :: "byte list \<Rightarrow> err + auth_prove"
  pb_Ping :: "byte list \<Rightarrow> err + uint64"
  pb_ListChannelsReq :: "byte list \<Rightarrow> err + uint32"
  pb_ListSpaceMembersReq :: "byte list \<Rightarrow> err + list_space_members_req"
  pb_CreateSpaceReq :: "byte list \<Rightarrow> err + create_space_req"
  pb_GetCreateSpacePermissionsReq :: "byte list \<Rightarrow> err + unit"
  pb_GetCreateGroupPermissionsReq :: "byte list \<Rightarrow> err + uint32"
  pb_SubscribeChannelReq :: "byte list \<Rightarrow> err + uint32"
  pb_UnsubscribeChannelReq :: "byte list \<Rightarrow> err + uint32"
  pb_AdminSetSpaceMemberRoleReq :: "byte list \<Rightarrow> err + set_role_req"
  pb_AdminSetSpaceChannelCreationReq :: "byte list \<Rightarrow> err + uint32 \<times> bool"
  pb_AdminSetGroupAutoDeleteReq :: "byte list \<Rightarrow> err + uint32 \<times> uint32"
  pb_JoinSpaceReq :: "byte list \<Rightarrow> err + uint32"
  pb_InviteSpaceMemberReq :: "byte list \<Rightarrow> err + uint32 \<times> string"
  pb_KickSpaceMemberReq :: "byte list \<Rightarrow> err + uint32 \<times> string"
  pb_BanSpaceMemberReq :: "byte list \<Rightarrow> err + uint32 \<times> string"
  pb_UnbanSpaceMemberReq :: "byte list \<Rightarrow> err + uint32 \<times> string"
  pb_CreateGroupReq :: "byte list \<Rightarrow> err + create_channel_req"
  pb_CreateChannelReq :: "byte list \<Rightarrow> err + create_channel_req"
  pb_SendMessageReq :: "byte list \<Rightarrow> err + send_message_req"
  pb_ChannelDeliverAck :: "byte list \<Rightarrow> err + uint32 \<times> uint64"
  pb_ChannelReadUpdate :: "byte list \<Rightarrow> err + uint32 \<times> uint64"
  pb_SyncChannelReq :: "byte list \<Rightarrow> err + sync_req"
  pb_OpenDirectConversationReq :: "byte list \<Rightarrow> err + string"
  pb_ListDirectConversationsReq :: "byte list \<Rightarrow> err + unit"
  pb_SendDirectMessageReq :: "byte list \<Rightarrow> err + send_direct_req"
  pb_AckDirectMessageReq :: "byte list \<Rightarrow> err + string"
  pb_SyncDirectMessagesReq :: "byte list \<Rightarrow> err + sync_direct_req"
  pb_GetMediaReq :: "byte list \<Rightarrow> err + string"

end
