(* ===== verification/Direct_Messaging.thy ===== *)
theory Direct_Messaging
  imports Config Paging Store_Direct Protocol
begin

text \<open>
  The direct-messaging service \<open>internal/service/direct_chat.go\<close>: opening and listing
  conversations, sending a text to the other participant, acknowledging and synchronising
  what is still unacknowledged. The lemmas show that only participants get at a conversation,
  that a message is stored once for each client identifier and announced only when it is new,
  that an acknowledgement is announced once, and that a recipient who follows the cursor sees
  every pending message.
\<close>

section \<open>Definitions\<close>

definition messageTypeToProto :: "message_type \<Rightarrow> enum" where
  "messageTypeToProto t =
     (if t = TypeImage then MessageType_IMAGE else if t = TypeFile then MessageType_FILE
      else if t = TypeSystem then MessageType_SYSTEM else MessageType_TEXT)"

definition protoToMessageType :: "enum \<Rightarrow> message_type" where
  "protoToMessageType t =
     (if t = MessageType_IMAGE then TypeImage else if t = MessageType_FILE then TypeFile
      else if t = MessageType_SYSTEM then TypeSystem else TypeText)"

definition otherParticipant :: "direct_conversation \<Rightarrow> uint64 \<Rightarrow> uint64" where
  "otherParticipant conv self = (if dv_UserLowID conv = self then dv_UserHighID conv else dv_UserLowID conv)"

definition OpenConversation :: "collation \<Rightarrow> uint64 \<Rightarrow> string \<Rightarrow> (store, err, open_direct_resp) em" where
  "OpenConversation coll userID peerUserID =
     (let peer = TrimSpace peerUserID in
      if peer = [] then raise ErrInvalidMessage
      else bind_e (GetByUserID coll peer) (\<lambda>u.
        if us_ID u = userID then raise ErrInvalidMessage
        else bind_e (GetOrCreateConversation coll userID (us_ID u)) (\<lambda>conv.
          ret \<lparr>od_Ok = True, od_ConversationId = dv_ConversationID conv, od_PeerUserId = us_UserID u,
               od_LastSeq = dv_LastSeq conv, od_Message = ''ok''\<rparr>)))"

definition ListConversations :: "uint64 \<Rightarrow> (store, err, direct_summary list) em" where
  "ListConversations userID =
     bind_e (ListConversationsForUser userID) (\<lambda>items.
     ret (map (\<lambda>it. \<lparr>ds_ConversationId = dl_ConversationID it, ds_PeerUserId = dl_PeerUserID it,
        ds_PeerDisplayName = dl_PeerDisplayName it, ds_LastSeq = dl_LastSeq it,
        ds_LastMessageAtMs = dl_LastMessageAtMs it\<rparr>) items))"

text \<open>The conversation a message goes to, and the identifier of its recipient.\<close>

definition direct_target :: "collation \<Rightarrow> uint64 \<Rightarrow> send_direct_req \<Rightarrow> (store, err, direct_conversation \<times> uint64) em" where
  "direct_target coll senderUserID req =
     (let cid = TrimSpace (sd_ConversationId req) in
      if cid \<noteq> [] then
        bind_e (GetConversationByExternalID coll cid) (\<lambda>c.
        if senderUserID \<noteq> dv_UserLowID c \<and> senderUserID \<noteq> dv_UserHighID c then raise ErrForbidden
        else ret (c, otherParticipant c senderUserID))
      else
        let to = TrimSpace (sd_ToUserId req) in
        if to = [] then raise ErrInvalidMessage
        else bind_e (GetByUserID coll to) (\<lambda>u.
          bind_e (GetOrCreateConversation coll senderUserID (us_ID u)) (\<lambda>conv.
          ret (conv, us_ID u))))"

text \<open>\<open>if errors.Is(err, ErrDirectChatForbidden) { return ErrForbidden }\<close>.\<close>

definition forbid :: "err \<Rightarrow> err" where
  "forbid e = (if errors_is e ErrDirectChatForbidden then ErrForbidden else e)"

definition direct_event :: "direct_message \<Rightarrow> direct_message_event" where
  "direct_event m = \<lparr>de_ConversationId = dx_ConversationID m, de_MessageId = dx_MessageID m, de_Seq = dx_Seq m,
     de_FromUserId = dx_SenderExternalID m, de_ToUserId = dx_RecipientExternalID m,
     de_MessageType = messageTypeToProto (dx_MessageType m), de_Text = dx_Text m,
     de_CreatedAtMs = dx_CreatedAtMs m\<rparr>"

text \<open>The acknowledgement, the event for the recipient when the message is new, and the recipient.\<close>

definition SendDirectMessage :: "config \<Rightarrow> collation \<Rightarrow> uint64 \<Rightarrow> send_direct_req
    \<Rightarrow> (store, err, send_direct_ack \<times> direct_message_event option \<times> uint64) em" where
  "SendDirectMessage cfg coll senderUserID req =
     (let clientMsgID = TrimSpace (sd_ClientMsgId req); text = TrimSpace (sd_Text req);
          mt = protoToMessageType (sd_MessageType req) in
      if clientMsgID = [] then raise ErrInvalidMessage
      else if text = [] then raise ErrInvalidMessage
      else if 0 < cf_MaxTextLen cfg \<and> cf_MaxTextLen cfg < int (rune_count text) then raise ErrInvalidMessage
      else if mt \<noteq> TypeText then raise ErrInvalidMessage
      else bind_e (direct_target coll senderUserID req) (\<lambda>(conv, recipientID).
        handle_e (GetDirectMessageByClientMsgID coll (dv_ConversationID conv) senderUserID clientMsgID)
          (\<lambda>e. if \<not> errors_is e ErrNotFound then raise e
             else bind_e (map_err forbid (CreateDirectMessage coll
                 \<lparr>cdi_ConversationID = dv_ConversationID conv, cdi_SenderUserID = senderUserID,
                  cdi_RecipientUserID = recipientID, cdi_ClientMsgID = clientMsgID,
                  cdi_MessageType = mt, cdi_Text = text\<rparr>)) (\<lambda>msg.
               bind_e now (\<lambda>nw.
               ret (\<lparr>da_Ok = True, da_ConversationId = dv_ConversationID conv, da_ClientMsgId = clientMsgID,
                     da_MessageId = dx_MessageID msg, da_Seq = dx_Seq msg, da_ServerTimeMs = of_int nw,
                     da_Message = ''stored''\<rparr>, Some (direct_event msg), recipientID))))
          (\<lambda>existing. bind_e now (\<lambda>nw.
             ret (\<lparr>da_Ok = True, da_ConversationId = dx_ConversationID existing, da_ClientMsgId = clientMsgID,
                   da_MessageId = dx_MessageID existing, da_Seq = dx_Seq existing, da_ServerTimeMs = of_int nw,
                   da_Message = ''stored''\<rparr>, None, 0)))))"

text \<open>The acknowledged identifier, the event for the sender when this call did it, and the sender.\<close>

definition svc_AckDirectMessage :: "collation \<Rightarrow> uint64 \<Rightarrow> string
    \<Rightarrow> (store, err, string \<times> direct_peer_ack option \<times> uint64) em" where
  "svc_AckDirectMessage coll recipientUserID messageId =
     (let mid = TrimSpace messageId in
      if mid = [] then raise ErrInvalidMessage
      else bind_e now (\<lambda>nw.
        bind_e (map_err forbid (AckDirectMessage coll mid recipientUserID (of_int nw))) (\<lambda>(already, senderUID, convID).
        bind_e (GetByID recipientUserID) (\<lambda>recv.
        if already then ret (mid, None, 0)
        else ret (mid, Some \<lparr>dp_ConversationId = convID, dp_MessageId = mid, dp_AckedAtMs = of_int nw,
                dp_PeerUserId = us_UserID recv\<rparr>, senderUID)))))"

definition SyncDirectMessages :: "collation \<Rightarrow> uint64 \<Rightarrow> sync_direct_req \<Rightarrow> (store, err, sync_direct_resp) em" where
  "SyncDirectMessages coll userID req =
     (let cid = TrimSpace (sx_ConversationId req) in
      if cid = [] then raise ErrInvalidMessage
      else bind_e (GetConversationByExternalID coll cid) (\<lambda>conv.
        if userID \<noteq> dv_UserLowID conv \<and> userID \<noteq> dv_UserHighID conv then raise ErrForbidden
        else
          let limit = (if sx_Limit req = 0 then 50 else sx_Limit req) in
          bind_e (ListPendingDirectMessages coll cid userID (sx_AfterSeq req) limit) (\<lambda>(items, nextSeq, hasMore).
          ret \<lparr>sz_ConversationId = cid, sz_Messages = map direct_event items, sz_NextAfterSeq = nextSeq,
               sz_HasMore = hasMore\<rparr>)))"

section \<open>Lemmas: the message types\<close>

text \<open>The two conversions agree on the four named types.\<close>

lemma protoToMessageType_inverse:
  "t \<in> {TypeText, TypeImage, TypeFile, TypeSystem} \<Longrightarrow> protoToMessageType (messageTypeToProto t) = t"
  by (auto simp: messageTypeToProto_def protoToMessageType_def)

section \<open>Lemmas: what sending changes\<close>

lemma GetByUserID_tabs: "GetByUserID coll i s = (r, s') \<Longrightarrow> tabs s' = tabs s"
  unfolding GetByUserID_def by (rule fetchOne_tabs)

lemma GetConversationByExternalID_tabs: "GetConversationByExternalID coll i s = (r, s') \<Longrightarrow> tabs s' = tabs s"
  unfolding GetConversationByExternalID_def by (rule fetchOne_tabs)

lemma keeps_direct_ops [keeps_intros]:
  "keeps (on_tabs (direct_ok coll)) (GetOrCreateConversation coll a b)"
  "keeps (on_tabs (direct_ok coll)) (CreateDirectMessage coll inp)"
  "keeps (on_tabs (direct_ok coll)) (AckDirectMessage coll mid u w)"
  by (rule keeps_tabsI, blast intro: GetOrCreateConversation_ok CreateDirectMessage_ok AckDirectMessage_ok)+

lemma keeps_direct_reads [keeps_intros]:
  "keeps (on_tabs I) (GetByUserID coll i)" "keeps (on_tabs I) (GetByID k)"
  "keeps (on_tabs I) (GetConversationByExternalID coll i)" "keeps (on_tabs I) (loadDirectMessageRow p)"
  "keeps (on_tabs I) (ListPendingDirectMessages coll i k a l)" "keeps (on_tabs I) (ListConversationsForUser k)"
  unfolding GetByUserID_def GetByID_def GetConversationByExternalID_def loadDirectMessageRow_def
    ListPendingDirectMessages_def ListConversationsForUser_def Let_def
  by (intro keeps_intros)+

text \<open>Every operation of the service keeps the invariant of the direct-chat tables.\<close>

lemma keeps_direct_services [keeps_intros]:
  "keeps (on_tabs (direct_ok coll)) (OpenConversation coll u p)"
  "keeps (on_tabs (direct_ok coll)) (SendDirectMessage cfg coll u req)"
  "keeps (on_tabs (direct_ok coll)) (svc_AckDirectMessage coll u mid)"
  "keeps (on_tabs (direct_ok coll)) (SyncDirectMessages coll u sreq)"
  "keeps (on_tabs (direct_ok coll)) (ListConversations u)"
  unfolding OpenConversation_def SendDirectMessage_def svc_AckDirectMessage_def SyncDirectMessages_def
    ListConversations_def direct_target_def GetDirectMessageByClientMsgID_def Let_def
  by (intro keeps_intros)+


section \<open>Lemmas: listing what is pending\<close>

text \<open>A message that waits for the acknowledgement of \<open>u\<close> in the conversation \<open>cid\<close>.\<close>

definition waiting :: "collation \<Rightarrow> string \<Rightarrow> uint64 \<Rightarrow> direct_message_row \<Rightarrow> bool" where
  "waiting coll cid u dm \<longleftrightarrow> coll (dm_conversation_id dm) = coll cid \<and> dm_recipient_user_id dm = u \<and>
     dm_recipient_acked_at_ms dm = None"

definition inbox :: "collation \<times> string \<times> uint64 \<times> tables \<Rightarrow> direct_message list" where
  "inbox x = (case x of (coll, cid, u, t) \<Rightarrow> joined_direct (waiting coll cid u) t)"

definition inbox_ok :: "collation \<times> string \<times> uint64 \<times> tables \<Rightarrow> bool" where
  "inbox_ok x = (case x of (coll, cid, u, t) \<Rightarrow> direct_ok coll t \<and> users_ok coll t)"

definition user_of :: "tables \<Rightarrow> uint64 \<Rightarrow> user_row option" where
  "user_of t i = find (\<lambda>u. u_id u = i) (users t)"

lemma users_ok_ids: "users_ok coll t \<Longrightarrow> distinct (map u_id (users t))"
  by (auto simp: users_ok_def dest: ids_below_distinct)

text \<open>The join with the two users, once per message.\<close>

definition joined_one :: "tables \<Rightarrow> direct_message_row \<Rightarrow> direct_message list" where
  "joined_one t dm = (case user_of t (dm_sender_user_id dm) of
       None \<Rightarrow> []
     | Some su \<Rightarrow> (case user_of t (dm_recipient_user_id dm) of
           None \<Rightarrow> [] | Some ru \<Rightarrow> [to_direct_message dm su ru]))"

lemma joined_direct_ok:
  assumes "users_ok coll t"
  shows "joined_direct p t = concat (map (\<lambda>dm. if p dm then joined_one t dm else []) (direct_messages t))"
  unfolding joined_direct_def joined_one_def user_of_def join_unique [OF users_ok_ids [OF assms]]
  by (intro arg_cong [where f = concat] map_cong refl)

lemma joined_one_simps:
  "x \<in> set (joined_one t dm) \<Longrightarrow> dx_Seq x = dm_seq dm" "distinct (map f (joined_one t dm))"
  by (auto simp: joined_one_def to_direct_message_def split: option.splits)

lemma conversation_seqs_distinct:
  assumes "direct_ok coll t"
  shows "distinct (map dm_seq (filter (waiting coll cid u) (direct_messages t)))"
proof (cases "\<exists>c \<in> set (direct_conversations t). coll (dc_conversation_id c) = coll cid")
  case True
  then obtain c where c: "c \<in> set (direct_conversations t)" "coll (dc_conversation_id c) = coll cid" by blast
  then have "conversation_ok coll t c" using assms by (simp add: direct_ok_def)
  then have "distinct (map (unat \<circ> dm_seq) (direct_log coll t cid))"
    by (simp add: conversation_ok_def direct_log_def c(2))
  then have "distinct (map dm_seq (direct_log coll t cid))"
    by (simp add: distinct_map inj_on_def)
  then have "distinct (map dm_seq (filter (waiting coll cid u) (direct_log coll t cid)))"
    by (rule distinct_map_filter)
  moreover have "filter (waiting coll cid u) (direct_log coll t cid) = filter (waiting coll cid u) (direct_messages t)"
    by (auto simp: direct_log_def waiting_def intro!: filter_cong)
  ultimately show ?thesis by simp
next
  case False
  then have "filter (waiting coll cid u) (direct_messages t) = []"
    using assms by (fastforce simp: filter_empty_conv waiting_def direct_ok_def)
  then show ?thesis by simp
qed

lemma concat_map_filter:
  "concat (map (\<lambda>x. if p x then g x else []) xs) = concat (map g (filter p xs))"
  by (induction xs) auto

lemma inbox_distinct:
  assumes "inbox_ok x"
  shows "distinct (map dx_Seq (inbox x))"
proof -
  obtain coll cid u t where x: "x = (coll, cid, u, t)" by (cases x) auto
  with assms have ok: "direct_ok coll t" "users_ok coll t" by (auto simp: inbox_ok_def)
  show ?thesis
    unfolding x inbox_def prod.case joined_direct_ok [OF ok(2)] concat_map_filter
    by (rule distinct_concat_keys [OF conversation_seqs_distinct [OF ok(1)]]) (auto simp: joined_one_simps)
qed

interpretation pend: cursor_listing dx_Seq inbox inbox_ok
  by unfold_locales (rule inbox_distinct)

lemma pending_filter:
  assumes "users_ok coll t"
  shows "joined_direct (is_pending coll cid u a) t = filter (\<lambda>x. a < dx_Seq x) (inbox (coll, cid, u, t))"
proof -
  have one: "filter (\<lambda>x. a < dx_Seq x) (joined_one t dm) = (if a < dm_seq dm then joined_one t dm else [])" for dm
    by (auto simp: filter_empty_conv joined_one_simps intro!: filter_True)
  show ?thesis
    unfolding inbox_def prod.case joined_direct_ok [OF assms] filter_concat map_map o_def
    by (intro arg_cong [where f = concat] map_cong refl) (auto simp: is_pending_def waiting_def one)
qed

text \<open>The number of messages on a page.\<close>

definition direct_limit :: "uint32 \<Rightarrow> uint32" where
  "direct_limit l = (if l = 0 then 50 else if l > 500 then 100 else l)"

lemma direct_limit_pos: "0 < unat (direct_limit l)"
  by (auto simp: direct_limit_def word_less_nat_alt unat_gt_0)

text \<open>A page of pending messages.\<close>

lemma ListPending_Inr:
  assumes ok: "users_ok coll (tabs s)" and l: "l \<noteq> 0"
    and run: "ListPendingDirectMessages coll cid u a l s = (Inr (out, nxt, hasmore), s')"
  defines "n \<equiv> unat (if l > 500 then 100 else l)"
  shows "out = pend.fetch (coll, cid, u, tabs s) a n \<and> nxt = pend.next_cursor a out \<and>
    (hasmore \<longleftrightarrow> length out = n) \<and> tabs s' = tabs s"
proof -
  have out: "out = pend.fetch (coll, cid, u, tabs s) a n"
    and rest: "nxt = pend.next_cursor a out" "tabs s' = tabs s"
      "hasmore \<longleftrightarrow> of_nat (length out) = (if l > 500 then 100 else l)"
    using run l unfolding ListPendingDirectMessages_def Let_def n_def pend.fetch_def pend.next_cursor_def
    by (auto simp: em_simps pending_filter [OF ok])
  have "length out \<le> n" unfolding out pend.fetch_def by simp
  then have "unat (of_nat (length out) :: uint32) = length out"
    using unsigned_less [of "if l > 500 then 100 else l", where 'a = nat] by (intro unat_of_nat_less) (simp add: n_def)
  then have "of_nat (length out) = (if l > 500 then 100 else l) \<longleftrightarrow> length out = n"
    unfolding n_def word_unat_eq_iff by (simp only:)
  with out rest show ?thesis by simp
qed

lemma SyncDirectMessages_Inr:
  assumes ok: "users_ok coll (tabs s)" and run: "SyncDirectMessages coll u req s = (Inr resp, s')"
  defines "page \<equiv> pend.fetch (coll, TrimSpace (sx_ConversationId req), u, tabs s) (sx_AfterSeq req)
    (unat (direct_limit (sx_Limit req)))"
  shows "sz_Messages resp = map direct_event page \<and> sz_NextAfterSeq resp = pend.next_cursor (sx_AfterSeq req) page \<and>
    (sz_HasMore resp \<longleftrightarrow> length page = unat (direct_limit (sx_Limit req))) \<and> tabs s' = tabs s \<and>
    (\<exists>c \<in> set (direct_conversations (tabs s)). coll (dc_conversation_id c) = coll (TrimSpace (sx_ConversationId req)) \<and>
       u \<in> {dc_user_low_id c, dc_user_high_id c})"
proof -
  let ?l = "if sx_Limit req = 0 then 50 else sx_Limit req"
  let ?cid = "TrimSpace (sx_ConversationId req)"
  from run obtain c s1 items nxt hasmore where
    conv: "GetConversationByExternalID coll ?cid s = (Inr c, s1)" "u = dv_UserLowID c \<or> u = dv_UserHighID c"
    and list: "ListPendingDirectMessages coll ?cid u (sx_AfterSeq req) ?l s1 = (Inr (items, nxt, hasmore), s')"
    and resp: "resp = \<lparr>sz_ConversationId = ?cid, sz_Messages = map direct_event items, sz_NextAfterSeq = nxt, sz_HasMore = hasmore\<rparr>"
    unfolding SyncDirectMessages_def Let_def by (auto simp: em_simps)
  have t: "tabs s1 = tabs s" using conv(1) by (rule GetConversationByExternalID_tabs)
  have lim: "unat (if ?l > 500 then 100 else ?l) = unat (direct_limit (sx_Limit req))"
    by (auto simp: direct_limit_def)
  have "items = page \<and> nxt = pend.next_cursor (sx_AfterSeq req) items \<and>
      (hasmore \<longleftrightarrow> length items = unat (direct_limit (sx_Limit req))) \<and> tabs s' = tabs s"
    using ListPending_Inr [OF _ _ list] ok unfolding page_def lim t by simp
  moreover have "\<exists>c \<in> set (direct_conversations (tabs s)). coll (dc_conversation_id c) = coll ?cid \<and>
       u \<in> {dc_user_low_id c, dc_user_high_id c}"
    using conv unfolding GetConversationByExternalID_def
    by (auto simp: em_simps to_conversation_def dest!: find_SomeD)
  ultimately show ?thesis by (simp add: resp)
qed

text \<open>A client that follows the cursor while there may be more, with \<open>k\<close> requests at most.\<close>

fun pull_direct :: "collation \<Rightarrow> uint64 \<Rightarrow> string \<Rightarrow> uint32 \<Rightarrow> nat \<Rightarrow> uint64 \<Rightarrow> (store, err, direct_message_event list) em" where
  "pull_direct coll u cid l 0 a = ret []"
| "pull_direct coll u cid l (Suc k) a =
     bind_e (SyncDirectMessages coll u \<lparr>sx_ConversationId = cid, sx_AfterSeq = a, sx_Limit = l\<rparr>) (\<lambda>resp.
       if sz_HasMore resp
       then bind_e (pull_direct coll u cid l k (sz_NextAfterSeq resp)) (\<lambda>rest. ret (sz_Messages resp @ rest))
       else ret (sz_Messages resp))"

text \<open>Without faults the requests of a participant are answered.\<close>

definition participant :: "collation \<Rightarrow> uint64 \<Rightarrow> string \<Rightarrow> store \<Rightarrow> bool" where
  "participant coll u cid s \<longleftrightarrow> faults s = [] \<and> TrimSpace cid \<noteq> [] \<and>
     (\<exists>c. find (\<lambda>r. coll (dc_conversation_id r) = coll (TrimSpace cid)) (direct_conversations (tabs s)) = Some c \<and>
        u \<in> {dc_user_low_id c, dc_user_high_id c})"

lemma SyncDirectMessages_ret:
  assumes "participant coll u (sx_ConversationId req) s"
  shows "\<exists>resp. SyncDirectMessages coll u req s = (Inr resp, s)"
proof -
  have tk: "tick s = s" using assms by (cases s) (simp add: participant_def tick_def)
  then show ?thesis
    using assms unfolding participant_def SyncDirectMessages_def GetConversationByExternalID_def
      ListPendingDirectMessages_def Let_def
    by (auto simp: bind_e_def fetchOne_simp sql_select_def to_conversation_def split: prod.splits)
qed

lemma pull_direct_after:
  assumes ok: "inbox_ok (coll, TrimSpace cid, u, tabs s)" and s: "participant coll u cid s"
  shows "length (pend.after (coll, TrimSpace cid, u, tabs s) a) < k \<Longrightarrow>
    pull_direct coll u cid l k a s = (Inr (map direct_event (pend.after (coll, TrimSpace cid, u, tabs s) a)), s)"
proof (induction k arbitrary: a)
  case (Suc k)
  let ?x = "(coll, TrimSpace cid, u, tabs s)" and ?n = "unat (direct_limit l)"
  let ?req = "\<lparr>sx_ConversationId = cid, sx_AfterSeq = a, sx_Limit = l\<rparr>"
  obtain resp where run: "SyncDirectMessages coll u ?req s = (Inr resp, s)"
    using SyncDirectMessages_ret [of coll u ?req s] s by auto
  have uok: "users_ok coll (tabs s)" using ok by (simp add: inbox_ok_def)
  have r: "sz_Messages resp = map direct_event (pend.fetch ?x a ?n)"
      "sz_NextAfterSeq resp = pend.next_cursor a (pend.fetch ?x a ?n)"
      "sz_HasMore resp \<longleftrightarrow> length (pend.fetch ?x a ?n) = ?n"
    using SyncDirectMessages_Inr [OF uok run] by simp_all
  have n: "0 < ?n" by (rule direct_limit_pos)
  show ?case
  proof (cases "sz_HasMore resp")
    case True
    then have len: "?n \<le> length (pend.after ?x a)" "pend.after ?x a \<noteq> []"
      using r(3) n by (auto simp: pend.fetch_take)
    have rest: "pend.after ?x (sz_NextAfterSeq resp) = drop ?n (pend.after ?x a)"
      unfolding r(2) by (rule pend.after_page [OF ok n len(2)])
    then have "length (pend.after ?x (sz_NextAfterSeq resp)) < k" using Suc.prems len n by simp
    from Suc.IH [OF this] True show ?thesis
      by (simp add: bind_e_def run r(1) rest pend.fetch_take flip: map_append)
  next
    case False
    then have "pend.fetch ?x a ?n = pend.after ?x a" using r(3) by (auto simp: pend.fetch_take)
    with False show ?thesis by (simp add: bind_e_def run r(1))
  qed
qed simp

section \<open>Lemmas: sending\<close>

text \<open>A new message: the row that was appended, and that it goes from one participant to the other.\<close>

lemma CreateDirectMessage_new:
  assumes ok: "direct_ok coll (tabs s)" and run: "CreateDirectMessage coll inp s = (Inr m, s')"
    and fresh: "first_row (joined_direct (is_direct_client coll (cdi_ConversationID inp) (cdi_SenderUserID inp)
      (cdi_ClientMsgID inp)) (tabs s)) = None"
  obtains dm su ru where "direct_messages (tabs s') = direct_messages (tabs s) @ [dm]" "m = to_direct_message dm su ru"
    "dm_sender_user_id dm = cdi_SenderUserID inp" "dm_recipient_user_id dm = cdi_RecipientUserID inp"
    "dm_conversation_id dm = cdi_ConversationID inp" "dm_client_msg_id dm = cdi_ClientMsgID inp"
    "cdi_SenderUserID inp \<noteq> cdi_RecipientUserID inp"
    "\<exists>c \<in> set (direct_conversations (tabs s)). coll (dc_conversation_id c) = coll (cdi_ConversationID inp) \<and>
       {cdi_SenderUserID inp, cdi_RecipientUserID inp} = {dc_user_low_id c, dc_user_high_id c} \<and>
       dm_seq dm = dc_last_seq c + 1"
proof -
  from run obtain x s1 where tx: "create_direct_tx coll inp (tick s) = (Inr x, s1)"
    and rd: "(case x of Inl existing \<Rightarrow> ret existing | Inr mid \<Rightarrow> GetDirectMessageByMessageID coll mid) s1 = (Inr m, s')"
    unfolding CreateDirectMessage_def by (auto simp: em_simps)
  from tx show ?thesis
  proof (cases rule: create_direct_tx_Inr)
    case (existing m')
    then show ?thesis using fresh by (auto simp: loadDirectMessageRow_def fetchOne_simp split: option.splits if_splits)
  next
    case (new c mid t1)
    let ?seq = "dc_last_seq c + 1"
    from new obtain i where t1: "t1 = (tabs s)\<lparr>direct_messages := direct_messages (tabs s) @
        [new_direct_message inp mid ?seq (now_ms s) i], next_direct_message := Suc (next_direct_message (tabs s))\<rparr>"
      by (auto dest!: insert_direct_message_Inr)
    let ?dm = "new_direct_message inp mid ?seq (now_ms s) i"
    have rows: "direct_messages (tabs s1) = direct_messages (tabs s) @ [?dm]"
      using new t1 by (simp add: bump_conversation_def)
    from rd new(1) have load: "loadDirectMessageRow (\<lambda>dm. coll (dm_message_id dm) = coll mid) s1 = (Inr m, s')"
      by (simp add: GetDirectMessageByMessageID_def)
    then obtain dm su ru where dm: "dm \<in> set (direct_messages (tabs s1))" "coll (dm_message_id dm) = coll mid"
      "m = to_direct_message dm su ru" by (rule loadDirectMessageRow_Inr)
    have "direct_ok coll (tabs s1)" using create_direct_tx_ok [OF _ tx] ok by simp
    then have "distinct (map (\<lambda>m. coll (dm_message_id m)) (direct_messages (tabs s1)))" by (simp add: direct_ok_def)
    then have "dm = ?dm"
      using dm(1,2) unfolding rows by (auto simp: image_iff)
    have tabs': "tabs s' = tabs s1" using load by (rule loadDirectMessageRow_tabs)
    show ?thesis
    proof (rule that [of ?dm su ru])
      show "m = to_direct_message ?dm su ru" using dm(3) \<open>dm = ?dm\<close> by simp
      show "\<exists>c \<in> set (direct_conversations (tabs s)). coll (dc_conversation_id c) = coll (cdi_ConversationID inp) \<and>
         {cdi_SenderUserID inp, cdi_RecipientUserID inp} = {dc_user_low_id c, dc_user_high_id c} \<and>
         dm_seq ?dm = dc_last_seq c + 1"
        using new find_SomeD [OF new(2)] by (intro bexI [of _ c]) auto
    qed (use rows new tabs' in auto)
  qed
qed

lemma insert_conversation_frame:
  assumes "insert_conversation coll cid l h nw t = Inr (x, t')"
  shows "\<exists>rs n. t' = t\<lparr>direct_conversations := rs, next_conversation := n\<rparr>"
  using assms unfolding insert_conversation_def
  by (cases "insert_row (new_conversation cid l h nw) (conversation_clash coll) (next_conversation t)
    (direct_conversations t)") auto

lemma GetOrCreateConversation_messages:
  "GetOrCreateConversation coll a b s = (r, s') \<Longrightarrow> direct_messages (tabs s') = direct_messages (tabs s)"
  by (drule GetOrCreateConversation_effect) (auto dest!: insert_conversation_frame)

text \<open>The conversation a message goes to has the sender and the recipient as its participants.\<close>

lemma direct_target_Inr:
  assumes "direct_ok coll (tabs s)" "direct_target coll u req s = (Inr (conv, rcpt), s')"
  shows "direct_ok coll (tabs s') \<and> direct_messages (tabs s') = direct_messages (tabs s)"
proof -
  have k: "keeps (on_tabs (direct_ok coll)) (direct_target coll u req)"
    unfolding direct_target_def Let_def by (intro keeps_intros)+
  have "direct_messages (tabs s') = direct_messages (tabs s)"
    using assms(2) unfolding direct_target_def Let_def
    by (auto simp: em_simps dest!: GetByUserID_tabs GetConversationByExternalID_tabs GetOrCreateConversation_messages)
  moreover have "direct_ok coll (tabs s')"
    using keepsD2 [OF k assms(2)] assms(1) by (simp add: on_tabs_def)
  ultimately show ?thesis by blast
qed

lemma SendDirectMessage_Inr:
  assumes "SendDirectMessage cfg coll u req s = (Inr (ack, ev, rcpt), s')"
  obtains (existing) conv r s1 s2 m where "direct_target coll u req s = (Inr (conv, r), s1)"
      "loadDirectMessageRow (is_direct_client coll (dv_ConversationID conv) u (TrimSpace (sd_ClientMsgId req))) s1 = (Inr m, s2)"
      "ev = None" "tabs s' = tabs s1" "da_MessageId ack = dx_MessageID m" "da_Seq ack = dx_Seq m"
  | (new) conv s1 m where "direct_target coll u req s = (Inr (conv, rcpt), s1)"
      "first_row (joined_direct (is_direct_client coll (dv_ConversationID conv) u (TrimSpace (sd_ClientMsgId req))) (tabs s1)) = None"
      "CreateDirectMessage coll \<lparr>cdi_ConversationID = dv_ConversationID conv, cdi_SenderUserID = u,
         cdi_RecipientUserID = rcpt, cdi_ClientMsgID = TrimSpace (sd_ClientMsgId req),
         cdi_MessageType = TypeText, cdi_Text = TrimSpace (sd_Text req)\<rparr> (tick s1) = (Inr m, s')"
      "ev = Some (direct_event m)" "da_MessageId ack = dx_MessageID m" "da_Seq ack = dx_Seq m"
  using assms unfolding SendDirectMessage_def GetDirectMessageByClientMsgID_def Let_def
  by (auto simp: em_simps loadDirectMessageRow_def fetchOne_Inl)

section \<open>Lemmas: the whole inbox\<close>

lemma direct_seq_pos:
  assumes "direct_ok coll t" "dm \<in> set (direct_messages t)"
  shows "0 < dm_seq dm"
proof -
  have "(\<lambda>m. coll (dm_conversation_id m)) ` set (direct_messages t) \<subseteq>
      (\<lambda>c. coll (dc_conversation_id c)) ` set (direct_conversations t)" using assms(1) by (simp add: direct_ok_def)
  from subsetD [OF this imageI [OF assms(2)]]
  obtain c where c: "c \<in> set (direct_conversations t)" "coll (dc_conversation_id c) = coll (dm_conversation_id dm)"
    by auto
  have "conversation_ok coll t c" using assms(1) c(1) by (simp add: direct_ok_def)
  then have "map (unat \<circ> dm_seq) (direct_log coll t (dm_conversation_id dm)) = [1..<Suc (unat (dc_last_seq c))]"
    unfolding conversation_ok_def direct_log_def c(2) by blast
  moreover have "dm \<in> set (direct_log coll t (dm_conversation_id dm))" using assms(2) by (simp add: direct_log_def)
  then have "(unat \<circ> dm_seq) dm \<in> set (map (unat \<circ> dm_seq) (direct_log coll t (dm_conversation_id dm)))"
    unfolding set_map by (rule imageI)
  ultimately have "unat (dm_seq dm) \<in> set [1..<Suc (unat (dc_last_seq c))]" by (simp only: comp_apply)
  then have "1 \<le> unat (dm_seq dm)" by (simp only: set_upt atLeastLessThan_iff)
  then show ?thesis by (simp add: word_less_nat_alt)
qed

lemma length_concat_le: "(\<And>x. length (g x) \<le> 1) \<Longrightarrow> length (concat (map g xs)) \<le> length xs"
proof (induction xs)
  case (Cons x xs)
  have "length (g x) \<le> 1" "length (concat (map g xs)) \<le> length xs" using Cons by auto
  then show ?case by simp
qed simp

lemma length_after_inbox:
  assumes "users_ok coll t"
  shows "length (pend.after (coll, cid, u, t) a) \<le> length (direct_messages t)"
proof -
  have "length (inbox (coll, cid, u, t)) \<le> length (direct_messages t)"
    unfolding inbox_def prod.case joined_direct_ok [OF assms]
    by (rule length_concat_le) (simp add: joined_one_def split: option.splits)
  then show ?thesis unfolding pend.after_def
    by (simp add: order.trans [OF length_filter_le])
qed

text \<open>Both users of every message have a row, which the joins of the queries need.\<close>

definition senders_known :: "tables \<Rightarrow> bool" where
  "senders_known t \<longleftrightarrow> (\<forall>dm \<in> set (direct_messages t).
     user_of t (dm_sender_user_id dm) \<noteq> None \<and> user_of t (dm_recipient_user_id dm) \<noteq> None)"

lemma after_inbox_ids:
  assumes "direct_ok coll t" "users_ok coll t" "senders_known t"
  shows "set (map (de_MessageId \<circ> direct_event) (pend.after (coll, cid, u, t) 0)) =
    dm_message_id ` {dm \<in> set (direct_messages t). waiting coll cid u dm}"
proof -
  have one: "\<exists>su ru. joined_one t dm = [to_direct_message dm su ru]" if "dm \<in> set (direct_messages t)" for dm
    using assms(3) that by (auto simp: senders_known_def joined_one_def split: option.splits)
  have "x \<in> set (pend.after (coll, cid, u, t) 0) \<longleftrightarrow>
      (\<exists>dm \<in> set (direct_messages t). waiting coll cid u dm \<and> x \<in> set (joined_one t dm))" for x
    using direct_seq_pos [OF assms(1)]
    by (auto simp: pend.set_after inbox_def joined_direct_ok [OF assms(2)] joined_one_simps(1))
  then have "set (pend.after (coll, cid, u, t) 0) =
      (\<Union>dm \<in> {dm \<in> set (direct_messages t). waiting coll cid u dm}. set (joined_one t dm))" by blast
  moreover have "(\<lambda>x. de_MessageId (direct_event x)) ` set (joined_one t dm) = {dm_message_id dm}"
    if "dm \<in> set (direct_messages t)" for dm
    using one [OF that] by (auto simp: direct_event_def to_direct_message_def)
  ultimately show ?thesis by (auto simp: image_UN)
qed

section \<open>An instance\<close>

lemmas [run_simps] =
  SendDirectMessage_def direct_target_def GetConversationByExternalID_def GetDirectMessageByClientMsgID_def
  GetDirectMessageByMessageID_def loadDirectMessageRow_def joined_direct_def is_direct_client_def
  CreateDirectMessage_def create_direct_tx_def insert_direct_message_def direct_type_def new_direct_message_def
  direct_clash_def bump_conversation_def to_conversation_def to_direct_message_def otherParticipant_def
  protoToMessageType_def svc_AckDirectMessage_def AckDirectMessage_def pending_ack_def GetByID_def to_user_def
  newExternalID_def show_int_def

definition ex_reply :: send_direct_req where
  "ex_reply = \<lparr>sd_ConversationId = ''dmcnv_1'', sd_ToUserId = [], sd_ClientMsgId = ''c9'', sd_MessageType = MessageType_TEXT,
     sd_Text = ''yes''\<rparr>"

lemma ex_trim: "TrimSpace ''dmcnv_1'' = ''dmcnv_1''" "TrimSpace ''c9'' = ''c9''" "TrimSpace ''yes'' = ''yes''"
  "TrimSpace ''dmmsg_1'' = ''dmmsg_1''"
  by (simp_all add: trim_simps)

lemma ex_direct_ok: "direct_ok ex_coll (tabs ex_store)"
  by (simp add: direct_ok_def conversation_ok_def direct_log_def ids_below_def ex_defs)

lemma ex_reply_sent: "\<not> isl (fst (SendDirectMessage defaults ex_coll 2 ex_reply ex_store))"
  by (simp add: run_simps ex_trim ex_reply_def defaults_def rune_count_def ex_clock_text ex_defs)

section \<open>Properties\<close>

text \<open>
  C27: a direct message that was acknowledged to its sender is stored. The event for the
  recipient is produced exactly when the message is new; then it goes from the sender to the
  other participant of the conversation and bears the next number of the conversation.
\<close>

theorem direct_message_stored:
  assumes ok: "direct_ok coll (tabs s)" and run: "SendDirectMessage cfg coll u req s = (Inr (ack, ev, rcpt), s')"
  shows "\<exists>dm \<in> set (direct_messages (tabs s')). dm_message_id dm = da_MessageId ack \<and> dm_seq dm = da_Seq ack \<and>
    dm_sender_user_id dm = u \<and> coll (dm_client_msg_id dm) = coll (TrimSpace (sd_ClientMsgId req)) \<and>
    (case ev of
       None \<Rightarrow> direct_messages (tabs s') = direct_messages (tabs s)
     | Some e \<Rightarrow> direct_messages (tabs s') = direct_messages (tabs s) @ [dm] \<and> dm_recipient_user_id dm = rcpt \<and>
         rcpt \<noteq> u \<and> de_MessageId e = da_MessageId ack \<and>
         (\<exists>c \<in> set (direct_conversations (tabs s')). {u, rcpt} = {dc_user_low_id c, dc_user_high_id c} \<and>
            dc_last_seq c = da_Seq ack))"
  using run
proof (cases rule: SendDirectMessage_Inr)
  case (existing conv r s1 s2 m)
  from existing(2) obtain dm su ru where "dm \<in> set (direct_messages (tabs s1))"
    "is_direct_client coll (dv_ConversationID conv) u (TrimSpace (sd_ClientMsgId req)) dm" "m = to_direct_message dm su ru"
    by (rule loadDirectMessageRow_Inr)
  then show ?thesis
    using existing direct_target_Inr [OF ok existing(1)]
    by (intro bexI [of _ dm]) (auto simp: is_direct_client_def to_direct_message_def)
next
  case (new conv s1 m)
  let ?inp = "\<lparr>cdi_ConversationID = dv_ConversationID conv, cdi_SenderUserID = u, cdi_RecipientUserID = rcpt,
    cdi_ClientMsgID = TrimSpace (sd_ClientMsgId req), cdi_MessageType = TypeText, cdi_Text = TrimSpace (sd_Text req)\<rparr>"
  have t1: "direct_ok coll (tabs s1)" "direct_messages (tabs s1) = direct_messages (tabs s)"
    using direct_target_Inr [OF ok new(1)] by auto
  have ok': "direct_ok coll (tabs s')"
    using CreateDirectMessage_ok [OF _ new(3)] t1(1) by simp
  have ok1: "direct_ok coll (tabs (tick s1))" using t1(1) by simp
  from CreateDirectMessage_new [OF ok1 new(3), unfolded create_direct_input.simps tick_simps, OF new(2)]
  obtain dm su ru where dm: "direct_messages (tabs s') = direct_messages (tabs s1) @ [dm]" "m = to_direct_message dm su ru"
      "dm_sender_user_id dm = u" "dm_recipient_user_id dm = rcpt" "dm_conversation_id dm = dv_ConversationID conv"
      "dm_client_msg_id dm = TrimSpace (sd_ClientMsgId req)" "u \<noteq> rcpt"
    by blast
  have "dm \<in> set (direct_messages (tabs s'))" using dm(1) by simp
  then have "coll (dv_ConversationID conv) \<in> (\<lambda>c. coll (dc_conversation_id c)) ` set (direct_conversations (tabs s'))"
    using ok' dm(5) by (auto simp: direct_ok_def)
  then obtain c where c: "c \<in> set (direct_conversations (tabs s'))" "coll (dc_conversation_id c) = coll (dv_ConversationID conv)"
    by auto
  have log: "direct_log coll (tabs s') (dc_conversation_id c) = direct_log coll (tabs s1) (dc_conversation_id c) @ [dm]"
    by (simp add: direct_log_def dm(1,5) c(2))
  have cok: "conversation_ok coll (tabs s') c" using ok' c(1) by (simp add: direct_ok_def)
  then have "{u, rcpt} = {dc_user_low_id c, dc_user_high_id c}"
    using dm(3,4) by (simp add: conversation_ok_def log)
  moreover have "dc_last_seq c = da_Seq ack"
    using cok new(6) dm(2) by (auto simp: conversation_ok_def log word_unat_eq_iff to_direct_message_def split: if_splits)
  ultimately have "\<exists>c \<in> set (direct_conversations (tabs s')). {u, rcpt} = {dc_user_low_id c, dc_user_high_id c} \<and>
      dc_last_seq c = da_Seq ack" using c(1) by blast
  then show ?thesis
    using new(4-6) dm t1(2) \<open>dm \<in> _\<close>
    by (intro bexI [of _ dm]) (auto simp: to_direct_message_def direct_event_def)
qed

theorem direct_message_stored_witness:
  "\<exists>ack ev rcpt s'. SendDirectMessage defaults ex_coll 2 ex_reply ex_store = (Inr (ack, ev, rcpt), s') \<and>
     (\<exists>dm \<in> set (direct_messages (tabs s')). dm_sender_user_id dm = 2 \<and> dm_seq dm = da_Seq ack)"
proof -
  have ok: "\<not> isl (fst (SendDirectMessage defaults ex_coll 2 ex_reply ex_store))" by (rule ex_reply_sent)
  obtain ack ev rcpt where r: "projr (fst (SendDirectMessage defaults ex_coll 2 ex_reply ex_store)) = (ack, ev, rcpt)"
    by (cases "projr (fst (SendDirectMessage defaults ex_coll 2 ex_reply ex_store))")
  note run = succeeds [OF ok, unfolded r]
  from direct_message_stored [OF ex_direct_ok run] run show ?thesis by blast
qed

text \<open>
  C22: a recipient who follows the cursor from the start, page by page while the server reports
  that there may be more, gets every unacknowledged message of the conversation exactly once
  and in order, after finitely many requests.
\<close>

theorem pending_complete:
  assumes ok: "direct_ok coll (tabs s)" "users_ok coll (tabs s)" "senders_known (tabs s)"
    and s: "participant coll u cid s"
  shows "\<exists>evs. pull_direct coll u cid l (Suc (length (direct_messages (tabs s)))) 0 s = (Inr evs, s) \<and>
    sorted_wrt (<) (map de_Seq evs) \<and>
    set (map de_MessageId evs) = dm_message_id ` {dm \<in> set (direct_messages (tabs s)). waiting coll (TrimSpace cid) u dm}"
proof -
  let ?x = "(coll, TrimSpace cid, u, tabs s)"
  have i: "inbox_ok ?x" using ok by (simp add: inbox_ok_def)
  have "length (pend.after ?x 0) < Suc (length (direct_messages (tabs s)))"
    using length_after_inbox [OF ok(2)] by (simp add: less_Suc_eq_le)
  from pull_direct_after [OF i s this]
  have "pull_direct coll u cid l (Suc (length (direct_messages (tabs s)))) 0 s =
      (Inr (map direct_event (pend.after ?x 0)), s)" .
  moreover have "sorted_wrt (<) (map de_Seq (map direct_event (pend.after ?x 0)))"
    using pend.after_strict [OF i, of 0] by (simp add: direct_event_def o_def)
  ultimately show ?thesis using after_inbox_ids [OF ok, of "TrimSpace cid" u] by (simp add: image_image)
qed

theorem pending_complete_witness:
  "\<exists>evs. pull_direct ex_coll 2 ''dmcnv_1'' 10 2 0 ex_store = (Inr evs, ex_store) \<and> set (map de_MessageId evs) = {''dmmsg_1''}"
proof -
  have k: "senders_known (tabs ex_store)" by (simp add: senders_known_def user_of_def ex_defs)
  have p: "participant ex_coll 2 ''dmcnv_1'' ex_store" by (simp add: participant_def ex_trim ex_defs)
  have n: "Suc (length (direct_messages (tabs ex_store))) = 2" by (simp add: ex_defs)
  have w: "dm_message_id ` {dm \<in> set (direct_messages (tabs ex_store)). waiting ex_coll (TrimSpace ''dmcnv_1'') 2 dm} = {''dmmsg_1''}"
  proof -
    have "set (direct_messages (tabs ex_store)) = {ex_direct}" by (simp add: ex_store_def ex_tables_def)
    moreover have "waiting ex_coll (TrimSpace ''dmcnv_1'') 2 ex_direct" "dm_message_id ex_direct = ''dmmsg_1''"
      by (simp_all add: waiting_def ex_trim ex_defs)
    ultimately show ?thesis by auto
  qed
  from pending_complete [OF ex_direct_ok ex_users_ok k p, of 10] show ?thesis unfolding n w by blast
qed

text \<open>
  Only the recipient can acknowledge a message. After a successful call the message is
  acknowledged, so it is not pending any more, and the event for the sender is produced by
  the one call that acknowledged it first.
\<close>

theorem ack_announced_once:
  assumes ok: "direct_ok coll (tabs s)" and run: "svc_AckDirectMessage coll u mid s = (Inr (m, ev, sender), s')"
  shows "\<exists>dm \<in> set (direct_messages (tabs s)). coll (dm_message_id dm) = coll (TrimSpace mid) \<and>
    dm_recipient_user_id dm = u \<and> (ev = None \<longleftrightarrow> dm_recipient_acked_at_ms dm \<noteq> None) \<and>
    (\<forall>e. ev = Some e \<longrightarrow> sender = dm_sender_user_id dm \<and> dp_ConversationId e = dm_conversation_id dm) \<and>
    (\<forall>dm' \<in> set (direct_messages (tabs s')). coll (dm_message_id dm') = coll (TrimSpace mid) \<longrightarrow>
       \<not> waiting coll (dm_conversation_id dm) u dm')"
proof -
  from run obtain already snd cid s1 where
    ack: "AckDirectMessage coll (TrimSpace mid) u (of_int (now_ms s)) s = (Inr (already, snd, cid), s1)"
    and ev: "tabs s' = tabs s1" "already \<longleftrightarrow> ev = None" "\<forall>e. ev = Some e \<longrightarrow> sender = snd \<and> dp_ConversationId e = cid"
    unfolding svc_AckDirectMessage_def Let_def GetByID_def by (auto simp: em_simps)
  from AckDirectMessage_Inr [OF ok ack] obtain dm where dm: "dm \<in> set (direct_messages (tabs s))"
    "coll (dm_message_id dm) = coll (TrimSpace mid)" "dm_recipient_user_id dm = u" "dm_sender_user_id dm = snd"
    "dm_conversation_id dm = cid" "already \<longleftrightarrow> dm_recipient_acked_at_ms dm \<noteq> None"
    "(if already then dm else acked_row (of_int (now_ms s)) dm) \<in> set (direct_messages (tabs s1))" by blast
  let ?dm = "if already then dm else acked_row (of_int (now_ms s)) dm"
  have "direct_ok coll (tabs s1)" by (rule AckDirectMessage_ok [OF ok ack])
  then have inj: "inj_on (\<lambda>m. coll (dm_message_id m)) (set (direct_messages (tabs s1)))"
    by (simp add: direct_ok_def distinct_map)
  have "\<not> waiting coll cid u dm'"
    if "dm' \<in> set (direct_messages (tabs s1))" "coll (dm_message_id dm') = coll (TrimSpace mid)" for dm'
  proof -
    have "coll (dm_message_id dm') = coll (dm_message_id ?dm)" using that(2) dm(2) by simp
    then have "dm' = ?dm" by (rule inj_onD [OF inj _ that(1) dm(7)])
    then show ?thesis using dm(6) by (auto simp: waiting_def)
  qed
  then show ?thesis using dm(1-6) ev by (intro bexI [of _ dm]) auto
qed

theorem ack_announced_once_witness:
  "\<exists>m ev sender s'. svc_AckDirectMessage ex_coll 2 ''dmmsg_1'' ex_store = (Inr (m, ev, sender), s') \<and>
     (\<exists>dm \<in> set (direct_messages (tabs ex_store)). dm_recipient_user_id dm = 2 \<and>
        (ev = None \<longleftrightarrow> dm_recipient_acked_at_ms dm \<noteq> None))"
proof -
  have ok: "\<not> isl (fst (svc_AckDirectMessage ex_coll 2 ''dmmsg_1'' ex_store))"
    by (simp add: run_simps ex_trim ex_defs)
  obtain m ev sender where r: "projr (fst (svc_AckDirectMessage ex_coll 2 ''dmmsg_1'' ex_store)) = (m, ev, sender)"
    by (cases "projr (fst (svc_AckDirectMessage ex_coll 2 ''dmmsg_1'' ex_store))")
  note run = succeeds [OF ok, unfolded r]
  from ack_announced_once [OF ex_direct_ok run] run show ?thesis by blast
qed

end
