(* ===== verification/Codec.thy ===== *)
theory Codec
  imports Protocol
begin

text \<open>
  The length-prefixed envelopes of \<open>internal/protocol/codec.go\<close>: four bytes of length in
  network order and the encoded envelope. The lemmas show that an envelope that was written
  is read back, that frames on one stream do not run into each other, that reading a stream
  ends, and that neither side handles a payload above the limit.
\<close>

unbundle bit_operations_syntax

section \<open>Definitions\<close>

definition MaxEnvelopeBytes :: nat where
  "MaxEnvelopeBytes = 8 * 2 ^ 20"

text \<open>\<open>binary.BigEndian\<close> at 32 bits.\<close>

definition be32 :: "uint32 \<Rightarrow> byte list" where
  "be32 n = [ucast (drop_bit 24 n), ucast (drop_bit 16 n), ucast (drop_bit 8 n), ucast n]"

definition be32_value :: "byte list \<Rightarrow> uint32" where
  "be32_value bs = foldl (\<lambda>n b. push_bit 8 n OR ucast b) 0 bs"

text \<open>
  \<open>io.ReadFull\<close> on the bytes that are left of a stream: \<open>EOF\<close> when there are none,
  \<open>UnexpectedEOF\<close> when there are too few.
\<close>

definition ReadFull :: "nat \<Rightarrow> (byte list, err, byte list) em" where
  "ReadFull n inp =
     (if n \<le> length inp then (Inr (take n inp), drop n inp)
      else if inp = [] then (Inl EOF, []) else (Inl UnexpectedEOF, []))"

definition ReadEnvelope :: "pb \<Rightarrow> (byte list, err, envelope) em" where
  "ReadEnvelope P =
     bind_e (ReadFull 4) (\<lambda>hdr.
     let len = be32_value hdr in
     if of_nat MaxEnvelopeBytes < len then raise (Wrapped [] ErrEnvelopeTooLarge ('': got '' @ show_nat (unat len)))
     else bind_e (ReadFull (unat len)) (\<lambda>payload.
       case pb_Envelope P payload of
         Inl e \<Rightarrow> raise (wrap ''unmarshal envelope'' e)
       | Inr env \<Rightarrow> ret env))"

text \<open>
  The sending side of a stream: the bytes sent so far, and the outcomes of the coming writes,
  all of which succeed after the last one listed. On a stream that was closed at this end every
  write fails.
\<close>

datatype write_outcome = WriteOk | WriteFails | StreamClosed

record wire =
  wi_faults :: "write_outcome list"
  wi_out :: "byte list"

definition stream_Write :: "byte list \<Rightarrow> (wire, err, unit) em" where
  "stream_Write bs w =
     (case wi_faults w of
        StreamClosed # fs \<Rightarrow> (Inl DriverErr, w)
      | WriteFails # fs \<Rightarrow> (Inl DriverErr, w\<lparr>wi_faults := fs\<rparr>)
      | fs \<Rightarrow> (Inr (), w\<lparr>wi_faults := tl fs, wi_out := wi_out w @ bs\<rparr>))"

definition stream_Close :: "wire \<Rightarrow> wire" where
  "stream_Close w = w\<lparr>wi_faults := [StreamClosed]\<rparr>"

definition WriteEnvelope :: "pb \<Rightarrow> envelope \<Rightarrow> (wire, err, unit) em" where
  "WriteEnvelope P env =
     (case pb_MarshalEnvelope P env of
        Inl e \<Rightarrow> raise (wrap ''marshal envelope'' e)
      | Inr payload \<Rightarrow>
          if MaxEnvelopeBytes < length payload then raise (wrap ''marshal envelope'' ErrEnvelopeTooLarge)
          else bind_e (stream_Write (be32 (of_nat (length payload)))) (\<lambda>_. stream_Write payload))"

definition MarshalBody :: "pb \<Rightarrow> body \<Rightarrow> err + byte list" where
  "MarshalBody P msg = pb_Marshal P msg"

text \<open>\<open>UnmarshalBody\<close> is the decoder of the request type.\<close>

definition UnmarshalBody :: "(byte list \<Rightarrow> err + 'a) \<Rightarrow> byte list \<Rightarrow> ('s, err, 'a) em" where
  "UnmarshalBody dec data = (case dec data of Inl e \<Rightarrow> raise e | Inr x \<Rightarrow> ret x)"

definition NewEnvelope :: "pb \<Rightarrow> time_ms \<Rightarrow> enum \<Rightarrow> string \<Rightarrow> body \<Rightarrow> err + envelope" where
  "NewEnvelope P nowms msgType requestID msg =
     (case MarshalBody P msg of
        Inl e \<Rightarrow> Inl e
      | Inr payload \<Rightarrow> Inr \<lparr>ev_Version = 1, ev_MsgType = msgType, ev_RequestId = requestID,
          ev_TimestampMs = of_int nowms, ev_Body = payload\<rparr>)"

text \<open>A client that reads a stream to its end, and the error that ended it.\<close>

function read_stream :: "pb \<Rightarrow> byte list \<Rightarrow> envelope list \<times> err" where
  "read_stream P inp =
     (case ReadEnvelope P inp of
        (Inl e, _) \<Rightarrow> ([], e)
      | (Inr env, rest) \<Rightarrow> (let (es, e) = read_stream P rest in (env # es, e)))"
  by pat_completeness auto

text \<open>An envelope on the wire.\<close>

definition frame :: "byte list \<Rightarrow> byte list" where
  "frame payload = be32 (of_nat (length payload)) @ payload"

section \<open>Lemmas: numbers and reads\<close>

lemma length_be32 [simp]: "length (be32 n) = 4"
  by (simp add: be32_def)

lemma be32_roundtrip [simp]: "be32_value (be32 n) = n"
proof (rule bit_word_eqI)
  fix k :: nat
  assume k: "k < LENGTH(32)"
  consider "k < 8" | "8 \<le> k" "k < 16" | "16 \<le> k" "k < 24" | "24 \<le> k" by linarith
  then show "bit (be32_value (be32 n)) k = bit n k"
    unfolding be32_def be32_value_def using k by cases (auto simp: bit_simps)
qed

lemma ReadFull_Inr [em_simps]:
  "ReadFull n inp = (Inr bs, rest) \<longleftrightarrow> inp = bs @ rest \<and> length bs = n"
  unfolding ReadFull_def by auto

lemma ReadFull_append [simp]: "length bs = n \<Longrightarrow> ReadFull n (bs @ rest) = (Inr bs, rest)"
  by (simp add: ReadFull_Inr)

text \<open>What a successful read has consumed.\<close>

lemma ReadEnvelope_Inr:
  "ReadEnvelope P inp = (Inr env, rest) \<longleftrightarrow>
     (\<exists>hdr payload. inp = hdr @ payload @ rest \<and> length hdr = 4 \<and> length payload = unat (be32_value hdr) \<and>
        be32_value hdr \<le> of_nat MaxEnvelopeBytes \<and> pb_Envelope P payload = Inr env)"
  unfolding ReadEnvelope_def Let_def
  by (auto simp: em_simps not_less split: sum.splits)

lemma ReadEnvelope_shrinks: "ReadEnvelope P inp = (Inr env, rest) \<Longrightarrow> length rest < length inp"
  by (auto simp: ReadEnvelope_Inr)

termination read_stream
  by (relation "measure (\<lambda>(P, inp). length inp)") (auto dest!: ReadEnvelope_shrinks [OF sym])

declare read_stream.simps [simp del]


text \<open>Reading a frame gives its payload and leaves what follows it.\<close>

lemma ReadEnvelope_frame:
  assumes "pb_Envelope P payload = Inr env" "length payload \<le> MaxEnvelopeBytes"
  shows "ReadEnvelope P (frame payload @ rest) = (Inr env, rest)"
proof -
  have n: "unat (of_nat (length payload) :: uint32) = length payload"
    using assms(2) by (intro unat_of_nat_less) (simp add: MaxEnvelopeBytes_def)
  then have "(of_nat (length payload) :: uint32) \<le> of_nat MaxEnvelopeBytes"
    using assms(2) by (simp add: word_le_nat_alt MaxEnvelopeBytes_def)
  then show ?thesis
    using assms(1) n unfolding ReadEnvelope_Inr frame_def by fastforce
qed

lemma stream_Write_ok: "wi_faults w = [] \<Longrightarrow> stream_Write bs w = (Inr (), w\<lparr>wi_out := wi_out w @ bs\<rparr>)"
  by (simp add: stream_Write_def)

lemma stream_Write_Inr: "stream_Write bs w = (Inr x, w') \<Longrightarrow> wi_out w' = wi_out w @ bs"
  by (auto simp: stream_Write_def split: list.splits write_outcome.splits)

text \<open>A stream only grows, whatever fails.\<close>

lemma stream_Write_out: "stream_Write bs w = (r, w') \<Longrightarrow> wi_out w' = wi_out w \<or> wi_out w' = wi_out w @ bs"
  by (auto simp: stream_Write_def split: list.splits write_outcome.splits)

lemma closed_WriteEnvelope: "wi_faults w = [StreamClosed] \<Longrightarrow> snd (WriteEnvelope P ev w) = w"
  by (simp add: WriteEnvelope_def stream_Write_def bind_e_def raise_def split: sum.splits)

lemma WriteEnvelope_ok:
  assumes "pb_MarshalEnvelope P env = Inr payload" "length payload \<le> MaxEnvelopeBytes" "wi_faults w = []"
  shows "WriteEnvelope P env w = (Inr (), w\<lparr>wi_out := wi_out w @ frame payload\<rparr>)"
  using assms by (simp add: WriteEnvelope_def bind_e_def stream_Write_ok frame_def)

text \<open>
  What the codec relies on of the protobuf library: an envelope that can be encoded is decoded
  to itself.
\<close>

definition pb_ok :: "pb \<Rightarrow> bool" where
  "pb_ok P \<longleftrightarrow> (\<forall>env payload. pb_MarshalEnvelope P env = Inr payload \<longrightarrow> pb_Envelope P payload = Inr env)"

text \<open>Writing several envelopes, until one fails.\<close>

fun write_all :: "pb \<Rightarrow> envelope list \<Rightarrow> (wire, err, unit) em" where
  "write_all P [] = ret ()"
| "write_all P (env # envs) = bind_e (WriteEnvelope P env) (\<lambda>_. write_all P envs)"

lemma WriteEnvelope_Inr:
  assumes "WriteEnvelope P env w = (Inr (), w')"
  obtains payload where "pb_MarshalEnvelope P env = Inr payload" "length payload \<le> MaxEnvelopeBytes"
    "wi_out w' = wi_out w @ frame payload"
  using assms unfolding WriteEnvelope_def
  by (auto simp: em_simps frame_def not_less dest!: stream_Write_Inr)

text \<open>A small codec on which the theorems are instantiated: envelopes without a body, one byte each.\<close>

definition ex_envelope :: "enum \<Rightarrow> envelope" where
  "ex_envelope ty = \<lparr>ev_Version = 1, ev_MsgType = ty, ev_RequestId = ''r1'', ev_TimestampMs = 100000, ev_Body = []\<rparr>"

definition ex_pb :: pb where
  "ex_pb = \<lparr>pb_Marshal = \<lambda>_. Inr [],
     pb_MarshalEnvelope = \<lambda>env. if env = ex_envelope (ev_MsgType env) \<and> 0 \<le> ev_MsgType env \<and> ev_MsgType env < 256
       then Inr [of_int (ev_MsgType env)] else Inl DriverErr,
     pb_Envelope = \<lambda>bs. case bs of [b] \<Rightarrow> Inr (ex_envelope (uint b)) | _ \<Rightarrow> Inl DriverErr,
     pb_Hello = \<lambda>_. Inr \<lparr>he_ClientPeerId = ''p1'', he_ClientAgent = [], he_ProtocolVersion = []\<rparr>,
     pb_AuthProve = \<lambda>_. Inl DriverErr, pb_Ping = \<lambda>_. Inr 7, pb_ListChannelsReq = \<lambda>_. Inr 1,
     pb_ListSpaceMembersReq = \<lambda>_. Inr \<lparr>lm_SpaceId = 1, lm_AfterMemberId = 0, lm_Limit = 1\<rparr>,
     pb_CreateSpaceReq = \<lambda>_. Inl DriverErr, pb_GetCreateSpacePermissionsReq = \<lambda>_. Inr (),
     pb_GetCreateGroupPermissionsReq = \<lambda>_. Inr 1, pb_SubscribeChannelReq = \<lambda>_. Inr 1,
     pb_UnsubscribeChannelReq = \<lambda>_. Inr 1, pb_AdminSetSpaceMemberRoleReq = \<lambda>_. Inl DriverErr,
     pb_AdminSetSpaceChannelCreationReq = \<lambda>_. Inr (1, False), pb_AdminSetGroupAutoDeleteReq = \<lambda>_. Inr (1, 60),
     pb_JoinSpaceReq = \<lambda>_. Inr 1, pb_InviteSpaceMemberReq = \<lambda>_. Inr (1, ''u_2''),
     pb_KickSpaceMemberReq = \<lambda>_. Inr (1, ''u_2''), pb_BanSpaceMemberReq = \<lambda>_. Inr (1, ''u_2''),
     pb_UnbanSpaceMemberReq = \<lambda>_. Inr (1, ''u_2''), pb_CreateGroupReq = \<lambda>_. Inl DriverErr,
     pb_CreateChannelReq = \<lambda>_. Inl DriverErr, pb_SendMessageReq = \<lambda>_. Inl DriverErr,
     pb_ChannelDeliverAck = \<lambda>_. Inr (1, 1), pb_ChannelReadUpdate = \<lambda>_. Inr (1, 1),
     pb_SyncChannelReq = \<lambda>_. Inl DriverErr, pb_OpenDirectConversationReq = \<lambda>_. Inr ''u_2'',
     pb_ListDirectConversationsReq = \<lambda>_. Inr (), pb_SendDirectMessageReq = \<lambda>_. Inl DriverErr,
     pb_AckDirectMessageReq = \<lambda>_. Inr ''dmmsg_1'', pb_SyncDirectMessagesReq = \<lambda>_. Inl DriverErr,
     pb_GetMediaReq = \<lambda>_. Inr ''media_1''\<rparr>"

lemma ex_pb_ok: "pb_ok ex_pb"
  unfolding pb_ok_def ex_pb_def by (auto simp: unsigned_of_int take_bit_eq_mod split: if_splits)

section \<open>Properties\<close>

text \<open>
  C21: whatever sequence of envelopes was written to a stream without an error, a client that
  reads the stream gets exactly these envelopes, in order, and then the regular end of the
  stream.
\<close>

theorem written_then_read:
  assumes "pb_ok P" "write_all P envs w = (Inr (), w')"
  shows "\<exists>bytes. wi_out w' = wi_out w @ bytes \<and> read_stream P bytes = (envs, EOF)"
  using assms(2)
proof (induction envs arbitrary: w)
  case Nil
  then show ?case by (simp add: read_stream.simps [of P "[]"] ReadEnvelope_def ReadFull_def bind_e_def)
next
  case (Cons env envs)
  then obtain w1 where one: "WriteEnvelope P env w = (Inr (), w1)" and rest: "write_all P envs w1 = (Inr (), w')"
    by (auto simp: em_simps)
  from one obtain payload where p: "pb_MarshalEnvelope P env = Inr payload" "length payload \<le> MaxEnvelopeBytes"
    and out: "wi_out w1 = wi_out w @ frame payload" by (rule WriteEnvelope_Inr)
  from Cons.IH [OF rest] obtain bytes where b: "wi_out w' = wi_out w1 @ bytes" "read_stream P bytes = (envs, EOF)"
    by blast
  have "pb_Envelope P payload = Inr env" using assms(1) p(1) by (simp add: pb_ok_def)
  then have "read_stream P (frame payload @ bytes) = (env # envs, EOF)"
    using p(2) b(2) by (simp add: read_stream.simps [of P "frame payload @ bytes"] ReadEnvelope_frame)
  then show ?case using b(1) out by (intro exI [of _ "frame payload @ bytes"]) simp
qed

theorem written_then_read_witness:
  "\<exists>bytes. read_stream ex_pb bytes = ([ex_envelope MsgType_PING, ex_envelope MsgType_HELLO], EOF)"
proof -
  have "write_all ex_pb [ex_envelope 10, ex_envelope 1] \<lparr>wi_faults = [], wi_out = []\<rparr> =
      (Inr (), \<lparr>wi_faults = [], wi_out = frame [10] @ frame [1]\<rparr>)"
    by (simp add: bind_e_def WriteEnvelope_ok MaxEnvelopeBytes_def ex_pb_def ex_envelope_def)
  from written_then_read [OF ex_pb_ok this] show ?thesis by blast
qed

text \<open>
  The limit on a payload holds on both sides. An envelope whose encoding is longer is
  refused before anything is written, and a length prefix above the limit is refused before
  any byte of the payload is read.
\<close>

theorem envelope_limit:
  assumes "pb_MarshalEnvelope P env = Inr payload" "MaxEnvelopeBytes < length payload"
    and "of_nat MaxEnvelopeBytes < n"
  shows "WriteEnvelope P env w = (Inl (wrap ''marshal envelope'' ErrEnvelopeTooLarge), w) \<and>
    (\<exists>e. ReadEnvelope P (be32 n @ rest) = (Inl e, rest) \<and> errors_is e ErrEnvelopeTooLarge)"
  using assms by (auto simp: WriteEnvelope_def ReadEnvelope_def bind_e_def Let_def)

theorem envelope_limit_witness:
  "\<exists>e. ReadEnvelope (ex_pb\<lparr>pb_MarshalEnvelope := \<lambda>_. Inr (replicate 8388609 0)\<rparr>) (be32 8388609 @ [1]) = (Inl e, [1]) \<and>
     errors_is e ErrEnvelopeTooLarge"
  using envelope_limit [of "ex_pb\<lparr>pb_MarshalEnvelope := \<lambda>_. Inr (replicate 8388609 0)\<rparr>" "ex_envelope 1"
      "replicate 8388609 0" 8388609]
  by (simp add: MaxEnvelopeBytes_def)

end
