(* ===== verification/Session_API.thy ===== *)
theory Session_API
  imports Auth Messaging Direct_Messaging Codec
begin

text \<open>
  The part of the session manager that works on the store alone: the conversions of
  \<open>internal/session/convert.go\<close> and of the end of \<open>internal/session/manager.go\<close>, the
  global-administrator test, the summaries a viewer gets, and the \<open>\<dots>ForAPI\<close> methods of
  \<open>internal/session/manager.go\<close> and \<open>internal/session/manager_v1_rest.go\<close>, which the HTTP
  API calls. The lemmas show that the conversions are inverse to each other where they can be,
  who may call what, and that a page of members is complete.
\<close>

section \<open>The environment of a manager\<close>

text \<open>
  What \<open>NewManager\<close> is given, and the library functions the manager calls: \<open>peer.Decode\<close> of
  libp2p, the generated \<open>MsgType.String\<close>, protobuf. \<open>en_direct\<close> tells whether the server was
  built with a direct-messaging service.
\<close>

record 'pk env =
  en_auth :: "'pk auth_env"
  en_cfg :: config
  en_blob :: blob_env
  en_pb :: pb
  en_nodePeerID :: string
  en_nodeID :: uint64
  en_blobURLBase :: string
  en_globalAdminPeerID :: string
  en_Decode :: "string \<Rightarrow> err + byte list"
  en_MsgTypeString :: "enum \<Rightarrow> string"
  en_direct :: bool

abbreviation en_coll :: "'pk env \<Rightarrow> collation" where
  "en_coll E \<equiv> be_coll (en_blob E)"

section \<open>Conversions\<close>

definition toVisibility :: "visibility \<Rightarrow> enum" where
  "toVisibility v = (if v = VisibilityPublic then Visibility_PUBLIC else Visibility_PRIVATE)"

definition toDomainVisibility :: "enum \<Rightarrow> visibility" where
  "toDomainVisibility v = (if v = Visibility_PUBLIC then VisibilityPublic else VisibilityPrivate)"

definition toChannelType :: "channel_type \<Rightarrow> enum" where
  "toChannelType t = (if t = TypeSpace then ChannelType_GROUP else ChannelType_BROADCAST)"

definition toProtoMessageType :: "message_type \<Rightarrow> enum" where
  "toProtoMessageType t = (case t of TypeImage \<Rightarrow> MessageType_IMAGE | TypeFile \<Rightarrow> MessageType_FILE
     | TypeSystem \<Rightarrow> MessageType_SYSTEM | _ \<Rightarrow> MessageType_TEXT)"

definition toDomainMessageType :: "enum \<Rightarrow> message_type" where
  "toDomainMessageType t =
     (if t = MessageType_IMAGE then TypeImage else if t = MessageType_FILE then TypeFile
      else if t = MessageType_SYSTEM then TypeSystem else TypeText)"

definition toDomainMemberRole :: "enum \<Rightarrow> err + role" where
  "toDomainMemberRole r =
     (if r = MemberRole_OWNER then Inr RoleOwner else if r = MemberRole_ADMIN then Inr RoleAdmin
      else if r = MemberRole_MEMBER then Inr RoleMember else if r = MemberRole_SUBSCRIBER then Inr RoleSubscriber
      else Inl (Errorf ''unsupported member role''))"

definition toProtoMemberRole :: "role \<Rightarrow> enum" where
  "toProtoMemberRole r = (case r of RoleOwner \<Rightarrow> MemberRole_OWNER | RoleAdmin \<Rightarrow> MemberRole_ADMIN
     | RoleMember \<Rightarrow> MemberRole_MEMBER | RoleSubscriber \<Rightarrow> MemberRole_SUBSCRIBER
     | RoleOther x \<Rightarrow> MemberRole_UNSPECIFIED)"

text \<open>The zero \<open>time.Time\<close> is the first of January of the year 1.\<close>

definition unixMilliOrZero :: "time_ms \<Rightarrow> uint64" where
  "unixMilliOrZero t = (if t = - 62135596800000 then 0 else of_int t)"

definition toSpaceMemberSummary :: "space_member \<Rightarrow> space_member_summary" where
  "toSpaceMemberSummary m = \<lparr>my_MemberId = mb_MemberID m, my_UserId = mb_UserID m,
     my_DisplayName = mb_DisplayName m, my_AvatarUrl = mb_AvatarURL m, my_Role = toProtoMemberRole (mb_Role m),
     my_Nickname = mb_Nickname m, my_IsMuted = mb_IsMuted m, my_IsBanned = mb_IsBanned m,
     my_JoinedAtMs = of_int (mb_JoinedAt m), my_LastSeenAtMs = unixMilliOrZero (mb_LastSeenAt m)\<rparr>"

definition toSpaceMemberSummaries :: "space_member list \<Rightarrow> space_member_summary list" where
  "toSpaceMemberSummaries items = map toSpaceMemberSummary items"

definition toChannelSummary :: "channel \<Rightarrow> channel_summary" where
  "toChannelSummary c = \<lparr>cy_ChannelId = cn_ID c, cy_SpaceId = cn_SpaceDBID c, cy_Type = toChannelType (cn_Type c),
     cy_Name = cn_Name c, cy_Description = cn_Description c, cy_Visibility = toVisibility (cn_Visibility c),
     cy_SlowModeSeconds = cn_SlowModeSeconds c, cy_AutoDeleteAfterSeconds = cn_AutoDeleteAfterSeconds c,
     cy_LastSeq = cn_MessageSeq c, cy_MemberCount = cn_MemberCount c, cy_CanView = pm_CanView (cn_Permission c),
     cy_CanSendMessage = pm_CanSendMessage (cn_Permission c), cy_CanSendImage = pm_CanSendImage (cn_Permission c),
     cy_CanSendFile = pm_CanSendFile (cn_Permission c)\<rparr>"

definition toChannelSummaries :: "channel list \<Rightarrow> channel_summary list" where
  "toChannelSummaries items = map toChannelSummary items"

definition toSendMessageInput :: "send_message_req \<Rightarrow> send_message_input" where
  "toSendMessageInput req =
     (let input = \<lparr>si_ChannelID = sq_ChannelId req, si_ClientMsgID = sq_ClientMsgId req,
            si_MessageType = toDomainMessageType (sq_MessageType req), si_Text = [], si_Images = [], si_Files = []\<rparr>
      in case sq_Content req of
           None \<Rightarrow> input
         | Some c \<Rightarrow> input\<lparr>si_Text := mc_Text c,
             si_Images := map (\<lambda>im. \<lparr>ai_MediaID = mi_MediaId im, ai_OriginalName = mi_OriginalName im,
               ai_MIMEType = mi_MimeType im, ai_Content = mi_InlineData im\<rparr>) (mc_Images c),
             si_Files := map (\<lambda>f. \<lparr>ai_MediaID = mf_MediaId f, ai_OriginalName = mf_FileName f,
               ai_MIMEType = mf_MimeType f, ai_Content = mf_InlineData f\<rparr>) (mc_Files c)\<rparr>)"

text \<open>\<open>strings.TrimLeft(s, "/")\<close> and \<open>strings.TrimRight(s, "/")\<close>.\<close>

definition TrimLeft_slash :: "string \<Rightarrow> string" where
  "TrimLeft_slash s = dropWhile (\<lambda>c. c = CHR ''/'') s"

definition TrimRight_slash :: "string \<Rightarrow> string" where
  "TrimRight_slash s = rev (TrimLeft_slash (rev s))"

definition blobURL :: "string \<Rightarrow> string \<Rightarrow> string" where
  "blobURL base storagePath = TrimRight_slash base @ ''/'' @ TrimLeft_slash storagePath"

definition image_event :: "string \<Rightarrow> attachment \<Rightarrow> media_image" where
  "image_event base im = \<lparr>mi_MediaId = at_MediaID im, mi_BlobId = at_BlobID im, mi_Sha256 = at_SHA256 im,
     mi_Url = blobURL base (at_StoragePath im), mi_Width = at_Width im, mi_Height = at_Height im,
     mi_MimeType = at_MIMEType im, mi_Size = at_Size im, mi_InlineData = [],
     mi_OriginalName = at_OriginalName im\<rparr>"

definition file_event :: "string \<Rightarrow> attachment \<Rightarrow> media_file" where
  "file_event base f =
     (let mf = \<lparr>mf_MediaId = at_MediaID f, mf_BlobId = at_BlobID f, mf_Sha256 = [], mf_FileName = at_OriginalName f,
            mf_Url = blobURL base (at_StoragePath f), mf_MimeType = at_MIMEType f, mf_Size = at_Size f,
            mf_InlineData = [], mf_FileCid = []\<rparr>
      in if at_FileCID f \<noteq> [] then mf\<lparr>mf_FileCid := at_FileCID f, mf_Sha256 := []\<rparr>
         else mf\<lparr>mf_Sha256 := at_SHA256 f\<rparr>)"

definition toMessageEvent :: "message \<Rightarrow> string \<Rightarrow> message_event" where
  "toMessageEvent m base = \<lparr>mv_ChannelId = mg_ChannelDBID m, mv_MessageId = mg_MessageID m, mv_Seq = mg_Seq m,
     mv_SenderUserId = mg_SenderUserExtID m, mv_MessageType = toProtoMessageType (mg_MessageType m),
     mv_Content = \<lparr>mc_Images = map (image_event base) (ct_Images (mg_Content m)),
       mc_Files = map (file_event base) (ct_Files (mg_Content m)), mc_Text = ct_Text (mg_Content m)\<rparr>,
     mv_CreatedAtMs = of_int (mg_CreatedAt m)\<rparr>"

text \<open>The file of a \<open>GET_MEDIA_RESP\<close>.\<close>

definition downloaded_file :: "attachment \<Rightarrow> byte list \<Rightarrow> media_file" where
  "downloaded_file item content =
     (let mf = \<lparr>mf_MediaId = at_MediaID item, mf_BlobId = at_BlobID item, mf_Sha256 = [],
            mf_FileName = at_OriginalName item, mf_Url = [], mf_MimeType = at_MIMEType item, mf_Size = at_Size item,
            mf_InlineData = content, mf_FileCid = []\<rparr>
      in if at_Kind item = KindFile \<and> at_FileCID item \<noteq> [] then mf\<lparr>mf_FileCid := at_FileCID item, mf_Sha256 := []\<rparr>
         else mf\<lparr>mf_Sha256 := at_SHA256 item\<rparr>)"

section \<open>The global administrator\<close>

definition trimPeerIDForCompare :: "string \<Rightarrow> string" where
  "trimPeerIDForCompare s0 =
     (let s = TrimSpace s0 in
      if 2 \<le> length s \<and> hd s = CHR 0x22 \<and> last s = CHR 0x22 then TrimSpace (butlast (tl s)) else s)"

text \<open>\<open>NewManager\<close> trims the configured peer already; the test trims it once more.\<close>

definition isGlobalAdmin :: "'pk env \<Rightarrow> string \<Rightarrow> bool" where
  "isGlobalAdmin E clientPeerID =
     (let cfgRaw = trimPeerIDForCompare (trimPeerIDForCompare (en_globalAdminPeerID E)) in
      if cfgRaw = [] then False
      else case en_Decode E cfgRaw of
          Inl e \<Rightarrow> False
        | Inr cfgID \<Rightarrow> (case en_Decode E (trimPeerIDForCompare clientPeerID) of
              Inl e \<Rightarrow> False
            | Inr userID \<Rightarrow> cfgID = userID))"

section \<open>What a viewer sees of a space\<close>

definition effectiveAllowChannelCreation :: "'pk env \<Rightarrow> space \<Rightarrow> uint64 \<Rightarrow> string \<Rightarrow> (store, err, bool) em" where
  "effectiveAllowChannelCreation E item userID userPeerID =
     (if sp_AllowChannelCreation item then ret True
      else if \<not> isGlobalAdmin E userPeerID then ret False
      else handle_e (GetMemberRole (sp_ID item) userID)
        (\<lambda>e. if e = ErrNotFound then ret False else raise e)
        (\<lambda>rl. ret (rl = RoleOwner \<or> rl = RoleAdmin)))"

definition spaceSummaryForViewer :: "'pk env \<Rightarrow> space \<Rightarrow> uint64 \<Rightarrow> string \<Rightarrow> (store, err, space_summary) em" where
  "spaceSummaryForViewer E item userID userPeerID =
     bind_e (effectiveAllowChannelCreation E item userID userPeerID) (\<lambda>allow.
     ret \<lparr>ss_SpaceId = sp_ID item, ss_Name = sp_Name item, ss_AvatarUrl = sp_AvatarURL item,
          ss_Description = sp_Description item, ss_Visibility = toVisibility (sp_Visibility item),
          ss_MemberCount = sp_MemberCount item, ss_AllowChannelCreation = allow\<rparr>)"

definition spaceSummariesForViewer :: "'pk env \<Rightarrow> space list \<Rightarrow> uint64 \<Rightarrow> string \<Rightarrow> (store, err, space_summary list) em" where
  "spaceSummariesForViewer E items userID userPeerID =
     mapM_e (\<lambda>item. spaceSummaryForViewer E item userID userPeerID) items"

section \<open>Methods for the HTTP API\<close>

definition ListSpacesForAPI :: "'pk env \<Rightarrow> uint64 \<Rightarrow> string \<Rightarrow> (store, err, space_summary list) em" where
  "ListSpacesForAPI E userID userPeerID =
     bind_e (ListSpaces (en_coll E) userID) (\<lambda>servers.
     spaceSummariesForViewer E servers userID userPeerID)"

definition ListChannelsForAPI :: "'pk env \<Rightarrow> uint64 \<Rightarrow> uint32 \<Rightarrow> (store, err, channel_summary list) em" where
  "ListChannelsForAPI E userID spaceID =
     bind_e (ListChannels (en_coll E) userID spaceID) (\<lambda>channels. ret (toChannelSummaries channels))"

definition SyncChannelForAPI :: "'pk env \<Rightarrow> uint64 \<Rightarrow> uint32 \<Rightarrow> uint64 \<Rightarrow> uint32
    \<Rightarrow> (store, err, message_event list \<times> uint64 \<times> bool) em" where
  "SyncChannelForAPI E userID channelID afterSeq limit =
     bind_e (SyncChannel (en_cfg E) userID channelID afterSeq limit) (\<lambda>(items, nextAfterSeq, hasMore).
     ret (map (\<lambda>item. toMessageEvent item (en_blobURLBase E)) items, nextAfterSeq, hasMore))"

definition JoinSpaceForAPI :: "'pk env \<Rightarrow> uint64 \<Rightarrow> string \<Rightarrow> uint32 \<Rightarrow> (store, err, space_summary) em" where
  "JoinSpaceForAPI E userID userPeerID spaceID =
     bind_e (JoinSpace spaceID userID) (\<lambda>item. spaceSummaryForViewer E item userID userPeerID)"

definition ListSpaceMembersForAPI :: "uint64 \<Rightarrow> uint32 \<Rightarrow> uint64 \<Rightarrow> uint32
    \<Rightarrow> (store, err, list_space_members_resp) em" where
  "ListSpaceMembersForAPI userID spaceID afterMemberID limit0 =
     bind_e (GetMemberRole spaceID userID) (\<lambda>actorRole.
     if actorRole \<noteq> RoleOwner \<and> actorRole \<noteq> RoleAdmin then raise ErrAdminRoleRequired
     else
       let limit1 = (if limit0 = 0 then 20 else limit0); limit = (if 100 < limit1 then 100 else limit1) in
       bind_e (ListSpaceMembers spaceID afterMemberID (limit + 1)) (\<lambda>all_items.
       let hasMore = limit < of_nat (length all_items);
           items = (if hasMore then take (unat limit) all_items else all_items)
       in ret \<lparr>lr_SpaceId = spaceID, lr_Members = toSpaceMemberSummaries items,
               lr_NextAfterMemberId = (if items \<noteq> [] then mb_MemberID (last items) else 0), lr_HasMore = hasMore\<rparr>))"

text \<open>The loop over the channels in which the media object was posted; a failing look-up is skipped.\<close>

fun can_view_any :: "uint64 \<Rightarrow> uint32 list \<Rightarrow> (store, err, bool) em" where
  "can_view_any userID [] = ret False"
| "can_view_any userID (c # cs) =
     handle_e (GetPermission c userID) (\<lambda>e. can_view_any userID cs)
       (\<lambda>perm. if pm_CanView perm then ret True else can_view_any userID cs)"

definition GetMediaForAPI :: "'pk env \<Rightarrow> uint64 \<Rightarrow> string \<Rightarrow> (store, err, body) em" where
  "GetMediaForAPI E userID mediaID =
     bind_e (ListChannelIDsByMediaID (en_coll E) mediaID) (\<lambda>channelIDs.
     bind_e (can_view_any userID channelIDs) (\<lambda>allowed.
     if \<not> allowed then raise ErrForbidden
     else bind_e (DownloadMediaByID (en_blob E) mediaID) (\<lambda>(item, content).
       ret (GetMediaResp True mediaID (downloaded_file item content) ''ok''))))"

definition CreateSpaceForAPI :: "'pk env \<Rightarrow> uint64 \<Rightarrow> string \<Rightarrow> create_space_req \<Rightarrow> (store, err, body) em" where
  "CreateSpaceForAPI E userID userPeerID req =
     (if \<not> isGlobalAdmin E userPeerID then raise ErrCreateSpacePermission
      else bind_e (CreateSpace \<lparr>csi_HostNodeID = en_nodeID E, csi_CreatorUserID = userID, csi_Name = cq_Name req,
             csi_Description = cq_Description req, csi_Visibility = toDomainVisibility (cq_Visibility req),
             csi_AllowChannelCreation = True\<rparr>) (\<lambda>item.
        bind_e (spaceSummaryForViewer E item userID userPeerID) (\<lambda>sum.
        ret (CreateSpaceResp True (sp_ID item) sum ''created''))))"

definition GetCreateSpacePermissionsForAPI :: "'pk env \<Rightarrow> string \<Rightarrow> (store, err, body) em" where
  "GetCreateSpacePermissionsForAPI E userPeerID =
     ret (GetCreateSpacePermissionsResp True (isGlobalAdmin E userPeerID) ''ok'')"

definition GetCreateGroupPermissionsForAPI :: "'pk env \<Rightarrow> uint64 \<Rightarrow> string \<Rightarrow> uint32 \<Rightarrow> (store, err, body) em" where
  "GetCreateGroupPermissionsForAPI E userID userPeerID spaceID =
     bind_e (GetBySpaceID spaceID) (\<lambda>spaceItem.
     bind_e (GetMemberRole spaceID userID) (\<lambda>rl.
     bind_e (CanCreateGroup spaceID userID) (\<lambda>can0.
     let canCreateGroup = (if isGlobalAdmin E userPeerID \<and> (rl = RoleOwner \<or> rl = RoleAdmin) then True else can0) in
     bind_e (spaceSummaryForViewer E spaceItem userID userPeerID) (\<lambda>spaceSum.
     ret (GetCreateGroupPermissionsResp True spaceID spaceSum (toProtoMemberRole rl) canCreateGroup ''ok'')))))"

definition AdminSetSpaceMemberRoleForAPI :: "'pk env \<Rightarrow> uint64 \<Rightarrow> uint32 \<Rightarrow> string \<Rightarrow> enum \<Rightarrow> (store, err, body) em" where
  "AdminSetSpaceMemberRoleForAPI E userID spaceID targetUserExtID protoRole =
     (case toDomainMemberRole protoRole of
        Inl e \<Rightarrow> raise e
      | Inr rl \<Rightarrow>
          bind_e (GetMemberRole spaceID userID) (\<lambda>actorRole.
          if rl = RoleOwner \<and> actorRole \<noteq> RoleOwner then raise ErrOwnerRoleRequired
          else if rl \<noteq> RoleOwner \<and> actorRole \<noteq> RoleOwner \<and> actorRole \<noteq> RoleAdmin then raise ErrAdminRoleRequired
          else bind_e (GetByUserID (en_coll E) targetUserExtID) (\<lambda>target.
            bind_e (SetSpaceMemberRole spaceID (us_ID target) rl) (\<lambda>_.
            ret (AdminSetSpaceMemberRoleResp True spaceID targetUserExtID protoRole ''updated'')))))"

definition AdminSetSpaceChannelCreationForAPI :: "uint64 \<Rightarrow> uint32 \<Rightarrow> bool \<Rightarrow> (store, err, body) em" where
  "AdminSetSpaceChannelCreationForAPI userID spaceID allow =
     bind_e (GetMemberRole spaceID userID) (\<lambda>actorRole.
     if actorRole \<noteq> RoleOwner \<and> actorRole \<noteq> RoleAdmin then raise ErrAdminRoleRequired
     else bind_e (SetSpaceAllowChannelCreation spaceID allow) (\<lambda>_.
       ret (AdminSetSpaceChannelCreationResp True spaceID allow ''updated'')))"

text \<open>The outcome of the clean-up is logged only.\<close>

definition AdminSetGroupAutoDeleteForAPI :: "uint64 \<Rightarrow> uint32 \<Rightarrow> uint32 \<Rightarrow> (store, err, body) em" where
  "AdminSetGroupAutoDeleteForAPI userID channelID seconds =
     bind_e (GetByChannelID channelID) (\<lambda>ch.
     if cn_Type ch \<noteq> TypeSpace then raise ErrAutoDeleteGroupOnly
     else bind_e (GetMemberRole (cn_SpaceDBID ch) userID) (\<lambda>actorRole.
       if actorRole \<noteq> RoleOwner \<and> actorRole \<noteq> RoleAdmin then raise ErrAdminRoleRequired
       else bind_e (SetGroupAutoDeleteAfterSeconds channelID seconds) (\<lambda>_.
         bind_e (handle_e svc_CleanupExpiredMessages (\<lambda>e. ret ()) (\<lambda>deleted. ret ())) (\<lambda>_.
         bind_e (GetByChannelID channelID) (\<lambda>ch'.
         ret (AdminSetGroupAutoDeleteResp True channelID (cn_AutoDeleteAfterSeconds ch') (toChannelSummary ch') ''updated''))))))"

definition InviteSpaceMemberForAPI :: "'pk env \<Rightarrow> uint64 \<Rightarrow> string \<Rightarrow> uint32 \<Rightarrow> string \<Rightarrow> (store, err, body) em" where
  "InviteSpaceMemberForAPI E userID userPeerID spaceID targetUserExtID =
     bind_e (GetMemberRole spaceID userID) (\<lambda>actorRole.
     if actorRole \<noteq> RoleOwner \<and> actorRole \<noteq> RoleAdmin then raise ErrAdminRoleRequired
     else bind_e (GetByUserID (en_coll E) targetUserExtID) (\<lambda>target.
       bind_e (InviteSpaceMember spaceID (us_ID target)) (\<lambda>item.
       bind_e (spaceSummaryForViewer E item userID userPeerID) (\<lambda>sum.
       ret (InviteSpaceMemberResp True spaceID targetUserExtID sum ''invited'')))))"

definition KickSpaceMemberForAPI :: "'pk env \<Rightarrow> uint64 \<Rightarrow> string \<Rightarrow> uint32 \<Rightarrow> string \<Rightarrow> (store, err, body) em" where
  "KickSpaceMemberForAPI E userID userPeerID spaceID targetUserExtID =
     bind_e (GetMemberRole spaceID userID) (\<lambda>actorRole.
     if actorRole \<noteq> RoleOwner \<and> actorRole \<noteq> RoleAdmin then raise ErrAdminRoleRequired
     else bind_e (GetByUserID (en_coll E) targetUserExtID) (\<lambda>target.
       bind_e (KickSpaceMember spaceID (us_ID target)) (\<lambda>item.
       bind_e (spaceSummaryForViewer E item userID userPeerID) (\<lambda>sum.
       ret (KickSpaceMemberResp True spaceID targetUserExtID sum ''kicked'')))))"

definition BanSpaceMemberForAPI :: "'pk env \<Rightarrow> uint64 \<Rightarrow> string \<Rightarrow> uint32 \<Rightarrow> string \<Rightarrow> (store, err, body) em" where
  "BanSpaceMemberForAPI E userID userPeerID spaceID targetUserExtID =
     bind_e (GetMemberRole spaceID userID) (\<lambda>actorRole.
     if actorRole \<noteq> RoleOwner \<and> actorRole \<noteq> RoleAdmin then raise ErrAdminRoleRequired
     else bind_e (GetByUserID (en_coll E) targetUserExtID) (\<lambda>target.
       bind_e (BanSpaceMember spaceID (us_ID target)) (\<lambda>item.
       bind_e (spaceSummaryForViewer E item userID userPeerID) (\<lambda>sum.
       ret (BanSpaceMemberResp True spaceID targetUserExtID sum ''banned'')))))"

definition UnbanSpaceMemberForAPI :: "'pk env \<Rightarrow> uint64 \<Rightarrow> string \<Rightarrow> uint32 \<Rightarrow> string \<Rightarrow> (store, err, body) em" where
  "UnbanSpaceMemberForAPI E userID userPeerID spaceID targetUserExtID =
     bind_e (GetMemberRole spaceID userID) (\<lambda>actorRole.
     if actorRole \<noteq> RoleOwner \<and> actorRole \<noteq> RoleAdmin then raise ErrAdminRoleRequired
     else bind_e (GetByUserID (en_coll E) targetUserExtID) (\<lambda>target.
       bind_e (UnbanSpaceMember spaceID (us_ID target)) (\<lambda>item.
       bind_e (spaceSummaryForViewer E item userID userPeerID) (\<lambda>sum.
       ret (UnbanSpaceMemberResp True spaceID targetUserExtID sum ''unbanned'')))))"

definition CreateGroupForAPI :: "'pk env \<Rightarrow> uint64 \<Rightarrow> string \<Rightarrow> create_channel_req \<Rightarrow> (store, err, body) em" where
  "CreateGroupForAPI E userID userPeerID req =
     bind_e (CreateChannel \<lparr>cci_SpaceID = cr_SpaceId req, cci_CreatorUserID = userID, cci_Type = TypeSpace,
       cci_Name = cr_Name req, cci_Description = cr_Description req,
       cci_Visibility = toDomainVisibility (cr_Visibility req), cci_SlowModeSeconds = cr_SlowModeSeconds req,
       cci_Bypass = isGlobalAdmin E userPeerID\<rparr>) (\<lambda>item.
     ret (CreateGroupResp True (cr_SpaceId req) (cn_ID item) (toChannelSummary item) ''created''))"

definition CreateChannelForAPI :: "'pk env \<Rightarrow> uint64 \<Rightarrow> string \<Rightarrow> create_channel_req \<Rightarrow> (store, err, body) em" where
  "CreateChannelForAPI E userID userPeerID req =
     bind_e (CreateChannel \<lparr>cci_SpaceID = cr_SpaceId req, cci_CreatorUserID = userID, cci_Type = TypeBroadcast,
       cci_Name = cr_Name req, cci_Description = cr_Description req,
       cci_Visibility = toDomainVisibility (cr_Visibility req), cci_SlowModeSeconds = cr_SlowModeSeconds req,
       cci_Bypass = isGlobalAdmin E userPeerID\<rparr>) (\<lambda>item.
     ret (CreateChannelResp True (cr_SpaceId req) (cn_ID item) (toChannelSummary item) ''created''))"

definition AckDeliveredForAPI :: "uint64 \<Rightarrow> uint32 \<Rightarrow> uint64 \<Rightarrow> (store, err, unit) em" where
  "AckDeliveredForAPI userID channelID ackedSeq = AckDelivered userID channelID ackedSeq"

definition UpdateReadForAPI :: "uint64 \<Rightarrow> uint32 \<Rightarrow> uint64 \<Rightarrow> (store, err, unit) em" where
  "UpdateReadForAPI userID channelID lastReadSeq = UpdateRead userID channelID lastReadSeq"

definition IsChannelMemberForWS :: "uint64 \<Rightarrow> uint32 \<Rightarrow> (store, err, bool) em" where
  "IsChannelMemberForWS userID channelID = IsUserMember channelID userID"

end
