(* ===== verification/Session.thy ===== *)
theory Session
  imports Session_API
begin

text \<open>
  The session manager, \<open>internal/session/manager.go\<close> and \<open>internal/session/realtime.go\<close>:
  the state of each stream session, the tables of subscriptions and of the sessions of each
  user, one definition for each case of \<open>dispatch\<close>, the deliveries, and the loop
  \<open>HandleStream\<close>.

  A session is known by a number in place of its address. A Go set of sessions
  (\<open>map[*ConnSession]struct{}\<close>) is a list without duplicates, and a missing entry of a map
  of sets is the empty list. Each session has its own outgoing stream with its own schedule
  of failing writes, so the order in which Go ranges over a set of sessions makes no
  difference. The locks of the manager make each of its table updates one step.
\<close>

section \<open>State\<close>

record conn_session =
  cs_authenticated :: bool
  cs_hello :: "hello option"
  cs_issuedChallenge :: "challenge option"
  cs_authResult :: "auth_result option"
  cs_subscribed :: "uint32 list"

definition new_session :: conn_session where
  "new_session = \<lparr>cs_authenticated = False, cs_hello = None, cs_issuedChallenge = None, cs_authResult = None,
     cs_subscribed = []\<rparr>"

text \<open>\<open>mn_delivered\<close> records the calls of \<open>RealtimeDeliver\<close>.\<close>

record manager =
  mn_store :: store
  mn_sessions :: "nat \<Rightarrow> conn_session"
  mn_wires :: "nat \<Rightarrow> wire"
  mn_subscriptions :: "uint32 \<Rightarrow> nat list"
  mn_realtimeSubs :: "uint32 \<Rightarrow> nat list"
  mn_directSessions :: "uint64 \<Rightarrow> nat list"
  mn_delivered :: "(nat \<times> uint32 \<times> message_event) list"

abbreviation set_insert :: "'a \<Rightarrow> 'a list \<Rightarrow> 'a list" where
  "set_insert x xs \<equiv> (if x \<in> set xs then xs else xs @ [x])"

abbreviation set_delete :: "'a \<Rightarrow> 'a list \<Rightarrow> 'a list" where
  "set_delete x xs \<equiv> filter (\<lambda>y. y \<noteq> x) xs"

definition in_store :: "(store, err, 'a) em \<Rightarrow> (manager, err, 'a) em" where
  "in_store m = lift_e mn_store (\<lambda>s M. M\<lparr>mn_store := s\<rparr>) m"

definition on_wire :: "nat \<Rightarrow> (wire, err, 'a) em \<Rightarrow> (manager, err, 'a) em" where
  "on_wire i m = lift_e (\<lambda>M. mn_wires M i) (\<lambda>w M. M\<lparr>mn_wires := (mn_wires M)(i := w)\<rparr>) m"

definition set_session :: "nat \<Rightarrow> (conn_session \<Rightarrow> conn_session) \<Rightarrow> manager \<Rightarrow> manager" where
  "set_session i f M = M\<lparr>mn_sessions := (mn_sessions M)(i := f (mn_sessions M i))\<rparr>"

definition modify :: "(manager \<Rightarrow> manager) \<Rightarrow> (manager, err, unit) em" where
  "modify f M = (Inr (), f M)"

section \<open>Writing\<close>

definition sess_write :: "'pk env \<Rightarrow> nat \<Rightarrow> enum \<Rightarrow> string \<Rightarrow> body \<Rightarrow> (manager, err, unit) em" where
  "sess_write E i msgType requestID msg =
     bind_e (in_store now) (\<lambda>nw.
     case NewEnvelope (en_pb E) nw msgType requestID msg of
       Inl e \<Rightarrow> raise e
     | Inr ev \<Rightarrow> on_wire i (WriteEnvelope (en_pb E) ev))"

definition writeError :: "'pk env \<Rightarrow> nat \<Rightarrow> string \<Rightarrow> uint32 \<Rightarrow> string \<Rightarrow> (manager, err, unit) em" where
  "writeError E i requestID code msg = sess_write E i MsgType_ERROR requestID (ErrorMsg code msg)"

text \<open>A loop of writes whose errors are logged only.\<close>

fun write_each :: "'pk env \<Rightarrow> nat list \<Rightarrow> enum \<Rightarrow> body \<Rightarrow> manager \<Rightarrow> manager" where
  "write_each E [] ty msg M = M"
| "write_each E (i # is) ty msg M = write_each E is ty msg (snd (sess_write E i ty [] msg M))"

section \<open>Subscriptions and deliveries\<close>

definition SubscribeChannel :: "nat \<Rightarrow> uint32 \<Rightarrow> manager \<Rightarrow> manager" where
  "SubscribeChannel i channelID M =
     set_session i (\<lambda>s. s\<lparr>cs_subscribed := set_insert channelID (cs_subscribed s)\<rparr>)
       (M\<lparr>mn_subscriptions := (mn_subscriptions M)(channelID := set_insert i (mn_subscriptions M channelID))\<rparr>)"

definition unsubscribe :: "nat \<Rightarrow> uint32 \<Rightarrow> manager \<Rightarrow> manager" where
  "unsubscribe i channelID M =
     set_session i (\<lambda>s. s\<lparr>cs_subscribed := set_delete channelID (cs_subscribed s)\<rparr>)
       (M\<lparr>mn_subscriptions := (mn_subscriptions M)(channelID := set_delete i (mn_subscriptions M channelID))\<rparr>)"

definition unregisterSession :: "nat \<Rightarrow> manager \<Rightarrow> manager" where
  "unregisterSession i M =
     (let M1 = (case cs_authResult (mn_sessions M i) of
            None \<Rightarrow> M
          | Some res \<Rightarrow> (let uid = us_ID (ar_User res) in
              M\<lparr>mn_directSessions := (mn_directSessions M)(uid := set_delete i (mn_directSessions M uid))\<rparr>))
      in M1\<lparr>mn_subscriptions := (\<lambda>c. if c \<in> set (cs_subscribed (mn_sessions M i))
            then set_delete i (mn_subscriptions M1 c) else mn_subscriptions M1 c)\<rparr>)"

definition registerDirectUserSession :: "nat \<Rightarrow> manager \<Rightarrow> manager" where
  "registerDirectUserSession i M =
     (case cs_authResult (mn_sessions M i) of
        None \<Rightarrow> M
      | Some res \<Rightarrow> (let uid = us_ID (ar_User res) in
          M\<lparr>mn_directSessions := (mn_directSessions M)(uid := set_insert i (mn_directSessions M uid))\<rparr>))"

definition RegisterRealtimeSubscriber :: "uint32 \<Rightarrow> nat \<Rightarrow> manager \<Rightarrow> manager" where
  "RegisterRealtimeSubscriber channelID sub M =
     M\<lparr>mn_realtimeSubs := (mn_realtimeSubs M)(channelID := set_insert sub (mn_realtimeSubs M channelID))\<rparr>"

definition UnregisterRealtimeSubscriber :: "uint32 \<Rightarrow> nat \<Rightarrow> manager \<Rightarrow> manager" where
  "UnregisterRealtimeSubscriber channelID sub M =
     M\<lparr>mn_realtimeSubs := (mn_realtimeSubs M)(channelID := set_delete sub (mn_realtimeSubs M channelID))\<rparr>"

definition UnregisterRealtimeSubscriberAll :: "nat \<Rightarrow> manager \<Rightarrow> manager" where
  "UnregisterRealtimeSubscriberAll sub M =
     M\<lparr>mn_realtimeSubs := (\<lambda>c. set_delete sub (mn_realtimeSubs M c))\<rparr>"

definition DeliverMessage :: "'pk env \<Rightarrow> uint32 \<Rightarrow> message \<Rightarrow> manager \<Rightarrow> manager" where
  "DeliverMessage E channelID msg M =
     (let event = toMessageEvent msg (en_blobURLBase E);
          M1 = write_each E (mn_subscriptions M channelID) MsgType_MESSAGE_EVENT (MessageEvent event) M
      in M1\<lparr>mn_delivered := mn_delivered M1 @ map (\<lambda>r. (r, channelID, event)) (mn_realtimeSubs M channelID)\<rparr>)"

definition deliverDirectMessageToUser :: "'pk env \<Rightarrow> uint64 \<Rightarrow> direct_message_event \<Rightarrow> manager \<Rightarrow> manager" where
  "deliverDirectMessageToUser E userID ev M =
     write_each E (mn_directSessions M userID) MsgType_DIRECT_MESSAGE_EVENT (DirectMessageEvent ev) M"

definition deliverDirectPeerAckToUser :: "'pk env \<Rightarrow> uint64 \<Rightarrow> direct_peer_ack \<Rightarrow> manager \<Rightarrow> manager" where
  "deliverDirectPeerAckToUser E userID ev M =
     write_each E (mn_directSessions M userID) MsgType_DIRECT_PEER_ACK_EVENT (DirectPeerAckEvent ev) M"

definition SendMessageForAPI :: "'pk env \<Rightarrow> uint64 \<Rightarrow> send_message_req \<Rightarrow> (manager, err, message) em" where
  "SendMessageForAPI E userID req =
     bind_e (in_store (SendMessage (en_cfg E) (en_blob E) userID (toSendMessageInput req))) (\<lambda>msg.
     bind_e (modify (DeliverMessage E (mg_ChannelDBID msg) msg)) (\<lambda>_. ret msg))"

section \<open>Authentication\<close>

text \<open>\<open>time.UnixMilli(int64(x))\<close>: the conversion of a \<open>uint64\<close> wraps to a signed number.\<close>

definition Authenticate :: "'pk env \<Rightarrow> nat \<Rightarrow> auth_prove \<Rightarrow> (manager, err, unit) em" where
  "Authenticate E i prove M =
     (if cs_issuedChallenge (mn_sessions M i) = None then raise (Errorf ''missing challenge'') M
      else bind_e (in_store (VerifyChallenge (en_auth E) (en_cfg E)
             \<lparr>vi_ClientPeerID = ap_ClientPeerId prove, vi_NodePeerID = en_nodePeerID E, vi_Nonce = ap_Nonce prove,
              vi_IssuedAt = sint (ap_IssuedAtMs prove), vi_ExpiresAt = sint (ap_ExpiresAtMs prove),
              vi_Signature = ap_Signature prove, vi_PublicKey = ap_PublicKey prove\<rparr>)) (\<lambda>result.
        modify (set_session i (\<lambda>s. s\<lparr>cs_authenticated := True, cs_authResult := Some result\<rparr>))) M)"

section \<open>The cases of dispatch\<close>

text \<open>
  Each handler takes the environment, the session, the user of its authentication result
  (where the case lies behind the gate) and the envelope.
\<close>

abbreviation request :: "(byte list \<Rightarrow> err + 'a) \<Rightarrow> envelope \<Rightarrow> (manager, err, 'a) em" where
  "request dec ev \<equiv> UnmarshalBody dec (ev_Body ev)"

definition handle_hello :: "'pk env \<Rightarrow> nat \<Rightarrow> envelope \<Rightarrow> (manager, err, unit) em" where
  "handle_hello E i ev =
     bind_e (request (pb_Hello (en_pb E)) ev) (\<lambda>hello.
     bind_e (modify (set_session i (\<lambda>s. s\<lparr>cs_hello := Some hello\<rparr>))) (\<lambda>_.
     bind_e (in_store (IssueChallenge (en_auth E) (en_cfg E) (he_ClientPeerId hello) (en_nodePeerID E))) (\<lambda>challenge.
     bind_e (modify (set_session i (\<lambda>s. s\<lparr>cs_issuedChallenge := Some challenge\<rparr>))) (\<lambda>_.
     sess_write E i MsgType_AUTH_CHALLENGE (ev_RequestId ev)
       (AuthChallengeMsg (cl_NodePeerID challenge) (cl_Nonce challenge) (of_int (cl_IssuedAt challenge))
          (of_int (cl_ExpiresAt challenge)) ''meshserver-session'')))))"

text \<open>The session's authentication result is there once \<open>Authenticate\<close> has succeeded.\<close>

definition handle_auth_prove :: "'pk env \<Rightarrow> nat \<Rightarrow> envelope \<Rightarrow> (manager, err, unit) em" where
  "handle_auth_prove E i ev =
     bind_e (request (pb_AuthProve (en_pb E)) ev) (\<lambda>prove.
     bind_e (Authenticate E i prove) (\<lambda>_ M.
     (case cs_authResult (mn_sessions M i) of
        None \<Rightarrow> raise (Errorf ''authentication required'')
      | Some res \<Rightarrow> (let u = ar_User res in
          bind_e (in_store (ListSpaces (en_coll E) (us_ID u))) (\<lambda>servers.
          bind_e (in_store (spaceSummariesForViewer E servers (us_ID u) (us_PeerID u))) (\<lambda>spaces.
          bind_e (modify (registerDirectUserSession i)) (\<lambda>_.
          sess_write E i MsgType_AUTH_RESULT (ev_RequestId ev)
            (AuthResultMsg True (ar_SessionID res) (us_UserID u) (us_DisplayName u) (ar_Message res) spaces)))))) M))"

definition handle_ping :: "'pk env \<Rightarrow> nat \<Rightarrow> envelope \<Rightarrow> (manager, err, unit) em" where
  "handle_ping E i ev =
     bind_e (request (pb_Ping (en_pb E)) ev) (\<lambda>nonce.
     sess_write E i MsgType_PONG (ev_RequestId ev) (PongMsg nonce))"

definition handle_list_spaces :: "'pk env \<Rightarrow> nat \<Rightarrow> user \<Rightarrow> envelope \<Rightarrow> (manager, err, unit) em" where
  "handle_list_spaces E i u ev =
     bind_e (in_store (ListSpaces (en_coll E) (us_ID u))) (\<lambda>servers.
     bind_e (in_store (spaceSummariesForViewer E servers (us_ID u) (us_PeerID u))) (\<lambda>spaces.
     sess_write E i MsgType_LIST_SPACES_RESP (ev_RequestId ev) (ListSpacesResp spaces)))"

definition handle_list_channels :: "'pk env \<Rightarrow> nat \<Rightarrow> user \<Rightarrow> envelope \<Rightarrow> (manager, err, unit) em" where
  "handle_list_channels E i u ev =
     bind_e (request (pb_ListChannelsReq (en_pb E)) ev) (\<lambda>spaceId.
     bind_e (in_store (ListChannels (en_coll E) (us_ID u) spaceId)) (\<lambda>channels.
     sess_write E i MsgType_LIST_CHANNELS_RESP (ev_RequestId ev) (ListChannelsResp spaceId (toChannelSummaries channels))))"

definition handle_list_space_members :: "'pk env \<Rightarrow> nat \<Rightarrow> user \<Rightarrow> envelope \<Rightarrow> (manager, err, unit) em" where
  "handle_list_space_members E i u ev =
     bind_e (request (pb_ListSpaceMembersReq (en_pb E)) ev) (\<lambda>req.
     bind_e (in_store (GetMemberRole (lm_SpaceId req) (us_ID u))) (\<lambda>actorRole.
     if actorRole \<noteq> RoleOwner \<and> actorRole \<noteq> RoleAdmin then raise (Errorf ''admin role required'')
     else
       let limit0 = lm_Limit req; limit1 = (if limit0 = 0 then 20 else limit0);
           limit = (if 100 < limit1 then 100 else limit1) in
       bind_e (in_store (ListSpaceMembers (lm_SpaceId req) (lm_AfterMemberId req) (limit + 1))) (\<lambda>all_items.
       let hasMore = limit < of_nat (length all_items);
           items = (if hasMore then take (unat limit) all_items else all_items)
       in sess_write E i MsgType_LIST_SPACE_MEMBERS_RESP (ev_RequestId ev)
            (ListSpaceMembersResp \<lparr>lr_SpaceId = lm_SpaceId req, lr_Members = toSpaceMemberSummaries items,
               lr_NextAfterMemberId = (if items \<noteq> [] then mb_MemberID (last items) else 0), lr_HasMore = hasMore\<rparr>))))"

definition handle_create_space :: "'pk env \<Rightarrow> nat \<Rightarrow> user \<Rightarrow> envelope \<Rightarrow> (manager, err, unit) em" where
  "handle_create_space E i u ev =
     bind_e (request (pb_CreateSpaceReq (en_pb E)) ev) (\<lambda>req.
     if \<not> isGlobalAdmin E (us_PeerID u) then raise (Errorf ''create space permission required'')
     else bind_e (in_store (CreateSpace \<lparr>csi_HostNodeID = en_nodeID E, csi_CreatorUserID = us_ID u, csi_Name = cq_Name req,
             csi_Description = cq_Description req, csi_Visibility = toDomainVisibility (cq_Visibility req),
             csi_AllowChannelCreation = True\<rparr>)) (\<lambda>item.
       bind_e (in_store (spaceSummaryForViewer E item (us_ID u) (us_PeerID u))) (\<lambda>sum.
       sess_write E i MsgType_CREATE_SPACE_RESP (ev_RequestId ev) (CreateSpaceResp True (sp_ID item) sum ''created''))))"

definition handle_create_space_permissions :: "'pk env \<Rightarrow> nat \<Rightarrow> user \<Rightarrow> envelope \<Rightarrow> (manager, err, unit) em" where
  "handle_create_space_permissions E i u ev =
     bind_e (request (pb_GetCreateSpacePermissionsReq (en_pb E)) ev) (\<lambda>req.
     let canCreateSpace = isGlobalAdmin E (us_PeerID u) in
     sess_write E i MsgType_GET_CREATE_SPACE_PERMISSIONS_RESP (ev_RequestId ev)
       (GetCreateSpacePermissionsResp True canCreateSpace ''ok''))"

definition handle_create_group_permissions :: "'pk env \<Rightarrow> nat \<Rightarrow> user \<Rightarrow> envelope \<Rightarrow> (manager, err, unit) em" where
  "handle_create_group_permissions E i u ev =
     bind_e (request (pb_GetCreateGroupPermissionsReq (en_pb E)) ev) (\<lambda>spaceId.
     bind_e (in_store (GetBySpaceID spaceId)) (\<lambda>spaceItem.
     bind_e (in_store (GetMemberRole spaceId (us_ID u))) (\<lambda>rl.
     bind_e (in_store (CanCreateGroup spaceId (us_ID u))) (\<lambda>can0.
     let canCreateGroup = (if isGlobalAdmin E (us_PeerID u) \<and> (rl = RoleOwner \<or> rl = RoleAdmin) then True else can0) in
     bind_e (in_store (spaceSummaryForViewer E spaceItem (us_ID u) (us_PeerID u))) (\<lambda>spaceSum.
     sess_write E i MsgType_GET_CREATE_GROUP_PERMISSIONS_RESP (ev_RequestId ev)
       (GetCreateGroupPermissionsResp True spaceId spaceSum (toProtoMemberRole rl) canCreateGroup ''ok''))))))"

definition handle_subscribe :: "'pk env \<Rightarrow> nat \<Rightarrow> user \<Rightarrow> envelope \<Rightarrow> (manager, err, unit) em" where
  "handle_subscribe E i u ev =
     bind_e (request (pb_SubscribeChannelReq (en_pb E)) ev) (\<lambda>channelId.
     bind_e (in_store (IsUserMember channelId (us_ID u))) (\<lambda>member.
     if \<not> member then raise (Errorf ''not a channel member'')
     else bind_e (in_store (GetByChannelID channelId)) (\<lambda>ch.
       bind_e (modify (SubscribeChannel i channelId)) (\<lambda>_.
       sess_write E i MsgType_SUBSCRIBE_CHANNEL_RESP (ev_RequestId ev)
         (SubscribeChannelResp True channelId (cn_MessageSeq ch) ''subscribed'')))))"

definition handle_unsubscribe :: "'pk env \<Rightarrow> nat \<Rightarrow> user \<Rightarrow> envelope \<Rightarrow> (manager, err, unit) em" where
  "handle_unsubscribe E i u ev =
     bind_e (request (pb_UnsubscribeChannelReq (en_pb E)) ev) (\<lambda>channelId.
     bind_e (modify (unsubscribe i channelId)) (\<lambda>_.
     sess_write E i MsgType_UNSUBSCRIBE_CHANNEL_RESP (ev_RequestId ev) (UnsubscribeChannelResp True channelId)))"

definition handle_set_member_role :: "'pk env \<Rightarrow> nat \<Rightarrow> user \<Rightarrow> envelope \<Rightarrow> (manager, err, unit) em" where
  "handle_set_member_role E i u ev =
     bind_e (request (pb_AdminSetSpaceMemberRoleReq (en_pb E)) ev) (\<lambda>req.
     case toDomainMemberRole (sr_Role req) of
       Inl e \<Rightarrow> raise e
     | Inr rl \<Rightarrow>
         bind_e (in_store (GetMemberRole (sr_SpaceId req) (us_ID u))) (\<lambda>actorRole.
         if rl = RoleOwner \<and> actorRole \<noteq> RoleOwner then raise (Errorf ''owner role required'')
         else if rl \<noteq> RoleOwner \<and> actorRole \<noteq> RoleOwner \<and> actorRole \<noteq> RoleAdmin then raise (Errorf ''admin role required'')
         else bind_e (in_store (GetByUserID (en_coll E) (sr_TargetUserId req))) (\<lambda>target.
           bind_e (in_store (SetSpaceMemberRole (sr_SpaceId req) (us_ID target) rl)) (\<lambda>_.
           sess_write E i MsgType_ADMIN_SET_SPACE_MEMBER_ROLE_RESP (ev_RequestId ev)
             (AdminSetSpaceMemberRoleResp True (sr_SpaceId req) (sr_TargetUserId req) (sr_Role req) ''updated'')))))"

definition handle_set_channel_creation :: "'pk env \<Rightarrow> nat \<Rightarrow> user \<Rightarrow> envelope \<Rightarrow> (manager, err, unit) em" where
  "handle_set_channel_creation E i u ev =
     bind_e (request (pb_AdminSetSpaceChannelCreationReq (en_pb E)) ev) (\<lambda>(spaceId, allow).
     bind_e (in_store (GetMemberRole spaceId (us_ID u))) (\<lambda>actorRole.
     if actorRole \<noteq> RoleOwner \<and> actorRole \<noteq> RoleAdmin then raise (Errorf ''admin role required'')
     else bind_e (in_store (SetSpaceAllowChannelCreation spaceId allow)) (\<lambda>_.
       sess_write E i MsgType_ADMIN_SET_SPACE_CHANNEL_CREATION_RESP (ev_RequestId ev)
         (AdminSetSpaceChannelCreationResp True spaceId allow ''updated''))))"

definition handle_set_auto_delete :: "'pk env \<Rightarrow> nat \<Rightarrow> user \<Rightarrow> envelope \<Rightarrow> (manager, err, unit) em" where
  "handle_set_auto_delete E i u ev =
     bind_e (request (pb_AdminSetGroupAutoDeleteReq (en_pb E)) ev) (\<lambda>(channelId, seconds).
     bind_e (in_store (GetByChannelID channelId)) (\<lambda>ch.
     if cn_Type ch \<noteq> TypeSpace then raise (Errorf ''auto delete is only supported for group channels'')
     else bind_e (in_store (GetMemberRole (cn_SpaceDBID ch) (us_ID u))) (\<lambda>actorRole.
       if actorRole \<noteq> RoleOwner \<and> actorRole \<noteq> RoleAdmin then raise (Errorf ''admin role required'')
       else bind_e (in_store (SetGroupAutoDeleteAfterSeconds channelId seconds)) (\<lambda>_.
         bind_e (handle_e (in_store svc_CleanupExpiredMessages) (\<lambda>e. ret ()) (\<lambda>deleted. ret ())) (\<lambda>_.
         bind_e (in_store (GetByChannelID channelId)) (\<lambda>ch'.
         sess_write E i MsgType_ADMIN_SET_GROUP_AUTO_DELETE_RESP (ev_RequestId ev)
           (AdminSetGroupAutoDeleteResp True channelId (cn_AutoDeleteAfterSeconds ch') (toChannelSummary ch') ''updated'')))))))"

definition handle_join :: "'pk env \<Rightarrow> nat \<Rightarrow> user \<Rightarrow> envelope \<Rightarrow> (manager, err, unit) em" where
  "handle_join E i u ev =
     bind_e (request (pb_JoinSpaceReq (en_pb E)) ev) (\<lambda>spaceId.
     bind_e (in_store (JoinSpace spaceId (us_ID u))) (\<lambda>item.
     bind_e (in_store (spaceSummaryForViewer E item (us_ID u) (us_PeerID u))) (\<lambda>sum.
     sess_write E i MsgType_JOIN_SPACE_RESP (ev_RequestId ev) (JoinSpaceResp True spaceId sum ''joined''))))"

definition handle_invite :: "'pk env \<Rightarrow> nat \<Rightarrow> user \<Rightarrow> envelope \<Rightarrow> (manager, err, unit) em" where
  "handle_invite E i u ev =
     bind_e (request (pb_InviteSpaceMemberReq (en_pb E)) ev) (\<lambda>(spaceId, targetUserId).
     bind_e (in_store (GetMemberRole spaceId (us_ID u))) (\<lambda>actorRole.
     if actorRole \<noteq> RoleOwner \<and> actorRole \<noteq> RoleAdmin then raise (Errorf ''admin role required'')
     else bind_e (in_store (GetByUserID (en_coll E) targetUserId)) (\<lambda>target.
       bind_e (in_store (InviteSpaceMember spaceId (us_ID target))) (\<lambda>item.
       bind_e (in_store (spaceSummaryForViewer E item (us_ID u) (us_PeerID u))) (\<lambda>sum.
       sess_write E i MsgType_INVITE_SPACE_MEMBER_RESP (ev_RequestId ev)
         (InviteSpaceMemberResp True spaceId targetUserId sum ''invited''))))))"

definition handle_kick :: "'pk env \<Rightarrow> nat \<Rightarrow> user \<Rightarrow> envelope \<Rightarrow> (manager, err, unit) em" where
  "handle_kick E i u ev =
     bind_e (request (pb_KickSpaceMemberReq (en_pb E)) ev) (\<lambda>(spaceId, targetUserId).
     bind_e (in_store (GetMemberRole spaceId (us_ID u))) (\<lambda>actorRole.
     if actorRole \<noteq> RoleOwner \<and> actorRole \<noteq> RoleAdmin then raise (Errorf ''admin role required'')
     else bind_e (in_store (GetByUserID (en_coll E) targetUserId)) (\<lambda>target.
       bind_e (in_store (KickSpaceMember spaceId (us_ID target))) (\<lambda>item.
       bind_e (in_store (spaceSummaryForViewer E item (us_ID u) (us_PeerID u))) (\<lambda>sum.
       sess_write E i MsgType_KICK_SPACE_MEMBER_RESP (ev_RequestId ev)
         (KickSpaceMemberResp True spaceId targetUserId sum ''kicked''))))))"

definition handle_ban :: "'pk env \<Rightarrow> nat \<Rightarrow> user \<Rightarrow> envelope \<Rightarrow> (manager, err, unit) em" where
  "handle_ban E i u ev =
     bind_e (request (pb_BanSpaceMemberReq (en_pb E)) ev) (\<lambda>(spaceId, targetUserId).
     bind_e (in_store (GetMemberRole spaceId (us_ID u))) (\<lambda>actorRole.
     if actorRole \<noteq> RoleOwner \<and> actorRole \<noteq> RoleAdmin then raise (Errorf ''admin role required'')
     else bind_e (in_store (GetByUserID (en_coll E) targetUserId)) (\<lambda>target.
       bind_e (in_store (BanSpaceMember spaceId (us_ID target))) (\<lambda>item.
       bind_e (in_store (spaceSummaryForViewer E item (us_ID u) (us_PeerID u))) (\<lambda>sum.
       sess_write E i MsgType_BAN_SPACE_MEMBER_RESP (ev_RequestId ev)
         (BanSpaceMemberResp True spaceId targetUserId sum ''banned''))))))"

definition handle_unban :: "'pk env \<Rightarrow> nat \<Rightarrow> user \<Rightarrow> envelope \<Rightarrow> (manager, err, unit) em" where
  "handle_unban E i u ev =
     bind_e (request (pb_UnbanSpaceMemberReq (en_pb E)) ev) (\<lambda>(spaceId, targetUserId).
     bind_e (in_store (GetMemberRole spaceId (us_ID u))) (\<lambda>actorRole.
     if actorRole \<noteq> RoleOwner \<and> actorRole \<noteq> RoleAdmin then raise (Errorf ''admin role required'')
     else bind_e (in_store (GetByUserID (en_coll E) targetUserId)) (\<lambda>target.
       bind_e (in_store (UnbanSpaceMember spaceId (us_ID target))) (\<lambda>item.
       bind_e (in_store (spaceSummaryForViewer E item (us_ID u) (us_PeerID u))) (\<lambda>sum.
       sess_write E i MsgType_UNBAN_SPACE_MEMBER_RESP (ev_RequestId ev)
         (UnbanSpaceMemberResp True spaceId targetUserId sum ''unbanned''))))))"

definition handle_create_group :: "'pk env \<Rightarrow> nat \<Rightarrow> user \<Rightarrow> envelope \<Rightarrow> (manager, err, unit) em" where
  "handle_create_group E i u ev =
     bind_e (request (pb_CreateGroupReq (en_pb E)) ev) (\<lambda>req.
     bind_e (in_store (CreateChannel \<lparr>cci_SpaceID = cr_SpaceId req, cci_CreatorUserID = us_ID u, cci_Type = TypeSpace,
       cci_Name = cr_Name req, cci_Description = cr_Description req,
       cci_Visibility = toDomainVisibility (cr_Visibility req), cci_SlowModeSeconds = cr_SlowModeSeconds req,
       cci_Bypass = isGlobalAdmin E (us_PeerID u)\<rparr>)) (\<lambda>item.
     sess_write E i MsgType_CREATE_GROUP_RESP (ev_RequestId ev)
       (CreateGroupResp True (cr_SpaceId req) (cn_ID item) (toChannelSummary item) ''created'')))"

definition handle_create_channel :: "'pk env \<Rightarrow> nat \<Rightarrow> user \<Rightarrow> envelope \<Rightarrow> (manager, err, unit) em" where
  "handle_create_channel E i u ev =
     bind_e (request (pb_CreateChannelReq (en_pb E)) ev) (\<lambda>req.
     bind_e (in_store (CreateChannel \<lparr>cci_SpaceID = cr_SpaceId req, cci_CreatorUserID = us_ID u, cci_Type = TypeBroadcast,
       cci_Name = cr_Name req, cci_Description = cr_Description req,
       cci_Visibility = toDomainVisibility (cr_Visibility req), cci_SlowModeSeconds = cr_SlowModeSeconds req,
       cci_Bypass = isGlobalAdmin E (us_PeerID u)\<rparr>)) (\<lambda>item.
     sess_write E i MsgType_CREATE_CHANNEL_RESP (ev_RequestId ev)
       (CreateChannelResp True (cr_SpaceId req) (cn_ID item) (toChannelSummary item) ''created'')))"

definition handle_send_message :: "'pk env \<Rightarrow> nat \<Rightarrow> user \<Rightarrow> envelope \<Rightarrow> (manager, err, unit) em" where
  "handle_send_message E i u ev =
     bind_e (request (pb_SendMessageReq (en_pb E)) ev) (\<lambda>req.
     bind_e (in_store (SendMessage (en_cfg E) (en_blob E) (us_ID u) (toSendMessageInput req))) (\<lambda>msg.
     bind_e (in_store now) (\<lambda>nw.
     bind_e (sess_write E i MsgType_SEND_MESSAGE_ACK (ev_RequestId ev)
       (SendMessageAck \<lparr>sa_Ok = True, sa_ChannelId = mg_ChannelDBID msg, sa_ClientMsgId = mg_ClientMsgID msg,
          sa_MessageId = mg_MessageID msg, sa_Seq = mg_Seq msg, sa_ServerTimeMs = of_int nw,
          sa_Message = ''stored''\<rparr>)) (\<lambda>_.
     modify (DeliverMessage E (mg_ChannelDBID msg) msg)))))"

definition handle_deliver_ack :: "'pk env \<Rightarrow> nat \<Rightarrow> user \<Rightarrow> envelope \<Rightarrow> (manager, err, unit) em" where
  "handle_deliver_ack E i u ev =
     bind_e (request (pb_ChannelDeliverAck (en_pb E)) ev) (\<lambda>(channelId, ackedSeq).
     in_store (AckDelivered (us_ID u) channelId ackedSeq))"

definition handle_read_update :: "'pk env \<Rightarrow> nat \<Rightarrow> user \<Rightarrow> envelope \<Rightarrow> (manager, err, unit) em" where
  "handle_read_update E i u ev =
     bind_e (request (pb_ChannelReadUpdate (en_pb E)) ev) (\<lambda>(channelId, lastReadSeq).
     in_store (UpdateRead (us_ID u) channelId lastReadSeq))"

definition handle_sync_channel :: "'pk env \<Rightarrow> nat \<Rightarrow> user \<Rightarrow> envelope \<Rightarrow> (manager, err, unit) em" where
  "handle_sync_channel E i u ev =
     bind_e (request (pb_SyncChannelReq (en_pb E)) ev) (\<lambda>req.
     bind_e (in_store (SyncChannel (en_cfg E) (us_ID u) (sy_ChannelId req) (sy_AfterSeq req) (sy_Limit req)))
       (\<lambda>(items, nextAfterSeq, hasMore).
     sess_write E i MsgType_SYNC_CHANNEL_RESP (ev_RequestId ev)
       (SyncChannelResp (sy_ChannelId req) (map (\<lambda>item. toMessageEvent item (en_blobURLBase E)) items)
          nextAfterSeq hasMore)))"

definition handle_open_direct :: "'pk env \<Rightarrow> nat \<Rightarrow> user \<Rightarrow> envelope \<Rightarrow> (manager, err, unit) em" where
  "handle_open_direct E i u ev =
     (if \<not> en_direct E then raise (Errorf ''direct messaging not available'')
      else bind_e (request (pb_OpenDirectConversationReq (en_pb E)) ev) (\<lambda>peerUserId.
        bind_e (in_store (OpenConversation (en_coll E) (us_ID u) peerUserId)) (\<lambda>resp.
        sess_write E i MsgType_OPEN_DIRECT_CONVERSATION_RESP (ev_RequestId ev) (OpenDirectConversationResp resp))))"

definition handle_list_direct :: "'pk env \<Rightarrow> nat \<Rightarrow> user \<Rightarrow> envelope \<Rightarrow> (manager, err, unit) em" where
  "handle_list_direct E i u ev =
     (if \<not> en_direct E then raise (Errorf ''direct messaging not available'')
      else bind_e (request (pb_ListDirectConversationsReq (en_pb E)) ev) (\<lambda>req.
        bind_e (in_store (ListConversations (us_ID u))) (\<lambda>resp.
        sess_write E i MsgType_LIST_DIRECT_CONVERSATIONS_RESP (ev_RequestId ev) (ListDirectConversationsResp resp))))"

definition handle_send_direct :: "'pk env \<Rightarrow> nat \<Rightarrow> user \<Rightarrow> envelope \<Rightarrow> (manager, err, unit) em" where
  "handle_send_direct E i u ev =
     (if \<not> en_direct E then raise (Errorf ''direct messaging not available'')
      else bind_e (request (pb_SendDirectMessageReq (en_pb E)) ev) (\<lambda>req.
        bind_e (in_store (SendDirectMessage (en_cfg E) (en_coll E) (us_ID u) req)) (\<lambda>(ack, event, recvID).
        bind_e (sess_write E i MsgType_SEND_DIRECT_MESSAGE_ACK (ev_RequestId ev) (SendDirectMessageAck ack)) (\<lambda>_.
        case event of
          Some evt \<Rightarrow> if recvID \<noteq> 0 then modify (deliverDirectMessageToUser E recvID evt) else ret ()
        | None \<Rightarrow> ret ()))))"

definition handle_ack_direct :: "'pk env \<Rightarrow> nat \<Rightarrow> user \<Rightarrow> envelope \<Rightarrow> (manager, err, unit) em" where
  "handle_ack_direct E i u ev =
     (if \<not> en_direct E then raise (Errorf ''direct messaging not available'')
      else bind_e (request (pb_AckDirectMessageReq (en_pb E)) ev) (\<lambda>messageId.
        bind_e (in_store (svc_AckDirectMessage (en_coll E) (us_ID u) messageId)) (\<lambda>(mid, peerEv, senderUID).
        bind_e (sess_write E i MsgType_ACK_DIRECT_MESSAGE_RESP (ev_RequestId ev) (AckDirectMessageResp True mid ''ok'')) (\<lambda>_.
        case peerEv of
          Some evt \<Rightarrow> if senderUID \<noteq> 0 then modify (deliverDirectPeerAckToUser E senderUID evt) else ret ()
        | None \<Rightarrow> ret ()))))"

definition handle_sync_direct :: "'pk env \<Rightarrow> nat \<Rightarrow> user \<Rightarrow> envelope \<Rightarrow> (manager, err, unit) em" where
  "handle_sync_direct E i u ev =
     (if \<not> en_direct E then raise (Errorf ''direct messaging not available'')
      else bind_e (request (pb_SyncDirectMessagesReq (en_pb E)) ev) (\<lambda>req.
        bind_e (in_store (SyncDirectMessages (en_coll E) (us_ID u) req)) (\<lambda>resp.
        sess_write E i MsgType_SYNC_DIRECT_MESSAGES_RESP (ev_RequestId ev) (SyncDirectMessagesResp resp))))"

definition handle_get_media :: "'pk env \<Rightarrow> nat \<Rightarrow> user \<Rightarrow> envelope \<Rightarrow> (manager, err, unit) em" where
  "handle_get_media E i u ev =
     bind_e (request (pb_GetMediaReq (en_pb E)) ev) (\<lambda>mediaId.
     bind_e (in_store (ListChannelIDsByMediaID (en_coll E) mediaId)) (\<lambda>channelIDs.
     bind_e (in_store (can_view_any (us_ID u) channelIDs)) (\<lambda>allowed.
     if \<not> allowed then raise (Errorf ''forbidden'')
     else bind_e (in_store (DownloadMediaByID (en_blob E) mediaId)) (\<lambda>(item, content).
       sess_write E i MsgType_GET_MEDIA_RESP (ev_RequestId ev)
         (GetMediaResp True mediaId (downloaded_file item content) ''ok'')))))"

section \<open>Dispatch\<close>

definition dispatch_authenticated :: "'pk env \<Rightarrow> nat \<Rightarrow> user \<Rightarrow> envelope \<Rightarrow> (manager, err, unit) em" where
  "dispatch_authenticated E i u ev =
     (let ty = ev_MsgType ev in
      if ty = MsgType_LIST_SPACES_REQ then handle_list_spaces E i u ev
      else if ty = MsgType_LIST_CHANNELS_REQ then handle_list_channels E i u ev
      else if ty = MsgType_LIST_SPACE_MEMBERS_REQ then handle_list_space_members E i u ev
      else if ty = MsgType_CREATE_SPACE_REQ then handle_create_space E i u ev
      else if ty = MsgType_GET_CREATE_SPACE_PERMISSIONS_REQ then handle_create_space_permissions E i u ev
      else if ty = MsgType_GET_CREATE_GROUP_PERMISSIONS_REQ then handle_create_group_permissions E i u ev
      else if ty = MsgType_SUBSCRIBE_CHANNEL_REQ then handle_subscribe E i u ev
      else if ty = MsgType_UNSUBSCRIBE_CHANNEL_REQ then handle_unsubscribe E i u ev
      else if ty = MsgType_ADMIN_SET_SPACE_MEMBER_ROLE_REQ then handle_set_member_role E i u ev
      else if ty = MsgType_ADMIN_SET_SPACE_CHANNEL_CREATION_REQ then handle_set_channel_creation E i u ev
      else if ty = MsgType_ADMIN_SET_GROUP_AUTO_DELETE_REQ then handle_set_auto_delete E i u ev
      else if ty = MsgType_JOIN_SPACE_REQ then handle_join E i u ev
      else if ty = MsgType_INVITE_SPACE_MEMBER_REQ then handle_invite E i u ev
      else if ty = MsgType_KICK_SPACE_MEMBER_REQ then handle_kick E i u ev
      else if ty = MsgType_BAN_SPACE_MEMBER_REQ then handle_ban E i u ev
      else if ty = MsgType_UNBAN_SPACE_MEMBER_REQ then handle_unban E i u ev
      else if ty = MsgType_CREATE_GROUP_REQ then handle_create_group E i u ev
      else if ty = MsgType_CREATE_CHANNEL_REQ then handle_create_channel E i u ev
      else if ty = MsgType_SEND_MESSAGE_REQ then handle_send_message E i u ev
      else if ty = MsgType_CHANNEL_DELIVER_ACK then handle_deliver_ack E i u ev
      else if ty = MsgType_CHANNEL_READ_UPDATE then handle_read_update E i u ev
      else if ty = MsgType_SYNC_CHANNEL_REQ then handle_sync_channel E i u ev
      else if ty = MsgType_OPEN_DIRECT_CONVERSATION_REQ then handle_open_direct E i u ev
      else if ty = MsgType_LIST_DIRECT_CONVERSATIONS_REQ then handle_list_direct E i u ev
      else if ty = MsgType_SEND_DIRECT_MESSAGE_REQ then handle_send_direct E i u ev
      else if ty = MsgType_ACK_DIRECT_MESSAGE_REQ then handle_ack_direct E i u ev
      else if ty = MsgType_SYNC_DIRECT_MESSAGES_REQ then handle_sync_direct E i u ev
      else if ty = MsgType_GET_MEDIA_REQ then handle_get_media E i u ev
      else raise (Errorf (''unsupported message type '' @ en_MsgTypeString E ty)))"

definition dispatch :: "'pk env \<Rightarrow> nat \<Rightarrow> envelope \<Rightarrow> (manager, err, unit) em" where
  "dispatch E i ev M =
     (if ev_MsgType ev = MsgType_HELLO then handle_hello E i ev
      else if ev_MsgType ev = MsgType_AUTH_PROVE then handle_auth_prove E i ev
      else if ev_MsgType ev = MsgType_PING then handle_ping E i ev
      else case cs_authResult (mn_sessions M i) of
          None \<Rightarrow> raise (Errorf ''authentication required'')
        | Some res \<Rightarrow>
            if \<not> cs_authenticated (mn_sessions M i) then raise (Errorf ''authentication required'')
            else dispatch_authenticated E i (ar_User res) ev) M"

section \<open>The loop of a stream\<close>

text \<open>One turn of the loop: a request and, when it fails, the \<open>ERROR\<close> frame.\<close>

definition serve :: "'pk env \<Rightarrow> nat \<Rightarrow> envelope \<Rightarrow> manager \<Rightarrow> manager" where
  "serve E i ev M =
     (case dispatch E i ev M of
        (Inr _, M') \<Rightarrow> M'
      | (Inl e, M') \<Rightarrow> snd (writeError E i (ev_RequestId ev) 400 (error_text e) M'))"

text \<open>The loop, on the bytes the peer sends before it closes the stream.\<close>

function serve_stream :: "'pk env \<Rightarrow> nat \<Rightarrow> byte list \<Rightarrow> manager \<Rightarrow> manager" where
  "serve_stream E i inp M =
     (case ReadEnvelope (en_pb E) inp of
        (Inl e, _) \<Rightarrow> M
      | (Inr ev, rest) \<Rightarrow> serve_stream E i rest (serve E i ev M))"
  by pat_completeness auto
termination
  by (relation "measure (\<lambda>(E, i, inp, M). length inp)") (auto dest!: ReadEnvelope_shrinks [OF sym])

declare serve_stream.simps [simp del]

text \<open>What \<open>HandleStream\<close> has deferred.\<close>

definition end_session :: "nat \<Rightarrow> manager \<Rightarrow> manager" where
  "end_session i M =
     (let M = unregisterSession i M in M\<lparr>mn_wires := (mn_wires M)(i := stream_Close (mn_wires M i))\<rparr>)"

definition HandleStream :: "'pk env \<Rightarrow> nat \<Rightarrow> byte list \<Rightarrow> manager \<Rightarrow> manager" where
  "HandleStream E i inp M =
     end_session i (serve_stream E i inp (set_session i (\<lambda>_. new_session) M))"

section \<open>Lemmas: what each part of the manager can change\<close>

text \<open>Predicates that do not look at the store, or not at the streams.\<close>

definition store_free :: "(manager \<Rightarrow> bool) \<Rightarrow> bool" where
  "store_free P \<longleftrightarrow> (\<forall>M s. P (M\<lparr>mn_store := s\<rparr>) = P M)"

definition wire_free :: "(manager \<Rightarrow> bool) \<Rightarrow> bool" where
  "wire_free P \<longleftrightarrow> (\<forall>M w. P (M\<lparr>mn_wires := w\<rparr>) = P M)"

definition on_store :: "(store \<Rightarrow> bool) \<Rightarrow> manager \<Rightarrow> bool" where
  "on_store I M = I (mn_store M)"

lemma in_store_iff [em_simps]:
  "in_store m M = (r, M') \<longleftrightarrow> (\<exists>s'. m (mn_store M) = (r, s') \<and> M' = M\<lparr>mn_store := s'\<rparr>)"
  by (simp add: in_store_def lift_e_iff)

lemma on_wire_iff [em_simps]:
  "on_wire i m M = (r, M') \<longleftrightarrow> (\<exists>w. m (mn_wires M i) = (r, w) \<and> M' = M\<lparr>mn_wires := (mn_wires M)(i := w)\<rparr>)"
  by (simp add: on_wire_def lift_e_iff)

lemma modify_iff [em_simps]: "modify f M = (r, M') \<longleftrightarrow> r = Inr () \<and> M' = f M"
  by (auto simp: modify_def)

lemma manager_same_store [simp]: "M\<lparr>mn_store := mn_store M\<rparr> = M"
  by simp

lemma in_store_now [simp]: "in_store now M = (Inr (now_ms (mn_store M)), M)"
  by (simp add: in_store_def lift_e_def now_def)

lemma sess_write_eq:
  "sess_write E i ty rq b M =
     (case NewEnvelope (en_pb E) (now_ms (mn_store M)) ty rq b of
        Inl e \<Rightarrow> (Inl e, M) | Inr ev \<Rightarrow> on_wire i (WriteEnvelope (en_pb E) ev) M)"
  by (simp add: sess_write_def bind_e_def raise_def split: sum.splits)

lemma sess_write_frame:
  assumes "sess_write E i ty rq b M = (r, M')"
  obtains w where "M' = M\<lparr>mn_wires := (mn_wires M)(i := w)\<rparr>"
proof (cases "NewEnvelope (en_pb E) (now_ms (mn_store M)) ty rq b")
  case (Inl e)
  with assms have "M' = M\<lparr>mn_wires := (mn_wires M)(i := mn_wires M i)\<rparr>" by (simp add: sess_write_eq)
  then show ?thesis by (rule that)
next
  case (Inr ev)
  with assms that show ?thesis by (auto simp: sess_write_eq on_wire_iff)
qed

lemma snd_sess_write: "\<exists>w. snd (sess_write E i ty rq b M) = M\<lparr>mn_wires := (mn_wires M)(i := w)\<rparr>"
  by (metis sess_write_frame surjective_pairing)

lemma keeps_in_store [keeps_intros]: "store_free P \<Longrightarrow> keeps P (in_store m)"
  by (auto simp: keeps_def store_free_def in_store_def lift_e_def split: prod.splits)

lemma keeps_on_store [keeps_intros]: "keeps I m \<Longrightarrow> keeps (on_store I) (in_store m)"
  by (auto simp: keeps_def on_store_def in_store_def lift_e_def split: prod.splits)

lemma keeps_sess_write [keeps_intros]: "wire_free P \<Longrightarrow> keeps P (sess_write E i ty rq b)"
  by (rule keepsI) (metis snd_sess_write wire_free_def)

lemma keeps_writeError [keeps_intros]: "wire_free P \<Longrightarrow> keeps P (writeError E i rq code msg)"
  unfolding writeError_def by (rule keeps_sess_write)

lemma keeps_modify [keeps_intros]: "(\<And>M. P M \<Longrightarrow> P (f M)) \<Longrightarrow> keeps P (modify f)"
  by (simp add: keeps_def modify_def)

lemma keeps_UnmarshalBody [keeps_intros]: "keeps P (UnmarshalBody dec d)"
  unfolding UnmarshalBody_def by (intro keeps_intros)

lemma on_store_free [simp, intro]: "wire_free (on_store I)"
  by (simp add: wire_free_def on_store_def)

lemma write_each_frame: "\<exists>w. write_each E is ty b M = M\<lparr>mn_wires := w\<rparr> \<and> (\<forall>j. j \<notin> set is \<longrightarrow> w j = mn_wires M j)"
proof (induction "is" arbitrary: M)
  case Nil
  have "write_each E [] ty b M = M\<lparr>mn_wires := mn_wires M\<rparr>" by simp
  then show ?case by blast
next
  case (Cons i "is")
  obtain w where w: "snd (sess_write E i ty [] b M) = M\<lparr>mn_wires := (mn_wires M)(i := w)\<rparr>" using snd_sess_write by blast
  from Cons [of "M\<lparr>mn_wires := (mn_wires M)(i := w)\<rparr>"] show ?case by (auto simp: w)
qed

lemma write_each_keeps: "wire_free P \<Longrightarrow> P (write_each E is ty b M) = P M"
  using write_each_frame [of E "is" ty b M] by (auto simp: wire_free_def)

text \<open>
  The tables of sessions: who is entered as a subscriber has the channel in its own set, and
  who is entered for direct messages or subscribed anywhere is authenticated.
\<close>

definition sessions_ok :: "manager \<Rightarrow> bool" where
  "sessions_ok M \<longleftrightarrow>
     (\<forall>c. distinct (mn_subscriptions M c) \<and> distinct (mn_realtimeSubs M c)) \<and>
     (\<forall>u. distinct (mn_directSessions M u)) \<and>
     (\<forall>c i. i \<in> set (mn_subscriptions M c) \<longrightarrow> c \<in> set (cs_subscribed (mn_sessions M i))) \<and>
     (\<forall>u i. i \<in> set (mn_directSessions M u) \<longrightarrow> cs_authenticated (mn_sessions M i)) \<and>
     (\<forall>i. cs_subscribed (mn_sessions M i) \<noteq> [] \<longrightarrow> cs_authenticated (mn_sessions M i)) \<and>
     (\<forall>i. cs_authenticated (mn_sessions M i) \<longrightarrow> cs_authResult (mn_sessions M i) \<noteq> None)"

definition gated :: "nat \<Rightarrow> manager \<Rightarrow> bool" where
  "gated i M \<longleftrightarrow> sessions_ok M \<and> cs_authenticated (mn_sessions M i)"

lemma session_preds_free [simp, intro]:
  "store_free sessions_ok" "wire_free sessions_ok" "store_free (gated i)" "wire_free (gated i)"
  by (simp_all add: store_free_def wire_free_def gated_def sessions_ok_def)

lemma distinct_set_insert [simp]: "distinct (set_insert x xs) = distinct xs"
  by auto

lemma set_set_insert [simp]: "set (set_insert x xs) = insert x (set xs)"
  by auto

lemma SubscribeChannel_ok: "gated i M \<Longrightarrow> gated i (SubscribeChannel i c M)"
  by (auto simp: gated_def sessions_ok_def SubscribeChannel_def set_session_def)

lemma unsubscribe_ok: "gated i M \<Longrightarrow> gated i (unsubscribe i c M)"
  by (auto simp: gated_def sessions_ok_def unsubscribe_def set_session_def)

lemma DeliverMessage_keeps:
  "wire_free P \<Longrightarrow> (\<And>M d. P (M\<lparr>mn_delivered := d\<rparr>) = P M) \<Longrightarrow> P (DeliverMessage E c m M) = P M"
  by (simp add: DeliverMessage_def Let_def write_each_keeps)

lemma DeliverMessage_gated [simp]: "gated i (DeliverMessage E c m M) = gated i M"
  by (rule DeliverMessage_keeps) (rule session_preds_free, simp add: gated_def sessions_ok_def)

lemma deliver_direct_gated [simp]:
  "gated i (deliverDirectMessageToUser E u e M) = gated i M" "gated i (deliverDirectPeerAckToUser E u a M) = gated i M"
  unfolding deliverDirectMessageToUser_def deliverDirectPeerAckToUser_def by (simp_all add: write_each_keeps)

lemmas handler_defs =
  handle_list_spaces_def handle_list_channels_def handle_list_space_members_def handle_create_space_def
  handle_create_space_permissions_def handle_create_group_permissions_def handle_subscribe_def
  handle_unsubscribe_def handle_set_member_role_def handle_set_channel_creation_def
  handle_set_auto_delete_def handle_join_def handle_invite_def handle_kick_def handle_ban_def
  handle_unban_def handle_create_group_def handle_create_channel_def handle_send_message_def
  handle_deliver_ack_def handle_read_update_def handle_sync_channel_def handle_open_direct_def
  handle_list_direct_def handle_send_direct_def handle_ack_direct_def handle_sync_direct_def handle_get_media_def

text \<open>No request behind the gate spoils the tables of sessions or ends the authentication.\<close>

lemma keeps_dispatch_gated: "keeps (gated i) (dispatch_authenticated E i u ev)"
  unfolding dispatch_authenticated_def Let_def handler_defs
  by (intro keeps_intros session_preds_free) (simp_all add: SubscribeChannel_ok unsubscribe_ok)

lemma Authenticate_ok: "keeps sessions_ok (Authenticate E i prove)"
  unfolding Authenticate_def
  by (auto simp: keeps_def bind_e_def raise_def modify_def in_store_def lift_e_def set_session_def sessions_ok_def
      split: prod.splits sum.splits)

lemma registerDirect_ok:
  "sessions_ok M \<Longrightarrow> cs_authenticated (mn_sessions M i) \<Longrightarrow> sessions_ok (registerDirectUserSession i M)"
  by (auto simp: registerDirectUserSession_def sessions_ok_def Let_def split: option.splits)


lemma keeps_handle_auth_prove: "keeps sessions_ok (handle_auth_prove E i ev)"
proof -
  have reg: "keeps (gated i) (modify (registerDirectUserSession i))"
  proof (rule keeps_modify)
    fix M assume "gated i M"
    moreover have "mn_sessions (registerDirectUserSession i M) = mn_sessions M"
      by (simp add: registerDirectUserSession_def Let_def split: option.splits)
    ultimately show "gated i (registerDirectUserSession i M)" by (simp add: gated_def registerDirect_ok)
  qed
  have rest: "keeps (gated i) (bind_e (in_store (ListSpaces (en_coll E) (us_ID u))) (\<lambda>servers.
      bind_e (in_store (spaceSummariesForViewer E servers (us_ID u) (us_PeerID u))) (\<lambda>spaces.
      bind_e (modify (registerDirectUserSession i)) (\<lambda>_. sess_write E i ty rq (b spaces)))))" for u ty rq b
    by (intro keeps_intros session_preds_free reg)
  have auth: "gated i M'" if "sessions_ok M" "Authenticate E i prove M = (Inr x, M')" for M M' prove x
    using that keepsD2 [OF Authenticate_ok that(2,1)]
    by (auto simp: Authenticate_def bind_e_def raise_def modify_def in_store_def lift_e_def set_session_def gated_def
        split: prod.splits sum.splits if_splits)
  show ?thesis
    unfolding handle_auth_prove_def
  proof (rule keeps_bind [OF keeps_UnmarshalBody], rule keepsI)
    fix prove M assume M: "sessions_ok M"
    show "sessions_ok (snd (bind_e (Authenticate E i prove) (\<lambda>_ M.
        (case cs_authResult (mn_sessions M i) of
           None \<Rightarrow> raise (Errorf ''authentication required'')
         | Some res \<Rightarrow> (let u = ar_User res in
             bind_e (in_store (ListSpaces (en_coll E) (us_ID u))) (\<lambda>servers.
             bind_e (in_store (spaceSummariesForViewer E servers (us_ID u) (us_PeerID u))) (\<lambda>spaces.
             bind_e (modify (registerDirectUserSession i)) (\<lambda>_.
             sess_write E i MsgType_AUTH_RESULT (ev_RequestId ev)
               (AuthResultMsg True (ar_SessionID res) (us_UserID u) (us_DisplayName u) (ar_Message res) spaces)))))) M) M))"
    proof (cases "Authenticate E i prove M")
      case (Pair r M1)
      show ?thesis
      proof (cases r)
        case (Inl e)
        with Pair keepsD2 [OF Authenticate_ok Pair M] show ?thesis by (simp add: bind_e_def)
      next
        case (Inr x)
        with Pair auth [OF M] have "gated i M1" by simp
        with Pair Inr show ?thesis
          using keepsD [OF rest \<open>gated i M1\<close>] by (auto simp: bind_e_def [of "Authenticate E i prove"] raise_def Let_def gated_def split: option.splits)
      qed
    qed
  qed
qed

lemma keeps_dispatch_ok: "keeps sessions_ok (dispatch E i ev)"
proof (rule keepsI)
  fix M assume M: "sessions_ok M"
  have hello: "keeps sessions_ok (handle_hello E i ev)"
    unfolding handle_hello_def
    by (intro keeps_intros session_preds_free) (auto simp: set_session_def sessions_ok_def)
  have ping: "keeps sessions_ok (handle_ping E i ev)"
    unfolding handle_ping_def by (intro keeps_intros session_preds_free)
  show "sessions_ok (snd (dispatch E i ev M))"
    using M keepsD [OF hello M] keepsD [OF ping M] keepsD [OF keeps_handle_auth_prove M]
      keepsD [OF keeps_dispatch_gated, of i M E] 
    by (auto simp: dispatch_def gated_def raise_def split: option.splits)
qed

lemma serve_ok: "sessions_ok M \<Longrightarrow> sessions_ok (serve E i ev M)"
  using keepsD [OF keeps_dispatch_ok, of M E i ev] keepsD [OF keeps_writeError, of sessions_ok]
  by (auto simp: serve_def split: prod.splits sum.splits)

lemma unregisterSession_ok: "sessions_ok M \<Longrightarrow> sessions_ok (unregisterSession i M)"
  by (auto simp: unregisterSession_def sessions_ok_def Let_def split: option.splits)

lemma end_session_ok: "sessions_ok M \<Longrightarrow> sessions_ok (end_session i M)"
  using unregisterSession_ok [of M i] by (simp add: end_session_def Let_def sessions_ok_def)

lemma serve_stream_ok: "sessions_ok M \<Longrightarrow> sessions_ok (serve_stream E i inp M)"
proof (induction E i inp M rule: serve_stream.induct)
  case (1 E i inp M)
  then show ?case
    by (subst serve_stream.simps) (auto simp: serve_ok split: prod.splits sum.splits)
qed

text \<open>
  A closed stream: no request of any session and no delivery writes to it, whoever still
  lists its session.
\<close>

definition closed_stream :: "nat \<Rightarrow> wire \<Rightarrow> manager \<Rightarrow> bool" where
  "closed_stream i w M \<longleftrightarrow> mn_wires M i = w \<and> wi_faults w = [StreamClosed]"

lemma closed_store_free [simp, intro]: "store_free (closed_stream i w)"
  by (simp add: store_free_def closed_stream_def)

lemma closed_sess_write: "closed_stream i w M \<Longrightarrow> closed_stream i w (snd (sess_write E j ty rq b M))"
  using closed_WriteEnvelope [of w "en_pb E"]
  by (auto simp: closed_stream_def sess_write_eq on_wire_def lift_e_def split: sum.splits prod.splits)
    (metis snd_conv)+

lemma keeps_closed_write: "keeps (closed_stream i w) (sess_write E j ty rq b)"
  by (rule keepsI) (rule closed_sess_write)

lemma closed_write_each: "closed_stream i w M \<Longrightarrow> closed_stream i w (write_each E is ty b M)"
  by (induction "is" arbitrary: M) (simp_all add: closed_sess_write)

lemma closed_deliveries:
  assumes "closed_stream i w M"
  shows "closed_stream i w (DeliverMessage E c m M)" "closed_stream i w (deliverDirectMessageToUser E u e M)"
    "closed_stream i w (deliverDirectPeerAckToUser E u a M)"
proof -
  have "closed_stream i w (M\<lparr>mn_delivered := d\<rparr>) = closed_stream i w M" for M d by (simp add: closed_stream_def)
  with closed_write_each [OF assms] show "closed_stream i w (DeliverMessage E c m M)"
    by (simp add: DeliverMessage_def Let_def)
  show "closed_stream i w (deliverDirectMessageToUser E u e M)" "closed_stream i w (deliverDirectPeerAckToUser E u a M)"
    unfolding deliverDirectMessageToUser_def deliverDirectPeerAckToUser_def by (rule closed_write_each [OF assms])+
qed

lemma closed_tables [simp]:
  "closed_stream i w (set_session j f M) = closed_stream i w M" "closed_stream i w (SubscribeChannel j c M) = closed_stream i w M"
  "closed_stream i w (unsubscribe j c M) = closed_stream i w M"
  "closed_stream i w (registerDirectUserSession j M) = closed_stream i w M"
  "closed_stream i w (unregisterSession j M) = closed_stream i w M"
  by (simp_all add: closed_stream_def set_session_def SubscribeChannel_def unsubscribe_def registerDirectUserSession_def
      unregisterSession_def Let_def split: option.splits)

lemma keeps_dispatch_closed: "keeps (closed_stream i w) (dispatch E j ev)"
proof -
  let ?P = "closed_stream i w"
  note c = closed_store_free keeps_closed_write
  have hello: "keeps ?P (handle_hello E j ev)"
    supply keeps_sess_write [keeps_intros del]
    unfolding handle_hello_def by (intro keeps_intros c) simp_all
  have ping: "keeps ?P (handle_ping E j ev)"
    supply keeps_sess_write [keeps_intros del]
    unfolding handle_ping_def by (intro keeps_intros c)
  have gated: "keeps ?P (dispatch_authenticated E j v ev)" for v
    supply keeps_sess_write [keeps_intros del]
    unfolding dispatch_authenticated_def Let_def handler_defs by (intro keeps_intros c) (simp_all add: closed_deliveries)
  have auth: "keeps ?P (Authenticate E j prove)" for prove
    by (auto simp: keeps_def Authenticate_def bind_e_def raise_def modify_def in_store_def lift_e_def closed_stream_def set_session_def
        split: prod.splits sum.splits)
  have rest: "keeps ?P (\<lambda>N. (case cs_authResult (mn_sessions N j) of
        None \<Rightarrow> raise (Errorf ''authentication required'')
      | Some res \<Rightarrow> (let u = ar_User res in
          bind_e (in_store (ListSpaces (en_coll E) (us_ID u))) (\<lambda>servers.
          bind_e (in_store (spaceSummariesForViewer E servers (us_ID u) (us_PeerID u))) (\<lambda>spaces.
          bind_e (modify (registerDirectUserSession j)) (\<lambda>_.
          sess_write E j MsgType_AUTH_RESULT (ev_RequestId ev)
            (AuthResultMsg True (ar_SessionID res) (us_UserID u) (us_DisplayName u) (ar_Message res) spaces)))))) N)"
    supply keeps_sess_write [keeps_intros del]
    by (rule keepsI, rule keepsD, intro keeps_intros c) simp_all
  have prove: "keeps ?P (handle_auth_prove E j ev)"
    unfolding handle_auth_prove_def by (intro keeps_bind keeps_UnmarshalBody auth rest)
  show ?thesis
  proof (rule keepsI)
    fix M assume M: "?P M"
    show "?P (snd (dispatch E j ev M))"
      using M keepsD [OF hello M] keepsD [OF ping M] keepsD [OF prove M] keepsD [OF gated M]
      by (auto simp: dispatch_def raise_def split: option.splits)
  qed
qed

lemma closed_serve: "closed_stream i w M \<Longrightarrow> closed_stream i w (serve E j ev M)"
  using keepsD [OF keeps_dispatch_closed, of i w M E j ev]
  by (auto simp: serve_def writeError_def closed_sess_write split: prod.splits sum.splits)

lemma end_session_closed: "closed_stream i (mn_wires (end_session i M) i) (end_session i M)"
  by (simp add: closed_stream_def end_session_def stream_Close_def Let_def)

end
