(* ===== verification/Session_Properties.thy ===== *)
theory Session_Properties
  imports Session
begin

text \<open>
  Properties of the session manager: the gate in front of every request, how a session
  becomes authenticated, who gets a message, what is left when a stream ends, the agreement of
  streams and HTTP methods, who may moderate and create spaces, and that every request is
  answered. The last section has the states on which the theorems are instantiated.
\<close>

section \<open>The gate\<close>

text \<open>
  C3: before authentication a session can do nothing but say hello, prove its identity and
  ping. Any other request, well-formed or not, is answered with the error
  \<open>authentication required\<close>, and this frame is all that changes: the store, the tables of
  subscriptions and every other session stay as they are.
\<close>

theorem session_gate:
  assumes "\<not> cs_authenticated (mn_sessions M i)"
    and "ev_MsgType ev \<notin> {MsgType_HELLO, MsgType_AUTH_PROVE, MsgType_PING}"
  shows "serve E i ev M = snd (writeError E i (ev_RequestId ev) 400 ''authentication required'' M)"
  using assms by (simp add: serve_def dispatch_def raise_def split: option.splits)

lemma Authenticate_Inr:
  assumes "Authenticate E i prove M = (Inr x, M')"
  obtains res s' where "cs_issuedChallenge (mn_sessions M i) \<noteq> None"
    "VerifyChallenge (en_auth E) (en_cfg E)
       \<lparr>vi_ClientPeerID = ap_ClientPeerId prove, vi_NodePeerID = en_nodePeerID E, vi_Nonce = ap_Nonce prove,
        vi_IssuedAt = sint (ap_IssuedAtMs prove), vi_ExpiresAt = sint (ap_ExpiresAtMs prove),
        vi_Signature = ap_Signature prove, vi_PublicKey = ap_PublicKey prove\<rparr> (mn_store M) = (Inr res, s')"
    "M' = set_session i (\<lambda>s. s\<lparr>cs_authenticated := True, cs_authResult := Some res\<rparr>) (M\<lparr>mn_store := s'\<rparr>)"
  using assms by (auto simp: Authenticate_def em_simps split: if_splits)

lemma Authenticate_Inl: "Authenticate E i prove M = (Inl e, M') \<Longrightarrow> mn_sessions M' = mn_sessions M"
  by (auto simp: Authenticate_def bind_e_def raise_def modify_def in_store_def lift_e_def
      split: prod.splits sum.splits if_splits)

lemma keeps_sessions_rest:
  "keeps (\<lambda>M. mn_sessions M = X) (bind_e (in_store m) (\<lambda>servers. bind_e (in_store (n servers)) (\<lambda>spaces.
     bind_e (modify (registerDirectUserSession i)) (\<lambda>_. sess_write E i ty rq (b spaces)))))"
proof -
  have f: "store_free (\<lambda>M. mn_sessions M = X)" "wire_free (\<lambda>M. mn_sessions M = X)"
    by (simp_all add: store_free_def wire_free_def)
  have r: "mn_sessions (registerDirectUserSession i M) = mn_sessions M" for M
    by (simp add: registerDirectUserSession_def Let_def split: option.splits)
  show ?thesis by (intro keeps_intros f) (simp add: r)
qed

lemma handle_auth_prove_sessions:
  assumes "handle_auth_prove E i ev M = (r, M')"
  shows "mn_sessions M' = mn_sessions M \<or>
    (\<exists>prove M1. pb_AuthProve (en_pb E) (ev_Body ev) = Inr prove \<and> Authenticate E i prove M = (Inr (), M1) \<and>
       mn_sessions M' = mn_sessions M1)"
proof (cases "pb_AuthProve (en_pb E) (ev_Body ev)")
  case (Inl e)
  with assms show ?thesis by (simp add: handle_auth_prove_def UnmarshalBody_def bind_e_def raise_def)
next
  case (Inr prove)
  obtain x M1 where a: "Authenticate E i prove M = (x, M1)" by (cases "Authenticate E i prove M")
  show ?thesis
  proof (cases x)
    case (Inl e)
    with assms Inr a show ?thesis
      by (auto simp: handle_auth_prove_def UnmarshalBody_def bind_e_def ret_def dest!: Authenticate_Inl)
  next
    case (Inr y)
    then obtain res where "cs_authResult (mn_sessions M1 i) = Some res"
      using a by (auto elim!: Authenticate_Inr simp: set_session_def)
    with assms \<open>pb_AuthProve (en_pb E) (ev_Body ev) = Inr prove\<close> a Inr
    have "(bind_e (in_store (ListSpaces (en_coll E) (us_ID (ar_User res)))) (\<lambda>servers.
          bind_e (in_store (spaceSummariesForViewer E servers (us_ID (ar_User res)) (us_PeerID (ar_User res)))) (\<lambda>spaces.
          bind_e (modify (registerDirectUserSession i)) (\<lambda>_.
          sess_write E i MsgType_AUTH_RESULT (ev_RequestId ev)
            (AuthResultMsg True (ar_SessionID res) (us_UserID (ar_User res)) (us_DisplayName (ar_User res))
               (ar_Message res) spaces))))) M1 = (r, M')"
      by (simp add: handle_auth_prove_def UnmarshalBody_def bind_e_def [of "ret prove"] ret_def
          bind_e_def [of "Authenticate E i prove"] Let_def)
    from keepsD2 [OF keeps_sessions_rest this refl]
    show ?thesis using \<open>pb_AuthProve (en_pb E) (ev_Body ev) = Inr prove\<close> a Inr by (cases y) auto
  qed
qed

text \<open>Every request but a proof leaves alone who is authenticated, and as whom.\<close>

definition login :: "nat \<Rightarrow> manager \<Rightarrow> bool \<times> auth_result option" where
  "login j M = (cs_authenticated (mn_sessions M j), cs_authResult (mn_sessions M j))"

lemma login_free [simp, intro]: "store_free (\<lambda>M. login j M = X)" "wire_free (\<lambda>M. login j M = X)"
  by (simp_all add: store_free_def wire_free_def login_def)

lemma login_simps [simp]:
  "login j (SubscribeChannel i c M) = login j M" "login j (unsubscribe i c M) = login j M"
  "login j (DeliverMessage E c m M) = login j M" "login j (deliverDirectMessageToUser E k d M) = login j M"
  "login j (deliverDirectPeerAckToUser E k a M) = login j M"
  using write_each_keeps [OF login_free(2) [of j "login j M"], of E]
  by (auto simp: login_def SubscribeChannel_def unsubscribe_def set_session_def DeliverMessage_def Let_def
      deliverDirectMessageToUser_def deliverDirectPeerAckToUser_def)

lemma keeps_login_gated: "keeps (\<lambda>M. login j M = X) (dispatch_authenticated E i u ev)"
  unfolding dispatch_authenticated_def Let_def handler_defs
  by (intro keeps_intros login_free) simp_all

lemma dispatch_login:
  assumes "ev_MsgType ev \<noteq> MsgType_AUTH_PROVE" "dispatch E i ev M = (r, M')"
  shows "login j M' = login j M"
proof -
  have hello: "keeps (\<lambda>M. login j M = login j M0) (handle_hello E i ev)" for M0
    unfolding handle_hello_def
    by (intro keeps_intros login_free) (auto simp: login_def set_session_def)
  have ping: "keeps (\<lambda>M. login j M = login j M0) (handle_ping E i ev)" for M0
    unfolding handle_ping_def by (intro keeps_intros login_free)
  show ?thesis
    using assms keepsD2 [OF hello _ refl] keepsD2 [OF ping _ refl] keepsD2 [OF keeps_login_gated _ refl]
    by (auto simp: dispatch_def raise_def split: option.splits if_splits)
qed

lemma serve_login: "dispatch E i ev M = (r, M') \<Longrightarrow> login j (serve E i ev M) = login j M'"
  using keepsD [OF keeps_writeError [OF login_free(2) [of j "login j M'"]], of M'] by (auto simp: serve_def split: sum.splits)

text \<open>
  C9: a session becomes authenticated, or changes its user, only through an \<open>AUTH_PROVE\<close> of
  its own that follows a challenge issued to it and that the authentication service accepts;
  the user it then acts as is the one of that verification. No request of another session
  can do it.
\<close>

theorem authenticated_by_proof:
  assumes "login j (serve E i ev M) \<noteq> login j M"
  shows "j = i \<and> ev_MsgType ev = MsgType_AUTH_PROVE \<and> cs_issuedChallenge (mn_sessions M i) \<noteq> None \<and>
    (\<exists>prove res s'. pb_AuthProve (en_pb E) (ev_Body ev) = Inr prove \<and>
       VerifyChallenge (en_auth E) (en_cfg E)
         \<lparr>vi_ClientPeerID = ap_ClientPeerId prove, vi_NodePeerID = en_nodePeerID E, vi_Nonce = ap_Nonce prove,
          vi_IssuedAt = sint (ap_IssuedAtMs prove), vi_ExpiresAt = sint (ap_ExpiresAtMs prove),
          vi_Signature = ap_Signature prove, vi_PublicKey = ap_PublicKey prove\<rparr> (mn_store M) = (Inr res, s') \<and>
       login i (serve E i ev M) = (True, Some res))"
proof -
  obtain r M' where d: "dispatch E i ev M = (r, M')" by (cases "dispatch E i ev M")
  note s = serve_login [OF d]
  have ty: "ev_MsgType ev = MsgType_AUTH_PROVE" using assms dispatch_login [OF _ d] s by metis
  then have "handle_auth_prove E i ev M = (r, M')" using d by (simp add: dispatch_def)
  from handle_auth_prove_sessions [OF this] assms s obtain prove M1 where
    p: "pb_AuthProve (en_pb E) (ev_Body ev) = Inr prove" "Authenticate E i prove M = (Inr (), M1)"
    and M': "mn_sessions M' = mn_sessions M1" by (auto simp: login_def)
  from p(2) obtain res s' where
    v: "cs_issuedChallenge (mn_sessions M i) \<noteq> None"
    "VerifyChallenge (en_auth E) (en_cfg E)
       \<lparr>vi_ClientPeerID = ap_ClientPeerId prove, vi_NodePeerID = en_nodePeerID E, vi_Nonce = ap_Nonce prove,
        vi_IssuedAt = sint (ap_IssuedAtMs prove), vi_ExpiresAt = sint (ap_ExpiresAtMs prove),
        vi_Signature = ap_Signature prove, vi_PublicKey = ap_PublicKey prove\<rparr> (mn_store M) = (Inr res, s')"
    "M1 = set_session i (\<lambda>s. s\<lparr>cs_authenticated := True, cs_authResult := Some res\<rparr>) (M\<lparr>mn_store := s'\<rparr>)"
    by (rule Authenticate_Inr)
  have "j = i" using assms s M' v(3) by (auto simp: login_def set_session_def split: if_splits)
  moreover have "login i (serve E i ev M) = (True, Some res)"
    using serve_login [OF d, of i] M' v(3) by (simp add: login_def set_session_def)
  ultimately show ?thesis using ty p(1) v by blast
qed

section \<open>Deliveries\<close>

text \<open>The bytes of an event on the wire, when it can be encoded.\<close>

definition event_bytes :: "'pk env \<Rightarrow> time_ms \<Rightarrow> enum \<Rightarrow> string \<Rightarrow> body \<Rightarrow> byte list option" where
  "event_bytes E nw ty rq b =
     (case NewEnvelope (en_pb E) nw ty rq b of
        Inl e \<Rightarrow> None
      | Inr ev \<Rightarrow> (case pb_MarshalEnvelope (en_pb E) ev of
          Inl e \<Rightarrow> None | Inr p \<Rightarrow> if length p \<le> MaxEnvelopeBytes then Some (frame p) else None))"

lemma sess_write_bytes:
  assumes "event_bytes E (now_ms (mn_store M)) ty rq b = Some bs" "wi_faults (mn_wires M i) = []"
  shows "sess_write E i ty rq b M =
    (Inr (), M\<lparr>mn_wires := (mn_wires M)(i := (mn_wires M i)\<lparr>wi_out := wi_out (mn_wires M i) @ bs\<rparr>)\<rparr>)"
  using assms
  by (auto simp: event_bytes_def sess_write_eq on_wire_def lift_e_def WriteEnvelope_ok split: sum.splits if_splits)

lemma write_each_bytes:
  assumes "distinct is" "event_bytes E (now_ms (mn_store M)) ty [] b = Some bs" "i \<in> set is"
    "wi_faults (mn_wires M i) = []"
  shows "wi_out (mn_wires (write_each E is ty b M) i) = wi_out (mn_wires M i) @ bs"
  using assms
proof (induction "is" arbitrary: M)
  case (Cons k "is")
  obtain w where w: "snd (sess_write E k ty [] b M) = M\<lparr>mn_wires := (mn_wires M)(k := w)\<rparr>" using snd_sess_write by blast
  show ?case
  proof (cases "i = k")
    case True
    then have "i \<notin> set is" using Cons.prems(1) by simp
    then show ?thesis
      using write_each_frame [of E "is" ty b "snd (sess_write E k ty [] b M)"] sess_write_bytes [OF Cons.prems(2,4)]
      by (auto simp: True)
  next
    case False
    with Cons.IH [of "M\<lparr>mn_wires := (mn_wires M)(k := w)\<rparr>"] Cons.prems show ?thesis by (simp add: w)
  qed
qed simp

text \<open>
  C30: a message is delivered to the subscribers of its channel and to nobody else. Each
  stream subscriber whose writes succeed gets exactly one event frame, each realtime
  subscriber one call; no other stream is touched, nor the store.
\<close>

theorem delivery_to_subscribers:
  assumes "distinct (mn_subscriptions M c)"
    and "event_bytes E (now_ms (mn_store M)) MsgType_MESSAGE_EVENT [] (MessageEvent (toMessageEvent msg (en_blobURLBase E)))
       = Some bs"
  shows "(\<forall>i. i \<notin> set (mn_subscriptions M c) \<longrightarrow> mn_wires (DeliverMessage E c msg M) i = mn_wires M i) \<and>
    (\<forall>i \<in> set (mn_subscriptions M c). wi_faults (mn_wires M i) = [] \<longrightarrow>
       wi_out (mn_wires (DeliverMessage E c msg M) i) = wi_out (mn_wires M i) @ bs) \<and>
    mn_delivered (DeliverMessage E c msg M) =
      mn_delivered M @ map (\<lambda>r. (r, c, toMessageEvent msg (en_blobURLBase E))) (mn_realtimeSubs M c) \<and>
    mn_store (DeliverMessage E c msg M) = mn_store M"
proof -
  let ?b = "MessageEvent (toMessageEvent msg (en_blobURLBase E))"
  obtain w where w: "write_each E (mn_subscriptions M c) MsgType_MESSAGE_EVENT ?b M = M\<lparr>mn_wires := w\<rparr>"
    "\<forall>j. j \<notin> set (mn_subscriptions M c) \<longrightarrow> w j = mn_wires M j" using write_each_frame by blast
  have "wi_out (w i) = wi_out (mn_wires M i) @ bs" if "i \<in> set (mn_subscriptions M c)" "wi_faults (mn_wires M i) = []" for i
    using write_each_bytes [OF assms that] by (simp add: w(1))
  with w show ?thesis by (simp add: DeliverMessage_def Let_def)
qed

lemma HandleStream_sessions_ok:
  assumes "sessions_ok M" "\<And>c. i \<notin> set (mn_subscriptions M c)" "\<And>u. i \<notin> set (mn_directSessions M u)"
  shows "sessions_ok (serve_stream E i inp (set_session i (\<lambda>_. new_session) M))"
  using assms by (intro serve_stream_ok) (auto simp: sessions_ok_def set_session_def new_session_def)

lemma end_session_unsubscribed:
  assumes "sessions_ok M"
  shows "i \<notin> set (mn_subscriptions (end_session i M) c)"
  using assms by (auto simp: end_session_def unregisterSession_def sessions_ok_def Let_def split: option.splits)

text \<open>
  The end of a whole stream: whatever it had subscribed to during its life, its session is in
  no subscription any more, and nothing that is delivered later is written to its stream.
\<close>

theorem handled_stream_silent:
  assumes "sessions_ok M" "\<And>c. i \<notin> set (mn_subscriptions M c)" "\<And>u. i \<notin> set (mn_directSessions M u)"
    and "mn_wires M' i = mn_wires (HandleStream E i inp M) i"
  shows "i \<notin> set (mn_subscriptions (HandleStream E i inp M) c) \<and>
    mn_wires (DeliverMessage E c msg M') i = mn_wires (HandleStream E i inp M) i \<and>
    mn_wires (deliverDirectMessageToUser E u d M') i = mn_wires (HandleStream E i inp M) i \<and>
    mn_wires (serve E j ev M') i = mn_wires (HandleStream E i inp M) i"
proof -
  have "closed_stream i (mn_wires (HandleStream E i inp M) i) M'"
    using assms(4) end_session_closed [of i "serve_stream E i inp (set_session i (\<lambda>_. new_session) M)"]
    by (simp add: closed_stream_def HandleStream_def)
  note c = closed_deliveries [OF this] closed_serve [OF this]
  show ?thesis
    using c(1) [of E c msg] c(2) [of E u d] c(4) [of E j ev]
      end_session_unsubscribed [OF HandleStream_sessions_ok [OF assms(1-3), of E inp]]
    by (simp add: closed_stream_def HandleStream_def)
qed

section \<open>A stale entry\<close>

lemma registered_free [simp, intro]:
  "store_free (\<lambda>M. j \<in> set (mn_directSessions M u))" "wire_free (\<lambda>M. j \<in> set (mn_directSessions M u))"
  by (simp_all add: store_free_def wire_free_def)

lemma registered_kept [simp]:
  "mn_directSessions (SubscribeChannel i c M) = mn_directSessions M" "mn_directSessions (unsubscribe i c M) = mn_directSessions M"
  "mn_directSessions (set_session i f M) = mn_directSessions M"
  by (simp_all add: SubscribeChannel_def unsubscribe_def set_session_def)

lemma registered_deliver [simp]:
  "mn_directSessions (DeliverMessage E c m M) = mn_directSessions M"
  "mn_directSessions (deliverDirectMessageToUser E k d M) = mn_directSessions M"
  "mn_directSessions (deliverDirectPeerAckToUser E k a M) = mn_directSessions M"
  using write_each_frame [of E _ _ _ M]
  by (auto simp: DeliverMessage_def Let_def deliverDirectMessageToUser_def deliverDirectPeerAckToUser_def
      dest: arg_cong [of _ _ mn_directSessions]) (metis manager.select_convs manager.surjective manager.update_convs)+

lemma keeps_registered: "keeps (\<lambda>M. j \<in> set (mn_directSessions M u)) (dispatch E i ev)"
proof (rule keepsI)
  fix M :: manager assume M: "j \<in> set (mn_directSessions M u)"
  let ?P = "\<lambda>M :: manager. j \<in> set (mn_directSessions M u)"
  have hello: "keeps ?P (handle_hello E i ev)"
    unfolding handle_hello_def by (intro keeps_intros registered_free) simp_all
  have ping: "keeps ?P (handle_ping E i ev)"
    unfolding handle_ping_def by (intro keeps_intros registered_free)
  have gated: "keeps ?P (dispatch_authenticated E i v ev)" for v
    unfolding dispatch_authenticated_def Let_def handler_defs by (intro keeps_intros registered_free) simp_all
  have auth: "keeps ?P (Authenticate E i prove)" for prove
    by (auto simp: keeps_def Authenticate_def bind_e_def raise_def modify_def in_store_def lift_e_def
        split: prod.splits sum.splits)
  have reg: "?P N \<Longrightarrow> ?P (registerDirectUserSession i N)" for N
    by (auto simp: registerDirectUserSession_def Let_def split: option.splits)
  have rest: "keeps ?P (\<lambda>N. (case cs_authResult (mn_sessions N i) of
        None \<Rightarrow> raise (Errorf ''authentication required'')
      | Some res \<Rightarrow> (let u = ar_User res in
          bind_e (in_store (ListSpaces (en_coll E) (us_ID u))) (\<lambda>servers.
          bind_e (in_store (spaceSummariesForViewer E servers (us_ID u) (us_PeerID u))) (\<lambda>spaces.
          bind_e (modify (registerDirectUserSession i)) (\<lambda>_.
          sess_write E i MsgType_AUTH_RESULT (ev_RequestId ev)
            (AuthResultMsg True (ar_SessionID res) (us_UserID u) (us_DisplayName u) (ar_Message res) spaces)))))) N)"
    by (rule keepsI, rule keepsD, intro keeps_intros registered_free) (simp_all add: reg)
  have prove: "keeps ?P (handle_auth_prove E i ev)"
    unfolding handle_auth_prove_def by (intro keeps_bind keeps_UnmarshalBody auth rest)
  show "?P (snd (dispatch E i ev M))"
    using M keepsD [OF hello M] keepsD [OF ping M] keepsD [OF prove M] keepsD [OF gated M]
    by (auto simp: dispatch_def raise_def split: option.splits)
qed

text \<open>
  C40: authenticating a second time as somebody else leaves the first entry for direct
  messages behind. After such a request, on the stream as it goes on, a direct message to the
  first user is written to it, although its session is logged in as the second; and when the
  stream ends, its session stays listed for the first user.
\<close>

theorem stale_direct_session:
  assumes entry: "i \<in> set (mn_directSessions M u)"
    and again: "login i (serve E i ev M) = (True, Some res)" "us_ID (ar_User res) \<noteq> u"
    and M': "M' = serve E i ev M" "distinct (mn_directSessions M' u)" "wi_faults (mn_wires M' i) = []"
    and bs: "event_bytes E (now_ms (mn_store M')) MsgType_DIRECT_MESSAGE_EVENT [] (DirectMessageEvent d) = Some bs"
  shows "wi_out (mn_wires (deliverDirectMessageToUser E u d M') i) = wi_out (mn_wires M' i) @ bs \<and>
    i \<in> set (mn_directSessions (end_session i M') u)"
proof -
  have reg: "i \<in> set (mn_directSessions M' u)"
    using keepsD [OF keeps_registered entry, of E i ev]
      keepsD [OF keeps_writeError [OF registered_free(2) [of i u]]]
    by (auto simp: M'(1) serve_def split: prod.splits sum.splits)
  then have "i \<in> set (mn_directSessions (end_session i M') u)"
    using again by (auto simp: M'(1) end_session_def unregisterSession_def login_def Let_def)
  moreover have "wi_out (mn_wires (deliverDirectMessageToUser E u d M') i) = wi_out (mn_wires M' i) @ bs"
    unfolding deliverDirectMessageToUser_def using reg M'(2,3) bs by (intro write_each_bytes)
  ultimately show ?thesis by simp
qed

section \<open>The stream and the HTTP API agree\<close>

text \<open>
  \<open>mirrors\<close>: on every state, the handler does to the store what the method does, writes the
  method's result as its response, and fails with an error of the same text and nothing
  written when the method fails.
\<close>

definition mirrors :: "'pk env \<Rightarrow> nat \<Rightarrow> enum \<Rightarrow> envelope \<Rightarrow> (store, err, body) em \<Rightarrow> (manager, err, unit) em \<Rightarrow> bool" where
  "mirrors E i ty ev m h \<longleftrightarrow> (\<forall>M. case m (mn_store M) of
       (Inr b, s') \<Rightarrow> h M = sess_write E i ty (ev_RequestId ev) b (M\<lparr>mn_store := s'\<rparr>)
     | (Inl e, s') \<Rightarrow> (\<exists>e'. h M = (Inl e', M\<lparr>mn_store := s'\<rparr>) \<and> error_text e' = error_text e))"

named_theorems mirror_intros \<open>a method and a handler of the same shape\<close>

lemma mirrors_ret [mirror_intros]: "mirrors E i ty ev (ret b) (sess_write E i ty (ev_RequestId ev) b)"
  by (simp add: mirrors_def)

lemma mirrors_raise [mirror_intros]: "error_text e' = error_text e \<Longrightarrow> mirrors E i ty ev (raise e) (raise e')"
  by (simp add: mirrors_def raise_def)

lemma mirrors_bind [mirror_intros]:
  assumes "\<And>x. mirrors E i ty ev (k x) (h x)"
  shows "mirrors E i ty ev (bind_e m k) (bind_e (in_store m) h)"
proof -
  have "case bind_e m k (mn_store M) of
      (Inr b, s') \<Rightarrow> bind_e (in_store m) h M = sess_write E i ty (ev_RequestId ev) b (M\<lparr>mn_store := s'\<rparr>)
    | (Inl e, s') \<Rightarrow> (\<exists>e'. bind_e (in_store m) h M = (Inl e', M\<lparr>mn_store := s'\<rparr>) \<and> error_text e' = error_text e)" for M
  proof (cases "m (mn_store M)")
    case (Pair r s1)
    show ?thesis
    proof (cases r)
      case (Inr x)
      then have "bind_e m k (mn_store M) = k x s1" "bind_e (in_store m) h M = h x (M\<lparr>mn_store := s1\<rparr>)"
        by (simp_all add: bind_e_def in_store_def lift_e_def Pair)
      with assms [of x, unfolded mirrors_def, THEN spec, of "M\<lparr>mn_store := s1\<rparr>"] show ?thesis
        by (simp split: prod.splits sum.splits)
    qed (simp add: bind_e_def in_store_def lift_e_def Pair)
  qed
  then show ?thesis by (simp add: mirrors_def)
qed

lemma mirrors_handle [mirror_intros]:
  assumes "\<And>x. mirrors E i ty ev (k x) (h x)"
  shows "mirrors E i ty ev (bind_e (handle_e m (\<lambda>e. ret y) (\<lambda>z. ret y)) k)
     (bind_e (handle_e (in_store m) (\<lambda>e. ret y) (\<lambda>z. ret y)) h)"
proof -
  have "handle_e (in_store m) (\<lambda>e. ret y) (\<lambda>z. ret y) = in_store (handle_e m (\<lambda>e. ret y) (\<lambda>z. ret y))"
    by (rule ext) (auto simp: handle_e_def in_store_def lift_e_def ret_def split: prod.splits sum.splits)
  then show ?thesis by (simp add: mirrors_bind assms)
qed

lemma mirrors_if [mirror_intros]:
  "(b \<Longrightarrow> mirrors E i ty ev m h) \<Longrightarrow> (\<not> b \<Longrightarrow> mirrors E i ty ev n g) \<Longrightarrow>
     mirrors E i ty ev (if b then m else n) (if b then h else g)"
  by simp

lemma mirrors_let [mirror_intros]:
  "mirrors E i ty ev (k x) (h x) \<Longrightarrow> mirrors E i ty ev (let y = x in k y) (let y = x in h y)"
  by simp

lemma mirrors_prod [mirror_intros]:
  "(\<And>a b. x = (a, b) \<Longrightarrow> mirrors E i ty ev (k a b) (h a b)) \<Longrightarrow>
     mirrors E i ty ev (case x of (a, b) \<Rightarrow> k a b) (case x of (a, b) \<Rightarrow> h a b)"
  by (cases x) simp

lemma mirrors_sum [mirror_intros]:
  "(\<And>e. x = Inl e \<Longrightarrow> mirrors E i ty ev (f e) (g e)) \<Longrightarrow> (\<And>y. x = Inr y \<Longrightarrow> mirrors E i ty ev (k y) (h y)) \<Longrightarrow>
     mirrors E i ty ev (case x of Inl e \<Rightarrow> f e | Inr y \<Rightarrow> k y) (case x of Inl e \<Rightarrow> g e | Inr y \<Rightarrow> h y)"
  by (cases x) simp_all

lemma bind_assoc: "bind_e (bind_e m k) h = bind_e m (\<lambda>x. bind_e (k x) h)"
  by (rule ext) (auto simp: bind_e_def split: prod.splits sum.splits)

lemma bind_ret: "bind_e (ret x) k = k x"
  by (rule ext) (simp add: bind_e_def ret_def)

lemma bind_raise: "bind_e (raise e) h = raise e"
  by (rule ext) (simp add: bind_e_def raise_def)

lemma bind_if: "bind_e (if b then m else n) h = (if b then bind_e m h else bind_e n h)"
  by simp

lemmas bind_ret_assoc = bind_assoc bind_ret bind_raise bind_if

lemma bind_case_prod: "bind_e (case x of (a, b) \<Rightarrow> f a b) h = (case x of (a, b) \<Rightarrow> bind_e (f a b) h)"
  by (cases x) simp

lemma request_ok: "dec (ev_Body ev) = Inr x \<Longrightarrow> bind_e (request dec ev) k = k x"
  by (rule ext) (simp add: UnmarshalBody_def bind_e_def ret_def)

text \<open>
  The method of the HTTP API that a request stands for, with the type of the response: the
  fields of the request and the user of the session are its arguments. There is none for a
  body that cannot be decoded or for a request that only streams have.
\<close>

definition decoded :: "(byte list \<Rightarrow> err + 'a) \<Rightarrow> envelope \<Rightarrow> ('a \<Rightarrow> 'b) \<Rightarrow> 'b option" where
  "decoded dec ev f = (case dec (ev_Body ev) of Inl e \<Rightarrow> None | Inr x \<Rightarrow> Some (f x))"

definition api_reply :: "'pk env \<Rightarrow> user \<Rightarrow> envelope \<Rightarrow> (enum \<times> (store, err, body) em) option" where
  "api_reply E u ev =
     (let P = en_pb E; ty = ev_MsgType ev in
      if ty = MsgType_LIST_SPACES_REQ then Some (MsgType_LIST_SPACES_RESP,
        (bind_e (ListSpacesForAPI E (us_ID u) (us_PeerID u)) (\<lambda>xs. ret (ListSpacesResp xs))))
      else if ty = MsgType_LIST_CHANNELS_REQ then decoded (pb_ListChannelsReq P) ev (\<lambda>sp. (MsgType_LIST_CHANNELS_RESP,
        (bind_e (ListChannelsForAPI E (us_ID u) sp) (\<lambda>xs. ret (ListChannelsResp sp xs)))))
      else if ty = MsgType_LIST_SPACE_MEMBERS_REQ then decoded (pb_ListSpaceMembersReq P) ev (\<lambda>q. (MsgType_LIST_SPACE_MEMBERS_RESP,
        (bind_e (ListSpaceMembersForAPI (us_ID u) (lm_SpaceId q) (lm_AfterMemberId q) (lm_Limit q))
          (\<lambda>r. ret (ListSpaceMembersResp r)))))
      else if ty = MsgType_CREATE_SPACE_REQ then decoded (pb_CreateSpaceReq P) ev (\<lambda>q. (MsgType_CREATE_SPACE_RESP,
        (CreateSpaceForAPI E (us_ID u) (us_PeerID u) q)))
      else if ty = MsgType_GET_CREATE_SPACE_PERMISSIONS_REQ then decoded (pb_GetCreateSpacePermissionsReq P) ev (\<lambda>q. (MsgType_GET_CREATE_SPACE_PERMISSIONS_RESP,
        (GetCreateSpacePermissionsForAPI E (us_PeerID u))))
      else if ty = MsgType_GET_CREATE_GROUP_PERMISSIONS_REQ then decoded (pb_GetCreateGroupPermissionsReq P) ev (\<lambda>sp. (MsgType_GET_CREATE_GROUP_PERMISSIONS_RESP,
        (GetCreateGroupPermissionsForAPI E (us_ID u) (us_PeerID u) sp)))
      else if ty = MsgType_ADMIN_SET_SPACE_MEMBER_ROLE_REQ then decoded (pb_AdminSetSpaceMemberRoleReq P) ev (\<lambda>q. (MsgType_ADMIN_SET_SPACE_MEMBER_ROLE_RESP,
        (AdminSetSpaceMemberRoleForAPI E (us_ID u) (sr_SpaceId q) (sr_TargetUserId q) (sr_Role q))))
      else if ty = MsgType_ADMIN_SET_SPACE_CHANNEL_CREATION_REQ then decoded (pb_AdminSetSpaceChannelCreationReq P) ev (\<lambda>(sp, a). (MsgType_ADMIN_SET_SPACE_CHANNEL_CREATION_RESP,
        (AdminSetSpaceChannelCreationForAPI (us_ID u) sp a)))
      else if ty = MsgType_ADMIN_SET_GROUP_AUTO_DELETE_REQ then decoded (pb_AdminSetGroupAutoDeleteReq P) ev (\<lambda>(c, n). (MsgType_ADMIN_SET_GROUP_AUTO_DELETE_RESP,
        (AdminSetGroupAutoDeleteForAPI (us_ID u) c n)))
      else if ty = MsgType_JOIN_SPACE_REQ then decoded (pb_JoinSpaceReq P) ev (\<lambda>sp. (MsgType_JOIN_SPACE_RESP,
        (bind_e (JoinSpaceForAPI E (us_ID u) (us_PeerID u) sp)
          (\<lambda>x. ret (JoinSpaceResp True sp x ''joined'')))))
      else if ty = MsgType_INVITE_SPACE_MEMBER_REQ then decoded (pb_InviteSpaceMemberReq P) ev (\<lambda>(sp, t). (MsgType_INVITE_SPACE_MEMBER_RESP,
        (InviteSpaceMemberForAPI E (us_ID u) (us_PeerID u) sp t)))
      else if ty = MsgType_KICK_SPACE_MEMBER_REQ then decoded (pb_KickSpaceMemberReq P) ev (\<lambda>(sp, t). (MsgType_KICK_SPACE_MEMBER_RESP,
        (KickSpaceMemberForAPI E (us_ID u) (us_PeerID u) sp t)))
      else if ty = MsgType_BAN_SPACE_MEMBER_REQ then decoded (pb_BanSpaceMemberReq P) ev (\<lambda>(sp, t). (MsgType_BAN_SPACE_MEMBER_RESP,
        (BanSpaceMemberForAPI E (us_ID u) (us_PeerID u) sp t)))
      else if ty = MsgType_UNBAN_SPACE_MEMBER_REQ then decoded (pb_UnbanSpaceMemberReq P) ev (\<lambda>(sp, t). (MsgType_UNBAN_SPACE_MEMBER_RESP,
        (UnbanSpaceMemberForAPI E (us_ID u) (us_PeerID u) sp t)))
      else if ty = MsgType_CREATE_GROUP_REQ then decoded (pb_CreateGroupReq P) ev (\<lambda>q. (MsgType_CREATE_GROUP_RESP,
        (CreateGroupForAPI E (us_ID u) (us_PeerID u) q)))
      else if ty = MsgType_CREATE_CHANNEL_REQ then decoded (pb_CreateChannelReq P) ev (\<lambda>q. (MsgType_CREATE_CHANNEL_RESP,
        (CreateChannelForAPI E (us_ID u) (us_PeerID u) q)))
      else if ty = MsgType_SYNC_CHANNEL_REQ then decoded (pb_SyncChannelReq P) ev (\<lambda>q. (MsgType_SYNC_CHANNEL_RESP,
        (bind_e (SyncChannelForAPI E (us_ID u) (sy_ChannelId q) (sy_AfterSeq q) (sy_Limit q))
          (\<lambda>(xs, n, more). ret (SyncChannelResp (sy_ChannelId q) xs n more)))))
      else if ty = MsgType_GET_MEDIA_REQ then decoded (pb_GetMediaReq P) ev (\<lambda>mid. (MsgType_GET_MEDIA_RESP,
        (GetMediaForAPI E (us_ID u) mid)))
      else None)"

text \<open>Beside these, the two notifications without a response, and the sending of a message.\<close>

datatype api_method =
    Replies enum "(store, err, body) em"
  | Notifies "(store, err, unit) em"
  | Sends send_message_req

definition api_call :: "'pk env \<Rightarrow> user \<Rightarrow> envelope \<Rightarrow> api_method option" where
  "api_call E u ev =
     (let P = en_pb E; ty = ev_MsgType ev in
      if ty = MsgType_CHANNEL_DELIVER_ACK then
        decoded (pb_ChannelDeliverAck P) ev (\<lambda>(c, q). Notifies (AckDeliveredForAPI (us_ID u) c q))
      else if ty = MsgType_CHANNEL_READ_UPDATE then
        decoded (pb_ChannelReadUpdate P) ev (\<lambda>(c, q). Notifies (UpdateReadForAPI (us_ID u) c q))
      else if ty = MsgType_SEND_MESSAGE_REQ then decoded (pb_SendMessageReq P) ev Sends
      else map_option (\<lambda>(rty, m). Replies rty m) (api_reply E u ev))"

definition send_ack :: "message \<Rightarrow> time_ms \<Rightarrow> body" where
  "send_ack msg nw = SendMessageAck \<lparr>sa_Ok = True, sa_ChannelId = mg_ChannelDBID msg, sa_ClientMsgId = mg_ClientMsgID msg,
     sa_MessageId = mg_MessageID msg, sa_Seq = mg_Seq msg, sa_ServerTimeMs = of_int nw, sa_Message = ''stored''\<rparr>"

lemma mirror_list_spaces:
  shows "mirrors E i MsgType_LIST_SPACES_RESP ev
      (bind_e (ListSpacesForAPI E (us_ID u) (us_PeerID u)) (\<lambda>xs. ret (ListSpacesResp xs))) (handle_list_spaces E i u ev)"
  unfolding handle_list_spaces_def ListSpacesForAPI_def bind_ret_assoc bind_case_prod prod.case
  by (intro mirror_intros; simp)

lemma mirror_list_channels:
  assumes "pb_ListChannelsReq (en_pb E) (ev_Body ev) = Inr sp"
  shows "mirrors E i MsgType_LIST_CHANNELS_RESP ev
      (bind_e (ListChannelsForAPI E (us_ID u) sp) (\<lambda>xs. ret (ListChannelsResp sp xs))) (handle_list_channels E i u ev)"
  unfolding handle_list_channels_def ListChannelsForAPI_def request_ok [of "pb_ListChannelsReq (en_pb E)", OF assms] bind_ret_assoc bind_case_prod prod.case
  by (intro mirror_intros; simp)

lemma mirror_list_space_members:
  assumes "pb_ListSpaceMembersReq (en_pb E) (ev_Body ev) = Inr q"
  shows "mirrors E i MsgType_LIST_SPACE_MEMBERS_RESP ev
      (bind_e (ListSpaceMembersForAPI (us_ID u) (lm_SpaceId q) (lm_AfterMemberId q) (lm_Limit q))
        (\<lambda>r. ret (ListSpaceMembersResp r))) (handle_list_space_members E i u ev)"
  unfolding handle_list_space_members_def ListSpaceMembersForAPI_def Let_def request_ok [of "pb_ListSpaceMembersReq (en_pb E)", OF assms] bind_ret_assoc bind_case_prod prod.case
  by (intro mirror_intros; simp)

lemma mirror_create_space:
  assumes "pb_CreateSpaceReq (en_pb E) (ev_Body ev) = Inr q"
  shows "mirrors E i MsgType_CREATE_SPACE_RESP ev
      (CreateSpaceForAPI E (us_ID u) (us_PeerID u) q) (handle_create_space E i u ev)"
  unfolding handle_create_space_def CreateSpaceForAPI_def request_ok [of "pb_CreateSpaceReq (en_pb E)", OF assms] bind_ret_assoc bind_case_prod prod.case
  by (intro mirror_intros; simp)

lemma mirror_create_space_permissions:
  assumes "pb_GetCreateSpacePermissionsReq (en_pb E) (ev_Body ev) = Inr q"
  shows "mirrors E i MsgType_GET_CREATE_SPACE_PERMISSIONS_RESP ev
      (GetCreateSpacePermissionsForAPI E (us_PeerID u)) (handle_create_space_permissions E i u ev)"
  unfolding handle_create_space_permissions_def GetCreateSpacePermissionsForAPI_def Let_def request_ok [of "pb_GetCreateSpacePermissionsReq (en_pb E)", OF assms] bind_ret_assoc bind_case_prod prod.case
  by (intro mirror_intros; simp)

lemma mirror_create_group_permissions:
  assumes "pb_GetCreateGroupPermissionsReq (en_pb E) (ev_Body ev) = Inr sp"
  shows "mirrors E i MsgType_GET_CREATE_GROUP_PERMISSIONS_RESP ev
      (GetCreateGroupPermissionsForAPI E (us_ID u) (us_PeerID u) sp) (handle_create_group_permissions E i u ev)"
  unfolding handle_create_group_permissions_def GetCreateGroupPermissionsForAPI_def request_ok [of "pb_GetCreateGroupPermissionsReq (en_pb E)", OF assms] bind_ret_assoc bind_case_prod prod.case
  by (intro mirror_intros; simp)

lemma mirror_set_member_role:
  assumes "pb_AdminSetSpaceMemberRoleReq (en_pb E) (ev_Body ev) = Inr q"
  shows "mirrors E i MsgType_ADMIN_SET_SPACE_MEMBER_ROLE_RESP ev
      (AdminSetSpaceMemberRoleForAPI E (us_ID u) (sr_SpaceId q) (sr_TargetUserId q) (sr_Role q)) (handle_set_member_role E i u ev)"
  unfolding handle_set_member_role_def AdminSetSpaceMemberRoleForAPI_def request_ok [of "pb_AdminSetSpaceMemberRoleReq (en_pb E)", OF assms] bind_ret_assoc bind_case_prod prod.case
  by (intro mirror_intros; simp)

lemma mirror_set_channel_creation:
  assumes "pb_AdminSetSpaceChannelCreationReq (en_pb E) (ev_Body ev) = Inr (sp, a)"
  shows "mirrors E i MsgType_ADMIN_SET_SPACE_CHANNEL_CREATION_RESP ev
      (AdminSetSpaceChannelCreationForAPI (us_ID u) sp a) (handle_set_channel_creation E i u ev)"
  unfolding handle_set_channel_creation_def AdminSetSpaceChannelCreationForAPI_def request_ok [of "pb_AdminSetSpaceChannelCreationReq (en_pb E)", OF assms] bind_ret_assoc bind_case_prod prod.case
  by (intro mirror_intros; simp)

lemma mirror_set_auto_delete:
  assumes "pb_AdminSetGroupAutoDeleteReq (en_pb E) (ev_Body ev) = Inr (c, n)"
  shows "mirrors E i MsgType_ADMIN_SET_GROUP_AUTO_DELETE_RESP ev
      (AdminSetGroupAutoDeleteForAPI (us_ID u) c n) (handle_set_auto_delete E i u ev)"
  unfolding handle_set_auto_delete_def AdminSetGroupAutoDeleteForAPI_def request_ok [of "pb_AdminSetGroupAutoDeleteReq (en_pb E)", OF assms] bind_ret_assoc bind_case_prod prod.case
  by (intro mirror_intros; simp)

lemma mirror_join:
  assumes "pb_JoinSpaceReq (en_pb E) (ev_Body ev) = Inr sp"
  shows "mirrors E i MsgType_JOIN_SPACE_RESP ev
      (bind_e (JoinSpaceForAPI E (us_ID u) (us_PeerID u) sp)
        (\<lambda>x. ret (JoinSpaceResp True sp x ''joined''))) (handle_join E i u ev)"
  unfolding handle_join_def JoinSpaceForAPI_def request_ok [of "pb_JoinSpaceReq (en_pb E)", OF assms] bind_ret_assoc bind_case_prod prod.case
  by (intro mirror_intros; simp)

lemma mirror_invite:
  assumes "pb_InviteSpaceMemberReq (en_pb E) (ev_Body ev) = Inr (sp, t)"
  shows "mirrors E i MsgType_INVITE_SPACE_MEMBER_RESP ev
      (InviteSpaceMemberForAPI E (us_ID u) (us_PeerID u) sp t) (handle_invite E i u ev)"
  unfolding handle_invite_def InviteSpaceMemberForAPI_def request_ok [of "pb_InviteSpaceMemberReq (en_pb E)", OF assms] bind_ret_assoc bind_case_prod prod.case
  by (intro mirror_intros; simp)

lemma mirror_kick:
  assumes "pb_KickSpaceMemberReq (en_pb E) (ev_Body ev) = Inr (sp, t)"
  shows "mirrors E i MsgType_KICK_SPACE_MEMBER_RESP ev
      (KickSpaceMemberForAPI E (us_ID u) (us_PeerID u) sp t) (handle_kick E i u ev)"
  unfolding handle_kick_def KickSpaceMemberForAPI_def request_ok [of "pb_KickSpaceMemberReq (en_pb E)", OF assms] bind_ret_assoc bind_case_prod prod.case
  by (intro mirror_intros; simp)

lemma mirror_ban:
  assumes "pb_BanSpaceMemberReq (en_pb E) (ev_Body ev) = Inr (sp, t)"
  shows "mirrors E i MsgType_BAN_SPACE_MEMBER_RESP ev
      (BanSpaceMemberForAPI E (us_ID u) (us_PeerID u) sp t) (handle_ban E i u ev)"
  unfolding handle_ban_def BanSpaceMemberForAPI_def request_ok [of "pb_BanSpaceMemberReq (en_pb E)", OF assms] bind_ret_assoc bind_case_prod prod.case
  by (intro mirror_intros; simp)

lemma mirror_unban:
  assumes "pb_UnbanSpaceMemberReq (en_pb E) (ev_Body ev) = Inr (sp, t)"
  shows "mirrors E i MsgType_UNBAN_SPACE_MEMBER_RESP ev
      (UnbanSpaceMemberForAPI E (us_ID u) (us_PeerID u) sp t) (handle_unban E i u ev)"
  unfolding handle_unban_def UnbanSpaceMemberForAPI_def request_ok [of "pb_UnbanSpaceMemberReq (en_pb E)", OF assms] bind_ret_assoc bind_case_prod prod.case
  by (intro mirror_intros; simp)

lemma mirror_create_group:
  assumes "pb_CreateGroupReq (en_pb E) (ev_Body ev) = Inr q"
  shows "mirrors E i MsgType_CREATE_GROUP_RESP ev
      (CreateGroupForAPI E (us_ID u) (us_PeerID u) q) (handle_create_group E i u ev)"
  unfolding handle_create_group_def CreateGroupForAPI_def request_ok [of "pb_CreateGroupReq (en_pb E)", OF assms] bind_ret_assoc bind_case_prod prod.case
  by (intro mirror_intros; simp)

lemma mirror_create_channel:
  assumes "pb_CreateChannelReq (en_pb E) (ev_Body ev) = Inr q"
  shows "mirrors E i MsgType_CREATE_CHANNEL_RESP ev
      (CreateChannelForAPI E (us_ID u) (us_PeerID u) q) (handle_create_channel E i u ev)"
  unfolding handle_create_channel_def CreateChannelForAPI_def request_ok [of "pb_CreateChannelReq (en_pb E)", OF assms] bind_ret_assoc bind_case_prod prod.case
  by (intro mirror_intros; simp)

lemma mirror_sync_channel:
  assumes "pb_SyncChannelReq (en_pb E) (ev_Body ev) = Inr q"
  shows "mirrors E i MsgType_SYNC_CHANNEL_RESP ev
      (bind_e (SyncChannelForAPI E (us_ID u) (sy_ChannelId q) (sy_AfterSeq q) (sy_Limit q))
        (\<lambda>(xs, n, more). ret (SyncChannelResp (sy_ChannelId q) xs n more))) (handle_sync_channel E i u ev)"
  unfolding handle_sync_channel_def SyncChannelForAPI_def request_ok [of "pb_SyncChannelReq (en_pb E)", OF assms] bind_ret_assoc bind_case_prod prod.case
  by (intro mirror_intros; simp)

lemma mirror_get_media:
  assumes "pb_GetMediaReq (en_pb E) (ev_Body ev) = Inr mid"
  shows "mirrors E i MsgType_GET_MEDIA_RESP ev
      (GetMediaForAPI E (us_ID u) mid) (handle_get_media E i u ev)"
  unfolding handle_get_media_def GetMediaForAPI_def request_ok [of "pb_GetMediaReq (en_pb E)", OF assms] bind_ret_assoc bind_case_prod prod.case
  by (intro mirror_intros; simp)

lemmas mirror_handlers =
  mirror_list_spaces mirror_list_channels mirror_list_space_members mirror_create_space mirror_create_space_permissions mirror_create_group_permissions mirror_set_member_role mirror_set_channel_creation mirror_set_auto_delete
  mirror_join mirror_invite mirror_kick mirror_ban mirror_unban mirror_create_group mirror_create_channel mirror_sync_channel mirror_get_media

lemma api_reply_mirrored:
  assumes "api_reply E u ev = Some (ty, m)"
  shows "mirrors E i ty ev m (dispatch_authenticated E i u ev)"
  using assms unfolding api_reply_def Let_def decoded_def dispatch_authenticated_def
  by (auto simp: mirror_handlers split: if_splits sum.splits)

lemma handle_send_message_eq:
  assumes "pb_SendMessageReq (en_pb E) (ev_Body ev) = Inr req"
  shows "handle_send_message E i u ev M =
    (case SendMessage (en_cfg E) (en_blob E) (us_ID u) (toSendMessageInput req) (mn_store M) of
       (Inl e, s') \<Rightarrow> (Inl e, M\<lparr>mn_store := s'\<rparr>)
     | (Inr msg, s') \<Rightarrow>
         (case sess_write E i MsgType_SEND_MESSAGE_ACK (ev_RequestId ev) (send_ack msg (now_ms s')) (M\<lparr>mn_store := s'\<rparr>) of
            (Inl e, M1) \<Rightarrow> (Inl e, M1)
          | (Inr x, M1) \<Rightarrow> (Inr (), DeliverMessage E (mg_ChannelDBID msg) msg M1)))"
  unfolding handle_send_message_def request_ok [of "pb_SendMessageReq (en_pb E)", OF assms] send_ack_def
  by (auto simp: bind_e_def in_store_def lift_e_def now_def modify_def split: prod.splits sum.splits)

lemma send_mirrored:
  assumes "pb_SendMessageReq (en_pb E) (ev_Body ev) = Inr req"
  shows "case SendMessageForAPI E (us_ID u) req M of
      (Inl e, M') \<Rightarrow> handle_send_message E i u ev M = (Inl e, M')
    | (Inr msg, M') \<Rightarrow> (\<exists>s'. M' = DeliverMessage E (mg_ChannelDBID msg) msg (M\<lparr>mn_store := s'\<rparr>) \<and>
        handle_send_message E i u ev M =
          (case sess_write E i MsgType_SEND_MESSAGE_ACK (ev_RequestId ev) (send_ack msg (now_ms s')) (M\<lparr>mn_store := s'\<rparr>) of
             (Inl e, M1) \<Rightarrow> (Inl e, M1)
           | (Inr x, M1) \<Rightarrow> (Inr (), DeliverMessage E (mg_ChannelDBID msg) msg M1)))"
proof -
  obtain r s' where s: "SendMessage (en_cfg E) (en_blob E) (us_ID u) (toSendMessageInput req) (mn_store M) = (r, s')"
    by fastforce
  show ?thesis
    by (cases r) (auto simp: handle_send_message_eq [OF assms] s SendMessageForAPI_def bind_e_def in_store_def lift_e_def
        modify_def ret_def intro: exI [of _ s'])
qed

text \<open>
  C16: the two ways into the server agree. For each request that has a method for the HTTP
  API, dispatching it on an authenticated stream and calling the method with the fields of
  the request and the user of the session do the same to the store and give the same
  response or an error of the same text; a notification is the method. Sending a message
  stores the same, fails with the same error and delivers the same message to the channel,
  except that the stream delivers it only after its acknowledgement was written: when that
  write fails, the message is stored and not delivered, which the method does always.
\<close>

theorem stream_mirrors_api:
  assumes "api_call E u ev = Some c"
  shows "case c of
      Replies ty m \<Rightarrow> mirrors E i ty ev m (dispatch_authenticated E i u ev)
    | Notifies m \<Rightarrow> dispatch_authenticated E i u ev = in_store m
    | Sends req \<Rightarrow> (\<forall>M. case SendMessageForAPI E (us_ID u) req M of
          (Inl e, M') \<Rightarrow> dispatch_authenticated E i u ev M = (Inl e, M')
        | (Inr msg, M') \<Rightarrow> (\<exists>s'. M' = DeliverMessage E (mg_ChannelDBID msg) msg (M\<lparr>mn_store := s'\<rparr>) \<and>
            dispatch_authenticated E i u ev M =
              (case sess_write E i MsgType_SEND_MESSAGE_ACK (ev_RequestId ev) (send_ack msg (now_ms s')) (M\<lparr>mn_store := s'\<rparr>) of
                 (Inl e, M1) \<Rightarrow> (Inl e, M1)
               | (Inr x, M1) \<Rightarrow> (Inr (), DeliverMessage E (mg_ChannelDBID msg) msg M1))))"
proof (cases c)
  case (Replies ty m)
  with assms have "api_reply E u ev = Some (ty, m)"
    by (auto simp: api_call_def decoded_def Let_def split: if_splits sum.splits)
  with Replies show ?thesis by (simp add: api_reply_mirrored)
next
  case (Notifies m)
  with assms have "dispatch_authenticated E i u ev = in_store m"
    by (auto simp: api_call_def decoded_def Let_def dispatch_authenticated_def handle_deliver_ack_def handle_read_update_def
        request_ok AckDeliveredForAPI_def UpdateReadForAPI_def split: if_splits sum.splits)
  with Notifies show ?thesis by simp
next
  case (Sends req)
  with assms have req: "pb_SendMessageReq (en_pb E) (ev_Body ev) = Inr req" "ev_MsgType ev = MsgType_SEND_MESSAGE_REQ"
    by (auto simp: api_call_def decoded_def Let_def split: if_splits sum.splits)
  then have d: "dispatch_authenticated E i u ev = handle_send_message E i u ev" by (simp add: dispatch_authenticated_def)
  show ?thesis unfolding Sends api_method.case d by (intro allI send_mirrored req)
qed

section \<open>Who may moderate\<close>

text \<open>The rank a moderator needs: owner or administrator of the space, and not banned.\<close>

definition has_rank :: "tables \<Rightarrow> uint32 \<Rightarrow> uint64 \<Rightarrow> bool" where
  "has_rank t sp u \<longleftrightarrow> (\<exists>m \<in> set (server_members t). is_member_row sp u m \<and> \<not> sm_is_banned m \<and>
     sm_role m \<in> {RoleOwner, RoleAdmin})"

definition mod_tabs :: "manager \<Rightarrow> tables" where
  "mod_tabs M = tabs (mn_store M)"

text \<open>The space that a request moderates, read off its body.\<close>

definition moderated_space :: "'pk env \<Rightarrow> envelope \<Rightarrow> uint32 option" where
  "moderated_space E ev =
     (let P = en_pb E; ty = ev_MsgType ev in
      if ty = MsgType_INVITE_SPACE_MEMBER_REQ then decoded (pb_InviteSpaceMemberReq P) ev fst
      else if ty = MsgType_KICK_SPACE_MEMBER_REQ then decoded (pb_KickSpaceMemberReq P) ev fst
      else if ty = MsgType_BAN_SPACE_MEMBER_REQ then decoded (pb_BanSpaceMemberReq P) ev fst
      else if ty = MsgType_UNBAN_SPACE_MEMBER_REQ then decoded (pb_UnbanSpaceMemberReq P) ev fst
      else if ty = MsgType_ADMIN_SET_SPACE_MEMBER_ROLE_REQ then decoded (pb_AdminSetSpaceMemberRoleReq P) ev sr_SpaceId
      else if ty = MsgType_ADMIN_SET_SPACE_CHANNEL_CREATION_REQ
        then decoded (pb_AdminSetSpaceChannelCreationReq P) ev fst
      else if ty = MsgType_CREATE_GROUP_REQ then decoded (pb_CreateGroupReq P) ev cr_SpaceId
      else if ty = MsgType_CREATE_CHANNEL_REQ then decoded (pb_CreateChannelReq P) ev cr_SpaceId
      else None)"

lemma GetMemberRole_rank:
  assumes "GetMemberRole sp u s = (Inr rl, s')" "rl = RoleOwner \<or> rl = RoleAdmin"
  shows "has_rank (tabs s) sp u"
  using assms by (auto simp: GetMemberRole_def em_simps has_rank_def is_member_row_def joins_server_def dest!: find_SomeD)

lemma GetMemberRole_frame: "GetMemberRole sp u s = (r, s') \<Longrightarrow> tabs s' = tabs s"
  unfolding GetMemberRole_def by (rule fetchOne_tabs)

text \<open>A handler that goes on only after the rank was found.\<close>

lemma rank_guard:
  assumes "bind_e (in_store (GetMemberRole sp u)) k M = (r, M')"
    and "\<And>rl N N'. \<not> (rl = RoleOwner \<or> rl = RoleAdmin) \<Longrightarrow> k rl N = (r, N') \<Longrightarrow> mod_tabs N' = mod_tabs N"
    and "mod_tabs M' \<noteq> mod_tabs M"
  shows "has_rank (mod_tabs M) sp u"
proof (cases "GetMemberRole sp u (mn_store M)")
  case (Pair x s1)
  note same = GetMemberRole_frame [OF Pair]
  show ?thesis
  proof (cases x)
    case (Inl e)
    with assms(1,3) Pair same show ?thesis by (auto simp: bind_e_def in_store_def lift_e_def mod_tabs_def)
  next
    case (Inr rl)
    have "k rl (M\<lparr>mn_store := s1\<rparr>) = (r, M')" using assms(1) Pair Inr by (simp add: bind_e_def in_store_def lift_e_def)
    with assms(2) [OF _ this] assms(3) same have "rl = RoleOwner \<or> rl = RoleAdmin" by (auto simp: mod_tabs_def)
    with GetMemberRole_rank Pair Inr show ?thesis by (auto simp: mod_tabs_def)
  qed
qed

lemma raise_tabs: "raise e M = (r, M') \<Longrightarrow> mod_tabs M' = mod_tabs M"
  by (simp add: raise_def)

lemma rank_if:
  "(if rl \<noteq> RoleOwner \<and> rl \<noteq> RoleAdmin then raise e else h) N = (r, N') \<Longrightarrow> \<not> (rl = RoleOwner \<or> rl = RoleAdmin) \<Longrightarrow>
     mod_tabs N' = mod_tabs N"
  by (simp add: raise_def)

lemma CreateChannel_rank:
  assumes "CreateChannel inp s = (r, s')" "tabs s' \<noteq> tabs s"
  shows "has_rank (tabs s) (cci_SpaceID inp) (cci_CreatorUserID inp)"
proof -
  from CreateChannel_effect [OF assms(1)] assms(2) obtain m where
    "find (\<lambda>m. is_member_row (cci_SpaceID inp) (cci_CreatorUserID inp) m \<and> \<not> sm_is_banned m) (server_members (tabs s)) = Some m"
    "sm_role m \<in> {RoleOwner, RoleAdmin}" by blast
  then show ?thesis using find_SomeD unfolding has_rank_def by fast
qed

lemma create_guard:
  assumes "bind_e (in_store (CreateChannel inp)) (\<lambda>item. sess_write E i ty rq (b item)) M = (r, M')"
    "mod_tabs M' \<noteq> mod_tabs M"
  shows "has_rank (mod_tabs M) (cci_SpaceID inp) (cci_CreatorUserID inp)"
proof (cases "CreateChannel inp (mn_store M)")
  case (Pair x s1)
  have "mod_tabs M' = tabs s1"
  proof (cases x)
    case (Inr item)
    then have "sess_write E i ty rq (b item) (M\<lparr>mn_store := s1\<rparr>) = (r, M')"
      using assms(1) Pair by (simp add: bind_e_def in_store_def lift_e_def)
    then show ?thesis by (rule sess_write_frame) (simp add: mod_tabs_def)
  qed (use assms(1) Pair in \<open>auto simp: bind_e_def in_store_def lift_e_def mod_tabs_def\<close>)
  with assms(2) CreateChannel_rank [OF Pair] show ?thesis by (simp add: mod_tabs_def)
qed

lemma moderate_guard:
  assumes "bind_e (request dec ev) (\<lambda>(spaceId, x). bind_e (in_store (GetMemberRole spaceId u)) (\<lambda>rl.
      if rl \<noteq> RoleOwner \<and> rl \<noteq> RoleAdmin then raise e else h spaceId x)) M = (r, M')"
    "decoded dec ev fst = Some sp" "mod_tabs M' \<noteq> mod_tabs M"
  shows "has_rank (mod_tabs M) sp u"
proof -
  from assms(2) obtain x where x: "dec (ev_Body ev) = Inr (sp, x)" by (auto simp: decoded_def split: sum.splits)
  from assms(1) have "bind_e (in_store (GetMemberRole sp u)) (\<lambda>rl.
      if rl \<noteq> RoleOwner \<and> rl \<noteq> RoleAdmin then raise e else h sp x) M = (r, M')" by (simp add: request_ok [of dec, OF x])
  then show ?thesis by (rule rank_guard [OF _ rank_if assms(3)])
qed

lemma set_role_guard:
  assumes "handle_set_member_role E i u ev M = (r, M')"
    "decoded (pb_AdminSetSpaceMemberRoleReq (en_pb E)) ev sr_SpaceId = Some sp" "mod_tabs M' \<noteq> mod_tabs M"
  shows "has_rank (mod_tabs M) sp (us_ID u)"
proof -
  from assms(2) obtain q where q: "pb_AdminSetSpaceMemberRoleReq (en_pb E) (ev_Body ev) = Inr q" "sr_SpaceId q = sp"
    by (auto simp: decoded_def split: sum.splits)
  show ?thesis
  proof (cases "toDomainMemberRole (sr_Role q)")
    case (Inr rl)
    with assms(1) have "bind_e (in_store (GetMemberRole (sr_SpaceId q) (us_ID u))) (\<lambda>actorRole.
         if rl = RoleOwner \<and> actorRole \<noteq> RoleOwner then raise (Errorf ''owner role required'')
         else if rl \<noteq> RoleOwner \<and> actorRole \<noteq> RoleOwner \<and> actorRole \<noteq> RoleAdmin then raise (Errorf ''admin role required'')
         else bind_e (in_store (GetByUserID (en_coll E) (sr_TargetUserId q))) (\<lambda>target.
           bind_e (in_store (SetSpaceMemberRole (sr_SpaceId q) (us_ID target) rl)) (\<lambda>_.
           sess_write E i MsgType_ADMIN_SET_SPACE_MEMBER_ROLE_RESP (ev_RequestId ev)
             (AdminSetSpaceMemberRoleResp True (sr_SpaceId q) (sr_TargetUserId q) (sr_Role q) ''updated'')))) M = (r, M')"
      by (simp add: handle_set_member_role_def request_ok [of "pb_AdminSetSpaceMemberRoleReq (en_pb E)", OF q(1)])
    then have "has_rank (mod_tabs M) (sr_SpaceId q) (us_ID u)"
      by (rule rank_guard [OF _ _ assms(3)]) (auto simp: raise_def split: if_splits)
    with q(2) show ?thesis by simp
  qed (use assms(1,3) in \<open>simp add: handle_set_member_role_def request_ok [of "pb_AdminSetSpaceMemberRoleReq (en_pb E)", OF q(1)] raise_def\<close>)
qed

lemma create_channel_guard:
  assumes "bind_e (request dec ev) (\<lambda>req. bind_e (in_store (CreateChannel \<lparr>cci_SpaceID = cr_SpaceId req,
      cci_CreatorUserID = u, cci_Type = ct, cci_Name = cr_Name req, cci_Description = cr_Description req,
      cci_Visibility = toDomainVisibility (cr_Visibility req), cci_SlowModeSeconds = cr_SlowModeSeconds req,
      cci_Bypass = bypass\<rparr>)) (\<lambda>item. sess_write E i ty rq (b req item))) M = (r, M')"
    "decoded dec ev cr_SpaceId = Some sp" "mod_tabs M' \<noteq> mod_tabs M"
  shows "has_rank (mod_tabs M) sp u"
proof -
  from assms(2) obtain q where q: "dec (ev_Body ev) = Inr q" "cr_SpaceId q = sp" by (auto simp: decoded_def split: sum.splits)
  from create_guard [OF assms(1) [unfolded request_ok [of dec, OF q(1)]] assms(3)] q(2) show ?thesis by simp
qed

text \<open>
  C17: moderation is for owners and administrators. Inviting, kicking, banning, unbanning,
  changing a role, allowing channel creation and creating a group or a channel change no
  table unless the user of the session is at that moment an owner or administrator of the
  space in question and not banned from it.
\<close>

theorem moderation_needs_rank:
  assumes sp: "moderated_space E ev = Some sp"
    and run: "dispatch_authenticated E i u ev M = (r, M')" and changed: "mod_tabs M' \<noteq> mod_tabs M"
  shows "has_rank (mod_tabs M) sp (us_ID u)"
proof -
  note guards = moderate_guard [OF _ _ changed] set_role_guard [OF _ _ changed] create_channel_guard [OF _ _ changed]
  consider "ev_MsgType ev = MsgType_INVITE_SPACE_MEMBER_REQ" | "ev_MsgType ev = MsgType_KICK_SPACE_MEMBER_REQ"
    | "ev_MsgType ev = MsgType_BAN_SPACE_MEMBER_REQ" | "ev_MsgType ev = MsgType_UNBAN_SPACE_MEMBER_REQ"
    | "ev_MsgType ev = MsgType_ADMIN_SET_SPACE_MEMBER_ROLE_REQ" | "ev_MsgType ev = MsgType_ADMIN_SET_SPACE_CHANNEL_CREATION_REQ"
    | "ev_MsgType ev = MsgType_CREATE_GROUP_REQ" | "ev_MsgType ev = MsgType_CREATE_CHANNEL_REQ"
    using sp by (auto simp: moderated_space_def Let_def split: if_splits)
  then show ?thesis
  proof cases
    case 5
    with sp run show ?thesis
      by (intro guards(2)) (simp_all add: moderated_space_def dispatch_authenticated_def)
  next
    case 7
    with run have "handle_create_group E i u ev M = (r, M')" by (simp add: dispatch_authenticated_def)
    with 7 sp show ?thesis
      unfolding handle_create_group_def by (intro guards(3)) (simp_all add: moderated_space_def)
  next
    case 8
    with run have "handle_create_channel E i u ev M = (r, M')" by (simp add: dispatch_authenticated_def)
    with 8 sp show ?thesis
      unfolding handle_create_channel_def by (intro guards(3)) (simp_all add: moderated_space_def)
  qed (use sp run in \<open>auto simp: moderated_space_def dispatch_authenticated_def handle_invite_def handle_kick_def
      handle_ban_def handle_unban_def handle_set_channel_creation_def intro: guards(1)\<close>)
qed

section \<open>Creating spaces\<close>

text \<open>
  Only the configured administrator creates spaces. A \<open>CREATE_SPACE_REQ\<close> changes a table
  only when an administrator peer is configured, it and the peer of the session's user both
  decode, and they decode to the same peer id; without a configured peer nobody can.
\<close>

theorem space_creation_by_admin:
  assumes ty: "ev_MsgType ev = MsgType_CREATE_SPACE_REQ"
    and run: "dispatch_authenticated E i u ev M = (r, M')" and changed: "mod_tabs M' \<noteq> mod_tabs M"
  shows "trimPeerIDForCompare (trimPeerIDForCompare (en_globalAdminPeerID E)) \<noteq> [] \<and>
    (\<exists>pid. en_Decode E (trimPeerIDForCompare (trimPeerIDForCompare (en_globalAdminPeerID E))) = Inr pid \<and>
       en_Decode E (trimPeerIDForCompare (us_PeerID u)) = Inr pid)"
proof -
  have h: "handle_create_space E i u ev M = (r, M')" using run ty by (simp add: dispatch_authenticated_def)
  have "isGlobalAdmin E (us_PeerID u)"
  proof (rule ccontr)
    assume "\<not> isGlobalAdmin E (us_PeerID u)"
    with h have "M' = M"
      by (auto simp: handle_create_space_def UnmarshalBody_def bind_e_def ret_def raise_def split: sum.splits)
    with changed show False by simp
  qed
  then show ?thesis by (auto simp: isGlobalAdmin_def Let_def split: if_splits sum.splits)
qed

section \<open>Every request is answered\<close>

text \<open>
  \<open>quiet\<close>: nothing was written to the session beyond \<open>out\<close>, and its writes succeed. \<open>answered\<close>:
  the first thing written after that is an envelope with the identifier of the request.
\<close>

definition quiet :: "nat \<Rightarrow> byte list \<Rightarrow> manager \<Rightarrow> bool" where
  "quiet i out M \<longleftrightarrow> mn_wires M i = \<lparr>wi_faults = [], wi_out = out\<rparr>"

definition answered :: "'pk env \<Rightarrow> nat \<Rightarrow> string \<Rightarrow> byte list \<Rightarrow> manager \<Rightarrow> bool" where
  "answered E i rq out M \<longleftrightarrow> (\<exists>p envl rest. mn_wires M i = \<lparr>wi_faults = [], wi_out = out @ frame p @ rest\<rparr> \<and>
     pb_MarshalEnvelope (en_pb E) envl = Inr p \<and> length p \<le> MaxEnvelopeBytes \<and> ev_RequestId envl = rq)"

lemma quiet_store_free [simp, intro]: "store_free (quiet i out)" "store_free (answered E i rq out)"
  by (simp_all add: store_free_def quiet_def answered_def)

lemma WriteEnvelope_quiet:
  "WriteEnvelope P envl \<lparr>wi_faults = [], wi_out = out\<rparr> =
     (case pb_MarshalEnvelope P envl of
        Inl e \<Rightarrow> (Inl (wrap ''marshal envelope'' e), \<lparr>wi_faults = [], wi_out = out\<rparr>)
      | Inr p \<Rightarrow> if MaxEnvelopeBytes < length p
          then (Inl (wrap ''marshal envelope'' ErrEnvelopeTooLarge), \<lparr>wi_faults = [], wi_out = out\<rparr>)
          else (Inr (), \<lparr>wi_faults = [], wi_out = out @ frame p\<rparr>))"
  by (auto simp: WriteEnvelope_def bind_e_def raise_def stream_Write_def frame_def split: sum.splits)

lemma NewEnvelope_request: "NewEnvelope P nw ty rq b = Inr envl \<Longrightarrow> ev_RequestId envl = rq"
  by (auto simp: NewEnvelope_def split: sum.splits)

lemma triple_sess_write:
  "triple (quiet i out) (sess_write E i ty rq b) (\<lambda>_. answered E i rq out) (\<lambda>_. quiet i out)"
  unfolding triple_def
  by (auto simp: sess_write_eq on_wire_def lift_e_def quiet_def WriteEnvelope_quiet answered_def not_less
      split: sum.splits prod.splits if_splits dest: NewEnvelope_request)

lemma write_each_answered: "answered E i rq out M \<Longrightarrow> answered E i rq out (write_each E is ty b M)"
proof (induction "is" arbitrary: M)
  case (Cons j "is")
  have "answered E i rq out (snd (sess_write E j ty [] b M))"
  proof (cases "j = i")
    case True
    from Cons.prems obtain p envl rest where
      M: "quiet i (out @ frame p @ rest) M" "pb_MarshalEnvelope (en_pb E) envl = Inr p" "length p \<le> MaxEnvelopeBytes"
        "ev_RequestId envl = rq"
      by (auto simp: answered_def quiet_def)
    have "quiet i (out @ frame p @ rest) (snd (sess_write E i ty [] b M)) \<or>
        answered E i [] (out @ frame p @ rest) (snd (sess_write E i ty [] b M))"
      using triple_sess_write [of i "out @ frame p @ rest" E ty "[]" b, unfolded triple_def, THEN spec, of M] M(1)
      by (cases "sess_write E i ty [] b M"; cases "fst (sess_write E i ty [] b M)") auto
    with M(2-4) True show ?thesis by (fastforce simp: answered_def quiet_def)
  next
    case False
    obtain w where "snd (sess_write E j ty [] b M) = M\<lparr>mn_wires := (mn_wires M)(j := w)\<rparr>" using snd_sess_write by blast
    with False Cons.prems show ?thesis by (simp add: answered_def)
  qed
  with Cons.IH show ?case by simp
qed simp


text \<open>What runs before the response leaves the stream alone.\<close>

lemma triple_quiet:
  "triple (quiet i out) (in_store m) (\<lambda>_. quiet i out) (\<lambda>_. quiet i out)"
  "triple (quiet i out) (UnmarshalBody dec d) (\<lambda>_. quiet i out) (\<lambda>_. quiet i out)"
  by (intro triple_keep keeps_intros quiet_store_free)+

lemma triple_quiet_modify:
  "(\<And>M. mn_wires (f M) = mn_wires M) \<Longrightarrow> triple (quiet i out) (modify f) (\<lambda>_. quiet i out) F"
  by (simp add: triple_def modify_def quiet_def)

lemma wires_kept [simp]:
  "mn_wires (SubscribeChannel j c M) = mn_wires M" "mn_wires (unsubscribe j c M) = mn_wires M"
  "mn_wires (set_session j f M) = mn_wires M" "mn_wires (registerDirectUserSession j M) = mn_wires M"
  by (simp_all add: SubscribeChannel_def unsubscribe_def set_session_def registerDirectUserSession_def Let_def
      split: option.splits)

lemma answered_deliver [simp]:
  "answered E i rq out M \<Longrightarrow> answered E i rq out (DeliverMessage E c m M)"
  "answered E i rq out M \<Longrightarrow> answered E i rq out (deliverDirectMessageToUser E k d M)"
  "answered E i rq out M \<Longrightarrow> answered E i rq out (deliverDirectPeerAckToUser E k a M)"
proof -
  have "answered E i rq out (M\<lparr>mn_delivered := dd\<rparr>) = answered E i rq out M" for dd M by (simp add: answered_def)
  then show "answered E i rq out M \<Longrightarrow> answered E i rq out (DeliverMessage E c m M)"
    by (simp add: DeliverMessage_def Let_def write_each_answered)
qed (simp_all add: deliverDirectMessageToUser_def deliverDirectPeerAckToUser_def write_each_answered)

lemma triple_answered [triple_intros]:
  "(\<And>M. answered E i rq out M \<Longrightarrow> answered E i rq out (f M)) \<Longrightarrow>
     triple (answered E i rq out) (modify f) (\<lambda>_. answered E i rq out) F"
  by (simp add: triple_def modify_def)

lemma triple_answered_ret [triple_intros]: "triple (answered E i rq out) (ret x) (\<lambda>_. answered E i rq out) F"
  by (rule triple_ret)

lemma triple_cleanup:
  "triple (quiet i out) (handle_e (in_store m) (\<lambda>e. ret y) (\<lambda>z. ret y)) (\<lambda>_. quiet i out) (\<lambda>_. quiet i out)"
  by (intro triple_keep keeps_intros quiet_store_free)

lemmas triple_sessions = triple_quiet_modify [OF wires_kept(1)] triple_quiet_modify [OF wires_kept(2)]
  triple_quiet_modify [OF wires_kept(3)] triple_quiet_modify [OF wires_kept(4)]

lemmas triple_session =
  triple_bind [OF triple_quiet(1)] triple_bind [OF triple_quiet(2)] triple_bind [OF triple_cleanup]
  triple_bind [OF triple_sessions(1)] triple_bind [OF triple_sessions(2)] triple_bind [OF triple_sessions(3)]
  triple_bind [OF triple_sessions(4)] triple_bind [OF triple_sess_write] triple_sess_write triple_sessions

lemma dispatch_authenticated_answered:
  assumes "ev_MsgType ev \<notin> {MsgType_CHANNEL_DELIVER_ACK, MsgType_CHANNEL_READ_UPDATE}"
  shows "triple (quiet i out) (dispatch_authenticated E i u ev) (\<lambda>_. answered E i (ev_RequestId ev) out) (\<lambda>_. quiet i out)"
  using assms unfolding dispatch_authenticated_def Let_def handler_defs
  by (intro triple_intros triple_session) (simp_all add: triple_ret)

lemma dispatch_answered:
  assumes "ev_MsgType ev \<notin> {MsgType_CHANNEL_DELIVER_ACK, MsgType_CHANNEL_READ_UPDATE}"
  shows "triple (quiet i out) (dispatch E i ev) (\<lambda>_. answered E i (ev_RequestId ev) out) (\<lambda>_. quiet i out)"
proof -
  let ?A = "\<lambda>_. answered E i (ev_RequestId ev) out" and ?Q = "\<lambda>_. quiet i out"
  have hello: "triple (quiet i out) (handle_hello E i ev) ?A ?Q"
    unfolding handle_hello_def by (intro triple_intros triple_session)
  have ping: "triple (quiet i out) (handle_ping E i ev) ?A ?Q"
    unfolding handle_ping_def by (intro triple_intros triple_session)
  have auth: "triple (quiet i out) (Authenticate E i prove) ?Q ?Q" for prove
  proof -
    have "Authenticate E i prove = (\<lambda>M. (if cs_issuedChallenge (mn_sessions M i) = None
        then raise (Errorf ''missing challenge'')
        else bind_e (in_store (VerifyChallenge (en_auth E) (en_cfg E)
             \<lparr>vi_ClientPeerID = ap_ClientPeerId prove, vi_NodePeerID = en_nodePeerID E, vi_Nonce = ap_Nonce prove,
              vi_IssuedAt = sint (ap_IssuedAtMs prove), vi_ExpiresAt = sint (ap_ExpiresAtMs prove),
              vi_Signature = ap_Signature prove, vi_PublicKey = ap_PublicKey prove\<rparr>)) (\<lambda>result.
        modify (set_session i (\<lambda>s. s\<lparr>cs_authenticated := True, cs_authResult := Some result\<rparr>)))) M)"
      by (rule ext) (simp add: Authenticate_def)
    then show ?thesis by (simp only:) (rule triple_at, intro triple_intros triple_session)
  qed
  let ?f = "\<lambda>M. (case cs_authResult (mn_sessions M i) of
        None \<Rightarrow> raise (Errorf ''authentication required'')
      | Some res \<Rightarrow> (let u = ar_User res in
          bind_e (in_store (ListSpaces (en_coll E) (us_ID u))) (\<lambda>servers.
          bind_e (in_store (spaceSummariesForViewer E servers (us_ID u) (us_PeerID u))) (\<lambda>spaces.
          bind_e (modify (registerDirectUserSession i)) (\<lambda>_.
          sess_write E i MsgType_AUTH_RESULT (ev_RequestId ev)
            (AuthResultMsg True (ar_SessionID res) (us_UserID u) (us_DisplayName u) (ar_Message res) spaces))))))"
  have rest: "triple (quiet i out) (\<lambda>M. ?f M M) ?A ?Q"
    by (rule triple_at [of _ ?f]) (unfold Let_def, intro triple_intros triple_session)
  have prove: "triple (quiet i out) (handle_auth_prove E i ev) ?A ?Q"
    unfolding handle_auth_prove_def by (rule triple_bind [OF triple_quiet(2)], rule triple_bind [OF auth rest])
  show ?thesis
    unfolding dispatch_def
    by (rule triple_at) (intro triple_if triple_option hello prove ping triple_raise
        dispatch_authenticated_answered [OF assms])
qed

lemma answered_error:
  assumes "quiet i out M" "event_bytes E (now_ms (mn_store M)) MsgType_ERROR rq (ErrorMsg 400 msg) \<noteq> None"
  shows "answered E i rq out (snd (writeError E i rq 400 msg M))"
proof -
  from assms(2) obtain bs where bs: "event_bytes E (now_ms (mn_store M)) MsgType_ERROR rq (ErrorMsg 400 msg) = Some bs" by blast
  then have "fst (writeError E i rq 400 msg M) = Inr ()"
    using assms(1) sess_write_bytes [OF bs, of i] by (simp add: writeError_def quiet_def)
  with triple_sess_write [of i out E MsgType_ERROR rq "ErrorMsg 400 msg", unfolded triple_def, THEN spec, of M] assms(1)
  show ?thesis by (auto simp: writeError_def split: prod.splits sum.splits)
qed

lemma serve_answered:
  assumes fits: "\<And>e M'. dispatch E i ev M = (Inl e, M') \<Longrightarrow>
      event_bytes E (now_ms (mn_store M')) MsgType_ERROR (ev_RequestId ev) (ErrorMsg 400 (error_text e)) \<noteq> None"
    and writable: "wi_faults (mn_wires M i) = []"
    and ty: "ev_MsgType ev \<notin> {MsgType_CHANNEL_DELIVER_ACK, MsgType_CHANNEL_READ_UPDATE}"
  shows "answered E i (ev_RequestId ev) (wi_out (mn_wires M i)) (serve E i ev M)"
proof -
  let ?out = "wi_out (mn_wires M i)"
  have q: "quiet i ?out M" using writable by (simp add: quiet_def)
  obtain r M1 where d: "dispatch E i ev M = (r, M1)" by (cases "dispatch E i ev M")
  show ?thesis
  proof (cases r)
    case (Inr x)
    with dispatch_answered [OF ty, of i ?out E, unfolded triple_def, THEN spec, of M] q d show ?thesis
      by (simp add: serve_def)
  next
    case (Inl e)
    with dispatch_answered [OF ty, of i ?out E, unfolded triple_def, THEN spec, of M] q d have q1: "quiet i ?out M1" by simp
    from answered_error [OF this fits [OF d [unfolded Inl]]] d Inl show ?thesis by (simp add: serve_def)
  qed
qed

lemma notification_quiet:
  assumes "ev_MsgType ev \<in> {MsgType_CHANNEL_DELIVER_ACK, MsgType_CHANNEL_READ_UPDATE}"
  shows "triple (quiet i out) (dispatch E i ev) (\<lambda>_. quiet i out) (\<lambda>_. quiet i out)"
proof -
  have "triple (quiet i out) (dispatch_authenticated E i u ev) (\<lambda>_. quiet i out) (\<lambda>_. quiet i out)" for u
  proof -
    have "keeps (quiet i out) (handle_deliver_ack E i u ev)" "keeps (quiet i out) (handle_read_update E i u ev)"
      unfolding handle_deliver_ack_def handle_read_update_def by (intro keeps_intros quiet_store_free)+
    moreover have "dispatch_authenticated E i u ev \<in> {handle_deliver_ack E i u ev, handle_read_update E i u ev}"
      using assms by (auto simp: dispatch_authenticated_def)
    ultimately show ?thesis by (auto intro: triple_keep)
  qed
  moreover have "ev_MsgType ev \<noteq> MsgType_HELLO" "ev_MsgType ev \<noteq> MsgType_AUTH_PROVE" "ev_MsgType ev \<noteq> MsgType_PING"
    using assms by auto
  ultimately show ?thesis
    unfolding dispatch_def by (simp only: if_False) (rule triple_at, intro triple_if triple_option triple_raise)
qed

lemma serve_notified:
  assumes "ev_MsgType ev \<in> {MsgType_CHANNEL_DELIVER_ACK, MsgType_CHANNEL_READ_UPDATE}"
    and "wi_faults (mn_wires M i) = []"
  shows "case dispatch E i ev M of
      (Inr x, M') \<Rightarrow> serve E i ev M = M' \<and> mn_wires M' i = mn_wires M i
    | (Inl e, M') \<Rightarrow> mn_wires M' i = mn_wires M i"
  using notification_quiet [OF assms(1), of i "wi_out (mn_wires M i)" E, unfolded triple_def, THEN spec, of M] assms(2)
  by (auto simp: quiet_def serve_def split: prod.splits sum.splits)

text \<open>
  C10: every request is answered. On a stream whose writes succeed, whatever the request is,
  well-formed or not and successful or not, the first thing the session writes for it is an
  envelope with the identifier of the request: the response, or an error when the request has
  failed, provided the frame for this error can be encoded. The two notifications are answered
  when they fail; when they succeed, nothing is written.
\<close>

theorem request_answered:
  assumes fits: "\<And>e M'. dispatch E i ev M = (Inl e, M') \<Longrightarrow>
      event_bytes E (now_ms (mn_store M')) MsgType_ERROR (ev_RequestId ev) (ErrorMsg 400 (error_text e)) \<noteq> None"
    and writable: "wi_faults (mn_wires M i) = []"
  shows "if ev_MsgType ev \<in> {MsgType_CHANNEL_DELIVER_ACK, MsgType_CHANNEL_READ_UPDATE} \<and> \<not> isl (fst (dispatch E i ev M))
    then mn_wires (serve E i ev M) i = mn_wires M i
    else \<exists>p envl rest. wi_out (mn_wires (serve E i ev M) i) = wi_out (mn_wires M i) @ frame p @ rest \<and>
      pb_MarshalEnvelope (en_pb E) envl = Inr p \<and> ev_RequestId envl = ev_RequestId ev"
proof (cases "ev_MsgType ev \<in> {MsgType_CHANNEL_DELIVER_ACK, MsgType_CHANNEL_READ_UPDATE}")
  case False
  from serve_answered [OF fits writable False] obtain p envl rest where
    "mn_wires (serve E i ev M) i = \<lparr>wi_faults = [], wi_out = wi_out (mn_wires M i) @ frame p @ rest\<rparr>"
    "pb_MarshalEnvelope (en_pb E) envl = Inr p" "ev_RequestId envl = ev_RequestId ev" by (auto simp: answered_def)
  then have "\<exists>p envl rest. wi_out (mn_wires (serve E i ev M) i) = wi_out (mn_wires M i) @ frame p @ rest \<and>
      pb_MarshalEnvelope (en_pb E) envl = Inr p \<and> ev_RequestId envl = ev_RequestId ev"
    by (intro exI [of _ p] exI [of _ envl] exI [of _ rest]) simp
  with False show ?thesis by simp
next
  case True
  note n = serve_notified [OF True writable, of E]
  show ?thesis
  proof (cases "dispatch E i ev M")
    case (Pair r M1)
    show ?thesis
    proof (cases r)
      case (Inr x)
      with Pair n True show ?thesis by simp
    next
      case (Inl e)
      with Pair n have q: "quiet i (wi_out (mn_wires M i)) M1" using writable by (simp add: quiet_def)
      from answered_error [OF this fits [OF Pair [unfolded Inl]]] Pair Inl True show ?thesis
        by (fastforce simp: serve_def answered_def)
    qed
  qed
qed

section \<open>Instances\<close>

definition ex_env :: "byte list env" where
  "ex_env = \<lparr>en_auth = ex_auth, en_cfg = defaults, en_blob = ex_blob_env,
     en_pb = ex_pb\<lparr>pb_MarshalEnvelope := \<lambda>envl. Inr [of_int (ev_MsgType envl)],
       pb_AuthProve := \<lambda>_. Inr \<lparr>ap_ClientPeerId = ''p1'', ap_Nonce = replicate 32 7, ap_IssuedAtMs = 100000,
         ap_ExpiresAtMs = 400000, ap_Signature = [1], ap_PublicKey = [1]\<rparr>,
       pb_CreateSpaceReq := \<lambda>_. Inr \<lparr>cq_Name = ''x'', cq_Description = [], cq_Visibility = 1, cq_AllowChannelCreation = True\<rparr>\<rparr>,
     en_nodePeerID = ''n1'', en_nodeID = 1, en_blobURLBase = ''blobs'', en_globalAdminPeerID = ''p1'',
     en_Decode = \<lambda>s. Inr (string_bytes s), en_MsgTypeString = \<lambda>ty. [], en_direct = True\<rparr>"

definition ex_account :: user where
  "ex_account = \<lparr>us_ID = 1, us_UserID = ''u_1'', us_PeerID = ''p1'', us_PubKey = [1], us_DisplayName = ''u_1'',
     us_AvatarURL = [], us_Bio = [], us_Status = 1, us_LastLoginAt = 1000, us_CreatedAt = 1000, us_UpdatedAt = 1000\<rparr>"

definition ex_login :: conn_session where
  "ex_login = \<lparr>cs_authenticated = True, cs_hello = None, cs_issuedChallenge = None,
     cs_authResult = Some \<lparr>ar_SessionID = ''sess_1'', ar_User = ex_account, ar_Message = ''authenticated''\<rparr>,
     cs_subscribed = [1]\<rparr>"

text \<open>Session 1 is the owner's and subscribed to the channel; nobody else is connected.\<close>

definition ex_manager :: manager where
  "ex_manager = \<lparr>mn_store = ex_store, mn_sessions = (\<lambda>_. new_session)(1 := ex_login),
     mn_wires = \<lambda>_. \<lparr>wi_faults = [], wi_out = []\<rparr>, mn_subscriptions = (\<lambda>_. [])(1 := [1]),
     mn_realtimeSubs = (\<lambda>_. []), mn_directSessions = (\<lambda>_. [])(1 := [1]), mn_delivered = []\<rparr>"

lemma ex_sessions_ok: "sessions_ok ex_manager"
  by (auto simp: sessions_ok_def ex_manager_def ex_login_def new_session_def)

lemma ex_bytes: "event_bytes ex_env nw ty rq b = Some (frame [of_int ty])"
  by (simp add: event_bytes_def ex_env_def NewEnvelope_def MarshalBody_def ex_pb_def MaxEnvelopeBytes_def)

theorem session_gate_witness:
  "serve ex_env 3 (ex_envelope MsgType_LIST_SPACES_REQ) ex_manager =
     snd (writeError ex_env 3 ''r1'' 400 ''authentication required'' ex_manager)"
  using session_gate [of ex_manager 3 "ex_envelope MsgType_LIST_SPACES_REQ" ex_env]
  by (simp add: ex_manager_def new_session_def ex_envelope_def)

theorem delivery_to_subscribers_witness:
  "\<forall>msg. wi_out (mn_wires (DeliverMessage ex_env 1 msg ex_manager) 1) = frame [32]"
proof
  fix msg
  show "wi_out (mn_wires (DeliverMessage ex_env 1 msg ex_manager) 1) = frame [32]"
    using delivery_to_subscribers [OF _ ex_bytes, of ex_manager 1 msg] by (simp add: ex_manager_def)
qed

lemma ex_requests:
  "pb_KickSpaceMemberReq (en_pb ex_env) b = Inr (1, ''u_2'')"
  "pb_CreateSpaceReq (en_pb ex_env) b =
     Inr \<lparr>cq_Name = ''x'', cq_Description = [], cq_Visibility = 1, cq_AllowChannelCreation = True\<rparr>"
  "pb_AuthProve (en_pb ex_env) b = Inr \<lparr>ap_ClientPeerId = ''p1'', ap_Nonce = replicate 32 7, ap_IssuedAtMs = 100000,
     ap_ExpiresAtMs = 400000, ap_Signature = [1], ap_PublicKey = [1]\<rparr>"
  "ev_MsgType (ex_envelope ty) = ty" "us_ID ex_account = 1" "us_PeerID ex_account = ''p1''"
  by (simp_all add: ex_env_def ex_pb_def ex_envelope_def ex_account_def)

theorem stream_mirrors_api_witness:
  "mirrors ex_env 1 MsgType_KICK_SPACE_MEMBER_RESP (ex_envelope MsgType_KICK_SPACE_MEMBER_REQ)
     (KickSpaceMemberForAPI ex_env 1 ''p1'' 1 ''u_2'')
     (dispatch_authenticated ex_env 1 ex_account (ex_envelope MsgType_KICK_SPACE_MEMBER_REQ))"
proof -
  have "api_call ex_env ex_account (ex_envelope MsgType_KICK_SPACE_MEMBER_REQ) =
      Some (Replies MsgType_KICK_SPACE_MEMBER_RESP (KickSpaceMemberForAPI ex_env 1 ''p1'' 1 ''u_2''))"
    by (simp add: api_call_def api_reply_def decoded_def ex_requests)
  from stream_mirrors_api [OF this] show ?thesis by simp
qed

text \<open>
  A codec that keeps what an error says: the frame of an error carries its type, the
  identifier of the request and the whole text. The request is one of a session that is not
  authenticated.
\<close>

definition ex_error_env :: "byte list env" where
  "ex_error_env = ex_env\<lparr>en_pb := (en_pb ex_env)\<lparr>pb_Marshal := \<lambda>b. Inr (case b of ErrorMsg c msg \<Rightarrow> string_bytes msg | _ \<Rightarrow> []),
     pb_MarshalEnvelope := \<lambda>ev. Inr (of_int (ev_MsgType ev) # of_nat (length (ev_RequestId ev)) # string_bytes (ev_RequestId ev) @ ev_Body ev)\<rparr>\<rparr>"

theorem request_answered_witness:
  "\<exists>p rest. wi_out (mn_wires (serve ex_error_env 3 (ex_envelope MsgType_LIST_SPACES_REQ) ex_manager) 3) = frame p @ rest"
proof -
  let ?ev = "ex_envelope MsgType_LIST_SPACES_REQ"
  have d: "dispatch ex_error_env 3 ?ev ex_manager = (Inl (Errorf ''authentication required''), ex_manager)"
    by (simp add: dispatch_def ex_envelope_def ex_manager_def new_session_def raise_def)
  have e: "event_bytes ex_error_env nw MsgType_ERROR (ev_RequestId ?ev) (ErrorMsg 400 (error_text (Errorf ''authentication required''))) \<noteq> None" for nw
    by (simp add: event_bytes_def ex_error_env_def NewEnvelope_def MarshalBody_def MaxEnvelopeBytes_def ex_envelope_def
        string_bytes_def)
  have w: "wi_faults (mn_wires ex_manager 3) = []" "wi_out (mn_wires ex_manager 3) = []" by (simp_all add: ex_manager_def)
  have ty: "ev_MsgType ?ev \<notin> {MsgType_CHANNEL_DELIVER_ACK, MsgType_CHANNEL_READ_UPDATE}" by (simp add: ex_envelope_def)
  have fits: "event_bytes ex_error_env (now_ms (mn_store M')) MsgType_ERROR (ev_RequestId ?ev) (ErrorMsg 400 (error_text x)) \<noteq> None"
    if "dispatch ex_error_env 3 ?ev ex_manager = (Inl x, M')" for x M'
    using that e [of "now_ms (mn_store ex_manager)"] d by (metis Inl_inject prod.inject)
  from request_answered [of ex_error_env 3 ?ev ex_manager, OF fits w(1)] ty w(2)
  show ?thesis by (simp only: if_False simp_thms append_Nil) blast
qed

lemma summary_reads:
  "keeps (on_store (on_tabs I)) (bind_e (in_store (spaceSummaryForViewer E item u p)) (\<lambda>sum. sess_write E i ty rq (b sum)))"
  unfolding spaceSummaryForViewer_def effectiveAllowChannelCreation_def GetMemberRole_def
  by (intro keeps_intros on_store_free)

lemma ex_coll_env: "en_coll ex_env = ex_coll" by (simp add: ex_env_def ex_auth_def ex_blob_env_def)

lemma ex_kick:
  "mod_tabs (snd (dispatch_authenticated ex_env 1 ex_account (ex_envelope MsgType_KICK_SPACE_MEMBER_REQ) ex_manager)) \<noteq>
     mod_tabs ex_manager"
proof -
  let ?I = "on_store (on_tabs (\<lambda>t. length (server_members t) = 2))"
  have st: "mn_store ex_manager = ex_store" by (simp add: ex_manager_def)
  have rl: "GetMemberRole 1 1 ex_store = (Inr RoleOwner, ex_store)" 
    by (simp add: run_simps GetMemberRole_def joins_server_def is_member_row_def ex_defs)
  obtain tg where tg: "GetByUserID ex_coll ''u_2'' ex_store = (Inr tg, ex_store)" "us_ID tg = 2"
    by (simp add: run_simps GetByUserID_def to_user_def ex_defs)
  have ok: "\<not> isl (fst (KickSpaceMember 1 2 ex_store))" by (simp add: run_simps ex_defs)
  have "length (server_members (tabs (snd (KickSpaceMember 1 2 ex_store)))) = 2" by (simp add: run_simps ex_defs)
  then obtain item s1 where k: "KickSpaceMember 1 2 ex_store = (Inr item, s1)" and len: "length (server_members (tabs s1)) = 2"
    using succeeds [OF ok] by (metis snd_conv)
  have "dispatch_authenticated ex_env 1 ex_account (ex_envelope MsgType_KICK_SPACE_MEMBER_REQ) ex_manager =
     bind_e (in_store (spaceSummaryForViewer ex_env item 1 ''p1''))
       (\<lambda>sum. sess_write ex_env 1 MsgType_KICK_SPACE_MEMBER_RESP (ev_RequestId (ex_envelope MsgType_KICK_SPACE_MEMBER_REQ))
          (KickSpaceMemberResp True 1 ''u_2'' sum ''kicked''))
       (ex_manager\<lparr>mn_store := s1\<rparr>)"
    using tg by (simp add: dispatch_authenticated_def handle_kick_def ex_requests request_ok ex_coll_env
        bind_e_def in_store_def lift_e_def rl k st)
  then have "?I (snd (dispatch_authenticated ex_env 1 ex_account (ex_envelope MsgType_KICK_SPACE_MEMBER_REQ) ex_manager))"
    by (simp only:) (rule keepsD [OF summary_reads], simp add: on_store_def on_tabs_def len)
  then show ?thesis by (auto simp: on_store_def on_tabs_def mod_tabs_def st ex_store_def ex_tables_def)
qed

theorem moderation_needs_rank_witness: "has_rank (mod_tabs ex_manager) 1 1"
proof -
  have sp: "moderated_space ex_env (ex_envelope MsgType_KICK_SPACE_MEMBER_REQ) = Some 1"
    by (simp add: moderated_space_def decoded_def ex_requests)
  from moderation_needs_rank [OF sp surjective_pairing ex_kick] show ?thesis by (simp add: ex_requests)
qed

lemma ex_create:
  "mod_tabs (snd (dispatch_authenticated ex_env 1 ex_account (ex_envelope MsgType_CREATE_SPACE_REQ) ex_manager)) \<noteq>
     mod_tabs ex_manager"
proof -
  let ?inp = "\<lparr>csi_HostNodeID = 1, csi_CreatorUserID = 1, csi_Name = ''x'', csi_Description = [],
    csi_Visibility = VisibilityPublic, csi_AllowChannelCreation = True\<rparr>"
  have st: "mn_store ex_manager = ex_store" by (simp add: ex_manager_def)
  have adm: "isGlobalAdmin ex_env ''p1''"
    by (simp add: isGlobalAdmin_def trimPeerIDForCompare_def ex_env_def trim_simps)
  have node: "en_nodeID ex_env = 1" by (simp add: ex_env_def)
  note create = CreateSpace_def create_space_tx_def insert_server_def insert_member_def
  have ok: "\<not> isl (fst (CreateSpace ?inp ex_store))" by (simp add: create run_simps ex_defs trim_simps)
  have "length (servers (tabs (snd (CreateSpace ?inp ex_store)))) = 3" by (simp add: create run_simps ex_defs trim_simps)
  then obtain item s1 where k: "CreateSpace ?inp ex_store = (Inr item, s1)" and len: "length (servers (tabs s1)) = 3"
    using succeeds [OF ok] by (metis snd_conv)
  have "dispatch_authenticated ex_env 1 ex_account (ex_envelope MsgType_CREATE_SPACE_REQ) ex_manager =
     bind_e (in_store (spaceSummaryForViewer ex_env item 1 ''p1''))
       (\<lambda>sum. sess_write ex_env 1 MsgType_CREATE_SPACE_RESP (ev_RequestId (ex_envelope MsgType_CREATE_SPACE_REQ))
          (CreateSpaceResp True (sp_ID item) sum ''created''))
       (ex_manager\<lparr>mn_store := s1\<rparr>)"
    by (simp add: dispatch_authenticated_def handle_create_space_def ex_requests request_ok adm node
        toDomainVisibility_def bind_e_def in_store_def lift_e_def k st)
  then have "on_store (on_tabs (\<lambda>t. length (servers t) = 3))
      (snd (dispatch_authenticated ex_env 1 ex_account (ex_envelope MsgType_CREATE_SPACE_REQ) ex_manager))"
    by (simp only:) (rule keepsD [OF summary_reads], simp add: on_store_def on_tabs_def len)
  then show ?thesis by (auto simp: on_store_def on_tabs_def mod_tabs_def st ex_store_def ex_tables_def)
qed

theorem space_creation_by_admin_witness: "\<exists>pid. en_Decode ex_env (trimPeerIDForCompare ''p1'') = Inr pid"
  using space_creation_by_admin [OF _ surjective_pairing ex_create] by (auto simp: ex_requests)

text \<open>Session 3 is a connection that was given the challenge of the example service.\<close>

definition ex_joining :: "conn_session \<Rightarrow> uint64 list \<Rightarrow> store \<Rightarrow> manager" where
  "ex_joining se us s = ex_manager\<lparr>mn_store := s,
     mn_sessions := (\<lambda>_. new_session)(3 := se\<lparr>cs_issuedChallenge := Some ex_challenge, cs_subscribed := []\<rparr>),
     mn_subscriptions := \<lambda>_. [], mn_directSessions := \<lambda>u. if u \<in> set us then [3] else []\<rparr>"

lemma ex_proof:
  assumes v: "VerifyChallenge ex_auth defaults (answer ex_challenge [1] [1]) s = (Inr res, s')"
  shows "login 3 (serve ex_env 3 (ex_envelope MsgType_AUTH_PROVE) (ex_joining se us s)) = (True, Some res)"
proof -
  let ?M = "ex_joining se us s" and ?ev = "ex_envelope MsgType_AUTH_PROVE"
  let ?M1 = "set_session 3 (\<lambda>s. s\<lparr>cs_authenticated := True, cs_authResult := Some res\<rparr>) (?M\<lparr>mn_store := s'\<rparr>)"
  have "VerifyChallenge (en_auth ex_env) (en_cfg ex_env)
      \<lparr>vi_ClientPeerID = ''p1'', vi_NodePeerID = en_nodePeerID ex_env, vi_Nonce = replicate 32 7, vi_IssuedAt = 100000,
       vi_ExpiresAt = 400000, vi_Signature = [1], vi_PublicKey = [1]\<rparr> s = (Inr res, s')"
    using v by (simp add: ex_env_def answer_def ex_challenge_def Let_def)
  then have a: "Authenticate ex_env 3 (projr (pb_AuthProve (en_pb ex_env) (ev_Body ?ev))) ?M = (Inr (), ?M1)"
    by (simp add: Authenticate_def ex_requests bind_e_def in_store_def lift_e_def modify_def ex_joining_def)
  obtain r M' where h: "handle_auth_prove ex_env 3 ?ev ?M = (r, M')" by (cases "handle_auth_prove ex_env 3 ?ev ?M")
  have "mn_sessions M' = mn_sessions ?M1"
  proof -
    have "cs_authResult (mn_sessions ?M1 3) = Some res" by (simp add: set_session_def)
    with h a have "bind_e (in_store (ListSpaces (en_coll ex_env) (us_ID (ar_User res)))) (\<lambda>servers.
        bind_e (in_store (spaceSummariesForViewer ex_env servers (us_ID (ar_User res)) (us_PeerID (ar_User res)))) (\<lambda>spaces.
        bind_e (modify (registerDirectUserSession 3)) (\<lambda>_. sess_write ex_env 3 MsgType_AUTH_RESULT (ev_RequestId ?ev)
          (AuthResultMsg True (ar_SessionID res) (us_UserID (ar_User res)) (us_DisplayName (ar_User res)) (ar_Message res) spaces))))
        ?M1 = (r, M')"
      by (simp add: handle_auth_prove_def UnmarshalBody_def ex_requests bind_e_def [of "ret _"]
          bind_e_def [of "Authenticate _ _ _"] ret_def Let_def)
    then show ?thesis by (rule keepsD2 [OF keeps_sessions_rest _ refl])
  qed
  moreover have "dispatch ex_env 3 ?ev ?M = (r, M')" using h by (simp add: dispatch_def ex_requests)
  ultimately show ?thesis using serve_login [of ex_env 3 ?ev ?M r M' 3] by (simp add: login_def set_session_def)
qed

theorem authenticated_by_proof_witness:
  "\<exists>s res s'. VerifyChallenge ex_auth defaults (answer ex_challenge [1] [1]) s = (Inr res, s') \<and>
     login 3 (serve ex_env 3 (ex_envelope MsgType_AUTH_PROVE) (ex_joining new_session [] s)) = (True, Some res) \<and>
     cs_issuedChallenge (mn_sessions (ex_joining new_session [] s) 3) \<noteq> None"
proof -
  obtain s res s' where v: "VerifyChallenge ex_auth defaults (answer ex_challenge [1] [1]) s = (Inr res, s')"
    using ex_accept by blast
  have "login 3 (ex_joining new_session [] s) \<noteq> (True, Some res)"
    by (simp add: login_def ex_joining_def new_session_def)
  then have "login 3 (serve ex_env 3 (ex_envelope MsgType_AUTH_PROVE) (ex_joining new_session [] s)) \<noteq>
      login 3 (ex_joining new_session [] s)" by (simp add: ex_proof [OF v])
  from authenticated_by_proof [OF this] v ex_proof [OF v] show ?thesis by blast
qed

theorem stale_direct_session_witness:
  "\<exists>M u res. login 3 (serve ex_env 3 (ex_envelope MsgType_AUTH_PROVE) M) = (True, Some res) \<and> us_ID (ar_User res) \<noteq> u \<and>
     (\<exists>M'. M' = serve ex_env 3 (ex_envelope MsgType_AUTH_PROVE) M \<and>
        (\<forall>d. wi_out (mn_wires (deliverDirectMessageToUser ex_env u d M') 3) = wi_out (mn_wires M' 3) @ frame [73]))"
proof -
  obtain s res s' where v: "VerifyChallenge ex_auth defaults (answer ex_challenge [1] [1]) s = (Inr res, s')"
    using ex_accept by blast
  define u where "u = us_ID (ar_User res) + 1"
  let ?M = "ex_joining ex_login [u] s" and ?ev = "ex_envelope MsgType_AUTH_PROVE"
  let ?M' = "serve ex_env 3 ?ev ?M"
  have l: "login 3 (serve ex_env 3 ?ev ?M) = (True, Some res)" by (rule ex_proof [OF v])
  have u: "us_ID (ar_User res) \<noteq> u" by (simp add: u_def)
  have "sessions_ok ?M" by (auto simp: sessions_ok_def ex_joining_def ex_manager_def ex_login_def new_session_def)
  then have "sessions_ok ?M'" by (rule serve_ok)
  then have "distinct (mn_directSessions ?M' u)" by (simp add: sessions_ok_def)
  moreover have "wi_faults (mn_wires ?M 3) = []" by (simp add: ex_joining_def ex_manager_def)
  then have "answered ex_env 3 (ev_RequestId ?ev) (wi_out (mn_wires ?M 3)) (serve ex_env 3 ?ev ?M)"
    by (intro serve_answered) (simp_all add: ex_bytes ex_requests)
  then have "wi_faults (mn_wires ?M' 3) = []" by (auto simp: answered_def)
  moreover have "3 \<in> set (mn_directSessions ?M u)" by (simp add: ex_joining_def)
  ultimately have "wi_out (mn_wires (deliverDirectMessageToUser ex_env u d ?M') 3) = wi_out (mn_wires ?M' 3) @
      frame [of_int MsgType_DIRECT_MESSAGE_EVENT]" for d
    using stale_direct_session [OF _ l u refl _ _ ex_bytes, of d] by simp
  with l u show ?thesis by (intro exI [of _ ?M] exI [of _ u] exI [of _ res]) simp
qed

end
