(* ===== verification/Store_Invariant.thy ===== *)
theory Store_Invariant
  imports Auth Messaging Direct_Messaging
begin

text \<open>
  The invariant of the whole database. Each component has an invariant on the tables it
  writes; here every operation of every component is shown to keep all of them, together
  with the agreement of the blob rows with the files on disk. An operation is looked at one
  table group at a time: it keeps the invariant of the group it writes, and it does not touch
  the part of the tables that the other invariants read.
\<close>

section \<open>Table groups\<close>

text \<open>\<open>untouched f m\<close>: whatever its outcome, \<open>m\<close> leaves the part \<open>f\<close> of the tables as it is.\<close>

definition untouched :: "(tables \<Rightarrow> 'p) \<Rightarrow> (store, 'e, 'a) em \<Rightarrow> bool" where
  "untouched f m \<longleftrightarrow> (\<forall>s. f (tabs (snd (m s))) = f (tabs s))"

lemma untouchedI: "(\<And>X. keeps (on_tabs (\<lambda>t. f t = X)) m) \<Longrightarrow> untouched f m"
  by (auto simp: untouched_def keeps_def on_tabs_def)

lemma untouched_framed: "(\<And>s r s'. m s = (r, s') \<Longrightarrow> f (tabs s') = f (tabs s)) \<Longrightarrow> untouched f m"
  unfolding untouched_def by (metis prod.collapse)

text \<open>What an invariant reads of the tables: a state that agrees on it satisfies it as well.\<close>

locale table_part =
  fixes part :: "tables \<Rightarrow> 'p"
    and ok :: "tables \<Rightarrow> bool"
  assumes reads: "part t' = part t \<Longrightarrow> ok t \<Longrightarrow> ok t'"
begin

lemma keeps_untouched: "untouched part m \<Longrightarrow> keeps (on_tabs ok) m"
  using reads by (simp add: keeps_def untouched_def on_tabs_def)

end

definition users_part :: "tables \<Rightarrow> user_row list \<times> nat" where
  "users_part t = (users t, next_user t)"

definition nonces_part :: "tables \<Rightarrow> nonce_row list \<times> nat" where
  "nonces_part t = (auth_nonces t, next_nonce t)"

text \<open>Of the channels, the columns that the invariants of spaces and memberships read.\<close>

definition channel_key :: "channel_row \<Rightarrow> uint32 \<times> uint32 \<times> uint8 \<times> uint32 \<times> uint32 \<times> uint64" where
  "channel_key c = (ch_id c, ch_space_id c, ch_status c, ch_subscriber_count c, ch_member_count c, ch_created_by c)"

definition org_part :: "tables \<Rightarrow> server_row list \<times> server_member_row list \<times> channel_member_row list \<times>
    (uint32 \<times> uint32 \<times> uint8 \<times> uint32 \<times> uint32 \<times> uint64) list \<times> nat \<times> nat \<times> nat \<times> nat" where
  "org_part t = (servers t, server_members t, channel_members t, map channel_key (channels t),
     next_server t, next_server_member t, next_channel t, next_channel_member t)"

definition log_part :: "tables \<Rightarrow> message_row list \<times> nat \<times> (uint32 \<times> uint64 \<times> uint64) list" where
  "log_part t = (messages t, next_message t, map (\<lambda>c. (ch_id c, ch_message_seq c, ch_message_count c)) (channels t))"

text \<open>Of the blobs, everything but the reference counter.\<close>

definition media_part :: "tables \<Rightarrow> blob_row list \<times> media_row list \<times> nat \<times> nat" where
  "media_part t = (map (\<lambda>b. b\<lparr>bl_ref_count := 0\<rparr>) (blobs t), media_objects t, next_blob t, next_media t)"

definition direct_part :: "tables \<Rightarrow> conversation_row list \<times> direct_message_row list \<times> nat \<times> nat" where
  "direct_part t = (direct_conversations t, direct_messages t, next_conversation t, next_direct_message t)"

lemmas part_defs = users_part_def nonces_part_def org_part_def log_part_def media_part_def direct_part_def

definition org_ok :: "tables \<Rightarrow> bool" where
  "org_ok t \<longleftrightarrow> spaces_ok t \<and> channels_ok t \<and> creators_only t"

text \<open>The counters and keys of the organisation in terms of the columns it reads.\<close>

lemma org_columns:
  "ch_id ` set (channels t) = fst ` set (map channel_key (channels t))"
  "ch_space_id ` set (channels t) = (fst \<circ> snd) ` set (map channel_key (channels t))"
  "(\<lambda>c. (ch_id c, ch_created_by c)) ` set (channels t) =
     (\<lambda>(i, _, _, _, _, u). (i, u)) ` set (map channel_key (channels t))"
  "map ch_id (channels t) = map fst (map channel_key (channels t))"
  "count_where (\<lambda>c. ch_space_id c = i \<and> ch_status c = 1) (channels t) =
     count_where (\<lambda>(_, sp, st, _). sp = i \<and> st = 1) (map channel_key (channels t))"
  by (simp_all add: channel_key_def image_image count_where_def filter_map comp_def)

lemma channels_counted_columns:
  "(\<forall>c \<in> set (channels t). channel_counted t c) \<longleftrightarrow>
     (\<forall>(i, _, _, n, m, _) \<in> set (map channel_key (channels t)).
        n = of_nat (count_where (\<lambda>m. cm_channel_id m = i) (channel_members t)) \<and>
        m = of_nat (count_where (\<lambda>m. cm_channel_id m = i) (channel_members t)))"
  by (simp add: channel_key_def channel_counted_def)

interpretation users_group: table_part users_part "users_ok coll" for coll
  by unfold_locales (simp add: part_defs users_ok_def)

interpretation nonces_group: table_part nonces_part "nonces_ok coll" for coll
  by unfold_locales (simp add: part_defs nonces_ok_def)

interpretation log_group: table_part log_part "messages_ok coll" for coll
  by unfold_locales (subst messages_ok_cong, simp_all add: part_defs)

interpretation direct_group: table_part direct_part "direct_ok coll" for coll
  by unfold_locales (simp add: part_defs direct_ok_def conversation_ok_def direct_log_def)

interpretation org_group: table_part org_part org_ok
proof unfold_locales
  fix t t' :: tables assume p: "org_part t' = org_part t" and ok: "org_ok t"
  have k: "map channel_key (channels t') = map channel_key (channels t)"
    and r: "servers t' = servers t" "server_members t' = server_members t" "channel_members t' = channel_members t"
      "next_server t' = next_server t" "next_server_member t' = next_server_member t"
      "next_channel t' = next_channel t" "next_channel_member t' = next_channel_member t"
    using p by (simp_all add: org_part_def)
  have "counts_except {} t'" if "counts_except {} t"
    using that channels_counted_columns [of t'] channels_counted_columns [of t] k
    by (simp add: counts_except_def space_counted_def r org_columns)
  moreover have "spaces_core t' = spaces_core t" by (simp add: spaces_core_def space_keys_def r)
  moreover have "channels_ok t' = channels_ok t"
    by (simp add: channels_ok_def ids_below_def r org_columns k)
  moreover have "creators_only t' = creators_only t"
    by (simp add: creators_only_def r org_columns k)
  ultimately show "org_ok t'" using ok by (simp add: org_ok_def spaces_ok_def)
qed

interpretation media_group: table_part media_part "media_ok coll" for coll
proof unfold_locales
  fix t t' :: tables assume p: "media_part t' = media_part t" and ok: "media_ok coll t"
  have b: "map (\<lambda>b. b\<lparr>bl_ref_count := 0\<rparr>) (blobs t') = map (\<lambda>b. b\<lparr>bl_ref_count := 0\<rparr>) (blobs t)"
    and r: "media_objects t' = media_objects t" "next_blob t' = next_blob t" "next_media t' = next_media t"
    using p by (simp_all add: media_part_def)
  have "map f (blobs t') = map f (blobs t)" if "\<And>b. f (b\<lparr>bl_ref_count := 0\<rparr>) = f b" for f :: "blob_row \<Rightarrow> 'x"
    using arg_cong [OF b, of "map f"] that by (simp add: comp_def)
  note f = this [of bl_id] this [of "\<lambda>b. coll (bl_sha256 b)"] this [of "\<lambda>b. coll (bl_blob_id b)"]
  have "bl_id ` set (blobs t') = bl_id ` set (blobs t)" using arg_cong [OF f(1), of set] by simp
  then show "media_ok coll t'" using ok f by (simp add: media_ok_def r ids_below_def)
qed

section \<open>What an operation does not touch\<close>

lemma keeps_with_tx: "keeps (on_tabs I) body \<Longrightarrow> keeps (on_tabs I) (with_tx f body)"
  by (rule keeps_with_tx_commit) (auto simp: on_tabs_def dest: keepsD2)

text \<open>The files, which only uploads write.\<close>

definition on_files :: "(string \<times> byte list) list \<Rightarrow> store \<Rightarrow> bool" where
  "on_files F s \<longleftrightarrow> files s = F"

lemma keeps_on_files [keeps_intros]:
  "keeps (on_files F) (sql_select q)" "keeps (on_files F) (fetchOne p)" "keeps (on_files F) (rand_Read n)"
  "keeps (on_files F) (newExternalID e)" "keeps (on_files F) (sql_exec g)" "keeps (on_files F) (sql_update h)"
  "keeps (on_files F) (tx_commit c)" "keeps (on_files F) file_step" "keeps (on_files F) (Open path)"
proof -
  show s: "keeps (on_files F) (sql_select q)" for q :: "tables \<Rightarrow> 'x"
    by (simp add: keeps_def on_files_def sql_select_def tick_def)
  show "keeps (on_files F) (fetchOne p)" unfolding fetchOne_def by (intro keeps_intros s)
  show r: "keeps (on_files F) (rand_Read n)" for n by (simp add: keeps_def on_files_def rand_Read_def split: list.splits)
  show "keeps (on_files F) (newExternalID e)" unfolding newExternalID_def by (intro keeps_intros r)
  show e: "keeps (on_files F) (sql_exec g)" for g :: "tables \<Rightarrow> err + ('y \<times> tables)"
    by (simp add: keeps_def on_files_def sql_exec_def tick_def split: sum.splits)
  show "keeps (on_files F) (sql_update h)" unfolding sql_update_def by (rule e)
  show "keeps (on_files F) (tx_commit c)" unfolding tx_commit_def by (intro keeps_intros s)
  show "keeps (on_files F) file_step" by (simp add: keeps_def on_files_def file_step_def tick_def)
  show "keeps (on_files F) (Open path)"
    by (simp add: keeps_def on_files_def Open_def map_err_def tick_def split: option.splits)
qed

lemma keeps_with_tx_files [keeps_intros]: "keeps (on_files F) body \<Longrightarrow> keeps (on_files F) (with_tx f body)"
  by (auto simp: keeps_def with_tx_def on_files_def tick_def split: prod.splits sum.splits tx_exit.splits)
    (metis snd_conv store.select_convs(5) store.surjective store.update_convs(2))+

section \<open>The invariant of the store\<close>

definition tables_ok :: "collation \<Rightarrow> tables \<Rightarrow> bool" where
  "tables_ok coll t \<longleftrightarrow> users_ok coll t \<and> nonces_ok coll t \<and> org_ok t \<and> messages_ok coll t \<and> media_ok coll t \<and>
     direct_ok coll t"

definition store_ok :: "blob_env \<Rightarrow> store \<Rightarrow> bool" where
  "store_ok env s \<longleftrightarrow> tables_ok (be_coll env) (tabs s) \<and> blob_files_ok env s"

lemmas group_reads = users_group.reads nonces_group.reads org_group.reads log_group.reads media_group.reads direct_group.reads

lemma blob_files_reads:
  assumes "media_part (tabs s') = media_part (tabs s)" "files s' = files s" "blob_files_ok env s"
  shows "blob_files_ok env s'"
proof -
  let ?k = "\<lambda>b. (bl_sha256 b, bl_storage_path b)"
  have "map (?k \<circ> (\<lambda>b. b\<lparr>bl_ref_count := 0\<rparr>)) (blobs (tabs s')) = map (?k \<circ> (\<lambda>b. b\<lparr>bl_ref_count := 0\<rparr>)) (blobs (tabs s))"
    using arg_cong [OF assms(1), of "\<lambda>p. map ?k (fst p)"] by (simp add: media_part_def)
  then have k: "map ?k (blobs (tabs s')) = map ?k (blobs (tabs s))" by (simp add: comp_def)
  have e: "Ball (set (blobs t)) (file_of_blob env F) \<longleftrightarrow>
      (\<forall>(h, p) \<in> set (map ?k (blobs t)). p = blob_path h \<and>
         (\<exists>c d. map_of F p = Some c \<and> prefix c d \<and> h = hex_encode (be_sha256 env d)))"
    for t F by (simp add: file_of_blob_def)
  from assms(3) show ?thesis unfolding blob_files_ok_def e k assms(2) .
qed

text \<open>
  An operation that writes one group of tables: it keeps the invariant of this group, touches
  nothing that the other invariants read, and writes no file.
\<close>

lemma keeps_writer:
  assumes "untouched part m" "keeps (on_tabs J) m" "\<And>F. keeps (on_files F) m"
    and "\<And>t t'. part t' = part t \<Longrightarrow> media_part t' = media_part t"
    and "\<And>t t'. part t' = part t \<Longrightarrow> tables_ok (be_coll env) t \<Longrightarrow> J t' \<Longrightarrow> tables_ok (be_coll env) t'"
    and "\<And>t. tables_ok (be_coll env) t \<Longrightarrow> J t"
  shows "keeps (store_ok env) m"
proof (rule keepsI)
  fix s assume s: "store_ok env s"
  have p: "part (tabs (snd (m s))) = part (tabs s)" using assms(1) by (simp add: untouched_def)
  moreover have "files (snd (m s)) = files s" using keepsD [OF assms(3), of "files s" s] by (simp add: on_files_def)
  moreover have "J (tabs (snd (m s)))" using keepsD [OF assms(2), of s] s assms(6) by (simp add: on_tabs_def store_ok_def)
  ultimately show "store_ok env (snd (m s))"
    using s assms(4,5) [OF p] blob_files_reads by (auto simp: store_ok_def)
qed

definition but_users where
  "but_users t = (nonces_part t, org_part t, log_part t, media_part t, direct_part t)"

definition but_nonces where
  "but_nonces t = (users_part t, org_part t, log_part t, media_part t, direct_part t)"

definition but_direct where
  "but_direct t = (users_part t, nonces_part t, org_part t, log_part t, media_part t)"

definition but_org where
  "but_org t = (users_part t, nonces_part t, media_part t, direct_part t)"

lemmas but_defs = but_users_def but_nonces_def but_direct_def but_org_def

lemma writes_users:
  assumes "untouched but_users m" "keeps (on_tabs (users_ok (be_coll env))) m" "\<And>F. keeps (on_files F) m"
  shows "keeps (store_ok env) m"
  by (rule keeps_writer [OF assms]) (auto simp: but_defs tables_ok_def intro: group_reads)

lemma writes_nonces:
  assumes "untouched but_nonces m" "keeps (on_tabs (nonces_ok (be_coll env))) m" "\<And>F. keeps (on_files F) m"
  shows "keeps (store_ok env) m"
  by (rule keeps_writer [OF assms]) (auto simp: but_defs tables_ok_def intro: group_reads)

lemma writes_direct:
  assumes "untouched but_direct m" "keeps (on_tabs (direct_ok (be_coll env))) m" "\<And>F. keeps (on_files F) m"
  shows "keeps (store_ok env) m"
  by (rule keeps_writer [OF assms]) (auto simp: but_defs tables_ok_def intro: group_reads)

text \<open>Spaces, channels and their messages are one group: the counters of a channel depend on all of them.\<close>

lemma writes_org:
  assumes "untouched but_org m" "keeps (on_tabs (\<lambda>t. org_ok t \<and> messages_ok (be_coll env) t)) m" "\<And>F. keeps (on_files F) m"
  shows "keeps (store_ok env) m"
  by (rule keeps_writer [OF assms]) (auto simp: but_defs tables_ok_def intro: group_reads)

section \<open>Every operation keeps the invariant\<close>

subsection \<open>Accounts and nonces\<close>

lemmas account_defs = CreateIfNotExistsByPeerID_def UpdateLogin_def GetByPeerID_def upsert_user_def StoreNonce_def UseNonce_def

lemma account_untouched:
  "untouched but_users (CreateIfNotExistsByPeerID coll p k)" "untouched but_users (UpdateLogin i k w)"
  "untouched but_nonces (StoreNonce coll h c n iss ex)" "untouched but_nonces (UseNonce coll h c n w)"
  unfolding account_defs Let_def
  by (intro untouchedI keeps_intros; auto simp: part_defs but_defs split: option.splits sum.splits prod.splits)+

lemma account_files:
  "keeps (on_files F) (CreateIfNotExistsByPeerID coll p k)" "keeps (on_files F) (UpdateLogin i k w)"
  "keeps (on_files F) (StoreNonce coll h c n iss ex)" "keeps (on_files F) (UseNonce coll h c n w)"
  unfolding account_defs Let_def by (intro keeps_intros)+

lemma account_store_ok:
  "keeps (store_ok env) (CreateIfNotExistsByPeerID (be_coll env) p k)" "keeps (store_ok env) (UpdateLogin i k w)"
  "keeps (store_ok env) (StoreNonce (be_coll env) h c n iss ex)" "keeps (store_ok env) (UseNonce (be_coll env) h c n w)"
  by (intro writes_users writes_nonces account_untouched account_files keeps_intros)+

subsection \<open>Direct messages\<close>

lemmas direct_defs = GetOrCreateConversation_def get_or_create_tx_def insert_conversation_def CreateDirectMessage_def
  create_direct_tx_def insert_direct_message_def bump_conversation_def AckDirectMessage_def GetDirectMessageByMessageID_def
  loadDirectMessageRow_def

lemma direct_untouched:
  "untouched but_direct (GetOrCreateConversation coll a b)" "untouched but_direct (CreateDirectMessage coll inp)"
  "untouched but_direct (AckDirectMessage coll mid u w)"
  unfolding direct_defs Let_def
  by (intro untouchedI keeps_intros keeps_with_tx; auto simp: part_defs but_defs split: option.splits sum.splits prod.splits if_splits)+

lemma direct_files:
  "keeps (on_files F) (GetOrCreateConversation coll a b)" "keeps (on_files F) (CreateDirectMessage coll inp)"
  "keeps (on_files F) (AckDirectMessage coll mid u w)"
  unfolding direct_defs Let_def by (intro keeps_intros)+

lemma direct_store_ok:
  "keeps (store_ok env) (GetOrCreateConversation (be_coll env) a b)"
  "keeps (store_ok env) (CreateDirectMessage (be_coll env) inp)"
  "keeps (store_ok env) (AckDirectMessage (be_coll env) mid u w)"
  by (intro writes_direct direct_untouched direct_files keeps_intros)+

subsection \<open>Spaces\<close>

lemma frame_untouched: "space_frame t t' \<Longrightarrow> but_org t' = but_org t"
  by (simp add: space_frame_def but_org_def part_defs)

lemma frame_org_ok:
  assumes "space_frame t t'" "spaces_ok t'" "org_ok t \<and> messages_ok coll t"
  shows "org_ok t' \<and> messages_ok coll t'"
  using assms space_frame_channels_ok space_frame_creators_only space_frame_messages_ok by (auto simp: org_ok_def)

lemma space_writer:
  assumes "\<And>s r s'. m s = (r, s') \<Longrightarrow> space_frame (tabs s) (tabs s')"
    "\<And>s r s'. spaces_ok (tabs s) \<Longrightarrow> m s = (r, s') \<Longrightarrow> spaces_ok (tabs s')" "\<And>F. keeps (on_files F) m"
  shows "keeps (store_ok env) m"
proof (rule writes_org [OF _ _ assms(3)])
  show "untouched but_org m" by (rule untouched_framed) (blast intro: frame_untouched assms(1))
  show "keeps (on_tabs (\<lambda>t. org_ok t \<and> messages_ok (be_coll env) t)) m"
    by (rule keeps_tabsI, rule frame_org_ok) (auto simp: org_ok_def intro: assms(1,2))
qed

lemmas space_defs = addSpaceMember_def KickSpaceMember_def BanSpaceMember_def UnbanSpaceMember_def CreateSpace_def
  SetSpaceAllowChannelCreation_def SetSpaceMemberRole_def create_space_tx_def set_role_tx_def
  lock_server_def lock_member_def refreshAggregateCounts_def GetBySpaceID_def

lemma space_files:
  "keeps (on_files F) (addSpaceMember i u b)" "keeps (on_files F) (KickSpaceMember i u)"
  "keeps (on_files F) (BanSpaceMember i u)" "keeps (on_files F) (UnbanSpaceMember i u)"
  "keeps (on_files F) (CreateSpace inp)" "keeps (on_files F) (SetSpaceAllowChannelCreation i b)"
  "keeps (on_files F) (SetSpaceMemberRole i u rl)"
  unfolding space_defs Let_def by (intro keeps_intros)+

lemma space_store_ok:
  "keeps (store_ok env) (JoinSpace i u)" "keeps (store_ok env) (InviteSpaceMember i u)"
  "keeps (store_ok env) (KickSpaceMember i u)" "keeps (store_ok env) (BanSpaceMember i u)"
  "keeps (store_ok env) (UnbanSpaceMember i u)" "keeps (store_ok env) (CreateSpace inp)"
  "keeps (store_ok env) (SetSpaceAllowChannelCreation i b)" "keeps (store_ok env) (SetSpaceMemberRole i u rl)"
  unfolding JoinSpace_def InviteSpaceMember_def
  by (rule space_writer; (rule space_files)?; (erule space_ops_frame)?; (erule (1) space_ops_ok)?)+

subsection \<open>Channels\<close>

lemmas channel_defs = CreateChannel_def create_channel_tx_def insert_channel_def upsert_channel_owner_def
  refreshAggregateCounts_def server_counts_def channel_counts_def update_server_def lock_server_def SetGroupAutoDeleteAfterSeconds_def

lemma channel_untouched:
  "untouched but_org (CreateChannel inp)" "untouched but_org (SetGroupAutoDeleteAfterSeconds i n)"
  unfolding channel_defs Let_def
  by (intro untouchedI keeps_intros keeps_with_tx; auto simp: part_defs but_defs split: sum.splits prod.splits if_splits)+

lemma channel_files:
  "keeps (on_files F) (CreateChannel inp)" "keeps (on_files F) (SetGroupAutoDeleteAfterSeconds i n)"
  unfolding channel_defs Let_def by (intro keeps_intros)+

lemma channel_store_ok:
  "keeps (store_ok env) (CreateChannel inp)" "keeps (store_ok env) (SetGroupAutoDeleteAfterSeconds i n)"
proof -
  show "keeps (store_ok env) (CreateChannel inp)"
  proof (rule writes_org [OF channel_untouched(1) keeps_tabsI channel_files(1)])
    fix s r s' assume ok: "org_ok (tabs s) \<and> messages_ok (be_coll env) (tabs s)" and run: "CreateChannel inp s = (r, s')"
    from ok have i: "channels_ok (tabs s)" "creators_only (tabs s)" "spaces_ok (tabs s)" "messages_ok (be_coll env) (tabs s)"
      by (simp_all add: org_ok_def)
    show "org_ok (tabs s') \<and> messages_ok (be_coll env) (tabs s')"
      using CreateChannel_channels_ok [OF i(1,2) run] CreateChannel_spaces_ok [OF i(1-3) run] CreateChannel_messages_ok [OF i(1,2,4) run]
      by (simp add: org_ok_def)
  qed
  show "keeps (store_ok env) (SetGroupAutoDeleteAfterSeconds i n)"
    by (rule writes_org [OF channel_untouched(2) keeps_tabsI channel_files(2)])
      (auto simp: org_ok_def dest: SetGroupAutoDelete_ok SetGroupAutoDelete_messages_ok)
qed

subsection \<open>Messages and cursors\<close>

text \<open>Messages change nothing of the organisation.\<close>

definition but_log where
  "but_log t = (but_org t, org_part t)"

lemma writes_log:
  assumes "untouched but_log m" "\<And>F. keeps (on_files F) m"
    "\<And>s r s'. org_ok (tabs s) \<Longrightarrow> messages_ok (be_coll env) (tabs s) \<Longrightarrow> m s = (r, s') \<Longrightarrow> messages_ok (be_coll env) (tabs s')"
  shows "keeps (store_ok env) m"
proof (rule writes_org [OF _ _ assms(2)])
  show "untouched but_org m" using assms(1) by (simp add: untouched_def but_log_def)
  have "untouched org_part m" using assms(1) by (simp add: untouched_def but_log_def)
  then have "keeps (on_tabs org_ok) m" by (rule org_group.keeps_untouched)
  then show "keeps (on_tabs (\<lambda>t. org_ok t \<and> messages_ok (be_coll env) t)) m"
    by (intro keeps_tabsI) (auto dest: keepsD2 assms(3) simp: on_tabs_def)
qed

lemma log_statements:
  "inc_blob_ref i t = Inr (x, t') \<Longrightarrow> but_log t' = but_log t"
  "insert_attachment m i k nw t = Inr (x, t') \<Longrightarrow> but_log t' = but_log t"
  "mark_deleted nw j t = Inr (n, t') \<Longrightarrow> but_log t' = but_log t"
  "but_log (lower_message_count c z nw t) = but_log t"
  by (auto simp: inc_blob_ref_def insert_attachment_def mark_deleted_def lower_message_count_def Let_def but_log_def but_defs
      part_defs channel_key_def update_where_def split: if_splits sum.splits prod.splits)

lemma insert_attachments_untouched: "keeps (on_tabs (\<lambda>t. but_log t = X)) (insert_attachments i nw k ms)"
proof (induction i nw k ms rule: insert_attachments.induct)
  case (2 i nw k m ms)
  then show ?case unfolding insert_attachments.simps by (intro keeps_intros) (auto dest: log_statements(1-3))
qed (auto simp: keeps_def)

lemma mark_expired_untouched: "keeps (on_tabs (\<lambda>t. but_log t = X)) (mark_expired nw rows)"
proof (induction nw rows rule: mark_expired.induct)
  case (2 nw i c rows)
  then show ?case unfolding mark_expired.simps by (intro keeps_intros) (auto dest: log_statements(1-3))
qed (auto simp: keeps_def)

lemma lower_counts_untouched: "keeps (on_tabs (\<lambda>t. but_log t = X)) (lower_counts nw cs ks)"
proof (induction nw cs ks rule: lower_counts.induct)
  case (2 nw cs c ks)
  then show ?case unfolding lower_counts.simps by (intro keeps_intros) (auto simp: log_statements)
qed (auto simp: keeps_def)

lemmas message_defs = Create_def create_message_tx_def getChannelForUpdate_def getMessageByClientMsgIDTx_def
  loadMessageByID_def hydrateMessages_def CleanupExpiredMessages_def cleanup_tx_def UpsertDeliveredSeq_def UpsertReadSeq_def

lemma message_untouched:
  "untouched but_log (Create coll inp)" "untouched but_log (CleanupExpiredMessages nw lim)"
  "untouched but_log (UpsertDeliveredSeq u c q)" "untouched but_log (UpsertReadSeq u c q)"
  unfolding message_defs Let_def
  by (intro untouchedI keeps_intros keeps_with_tx insert_attachments_untouched mark_expired_untouched lower_counts_untouched;
      auto simp: insert_message_def bump_channel_seq_def upsert_cursor_def but_log_def but_defs part_defs update_where_def channel_key_def
        split: sum.splits prod.splits if_splits)+

lemma loop_files:
  "keeps (on_files F) (insert_attachments i nw k ms)" "keeps (on_files F) (mark_expired nw rows)"
  "keeps (on_files F) (lower_counts nw cs ks)"
proof -
  show "keeps (on_files F) (insert_attachments i nw k ms)"
  proof (induction i nw k ms rule: insert_attachments.induct)
    case (2 i nw k m ms)
    then show ?case unfolding insert_attachments.simps by (intro keeps_intros)
  qed (auto simp: keeps_def)
  show "keeps (on_files F) (mark_expired nw rows)"
  proof (induction nw rows rule: mark_expired.induct)
    case (2 nw i c rows)
    then show ?case unfolding mark_expired.simps by (intro keeps_intros)
  qed (auto simp: keeps_def)
  show "keeps (on_files F) (lower_counts nw cs ks)"
  proof (induction nw cs ks rule: lower_counts.induct)
    case (2 nw cs c ks)
    then show ?case unfolding lower_counts.simps by (intro keeps_intros)
  qed (auto simp: keeps_def)
qed

lemma message_files:
  "keeps (on_files F) (Create coll inp)" "keeps (on_files F) (CleanupExpiredMessages nw lim)"
  "keeps (on_files F) (UpsertDeliveredSeq u c q)" "keeps (on_files F) (UpsertReadSeq u c q)"
  unfolding message_defs Let_def by (intro keeps_intros loop_files)+

lemma cursor_messages_ok:
  "keeps (on_tabs (messages_ok coll)) (UpsertDeliveredSeq u c q)" "keeps (on_tabs (messages_ok coll)) (UpsertReadSeq u c q)"
  unfolding UpsertDeliveredSeq_def UpsertReadSeq_def
  by (rule log_group.keeps_untouched, intro untouchedI keeps_intros;
      auto simp: log_part_def upsert_cursor_def split: sum.splits prod.splits if_splits)+

lemma message_store_ok:
  "keeps (store_ok env) (Create (be_coll env) inp)" "keeps (store_ok env) (CleanupExpiredMessages nw lim)"
  "keeps (store_ok env) (UpsertDeliveredSeq u c q)" "keeps (store_ok env) (UpsertReadSeq u c q)"
proof -
  show "keeps (store_ok env) (Create (be_coll env) inp)"
    by (rule writes_log [OF message_untouched(1) message_files(1)]) (auto simp: org_ok_def dest: Create_ok)
  show "keeps (store_ok env) (CleanupExpiredMessages nw lim)"
    by (rule writes_log [OF message_untouched(2) message_files(2)]) (rule CleanupExpiredMessages_ok)
  show "keeps (store_ok env) (UpsertDeliveredSeq u c q)" "keeps (store_ok env) (UpsertReadSeq u c q)"
    using keepsD2 [OF cursor_messages_ok(1), of _ _ _ _ _ _ "be_coll env"] keepsD2 [OF cursor_messages_ok(2), of _ _ _ _ _ _ "be_coll env"]
    by (intro writes_log message_untouched message_files; fastforce simp: on_tabs_def)+
qed

subsection \<open>Uploads\<close>

lemma Put_untouched: "keeps (on_tabs (\<lambda>t. media_rest t = X)) (Put env c meta)"
  unfolding Put_def Let_def by (intro keeps_intros keeps_ensure_blob keeps_add_media)

lemma media_rest_reads:
  assumes "media_rest t' = media_rest t"
  shows "users_part t' = users_part t \<and> nonces_part t' = nonces_part t \<and> org_part t' = org_part t \<and>
    log_part t' = log_part t \<and> direct_part t' = direct_part t"
proof -
  have *: "f t' = f t" if "\<And>t. f (media_rest t) = f t" for f :: "tables \<Rightarrow> 'x"
    using arg_cong [OF assms, of f] that by simp
  show ?thesis by (intro conjI *) (simp_all add: part_defs media_rest_def)
qed

lemma Put_store_ok:
  assumes env: "blob_env_ok env"
  shows "keeps (store_ok env) (Put env c meta)"
proof (rule keepsI)
  fix s assume s: "store_ok env s"
  obtain r s' where run: "Put env c meta s = (r, s')" by (cases "Put env c meta s")
  have m: "media_rest (tabs s') = media_rest (tabs s)"
    using keepsD2 [OF Put_untouched run, of "media_rest (tabs s)"] by (simp add: on_tabs_def)
  have ok: "media_ok (be_coll env) (tabs s')" "blob_files_ok env s'"
    using Put_ok [OF env _ _ run] s by (auto simp: store_ok_def tables_ok_def)
  have p: "users_part (tabs s') = users_part (tabs s)" "nonces_part (tabs s') = nonces_part (tabs s)"
    "org_part (tabs s') = org_part (tabs s)" "log_part (tabs s') = log_part (tabs s)" "direct_part (tabs s') = direct_part (tabs s)"
    using media_rest_reads [OF m] by blast+
  show "store_ok env (snd (Put env c meta s))"
    using s ok users_group.reads [OF p(1)] nonces_group.reads [OF p(2)] org_group.reads [OF p(3)] log_group.reads [OF p(4)]
      direct_group.reads [OF p(5)] by (simp add: store_ok_def tables_ok_def run)
qed

subsection \<open>Nodes\<close>

text \<open>The operations that only read.\<close>

lemmas lookup_defs = GetByPeerID_def GetByID_def GetByUserID_def ListByUserID_def GetBySpaceID_def GetMemberRole_def
  CanCreateGroup_def ListSpaceMembers_def ListBySpaceIDForUser_def GetByChannelID_def IsUserMember_def GetPermission_def
  loadMessageByID_def ListAfterSeq_def GetByClientMsgID_def GetLastMessageTime_def
  ListChannelIDsByMediaID_def GetBySHA256_def GetByMediaID_def GetMediaByID_def DownloadMediaByID_def
  GetConversationByExternalID_def ListConversationsForUser_def loadDirectMessageRow_def
  GetDirectMessageByClientMsgID_def GetDirectMessageByMessageID_def ListPendingDirectMessages_def ListSpaces_def ListChannels_def

lemma node_untouched: "untouched (\<lambda>t. (users_part t, but_users t)) (UpsertNode coll js rec)"
  unfolding UpsertNode_def Let_def
  by (intro untouchedI keeps_intros) (auto simp: upsert_node_def part_defs but_defs split: option.splits sum.splits prod.splits)

lemma node_store_ok: "keeps (store_ok env) (UpsertNode (be_coll env) js rec)"
proof (rule writes_users)
  show "untouched but_users (UpsertNode (be_coll env) js rec)"
    using node_untouched [of "be_coll env" js rec] by (simp add: untouched_def)
  have "untouched users_part (UpsertNode (be_coll env) js rec)"
    using node_untouched [of "be_coll env" js rec] by (simp add: untouched_def)
  then show "keeps (on_tabs (users_ok (be_coll env))) (UpsertNode (be_coll env) js rec)" by (rule users_group.keeps_untouched)
  show "keeps (on_files F) (UpsertNode (be_coll env) js rec)" for F
    unfolding UpsertNode_def Let_def by (intro keeps_intros)
qed

end
