(* ===== verification/Store_Contract.thy ===== *)
theory Store_Contract
  imports Store_Invariant
begin

text \<open>
  The store as its clients see it. A client of the repositories (a service, a request handler,
  the start-up, the clean-up task) keeps every predicate of the store that depends only on the
  tables and files and that each writing operation of the repositories keeps. This is the
  locale \<open>store_contract\<close>; the clients' lemmas are proved once in it. It is interpreted for
  the invariant of the store, and for the predicate that the log of every channel has only
  been appended to.
\<close>

section \<open>The contract\<close>

locale store_contract =
  fixes env :: blob_env
    and S :: "store \<Rightarrow> bool"
  assumes depends: "tabs s' = tabs s \<Longrightarrow> files s' = files s \<Longrightarrow> S s \<Longrightarrow> S s'"
    and accounts: "keeps S (CreateIfNotExistsByPeerID (be_coll env) p k)" "keeps S (UpdateLogin i k w)"
      "keeps S (UpsertNode (be_coll env) js rec)"
    and nonces: "keeps S (StoreNonce (be_coll env) h c n iss ex)" "keeps S (UseNonce (be_coll env) h c n w)"
    and direct: "keeps S (GetOrCreateConversation (be_coll env) a b)" "keeps S (CreateDirectMessage (be_coll env) dinp)"
      "keeps S (AckDirectMessage (be_coll env) mid u ms)"
    and spaces: "keeps S (JoinSpace sp u)" "keeps S (InviteSpaceMember sp u)" "keeps S (KickSpaceMember sp u)"
      "keeps S (BanSpaceMember sp u)" "keeps S (UnbanSpaceMember sp u)" "keeps S (CreateSpace cinp)"
      "keeps S (SetSpaceAllowChannelCreation sp fl)" "keeps S (SetSpaceMemberRole sp u rl)"
    and channels: "keeps S (CreateChannel chinp)" "keeps S (SetGroupAutoDeleteAfterSeconds ch sec)"
    and msgs: "keeps S (Create (be_coll env) minp)" "keeps S (CleanupExpiredMessages w lim)"
      "keeps S (UpsertDeliveredSeq u ch q)" "keeps S (UpsertReadSeq u ch q)"
    and uploads: "blob_env_ok env \<Longrightarrow> keeps S (Put env cont meta)"
begin

section \<open>Clients\<close>

lemma keeps_read:
  assumes "\<And>I. keeps (on_tabs I) m" "\<And>F. keeps (on_files F) m"
  shows "keeps S m"
proof (rule keepsI)
  fix s assume s: "S s"
  have "tabs (snd (m s)) = tabs s" using keepsD [OF assms(1) [of "\<lambda>t. t = tabs s"], of s] by (simp add: on_tabs_def)
  moreover have "files (snd (m s)) = files s" using keepsD [OF assms(2), of "files s" s] by (simp add: on_files_def)
  ultimately show "S (snd (m s))" using s by (rule depends)
qed

lemma statements [keeps_intros]:
  "keeps S (sql_select q)" "keeps S (fetchOne p)" "keeps S (rand_Read n)" "keeps S (newExternalID e)" "keeps S file_step"
  "keeps S (Open path)"
proof -
  have "keeps (on_tabs I) (Open path)" for I
    by (auto simp: keeps_def Open_def map_err_def split: option.splits)
  then show "keeps S (Open path)" by (intro keeps_read keeps_on_files)
qed (rule keeps_read; intro keeps_intros keeps_files)+

lemmas writers [keeps_intros] = accounts nonces direct spaces channels msgs

lemma hydrate [keeps_intros]: "keeps S (hydrateMessages ms)"
  unfolding hydrateMessages_def Let_def
  by (rule keeps_read) (intro keeps_intros; simp split: if_splits)+

lemma service [keeps_intros]:
  assumes env: "blob_env_ok env"
  shows "keeps S (SendMessage cfg env u inp)" "keeps S (SyncChannel cfg u c q l)"
    "keeps S (AckDelivered u c q)" "keeps S (UpdateRead u c q)"
  unfolding SendMessage_def validateMessage_def resolveAttachments_def resolve_one_def SaveUploadedBlob_def
    SyncChannel_def AckDelivered_def UpdateRead_def lookup_defs Let_def
  by (intro keeps_intros uploads env)+

lemma cleanup [keeps_intros]: "keeps S svc_CleanupExpiredMessages"
  unfolding svc_CleanupExpiredMessages_def by (intro keeps_intros)

lemma direct_service [keeps_intros]:
  "keeps S (OpenConversation (be_coll env) u p)" "keeps S (SendDirectMessage cfg (be_coll env) u req)"
  "keeps S (svc_AckDirectMessage (be_coll env) u mid)" "keeps S (SyncDirectMessages (be_coll env) u sreq)"
  "keeps S (ListConversations u)"
  unfolding OpenConversation_def SendDirectMessage_def svc_AckDirectMessage_def SyncDirectMessages_def
    ListConversations_def direct_target_def lookup_defs Let_def
  by (intro keeps_intros)+

lemma auth [keeps_intros]:
  assumes "ae_coll A = be_coll env"
  shows "keeps S (IssueChallenge A cfg c n)" "keeps S (VerifyChallenge A cfg inp)"
  unfolding IssueChallenge_def VerifyChallenge_def newSessionID_def assms Let_def by (intro keeps_intros)+

lemma bootstrap [keeps_intros]: "keeps S (BootstrapDefaultAdmin (be_coll env) dec p i)"
  unfolding BootstrapDefaultAdmin_def ensureAdminMembership_def lookup_defs Let_def by (intro keeps_intros)

end

section \<open>The invariant\<close>

interpretation well_formed: store_contract env "store_ok env" for env
proof
  show "store_ok env s'" if "tabs s' = tabs s" "files s' = files s" "store_ok env s" for s s'
    using that by (simp add: store_ok_def blob_files_ok_def)
qed (rule account_store_ok node_store_ok direct_store_ok space_store_ok channel_store_ok message_store_ok; fail
    | erule Put_store_ok)+

section \<open>The log of a channel is append-only\<close>

text \<open>
  What of a message never changes, the log of each channel, and the predicate that every log
  extends a given one.
\<close>

definition log_entry :: "message_row \<Rightarrow> uint64 \<times> string \<times> uint64 \<times> uint64 \<times> string \<times> message_type \<times> string option \<times> time_ms" where
  "log_entry m = (ms_id m, ms_message_id m, ms_seq m, ms_sender_user_id m, ms_client_msg_id m, ms_message_type m, ms_text_content m,
     ms_created_at m)"

definition log_of :: "tables \<Rightarrow> uint32 \<Rightarrow> (uint64 \<times> string \<times> uint64 \<times> uint64 \<times> string \<times> message_type \<times> string option \<times> time_ms) list" where
  "log_of t c = map log_entry (channel_log t c)"

definition log_grown where
  "log_grown L t \<longleftrightarrow> (\<forall>c. prefix (L c) (log_of t c))"

interpretation log_rows: table_part messages "log_grown L" for L
  by unfold_locales (simp add: log_grown_def log_of_def channel_log_def)

lemma group_messages_untouched:
  "untouched but_users m \<Longrightarrow> untouched messages m" "untouched but_nonces m \<Longrightarrow> untouched messages m"
  "untouched but_direct m \<Longrightarrow> untouched messages m"
  by (simp_all add: untouched_def but_defs log_part_def)

lemma node_messages_untouched: "untouched messages (UpsertNode coll js rec)"
  using node_untouched [of coll js rec] by (simp add: untouched_def but_defs log_part_def)

lemmas account_messages_untouched =
  account_untouched(1,2) [THEN group_messages_untouched(1)] account_untouched(3,4) [THEN group_messages_untouched(2)]
  direct_untouched [THEN group_messages_untouched(3)] node_messages_untouched

lemma space_messages_untouched:
  "untouched messages (JoinSpace sp u)" "untouched messages (InviteSpaceMember sp u)" "untouched messages (KickSpaceMember sp u)"
  "untouched messages (BanSpaceMember sp u)" "untouched messages (UnbanSpaceMember sp u)" "untouched messages (CreateSpace cinp)"
  "untouched messages (SetSpaceAllowChannelCreation sp fl)" "untouched messages (SetSpaceMemberRole sp u rl)"
  unfolding JoinSpace_def InviteSpaceMember_def
  by (rule untouched_framed; drule space_ops_frame; simp add: space_frame_def)+

lemma channel_messages_untouched:
  "untouched messages (CreateChannel chinp)" "untouched messages (SetGroupAutoDeleteAfterSeconds ch sec)"
  unfolding channel_defs Let_def
  by (intro untouchedI keeps_intros keeps_with_tx; auto split: sum.splits prod.splits if_splits)+

lemma cursor_messages_untouched:
  "untouched messages (UpsertDeliveredSeq u ch q)" "untouched messages (UpsertReadSeq u ch q)"
  unfolding UpsertDeliveredSeq_def UpsertReadSeq_def
  by (intro untouchedI keeps_intros; auto simp: upsert_cursor_def split: sum.splits prod.splits if_splits)+

lemma Put_messages_untouched: "untouched messages (Put env cont meta)"
proof -
  have "untouched media_rest (Put env cont meta)" using Put_untouched by (rule untouchedI)
  then have "media_rest (tabs (snd (Put env cont meta s))) = media_rest (tabs s)" for s unfolding untouched_def by blast
  then have "log_part (tabs (snd (Put env cont meta s))) = log_part (tabs s)" for s using media_rest_reads by blast
  then show ?thesis by (simp add: untouched_def log_part_def)
qed

text \<open>Sending appends at most one entry, and the clean-up changes no entry.\<close>

lemma Create_log: "keeps (on_tabs (log_grown L)) (Create coll inp)"
proof (rule keeps_tabsI)
  fix s r s' assume L: "log_grown L (tabs s)" and run: "Create coll inp s = (r, s')"
  have "messages (tabs s') = messages (tabs s) \<or> (\<exists>m. messages (tabs s') = messages (tabs s) @ [m])"
    using Create_effect [OF run] by (auto dest!: create_message_tx_rows)
  then show "log_grown L (tabs s')"
    using L by (auto simp: log_grown_def log_of_def channel_log_def)
qed

lemma log_after_marking:
  "map log_entry (filter (\<lambda>m. ms_channel_id m = c) (update_where p (deleted_row nw) ms)) =
     map log_entry (filter (\<lambda>m. ms_channel_id m = c) ms)"
  by (induction ms) (auto simp: update_where_def deleted_row_def log_entry_def)

lemma mark_expired_log: "keeps (on_tabs (log_grown L)) (mark_expired nw rows)"
proof (induction nw rows rule: mark_expired.induct)
  case (2 nw i c rows)
  then show ?case
    unfolding mark_expired.simps
    by (intro keeps_intros)
      (auto simp: mark_deleted_def Let_def log_grown_def log_of_def channel_log_def log_after_marking simp del: filter_update_where)
qed (auto simp: keeps_def)

lemma lower_counts_log: "keeps (on_tabs (log_grown L)) (lower_counts nw cs ks)"
proof (induction nw cs ks rule: lower_counts.induct)
  case (2 nw cs c ks)
  then show ?case
    unfolding lower_counts.simps
    by (intro keeps_intros) (auto simp: lower_message_count_def log_grown_def log_of_def channel_log_def)
qed (auto simp: keeps_def)

lemma Cleanup_log: "keeps (on_tabs (log_grown L)) (CleanupExpiredMessages nw lim)"
  unfolding CleanupExpiredMessages_def cleanup_tx_def
  by (intro keeps_intros keeps_with_tx mark_expired_log lower_counts_log)

interpretation append_only: store_contract env "on_tabs (log_grown L)" for env L
proof
  show "on_tabs (log_grown L) s'" if "tabs s' = tabs s" "files s' = files s" "on_tabs (log_grown L) s" for s s'
    using that by (simp add: on_tabs_def)
qed (rule Create_log Cleanup_log account_messages_untouched [THEN log_rows.keeps_untouched]
    space_messages_untouched [THEN log_rows.keeps_untouched] channel_messages_untouched [THEN log_rows.keeps_untouched]
    cursor_messages_untouched [THEN log_rows.keeps_untouched] Put_messages_untouched [THEN log_rows.keeps_untouched])+

end
