(* ===== verification/HTTP_Base.thy ===== *)
theory HTTP_Base
  imports Session
begin

text \<open>
  What the HTTP handlers share: requests and replies, the access tokens of
  \<open>internal/api/jwt.go\<close>, the helpers of \<open>internal/api/v1_http.go\<close> and \<open>internal/api/http.go\<close>,
  and the path under which a blob file is served.

  The JWT library, the JSON decoder (at each type of body) and the multipart reader are
  arguments. A handler either returns its reply or, where the Go code writes a reply and
  returns early, raises it; both are replies. A reply is its status with the value that is
  encoded as JSON: a list of fields for a map, the response message for a protobuf struct.
\<close>

section \<open>Requests and replies\<close>

record form_file =
  ff_Content :: "byte list"
  ff_Filename :: string
  ff_ContentType :: string
  ff_ReadFails :: bool

record multipart_form =
  mp_File :: "form_file option"
  mp_Value :: "string \<Rightarrow> string"

text \<open>
  \<open>rq_Path\<close> are the segments of a clean path. A header, query parameter or form value that
  is not there is the empty text. \<open>rq_BodyFails\<close> tells that reading the body reports an
  error, \<open>ff_ReadFails\<close> the same of an uploaded file; \<open>rq_Form\<close> is the outcome of
  \<open>ParseMultipartForm\<close>.
\<close>

record http_request =
  rq_Method :: string
  rq_Path :: "string list"
  rq_Authorization :: string
  rq_Query :: "string \<Rightarrow> string"
  rq_Body :: "byte list"
  rq_BodyFails :: bool
  rq_Form :: "multipart_form option"

datatype jval =
    JBool bool
  | JNum int
  | JStr string
  | JTime int
  | JObj "(string \<times> jval) list"
  | JSpace space_summary
  | JSpaces "space_summary list"
  | JChannels "channel_summary list"
  | JEvents "message_event list"

datatype payload =
    JObject "(string \<times> jval) list"
  | JProto body
  | PlainText string
  | ConfigSnapshot config
  | BlobFile string

record http_reply =
  rp_Status :: nat
  rp_Payload :: payload

definition writeJSON :: "nat \<Rightarrow> payload \<Rightarrow> http_reply" where
  "writeJSON code p = \<lparr>rp_Status = code, rp_Payload = p\<rparr>"

definition writeJSONError :: "nat \<Rightarrow> string \<Rightarrow> http_reply" where
  "writeJSONError code msg = writeJSON code (JObject [(''error'', JStr msg)])"

section \<open>Access tokens\<close>

text \<open>The registered claims carry times in whole seconds (\<open>jwt.NewNumericDate\<close>).\<close>

record access_claims =
  tk_UserDBID :: uint64
  tk_UserExtID :: string
  tk_PeerID :: string
  tk_Subject :: string
  tk_IssuedAt :: int
  tk_ExpiresAt :: int
  tk_NotBefore :: int

text \<open>
  \<open>Token.SignedString\<close> for an algorithm, and \<open>jwt.ParseWithClaims\<close> at a time in
  nanoseconds: it calls the key function with the algorithm of the token and returns the
  claims and the flag \<open>Valid\<close>.
\<close>

record jwt_lib =
  jl_SignedString :: "string \<Rightarrow> access_claims \<Rightarrow> byte list \<Rightarrow> err + string"
  jl_ParseWithClaims :: "int \<Rightarrow> string \<Rightarrow> (string \<Rightarrow> err + byte list) \<Rightarrow> err + access_claims \<times> bool"

definition ResolveHTTPJWTSecret :: "(byte list \<Rightarrow> byte list) \<Rightarrow> (string \<Rightarrow> err + byte list) \<Rightarrow> config \<Rightarrow> err + byte list" where
  "ResolveHTTPJWTSecret sha256 ReadFile cfg =
     (let s = TrimSpace (cf_HTTPJWTSecret cfg) in
      if s \<noteq> [] then Inr (string_bytes s)
      else case ReadFile (cf_NodeKeyPath cfg) of
          Inl e \<Rightarrow> Inl (wrap ''http jwt secret: set MESHSERVER_HTTP_JWT_SECRET or readable MESHSERVER_NODE_KEY_PATH'' e)
        | Inr raw \<Rightarrow> Inr (sha256 raw))"

definition access_ttl :: "int \<Rightarrow> int" where
  "access_ttl ttl = (if ttl \<le> 0 then 86400000000000 else ttl)"

definition access_claims_for :: "user \<Rightarrow> int \<Rightarrow> int \<Rightarrow> access_claims" where
  "access_claims_for u nw expiresAt =
     \<lparr>tk_UserDBID = us_ID u, tk_UserExtID = us_UserID u, tk_PeerID = us_PeerID u, tk_Subject = us_UserID u,
      tk_IssuedAt = nw div 1000000000, tk_ExpiresAt = expiresAt div 1000000000, tk_NotBefore = nw div 1000000000\<rparr>"

definition SignHTTPAccessToken :: "jwt_lib \<Rightarrow> byte list \<Rightarrow> user \<Rightarrow> int \<Rightarrow> (store, err, string \<times> int) em" where
  "SignHTTPAccessToken J secret u ttl =
     bind_e time_Now (\<lambda>nw.
     let expiresAt = nw + access_ttl ttl in
     case jl_SignedString J ''HS256'' (access_claims_for u nw expiresAt) secret of
       Inl e \<Rightarrow> raise e
     | Inr token \<Rightarrow> ret (token, expiresAt))"

definition signing_key :: "byte list \<Rightarrow> string \<Rightarrow> err + byte list" where
  "signing_key secret alg =
     (if alg \<noteq> ''HS256'' then Inl (Errorf (''unexpected signing method '' @ alg)) else Inr secret)"

definition ParseHTTPAccessToken :: "jwt_lib \<Rightarrow> byte list \<Rightarrow> string \<Rightarrow> (store, err, access_claims) em" where
  "ParseHTTPAccessToken J secret tokenString =
     bind_e time_Now (\<lambda>nw.
     case jl_ParseWithClaims J nw tokenString (signing_key secret) of
       Inl e \<Rightarrow> raise e
     | Inr (claims, valid) \<Rightarrow> if \<not> valid then raise (Errorf ''invalid token'') else ret claims)"

text \<open>
  \<open>strings.EqualFold(s, "Bearer")\<close>: no rune but the two cases of an ASCII letter folds to a
  letter of the word.
\<close>

definition ParseBearerAuthorization :: "http_request \<Rightarrow> err + string" where
  "ParseBearerAuthorization r =
     (let h = TrimSpace (rq_Authorization r) in
      if h = [] then Inl (Errorf ''missing authorization header'')
      else if CHR '' '' \<notin> set h \<or> map lower (takeWhile (\<lambda>c. c \<noteq> CHR '' '') h) \<noteq> ''bearer''
        then Inl (Errorf ''expected Bearer token'')
      else let tok = TrimSpace (tl (dropWhile (\<lambda>c. c \<noteq> CHR '' '') h)) in
        if tok = [] then Inl (Errorf ''empty bearer token'') else Inr tok)"

definition ClaimsFromHTTPRequest :: "jwt_lib \<Rightarrow> byte list \<Rightarrow> http_request \<Rightarrow> (store, err, access_claims) em" where
  "ClaimsFromHTTPRequest J secret r =
     (case ParseBearerAuthorization r of Inl e \<Rightarrow> raise e | Inr raw \<Rightarrow> ParseHTTPAccessToken J secret raw)"

definition claimsForWebSocket :: "jwt_lib \<Rightarrow> byte list \<Rightarrow> http_request \<Rightarrow> (store, err, access_claims) em" where
  "claimsForWebSocket J secret r =
     handle_e (ClaimsFromHTTPRequest J secret r)
       (\<lambda>_. let q = TrimSpace (rq_Query r ''access_token'') in
          if q = [] then raise (Errorf ''missing token'') else ParseHTTPAccessToken J secret q)
       ret"

section \<open>Handlers: shared steps\<close>

text \<open>The bodies of the HTTP API and their decoders.\<close>

record auth_verify_req =
  av_ClientPeerID :: string
  av_NodePeerID :: string
  av_Nonce :: string
  av_IssuedAtMs :: uint64
  av_ExpiresAtMs :: uint64
  av_Signature :: string
  av_PublicKey :: string

record send_message_body =
  sb_ClientMsgID :: string
  sb_MessageType :: enum
  sb_Content :: "message_content option"

record json_lib =
  js_authChallengeReq :: "byte list \<Rightarrow> err + string"
  js_authVerifyReq :: "byte list \<Rightarrow> err + auth_verify_req"
  js_sendMessageBody :: "byte list \<Rightarrow> err + send_message_body"
  js_CreateSpaceReq :: "byte list \<Rightarrow> err + create_space_req"
  js_memberRoleBody :: "byte list \<Rightarrow> err + enum"
  js_allowChannelCreationBody :: "byte list \<Rightarrow> err + bool"
  js_autoDeleteBody :: "byte list \<Rightarrow> err + uint32"
  js_targetUserIDBody :: "byte list \<Rightarrow> err + string"
  js_CreateGroupReq :: "byte list \<Rightarrow> err + create_channel_req"
  js_CreateChannelReq :: "byte list \<Rightarrow> err + create_channel_req"
  js_deliverAckBody :: "byte list \<Rightarrow> err + uint64"
  js_readUpdateBody :: "byte list \<Rightarrow> err + uint64"
  js_wsClientAction :: "byte list \<Rightarrow> err + string \<times> uint32"

text \<open>The dependencies of the handlers, as \<open>app.go\<close> wires them.\<close>

text \<open>
  \<open>ht_Upgrade\<close> is the answer of the websocket library to an upgrade request: \<open>None\<close> when the
  connection is taken over, otherwise the error reply that the library has sent.
\<close>

record 'pk http_env =
  ht_env :: "'pk env"
  ht_jwt :: jwt_lib
  ht_json :: json_lib
  ht_JWTSecret :: "byte list"
  ht_IsReady :: bool
  ht_BlobRootAbs :: "err + string"
  ht_Upgrade :: "http_request \<Rightarrow> http_reply option"

type_synonym handler = "(manager, http_reply, http_reply) em"

text \<open>\<open>time.Now()\<close>, in milliseconds and in nanoseconds.\<close>

definition http_now :: "(manager, http_reply, time_ms) em" where
  "http_now M = (Inr (now_ms (mn_store M)), M)"

definition http_clock :: "(manager, http_reply, int) em" where
  "http_clock M = (Inr (clock_ns (mn_store M)), M)"

text \<open>
  \<open>int64(time.Until(t).Seconds())\<close> at the clock \<open>nw\<close>: whole seconds, towards zero. (The
  floating-point sum of seconds and nanoseconds does not reach the next integer below \<open>2 ^ 22\<close>
  seconds.)
\<close>

definition seconds_until :: "int \<Rightarrow> int \<Rightarrow> int" where
  "seconds_until nw t =
     (let d = t - nw in if 0 \<le> d then d div 1000000000 else - (- d div 1000000000))"

definition maxAuthJSONBody :: nat where
  "maxAuthJSONBody = 1048576"

definition maxV1JSONBody :: nat where
  "maxV1JSONBody = 8388608"

definition requireMethod :: "string \<Rightarrow> http_request \<Rightarrow> (manager, http_reply, unit) em" where
  "requireMethod m r = (if rq_Method r \<noteq> m then raise (writeJSONError 405 ''method not allowed'') else ret ())"

definition requireBearerJWT :: "'pk http_env \<Rightarrow> http_request \<Rightarrow> (manager, http_reply, access_claims) em" where
  "requireBearerJWT H r = map_err (\<lambda>e. writeJSONError 401 ''authentication required'')
     (in_store (ClaimsFromHTTPRequest (ht_jwt H) (ht_JWTSecret H) r))"

definition parseUint32Path :: "string \<Rightarrow> uint32 option" where
  "parseUint32Path s = (if TrimSpace s = [] then None else map_option of_nat (ParseUint 32 s))"

definition path_id :: "string \<Rightarrow> string \<Rightarrow> (manager, http_reply, uint32) em" where
  "path_id s msg = (case parseUint32Path s of None \<Rightarrow> raise (writeJSONError 400 msg) | Some v \<Rightarrow> ret v)"

text \<open>\<open>v, _ := strconv.ParseUint(s, 10, 64)\<close>: the value next to an error is 0, or the largest one when out of range.\<close>

definition ParseUint64_value :: "string \<Rightarrow> uint64" where
  "ParseUint64_value s =
     (case ParseUint 64 s of
        Some n \<Rightarrow> of_nat n
      | None \<Rightarrow> if s \<noteq> [] \<and> list_all is_digit s then - 1 else 0)"

text \<open>The query parameter \<open>limit\<close>: 0 when it is not a \<open>uint32\<close>.\<close>

definition query_limit :: "http_request \<Rightarrow> uint32" where
  "query_limit r = (case ParseUint 32 (rq_Query r ''limit'') of Some n \<Rightarrow> of_nat n | None \<Rightarrow> 0)"

text \<open>\<open>io.ReadAll(io.LimitReader(r.Body, max))\<close> and \<open>json.Unmarshal\<close>.\<close>

definition read_json :: "nat \<Rightarrow> (byte list \<Rightarrow> err + 'a) \<Rightarrow> http_request \<Rightarrow> (manager, http_reply, 'a) em" where
  "read_json max_bytes dec r =
     (if rq_BodyFails r then raise (writeJSONError 400 ''read body failed'')
      else case dec (take max_bytes (rq_Body r)) of
          Inl e \<Rightarrow> raise (writeJSONError 400 ''invalid json'')
        | Inr x \<Rightarrow> ret x)"

definition writeServiceErr :: "err \<Rightarrow> http_reply" where
  "writeServiceErr e =
     (if errors_is e ErrForbidden then writeJSONError 403 (error_text e)
      else if errors_is e ErrAdminRoleRequired then writeJSONError 403 (error_text e)
      else if errors_is e ErrOwnerRoleRequired then writeJSONError 403 (error_text e)
      else if errors_is e ErrCreateSpacePermission then writeJSONError 403 (error_text e)
      else if errors_is e ErrAutoDeleteGroupOnly then writeJSONError 400 (error_text e)
      else if errors_is e ErrInvalidMessage then writeJSONError 400 (error_text e)
      else if errors_is e ErrNotFound then writeJSONError 404 (error_text e)
      else writeJSONError 400 (error_text e))"

text \<open>
  \<open>base64.StdEncoding.DecodeString\<close>: line ends are ignored, the padding is required, and the
  bits left over in the last digit are not looked at.
\<close>

definition b64_value :: "char \<Rightarrow> nat option" where
  "b64_value c =
     (let n = of_char c :: nat in
      if 65 \<le> n \<and> n \<le> 90 then Some (n - 65)
      else if 97 \<le> n \<and> n \<le> 122 then Some (n - 71)
      else if 48 \<le> n \<and> n \<le> 57 then Some (n + 4)
      else if n = 43 then Some 62
      else if n = 47 then Some 63
      else None)"

fun base64_quads :: "string \<Rightarrow> byte list option" where
  "base64_quads [] = Some []"
| "base64_quads (w # x # y # z # rest) =
     (case (b64_value w, b64_value x) of
        (Some a, Some b) \<Rightarrow>
          (if y = CHR ''='' then
             (if z = CHR ''='' \<and> rest = [] then Some [of_nat (a * 4 + b div 16)] else None)
           else case b64_value y of
               None \<Rightarrow> None
             | Some c \<Rightarrow>
                 if z = CHR ''='' then
                   (if rest = [] then Some [of_nat (a * 4 + b div 16), of_nat (b mod 16 * 16 + c div 4)] else None)
                 else (case (b64_value z, base64_quads rest) of
                     (Some d, Some bs) \<Rightarrow> Some (of_nat (a * 4 + b div 16) # of_nat (b mod 16 * 16 + c div 4) #
                        of_nat (c mod 4 * 64 + d) # bs)
                   | _ \<Rightarrow> None))
      | _ \<Rightarrow> None)"
| "base64_quads _ = None"

definition base64_decode :: "string \<Rightarrow> byte list option" where
  "base64_decode s = base64_quads (filter (\<lambda>c. c \<noteq> CHR 0x0A \<and> c \<noteq> CHR 0x0D) s)"

section \<open>Blob files\<close>

text \<open>
  \<open>filepath.Rel\<close> of two clean absolute paths: as many \<open>..\<close> as the base has segments after the
  common ones, then the rest of the target.
\<close>

fun common_prefix :: "'a list \<Rightarrow> 'a list \<Rightarrow> nat" where
  "common_prefix (x # xs) (y # ys) = (if x = y then Suc (common_prefix xs ys) else 0)"
| "common_prefix _ _ = 0"

definition rel_segments :: "string list \<Rightarrow> string list \<Rightarrow> string list" where
  "rel_segments base targ =
     (let k = common_prefix base targ in replicate (length base - k) ''..'' @ drop k targ)"

definition abs_segments :: "string \<Rightarrow> string list" where
  "abs_segments p = filter (\<lambda>w. w \<noteq> []) (split_at (CHR ''/'') p)"

definition filepath_Rel :: "string \<Rightarrow> string \<Rightarrow> string" where
  "filepath_Rel base targ =
     (let ws = rel_segments (abs_segments base) (abs_segments targ) in
      if ws = [] then ''.'' else join_with ''/'' ws)"

datatype blob_path_error = BlobPathEmpty | BlobOutsideRoot | BlobRootErr err

text \<open>\<open>filepath.Abs(filepath.Clean(blobRoot))\<close> is an argument: it asks for the working directory.\<close>

definition resolveBlobFilePath :: "err + string \<Rightarrow> string \<Rightarrow> blob_path_error + string" where
  "resolveBlobFilePath rootAbs urlPath =
     (case rootAbs of
        Inl e \<Rightarrow> Inl (BlobRootErr (wrap ''blob root'' e))
      | Inr root \<Rightarrow>
          let p = filepath_Clean (''/'' @ TrimPrefix urlPath ''/'');
              rel = TrimPrefix p ''/''
          in if rel = [] \<or> rel = ''.'' then Inl BlobPathEmpty
             else
               let targetAbs = filepath_Join [root, rel];
                   relFromRoot = filepath_Rel root targetAbs
               in if relFromRoot = ''..'' \<or> prefix ''../'' relFromRoot then Inl BlobOutsideRoot else Inr targetAbs)"

end
