(* ===== verification/HTTP_API.thy ===== *)
theory HTTP_API
  imports HTTP_Base
begin

text \<open>
  The HTTP API: \<open>internal/api/auth_http.go\<close> (challenge and access token),
  \<open>internal/api/v1_http.go\<close> and \<open>internal/api/v1_http_rest.go\<close> (the routes under \<open>/v1\<close>) and
  the server of \<open>internal/api/http.go\<close>. One definition for each handler, in the order of the
  code, each with its checks in the order in which the code makes them.
\<close>

section \<open>Authentication\<close>

definition handleAuthChallenge :: "'pk http_env \<Rightarrow> http_request \<Rightarrow> handler" where
  "handleAuthChallenge H r =
     bind_e (requireMethod ''POST'' r) (\<lambda>_.
     bind_e (read_json maxAuthJSONBody (js_authChallengeReq (ht_json H)) r) (\<lambda>req.
     let E = ht_env H; clientPeerID = TrimSpace req in
     if clientPeerID = [] then raise (writeJSONError 400 ''client_peer_id is required'')
     else bind_e (map_err (\<lambda>e. writeJSONError 500 ''issue challenge failed'')
         (in_store (IssueChallenge (en_auth E) (en_cfg E) clientPeerID (en_nodePeerID E)))) (\<lambda>ch.
       ret (writeJSON 200 (JObject
         [(''protocol_id'', JStr (cf_Libp2pProtocolID (en_cfg E))), (''node_peer_id'', JStr (cl_NodePeerID ch)),
          (''nonce'', JStr (base64_encode (cl_Nonce ch))),
          (''issued_at_ms'', JNum (uint (of_int (cl_IssuedAt ch) :: uint64))),
          (''expires_at_ms'', JNum (uint (of_int (cl_ExpiresAt ch) :: uint64)))])))))"

definition decode_field :: "string \<Rightarrow> string \<Rightarrow> (manager, http_reply, byte list) em" where
  "decode_field s msg = (case base64_decode s of None \<Rightarrow> raise (writeJSONError 400 msg) | Some bs \<Rightarrow> ret bs)"

definition handleAuthVerify :: "'pk http_env \<Rightarrow> http_request \<Rightarrow> handler" where
  "handleAuthVerify H r =
     bind_e (requireMethod ''POST'' r) (\<lambda>_.
     bind_e (read_json maxAuthJSONBody (js_authVerifyReq (ht_json H)) r) (\<lambda>req.
     bind_e (decode_field (av_Nonce req) ''nonce must be standard base64'') (\<lambda>nonce.
     bind_e (decode_field (av_Signature req) ''signature must be standard base64'') (\<lambda>sig.
     bind_e (decode_field (av_PublicKey req) ''public_key must be standard base64'') (\<lambda>pub.
     let E = ht_env H;
         inp = \<lparr>vi_ClientPeerID = TrimSpace (av_ClientPeerID req), vi_NodePeerID = TrimSpace (av_NodePeerID req),
                vi_Nonce = nonce, vi_IssuedAt = sint (av_IssuedAtMs req), vi_ExpiresAt = sint (av_ExpiresAtMs req),
                vi_Signature = sig, vi_PublicKey = pub\<rparr>
     in if vi_ClientPeerID inp = [] \<or> vi_NodePeerID inp = []
        then raise (writeJSONError 400 ''client_peer_id and node_peer_id are required'')
        else if vi_NodePeerID inp \<noteq> en_nodePeerID E
        then raise (writeJSONError 400 ''node_peer_id does not match this server'')
        else
          bind_e (map_err (\<lambda>e. writeJSONError 401 (error_text e))
            (in_store (VerifyChallenge (en_auth E) (en_cfg E) inp))) (\<lambda>result.
          let ttl = access_ttl (cf_HTTPAccessTokenTTL (en_cfg E)); u = ar_User result in
          bind_e (map_err (\<lambda>e. writeJSONError 500 ''token issue failed'')
            (in_store (SignHTTPAccessToken (ht_jwt H) (ht_JWTSecret H) u ttl))) (\<lambda>(token, exp).
          bind_e http_clock (\<lambda>nw.
          ret (writeJSON 200 (JObject
            [(''access_token'', JStr token), (''token_type'', JStr ''Bearer''), (''expires_in'', JNum (seconds_until nw exp)),
             (''expires_at'', JTime exp),
             (''user'', JObj [(''user_db_id'', JNum (uint (us_ID u))), (''user_id'', JStr (us_UserID u)),
                (''peer_id'', JStr (us_PeerID u)), (''display_name'', JStr (us_DisplayName u))])]))))))))))"

section \<open>Reading and sending\<close>

definition handleV1Me :: "'pk http_env \<Rightarrow> http_request \<Rightarrow> handler" where
  "handleV1Me H r =
     bind_e (requireMethod ''GET'' r) (\<lambda>_.
     bind_e (requireBearerJWT H r) (\<lambda>claims.
     bind_e (map_err (\<lambda>e. if errors_is e ErrNotFound then writeJSONError 404 ''user not found''
                        else writeJSONError 500 ''load user failed'')
       (in_store (GetByID (tk_UserDBID claims)))) (\<lambda>u.
     ret (writeJSON 200 (JObject
       [(''user_db_id'', JNum (uint (us_ID u))), (''user_id'', JStr (us_UserID u)), (''peer_id'', JStr (us_PeerID u)),
        (''display_name'', JStr (us_DisplayName u)), (''avatar_url'', JStr (us_AvatarURL u)), (''bio'', JStr (us_Bio u)),
        (''last_login_at'', JTime (us_LastLoginAt u))])))))"

definition handleV1ListSpaces :: "'pk http_env \<Rightarrow> http_request \<Rightarrow> handler" where
  "handleV1ListSpaces H r =
     bind_e (requireMethod ''GET'' r) (\<lambda>_.
     bind_e (requireBearerJWT H r) (\<lambda>claims.
     bind_e (map_err (\<lambda>e. writeJSONError 500 ''list spaces failed'')
       (in_store (ListSpacesForAPI (ht_env H) (tk_UserDBID claims) (tk_PeerID claims)))) (\<lambda>spaces.
     ret (writeJSON 200 (JObject [(''spaces'', JSpaces spaces)])))))"

definition handleV1ListChannels :: "'pk http_env \<Rightarrow> http_request \<Rightarrow> string \<Rightarrow> handler" where
  "handleV1ListChannels H r space_id =
     bind_e (requireMethod ''GET'' r) (\<lambda>_.
     bind_e (requireBearerJWT H r) (\<lambda>claims.
     bind_e (path_id space_id ''invalid space_id'') (\<lambda>spaceID.
     bind_e (map_err (\<lambda>e. writeJSONError 500 ''list channels failed'')
       (in_store (ListChannelsForAPI (ht_env H) (tk_UserDBID claims) spaceID))) (\<lambda>channels.
     ret (writeJSON 200 (JObject [(''space_id'', JNum (uint spaceID)), (''channels'', JChannels channels)]))))))"

definition handleV1JoinSpace :: "'pk http_env \<Rightarrow> http_request \<Rightarrow> string \<Rightarrow> handler" where
  "handleV1JoinSpace H r space_id =
     bind_e (requireMethod ''POST'' r) (\<lambda>_.
     bind_e (requireBearerJWT H r) (\<lambda>claims.
     bind_e (path_id space_id ''invalid space_id'') (\<lambda>spaceID.
     bind_e (map_err writeServiceErr
       (in_store (JoinSpaceForAPI (ht_env H) (tk_UserDBID claims) (tk_PeerID claims) spaceID))) (\<lambda>sum.
     ret (writeJSON 200 (JObject
       [(''ok'', JBool True), (''space_id'', JNum (uint spaceID)), (''space'', JSpace sum), (''message'', JStr ''joined'')]))))))"

definition handleV1ListSpaceMembers :: "'pk http_env \<Rightarrow> http_request \<Rightarrow> string \<Rightarrow> handler" where
  "handleV1ListSpaceMembers H r space_id =
     bind_e (requireMethod ''GET'' r) (\<lambda>_.
     bind_e (requireBearerJWT H r) (\<lambda>claims.
     bind_e (path_id space_id ''invalid space_id'') (\<lambda>spaceID.
     bind_e (map_err writeServiceErr
       (in_store (ListSpaceMembersForAPI (tk_UserDBID claims) spaceID
          (ParseUint64_value (rq_Query r ''after_member_id'')) (query_limit r)))) (\<lambda>resp.
     ret (writeJSON 200 (JProto (ListSpaceMembersResp resp)))))))"

definition handleV1GetMedia :: "'pk http_env \<Rightarrow> http_request \<Rightarrow> string \<Rightarrow> handler" where
  "handleV1GetMedia H r media_id =
     bind_e (requireMethod ''GET'' r) (\<lambda>_.
     bind_e (requireBearerJWT H r) (\<lambda>claims.
     let mediaID = TrimSpace media_id in
     if mediaID = [] then raise (writeJSONError 400 ''invalid media_id'')
     else bind_e (map_err writeServiceErr (in_store (GetMediaForAPI (ht_env H) (tk_UserDBID claims) mediaID))) (\<lambda>resp.
       ret (writeJSON 200 (JProto resp)))))"

text \<open>\<open>filepath.Base\<close>: the last element of the path.\<close>

definition filepath_Base :: "string \<Rightarrow> string" where
  "filepath_Base p =
     (if p = [] then ''.''
      else let q = rev (dropWhile (\<lambda>c. c = CHR ''/'') (rev p)) in
        if q = [] then ''/'' else rev (takeWhile (\<lambda>c. c \<noteq> CHR ''/'') (rev q)))"

definition form_kind :: "string \<Rightarrow> media_kind option" where
  "form_kind s = (let k = TrimSpace s in
     if k = ''image'' then Some KindImage else if k = ''file'' \<or> k = [] then Some KindFile else None)"

text \<open>The file header is there whenever the file is.\<close>

definition handleV1UploadMedia :: "'pk http_env \<Rightarrow> http_request \<Rightarrow> handler" where
  "handleV1UploadMedia H r =
     bind_e (requireMethod ''POST'' r) (\<lambda>_.
     bind_e (requireBearerJWT H r) (\<lambda>claims.
     let E = ht_env H; maxb = (if cf_MaxUploadBytes (en_cfg E) \<le> 0 then 10485760 else cf_MaxUploadBytes (en_cfg E)) in
     case rq_Form r of
       None \<Rightarrow> raise (writeJSONError 400 ''invalid multipart form'')
     | Some form \<Rightarrow> (case mp_File form of
         None \<Rightarrow> raise (writeJSONError 400 ''file field required'')
       | Some file \<Rightarrow>
           let cont = take (nat (int64 (maxb + 1))) (ff_Content file) in
           if ff_ReadFails file then raise (writeJSONError 400 ''read file failed'')
           else if maxb < int (length cont) then raise (writeJSONError 413 ''file exceeds max upload size'')
           else (case form_kind (mp_Value form ''kind'') of
             None \<Rightarrow> raise (writeJSONError 400 ''kind must be image or file'')
           | Some kind \<Rightarrow>
               let orig0 = TrimSpace (mp_Value form ''original_name'');
                   orig = (if orig0 = [] then filepath_Base (ff_Filename file) else orig0);
                   mime0 = TrimSpace (mp_Value form ''mime_type'');
                   mimeType = (if mime0 = [] then ff_ContentType file else mime0)
               in bind_e (map_err (\<lambda>e. writeJSONError 400 (error_text e))
                    (in_store (SaveUploadedBlob (en_blob E) cont \<lparr>pbi_Kind = kind, pbi_OriginalName = orig,
                       pbi_MIMEType = mimeType, pbi_CreatedBy = tk_UserDBID claims\<rparr>))) (\<lambda>obj.
                  ret (writeJSON 200 (JObject
                    ([(''ok'', JBool True), (''media_id'', JStr (at_MediaID obj)), (''blob_id'', JStr (at_BlobID obj)),
                      (''mime_type'', JStr (at_MIMEType obj)), (''size'', JNum (uint (at_Size obj))),
                      (''original_name'', JStr (at_OriginalName obj)),
                      (''kind'', JStr (case kind of KindImage \<Rightarrow> ''image'' | KindFile \<Rightarrow> ''file'')), (''message'', JStr ''stored'')] @
                     (if kind = KindFile then [(''file_cid'', JStr (at_FileCID obj))] else [(''sha256'', JStr (at_SHA256 obj))])))))))))"

definition handleV1SendMessage :: "'pk http_env \<Rightarrow> http_request \<Rightarrow> string \<Rightarrow> handler" where
  "handleV1SendMessage H r channel_id =
     bind_e (requireMethod ''POST'' r) (\<lambda>_.
     bind_e (requireBearerJWT H r) (\<lambda>claims.
     bind_e (path_id channel_id ''invalid channel_id'') (\<lambda>channelID.
     bind_e (read_json maxV1JSONBody (js_sendMessageBody (ht_json H)) r) (\<lambda>parsed.
     bind_e (map_err writeServiceErr (SendMessageForAPI (ht_env H) (tk_UserDBID claims)
       \<lparr>sq_ChannelId = channelID, sq_ClientMsgId = sb_ClientMsgID parsed, sq_MessageType = sb_MessageType parsed,
        sq_Content = sb_Content parsed\<rparr>)) (\<lambda>msg.
     bind_e http_now (\<lambda>nw.
     ret (writeJSON 200 (JObject
       [(''ok'', JBool True), (''channel_id'', JNum (uint (mg_ChannelDBID msg))), (''client_msg_id'', JStr (mg_ClientMsgID msg)),
        (''message_id'', JStr (mg_MessageID msg)), (''seq'', JNum (uint (mg_Seq msg))),
        (''server_time_ms'', JNum (uint (of_int nw :: uint64))), (''message'', JStr ''stored'')]))))))))"

definition handleV1SyncChannel :: "'pk http_env \<Rightarrow> http_request \<Rightarrow> string \<Rightarrow> handler" where
  "handleV1SyncChannel H r channel_id =
     bind_e (requireMethod ''GET'' r) (\<lambda>_.
     bind_e (requireBearerJWT H r) (\<lambda>claims.
     bind_e (path_id channel_id ''invalid channel_id'') (\<lambda>channelID.
     bind_e (map_err writeServiceErr (in_store (SyncChannelForAPI (ht_env H) (tk_UserDBID claims) channelID
       (ParseUint64_value (rq_Query r ''after_seq'')) (query_limit r)))) (\<lambda>(msgs, nextAfter, hasMore).
     ret (writeJSON 200 (JObject
       [(''channel_id'', JNum (uint channelID)), (''messages'', JEvents msgs), (''next_after_seq'', JNum (uint nextAfter)),
        (''has_more'', JBool hasMore)]))))))"

section \<open>Spaces, members and settings\<close>

definition handleV1CreateSpace :: "'pk http_env \<Rightarrow> http_request \<Rightarrow> handler" where
  "handleV1CreateSpace H r =
     bind_e (requireMethod ''POST'' r) (\<lambda>_.
     bind_e (requireBearerJWT H r) (\<lambda>claims.
     bind_e (read_json maxV1JSONBody (js_CreateSpaceReq (ht_json H)) r) (\<lambda>req.
     bind_e (map_err writeServiceErr
       (in_store (CreateSpaceForAPI (ht_env H) (tk_UserDBID claims) (tk_PeerID claims) req))) (\<lambda>resp.
     ret (writeJSON 200 (JProto resp))))))"

definition handleV1GetCreateSpacePermissions :: "'pk http_env \<Rightarrow> http_request \<Rightarrow> handler" where
  "handleV1GetCreateSpacePermissions H r =
     bind_e (requireMethod ''GET'' r) (\<lambda>_.
     bind_e (requireBearerJWT H r) (\<lambda>claims.
     bind_e (map_err (\<lambda>e. writeJSONError 500 ''failed'')
       (in_store (GetCreateSpacePermissionsForAPI (ht_env H) (tk_PeerID claims)))) (\<lambda>resp.
     ret (writeJSON 200 (JProto resp)))))"

definition handleV1GetCreateGroupPermissions :: "'pk http_env \<Rightarrow> http_request \<Rightarrow> string \<Rightarrow> handler" where
  "handleV1GetCreateGroupPermissions H r space_id =
     bind_e (requireMethod ''GET'' r) (\<lambda>_.
     bind_e (requireBearerJWT H r) (\<lambda>claims.
     bind_e (path_id space_id ''invalid space_id'') (\<lambda>spaceID.
     bind_e (map_err writeServiceErr
       (in_store (GetCreateGroupPermissionsForAPI (ht_env H) (tk_UserDBID claims) (tk_PeerID claims) spaceID))) (\<lambda>resp.
     ret (writeJSON 200 (JProto resp))))))"

definition handleV1AdminSetMemberRole :: "'pk http_env \<Rightarrow> http_request \<Rightarrow> string \<Rightarrow> string \<Rightarrow> handler" where
  "handleV1AdminSetMemberRole H r space_id target_user_id =
     bind_e (requireMethod ''PATCH'' r) (\<lambda>_.
     bind_e (requireBearerJWT H r) (\<lambda>claims.
     bind_e (path_id space_id ''invalid space_id'') (\<lambda>spaceID.
     let targetUID = TrimSpace target_user_id in
     if targetUID = [] then raise (writeJSONError 400 ''invalid target_user_id'')
     else bind_e (read_json maxV1JSONBody (js_memberRoleBody (ht_json H)) r) (\<lambda>rl.
       bind_e (map_err writeServiceErr
         (in_store (AdminSetSpaceMemberRoleForAPI (ht_env H) (tk_UserDBID claims) spaceID targetUID rl))) (\<lambda>resp.
       ret (writeJSON 200 (JProto resp)))))))"

definition handleV1AdminSetChannelCreation :: "'pk http_env \<Rightarrow> http_request \<Rightarrow> string \<Rightarrow> handler" where
  "handleV1AdminSetChannelCreation H r space_id =
     bind_e (requireMethod ''PUT'' r) (\<lambda>_.
     bind_e (requireBearerJWT H r) (\<lambda>claims.
     bind_e (path_id space_id ''invalid space_id'') (\<lambda>spaceID.
     bind_e (read_json maxV1JSONBody (js_allowChannelCreationBody (ht_json H)) r) (\<lambda>allow.
     bind_e (map_err writeServiceErr
       (in_store (AdminSetSpaceChannelCreationForAPI (tk_UserDBID claims) spaceID allow))) (\<lambda>resp.
     ret (writeJSON 200 (JProto resp)))))))"

definition handleV1AdminSetGroupAutoDelete :: "'pk http_env \<Rightarrow> http_request \<Rightarrow> string \<Rightarrow> handler" where
  "handleV1AdminSetGroupAutoDelete H r channel_id =
     bind_e (requireMethod ''PUT'' r) (\<lambda>_.
     bind_e (requireBearerJWT H r) (\<lambda>claims.
     bind_e (path_id channel_id ''invalid channel_id'') (\<lambda>channelID.
     bind_e (read_json maxV1JSONBody (js_autoDeleteBody (ht_json H)) r) (\<lambda>seconds.
     bind_e (map_err writeServiceErr
       (in_store (AdminSetGroupAutoDeleteForAPI (tk_UserDBID claims) channelID seconds))) (\<lambda>resp.
     ret (writeJSON 200 (JProto resp)))))))"

definition handleV1InviteMember :: "'pk http_env \<Rightarrow> http_request \<Rightarrow> string \<Rightarrow> handler" where
  "handleV1InviteMember H r space_id =
     bind_e (requireMethod ''POST'' r) (\<lambda>_.
     bind_e (requireBearerJWT H r) (\<lambda>claims.
     bind_e (path_id space_id ''invalid space_id'') (\<lambda>spaceID.
     bind_e (read_json maxV1JSONBody (js_targetUserIDBody (ht_json H)) r) (\<lambda>targ.
     if TrimSpace targ = [] then raise (writeJSONError 400 ''target_user_id is required'')
     else bind_e (map_err writeServiceErr
         (in_store (InviteSpaceMemberForAPI (ht_env H) (tk_UserDBID claims) (tk_PeerID claims) spaceID targ))) (\<lambda>resp.
       ret (writeJSON 200 (JProto resp)))))))"

definition handleV1KickMember :: "'pk http_env \<Rightarrow> http_request \<Rightarrow> string \<Rightarrow> handler" where
  "handleV1KickMember H r space_id =
     bind_e (requireMethod ''POST'' r) (\<lambda>_.
     bind_e (requireBearerJWT H r) (\<lambda>claims.
     bind_e (path_id space_id ''invalid space_id'') (\<lambda>spaceID.
     bind_e (read_json maxV1JSONBody (js_targetUserIDBody (ht_json H)) r) (\<lambda>targ.
     if TrimSpace targ = [] then raise (writeJSONError 400 ''target_user_id is required'')
     else bind_e (map_err writeServiceErr
         (in_store (KickSpaceMemberForAPI (ht_env H) (tk_UserDBID claims) (tk_PeerID claims) spaceID targ))) (\<lambda>resp.
       ret (writeJSON 200 (JProto resp)))))))"

definition handleV1BanMember :: "'pk http_env \<Rightarrow> http_request \<Rightarrow> string \<Rightarrow> handler" where
  "handleV1BanMember H r space_id =
     bind_e (requireMethod ''POST'' r) (\<lambda>_.
     bind_e (requireBearerJWT H r) (\<lambda>claims.
     bind_e (path_id space_id ''invalid space_id'') (\<lambda>spaceID.
     bind_e (read_json maxV1JSONBody (js_targetUserIDBody (ht_json H)) r) (\<lambda>targ.
     if TrimSpace targ = [] then raise (writeJSONError 400 ''target_user_id is required'')
     else bind_e (map_err writeServiceErr
         (in_store (BanSpaceMemberForAPI (ht_env H) (tk_UserDBID claims) (tk_PeerID claims) spaceID targ))) (\<lambda>resp.
       ret (writeJSON 200 (JProto resp)))))))"

definition handleV1UnbanMember :: "'pk http_env \<Rightarrow> http_request \<Rightarrow> string \<Rightarrow> handler" where
  "handleV1UnbanMember H r space_id =
     bind_e (requireMethod ''POST'' r) (\<lambda>_.
     bind_e (requireBearerJWT H r) (\<lambda>claims.
     bind_e (path_id space_id ''invalid space_id'') (\<lambda>spaceID.
     bind_e (read_json maxV1JSONBody (js_targetUserIDBody (ht_json H)) r) (\<lambda>targ.
     if TrimSpace targ = [] then raise (writeJSONError 400 ''target_user_id is required'')
     else bind_e (map_err writeServiceErr
         (in_store (UnbanSpaceMemberForAPI (ht_env H) (tk_UserDBID claims) (tk_PeerID claims) spaceID targ))) (\<lambda>resp.
       ret (writeJSON 200 (JProto resp)))))))"

definition handleV1CreateGroup :: "'pk http_env \<Rightarrow> http_request \<Rightarrow> string \<Rightarrow> handler" where
  "handleV1CreateGroup H r space_id =
     bind_e (requireMethod ''POST'' r) (\<lambda>_.
     bind_e (requireBearerJWT H r) (\<lambda>claims.
     bind_e (path_id space_id ''invalid space_id'') (\<lambda>spaceID.
     bind_e (read_json maxV1JSONBody (js_CreateGroupReq (ht_json H)) r) (\<lambda>req.
     bind_e (map_err writeServiceErr (in_store (CreateGroupForAPI (ht_env H) (tk_UserDBID claims) (tk_PeerID claims)
       (req\<lparr>cr_SpaceId := spaceID\<rparr>)))) (\<lambda>resp.
     ret (writeJSON 200 (JProto resp)))))))"

definition handleV1CreateChannel :: "'pk http_env \<Rightarrow> http_request \<Rightarrow> string \<Rightarrow> handler" where
  "handleV1CreateChannel H r space_id =
     bind_e (requireMethod ''POST'' r) (\<lambda>_.
     bind_e (requireBearerJWT H r) (\<lambda>claims.
     bind_e (path_id space_id ''invalid space_id'') (\<lambda>spaceID.
     bind_e (read_json maxV1JSONBody (js_CreateChannelReq (ht_json H)) r) (\<lambda>req.
     bind_e (map_err writeServiceErr (in_store (CreateChannelForAPI (ht_env H) (tk_UserDBID claims) (tk_PeerID claims)
       (req\<lparr>cr_SpaceId := spaceID\<rparr>)))) (\<lambda>resp.
     ret (writeJSON 200 (JProto resp)))))))"

definition handleV1DeliveredAck :: "'pk http_env \<Rightarrow> http_request \<Rightarrow> string \<Rightarrow> handler" where
  "handleV1DeliveredAck H r channel_id =
     bind_e (requireMethod ''POST'' r) (\<lambda>_.
     bind_e (requireBearerJWT H r) (\<lambda>claims.
     bind_e (path_id channel_id ''invalid channel_id'') (\<lambda>channelID.
     bind_e (read_json maxV1JSONBody (js_deliverAckBody (ht_json H)) r) (\<lambda>ackedSeq.
     bind_e (map_err writeServiceErr (in_store (AckDeliveredForAPI (tk_UserDBID claims) channelID ackedSeq))) (\<lambda>_.
     ret (writeJSON 200 (JObject [(''ok'', JBool True)])))))))"

definition handleV1ReadUpdate :: "'pk http_env \<Rightarrow> http_request \<Rightarrow> string \<Rightarrow> handler" where
  "handleV1ReadUpdate H r channel_id =
     bind_e (requireMethod ''POST'' r) (\<lambda>_.
     bind_e (requireBearerJWT H r) (\<lambda>claims.
     bind_e (path_id channel_id ''invalid channel_id'') (\<lambda>channelID.
     bind_e (read_json maxV1JSONBody (js_readUpdateBody (ht_json H)) r) (\<lambda>lastReadSeq.
     bind_e (map_err writeServiceErr (in_store (UpdateReadForAPI (tk_UserDBID claims) channelID lastReadSeq))) (\<lambda>_.
     ret (writeJSON 200 (JObject [(''ok'', JBool True)])))))))"

section \<open>Routing\<close>

text \<open>
  The patterns of \<open>http.ServeMux\<close>: literal segments and wildcards, which match one non-empty
  segment; a pattern with the method \<open>GET\<close> matches \<open>HEAD\<close> as well. No path matches two of the
  patterns below with the same method, so the order of the table does not matter.
\<close>

datatype seg = Lit string | Wild

fun match_path :: "seg list \<Rightarrow> string list \<Rightarrow> string list option" where
  "match_path [] [] = Some []"
| "match_path (Lit w # ps) (x # xs) = (if x = w then match_path ps xs else None)"
| "match_path (Wild # ps) (x # xs) = (if x = [] then None else map_option ((#) x) (match_path ps xs))"
| "match_path _ _ = None"

type_synonym route = "string option \<times> seg list \<times> (string list \<Rightarrow> handler)"

definition method_matches :: "string option \<Rightarrow> string \<Rightarrow> bool" where
  "method_matches p m \<longleftrightarrow> p = None \<or> p = Some m \<or> p = Some ''GET'' \<and> m = ''HEAD''"

definition v1_auth_routes :: "'pk http_env \<Rightarrow> http_request \<Rightarrow> route list" where
  "v1_auth_routes H r =
     (if ht_JWTSecret H = [] then []
      else [(None, [Lit ''v1'', Lit ''auth'', Lit ''challenge''], \<lambda>_. handleAuthChallenge H r),
            (None, [Lit ''v1'', Lit ''auth'', Lit ''verify''], \<lambda>_. handleAuthVerify H r)])"

definition v1_rest_routes :: "'pk http_env \<Rightarrow> http_request \<Rightarrow> route list" where
  "v1_rest_routes H r =
     [(Some ''POST'', [Lit ''v1'', Lit ''spaces''], \<lambda>_. handleV1CreateSpace H r),
      (Some ''GET'', [Lit ''v1'', Lit ''permissions'', Lit ''create-space''], \<lambda>_. handleV1GetCreateSpacePermissions H r),
      (Some ''GET'', [Lit ''v1'', Lit ''spaces'', Wild, Lit ''permissions'', Lit ''create-group''],
        \<lambda>v. handleV1GetCreateGroupPermissions H r (v ! 0)),
      (Some ''PATCH'', [Lit ''v1'', Lit ''spaces'', Wild, Lit ''members'', Wild, Lit ''role''],
        \<lambda>v. handleV1AdminSetMemberRole H r (v ! 0) (v ! 1)),
      (Some ''PUT'', [Lit ''v1'', Lit ''spaces'', Wild, Lit ''settings'', Lit ''channel_creation''],
        \<lambda>v. handleV1AdminSetChannelCreation H r (v ! 0)),
      (Some ''PUT'', [Lit ''v1'', Lit ''channels'', Wild, Lit ''settings'', Lit ''auto_delete''],
        \<lambda>v. handleV1AdminSetGroupAutoDelete H r (v ! 0)),
      (Some ''POST'', [Lit ''v1'', Lit ''spaces'', Wild, Lit ''invitations''], \<lambda>v. handleV1InviteMember H r (v ! 0)),
      (Some ''POST'', [Lit ''v1'', Lit ''spaces'', Wild, Lit ''kick''], \<lambda>v. handleV1KickMember H r (v ! 0)),
      (Some ''POST'', [Lit ''v1'', Lit ''spaces'', Wild, Lit ''ban''], \<lambda>v. handleV1BanMember H r (v ! 0)),
      (Some ''POST'', [Lit ''v1'', Lit ''spaces'', Wild, Lit ''unban''], \<lambda>v. handleV1UnbanMember H r (v ! 0)),
      (Some ''POST'', [Lit ''v1'', Lit ''spaces'', Wild, Lit ''groups''], \<lambda>v. handleV1CreateGroup H r (v ! 0)),
      (Some ''POST'', [Lit ''v1'', Lit ''spaces'', Wild, Lit ''channels''], \<lambda>v. handleV1CreateChannel H r (v ! 0)),
      (Some ''POST'', [Lit ''v1'', Lit ''channels'', Wild, Lit ''delivered_ack''], \<lambda>v. handleV1DeliveredAck H r (v ! 0)),
      (Some ''POST'', [Lit ''v1'', Lit ''channels'', Wild, Lit ''read''], \<lambda>v. handleV1ReadUpdate H r (v ! 0))]"

definition v1_api_routes :: "'pk http_env \<Rightarrow> http_request \<Rightarrow> route list" where
  "v1_api_routes H r =
     (if ht_JWTSecret H = [] then []
      else
        [(Some ''GET'', [Lit ''v1'', Lit ''me''], \<lambda>_. handleV1Me H r),
         (Some ''GET'', [Lit ''v1'', Lit ''spaces''], \<lambda>_. handleV1ListSpaces H r),
         (Some ''POST'', [Lit ''v1'', Lit ''spaces'', Wild, Lit ''join''], \<lambda>v. handleV1JoinSpace H r (v ! 0)),
         (Some ''GET'', [Lit ''v1'', Lit ''spaces'', Wild, Lit ''members''], \<lambda>v. handleV1ListSpaceMembers H r (v ! 0)),
         (Some ''GET'', [Lit ''v1'', Lit ''spaces'', Wild, Lit ''channels''], \<lambda>v. handleV1ListChannels H r (v ! 0)),
         (Some ''POST'', [Lit ''v1'', Lit ''channels'', Wild, Lit ''messages''], \<lambda>v. handleV1SendMessage H r (v ! 0)),
         (Some ''GET'', [Lit ''v1'', Lit ''channels'', Wild, Lit ''sync''], \<lambda>v. handleV1SyncChannel H r (v ! 0)),
         (Some ''GET'', [Lit ''v1'', Lit ''media'', Wild], \<lambda>v. handleV1GetMedia H r (v ! 0))] @
        (if cf_MaxUploadBytes (en_cfg (ht_env H)) > 0
         then [(Some ''POST'', [Lit ''v1'', Lit ''media''], \<lambda>_. handleV1UploadMedia H r)] else []) @
        v1_rest_routes H r)"

text \<open>
  The upgrade to a websocket: what \<open>handleV1WebSocket\<close> does until the connection is taken over,
  and the route with the reply the library then sends. What becomes of the connection is in
  \<open>Websocket\<close>.
\<close>

definition acceptWebSocket :: "'pk http_env \<Rightarrow> http_request \<Rightarrow> (manager, http_reply, access_claims) em" where
  "acceptWebSocket H r =
     bind_e (requireMethod ''GET'' r) (\<lambda>_.
     bind_e (map_err (\<lambda>e. writeJSONError 401 ''authentication required'')
       (in_store (claimsForWebSocket (ht_jwt H) (ht_JWTSecret H) r))) (\<lambda>claims.
     case ht_Upgrade H r of Some reply \<Rightarrow> raise reply | None \<Rightarrow> ret claims))"

definition v1_ws_routes :: "'pk http_env \<Rightarrow> http_request \<Rightarrow> route list" where
  "v1_ws_routes H r =
     (if ht_JWTSecret H = [] then []
      else [(Some ''GET'', [Lit ''v1'', Lit ''ws''],
               \<lambda>_. bind_e (acceptWebSocket H r) (\<lambda>_. ret (writeJSON 101 (PlainText ''Switching Protocols''))))])"

definition status_routes :: "'pk http_env \<Rightarrow> route list" where
  "status_routes H =
     (let cfg = en_cfg (ht_env H) in
      [(None, [Lit ''healthz''], \<lambda>_ M. (Inr (writeJSON 200 (JObject [(''status'', JStr ''ok''), (''time'', JTime (clock_ns (mn_store M)))])), M)),
       (None, [Lit ''readyz''], \<lambda>_. ret (if \<not> ht_IsReady H then writeJSON 503 (JObject [(''status'', JStr ''not_ready'')])
          else writeJSON 200 (JObject [(''status'', JStr ''ready'')]))),
       (None, [Lit ''version''], \<lambda>_. ret (writeJSON 200 (JObject [(''version'', JStr (cf_Version cfg))])))] @
      (if cf_EnableDebugConfig cfg
       then [(None, [Lit ''debug'', Lit ''config''], \<lambda>_. ret (writeJSON 200 (ConfigSnapshot cfg)))] else []))"

definition serve_blob :: "'pk http_env \<Rightarrow> string \<Rightarrow> handler" where
  "serve_blob H urlPath =
     (case resolveBlobFilePath (ht_BlobRootAbs H) urlPath of
        Inl BlobPathEmpty \<Rightarrow> ret (writeJSON 404 (PlainText ''404 page not found''))
      | Inl BlobOutsideRoot \<Rightarrow> ret (writeJSON 403 (PlainText ''forbidden''))
      | Inl (BlobRootErr e) \<Rightarrow> ret (writeJSON 500 (PlainText ''internal server error''))
      | Inr targ \<Rightarrow> ret (writeJSON 200 (BlobFile targ)))"

definition http_routes :: "'pk http_env \<Rightarrow> http_request \<Rightarrow> route list" where
  "http_routes H r = v1_auth_routes H r @ v1_api_routes H r @ v1_ws_routes H r @ status_routes H"

text \<open>The routes whose pattern matches the path, with what the wildcards match.\<close>

definition routes_at :: "'pk http_env \<Rightarrow> http_request \<Rightarrow> (string option \<times> string list \<times> (string list \<Rightarrow> handler)) list" where
  "routes_at H r = List.map_filter (\<lambda>(m, ps, h). map_option (\<lambda>v. (m, v, h)) (match_path ps (rq_Path r))) (http_routes H r)"

definition ServeHTTP :: "'pk http_env \<Rightarrow> http_request \<Rightarrow> handler" where
  "ServeHTTP H r =
     (let cfg = en_cfg (ht_env H) in
      if take 1 (rq_Path r) = [''blobs''] then
        (if \<not> cf_ServeBlobsOverHTTP cfg \<or> cf_BlobRoot cfg = [] then ret (writeJSON 404 (PlainText ''404 page not found''))
         else if tl (rq_Path r) = [] then ret (writeJSON 301 (PlainText ''/blobs/''))
         else serve_blob H (join_with ''/'' (tl (rq_Path r))))
      else
        (case find (\<lambda>(m, v, h). method_matches m (rq_Method r)) (routes_at H r) of
           Some (m, v, h) \<Rightarrow> h v
         | None \<Rightarrow> if routes_at H r = [] then ret (writeJSON 404 (PlainText ''404 page not found''))
                   else ret (writeJSON 405 (PlainText ''Method Not Allowed''))))"

text \<open>The reply that is sent, and the state after it.\<close>

definition http_reply_of :: "(http_reply + http_reply) \<times> manager \<Rightarrow> http_reply \<times> manager" where
  "http_reply_of x = (case x of (Inl r, M) \<Rightarrow> (r, M) | (Inr r, M) \<Rightarrow> (r, M))"

end
