(* ===== verification/HTTP_Properties.thy ===== *)
theory HTTP_Properties
  imports HTTP_API Store_Invariant Session_Properties
begin

text \<open>
  Properties of the HTTP API: nothing behind \<open>/v1\<close> but the two authentication routes can be
  used without a valid access token, a token authenticates the user it was issued to until it
  expires, and the file route never leaves the blob directory.
\<close>

section \<open>Tokens\<close>

lemma ParseHTTPAccessToken_state: "snd (ParseHTTPAccessToken J secret tok s) = s"
  by (simp add: ParseHTTPAccessToken_def bind_e_def time_Now_def split: sum.splits prod.splits)

lemma ClaimsFromHTTPRequest_state: "snd (ClaimsFromHTTPRequest J secret r s) = s"
  by (simp add: ClaimsFromHTTPRequest_def ParseHTTPAccessToken_state split: sum.splits)

text \<open>The claims of a request, when it carries a valid token.\<close>

definition http_claims :: "'pk http_env \<Rightarrow> http_request \<Rightarrow> store \<Rightarrow> access_claims option" where
  "http_claims H r s =
     (case fst (ClaimsFromHTTPRequest (ht_jwt H) (ht_JWTSecret H) r s) of Inl e \<Rightarrow> None | Inr c \<Rightarrow> Some c)"

text \<open>The same for the websocket route, which also takes the token from the query.\<close>

definition ws_claims :: "'pk http_env \<Rightarrow> http_request \<Rightarrow> store \<Rightarrow> access_claims option" where
  "ws_claims H r s =
     (case fst (claimsForWebSocket (ht_jwt H) (ht_JWTSecret H) r s) of Inl e \<Rightarrow> None | Inr c \<Rightarrow> Some c)"

lemma claimsForWebSocket_state: "snd (claimsForWebSocket J secret r s) = s"
  using ClaimsFromHTTPRequest_state [of J secret r s] ParseHTTPAccessToken_state [of J secret _ s]
  by (cases "ClaimsFromHTTPRequest J secret r s")
    (auto simp: claimsForWebSocket_def handle_e_def Let_def raise_def ret_def split: sum.splits)

lemma acceptWebSocket_eq:
  "acceptWebSocket H r M =
     (if rq_Method r \<noteq> ''GET'' then (Inl (writeJSONError 405 ''method not allowed''), M)
      else case ws_claims H r (mn_store M) of
          None \<Rightarrow> (Inl (writeJSONError 401 ''authentication required''), M)
        | Some c \<Rightarrow> (case ht_Upgrade H r of Some reply \<Rightarrow> (Inl reply, M) | None \<Rightarrow> (Inr c, M)))"
  using claimsForWebSocket_state [of "ht_jwt H" "ht_JWTSecret H" r "mn_store M"]
  by (cases "claimsForWebSocket (ht_jwt H) (ht_JWTSecret H) r (mn_store M)")
    (auto simp: acceptWebSocket_def ws_claims_def requireMethod_def bind_e_def map_err_def in_store_def lift_e_def
      raise_def ret_def split: sum.splits option.splits)

lemma requireBearerJWT_eq:
  "requireBearerJWT H r M =
     (case http_claims H r (mn_store M) of
        None \<Rightarrow> (Inl (writeJSONError 401 ''authentication required''), M) | Some c \<Rightarrow> (Inr c, M))"
  using ClaimsFromHTTPRequest_state [of "ht_jwt H" "ht_JWTSecret H" r "mn_store M"]
  by (cases "ClaimsFromHTTPRequest (ht_jwt H) (ht_JWTSecret H) r (mn_store M)")
    (auto simp: requireBearerJWT_def http_claims_def map_err_def in_store_def lift_e_def split: sum.splits)

text \<open>Without a token a handler stops at one of its first two checks.\<close>

lemma gate_blocks:
  assumes "http_claims H r (mn_store M) = None"
  shows "\<exists>reply. bind_e (requireMethod m r) (\<lambda>_. bind_e (requireBearerJWT H r) k) M = (Inl reply, M) \<and>
    rp_Status reply \<in> {401, 405}"
  using assms
  by (simp add: bind_e_def requireMethod_def requireBearerJWT_eq writeJSONError_def writeJSON_def)

lemmas v1_handler_defs =
  handleV1Me_def handleV1ListSpaces_def handleV1ListChannels_def handleV1JoinSpace_def handleV1ListSpaceMembers_def
  handleV1GetMedia_def handleV1UploadMedia_def handleV1SendMessage_def handleV1SyncChannel_def handleV1CreateSpace_def
  handleV1GetCreateSpacePermissions_def handleV1GetCreateGroupPermissions_def handleV1AdminSetMemberRole_def
  handleV1AdminSetChannelCreation_def handleV1AdminSetGroupAutoDelete_def handleV1InviteMember_def handleV1KickMember_def
  handleV1BanMember_def handleV1UnbanMember_def handleV1CreateGroup_def handleV1CreateChannel_def handleV1DeliveredAck_def
  handleV1ReadUpdate_def

lemma v1_routes_gated:
  assumes "http_claims H r (mn_store M) = None" "(m, ps, h) \<in> set (v1_api_routes H r)"
  shows "\<exists>reply. h v M = (Inl reply, M) \<and> rp_Status reply \<in> {401, 405}"
  using assms(2) gate_blocks [OF assms(1)]
  by (auto simp: v1_api_routes_def v1_rest_routes_def v1_handler_defs split: if_splits)

text \<open>The route that is taken is one of the table, and its pattern matches the path.\<close>

lemma ServeHTTP_cases:
  assumes "rq_Path r = ''v1'' # w # rest" "w \<noteq> ''auth''"
  shows "(\<exists>m ps h v. (m, ps, h) \<in> set (v1_api_routes H r @ v1_ws_routes H r) \<and> match_path ps (rq_Path r) = Some v \<and>
      method_matches m (rq_Method r) \<and> ServeHTTP H r = h v) \<or>
    (\<exists>reply. ServeHTTP H r = ret reply \<and> rp_Status reply \<in> {404, 405})"
proof -
  let ?f = "find (\<lambda>(m, v, h). method_matches m (rq_Method r)) (routes_at H r)"
  have s: "ServeHTTP H r = (case ?f of Some (m, v, h) \<Rightarrow> h v
      | None \<Rightarrow> if routes_at H r = [] then ret (writeJSON 404 (PlainText ''404 page not found''))
                else ret (writeJSON 405 (PlainText ''Method Not Allowed'')))"
    using assms(1) by (simp add: ServeHTTP_def)
  show ?thesis
  proof (cases ?f)
    case None
    with s show ?thesis by (auto simp: writeJSON_def split: if_splits)
  next
    case (Some x)
    obtain m v h where x: "x = (m, v, h)" by (cases x)
    from Some have "x \<in> set (routes_at H r)" and m: "method_matches m (rq_Method r)" by (auto simp: x dest: find_SomeD)
    then obtain ps where ps: "(m, ps, h) \<in> set (http_routes H r)" "match_path ps (rq_Path r) = Some v"
      by (auto simp: x routes_at_def List.map_filter_def)
    have "(m, ps, h) \<notin> set (v1_auth_routes H r)" "(m, ps, h) \<notin> set (status_routes H)"
      using ps(2) assms by (auto simp: v1_auth_routes_def status_routes_def Let_def split: if_splits)
    with ps m s Some x show ?thesis by (auto simp: http_routes_def)
  qed
qed

text \<open>
  C13: the HTTP API is closed without a token. A request to any path under \<open>/v1\<close> other than
  \<open>/v1/auth\<close> that carries no valid access token, in its \<open>Authorization\<close> header or, where the
  websocket route takes it from, in the query, is answered with 401 (or 404 or 405), and the
  server, its store and every session are as they were.
\<close>

theorem http_needs_token:
  assumes "rq_Path r = ''v1'' # w # rest" "w \<noteq> ''auth''"
    and "(if rq_Path r = [''v1'', ''ws''] then ws_claims H r (mn_store M) else http_claims H r (mn_store M)) = None"
  shows "\<exists>reply. http_reply_of (ServeHTTP H r M) = (reply, M) \<and> rp_Status reply \<in> {401, 404, 405}"
proof (rule disjE [OF ServeHTTP_cases [OF assms(1,2), of H]])
  assume "\<exists>m ps h v. (m, ps, h) \<in> set (v1_api_routes H r @ v1_ws_routes H r) \<and> match_path ps (rq_Path r) = Some v \<and>
    method_matches m (rq_Method r) \<and> ServeHTTP H r = h v"
  then obtain m ps h v where r: "(m, ps, h) \<in> set (v1_api_routes H r) \<union> set (v1_ws_routes H r)"
    and p: "match_path ps (rq_Path r) = Some v" and h: "ServeHTTP H r = h v" by auto
  show ?thesis
  proof (cases "rq_Path r = [''v1'', ''ws'']")
    case True
    with r p have "(m, ps, h) \<in> set (v1_ws_routes H r)"
      by (auto simp: v1_api_routes_def v1_rest_routes_def split: if_splits)
    with assms(3) True h show ?thesis
      by (auto simp: v1_ws_routes_def bind_e_def acceptWebSocket_eq http_reply_of_def writeJSONError_def writeJSON_def
          split: if_splits)
  next
    case False
    with r p assms(1) have "(m, ps, h) \<in> set (v1_api_routes H r)"
      by (cases rest) (auto simp: v1_ws_routes_def split: if_splits)
    with v1_routes_gated [OF _ this, of M v] assms(3) False h show ?thesis by (auto simp: http_reply_of_def)
  qed
qed (auto simp: http_reply_of_def)

section \<open>Access tokens authenticate their user\<close>

text \<open>
  What is assumed of the JWT library: a token it has signed with HS256 is a non-empty text of
  visible ASCII characters; parsed with the same key between its \<open>nbf\<close> and \<open>exp\<close> times it
  gives its claims back as valid, and from the \<open>exp\<close> time on it is refused.
\<close>

definition visible :: "char \<Rightarrow> bool" where
  "visible c \<longleftrightarrow> 33 \<le> (of_char c :: nat) \<and> (of_char c :: nat) < 127"

definition jwt_ok :: "jwt_lib \<Rightarrow> bool" where
  "jwt_ok J \<longleftrightarrow> (\<forall>claims secret tok. jl_SignedString J ''HS256'' claims secret = Inr tok \<longrightarrow>
     tok \<noteq> [] \<and> list_all visible tok \<and>
     (\<forall>nw kf. kf ''HS256'' = Inr secret \<longrightarrow>
        (tk_NotBefore claims * 1000000000 \<le> nw \<and> nw < tk_ExpiresAt claims * 1000000000 \<longrightarrow>
           jl_ParseWithClaims J nw tok kf = Inr (claims, True)) \<and>
        (tk_ExpiresAt claims * 1000000000 \<le> nw \<longrightarrow> isl (jl_ParseWithClaims J nw tok kf))))"

lemma space_bytes:
  "w \<in> set go_space_seqs \<Longrightarrow> w \<noteq> [] \<Longrightarrow> \<not> visible (hd w) \<and> \<not> visible (last w)"
  by (auto simp: go_space_seqs_def visible_def upt_rec)

lemma TrimSpace_plain:
  assumes "s \<noteq> []" "visible (hd s)" "visible (last s)"
  shows "TrimSpace s = s"
proof -
  have u: "untrimmed go_space_seqs s"
    unfolding untrimmed_def
  proof (intro ballI impI notI)
    fix w assume "w \<in> set go_space_seqs" "w \<noteq> []" "prefix w s"
    then have "hd w = hd s" by (auto elim: prefixE)
    with space_bytes [OF \<open>w \<in> set go_space_seqs\<close> \<open>w \<noteq> []\<close>] assms(2) show False by simp
  qed
  have "untrimmed (map rev go_space_seqs) (rev s)"
    unfolding untrimmed_def
  proof (intro ballI impI notI)
    fix w assume w: "w \<in> set (map rev go_space_seqs)" "w \<noteq> []" "prefix w (rev s)"
    then obtain v where v: "v \<in> set go_space_seqs" "w = rev v" "v \<noteq> []" by auto
    from w(2,3) have "hd w = hd (rev s)" by (auto elim: prefixE)
    then have "last v = last s" using v assms(1) by (simp add: hd_rev)
    with space_bytes [OF v(1,3)] assms(3) show False by simp
  qed
  with u show ?thesis
    by (simp add: TrimSpace_def TrimLeftSpace_def TrimRightSpace_def trim_prefixes_id)
qed

lemma bearer_token:
  assumes "tok \<noteq> []" "list_all visible tok" "rq_Authorization r = ''Bearer '' @ tok"
  shows "ParseBearerAuthorization r = Inr tok"
proof -
  have v: "visible (hd tok)" "visible (last tok)" using assms(1,2) by (auto simp: list_all_iff)
  then have "TrimSpace (''Bearer '' @ tok) = ''Bearer '' @ tok"
    using assms(1) by (intro TrimSpace_plain) (simp_all add: visible_def)
  moreover have "TrimSpace tok = tok" using assms(1) v by (rule TrimSpace_plain)
  ultimately show ?thesis
    using assms(1,3) by (simp add: ParseBearerAuthorization_def lower_def Let_def char_of_def bit_Suc_0_iff)
qed

text \<open>
  C14: an access token stands for the user it was issued to. A request that carries it in its
  \<open>Authorization\<close> header is accepted, in every later state of the server, as a request of
  exactly this user and peer until the second in which the token expires, and refused from
  then on.
\<close>

theorem access_token_roundtrip:
  assumes J: "jwt_ok J" and sign: "SignHTTPAccessToken J secret u ttl s = (Inr (tok, exp), s1)"
    and later: "clock_ns s \<le> clock_ns s2" and r: "rq_Authorization r = ''Bearer '' @ tok"
  shows "(clock_ns s2 < exp div 1000000000 * 1000000000 \<longrightarrow>
      (\<exists>claims. ClaimsFromHTTPRequest J secret r s2 = (Inr claims, s2) \<and> tk_UserDBID claims = us_ID u \<and>
         tk_UserExtID claims = us_UserID u \<and> tk_PeerID claims = us_PeerID u)) \<and>
    (exp \<le> clock_ns s2 \<longrightarrow> isl (fst (ClaimsFromHTTPRequest J secret r s2)))"
proof -
  let ?c = "access_claims_for u (clock_ns s) exp"
  have tok: "jl_SignedString J ''HS256'' ?c secret = Inr tok"
    using sign by (auto simp: SignHTTPAccessToken_def bind_e_def time_Now_def Let_def split: sum.splits)
  note j = J [unfolded jwt_ok_def, rule_format, OF tok]
  have p: "ParseBearerAuthorization r = Inr tok" using j r by (intro bearer_token) auto
  have k: "signing_key secret ''HS256'' = Inr secret" by (simp add: signing_key_def)
  have nb: "tk_NotBefore ?c * 1000000000 \<le> clock_ns s2"
    using later by (simp add: access_claims_for_def minus_mod_eq_div_mult [symmetric] add_increasing2 diff_le_eq)
  let ?P = "jl_ParseWithClaims J (clock_ns s2) tok (signing_key secret)"
  have "exp div 1000000000 * 1000000000 \<le> exp" by (simp add: minus_mod_eq_div_mult [symmetric])
  then have "exp \<le> clock_ns s2 \<Longrightarrow> isl ?P"
    using j k by (simp add: access_claims_for_def)
  moreover have "clock_ns s2 < exp div 1000000000 * 1000000000 \<Longrightarrow> ?P = Inr (?c, True)"
    using j k nb by (simp add: access_claims_for_def)
  ultimately show ?thesis
    by (auto simp: ClaimsFromHTTPRequest_def p ParseHTTPAccessToken_def bind_e_def time_Now_def access_claims_for_def
        split: sum.split)
qed

section \<open>The file route stays in the blob directory\<close>

text \<open>A path segment that names a directory entry.\<close>

definition path_segment :: "string \<Rightarrow> bool" where
  "path_segment w \<longleftrightarrow> w \<noteq> [] \<and> w \<noteq> ''.'' \<and> w \<noteq> ''..'' \<and> CHR ''/'' \<notin> set w"

lemma split_at_word: "d \<notin> set w \<Longrightarrow> split_at d (w @ d # s) = w # split_at d s"
  by (induction w) auto

lemma split_at_one: "d \<notin> set w \<Longrightarrow> split_at d w = [w]"
  by (induction w) auto

lemma split_at_free: "w \<in> set (split_at d s) \<Longrightarrow> d \<notin> set w"
  by (induction d s arbitrary: w rule: split_at.induct) (auto split: if_splits list.splits)

lemma join_with_Cons: "join_with sep (v # vs) = (if vs = [] then v else v @ sep @ join_with sep vs)"
  by (cases vs) (simp_all add: join_with_def)

lemma join_with_Nil: "join_with sep [] = []"
  by (simp add: join_with_def)

lemma join_with_append:
  "us \<noteq> [] \<Longrightarrow> vs \<noteq> [] \<Longrightarrow> join_with sep (us @ vs) = join_with sep us @ sep @ join_with sep vs"
  by (induction us) (auto simp: join_with_Cons join_with_Nil)

lemma split_at_join:
  "ws \<noteq> [] \<Longrightarrow> list_all (\<lambda>w. d \<notin> set w) ws \<Longrightarrow> split_at d (join_with [d] ws) = ws"
  by (induction ws) (auto simp: join_with_Cons split_at_word split_at_one)

lemma clean_rooted:
  "list_all path_segment acc \<Longrightarrow> list_all (\<lambda>w. CHR ''/'' \<notin> set w) ws \<Longrightarrow>
     list_all path_segment (foldl (clean_step True) acc ws)"
  by (induction ws arbitrary: acc) (auto simp: path_segment_def split: list.split)

lemma clean_segments: "list_all path_segment ws \<Longrightarrow> foldl (clean_step b) acc ws = rev ws @ acc"
  by (induction ws arbitrary: acc) (auto simp: path_segment_def)

lemma segments_free: "list_all path_segment ws \<Longrightarrow> list_all (\<lambda>w. CHR ''/'' \<notin> set w) ws"
  by (auto simp: list_all_iff path_segment_def)

lemma segments_split: "ws \<noteq> [] \<Longrightarrow> list_all path_segment ws \<Longrightarrow> split_at (CHR ''/'') (join_with ''/'' ws) = ws"
  by (rule split_at_join) (auto dest: segments_free)

lemma Clean_rooted: "\<exists>ps. list_all path_segment ps \<and> filepath_Clean (''/'' @ s) = ''/'' @ join_with ''/'' ps"
proof -
  have "list_all (\<lambda>w. CHR ''/'' \<notin> set w) (split_at (CHR ''/'') s)" by (auto simp: list_all_iff dest: split_at_free)
  then have "list_all path_segment (foldl (clean_step True) [] (split_at (CHR ''/'') s))" by (intro clean_rooted) simp_all
  then show ?thesis
    by (intro exI [of _ "rev (foldl (clean_step True) [] (split_at (CHR ''/'') s))"]) (simp add: filepath_Clean_def Let_def)
qed

lemma Join_rooted:
  assumes "list_all path_segment rs" "list_all path_segment ps" "ps \<noteq> []"
  shows "filepath_Join [''/'' @ join_with ''/'' rs, join_with ''/'' ps] = ''/'' @ join_with ''/'' (rs @ ps)"
proof -
  have "foldl (clean_step True) [] (split_at (CHR ''/'') (join_with ''/'' rs @ CHR ''/'' # join_with ''/'' ps)) = rev (rs @ ps)"
  proof (cases "rs = []")
    case True
    then show ?thesis using assms(2,3) by (simp add: join_with_Nil segments_split clean_segments)
  next
    case False
    then have "join_with ''/'' rs @ CHR ''/'' # join_with ''/'' ps = join_with ''/'' (rs @ ps)"
      using assms(3) by (simp add: join_with_append)
    then show ?thesis using assms by (simp add: segments_split clean_segments)
  qed
  then show ?thesis by (simp add: filepath_Join_def filepath_Clean_def join_with_Cons Let_def del: rev_append)
qed

lemma abs_segments_rooted: "list_all path_segment rs \<Longrightarrow> abs_segments (''/'' @ join_with ''/'' rs) = rs"
  by (cases "rs = []") (auto simp: abs_segments_def segments_split join_with_Nil list_all_iff path_segment_def intro: filter_True)

lemma common_prefix_append: "common_prefix xs (xs @ ys) = length xs"
  by (induction xs) simp_all

lemma Rel_below:
  assumes "list_all path_segment rs" "list_all path_segment ps" "ps \<noteq> []"
  shows "filepath_Rel (''/'' @ join_with ''/'' rs) (''/'' @ join_with ''/'' (rs @ ps)) = join_with ''/'' ps"
proof -
  have "abs_segments (''/'' @ join_with ''/'' (rs @ ps)) = rs @ ps"
    using assms by (intro abs_segments_rooted) simp
  then show ?thesis
    using assms abs_segments_rooted [OF assms(1)]
    by (simp add: filepath_Rel_def rel_segments_def common_prefix_append Let_def)
qed

lemma join_no_dots:
  assumes "list_all path_segment ps" "ps \<noteq> []"
  shows "join_with ''/'' ps \<noteq> []" "join_with ''/'' ps \<noteq> ''.''" "join_with ''/'' ps \<noteq> ''..''"
    "\<not> prefix ''../'' (join_with ''/'' ps)"
proof -
  note s = segments_split [OF assms(2,1)]
  have h: "path_segment (hd ps)" using assms by (cases ps) auto
  from s h show "join_with ''/'' ps \<noteq> []" "join_with ''/'' ps \<noteq> ''.''" "join_with ''/'' ps \<noteq> ''..''"
    by (auto simp: path_segment_def)
  show "\<not> prefix ''../'' (join_with ''/'' ps)"
  proof
    assume "prefix ''../'' (join_with ''/'' ps)"
    then obtain z where "join_with ''/'' ps = ''..'' @ CHR ''/'' # z" by (auto elim: prefixE)
    with s have "ps = ''..'' # split_at (CHR ''/'') z" by (simp split: list.splits)
    with h show False by (simp add: path_segment_def)
  qed
qed

text \<open>
  C19: the file route stays in the blob directory. Whatever the requested path is, with any
  number of dots, double slashes and parent references, it is resolved to a file properly
  below the absolute blob directory, by a path without parent references, or found empty.
\<close>

theorem blob_path_confined:
  assumes root: "list_all path_segment rs"
  shows "resolveBlobFilePath (Inr (''/'' @ join_with ''/'' rs)) urlPath = Inl BlobPathEmpty \<or>
    (\<exists>ps. ps \<noteq> [] \<and> list_all path_segment ps \<and>
       resolveBlobFilePath (Inr (''/'' @ join_with ''/'' rs)) urlPath = Inr (''/'' @ join_with ''/'' (rs @ ps)))"
proof -
  from Clean_rooted obtain ps where ps: "list_all path_segment ps"
    "filepath_Clean (''/'' @ TrimPrefix urlPath ''/'') = ''/'' @ join_with ''/'' ps" by blast
  show ?thesis
  proof (cases "ps = []")
    case True
    with ps(2) show ?thesis by (simp add: resolveBlobFilePath_def join_with_Nil TrimPrefix_def Let_def)
  next
    case False
    with ps Join_rooted [OF root ps(1)] Rel_below [OF root ps(1)] join_no_dots [OF ps(1)] show ?thesis
      by (intro disjI2 exI [of _ ps]) (simp add: resolveBlobFilePath_def TrimPrefix_def Let_def)
  qed
qed

theorem blob_path_confined_witness:
  "resolveBlobFilePath (Inr ''/srv/blobs'') ''../../etc/./passwd'' = Inr ''/srv/blobs/etc/passwd'' \<and>
   \<not> prefix ''/etc'' (projr (resolveBlobFilePath (Inr ''/srv/blobs'') ''../../etc/./passwd''))"
proof -
  have "list_all path_segment [''srv'', ''blobs'']" by (simp add: path_segment_def)
  from blob_path_confined [OF this, of "''../../etc/./passwd''"]
  show ?thesis
    by (auto simp: resolveBlobFilePath_def TrimPrefix_def filepath_Clean_def filepath_Join_def filepath_Rel_def
        rel_segments_def abs_segments_def join_with_Cons join_with_Nil)
qed

section \<open>Instances\<close>

text \<open>A signing library that knows one token, the one issued to the example user at the example time.\<close>

definition ex_claims :: access_claims where
  "ex_claims = access_claims_for ex_account (clock_ns ex_store) (clock_ns ex_store + 86400000000000)"

definition ex_jwt :: jwt_lib where
  "ex_jwt = \<lparr>jl_SignedString = \<lambda>alg c secret. if c = ex_claims then Inr ''tok'' else Inl DriverErr,
     jl_ParseWithClaims = \<lambda>nw tok kf. if tok = ''tok'' \<and> \<not> isl (kf ''HS256'') \<and> nw < tk_ExpiresAt ex_claims * 1000000000
       then Inr (ex_claims, True) else Inl DriverErr\<rparr>"

lemma ex_jwt_ok: "jwt_ok ex_jwt"
  by (auto simp: jwt_ok_def ex_jwt_def visible_def split: if_splits)

definition ex_request :: "string \<Rightarrow> http_request" where
  "ex_request a = \<lparr>rq_Method = ''GET'', rq_Path = [''v1'', ''me''], rq_Authorization = a, rq_Query = \<lambda>_. [],
     rq_Body = [], rq_BodyFails = False, rq_Form = None\<rparr>"

theorem access_token_roundtrip_witness:
  "\<exists>claims. ClaimsFromHTTPRequest ex_jwt [1] (ex_request ''Bearer tok'') ex_store = (Inr claims, ex_store) \<and>
     tk_UserDBID claims = 1 \<and> tk_PeerID claims = ''p1''"
proof -
  have "SignHTTPAccessToken ex_jwt [1] ex_account 0 ex_store =
      (Inr (''tok'', clock_ns ex_store + 86400000000000), ex_store)"
    by (simp add: SignHTTPAccessToken_def bind_e_def time_Now_def ex_jwt_def ex_claims_def access_ttl_def Let_def)
  from access_token_roundtrip [OF ex_jwt_ok this, of ex_store "ex_request ''Bearer tok''"] show ?thesis
    by (auto simp: ex_request_def ex_account_def ex_store_def)
qed

definition ex_http :: "byte list http_env" where
  "ex_http = \<lparr>ht_env = ex_env, ht_jwt = ex_jwt,
     ht_json = \<lparr>js_authChallengeReq = \<lambda>_. Inl DriverErr, js_authVerifyReq = \<lambda>_. Inl DriverErr,
       js_sendMessageBody = \<lambda>_. Inl DriverErr, js_CreateSpaceReq = \<lambda>_. Inl DriverErr, js_memberRoleBody = \<lambda>_. Inl DriverErr,
       js_allowChannelCreationBody = \<lambda>_. Inl DriverErr, js_autoDeleteBody = \<lambda>_. Inl DriverErr,
       js_targetUserIDBody = \<lambda>_. Inl DriverErr, js_CreateGroupReq = \<lambda>_. Inl DriverErr,
       js_CreateChannelReq = \<lambda>_. Inl DriverErr, js_deliverAckBody = \<lambda>_. Inl DriverErr, js_readUpdateBody = \<lambda>_. Inl DriverErr,
       js_wsClientAction = \<lambda>_. Inr (''subscribe'', 1)\<rparr>,
     ht_JWTSecret = [1], ht_IsReady = True, ht_BlobRootAbs = Inr ''/srv/blobs'',
     ht_Upgrade = \<lambda>_. None\<rparr>"

theorem http_needs_token_witness:
  "\<exists>reply. http_reply_of (ServeHTTP ex_http (ex_request []) ex_manager) = (reply, ex_manager) \<and> rp_Status reply \<in> {401, 404, 405}"
proof (rule http_needs_token)
  show "rq_Path (ex_request []) = ''v1'' # ''me'' # []" "''me'' \<noteq> ''auth''" by (simp_all add: ex_request_def)
  show "(if rq_Path (ex_request []) = [''v1'', ''ws''] then ws_claims ex_http (ex_request []) (mn_store ex_manager)
      else http_claims ex_http (ex_request []) (mn_store ex_manager)) = None"
    by (simp add: http_claims_def ClaimsFromHTTPRequest_def ParseBearerAuthorization_def ex_request_def TrimSpace_Nil)
qed

end
