(* ===== verification/Websocket.thy ===== *)
theory Websocket
  imports HTTP_API
begin

text \<open>
  Websocket clients, \<open>internal/api/ws.go\<close>: the upgrade with its token check, the frames that
  \<open>readPump\<close> handles, its deferred exit, \<open>RealtimeDeliver\<close> with the bounded send buffer and
  its channel that may be closed, and the turns of \<open>writePump\<close>.

  Three kinds of goroutines share a client: its \<open>readPump\<close>, its \<open>writePump\<close> and everyone who
  calls \<open>DeliverMessage\<close>. The latter copies the subscribers of the channel under the lock of
  the manager and makes the calls of \<open>RealtimeDeliver\<close> after it has released the lock, so a
  call can happen after anything else has happened in between: \<open>ww_calls\<close> holds, for each
  \<open>DeliverMessage\<close> that is under way, the goroutine that runs it and the calls it has still to
  make. Sending on a closed Go channel panics. Nothing recovers a panic in the goroutine of a
  stream, which ends the process (\<open>ww_crashed\<close>); a panic in an HTTP handler is recovered by
  \<open>net/http\<close>, and only the rest of that handler is lost.
\<close>

section \<open>State\<close>

definition wsSendBuffer :: nat where
  "wsSendBuffer = 128"

definition wsMaxMsgSize :: nat where
  "wsMaxMsgSize = 65536"

record ws_delivery =
  wd_ChannelID :: uint32
  wd_Event :: message_event

record ws_server_msg =
  wm_Type :: string
  wm_ChannelID :: uint32
  wm_Event :: "message_event option"
  wm_Message :: string

datatype ws_frame = WsMsg ws_server_msg | WsError string | WsPing

text \<open>
  The user is the argument of \<open>readPump\<close>; \<open>wc_closed\<close> tells that the channel \<open>send\<close> is closed,
  \<open>wc_open\<close> that the connection is not, \<open>wc_pumping\<close> that \<open>writePump\<close> runs. The schedule of
  failing writes belongs to the connection.
\<close>

record ws_client =
  wc_user :: uint64
  wc_subs :: "uint32 list"
  wc_send :: "ws_delivery list"
  wc_closed :: bool
  wc_open :: bool
  wc_pumping :: bool
  wc_faults :: "bool list"
  wc_out :: "ws_frame list"

datatype goroutine = StreamLoop | HTTPHandler

record ws_world =
  ww_mgr :: manager
  ww_clients :: "nat \<Rightarrow> ws_client option"
  ww_calls :: "(goroutine \<times> (nat \<times> uint32 \<times> message_event) list) list"
  ww_crashed :: bool

definition new_client :: "uint64 \<Rightarrow> bool list \<Rightarrow> ws_client" where
  "new_client userID fails = \<lparr>wc_user = userID, wc_subs = [], wc_send = [], wc_closed = False, wc_open = True,
     wc_pumping = True, wc_faults = fails, wc_out = []\<rparr>"

definition on_client :: "nat \<Rightarrow> (ws_client \<Rightarrow> ws_client) \<Rightarrow> ws_world \<Rightarrow> ws_world" where
  "on_client i f w = w\<lparr>ww_clients := (ww_clients w)(i := map_option f (ww_clients w i))\<rparr>"

section \<open>The upgrade\<close>

text \<open>\<open>i\<close> stands for the address of the new client; \<open>None\<close> is the switch of protocols.\<close>

definition handleV1WebSocket :: "'pk http_env \<Rightarrow> http_request \<Rightarrow> bool list \<Rightarrow> nat \<Rightarrow> ws_world \<Rightarrow> http_reply option \<times> ws_world" where
  "handleV1WebSocket H r fails i w =
     (case acceptWebSocket H r (ww_mgr w) of
        (Inl reply, M) \<Rightarrow> (Some reply, w\<lparr>ww_mgr := M\<rparr>)
      | (Inr claims, M) \<Rightarrow>
          (None, w\<lparr>ww_mgr := M, ww_clients := (ww_clients w)(i \<mapsto> new_client (tk_UserDBID claims) fails)\<rparr>))"

section \<open>Writing\<close>

text \<open>\<open>writeJSON\<close> and \<open>WriteMessage\<close>: whether the write succeeded, and the client.\<close>

definition ws_write :: "ws_frame \<Rightarrow> ws_client \<Rightarrow> bool \<times> ws_client" where
  "ws_write f c =
     (if \<not> wc_open c then (False, c)
      else case wc_faults c of
          [] \<Rightarrow> (True, c\<lparr>wc_out := wc_out c @ [f]\<rparr>)
        | b # bs \<Rightarrow> if b then (False, c\<lparr>wc_faults := bs\<rparr>) else (True, c\<lparr>wc_faults := bs, wc_out := wc_out c @ [f]\<rparr>))"

definition ws_writeJSONError :: "string \<Rightarrow> ws_client \<Rightarrow> ws_client" where
  "ws_writeJSONError msg c = snd (ws_write (WsError msg) c)"

definition ws_writeServer :: "string \<Rightarrow> uint32 \<Rightarrow> string \<Rightarrow> ws_client \<Rightarrow> ws_client" where
  "ws_writeServer ty channelID msg c =
     snd (ws_write (WsMsg \<lparr>wm_Type = ty, wm_ChannelID = channelID, wm_Event = None, wm_Message = msg\<rparr>) c)"

text \<open>One turn of \<open>writePump\<close>: a delivery from the channel or, with \<open>ping\<close>, a tick of the ticker.\<close>

definition writePump :: "bool \<Rightarrow> ws_client \<Rightarrow> ws_client" where
  "writePump ping c =
     (if ping then (let (ok, c') = ws_write WsPing c in if ok then c' else c'\<lparr>wc_pumping := False\<rparr>)
      else case wc_send c of
          [] \<Rightarrow> if wc_closed c then c\<lparr>wc_pumping := False\<rparr> else c
        | d # rest \<Rightarrow>
            (let (ok, c') = ws_write (WsMsg \<lparr>wm_Type = ''message_event'', wm_ChannelID = wd_ChannelID d,
                   wm_Event = Some (wd_Event d), wm_Message = []\<rparr>) (c\<lparr>wc_send := rest\<rparr>)
             in if ok then c' else c'\<lparr>wc_pumping := False\<rparr>))"

section \<open>Deliveries\<close>

text \<open>\<open>None\<close>: the send panics, because the channel is closed.\<close>

definition RealtimeDeliver :: "uint32 \<Rightarrow> message_event \<Rightarrow> ws_client \<Rightarrow> ws_client option" where
  "RealtimeDeliver channelID event c =
     (if channelID \<notin> set (wc_subs c) then Some c
      else if wc_closed c then None
      else if length (wc_send c) < wsSendBuffer
        then Some (c\<lparr>wc_send := wc_send c @ [\<lparr>wd_ChannelID = channelID, wd_Event = event\<rparr>]\<rparr>)
      else Some c)"

text \<open>
  The next call of a delivery under way, between those before and after it in \<open>ww_calls\<close>:
  \<open>DeliverMessage\<close> has taken \<open>call\<close> from its list and goes on with \<open>calls\<close>.
\<close>

definition realtime_call :: "goroutine \<Rightarrow> nat \<times> uint32 \<times> message_event \<Rightarrow> (nat \<times> uint32 \<times> message_event) list
    \<Rightarrow> (goroutine \<times> (nat \<times> uint32 \<times> message_event) list) list
    \<Rightarrow> (goroutine \<times> (nat \<times> uint32 \<times> message_event) list) list \<Rightarrow> ws_world \<Rightarrow> ws_world" where
  "realtime_call g call calls xs ys w =
     (case call of (i, channelID, event) \<Rightarrow>
        (case ww_clients w i of
           None \<Rightarrow> w\<lparr>ww_calls := xs @ (g, calls) # ys\<rparr>
         | Some c \<Rightarrow>
             (case RealtimeDeliver channelID event c of
                None \<Rightarrow>
                  (case g of
                     StreamLoop \<Rightarrow> w\<lparr>ww_calls := xs @ (g, calls) # ys, ww_crashed := True\<rparr>
                   | HTTPHandler \<Rightarrow> w\<lparr>ww_calls := xs @ ys\<rparr>)
              | Some c' \<Rightarrow> w\<lparr>ww_calls := xs @ (g, calls) # ys, ww_clients := (ww_clients w)(i \<mapsto> c')\<rparr>)))"

text \<open>
  A step of the manager in a goroutine: the calls of \<open>RealtimeDeliver\<close> it leads to are still to
  be made.
\<close>

definition manager_step :: "goroutine \<Rightarrow> (manager \<Rightarrow> manager) \<Rightarrow> ws_world \<Rightarrow> ws_world" where
  "manager_step g f w =
     (let M' = f (ww_mgr w); calls = drop (length (mn_delivered (ww_mgr w))) (mn_delivered M')
      in w\<lparr>ww_mgr := M', ww_calls := (if calls = [] then ww_calls w else ww_calls w @ [(g, calls)])\<rparr>)"

section \<open>Reading\<close>

text \<open>
  \<open>strings.ToLower\<close>, as far as it can give one of the three actions: the upper case ASCII
  letters and the one other rune with a lower case letter of these words, the dotted
  capital I (the bytes C4 B0).
\<close>

fun ToLower_ascii :: "string \<Rightarrow> string" where
  "ToLower_ascii (a # b # s) =
     (if a = CHR 0xC4 \<and> b = CHR 0xB0 then CHR ''i'' # ToLower_ascii s else lower a # ToLower_ascii (b # s))"
| "ToLower_ascii [a] = [lower a]"
| "ToLower_ascii [] = []"

definition ws_subscribe :: "nat \<Rightarrow> ws_client \<Rightarrow> uint32 \<Rightarrow> ws_world \<Rightarrow> ws_world" where
  "ws_subscribe i c channelID w =
     (if channelID = 0 then on_client i (ws_writeJSONError ''channel_id required'') w
      else
        let (res, M) = in_store (IsChannelMemberForWS (wc_user c) channelID) (ww_mgr w);
            w1 = w\<lparr>ww_mgr := M\<rparr>
        in case res of
             Inl e \<Rightarrow> on_client i (ws_writeJSONError ''not a channel member'') w1
           | Inr ok \<Rightarrow>
               if \<not> ok then on_client i (ws_writeJSONError ''not a channel member'') w1
               else
                 let w2 = (if channelID \<in> set (wc_subs c) then w1
                     else (on_client i (\<lambda>c. c\<lparr>wc_subs := wc_subs c @ [channelID]\<rparr>) w1)
                       \<lparr>ww_mgr := RegisterRealtimeSubscriber channelID i M\<rparr>)
                 in on_client i (ws_writeServer ''subscribed'' channelID ''ok'') w2)"

definition ws_unsubscribe :: "nat \<Rightarrow> uint32 \<Rightarrow> ws_world \<Rightarrow> ws_world" where
  "ws_unsubscribe i channelID w =
     (if channelID = 0 then on_client i (ws_writeJSONError ''channel_id required'') w
      else
        let w1 = (on_client i (\<lambda>c. c\<lparr>wc_subs := set_delete channelID (wc_subs c)\<rparr>) w)
              \<lparr>ww_mgr := UnregisterRealtimeSubscriber channelID i (ww_mgr w)\<rparr>
        in on_client i (ws_writeServer ''unsubscribed'' channelID ''ok'') w1)"

text \<open>The deferred exit of \<open>readPump\<close>; \<open>subs\<close> is not cleared.\<close>

definition readPump_exit :: "nat \<Rightarrow> ws_world \<Rightarrow> ws_world" where
  "readPump_exit i w =
     on_client i (\<lambda>c. c\<lparr>wc_closed := True, wc_open := False\<rparr>)
       (w\<lparr>ww_mgr := UnregisterRealtimeSubscriberAll i (ww_mgr w)\<rparr>)"

text \<open>One turn of the loop of \<open>readPump\<close>: \<open>None\<close> is a read that fails, as one over the limit does.\<close>

definition readPump :: "'pk http_env \<Rightarrow> nat \<Rightarrow> byte list option \<Rightarrow> ws_world \<Rightarrow> ws_world" where
  "readPump H i inp w =
     (case ww_clients w i of
        None \<Rightarrow> w
      | Some c \<Rightarrow>
          (case inp of
             None \<Rightarrow> readPump_exit i w
           | Some data \<Rightarrow>
               if wsMaxMsgSize < length data then readPump_exit i w
               else
                 (case js_wsClientAction (ht_json H) data of
                    Inl e \<Rightarrow> on_client i (ws_writeJSONError ''invalid json'') w
                  | Inr (act, channelID) \<Rightarrow>
                      let a = ToLower_ascii (TrimSpace act) in
                      if a = ''ping'' then on_client i (ws_writeServer ''pong'' 0 ''ok'') w
                      else if a = ''subscribe'' then ws_subscribe i c channelID w
                      else if a = ''unsubscribe'' then ws_unsubscribe i channelID w
                      else on_client i (ws_writeJSONError ''unknown action'') w)))"

section \<open>Lemmas: one client\<close>

text \<open>What writing leaves alone.\<close>

lemma ws_write_simps [simp]:
  "wc_user (snd (ws_write f c)) = wc_user c" "wc_subs (snd (ws_write f c)) = wc_subs c"
  "wc_send (snd (ws_write f c)) = wc_send c" "wc_closed (snd (ws_write f c)) = wc_closed c"
  "wc_open (snd (ws_write f c)) = wc_open c" "wc_pumping (snd (ws_write f c)) = wc_pumping c"
  by (simp_all add: ws_write_def split: list.split)

lemma ws_reply_simps [simp]:
  "wc_user (ws_writeJSONError m c) = wc_user c" "wc_subs (ws_writeJSONError m c) = wc_subs c"
  "wc_send (ws_writeJSONError m c) = wc_send c" "wc_closed (ws_writeJSONError m c) = wc_closed c"
  "wc_open (ws_writeJSONError m c) = wc_open c"
  "wc_user (ws_writeServer t ch m c) = wc_user c" "wc_subs (ws_writeServer t ch m c) = wc_subs c"
  "wc_send (ws_writeServer t ch m c) = wc_send c" "wc_closed (ws_writeServer t ch m c) = wc_closed c"
  "wc_open (ws_writeServer t ch m c) = wc_open c"
  by (simp_all add: ws_writeJSONError_def ws_writeServer_def)

lemma writePump_simps [simp]:
  "wc_user (writePump p c) = wc_user c" "wc_subs (writePump p c) = wc_subs c"
  "wc_closed (writePump p c) = wc_closed c" "wc_open (writePump p c) = wc_open c"
  by (simp_all add: writePump_def case_prod_beta split: list.splits)

lemma writePump_send: "length (wc_send (writePump p c)) \<le> length (wc_send c)"
  by (simp add: writePump_def case_prod_beta split: list.splits)

lemma on_client_simps [simp]:
  "ww_mgr (on_client i f w) = ww_mgr w" "ww_calls (on_client i f w) = ww_calls w"
  "ww_crashed (on_client i f w) = ww_crashed w"
  "ww_clients (on_client i f w) j = (if j = i then map_option f (ww_clients w i) else ww_clients w j)"
  by (simp_all add: on_client_def)

end
