(* ===== verification/Database.thy ===== *)
theory Database
  imports Config Schema
begin

text \<open>
  Opening the database and bringing its schema up to date: \<open>internal/db/db.go\<close> and
  \<open>internal/db/migrate.go\<close>.

  The MySQL server is an argument: what a ping answers and how long it takes, what the
  execution of a migration file does, which account rows exist. MySQL ends a transaction
  implicitly when it executes a statement that defines data, so the execution of a file also
  tells whether the transaction was over afterwards. The quoted names in error texts
  (\<open>%q\<close>) are left out.
\<close>

section \<open>Connection strings\<close>

text \<open>\<open>url.QueryEscape\<close>.\<close>

definition query_safe :: "char \<Rightarrow> bool" where
  "query_safe c \<longleftrightarrow> (let n = of_char c :: nat in
     65 \<le> n \<and> n \<le> 90 \<or> 97 \<le> n \<and> n \<le> 122 \<or> 48 \<le> n \<and> n \<le> 57) \<or> c \<in> {CHR ''-'', CHR ''_'', CHR ''.'', CHR ''~''}"

definition upper_hex :: "nat \<Rightarrow> char" where
  "upper_hex n = char_of (if n < 10 then 48 + n else 55 + n)"

definition QueryEscape :: "string \<Rightarrow> string" where
  "QueryEscape s = concat (map (\<lambda>c.
     if query_safe c then [c]
     else if c = CHR '' '' then ''+''
     else [CHR 0x25, upper_hex (of_char c div 16), upper_hex (of_char c mod 16)]) s)"

definition addDSNParam :: "string \<Rightarrow> string \<Rightarrow> string \<Rightarrow> string" where
  "addDSNParam dsn key val =
     (let sep = (if CHR ''?'' \<in> set dsn then ''&'' else ''?'') in dsn @ sep @ key @ ''='' @ QueryEscape val)"

text \<open>\<open>strings.ReplaceAll\<close> of a quote by two.\<close>

definition sqlStringLiteral :: "string \<Rightarrow> string" where
  "sqlStringLiteral val =
     CHR 0x27 # concat (map (\<lambda>c. if c = CHR 0x27 then [CHR 0x27, CHR 0x27] else [c]) val) @ [CHR 0x27]"

section \<open>Accounts\<close>

text \<open>
  A connection of an administrator: the hosts of each account, a schedule of failures and the
  statements executed so far.
\<close>

record admin_conn =
  ac_hosts :: "string \<Rightarrow> string list"
  ac_faults :: "bool list"
  ac_done :: "string list"

definition admin_step :: "(admin_conn \<Rightarrow> 'a \<times> admin_conn) \<Rightarrow> (admin_conn, err, 'a) em" where
  "admin_step f c =
     (let c1 = c\<lparr>ac_faults := tl (ac_faults c)\<rparr> in
      if ac_faults c \<noteq> [] \<and> hd (ac_faults c) then (Inl DriverErr, c1)
      else (case f c1 of (x, c2) \<Rightarrow> (Inr x, c2)))"

definition alter_user :: "string \<Rightarrow> string \<Rightarrow> string \<Rightarrow> string" where
  "alter_user user host password =
     ''ALTER USER '' @ sqlStringLiteral user @ ''@'' @ sqlStringLiteral host @
     '' IDENTIFIED WITH caching_sha2_password BY '' @ sqlStringLiteral password"

fun alter_each :: "string \<Rightarrow> string \<Rightarrow> string list \<Rightarrow> (admin_conn, err, unit) em" where
  "alter_each user password [] = ret ()"
| "alter_each user password (host # hosts) =
     bind_e (map_err (wrap ''alter mysql user'')
       (admin_step (\<lambda>c. ((), c\<lparr>ac_done := ac_done c @ [alter_user user host password]\<rparr>)))) (\<lambda>_.
     alter_each user password hosts)"

definition alterMySQLUserAuth :: "string \<Rightarrow> string \<Rightarrow> (admin_conn, err, unit) em" where
  "alterMySQLUserAuth user password =
     (if user = [] then ret ()
      else bind_e (map_err (wrap ''list mysql accounts for user'') (admin_step (\<lambda>c. (ac_hosts c user, c)))) (\<lambda>rows.
        if rows = [] then ret () else alter_each user password rows))"

text \<open>
  \<open>ensureCachingSha2Auth\<close>: the driver's opening of a connection string, the ping and the
  parser of connection strings (user and password) are arguments.
\<close>

definition ensureCachingSha2Auth :: "(string \<Rightarrow> err option) \<Rightarrow> err option \<Rightarrow> (string \<Rightarrow> err + string \<times> string)
    \<Rightarrow> config \<Rightarrow> (admin_conn, err, unit) em" where
  "ensureCachingSha2Auth sqlOpen ping ParseDSN cfg =
     (let adminDSN = (if cf_MySQLServerPubKeyPath cfg \<noteq> []
            then addDSNParam (cf_MySQLAdminDSN cfg) ''serverPubKey'' (cf_MySQLServerPubKeyPath cfg)
            else cf_MySQLAdminDSN cfg)
      in case sqlOpen adminDSN of
           Some e \<Rightarrow> raise (wrap ''open mysql admin connection'' e)
         | None \<Rightarrow> (case ping of
             Some e \<Rightarrow> raise (wrap ''ping mysql admin connection'' e)
           | None \<Rightarrow> (case ParseDSN adminDSN of
               Inl e \<Rightarrow> raise (wrap ''parse mysql admin dsn'' e)
             | Inr (adminUser, adminPasswd) \<Rightarrow> (case ParseDSN (cf_MySQLDSN cfg) of
                 Inl e \<Rightarrow> raise (wrap ''parse mysql dsn'' e)
               | Inr (appUser, appPasswd) \<Rightarrow>
                   bind_e (alterMySQLUserAuth appUser appPasswd) (\<lambda>_. alterMySQLUserAuth adminUser adminPasswd)))))"

section \<open>The key of the server\<close>

text \<open>
  \<open>registerServerPubKey\<close>: the PEM decoder (the type of the block and its bytes) and the two
  parsers of keys are arguments; \<open>None\<close> of the first parser is a key that is not an RSA key.
\<close>

definition registerServerPubKey :: "(string \<Rightarrow> err + string) \<Rightarrow> (string \<Rightarrow> (string \<times> byte list) option)
    \<Rightarrow> (byte list \<Rightarrow> err + 'k option) \<Rightarrow> (byte list \<Rightarrow> err + 'k) \<Rightarrow> string \<Rightarrow> err + 'k" where
  "registerServerPubKey ReadFile pemDecode ParsePKIX ParsePKCS1 path =
     (case ReadFile path of
        Inl e \<Rightarrow> Inl (wrap ''read mysql server public key'' e)
      | Inr raw \<Rightarrow> (case pemDecode raw of
          None \<Rightarrow> Inl (Errorf ''decode mysql server public key: no PEM block found'')
        | Some (ty, bytes) \<Rightarrow>
            if ty = ''PUBLIC KEY'' then
              (case ParsePKIX bytes of
                 Inl e \<Rightarrow> Inl (wrap ''parse mysql server public key'' e)
               | Inr None \<Rightarrow> Inl (Errorf ''parse mysql server public key: not an RSA public key'')
               | Inr (Some key) \<Rightarrow> Inr key)
            else if ty = ''RSA PUBLIC KEY'' then
              (case ParsePKCS1 bytes of
                 Inl e \<Rightarrow> Inl (wrap ''parse mysql server public key'' e)
               | Inr key \<Rightarrow> Inr key)
            else Inl (Errorf ''parse mysql server public key: unsupported PEM block type'')))"

section \<open>Waiting for the server\<close>

text \<open>
  The loop of \<open>Open\<close>: the k-th ping takes a time and has a result; the context may be done at
  the k-th wait. Times are nanoseconds; the result is the time of the successful ping.
  \<open>None\<close> would be a loop that never ends.
\<close>

partial_function (option) ping_loop :: "(nat \<Rightarrow> int \<times> err option) \<Rightarrow> (nat \<Rightarrow> err option) \<Rightarrow> int \<Rightarrow> int \<Rightarrow> nat \<Rightarrow> int
    \<Rightarrow> (err + int) option" where
  "ping_loop pings ctxDone interval deadline k nw =
     (case pings k of (d, res) \<Rightarrow>
        (case res of
           None \<Rightarrow> Some (Inr (nw + d))
         | Some e \<Rightarrow>
             if deadline < nw + d then Some (Inl (wrap ''ping mysql'' e))
             else (case ctxDone k of
                 Some c \<Rightarrow> Some (Inl c)
               | None \<Rightarrow> ping_loop pings ctxDone interval deadline (Suc k) (nw + d + max 0 interval))))"

text \<open>
  \<open>Open\<close>; \<open>registerKey\<close> is the outcome of \<open>registerServerPubKey\<close> and \<open>normalise\<close> that of
  \<open>ensureCachingSha2Auth\<close>. The result is the connection string in use.
\<close>

definition db_Open :: "(string \<Rightarrow> err option) \<Rightarrow> (string \<Rightarrow> err option) \<Rightarrow> (nat \<Rightarrow> int \<times> err option) \<Rightarrow> (nat \<Rightarrow> err option)
    \<Rightarrow> err option \<Rightarrow> config \<Rightarrow> int \<Rightarrow> (err + string) option" where
  "db_Open registerKey sqlOpen pings ctxDone normalise cfg nw =
     (let key = cf_MySQLServerPubKeyPath cfg;
          dsn = (if key \<noteq> [] then addDSNParam (cf_MySQLDSN cfg) ''serverPubKey'' key else cf_MySQLDSN cfg)
      in case (if key \<noteq> [] then registerKey key else None) of
           Some e \<Rightarrow> Some (Inl e)
         | None \<Rightarrow> (case sqlOpen dsn of
             Some e \<Rightarrow> Some (Inl (wrap ''open mysql'' e))
           | None \<Rightarrow>
               (case ping_loop pings ctxDone (cf_MySQLRetryInterval cfg) (nw + cf_MySQLMaxRetryDuration cfg) 0 nw of
                  None \<Rightarrow> None
                | Some (Inl e) \<Rightarrow> Some (Inl e)
                | Some (Inr _) \<Rightarrow>
                    if cf_MySQLAdminDSN cfg \<noteq> []
                    then (case normalise of Some e \<Rightarrow> Some (Inl e) | None \<Rightarrow> Some (Inr dsn))
                    else Some (Inr dsn))))"

section \<open>Migrations\<close>

text \<open>
  The rows of \<open>schema_migrations\<close>, the rest of the database and the schedule of failing
  statements.
\<close>

record 'db mig_store =
  mg_names :: "string list"
  mg_db :: 'db
  mg_faults :: "bool list"

definition mig_step :: "('db mig_store, err, unit) em" where
  "mig_step s =
     (let s1 = s\<lparr>mg_faults := tl (mg_faults s)\<rparr> in
      if mg_faults s \<noteq> [] \<and> hd (mg_faults s) then (Inl DriverErr, s1) else (Inr (), s1))"

definition mig_modify :: "('db mig_store \<Rightarrow> 'db mig_store) \<Rightarrow> ('db mig_store, err, unit) em" where
  "mig_modify f s = (Inr (), f s)"

definition ensureMigrationTable :: "('db mig_store, err, unit) em" where
  "ensureMigrationTable = map_err (wrap ''ensure schema_migrations'') mig_step"

definition isMigrationApplied :: "collation \<Rightarrow> string \<Rightarrow> ('db mig_store, err, bool) em" where
  "isMigrationApplied coll name s =
     bind_e (map_err (wrap ''check migration'') mig_step) (\<lambda>_. ret (\<exists>n \<in> set (mg_names s). coll n = coll name)) s"

text \<open>
  \<open>exec raw db\<close> is what the execution of a file does: its error, the database after it and
  whether the transaction has been ended by a statement of the file. What a failing step
  leaves behind depends on that: nothing while the transaction is open, everything done so far
  after it was ended.
\<close>

definition apply_migration :: "(string \<Rightarrow> 'db \<Rightarrow> err option \<times> 'db \<times> bool) \<Rightarrow> string \<Rightarrow> string \<Rightarrow> ('db mig_store, err, unit) em" where
  "apply_migration exec name raw s =
     (let (res, db', ended) = exec raw (mg_db s);
          undo = (\<lambda>s'. if ended then s' else s'\<lparr>mg_names := mg_names s, mg_db := mg_db s\<rparr>)
      in bind_e (map_err (wrap ''begin migration'') mig_step) (\<lambda>_.
         handle_e (bind_e mig_step (\<lambda>_. bind_e (mig_modify (\<lambda>s'. s'\<lparr>mg_db := db'\<rparr>)) (\<lambda>_.
             case res of None \<Rightarrow> ret () | Some e \<Rightarrow> raise e)))
           (\<lambda>e. bind_e (mig_modify undo) (\<lambda>_. raise (wrap ''apply migration'' e)))
           (\<lambda>_. handle_e mig_step
             (\<lambda>e. bind_e (mig_modify undo) (\<lambda>_. raise (wrap ''record migration'' e)))
             (\<lambda>_. bind_e (mig_modify (\<lambda>s'. s'\<lparr>mg_names := mg_names s' @ [name]\<rparr>)) (\<lambda>_.
               handle_e mig_step
                 (\<lambda>e. bind_e (mig_modify undo) (\<lambda>_. raise (wrap ''commit migration'' e)))
                 ret)))) s)"

fun run_each :: "collation \<Rightarrow> (string \<Rightarrow> err + string) \<Rightarrow> (string \<Rightarrow> 'db \<Rightarrow> err option \<times> 'db \<times> bool) \<Rightarrow> string
    \<Rightarrow> string list \<Rightarrow> ('db mig_store, err, unit) em" where
  "run_each coll ReadFile exec dir [] = ret ()"
| "run_each coll ReadFile exec dir (name # names) =
     bind_e (isMigrationApplied coll name) (\<lambda>applied.
     if applied then run_each coll ReadFile exec dir names
     else case ReadFile (filepath_Join [dir, name]) of
         Inl e \<Rightarrow> raise (wrap ''read migration'' e)
       | Inr raw \<Rightarrow> bind_e (apply_migration exec name raw) (\<lambda>_. run_each coll ReadFile exec dir names))"

text \<open>The files of the directory, in the order of \<open>sort.Strings\<close>; an entry is its name and whether it is a directory.\<close>

definition up_files :: "(string \<times> bool) list \<Rightarrow> string list" where
  "up_files entries =
     sort_key (\<lambda>n. map of_char n :: nat list) (map fst (filter (\<lambda>(n, isDir). \<not> isDir \<and> suffix ''.up.sql'' n) entries))"

definition RunMigrations :: "collation \<Rightarrow> (string \<Rightarrow> err + (string \<times> bool) list) \<Rightarrow> (string \<Rightarrow> err + string)
    \<Rightarrow> (string \<Rightarrow> 'db \<Rightarrow> err option \<times> 'db \<times> bool) \<Rightarrow> string \<Rightarrow> ('db mig_store, err, unit) em" where
  "RunMigrations coll ReadDir ReadFile exec dir =
     bind_e ensureMigrationTable (\<lambda>_.
     case ReadDir dir of
       Inl e \<Rightarrow> raise (wrap ''read migrations dir'' e)
     | Inr entries \<Rightarrow> run_each coll ReadFile exec dir (up_files entries))"

section \<open>Opening ends\<close>

lemma ping_loop_ends:
  assumes "0 < step" "\<And>k. step \<le> fst (pings k) + max 0 interval"
  shows "\<exists>r. ping_loop pings ctxDone interval deadline k nw = Some r \<and> (\<forall>t. r = Inr t \<longrightarrow> (\<exists>j. snd (pings j) = None))"
proof (induction "nat (deadline - nw + max 0 interval + 1)" arbitrary: k nw rule: less_induct)
  case less
  obtain d res where p: "pings k = (d, res)" by (cases "pings k")
  have d: "step \<le> d + max 0 interval" using assms(2) [of k] by (simp add: p)
  show ?case
  proof (cases "res \<noteq> None \<and> \<not> deadline < nw + d \<and> ctxDone k = None")
    case False
    then show ?thesis by (subst ping_loop.simps) (auto simp: p intro: exI [of _ k] split: option.splits)
  next
    case True
    let ?nw = "nw + d + max 0 interval"
    have "nat (deadline - ?nw + max 0 interval + 1) < nat (deadline - nw + max 0 interval + 1)"
      using True d assms(1) by linarith
    from less [OF this, of "Suc k"] obtain r where
      "ping_loop pings ctxDone interval deadline (Suc k) ?nw = Some r" "\<forall>t. r = Inr t \<longrightarrow> (\<exists>j. snd (pings j) = None)"
      by blast
    with True show ?thesis by (subst ping_loop.simps) (auto simp: p)
  qed
qed

text \<open>
  Opening the database comes to an end, provided a failing ping and the pause after it
  take some time: the retries stop at the deadline, and the database is opened only after a
  ping has succeeded.
\<close>

theorem db_open_ends:
  assumes "0 < step" "\<And>k. step \<le> fst (pings k) + max 0 (cf_MySQLRetryInterval cfg)"
  shows "\<exists>r. db_Open registerKey sqlOpen pings ctxDone normalise cfg nw = Some r \<and>
    (\<forall>dsn. r = Inr dsn \<longrightarrow> (\<exists>k. snd (pings k) = None))"
proof -
  obtain r where "ping_loop pings ctxDone (cf_MySQLRetryInterval cfg) (nw + cf_MySQLMaxRetryDuration cfg) 0 nw = Some r"
    "\<forall>t. r = Inr t \<longrightarrow> (\<exists>j. snd (pings j) = None)"
    using ping_loop_ends [of step pings "cf_MySQLRetryInterval cfg"] assms by blast
  then show ?thesis by (cases r) (auto simp: db_Open_def Let_def split: option.splits)
qed

theorem db_open_ends_witness:
  "\<exists>r. db_Open (\<lambda>_. None) (\<lambda>_. None) (\<lambda>k. (1, if k < 5 then Some DriverErr else None)) (\<lambda>_. None) None defaults 0 = Some r"
  using db_open_ends [of 1 "\<lambda>k. (1, if k < 5 then Some DriverErr else None)" defaults "\<lambda>_. None" "\<lambda>_. None" "\<lambda>_. None" None 0]
  by auto

section \<open>Each migration is applied once\<close>

text \<open>The files that are run on a database with the given rows, and what they make of it.\<close>

fun pending :: "collation \<Rightarrow> string list \<Rightarrow> string list \<Rightarrow> string list" where
  "pending coll names [] = []"
| "pending coll names (f # fs) =
     (if \<exists>n \<in> set names. coll n = coll f then pending coll names fs else f # pending coll (names @ [f]) fs)"

definition run_file :: "(string \<Rightarrow> err + string) \<Rightarrow> (string \<Rightarrow> 'db \<Rightarrow> err option \<times> 'db \<times> bool) \<Rightarrow> string \<Rightarrow> string \<Rightarrow> 'db \<Rightarrow> 'db" where
  "run_file ReadFile exec dir name db = fst (snd (exec (projr (ReadFile (filepath_Join [dir, name]))) db))"

lemma mig_step_iff [em_simps]:
  "mig_step s = (r, s') \<longleftrightarrow> s' = s\<lparr>mg_faults := tl (mg_faults s)\<rparr> \<and>
     r = (if mg_faults s \<noteq> [] \<and> hd (mg_faults s) then Inl DriverErr else Inr ())"
  by (auto simp: mig_step_def Let_def)

lemma mig_modify_iff [em_simps]: "mig_modify f s = (r, s') \<longleftrightarrow> r = Inr () \<and> s' = f s"
  by (auto simp: mig_modify_def)

lemma apply_migration_Inr:
  assumes "apply_migration exec name raw s = (Inr u, s')"
  shows "mg_names s' = mg_names s @ [name] \<and> mg_db s' = fst (snd (exec raw (mg_db s)))"
proof -
  obtain res db' e where x: "exec raw (mg_db s) = (res, db', e)" by (cases "exec raw (mg_db s)")
  from assms show ?thesis
    by (auto simp: apply_migration_def x Let_def em_simps handle_e_def split: sum.splits prod.splits option.splits if_splits)
qed

lemma isMigrationApplied_iff:
  "isMigrationApplied coll name s = (Inr b, s') \<longleftrightarrow>
     (b \<longleftrightarrow> (\<exists>n \<in> set (mg_names s). coll n = coll name)) \<and> mig_step s = (Inr (), s')"
  by (auto simp: isMigrationApplied_def em_simps)

lemma run_each_Inr:
  "run_each coll ReadFile exec dir names s = (Inr (), s') \<Longrightarrow>
     mg_names s' = mg_names s @ pending coll (mg_names s) names \<and>
     mg_db s' = fold (run_file ReadFile exec dir) (pending coll (mg_names s) names) (mg_db s)"
proof (induction names arbitrary: s)
  case (Cons name names)
  from Cons.prems obtain applied s1 where a: "isMigrationApplied coll name s = (Inr applied, s1)"
    and r: "(if applied then run_each coll ReadFile exec dir names
     else case ReadFile (filepath_Join [dir, name]) of
         Inl e \<Rightarrow> raise (wrap ''read migration'' e)
       | Inr raw \<Rightarrow> bind_e (apply_migration exec name raw) (\<lambda>_. run_each coll ReadFile exec dir names)) s1 = (Inr (), s')"
    by (auto simp: bind_e_Inr)
  have s1: "mg_names s1 = mg_names s" "mg_db s1 = mg_db s" and
    applied: "applied \<longleftrightarrow> (\<exists>n \<in> set (mg_names s). coll n = coll name)"
    using a by (auto simp: isMigrationApplied_iff em_simps)
  show ?case
  proof (cases applied)
    case True
    with Cons.IH r applied s1 show ?thesis by simp
  next
    case False
    with r obtain raw u s2 where raw: "ReadFile (filepath_Join [dir, name]) = Inr raw"
      and m: "apply_migration exec name raw s1 = (Inr u, s2)" "run_each coll ReadFile exec dir names s2 = (Inr (), s')"
      by (auto simp: bind_e_Inr split: sum.splits)
    from apply_migration_Inr [OF m(1)] Cons.IH [OF m(2)] False applied s1 raw show ?thesis
      by (simp add: run_file_def)
  qed
qed simp

lemma run_each_done:
  "(\<And>f. f \<in> set names \<Longrightarrow> \<exists>n \<in> set (mg_names s). coll n = coll f) \<Longrightarrow>
     mg_names (snd (run_each coll ReadFile exec dir names s)) = mg_names s \<and>
     mg_db (snd (run_each coll ReadFile exec dir names s)) = mg_db s"
proof (induction names arbitrary: s)
  case (Cons name names)
  let ?s1 = "s\<lparr>mg_faults := tl (mg_faults s)\<rparr>"
  from Cons.IH [of ?s1] Cons.prems show ?case
    by (auto simp: bind_e_def isMigrationApplied_def mig_step_def map_err_def Let_def)
qed simp

lemma pending_covers: "f \<in> set fs \<Longrightarrow> \<exists>n \<in> set (names @ pending coll names fs). coll n = coll f"
  by (induction coll names fs rule: pending.induct) auto

text \<open>
  C20: a successful run of the migrations executes exactly the files that are not recorded yet,
  in the order of their names, and records each of them; every later run on the same
  directory, whatever fails in it, changes nothing.
\<close>

theorem migrations_once:
  assumes run: "RunMigrations coll ReadDir ReadFile exec dir s = (Inr (), s')" and dir: "ReadDir dir = Inr entries"
  shows "mg_names s' = mg_names s @ pending coll (mg_names s) (up_files entries) \<and>
    mg_db s' = fold (run_file ReadFile exec dir) (pending coll (mg_names s) (up_files entries)) (mg_db s) \<and>
    (\<forall>fs r s''. RunMigrations coll ReadDir ReadFile exec dir (s'\<lparr>mg_faults := fs\<rparr>) = (r, s'') \<longrightarrow>
       mg_names s'' = mg_names s' \<and> mg_db s'' = mg_db s')"
proof -
  define s1 where "s1 = s\<lparr>mg_faults := tl (mg_faults s)\<rparr>"
  have s1: "mg_names s1 = mg_names s" "mg_db s1 = mg_db s"
    "run_each coll ReadFile exec dir (up_files entries) s1 = (Inr (), s')"
    using run dir by (auto simp: s1_def RunMigrations_def ensureMigrationTable_def em_simps)
  note r = run_each_Inr [OF s1(3), unfolded s1(1,2)]
  have recd: "\<exists>n \<in> set (mg_names s'). coll n = coll f" if "f \<in> set (up_files entries)" for f
    using pending_covers [OF that, of "mg_names s" coll] r by simp
  have "mg_names s'' = mg_names s' \<and> mg_db s'' = mg_db s'"
    if "RunMigrations coll ReadDir ReadFile exec dir (s'\<lparr>mg_faults := fs\<rparr>) = (x, s'')" for fs x s''
  proof -
    let ?s1 = "s'\<lparr>mg_faults := tl fs\<rparr>"
    have "s'' = ?s1 \<or> s'' = snd (run_each coll ReadFile exec dir (up_files entries) ?s1)"
      using that dir by (auto simp: RunMigrations_def ensureMigrationTable_def bind_e_def map_err_def mig_step_def Let_def split: if_splits)
    with run_each_done [of "up_files entries" ?s1 coll ReadFile exec dir] recd show ?thesis by auto
  qed
  with r show ?thesis by blast
qed

theorem migrations_once_witness:
  "\<exists>s'. RunMigrations (map of_char) (\<lambda>_. Inr [(''0002.up.sql'', False), (''0001.up.sql'', False), (''0001.down.sql'', False)])
      Inr (\<lambda>raw db. (None, db @ [raw], True)) ''m'' \<lparr>mg_names = [], mg_db = [], mg_faults = []\<rparr> = (Inr (), s') \<and>
     mg_names s' = [''0001.up.sql'', ''0002.up.sql'']"
proof -
  let ?R = "RunMigrations (map of_char) (\<lambda>_. Inr [(''0002.up.sql'', False), (''0001.up.sql'', False), (''0001.down.sql'', False)])
      Inr (\<lambda>raw db. (None, db @ [raw], True)) ''m''"
  let ?s = "\<lparr>mg_names = [], mg_db = [], mg_faults = []\<rparr> :: string list mig_store"
  have f: "up_files [(''0002.up.sql'', False), (''0001.up.sql'', False), (''0001.down.sql'', False)] = [''0001.up.sql'', ''0002.up.sql'']"
    by (simp add: up_files_def suffix_def)
  have ok: "fst (?R ?s) = Inr ()"
    by (simp add: RunMigrations_def ensureMigrationTable_def f isMigrationApplied_def apply_migration_def bind_e_def handle_e_def
        map_err_def mig_step_def mig_modify_def Let_def)
  then have "?R ?s = (Inr (), snd (?R ?s))" by (metis prod.collapse)
  from migrations_once [OF this refl] this show ?thesis by (intro exI [of _ "snd (?R ?s)"]) (simp add: f)
qed

end
