(* ===== verification/App.thy ===== *)
theory App
  imports Store_Contract Database HTTP_Base
begin

text \<open>
  The life of the process, \<open>internal/app/app.go\<close> with the key file of
  \<open>internal/libp2p/node.go\<close>: start-up in its order of steps, the clean-up task of the ticker,
  shutdown. What the libraries answer (the libp2p host, the listener, the IPFS node, the file
  system) are arguments; \<open>db.Open\<close> and \<open>db.RunMigrations\<close> enter with their outcome.
\<close>

section \<open>The identity of the node\<close>

text \<open>
  The key file and the outcomes of the coming calls of the file system, all of which succeed
  after the last one listed. A write that fails may have left a beginning of the file.
\<close>

datatype disk_outcome = DiskOk | DiskFails "nat option"

record key_fs =
  kf_file :: "byte list option"
  kf_faults :: "disk_outcome list"

record 'k key_lib =
  kl_Unmarshal :: "byte list \<Rightarrow> err + 'k"
  kl_Marshal :: "'k \<Rightarrow> err + byte list"
  kl_Generate :: "err + 'k"

definition key_step :: "(key_fs, err, unit) em" where
  "key_step s =
     (case kf_faults s of
        DiskFails _ # fs \<Rightarrow> (Inl DriverErr, s\<lparr>kf_faults := fs\<rparr>)
      | fs \<Rightarrow> (Inr (), s\<lparr>kf_faults := tl fs\<rparr>))"

definition read_key :: "(key_fs, err, byte list) em" where
  "read_key = bind_e key_step (\<lambda>_ s. case kf_file s of None \<Rightarrow> (Inl DriverErr, s) | Some raw \<Rightarrow> (Inr raw, s))"

definition write_key :: "byte list \<Rightarrow> (key_fs, err, unit) em" where
  "write_key raw s =
     (case kf_faults s of
        DiskFails left # fs \<Rightarrow> (Inl DriverErr, s\<lparr>kf_faults := fs,
            kf_file := (case left of None \<Rightarrow> kf_file s | Some k \<Rightarrow> Some (take k raw))\<rparr>)
      | fs \<Rightarrow> (Inr (), s\<lparr>kf_faults := tl fs, kf_file := Some raw\<rparr>))"

definition from_result :: "(err \<Rightarrow> err) \<Rightarrow> err + 'a \<Rightarrow> ('s, err, 'a) em" where
  "from_result f x = (case x of Inl e \<Rightarrow> raise (f e) | Inr y \<Rightarrow> ret y)"

definition LoadOrCreateIdentity :: "'k key_lib \<Rightarrow> (key_fs, err, 'k) em" where
  "LoadOrCreateIdentity K =
     bind_e (map_err (wrap ''create node key dir'') key_step) (\<lambda>_.
     handle_e read_key
       (\<lambda>_. bind_e (from_result (wrap ''generate node key'') (kl_Generate K)) (\<lambda>privKey.
          bind_e (from_result (wrap ''marshal node key'') (kl_Marshal K privKey)) (\<lambda>raw.
          bind_e (map_err (wrap ''persist node key'') (write_key raw)) (\<lambda>_.
          ret privKey))))
       (\<lambda>raw. from_result (wrap ''unmarshal node key'') (kl_Unmarshal K raw)))"

section \<open>Start-up\<close>

datatype start_wait = Elapsed | ListenFailed err | CtxDone err

record start_lib =
  sl_MkdirAll :: "string \<Rightarrow> err option"
  sl_Open :: "err option"
  sl_RunMigrations :: "err option"
  sl_NewNode :: "err + string \<times> string list"
  sl_NewEmbeddedIPFS :: "err option"
  sl_marshalJSON :: "string list \<Rightarrow> string"
  sl_Decode :: "string \<Rightarrow> err + string"
  sl_sha256 :: "byte list \<Rightarrow> byte list"
  sl_ReadFile :: "string \<Rightarrow> err + byte list"
  sl_NodeStart :: "err option"
  sl_Wait :: start_wait

text \<open>The fields of \<open>App\<close> that are set, and the store behind them.\<close>

record app =
  ap_store :: store
  ap_db :: bool
  ap_node :: "string option"
  ap_ipfs :: bool
  ap_nodeID :: uint64
  ap_JWTSecret :: "byte list"
  ap_session :: bool
  ap_httpServer :: bool
  ap_handler :: bool
  ap_cleanup :: bool
  ap_ready :: bool

definition app_modify :: "(app \<Rightarrow> app) \<Rightarrow> (app, err, unit) em" where
  "app_modify f a = (Inr (), f a)"

definition in_app_store :: "(store, err, 'a) em \<Rightarrow> (app, err, 'a) em" where
  "in_app_store m = lift_e ap_store (\<lambda>s a. a\<lparr>ap_store := s\<rparr>) m"

definition check_err :: "(err \<Rightarrow> err) \<Rightarrow> err option \<Rightarrow> (app, err, unit) em" where
  "check_err f e = (case e of None \<Rightarrow> ret () | Some e \<Rightarrow> raise (f e))"

fun make_dirs :: "(string \<Rightarrow> err option) \<Rightarrow> string list \<Rightarrow> (app, err, unit) em" where
  "make_dirs mk [] = ret ()"
| "make_dirs mk (d # ds) = bind_e (check_err (wrap ''create dir'') (mk d)) (\<lambda>_. make_dirs mk ds)"

definition ensureDirs :: "start_lib \<Rightarrow> config \<Rightarrow> (app, err, unit) em" where
  "ensureDirs L cfg = make_dirs (sl_MkdirAll L)
     ([cf_BlobRoot cfg, cf_LogDir cfg, filepath_Dir (cf_NodeKeyPath cfg)] @
      (if ic_Enabled (cf_IPFS cfg) then [IPFSBaseDir cfg] else []))"

definition Start :: "collation \<Rightarrow> start_lib \<Rightarrow> config \<Rightarrow> (app, err, unit) em" where
  "Start coll L cfg =
     bind_e (ensureDirs L cfg) (\<lambda>_.
     bind_e (check_err id (sl_Open L)) (\<lambda>_.
     bind_e (app_modify (\<lambda>a. a\<lparr>ap_db := True\<rparr>)) (\<lambda>_.
     bind_e (check_err id (sl_RunMigrations L)) (\<lambda>_.
     bind_e (from_result id (sl_NewNode L)) (\<lambda>(peerID, publicAddrs).
     bind_e (app_modify (\<lambda>a. a\<lparr>ap_node := Some peerID\<rparr>)) (\<lambda>_.
     bind_e (if ic_Enabled (cf_IPFS cfg)
        then bind_e (check_err (wrap ''init embedded ipfs'') (sl_NewEmbeddedIPFS L)) (\<lambda>_.
          app_modify (\<lambda>a. a\<lparr>ap_ipfs := True\<rparr>))
        else ret ()) (\<lambda>_.
     bind_e (in_app_store (UpsertNode coll (sl_marshalJSON L)
        \<lparr>nr_ID = 0, nr_NodeID = [], nr_PeerID = peerID, nr_Name = cf_NodeName cfg, nr_PublicAddrs = publicAddrs,
         nr_Status = 1, nr_CreatedAt = 0, nr_UpdatedAt = 0\<rparr>)) (\<lambda>nodeRecord.
     bind_e (in_app_store (BootstrapDefaultAdmin coll (sl_Decode L) (cf_DefaultAdminPeerID cfg) (cf_DefaultSpaceID cfg))) (\<lambda>_.
     bind_e (from_result id (ResolveHTTPJWTSecret (sl_sha256 L) (sl_ReadFile L) cfg)) (\<lambda>jwtSecret.
     bind_e (app_modify (\<lambda>a. a\<lparr>ap_nodeID := nr_ID nodeRecord, ap_JWTSecret := jwtSecret, ap_session := True,
        ap_httpServer := True, ap_handler := True\<rparr>)) (\<lambda>_.
     bind_e (check_err id (sl_NodeStart L)) (\<lambda>_.
     bind_e (app_modify (\<lambda>a. a\<lparr>ap_cleanup := True\<rparr>)) (\<lambda>_.
     case sl_Wait L of
       Elapsed \<Rightarrow> app_modify (\<lambda>a. a\<lparr>ap_ready := True\<rparr>)
     | ListenFailed e \<Rightarrow> raise (wrap ''start http server'' e)
     | CtxDone e \<Rightarrow> raise e)))))))))))))"

section \<open>The clean-up task\<close>

text \<open>What the ticker of \<open>app.go\<close> does every minute. \<open>None\<close> would be a loop that never ends.\<close>

partial_function (option) cleanup_loop :: "store \<Rightarrow> store option" where
  "cleanup_loop s =
     (case svc_CleanupExpiredMessages s of
        (Inl e, s') \<Rightarrow> Some s'
      | (Inr deleted, s') \<Rightarrow> if deleted = 0 then Some s' else cleanup_loop s')"

section \<open>Shutdown\<close>

text \<open>The outcome of closing each part; \<open>cl_ConnDone\<close> tells that the error of the database is \<open>sql.ErrConnDone\<close>.\<close>

record close_lib =
  cl_http :: "err option"
  cl_ipfs :: "err option"
  cl_node :: "err option"
  cl_db :: "err option"
  cl_ConnDone :: bool
  cl_log :: "err option"

definition close_err :: "string \<Rightarrow> bool \<Rightarrow> err option \<Rightarrow> err list" where
  "close_err msg present res = (if present then (case res of None \<Rightarrow> [] | Some e \<Rightarrow> [wrap msg e]) else [])"

text \<open>The errors that \<open>errors.Join\<close> combines, the parts that were closed, and the application.\<close>

definition Shutdown :: "close_lib \<Rightarrow> app \<Rightarrow> err list \<times> string list \<times> app" where
  "Shutdown C a =
     (close_err ''shutdown http server'' (ap_httpServer a) (cl_http C) @
      close_err ''close embedded ipfs'' (ap_ipfs a) (cl_ipfs C) @
      close_err ''close libp2p node'' (ap_node a \<noteq> None) (cl_node C) @
      close_err ''close database'' (ap_db a \<and> \<not> cl_ConnDone C) (cl_db C) @
      close_err ''close logger'' True (cl_log C),
      (if ap_httpServer a then [''http''] else []) @ (if ap_ipfs a then [''ipfs''] else []) @
      (if ap_node a \<noteq> None then [''node''] else []) @ (if ap_db a then [''db''] else []) @ [''log''],
      a\<lparr>ap_ready := False\<rparr>)"

section \<open>The clean-up task ends and leaves nothing expired\<close>

lemma mark_expired_total:
  "faults s = [] \<Longrightarrow> \<exists>cs s'. mark_expired nw rows s = (Inr cs, s') \<and> faults s' = [] \<and> clock_ns s' = clock_ns s"
proof (induction rows arbitrary: s)
  case (Cons r rows)
  obtain i c where r: "r = (i, c)" by (cases r)
  obtain x s1 where s1: "sql_exec (mark_deleted nw i) s = (Inr x, s1)" "faults s1 = []" "clock_ns s1 = clock_ns s"
    using Cons.prems by (simp add: sql_exec_def mark_deleted_def Let_def tick_def)
  from Cons.IH [OF s1(2)] s1 show ?case by (auto simp: r bind_e_def tx_try_def map_err_def)
qed auto

lemma lower_counts_total:
  "faults s = [] \<Longrightarrow> \<exists>s'. lower_counts nw cs ks s = (Inr (), s') \<and> faults s' = [] \<and> clock_ns s' = clock_ns s"
proof (induction ks arbitrary: s)
  case (Cons k ks)
  let ?f = "lower_message_count k (of_nat (count_list cs k)) nw"
  have "sql_update ?f s = (Inr (), (tick s)\<lparr>tabs := ?f (tabs s)\<rparr>)" "faults ((tick s)\<lparr>tabs := ?f (tabs s)\<rparr>) = []"
    using Cons.prems by (simp_all add: sql_update_def sql_exec_def tick_def)
  with Cons.IH [OF this(2)] show ?case by (auto simp: bind_e_def tx_try_def map_err_def)
qed auto

lemma cleanup_tx_total:
  assumes "faults s = []"
  shows "\<exists>n s'. cleanup_tx nw lim s = (Inr n, s') \<and> faults s' = [] \<and> clock_ns s' = clock_ns s"
proof -
  let ?rows = "map (\<lambda>m. (ms_id m, ms_channel_id m)) (selected nw lim (tabs s))"
  have f: "faults (tick s) = []" using assms by (simp add: tick_def)
  obtain cs s1 where m: "mark_expired nw ?rows (tick s) = (Inr cs, s1)" "faults s1 = []" "clock_ns s1 = clock_ns s"
    using mark_expired_total [OF f, of nw ?rows] by auto
  obtain s2 where l: "lower_counts nw cs (remdups cs) s1 = (Inr (), s2)" "faults s2 = []" "clock_ns s2 = clock_ns s"
    using lower_counts_total [OF m(2), of nw cs "remdups cs"] m(3) by auto
  have c: "tx_commit g s' = (Inr (), tick s')" if "faults s' = []" for g s'
    using that by (simp add: tx_commit_def tx_try_def map_err_def sql_select_def)
  show ?thesis
    using m(1) l f assms
    by (auto simp: cleanup_tx_def bind_e_def tx_try_def map_err_def sql_select_def selected_def c; simp add: tick_def)
qed

lemma cleanup_total:
  assumes "faults s = []"
  obtains n s' where "svc_CleanupExpiredMessages s = (Inr n, s')" "faults s' = []" "clock_ns s' = clock_ns s"
proof -
  have f: "faults (tick s) = []" using assms by (simp add: tick_def)
  from cleanup_tx_total [OF f, of "now_ms s" 200] obtain n s' where
    "cleanup_tx (now_ms s) 200 (tick s) = (Inr n, s')" "faults s' = []" "clock_ns s' = clock_ns s" by auto
  then show ?thesis
    using assms by (intro that [of n s']) (simp_all add: svc_CleanupExpiredMessages_def CleanupExpiredMessages_def
        bind_e_def now_def with_tx_def)
qed

text \<open>A call that reports success, and how many normal messages are left.\<close>

definition normal_messages :: "tables \<Rightarrow> nat" where
  "normal_messages t = count_where (\<lambda>m. ms_status m = StatusNormal) (messages t)"

lemma cleanup_step:
  assumes ok: "messages_ok coll (tabs s)" and run: "svc_CleanupExpiredMessages s = (Inr n, s')"
  shows "tabs s' = cleaned (now_ms s) (selected (now_ms s) 200 (tabs s)) (tabs s)" "messages_ok coll (tabs s')"
    "n = 0 \<longleftrightarrow> selected (now_ms s) 200 (tabs s) = []"
    "n \<noteq> 0 \<Longrightarrow> normal_messages (tabs s') < normal_messages (tabs s)"
proof -
  let ?sel = "selected (now_ms s) 200 (tabs s)"
  have dist: "distinct (map ms_id (messages (tabs s)))" using ok ids_below_distinct by (auto simp: messages_ok_def)
  have c: "CleanupExpiredMessages (now_ms s) 200 s = (Inr n, s')"
    using run by (simp add: svc_CleanupExpiredMessages_def bind_e_def now_def)
  have "cleanup_tx (now_ms s) 200 (tick s) = (Inr n, s')"
    using c by (auto simp: CleanupExpiredMessages_def with_tx_Inr)
  from cleanup_tx_Inr [OF this] dist have n: "n = of_nat (length ?sel)" and t: "tabs s' = cleaned (now_ms s) ?sel (tabs s)"
    by simp_all
  show "tabs s' = cleaned (now_ms s) ?sel (tabs s)" by (rule t)
  show "messages_ok coll (tabs s')" using CleanupExpiredMessages_ok [OF ok c] .
  note sel = selected_props [OF dist, of "now_ms s" 200]
  have "length ?sel \<le> 200" using sel(4) by simp
  then have "unat (of_nat (length ?sel) :: uint32) = length ?sel" by (intro unat_of_nat_less) simp
  then show z: "n = 0 \<longleftrightarrow> ?sel = []" by (metis n length_0_conv unat_0 unat_eq_zero)
  assume "n \<noteq> 0"
  with z obtain m where m: "m \<in> set ?sel" by (cases ?sel) auto
  let ?p = "\<lambda>m. ms_status m = StatusNormal" and ?d = "\<lambda>m. ms_id m \<in> ms_id ` set ?sel"
  have "length (filter ?p (update_where ?d (deleted_row nw) ms)) + length (filter (\<lambda>m. ?p m \<and> ?d m) ms) = length (filter ?p ms)"
    for nw and ms by (induction ms) (auto simp: update_where_def deleted_row_def)
  from this [of "now_ms s" "messages (tabs s)"]
  have "normal_messages (tabs s') + length (filter (\<lambda>m. ?p m \<and> ?d m) (messages (tabs s))) = normal_messages (tabs s)"
    unfolding normal_messages_def count_where_def t cleaned_def by simp
  moreover have "m \<in> set (filter (\<lambda>m. ?p m \<and> ?d m) (messages (tabs s)))"
    using m sel(1,2) by (auto simp: expired_def)
  then have "0 < length (filter (\<lambda>m. ?p m \<and> ?d m) (messages (tabs s)))" by (rule length_pos_if_in_set)
  ultimately show "normal_messages (tabs s') < normal_messages (tabs s)" by linarith
qed

text \<open>What is not expired is not touched, and nothing else becomes expired.\<close>

lemma cleaned_rest:
  assumes "distinct (map ms_id (messages t))"
  shows "expired (cleaned nw (selected nw lim t) t) nw m \<longleftrightarrow> expired t nw m"
    "m \<in> set (messages t) \<Longrightarrow> \<not> expired t nw m \<Longrightarrow> m \<in> set (messages (cleaned nw (selected nw lim t) t))"
proof -
  show "expired (cleaned nw (selected nw lim t) t) nw m \<longleftrightarrow> expired t nw m"
    unfolding expired_def by (simp add: joins_cleaned lowered_def)
  assume m: "m \<in> set (messages t)" "\<not> expired t nw m"
  note sel = selected_props [OF assms, of nw lim]
  have inj: "inj_on ms_id (set (messages t))" using assms by (simp add: distinct_map)
  have "ms_id m \<notin> ms_id ` set (selected nw lim t)"
    using m sel(1,2) inj by (auto dest: inj_onD)
  with m(1) show "m \<in> set (messages (cleaned nw (selected nw lim t) t))"
    by (auto simp: cleaned_def set_update_where)
qed

text \<open>
  C18: the clean-up task comes to an end on every store, whatever fails, and keeps the message
  tables well-formed. When no statement fails it has deleted every expired message, however
  many batches that took, and it has left every other message as it was.
\<close>

theorem cleanup_loop_ends:
  assumes "messages_ok coll (tabs s)"
  shows "\<exists>s'. cleanup_loop s = Some s' \<and> messages_ok coll (tabs s') \<and>
    (faults s = [] \<longrightarrow> (\<forall>m \<in> set (messages (tabs s')). \<not> expired (tabs s') (now_ms s) m) \<and>
       (\<forall>m \<in> set (messages (tabs s)). \<not> expired (tabs s) (now_ms s) m \<longrightarrow> m \<in> set (messages (tabs s'))))"
  using assms
proof (induction "normal_messages (tabs s)" arbitrary: s rule: less_induct)
  case less
  obtain r s1 where run: "svc_CleanupExpiredMessages s = (r, s1)" by (cases "svc_CleanupExpiredMessages s")
  have dist: "distinct (map ms_id (messages (tabs s)))" using less.prems ids_below_distinct by (auto simp: messages_ok_def)
  show ?case
  proof (cases r)
    case (Inl e)
    have "CleanupExpiredMessages (now_ms s) 200 s = (r, s1)"
      using run by (simp add: svc_CleanupExpiredMessages_def bind_e_def now_def)
    from CleanupExpiredMessages_ok [OF less.prems this] have "messages_ok coll (tabs s1)" .
    moreover have "faults s \<noteq> []" using cleanup_total [of s] run Inl by auto
    ultimately show ?thesis using run Inl by (subst cleanup_loop.simps) simp
  next
    case (Inr n)
    note step = cleanup_step [OF less.prems run [unfolded Inr]]
    show ?thesis
    proof (cases "n = 0")
      case True
      have "length (selected (now_ms s) 200 (tabs s)) = 0" using True step(3) by simp
      then have "filter (expired (tabs s) (now_ms s)) (messages (tabs s)) = []"
        unfolding selected_def length_order_limit by (simp add: min_def split: if_splits)
      then have "\<not> expired (tabs s) (now_ms s) m" if "m \<in> set (messages (tabs s))" for m
        using that by (simp add: filter_empty_conv)
      moreover have "tabs s1 = tabs s" using step(1,3) True by (simp add: cleaned_def update_where_none)
      ultimately show ?thesis using run Inr True less.prems by (subst cleanup_loop.simps) simp
    next
      case False
      from less.hyps [OF step(4) [OF False] step(2)] obtain s2 where s2: "cleanup_loop s1 = Some s2"
        "messages_ok coll (tabs s2)"
        "faults s1 = [] \<longrightarrow> (\<forall>m \<in> set (messages (tabs s2)). \<not> expired (tabs s2) (now_ms s1) m) \<and>
           (\<forall>m \<in> set (messages (tabs s1)). \<not> expired (tabs s1) (now_ms s1) m \<longrightarrow> m \<in> set (messages (tabs s2)))" by blast
      have "cleanup_loop s = Some s2" using run Inr False s2(1) by (subst cleanup_loop.simps) simp
      moreover have "(\<forall>m \<in> set (messages (tabs s2)). \<not> expired (tabs s2) (now_ms s) m) \<and>
         (\<forall>m \<in> set (messages (tabs s)). \<not> expired (tabs s) (now_ms s) m \<longrightarrow> m \<in> set (messages (tabs s2)))"
        if "faults s = []"
      proof -
        have f: "faults s1 = []" "now_ms s1 = now_ms s" by (rule cleanup_total [OF that]; use run in \<open>simp add: now_ms_def\<close>)+
        have "m \<in> set (messages (tabs s1)) \<and> \<not> expired (tabs s1) (now_ms s) m"
          if "m \<in> set (messages (tabs s))" "\<not> expired (tabs s) (now_ms s) m" for m
          using cleaned_rest(2) [OF dist that, of 200] cleaned_rest(1) [OF dist, of "now_ms s" 200 m] that(2)
          unfolding step(1) by blast
        with s2(3) f show ?thesis by simp
      qed
      ultimately show ?thesis using s2(2) by blast
    qed
  qed
qed


theorem cleanup_loop_ends_witness:
  "\<exists>s'. cleanup_loop ex_store = Some s' \<and> (\<forall>m \<in> set (messages (tabs s')). \<not> expired (tabs s') (now_ms ex_store) m)"
  using cleanup_loop_ends [OF ex_messages_ok] by (auto simp: ex_store_def)

section \<open>The identity survives a restart\<close>

text \<open>
  The key that \<open>LoadOrCreateIdentity\<close> returns, whether it was loaded or created, is in the
  file, provided the key library reads back what it has written, and a key in the file is
  what it returns when the file can be read.
\<close>

lemma key_saved:
  assumes lib: "\<And>k raw. kl_Marshal K k = Inr raw \<Longrightarrow> kl_Unmarshal K raw = Inr k"
    and run: "LoadOrCreateIdentity K s = (Inr key, s')"
  shows "\<exists>raw. kf_file s' = Some raw \<and> kl_Unmarshal K raw = Inr key"
  using run lib
  by (auto simp: LoadOrCreateIdentity_def read_key_def write_key_def from_result_def bind_e_def handle_e_def map_err_def
      key_step_def Let_def split: sum.splits option.splits list.splits disk_outcome.splits prod.splits)

lemma key_loaded:
  assumes "kf_file s = Some raw" "kl_Unmarshal K raw = Inr key" "kf_faults s = []"
  shows "LoadOrCreateIdentity K s = (Inr key, s)"
  using assms by (auto simp: LoadOrCreateIdentity_def read_key_def from_result_def bind_e_def handle_e_def map_err_def key_step_def Let_def)

section \<open>Ready means started\<close>

lemma in_app_store_iff [em_simps]:
  "in_app_store m a = (r, a') \<longleftrightarrow> (\<exists>s'. m (ap_store a) = (r, s') \<and> a' = a\<lparr>ap_store := s'\<rparr>)"
  by (simp add: in_app_store_def lift_e_iff)

lemma app_modify_iff [em_simps]: "app_modify f a = (r, a') \<longleftrightarrow> r = Inr () \<and> a' = f a"
  by (auto simp: app_modify_def)

lemma check_err_Inr [em_simps]: "check_err f e a = (Inr x, a') \<longleftrightarrow> e = None \<and> a' = a"
  by (auto simp: check_err_def split: option.splits)

lemma from_result_Inr [em_simps]: "from_result f x a = (Inr y, a') \<longleftrightarrow> x = Inr y \<and> a' = a"
  by (auto simp: from_result_def split: sum.splits)

lemma make_dirs_Inr: "make_dirs mk ds a = (Inr x, a') \<Longrightarrow> a' = a \<and> (\<forall>d \<in> set ds. mk d = None)"
  by (induction ds) (auto simp: em_simps)

lemma app_steps_keep [keeps_intros]:
  "keeps P (check_err f e)" "keeps P (from_result f x)" "keeps P (make_dirs mk ds)" "keeps P (ensureDirs L cfg)"
proof -
  show c: "keeps P (check_err f e)" for f e unfolding check_err_def by (intro keeps_intros)
  show "keeps P (from_result f x)" unfolding from_result_def by (intro keeps_intros)
  show m: "keeps P (make_dirs mk ds)" for mk ds
    by (induction ds) (simp only: make_dirs.simps, intro keeps_intros c, assumption?)+
  show "keeps P (ensureDirs L cfg)" unfolding ensureDirs_def by (rule m)
qed

lemma keeps_app_modify [keeps_intros]: "(\<And>a. P a \<Longrightarrow> P (f a)) \<Longrightarrow> keeps P (app_modify f)"
  by (simp add: keeps_def app_modify_def)

lemma keeps_in_app_store:
  "keeps I m \<Longrightarrow> keeps (\<lambda>a. I (ap_store a)) (in_app_store m)" "(\<And>a s. P (a\<lparr>ap_store := s\<rparr>) = P a) \<Longrightarrow> keeps P (in_app_store n)"
  by (auto simp: keeps_def in_app_store_def lift_e_def split: prod.splits)

lemma keeps_wait [keeps_intros]:
  "keeps P m \<Longrightarrow> (\<And>e. keeps P (h e)) \<Longrightarrow> (\<And>e. keeps P (g e)) \<Longrightarrow>
     keeps P (case w of Elapsed \<Rightarrow> m | ListenFailed e \<Rightarrow> h e | CtxDone e \<Rightarrow> g e)"
  by (cases w) simp_all

text \<open>Start-up and the clean-up task are clients of the store.\<close>

context store_contract
begin

lemma start_up: "keeps (\<lambda>a. S (ap_store a)) (Start (be_coll env) L cfg)"
  unfolding Start_def by (intro keeps_intros keeps_in_app_store(1)) simp_all

lemma cleanup_task:
  assumes "cleanup_loop s = Some s'" "S s"
  shows "S s'"
proof -
  have "S s \<longrightarrow> S s'"
  proof (rule cleanup_loop.raw_induct [of "\<lambda>s s'. S s \<longrightarrow> S s'", OF _ assms(1)])
    fix f s s'
    assume "\<And>s s'. f s = Some s' \<Longrightarrow> S s \<longrightarrow> S s'"
      and "(case svc_CleanupExpiredMessages s of (Inl e, s') \<Rightarrow> Some s'
        | (Inr deleted, s') \<Rightarrow> if deleted = 0 then Some s' else f s') = Some s'"
    then show "S s \<longrightarrow> S s'"
      using keepsD [OF cleanup, of s] by (auto split: prod.splits sum.splits if_splits)
  qed
  with assms(2) show ?thesis by blast
qed

end

text \<open>
  The process reports ready exactly when it has started: when \<open>Start\<close> returns without an
  error, the database, the node, the sessions, the HTTP server and the clean-up task are
  there and the tables are well-formed; when it returns an error, the process is not ready.
\<close>

theorem start_ready:
  assumes run: "Start (be_coll env) L cfg a = (r, a')" and fresh: "\<not> ap_ready a" and ok: "store_ok env (ap_store a)"
  shows "store_ok env (ap_store a') \<and> (ap_ready a' \<longleftrightarrow> r = Inr ()) \<and>
    (r = Inr () \<longrightarrow> ap_db a' \<and> ap_node a' \<noteq> None \<and> ap_session a' \<and> ap_httpServer a' \<and> ap_handler a' \<and> ap_cleanup a' \<and>
       ResolveHTTPJWTSecret (sl_sha256 L) (sl_ReadFile L) cfg = Inr (ap_JWTSecret a') \<and>
       (ic_Enabled (cf_IPFS cfg) \<longrightarrow> ap_ipfs a'))"
proof -
  have "store_ok env (ap_store a')" using keepsD2 [OF well_formed.start_up run] ok .
  moreover have "\<not> ap_ready a'" if "r \<noteq> Inr ()"
  proof -
    have "triple (\<lambda>a. \<not> ap_ready a) (Start (be_coll env) L cfg) (\<lambda>_. ap_ready) (\<lambda>_ a. \<not> ap_ready a)"
      unfolding Start_def
      by (intro triple_bind [OF triple_keep] keeps_intros keeps_in_app_store(2) triple_intros)
        (simp_all add: triple_def app_modify_def split: start_wait.splits)
    then show ?thesis using run fresh that by (cases r) (auto simp: triple_def dest!: spec [of _ a])
  qed
  moreover have "ap_ready a' \<and> ap_db a' \<and> ap_node a' \<noteq> None \<and> ap_session a' \<and> ap_httpServer a' \<and> ap_handler a' \<and> ap_cleanup a' \<and>
       ResolveHTTPJWTSecret (sl_sha256 L) (sl_ReadFile L) cfg = Inr (ap_JWTSecret a') \<and>
       (ic_Enabled (cf_IPFS cfg) \<longrightarrow> ap_ipfs a')" if "r = Inr ()"
    using run that
    by (auto simp: Start_def ensureDirs_def em_simps split: start_wait.splits if_splits)
  ultimately show ?thesis by blast
qed

text \<open>The database after the migrations of a first start, with nothing on disk.\<close>

definition empty_store :: store where
  "empty_store = \<lparr>tabs = empty_tables, faults = [], clock_ns = 100000000000, entropy = [], files = [], open_txs = 0\<rparr>"

lemma empty_store_ok: "store_ok env empty_store"
  by (simp add: store_ok_def tables_ok_def empty_store_def empty_tables_def users_ok_def nonces_ok_def org_ok_def messages_ok_def
      media_ok_def direct_ok_def blob_files_ok_def ids_below_def spaces_ok_def channels_ok_def creators_only_def at_digest_def spaces_core_def counts_except_def space_keys_def one_owner_def)

definition ex_start :: start_lib where
  "ex_start = \<lparr>sl_MkdirAll = \<lambda>_. None, sl_Open = None, sl_RunMigrations = None, sl_NewNode = Inr (''n1'', []),
     sl_NewEmbeddedIPFS = None, sl_marshalJSON = \<lambda>_. ''[]'', sl_Decode = Inr, sl_sha256 = id, sl_ReadFile = \<lambda>_. Inr [1],
     sl_NodeStart = None, sl_Wait = Elapsed\<rparr>"

definition ex_app :: app where
  "ex_app = \<lparr>ap_store = empty_store, ap_db = False, ap_node = None, ap_ipfs = False, ap_nodeID = 0, ap_JWTSecret = [],
     ap_session = False, ap_httpServer = False, ap_handler = False, ap_cleanup = False, ap_ready = False\<rparr>"

theorem start_ready_witness:
  "\<exists>a. Start (be_coll ex_blob_env) ex_start defaults ex_app = (Inr (), a) \<and> ap_ready a \<and> ap_JWTSecret a = [1]"
proof -
  let ?run = "Start (be_coll ex_blob_env) ex_start defaults ex_app"
  have "fst ?run = Inr ()"
    by (simp add: Start_def ensureDirs_def check_err_def from_result_def ex_start_def ex_app_def app_modify_def in_app_store_def
        UpsertNode_def upsert_node_def BootstrapDefaultAdmin_def ResolveHTTPJWTSecret_def defaults_def empty_store_def empty_tables_def
        run_simps)
  then have run: "?run = (Inr (), snd ?run)" by (metis prod.collapse)
  have "\<not> ap_ready ex_app" "store_ok ex_blob_env (ap_store ex_app)" by (simp_all add: ex_app_def empty_store_ok)
  from start_ready [OF run this] run show ?thesis
    by (intro exI [of _ "snd ?run"]) (auto simp: ResolveHTTPJWTSecret_def ex_start_def defaults_def)
qed

end
