(* ===== verification/System.thy ===== *)
theory System
  imports HTTP_Properties Websocket App
begin

text \<open>
  The whole server: every request on a stream and over HTTP is a client of the store
  (\<open>store_contract\<close>), and the step relation \<open>sys_step\<close> interleaves streams, HTTP requests,
  websockets, the deliveries that are under way, the clean-up task, restarts, and whatever the
  clock, the random source and the failing statements do in between. Its reachable states
  satisfy the invariant of the system.
\<close>

section \<open>Requests are clients of the store\<close>

definition env_ok :: "'pk env \<Rightarrow> bool" where
  "env_ok E \<longleftrightarrow> blob_env_ok (en_blob E) \<and> ae_coll (en_auth E) = en_coll E"

text \<open>
  What a request keeps of the manager: a predicate of the store, the table of websocket
  subscribers, the recorded calls, and the well-formedness of the session tables.
\<close>

definition core_ok :: "(store \<Rightarrow> bool) \<Rightarrow> (uint32 \<Rightarrow> nat list) \<Rightarrow> (nat \<times> uint32 \<times> message_event) list \<Rightarrow> manager \<Rightarrow> bool" where
  "core_ok S R D M \<longleftrightarrow> S (mn_store M) \<and> mn_realtimeSubs M = R \<and> prefix D (mn_delivered M)"

definition sys_ok :: "(store \<Rightarrow> bool) \<Rightarrow> (uint32 \<Rightarrow> nat list) \<Rightarrow> (nat \<times> uint32 \<times> message_event) list \<Rightarrow> manager \<Rightarrow> bool" where
  "sys_ok S R D M \<longleftrightarrow> core_ok S R D M \<and> sessions_ok M"

lemma core_wire_free [simp, intro]: "wire_free (core_ok S R D)"
  by (simp add: wire_free_def core_ok_def)

lemma keeps_core_store: "keeps S m \<Longrightarrow> keeps (core_ok S R D) (in_store m)"
  by (auto simp: keeps_def core_ok_def in_store_def lift_e_def split: prod.splits)

lemma keeps_sys_store: "keeps S m \<Longrightarrow> keeps (sys_ok S R D) (in_store m)"
  using keeps_core_store [of S m R D] keeps_in_store [of sessions_ok m] by (simp add: keeps_def sys_ok_def)

lemma write_each_core [simp]: "core_ok S R D (write_each E' is ty b M) = core_ok S R D M"
  by (rule write_each_keeps) simp

lemma DeliverMessage_core: "core_ok S R D M \<Longrightarrow> core_ok S R D (DeliverMessage E' c m M)"
proof -
  assume "core_ok S R D M"
  then have "core_ok S R D (write_each E' js ty b M)" for js ty b by simp
  then show ?thesis by (simp add: DeliverMessage_def Let_def core_ok_def)
qed

lemma DeliverMessage_sys: "sys_ok S R D M \<Longrightarrow> sys_ok S R D (DeliverMessage E' c m M)"
  using DeliverMessage_core [of S R D M] DeliverMessage_keeps [of sessions_ok E' c m M]
  by (auto simp: sys_ok_def sessions_ok_def)

lemma table_updates_core [simp]:
  "core_ok S R D (set_session i f M) = core_ok S R D M" "core_ok S R D (SubscribeChannel i c M) = core_ok S R D M"
  "core_ok S R D (unsubscribe i c M) = core_ok S R D M" "core_ok S R D (registerDirectUserSession i M) = core_ok S R D M"
  "core_ok S R D (end_session i M) = core_ok S R D M"
  "core_ok S R D (deliverDirectMessageToUser E' u e M) = core_ok S R D M"
  "core_ok S R D (deliverDirectPeerAckToUser E' u a M) = core_ok S R D M"
  by (simp_all add: core_ok_def set_session_def SubscribeChannel_def unsubscribe_def registerDirectUserSession_def
      end_session_def unregisterSession_def deliverDirectMessageToUser_def deliverDirectPeerAckToUser_def Let_def
      write_each_core [unfolded core_ok_def] split: option.splits)

lemma keeps_case_at:
  "keeps P m \<Longrightarrow> (\<And>y. keeps P (k y)) \<Longrightarrow> keeps P (\<lambda>M. (case f M of None \<Rightarrow> m | Some y \<Rightarrow> k y) M)"
  by (simp add: keeps_def split: option.split)

lemma keeps_at: "(\<And>M. keeps P (f M)) \<Longrightarrow> keeps P (\<lambda>M. f M M)"
  by (simp add: keeps_def)

lemmas view_defs = spaceSummaryForViewer_def spaceSummariesForViewer_def effectiveAllowChannelCreation_def

lemmas api_defs =
  ListSpacesForAPI_def ListChannelsForAPI_def SyncChannelForAPI_def JoinSpaceForAPI_def ListSpaceMembersForAPI_def
  GetMediaForAPI_def CreateSpaceForAPI_def GetCreateSpacePermissionsForAPI_def GetCreateGroupPermissionsForAPI_def
  AdminSetSpaceMemberRoleForAPI_def AdminSetSpaceChannelCreationForAPI_def AdminSetGroupAutoDeleteForAPI_def
  InviteSpaceMemberForAPI_def KickSpaceMemberForAPI_def BanSpaceMemberForAPI_def UnbanSpaceMemberForAPI_def
  CreateGroupForAPI_def CreateChannelForAPI_def AckDeliveredForAPI_def UpdateReadForAPI_def SendMessageForAPI_def
  SaveUploadedBlob_def

lemma steps_keep [keeps_intros]:
  "keeps P (requireMethod m r)" "keeps P (path_id s msg)" "keeps P (read_json n dec r)" "keeps P http_now" "keeps P http_clock"
  "keeps P (decode_field s msg)" "keeps P (requireBearerJWT H r)" "keeps Q (SignHTTPAccessToken J sec u ttl)"
proof -
  show "keeps P (requireBearerJWT H r)" by (auto simp: keeps_def requireBearerJWT_eq split: option.splits)
  show "keeps Q (SignHTTPAccessToken J sec u ttl)" unfolding SignHTTPAccessToken_def Let_def by (intro keeps_intros)
qed (simp_all add: requireMethod_def path_id_def read_json_def keeps_def http_now_def http_clock_def decode_field_def split: option.splits sum.splits)

lemma status_handlers_keep: "(m, ps, h) \<in> set (status_routes H) \<Longrightarrow> keeps P (h v)"
  by (auto simp: status_routes_def Let_def keeps_def split: if_splits)

lemma ws_handlers_keep: "(m, ps, h) \<in> set (v1_ws_routes H r) \<Longrightarrow> keeps P (h v)"
  by (auto simp: v1_ws_routes_def keeps_def bind_e_def acceptWebSocket_eq split: if_splits option.splits)

lemma serve_blob_keeps: "keeps P (serve_blob H u)"
  by (auto simp: keeps_def serve_blob_def split: sum.splits blob_path_error.splits)

context store_contract
begin

lemma can_view_any [keeps_intros]: "keeps S (can_view_any u cs)"
  by (induction cs) (simp only: can_view_any.simps GetPermission_def, intro keeps_intros, assumption?)+

lemma gated_requests:
  assumes "env_ok E" "en_blob E = env"
  shows "keeps (core_ok S R D) (dispatch_authenticated E i u ev)"
proof -
  have env: "blob_env_ok env" using assms by (simp add: env_ok_def)
  show ?thesis
    supply keeps_in_store [keeps_intros del]
    unfolding dispatch_authenticated_def Let_def handler_defs view_defs lookup_defs SendMessageForAPI_def assms(2)
    by (intro keeps_intros keeps_core_store core_wire_free env) (simp_all add: DeliverMessage_core)
qed

lemma authentication:
  assumes "env_ok E" "en_blob E = env"
  shows "keeps (core_ok S R D) (handle_hello E i ev)" "keeps (core_ok S R D) (handle_auth_prove E i ev)"
proof -
  have a: "keeps S (IssueChallenge (en_auth E) cfg c n)" "keeps S (VerifyChallenge (en_auth E) cfg inp)" for cfg c n inp
    using assms by (simp_all add: env_ok_def auth)
  show "keeps (core_ok S R D) (handle_hello E i ev)"
    supply keeps_in_store [keeps_intros del]
    unfolding handle_hello_def by (intro keeps_intros keeps_core_store core_wire_free a) simp_all
  have auth: "keeps (core_ok S R D) (Authenticate E i prove)" for prove
  proof -
    have "keeps (core_ok S R D) (\<lambda>M. (if cs_issuedChallenge (mn_sessions M i) = None then raise (Errorf ''missing challenge'')
      else bind_e (in_store (VerifyChallenge (en_auth E) (en_cfg E) inp)) (\<lambda>result.
        modify (set_session i (\<lambda>s. s\<lparr>cs_authenticated := True, cs_authResult := Some result\<rparr>)))) M)" for inp
      supply keeps_in_store [keeps_intros del]
      by (rule keeps_at) (intro keeps_intros keeps_core_store a, simp)
    then show ?thesis by (simp add: Authenticate_def [abs_def] if_apply [symmetric])
  qed
  show "keeps (core_ok S R D) (handle_auth_prove E i ev)"
    supply keeps_in_store [keeps_intros del]
    unfolding handle_auth_prove_def Let_def view_defs lookup_defs
    by (intro keeps_bind keeps_UnmarshalBody auth keeps_case_at) (intro keeps_intros keeps_core_store core_wire_free; simp)+
qed

lemma requests:
  assumes "env_ok E" "en_blob E = env"
  shows "keeps (core_ok S R D) (dispatch E i ev)"
proof -
  have ping: "keeps (core_ok S R D) (handle_ping E i ev)" unfolding handle_ping_def by (intro keeps_intros core_wire_free)
  show ?thesis
    unfolding dispatch_def [abs_def]
    by (rule keeps_at) (intro keeps_intros ping authentication [OF assms] gated_requests [OF assms])
qed

lemma serving:
  assumes "env_ok E" "en_blob E = env" "sys_ok S R D M"
  shows "sys_ok S R D (serve E i ev M)"
  using keepsD [OF requests [OF assms(1,2)], of R D M i ev] keepsD [OF keeps_writeError, of "core_ok S R D"] assms(3) serve_ok [of M E i ev]
  by (auto simp: sys_ok_def serve_def split: prod.splits sum.splits)

lemma v1_handlers:
  assumes "env_ok (ht_env H)" "en_blob (ht_env H) = env" "(m, ps, h) \<in> set (v1_api_routes H r)"
  shows "keeps (sys_ok S R D) (h v)"
proof -
  have env: "blob_env_ok env" using assms by (simp add: env_ok_def)
  have "list_all (\<lambda>(m, ps, h). \<forall>v. keeps (sys_ok S R D) (h v)) (v1_api_routes H r)"
    supply keeps_in_store [keeps_intros del]
    unfolding v1_api_routes_def v1_rest_routes_def v1_handler_defs Let_def api_defs view_defs lookup_defs assms(2)
    by (simp only: list_all_append list.pred_inject list_all_iff [of _ "[]"] prod.case if_split simp_thms)
      (intro conjI allI impI keeps_intros keeps_sys_store uploads env; simp add: DeliverMessage_sys)
  with assms(3) show ?thesis by (auto simp: list_all_iff)
qed

lemma auth_handlers:
  assumes "env_ok (ht_env H)" "en_blob (ht_env H) = env" "(m, ps, h) \<in> set (v1_auth_routes H r)"
  shows "keeps (sys_ok S R D) (h v)"
proof -
  have a: "keeps S (IssueChallenge (en_auth (ht_env H)) cfg c n)" "keeps S (VerifyChallenge (en_auth (ht_env H)) cfg inp)"
    for cfg c n inp using assms by (simp_all add: env_ok_def auth)
  have "keeps (sys_ok S R D) (handleAuthChallenge H r)" "keeps (sys_ok S R D) (handleAuthVerify H r)"
    supply keeps_in_store [keeps_intros del]
    unfolding handleAuthChallenge_def handleAuthVerify_def Let_def by (intro keeps_intros keeps_sys_store a)+
  with assms(3) show ?thesis by (auto simp: v1_auth_routes_def split: if_splits)
qed

lemma http_requests:
  assumes "env_ok (ht_env H)" "en_blob (ht_env H) = env"
  shows "keeps (sys_ok S R D) (ServeHTTP H r)"
proof -
  have "keeps (sys_ok S R D) (h v)" if "(m, v, h) \<in> set (routes_at H r)" for m v h
  proof -
    from that obtain ps where "(m, ps, h) \<in> set (http_routes H r)" by (auto simp: routes_at_def List.map_filter_def)
    then show ?thesis
      using v1_handlers [OF assms] auth_handlers [OF assms] ws_handlers_keep status_handlers_keep by (auto simp: http_routes_def)
  qed
  then show ?thesis
    unfolding ServeHTTP_def Let_def
    by (intro keeps_intros serve_blob_keeps) (auto dest: find_SomeD)
qed

end

section \<open>Steps of the system\<close>

definition boot :: "store \<Rightarrow> ws_world" where
  "boot s = \<lparr>ww_mgr = \<lparr>mn_store = s, mn_sessions = \<lambda>_. new_session, mn_wires = \<lambda>_. \<lparr>wi_faults = [], wi_out = []\<rparr>,
       mn_subscriptions = \<lambda>_. [], mn_realtimeSubs = \<lambda>_. [], mn_directSessions = \<lambda>_. [], mn_delivered = []\<rparr>,
     ww_clients = \<lambda>_. None, ww_calls = [], ww_crashed = False\<rparr>"

text \<open>A new stream: a session whose address nobody holds, and an outgoing stream of its own.\<close>

definition unused :: "nat \<Rightarrow> manager \<Rightarrow> bool" where
  "unused i M \<longleftrightarrow> (\<forall>c. i \<notin> set (mn_subscriptions M c)) \<and> (\<forall>u. i \<notin> set (mn_directSessions M u))"

definition open_stream :: "nat \<Rightarrow> write_outcome list \<Rightarrow> manager \<Rightarrow> manager" where
  "open_stream i fs M =
     set_session i (\<lambda>_. new_session) (M\<lparr>mn_wires := (mn_wires M)(i := \<lparr>wi_faults = fs, wi_out = []\<rparr>)\<rparr>)"

definition set_store :: "store \<Rightarrow> ws_world \<Rightarrow> ws_world" where
  "set_store s w = w\<lparr>ww_mgr := (ww_mgr w)\<lparr>mn_store := s\<rparr>\<rparr>"

abbreviation ww_store :: "ws_world \<Rightarrow> store" where
  "ww_store w \<equiv> mn_store (ww_mgr w)"

inductive sys_step :: "'pk http_env \<Rightarrow> ws_world \<Rightarrow> ws_world \<Rightarrow> bool" for H where
  stream_open: "\<not> ww_crashed w \<Longrightarrow> unused i (ww_mgr w) \<Longrightarrow> sys_step H w (w\<lparr>ww_mgr := open_stream i fs (ww_mgr w)\<rparr>)"
| request: "\<not> ww_crashed w \<Longrightarrow> sys_step H w (manager_step StreamLoop (serve (ht_env H) i ev) w)"
| stream_end: "\<not> ww_crashed w \<Longrightarrow> sys_step H w (w\<lparr>ww_mgr := end_session i (ww_mgr w)\<rparr>)"
| http: "\<not> ww_crashed w \<Longrightarrow> rq_Path r \<noteq> [''v1'', ''ws''] \<Longrightarrow>
    sys_step H w (manager_step HTTPHandler (\<lambda>M. snd (ServeHTTP H r M)) w)"
| ws_upgrade: "\<not> ww_crashed w \<Longrightarrow> rq_Path r = [''v1'', ''ws''] \<Longrightarrow> ht_JWTSecret H \<noteq> [] \<Longrightarrow>
    method_matches (Some ''GET'') (rq_Method r) \<Longrightarrow> ww_clients w i = None \<Longrightarrow>
    sys_step H w (snd (handleV1WebSocket H r fs i w))"
| ws_read: "\<not> ww_crashed w \<Longrightarrow> ww_clients w i = Some c \<Longrightarrow> \<not> wc_closed c \<Longrightarrow> sys_step H w (readPump H i inp w)"
| ws_pump: "\<not> ww_crashed w \<Longrightarrow> ww_clients w i = Some c \<Longrightarrow> wc_pumping c \<Longrightarrow> sys_step H w (on_client i (writePump ping) w)"
| deliver: "\<not> ww_crashed w \<Longrightarrow> ww_calls w = xs @ (g, call # calls) # ys \<Longrightarrow>
    sys_step H w (realtime_call g call calls xs ys w)"
| tidy: "\<not> ww_crashed w \<Longrightarrow> cleanup_loop (ww_store w) = Some s \<Longrightarrow> sys_step H w (set_store s w)"
| outside: "\<not> ww_crashed w \<Longrightarrow> clock_ns (ww_store w) \<le> t \<Longrightarrow>
    sys_step H w (set_store ((ww_store w)\<lparr>clock_ns := t, faults := fl, entropy := en\<rparr>) w)"
| restart: "Start (en_coll (ht_env H)) L (en_cfg (ht_env H)) a = (Inr (), a') \<Longrightarrow> ap_store a = ww_store w \<Longrightarrow>
    sys_step H w (boot (ap_store a'))"

text \<open>The states that the server reaches from the first start on an empty database.\<close>

inductive sys_reachable :: "'pk http_env \<Rightarrow> ws_world \<Rightarrow> bool" for H where
  first_start: "tabs (ap_store a) = empty_tables \<Longrightarrow> files (ap_store a) = [] \<Longrightarrow>
    Start (en_coll (ht_env H)) L (en_cfg (ht_env H)) a = (Inr (), a') \<Longrightarrow> sys_reachable H (boot (ap_store a'))"
| step: "sys_reachable H w \<Longrightarrow> sys_step H w w' \<Longrightarrow> sys_reachable H w'"

section \<open>The invariant of the system\<close>

text \<open>
  The websocket part: a client is entered as a subscriber of exactly the channels in its own
  set, as long as its channel is not closed; its buffer never holds more than it can.
\<close>

definition client_ok :: "ws_client \<Rightarrow> bool" where
  "client_ok c \<longleftrightarrow> length (wc_send c) \<le> wsSendBuffer \<and> (wc_open c \<longleftrightarrow> \<not> wc_closed c)"

definition listens :: "ws_world \<Rightarrow> nat \<Rightarrow> uint32 \<Rightarrow> bool" where
  "listens w i ch \<longleftrightarrow> (\<exists>c. ww_clients w i = Some c \<and> \<not> wc_closed c \<and> ch \<in> set (wc_subs c))"

definition ws_ok :: "ws_world \<Rightarrow> bool" where
  "ws_ok w \<longleftrightarrow> (\<forall>ch i. i \<in> set (mn_realtimeSubs (ww_mgr w) ch) \<longleftrightarrow> listens w i ch) \<and>
     (\<forall>i c. ww_clients w i = Some c \<longrightarrow> client_ok c)"

definition sys_inv :: "'pk http_env \<Rightarrow> ws_world \<Rightarrow> bool" where
  "sys_inv H w \<longleftrightarrow> store_ok (en_blob (ht_env H)) (ww_store w) \<and> sessions_ok (ww_mgr w) \<and> ws_ok w"

lemma ws_ok_mgr: "mn_realtimeSubs M' = mn_realtimeSubs (ww_mgr w) \<Longrightarrow> ws_ok (w\<lparr>ww_mgr := M', ww_calls := cs\<rparr>) = ws_ok w"
  by (simp add: ws_ok_def listens_def)

lemma ws_ok_fields [simp]: "ws_ok (w\<lparr>ww_calls := cs\<rparr>) = ws_ok w" "ws_ok (w\<lparr>ww_crashed := b\<rparr>) = ws_ok w"
  by (simp_all add: ws_ok_def listens_def)

text \<open>A change of one client that keeps what others see of it.\<close>

lemma ws_ok_client:
  assumes "ws_ok w" "\<And>c. ww_clients w i = Some c \<Longrightarrow> client_ok c \<Longrightarrow>
    client_ok (f c) \<and> wc_subs (f c) = wc_subs c \<and> wc_closed (f c) = wc_closed c"
  shows "ws_ok (on_client i f w)"
proof -
  have "listens (on_client i f w) j ch = listens w j ch" for j ch
    using assms by (cases "ww_clients w i") (auto simp: listens_def ws_ok_def)
  moreover have "client_ok c" if "ww_clients (on_client i f w) j = Some c" for j c
    using that assms by (auto simp: ws_ok_def split: if_splits)
  ultimately show ?thesis using assms(1) by (simp add: ws_ok_def)
qed

lemma replies_ok [simp]:
  "client_ok (ws_writeJSONError m c) = client_ok c" "client_ok (ws_writeServer ty ch m c) = client_ok c"
  by (simp_all add: client_ok_def)

lemma ws_subscribe_ok:
  assumes "ws_ok w" "ww_clients w i = Some c" "\<not> wc_closed c"
  shows "ws_ok (ws_subscribe i c ch w)"
proof -
  obtain res M where m: "in_store (IsChannelMemberForWS (wc_user c) ch) (ww_mgr w) = (res, M)" by (cases "in_store (IsChannelMemberForWS (wc_user c) ch) (ww_mgr w)")
  have R: "mn_realtimeSubs M = mn_realtimeSubs (ww_mgr w)" using m by (auto simp: in_store_iff)
  have w1: "ws_ok (w\<lparr>ww_mgr := M\<rparr>)" using assms(1) R by (simp add: ws_ok_def listens_def)
  let ?w2 = "(on_client i (\<lambda>c. c\<lparr>wc_subs := wc_subs c @ [ch]\<rparr>) (w\<lparr>ww_mgr := M\<rparr>))\<lparr>ww_mgr := RegisterRealtimeSubscriber ch i M\<rparr>"
  have "ws_ok ?w2"
    using assms R by (auto simp: ws_ok_def listens_def RegisterRealtimeSubscriber_def client_ok_def)
  then show ?thesis
    using assms w1 m by (auto simp: ws_subscribe_def Let_def intro!: ws_ok_client split: sum.splits)
qed

lemma ws_unsubscribe_ok: "ws_ok w \<Longrightarrow> ws_ok (ws_unsubscribe i ch w)"
proof -
  assume w: "ws_ok w"
  let ?w1 = "(on_client i (\<lambda>c. c\<lparr>wc_subs := set_delete ch (wc_subs c)\<rparr>) w)\<lparr>ww_mgr := UnregisterRealtimeSubscriber ch i (ww_mgr w)\<rparr>"
  have "ws_ok ?w1" using w by (auto simp: ws_ok_def listens_def UnregisterRealtimeSubscriber_def client_ok_def split: if_splits)
  with w show ?thesis by (auto simp: ws_unsubscribe_def Let_def intro!: ws_ok_client)
qed

lemma readPump_exit_ok: "ws_ok w \<Longrightarrow> ws_ok (readPump_exit i w)"
  by (auto simp: readPump_exit_def ws_ok_def listens_def UnregisterRealtimeSubscriberAll_def client_ok_def split: if_splits)

lemma readPump_ok:
  "ws_ok w \<Longrightarrow> ww_clients w i = Some c \<Longrightarrow> \<not> wc_closed c \<Longrightarrow> ws_ok (readPump H i inp w)"
  by (auto simp: readPump_def Let_def readPump_exit_ok ws_subscribe_ok ws_unsubscribe_ok intro!: ws_ok_client
      split: option.splits sum.splits prod.splits)

lemma realtime_call_ok: "ws_ok w \<Longrightarrow> ws_ok (realtime_call g call calls xs ys w)"
  by (auto simp: realtime_call_def RealtimeDeliver_def ws_ok_def listens_def client_ok_def
      split: prod.splits option.splits if_splits goroutine.splits)

text \<open>What a step of a websocket does to the manager.\<close>

lemma realtime_tables [simp]:
  "sessions_ok M \<Longrightarrow> sessions_ok (RegisterRealtimeSubscriber ch i M)"
  "sessions_ok M \<Longrightarrow> sessions_ok (UnregisterRealtimeSubscriber ch i M)"
  "sessions_ok M \<Longrightarrow> sessions_ok (UnregisterRealtimeSubscriberAll i M)"
  "mn_store (RegisterRealtimeSubscriber ch i M) = mn_store M" "mn_store (UnregisterRealtimeSubscriber ch i M) = mn_store M"
  "mn_store (UnregisterRealtimeSubscriberAll i M) = mn_store M"
  by (simp_all add: sessions_ok_def RegisterRealtimeSubscriber_def UnregisterRealtimeSubscriber_def UnregisterRealtimeSubscriberAll_def)

lemma realtime_call_mgr [simp]: "ww_mgr (realtime_call g call calls xs ys w) = ww_mgr w"
  by (auto simp: realtime_call_def split: prod.splits option.splits goroutine.splits)

lemma handleV1WebSocket_mgr [simp]: "ww_mgr (snd (handleV1WebSocket H r fs i w)) = ww_mgr w"
  by (simp add: handleV1WebSocket_def acceptWebSocket_eq split: option.splits)

definition mgr_ok :: "(store \<Rightarrow> bool) \<Rightarrow> manager \<Rightarrow> bool" where
  "mgr_ok S M \<longleftrightarrow> S (mn_store M) \<and> sessions_ok M"

context store_contract
begin

lemma member_check: "mgr_ok S M \<Longrightarrow> in_store (IsChannelMemberForWS u ch) M = (r, M') \<Longrightarrow> mgr_ok S M'"
proof -
  have "keeps S (IsChannelMemberForWS u ch)" unfolding IsChannelMemberForWS_def IsUserMember_def by (intro keeps_intros)
  then show "mgr_ok S M \<Longrightarrow> in_store (IsChannelMemberForWS u ch) M = (r, M') \<Longrightarrow> mgr_ok S M'"
    by (auto simp: mgr_ok_def in_store_iff sessions_ok_def dest: keepsD2)
qed

lemma reading:
  assumes "mgr_ok S (ww_mgr w)"
  shows "mgr_ok S (ww_mgr (readPump H i inp w))"
proof -
  have "mgr_ok S (ww_mgr (ws_subscribe i c ch w))" for c ch
  proof -
    obtain r M where m: "in_store (IsChannelMemberForWS (wc_user c) ch) (ww_mgr w) = (r, M)"
      by (cases "in_store (IsChannelMemberForWS (wc_user c) ch) (ww_mgr w)")
    from member_check [OF assms m] have "mgr_ok S M" .
    with assms m show ?thesis by (auto simp: ws_subscribe_def Let_def mgr_ok_def split: sum.splits)
  qed
  moreover have "mgr_ok S (ww_mgr (ws_unsubscribe i ch w))" for ch
    using assms by (simp add: ws_unsubscribe_def Let_def mgr_ok_def)
  moreover have "mgr_ok S (ww_mgr (readPump_exit i w))" using assms by (simp add: readPump_exit_def mgr_ok_def)
  ultimately show ?thesis
    using assms by (auto simp: readPump_def Let_def split: option.splits sum.splits prod.splits)
qed

lemma managing:
  assumes "\<And>R D. sys_ok S R D (ww_mgr w) \<Longrightarrow> sys_ok S R D (f (ww_mgr w))" "mgr_ok S (ww_mgr w)"
  shows "mgr_ok S (ww_mgr (manager_step g f w))" "mn_realtimeSubs (ww_mgr (manager_step g f w)) = mn_realtimeSubs (ww_mgr w)"
  using assms(1) [of "mn_realtimeSubs (ww_mgr w)" "[]"] assms(2)
  by (simp_all add: sys_ok_def core_ok_def mgr_ok_def manager_step_def Let_def)

lemma stepping:
  assumes "env_ok (ht_env H)" "en_blob (ht_env H) = env" "mgr_ok S (ww_mgr w)" "sys_step H w w'"
  shows "mgr_ok S (ww_mgr w')"
  using assms(4)
proof cases
  case (stream_open i fs)
  with assms(3) show ?thesis
    by (auto simp: mgr_ok_def open_stream_def set_session_def sessions_ok_def unused_def new_session_def)
next
  case (request i ev)
  with managing(1) [of w "serve (ht_env H) i ev"] serving [OF assms(1,2)] assms(3) show ?thesis by simp
next
  case (stream_end i)
  with assms(3) show ?thesis
    by (simp add: mgr_ok_def end_session_ok) (simp add: end_session_def unregisterSession_def Let_def split: option.splits)
next
  case (http r)
  with managing(1) [of w "\<lambda>M. snd (ServeHTTP H r M)"] keepsD [OF http_requests [OF assms(1,2)]] assms(3) show ?thesis by simp
next
  case (tidy s)
  with assms(3) cleanup_task show ?thesis by (auto simp: mgr_ok_def set_store_def sessions_ok_def)
next
  case (outside t en fl)
  have "S ((ww_store w)\<lparr>clock_ns := t, faults := fl, entropy := en\<rparr>)"
    by (rule depends [of _ "ww_store w"]) (use assms(3) in \<open>simp_all add: mgr_ok_def\<close>)
  with outside assms(3) show ?thesis by (auto simp: mgr_ok_def set_store_def sessions_ok_def)
next
  case (restart L a a')
  with assms(2,3) keepsD2 [OF start_up, of L "en_cfg (ht_env H)" a "Inr ()" a'] show ?thesis
    by (auto simp: mgr_ok_def boot_def sessions_ok_def new_session_def)
qed (use assms(3) in \<open>auto simp: reading\<close>)

end

lemma ws_ok_step:
  assumes "env_ok (ht_env H)" "sys_inv H w" "sys_step H w w'"
  shows "ws_ok w'"
proof -
  have w: "ws_ok w" and m: "mgr_ok (store_ok (en_blob (ht_env H))) (ww_mgr w)" using assms(2) by (simp_all add: sys_inv_def mgr_ok_def)
  have ms: "ws_ok (manager_step g f w)"
    if "\<And>R D. sys_ok (store_ok (en_blob (ht_env H))) R D (ww_mgr w) \<Longrightarrow> sys_ok (store_ok (en_blob (ht_env H))) R D (f (ww_mgr w))" for f g
    using well_formed.managing(2) [of "en_blob (ht_env H)" w f] that m w ws_ok_mgr [of "f (ww_mgr w)" w] by (simp add: manager_step_def Let_def)
  from assms(3) show ?thesis
  proof cases
    case (stream_open i fs)
    with w show ?thesis by (simp add: ws_ok_def listens_def open_stream_def set_session_def)
  next
    case (request i ev)
    with ms [of "serve (ht_env H) i ev"] well_formed.serving [OF assms(1) refl] show ?thesis by simp
  next
    case (stream_end i)
    with w show ?thesis by (simp add: ws_ok_def listens_def end_session_def unregisterSession_def Let_def split: option.splits)
  next
    case (http r)
    with ms [of "\<lambda>M. snd (ServeHTTP H r M)"] keepsD [OF well_formed.http_requests [OF assms(1) refl]] show ?thesis by simp
  next
    case (ws_upgrade r i fs)
    with w show ?thesis
      by (auto simp: handleV1WebSocket_def acceptWebSocket_eq ws_ok_def listens_def new_client_def client_ok_def
          split: option.splits)
  next
    case (ws_pump i c ping)
    have "length (wc_send (writePump ping c)) \<le> wsSendBuffer" if "client_ok c" for c
      using that writePump_send [of ping c] by (simp add: client_ok_def)
    with ws_pump w show ?thesis by (auto simp: client_ok_def intro!: ws_ok_client)
  next
    case (ws_read i c inp)
    with w show ?thesis by (simp add: readPump_ok)
  next
    case (deliver xs g call calls ys)
    with w show ?thesis by (simp add: realtime_call_ok)
  qed (use w in \<open>simp_all add: set_store_def ws_ok_def listens_def boot_def\<close>)
qed

lemma reachable_inv:
  assumes "env_ok (ht_env H)" "sys_reachable H w"
  shows "sys_inv H w"
  using assms(2)
proof induction
  case (first_start a L a')
  have "store_ok (en_blob (ht_env H)) (ap_store a)"
    using first_start(1,2) well_formed.depends [of "ap_store a" empty_store] empty_store_ok by (simp add: empty_store_def)
  with keepsD2 [OF well_formed.start_up first_start(3)] have "store_ok (en_blob (ht_env H)) (ap_store a')" by blast
  then show ?case by (simp add: sys_inv_def boot_def sessions_ok_def new_session_def ws_ok_def listens_def)
next
  case (step w w')
  from step.IH have "mgr_ok (store_ok (en_blob (ht_env H))) (ww_mgr w)" by (simp add: sys_inv_def mgr_ok_def)
  from well_formed.stepping [OF assms(1) refl this step.hyps(2)] ws_ok_step [OF assms(1) step.IH step.hyps(2)]
  show ?case by (simp add: sys_inv_def mgr_ok_def)
qed

text \<open>
  C1: in every state the server can reach, from the first start on an empty database through
  any interleaving of streams, HTTP requests, websockets, deliveries, clean-ups, failing
  statements, failing writes to the file store that leave a part of the file, and restarts: the
  tables satisfy the invariants of the store, the file of every blob is there and holds content
  of the digest in its row or a beginning of such content,
  the tables of sessions are consistent, every websocket is entered as a subscriber of exactly
  the channels it is subscribed to, and its buffer is within its bound.
\<close>

theorem system_invariant:
  assumes "env_ok (ht_env H)" "sys_reachable H w"
  shows "store_ok (en_blob (ht_env H)) (ww_store w) \<and> sessions_ok (ww_mgr w) \<and>
    (\<forall>ch i. i \<in> set (mn_realtimeSubs (ww_mgr w) ch) \<longleftrightarrow> listens w i ch) \<and>
    (\<forall>i c. ww_clients w i = Some c \<longrightarrow> length (wc_send c) \<le> wsSendBuffer)"
  using reachable_inv [OF assms] by (auto simp: sys_inv_def ws_ok_def client_ok_def)

section \<open>The chat log\<close>

text \<open>
  The abstract specification of the channels: a log for each of them, whose entries are
  numbered from 1 without gaps, and which is only ever appended to.
\<close>

type_synonym chat = "uint32 \<Rightarrow> (uint64 \<times> string \<times> uint64 \<times> uint64 \<times> string \<times> message_type \<times> string option \<times> time_ms) list"

definition numbered :: "('a \<times> 'b \<times> uint64 \<times> 'c) list \<Rightarrow> bool" where
  "numbered es \<longleftrightarrow> map (\<lambda>(_, _, q, _). unat q) es = [1..<Suc (length es)]"

definition chat_step :: "uint32 set \<Rightarrow> chat \<Rightarrow> chat \<Rightarrow> bool" where
  "chat_step chs A A' \<longleftrightarrow> (\<forall>ch. \<exists>new. A' ch = A ch @ new) \<and> (\<forall>ch \<in> chs. numbered (A' ch))"

definition chat_of :: "ws_world \<Rightarrow> chat" where
  "chat_of w = log_of (tabs (ww_store w))"

lemma sequenced_numbered: "channel_sequenced t c \<Longrightarrow> numbered (log_of t (ch_id c))"
proof -
  assume "channel_sequenced t c"
  then have s: "map (unat \<circ> ms_seq) (channel_log t (ch_id c)) = [1..<Suc (unat (ch_message_seq c))]"
    by (simp add: channel_sequenced_def)
  have "length (channel_log t (ch_id c)) = unat (ch_message_seq c)" using arg_cong [OF s, of length] by simp
  with s show "numbered (log_of t (ch_id c))"
    by (simp add: numbered_def log_of_def log_entry_def comp_def)
qed

text \<open>
  C2: the server implements the append-only chat log. Whatever step it takes in a reachable
  state, including clean-ups and restarts, the log of each channel is the former log with
  entries appended (no message is ever lost, reordered, renumbered or rewritten; only its
  status may change), and the entries of every channel are numbered from 1 without gaps.
\<close>

theorem chat_refinement:
  assumes "env_ok (ht_env H)" "sys_reachable H w" "sys_step H w w'"
  shows "chat_step (ch_id ` set (channels (tabs (ww_store w')))) (chat_of w) (chat_of w')"
proof -
  let ?t = "tabs (ww_store w)" and ?t' = "tabs (ww_store w')" and ?S = "on_tabs (log_grown (chat_of w))"
  have "sys_reachable H w'" using assms(2,3) by (rule sys_reachable.step)
  then have "messages_ok (en_coll (ht_env H)) ?t'"
    using reachable_inv [OF assms(1)] by (auto simp: sys_inv_def store_ok_def tables_ok_def)
  then have "numbered (chat_of w' ch)" if "ch \<in> ch_id ` set (channels ?t')" for ch
    using that by (auto simp: messages_ok_def chat_of_def sequenced_numbered)
  moreover have "mgr_ok ?S (ww_mgr w)"
    using reachable_inv [OF assms(1,2)] by (simp add: mgr_ok_def sys_inv_def on_tabs_def log_grown_def chat_of_def)
  then have "mgr_ok ?S (ww_mgr w')" by (rule append_only.stepping [OF assms(1) refl _ assms(3)])
  then have "\<exists>new. chat_of w' ch = chat_of w ch @ new" for ch
    by (auto simp: mgr_ok_def on_tabs_def log_grown_def chat_of_def prefix_def)
  ultimately show ?thesis by (simp add: chat_step_def)
qed

section \<open>Websockets\<close>

lemma on_client_dom: "ww_clients (on_client j f w) i = None \<longleftrightarrow> ww_clients w i = None"
  by simp

lemma on_client_listens:
  "(\<And>c. wc_subs (f c) = wc_subs c \<and> wc_closed (f c) = wc_closed c) \<Longrightarrow> listens (on_client j f w) i ch = listens w i ch"
  by (cases "ww_clients w j") (auto simp: listens_def)

lemma readPump_dom: "ww_clients (readPump H j inp w) i = None \<longleftrightarrow> ww_clients w i = None"
  by (simp add: readPump_def readPump_exit_def ws_subscribe_def ws_unsubscribe_def Let_def on_client_dom
      del: on_client_simps(4) split: option.splits sum.splits prod.splits)

lemma IsChannelMember_row:
  "in_store (IsChannelMemberForWS u ch) M = (Inr True, M') \<Longrightarrow>
     \<exists>m \<in> set (channel_members (tabs (mn_store M))). is_channel_member (tabs (mn_store M)) ch u m"
  by (auto simp: in_store_iff IsChannelMemberForWS_def IsUserMember_def em_simps count_where_pos_iff)

lemma ws_subscribe_listens:
  assumes "ww_clients w j = Some c" "\<not> listens w i ch" "listens (ws_subscribe j c ch' w) i ch"
  shows "i = j \<and> (\<exists>m \<in> set (channel_members (tabs (ww_store w))). is_channel_member (tabs (ww_store w)) ch (wc_user c) m)"
proof -
  obtain res M where m: "in_store (IsChannelMemberForWS (wc_user c) ch') (ww_mgr w) = (res, M)"
    by (cases "in_store (IsChannelMemberForWS (wc_user c) ch') (ww_mgr w)")
  have "res = Inr True \<and> i = j \<and> ch = ch'"
    using assms m by (auto simp: ws_subscribe_def Let_def listens_def split: if_splits sum.splits)
  then show ?thesis using IsChannelMember_row [of "wc_user c" ch' "ww_mgr w" M] m by simp
qed

lemma readPump_listens:
  assumes "\<not> listens w i ch" "listens (readPump H j inp w) i ch"
  shows "\<exists>c m. ww_clients w i = Some c \<and> m \<in> set (channel_members (tabs (ww_store w))) \<and>
    is_channel_member (tabs (ww_store w)) ch (wc_user c) m"
proof (cases "ww_clients w j")
  case None
  with assms show ?thesis by (simp add: readPump_def)
next
  case (Some c)
  have quiet: "\<not> listens (on_client j (ws_writeJSONError msg) w) i ch" "\<not> listens (on_client j (ws_writeServer ty c' msg) w) i ch"
    for msg ty c' using assms(1) by (simp_all add: on_client_listens)
  have exit: "\<not> listens (readPump_exit j w) i ch" using assms(1) Some by (auto simp: readPump_exit_def listens_def split: if_splits)
  have unsub: "\<not> listens (ws_unsubscribe j ch' w) i ch" for ch'
    using assms(1) Some by (auto simp: ws_unsubscribe_def Let_def listens_def split: if_splits)
  from assms(2) obtain ch' where "listens (ws_subscribe j c ch' w) i ch"
    by (auto simp: readPump_def Some Let_def quiet exit unsub split: option.splits sum.splits prod.splits if_splits)
  from ws_subscribe_listens [OF Some assms(1) this] Some show ?thesis by blast
qed

text \<open>
  C15: a websocket is opened only by a request that itself carries a token valid at that moment,
  in its header or its query, and for the user of this token; a request that is refused opens
  none, and no other step of the server does. A websocket is entered for the messages of a
  channel only at a moment when its user is a member of the channel.
\<close>

theorem websocket_access:
  "(\<forall>r fs w'. handleV1WebSocket H r fs i w = (None, w') \<longrightarrow>
      (\<exists>claims. fst (claimsForWebSocket (ht_jwt H) (ht_JWTSecret H) r (ww_store w)) = Inr claims \<and>
         ww_clients w' = (ww_clients w)(i \<mapsto> new_client (tk_UserDBID claims) fs))) \<and>
   (\<forall>r fs reply w'. handleV1WebSocket H r fs i w = (Some reply, w') \<longrightarrow> ww_clients w' = ww_clients w) \<and>
   (\<forall>w'. sys_step H w w' \<longrightarrow>
      (ww_clients w i = None \<and> ww_clients w' i \<noteq> None \<longrightarrow>
         (\<exists>r fs. handleV1WebSocket H r fs i w = (None, w'))) \<and>
      (\<not> listens w i ch \<and> listens w' i ch \<longrightarrow>
         (\<exists>c m. ww_clients w i = Some c \<and> m \<in> set (channel_members (tabs (ww_store w))) \<and>
            is_channel_member (tabs (ww_store w)) ch (wc_user c) m)))"
proof -
  have "(ww_clients w i = None \<and> ww_clients w' i \<noteq> None \<longrightarrow> (\<exists>r fs. handleV1WebSocket H r fs i w = (None, w'))) \<and>
      (\<not> listens w i ch \<and> listens w' i ch \<longrightarrow>
         (\<exists>c m. ww_clients w i = Some c \<and> m \<in> set (channel_members (tabs (ww_store w))) \<and>
            is_channel_member (tabs (ww_store w)) ch (wc_user c) m))" if "sys_step H w w'" for w'
    using that
  proof cases
    case (ws_upgrade r j fs)
    obtain x w2 where x: "handleV1WebSocket H r fs j w = (x, w2)" by fastforce
    then have "x = None \<and> (\<exists>u. ww_clients w2 = (ww_clients w)(j \<mapsto> new_client u fs)) \<or> ww_clients w2 = ww_clients w"
      by (auto simp: handleV1WebSocket_def acceptWebSocket_eq split: option.splits if_splits)
    moreover have "w2 = w'" using ws_upgrade(1) x by simp
    ultimately show ?thesis
    proof (elim disjE conjE exE)
      fix u assume n: "x = None" "ww_clients w2 = (ww_clients w)(j \<mapsto> new_client u fs)" "w2 = w'"
      then have "listens w' i ch \<Longrightarrow> listens w i ch" by (auto simp: listens_def new_client_def split: if_splits)
      moreover have "ww_clients w i = None \<Longrightarrow> ww_clients w' i \<noteq> None \<Longrightarrow> i = j" using n(2,3) by (auto split: if_splits)
      ultimately show ?thesis using x n(1,3) by blast
    next
      assume "ww_clients w2 = ww_clients w" "w2 = w'"
      moreover from this have "listens w' i ch = listens w i ch" by (simp add: listens_def)
      ultimately show ?thesis by auto
    qed
  next
    case (ws_read j d inp)
    then show ?thesis using readPump_dom [of H j inp w i] readPump_listens [of w i ch H j inp] by auto
  next
    case (ws_pump j d ping)
    then show ?thesis by (auto simp: listens_def split: if_splits)
  next
    case (deliver xs g call calls ys)
    then show ?thesis
      by (auto simp: realtime_call_def RealtimeDeliver_def listens_def split: prod.splits option.splits if_splits goroutine.splits)
  qed (auto simp: listens_def manager_step_def Let_def set_store_def boot_def)
  moreover have "\<exists>claims. fst (claimsForWebSocket (ht_jwt H) (ht_JWTSecret H) r (ww_store w)) = Inr claims \<and>
         ww_clients w' = (ww_clients w)(i \<mapsto> new_client (tk_UserDBID claims) fs)"
    if "handleV1WebSocket H r fs i w = (None, w')" for r fs w'
    using that by (auto simp: handleV1WebSocket_def acceptWebSocket_eq ws_claims_def split: option.splits if_splits sum.splits)
  moreover have "ww_clients w' = ww_clients w" if "handleV1WebSocket H r fs i w = (Some reply, w')" for r fs reply w'
    using that by (auto simp: handleV1WebSocket_def acceptWebSocket_eq split: option.splits if_splits)
  ultimately show ?thesis by blast
qed

text \<open>
  C37: a delivery can crash the server. Once a \<open>DeliverMessage\<close> that runs for a request on a
  stream has copied a websocket as one of its targets, two more steps bring the process down:
  the client hangs up, so that \<open>readPump\<close> closes the channel \<open>send\<close> (but leaves the set of
  subscriptions), and the call of \<open>RealtimeDeliver\<close> sends on the closed channel. When it runs for
  an HTTP request, the panic is recovered, but the websockets that come after this one in the
  list are not called any more.
\<close>

theorem websocket_race:
  assumes "\<not> ww_crashed w" "listens w i ch" "ww_calls w = xs @ (g, (i, ch, event) # calls) # ys"
  shows "\<exists>w1 w2. sys_step H w w1 \<and> sys_step H w1 w2 \<and>
    (case g of StreamLoop \<Rightarrow> ww_crashed w2 | HTTPHandler \<Rightarrow> \<not> ww_crashed w2 \<and> ww_calls w2 = xs @ ys)"
proof -
  from assms(2) obtain c where c: "ww_clients w i = Some c" "\<not> wc_closed c" "ch \<in> set (wc_subs c)" by (auto simp: listens_def)
  let ?w1 = "readPump H i None w" let ?w2 = "realtime_call g (i, ch, event) calls xs ys ?w1"
  have w1: "?w1 = readPump_exit i w" by (simp add: readPump_def c)
  have "sys_step H w ?w1" using assms(1) c(1,2) by (rule ws_read)
  moreover have "sys_step H ?w1 ?w2"
    using assms(1,3) by (intro deliver) (simp_all add: w1 readPump_exit_def)
  moreover have "case g of StreamLoop \<Rightarrow> ww_crashed ?w2 | HTTPHandler \<Rightarrow> \<not> ww_crashed ?w2 \<and> ww_calls ?w2 = xs @ ys"
    using c assms(1) by (simp add: w1 readPump_exit_def realtime_call_def RealtimeDeliver_def on_client_def split: goroutine.split)
  ultimately show ?thesis by blast
qed

section \<open>Streams that have ended\<close>

lemma http_closed: "keeps (closed_stream i c) (ServeHTTP H r)"
proof -
  have "list_all (\<lambda>(m, ps, h). \<forall>v. keeps (closed_stream i c) (h v)) (v1_api_routes H r)"
    unfolding v1_api_routes_def v1_rest_routes_def v1_handler_defs Let_def SendMessageForAPI_def
    by (simp only: list_all_append list.pred_inject list_all_iff [of _ "[]"] prod.case if_split simp_thms)
      (intro conjI allI impI keeps_intros closed_store_free; simp add: closed_deliveries)
  moreover have "keeps (closed_stream i c) (handleAuthChallenge H r)" "keeps (closed_stream i c) (handleAuthVerify H r)"
    unfolding handleAuthChallenge_def handleAuthVerify_def Let_def by (intro keeps_intros closed_store_free)+
  ultimately have "keeps (closed_stream i c) (h v)" if "(m, ps, h) \<in> set (http_routes H r)" for m ps h v
    using that ws_handlers_keep [of m ps h H r] status_handlers_keep [of m ps h H]
    by (auto simp: http_routes_def v1_auth_routes_def list_all_iff split: if_splits)
  then have "keeps (closed_stream i c) (h v)" if "(m, v, h) \<in> set (routes_at H r)" for m v h
    using that by (auto simp: routes_at_def List.map_filter_def)
  then show ?thesis
    unfolding ServeHTTP_def Let_def by (intro keeps_intros serve_blob_keeps) (auto dest: find_SomeD)
qed

lemma closed_readPump: "closed_stream i c (ww_mgr w) \<Longrightarrow> closed_stream i c (ww_mgr (readPump H j inp w))"
  by (auto simp: readPump_def readPump_exit_def ws_subscribe_def ws_unsubscribe_def Let_def closed_stream_def in_store_def lift_e_def
      RegisterRealtimeSubscriber_def UnregisterRealtimeSubscriber_def UnregisterRealtimeSubscriberAll_def
      split: option.splits sum.splits prod.splits)

text \<open>The steps of the server up to a restart or a new stream in the place of the old one.\<close>

definition step_on :: "'pk http_env \<Rightarrow> nat \<Rightarrow> ws_world \<Rightarrow> ws_world \<Rightarrow> bool" where
  "step_on H i w w' \<longleftrightarrow> sys_step H w w' \<and> (\<forall>fs. w' \<noteq> w\<lparr>ww_mgr := open_stream i fs (ww_mgr w)\<rparr>) \<and> (\<forall>s. w' \<noteq> boot s)"

lemma closed_step:
  assumes "closed_stream i c (ww_mgr w)" "step_on H i w w'"
  shows "closed_stream i c (ww_mgr w')"
proof -
  from assms(2) have "sys_step H w w'" and new: "w' \<noteq> w\<lparr>ww_mgr := open_stream i fs (ww_mgr w)\<rparr>" "w' \<noteq> boot s" for fs s
    by (simp_all add: step_on_def)
  then show ?thesis
  proof cases
    case (stream_open j fs)
    with assms(1) new show ?thesis by (cases "j = i") (auto simp: closed_stream_def open_stream_def set_session_def)
  next
    case (request j ev)
    with assms(1) show ?thesis by (simp add: manager_step_def Let_def closed_serve)
  next
    case (stream_end j)
    with assms(1) show ?thesis
      by (cases "j = i") (auto simp: closed_stream_def end_session_def stream_Close_def unregisterSession_def Let_def split: option.splits)
  next
    case (http r)
    with assms(1) keepsD [OF http_closed] show ?thesis by (simp add: manager_step_def Let_def)
  next
    case (ws_read j d inp)
    with assms(1) show ?thesis by (simp add: closed_readPump)
  qed (use assms(1) new in \<open>auto simp: set_store_def closed_stream_def\<close>)
qed

text \<open>
  C31: when a stream ends, it is over. Its session is taken out of the subscribers of every
  channel and the stream is closed; from then on, whatever the server does (requests of others,
  messages to the channels it had subscribed, direct messages to its user, whoever still lists
  the session), nothing is written to it, until the process restarts or a new stream takes the
  place of the old one.
\<close>

theorem closed_stream_silent:
  assumes "env_ok (ht_env H)" "sys_reachable H w" "w1 = w\<lparr>ww_mgr := end_session i (ww_mgr w)\<rparr>" "(step_on H i)\<^sup>*\<^sup>* w1 w2"
  shows "(\<forall>ch. i \<notin> set (mn_subscriptions (ww_mgr w1) ch)) \<and>
    wi_out (mn_wires (ww_mgr w1) i) = wi_out (mn_wires (ww_mgr w) i) \<and> mn_wires (ww_mgr w2) i = mn_wires (ww_mgr w1) i"
proof -
  have ok: "sessions_ok (ww_mgr w)" using reachable_inv [OF assms(1,2)] by (simp add: sys_inv_def)
  let ?c = "mn_wires (ww_mgr w1) i"
  have "closed_stream i ?c (ww_mgr w1)" using end_session_closed [of i "ww_mgr w"] by (simp add: assms(3))
  with assms(4) have "closed_stream i ?c (ww_mgr w2)" by (induction rule: rtranclp_induct) (auto intro: closed_step)
  then have "mn_wires (ww_mgr w2) i = ?c" by (simp add: closed_stream_def)
  moreover have "wi_out ?c = wi_out (mn_wires (ww_mgr w) i)"
    by (simp add: assms(3) end_session_def stream_Close_def unregisterSession_def Let_def split: option.splits)
  ultimately show ?thesis using end_session_unsubscribed [OF ok] by (simp add: assms(3))
qed

section \<open>Instances\<close>

text \<open>A first start of the example server, and one websocket with a delivery under way.\<close>

lemma ex_started: "\<exists>a. Start (en_coll (ht_env ex_http)) ex_start (en_cfg (ht_env ex_http)) ex_app = (Inr (), a)"
proof -
  have "fst (Start (en_coll (ht_env ex_http)) ex_start (en_cfg (ht_env ex_http)) ex_app) = Inr ()"
    by (simp add: ex_http_def ex_env_def Start_def ensureDirs_def check_err_def from_result_def ex_start_def ex_app_def app_modify_def
        in_app_store_def UpsertNode_def upsert_node_def BootstrapDefaultAdmin_def ResolveHTTPJWTSecret_def defaults_def
        empty_store_def empty_tables_def run_simps)
  then show ?thesis by (metis prod.collapse)
qed

lemma ex_reachable: obtains w where "sys_reachable ex_http w" "\<not> ww_crashed w" "ww_clients w = (\<lambda>_. None)"
proof -
  obtain a where "Start (en_coll (ht_env ex_http)) ex_start (en_cfg (ht_env ex_http)) ex_app = (Inr (), a)" using ex_started by blast
  then have "sys_reachable ex_http (boot (ap_store a))" by (intro first_start) (simp_all add: ex_app_def empty_store_def)
  then show ?thesis by (rule that) (simp_all add: boot_def)
qed

lemma ex_env_ok: "env_ok (ht_env ex_http)"
  using ex_blob_env_ok by (simp add: env_ok_def ex_http_def ex_env_def ex_auth_def) (simp add: ex_blob_env_def)

theorem system_invariant_witness:
  "\<exists>w. sys_reachable ex_http w \<and> store_ok ex_blob_env (ww_store w) \<and> sessions_ok (ww_mgr w)"
proof -
  obtain w where "sys_reachable ex_http w" by (rule ex_reachable)
  with system_invariant [OF ex_env_ok this] show ?thesis by (auto simp: ex_http_def ex_env_def)
qed

theorem chat_refinement_witness:
  "\<exists>w w'. sys_reachable ex_http w \<and> sys_step ex_http w w' \<and>
     chat_step (ch_id ` set (channels (tabs (ww_store w')))) (chat_of w) (chat_of w')"
proof -
  obtain w where w: "sys_reachable ex_http w" "\<not> ww_crashed w" by (rule ex_reachable)
  have "sys_step ex_http w (manager_step StreamLoop (serve (ht_env ex_http) 1 (ex_envelope MsgType_HELLO)) w)" using w(2) by (rule request)
  with chat_refinement [OF ex_env_ok w(1) this] w(1) show ?thesis by blast
qed

definition ex_socket :: "message_event \<Rightarrow> ws_world" where
  "ex_socket event = (boot ex_store)\<lparr>ww_mgr := RegisterRealtimeSubscriber 1 5 (ww_mgr (boot ex_store)),
     ww_clients := (\<lambda>_. None)(5 \<mapsto> (new_client 1 [])\<lparr>wc_subs := [1]\<rparr>),
     ww_calls := [(StreamLoop, [(5, 1, event)])]\<rparr>"

theorem websocket_race_witness:
  "\<forall>event. \<exists>w1 w2. sys_step ex_http (ex_socket event) w1 \<and> sys_step ex_http w1 w2 \<and> ww_crashed w2"
proof
  fix event
  have "\<not> ww_crashed (ex_socket event)" "listens (ex_socket event) 5 1" "ww_calls (ex_socket event) = [] @ (StreamLoop, (5, 1, event) # []) # []"
    by (simp_all add: ex_socket_def boot_def listens_def new_client_def)
  from websocket_race [OF this, of ex_http]
  show "\<exists>w1 w2. sys_step ex_http (ex_socket event) w1 \<and> sys_step ex_http w1 w2 \<and> ww_crashed w2" by simp
qed

theorem closed_stream_silent_witness:
  "\<exists>w w1 w2. sys_reachable ex_http w \<and> w1 = w\<lparr>ww_mgr := end_session 1 (ww_mgr w)\<rparr> \<and> step_on ex_http 1 w1 w2 \<and>
     mn_wires (ww_mgr w2) 1 = mn_wires (ww_mgr w1) 1"
proof -
  obtain w where w: "sys_reachable ex_http w" "\<not> ww_crashed w" by (rule ex_reachable)
  let ?w1 = "w\<lparr>ww_mgr := end_session 1 (ww_mgr w)\<rparr>"
  let ?w2 = "set_store ((ww_store ?w1)\<lparr>clock_ns := clock_ns (ww_store ?w1) + 1, faults := [], entropy := []\<rparr>) ?w1"
  have "sys_step ex_http ?w1 ?w2" using w(2) by (intro outside) simp_all
  moreover have "?w2 \<noteq> ?w1\<lparr>ww_mgr := open_stream 1 fs (ww_mgr ?w1)\<rparr>" for fs
    by (auto simp: set_store_def open_stream_def set_session_def dest!: arg_cong [of _ _ "\<lambda>w. clock_ns (ww_store w)"])
  moreover have "?w2 \<noteq> boot s" for s
    by (auto simp: set_store_def boot_def end_session_def stream_Close_def Let_def
        dest!: arg_cong [of _ _ "\<lambda>w. wi_faults (mn_wires (ww_mgr w) 1)"])
  ultimately have step: "step_on ex_http 1 ?w1 ?w2" by (simp add: step_on_def)
  have "(step_on ex_http 1)\<^sup>*\<^sup>* ?w1 ?w2" using step by (rule r_into_rtranclp)
  from closed_stream_silent [OF ex_env_ok w(1) refl this] have
    "mn_wires (ww_mgr ?w2) 1 = mn_wires (ww_mgr ?w1) 1" by blast
  with w(1) step show ?thesis by blast
qed

theorem websocket_access_witness:
  "\<exists>w w'. sys_step ex_http w w' \<and> \<not> listens w 5 1 \<and> listens w' 5 1 \<and>
     (\<exists>m \<in> set (channel_members (tabs (ww_store w))). cm_user_id m = 1)"
proof -
  let ?w = "(boot ex_store)\<lparr>ww_clients := (\<lambda>_. None)(5 \<mapsto> new_client 1 [])\<rparr>"
  let ?w' = "readPump ex_http 5 (Some []) ?w"
  have s: "sys_step ex_http ?w ?w'" by (rule ws_read [of _ 5 "new_client 1 []"]) (simp_all add: boot_def new_client_def)
  have n: "\<not> listens ?w 5 1" by (simp add: listens_def new_client_def)
  have "ToLower_ascii (TrimSpace ''subscribe'') = ''subscribe''"
    by (simp add: TrimSpace_plain visible_def lower_def Let_def)
  then have l: "listens ?w' 5 1"
    by (simp add: readPump_def ex_http_def wsMaxMsgSize_def ws_subscribe_def in_store_def IsChannelMemberForWS_def IsUserMember_def
        is_channel_member_def listens_def new_client_def boot_def run_simps ex_defs)
  have "\<exists>c m. ww_clients ?w 5 = Some c \<and> m \<in> set (channel_members (tabs (ww_store ?w))) \<and>
      is_channel_member (tabs (ww_store ?w)) 1 (wc_user c) m"
    using websocket_access [of ex_http 5 ?w 1] s n l by blast
  then show ?thesis
    by (intro exI [of _ ?w] exI [of _ ?w'] conjI s n l) (auto simp: new_client_def is_channel_member_def)
qed

end
