(* ===== verification/IPFS_Pins.thy ===== *)
theory IPFS_Pins
  imports Prelude
begin

text \<open>
  The pin store of the embedded IPFS node, \<open>internal/ipfspin/pin.go\<close>: the set of pinned
  identifiers in memory, the file \<open>pins.json\<close> in which it is kept, and the temporary file
  that is renamed over it.

  Each call of the file system takes one entry of \<open>fs_faults\<close>: \<open>Some n\<close> is a failure, which
  of \<open>os.WriteFile\<close> leaves the first \<open>n\<close> bytes in the file. A process that is killed in the
  middle of an operation leaves the same files as one in which the next call fails. The
  encoding and decoding of the file are arguments.
\<close>

section \<open>State\<close>

record pin_file =
  pf_Recursive :: "string list"
  pf_Direct :: "string list"

record pin_codec =
  pc_MarshalIndent :: "pin_file \<Rightarrow> err + byte list"
  pc_Unmarshal :: "byte list \<Rightarrow> err + pin_file"

record pin_store =
  fs_data :: pin_file
  fs_path :: "byte list option"
  fs_tmp :: "byte list option"
  fs_faults :: "nat option list"

section \<open>Operations\<close>

definition fs_step :: "(pin_store, nat, unit) em" where
  "fs_step s =
     (let s1 = s\<lparr>fs_faults := tl (fs_faults s)\<rparr> in
      case fs_faults s of Some n # _ \<Rightarrow> (Inl n, s1) | _ \<Rightarrow> (Inr (), s1))"

definition write_tmp :: "byte list \<Rightarrow> (pin_store, err, unit) em" where
  "write_tmp b =
     handle_e fs_step
       (\<lambda>n s. (Inl DriverErr, s\<lparr>fs_tmp := Some (take n b)\<rparr>))
       (\<lambda>_ s. (Inr (), s\<lparr>fs_tmp := Some b\<rparr>))"

definition rename_tmp :: "(pin_store, err, unit) em" where
  "rename_tmp =
     handle_e fs_step (\<lambda>_. raise DriverErr)
       (\<lambda>_ s. (Inr (), s\<lparr>fs_path := fs_tmp s, fs_tmp := None\<rparr>))"

definition empty_pins :: pin_file where
  "empty_pins = \<lparr>pf_Recursive = [], pf_Direct = []\<rparr>"

text \<open>\<open>NewFileStore\<close> on the files another process has left.\<close>

definition NewFileStore :: "pin_codec \<Rightarrow> (pin_store, err, unit) em" where
  "NewFileStore C =
     bind_e (\<lambda>s. (Inr (), s\<lparr>fs_data := empty_pins\<rparr>)) (\<lambda>_.
     bind_e (map_err (\<lambda>_. DriverErr) fs_step) (\<lambda>_.
     bind_e (map_err (\<lambda>_. DriverErr) fs_step) (\<lambda>_ s.
       case fs_path s of
         None \<Rightarrow> (Inr (), s)
       | Some b \<Rightarrow>
           if length b = 0 then (Inr (), s)
           else case pc_Unmarshal C b of
               Inl e \<Rightarrow> (Inl (wrap ''parse pins file'' e), s)
             | Inr d \<Rightarrow> (Inr (), s\<lparr>fs_data := d\<rparr>))))"

definition persistLocked :: "pin_codec \<Rightarrow> (pin_store, err, unit) em" where
  "persistLocked C s =
     (case pc_MarshalIndent C (fs_data s) of
        Inl e \<Rightarrow> (Inl e, s)
      | Inr b \<Rightarrow> bind_e (write_tmp b) (\<lambda>_. rename_tmp) s)"

definition set_recursive :: "string list \<Rightarrow> pin_store \<Rightarrow> pin_store" where
  "set_recursive xs s = s\<lparr>fs_data := (fs_data s)\<lparr>pf_Recursive := xs\<rparr>\<rparr>"

definition PinRecursive :: "pin_codec \<Rightarrow> string \<Rightarrow> (pin_store, err, unit) em" where
  "PinRecursive C cs s =
     (if cs \<in> set (pf_Recursive (fs_data s)) then persistLocked C s
      else persistLocked C (set_recursive (pf_Recursive (fs_data s) @ [cs]) s))"

definition UnpinRecursive :: "pin_codec \<Rightarrow> string \<Rightarrow> (pin_store, err, unit) em" where
  "UnpinRecursive C cs s =
     persistLocked C (set_recursive (filter (\<lambda>x. x \<noteq> cs) (pf_Recursive (fs_data s))) s)"

definition IsPinnedRecursive :: "string \<Rightarrow> pin_store \<Rightarrow> bool" where
  "IsPinnedRecursive cs s \<longleftrightarrow> cs \<in> set (pf_Recursive (fs_data s))"

section \<open>Interface\<close>

text \<open>
  What the node relies on: a set of identifiers with the two changes, which take effect in
  memory whether or not they are reported as failed.
\<close>

locale pin_set =
  fixes pins :: "'s \<Rightarrow> string set"
    and add :: "string \<Rightarrow> ('s, err, unit) em"
    and del :: "string \<Rightarrow> ('s, err, unit) em"
    and mem :: "string \<Rightarrow> 's \<Rightarrow> bool"
  assumes pins_add: "pins (snd (add c s)) = insert c (pins s)"
    and pins_del: "pins (snd (del c s)) = pins s - {c}"
    and mem_iff: "mem c s \<longleftrightarrow> c \<in> pins s"
begin

lemma add_mem: "mem d (snd (add c s)) \<longleftrightarrow> d = c \<or> mem d s"
  by (simp add: mem_iff pins_add)

lemma del_mem: "mem d (snd (del c s)) \<longleftrightarrow> d \<noteq> c \<and> mem d s"
  by (auto simp: mem_iff pins_del)

text \<open>After a sequence of changes an identifier is pinned as the last change of it says.\<close>

lemma last_change:
  "mem c (fold (\<lambda>(on, d) s. snd ((if on then add d else del d) s)) ops s) =
     (case find (\<lambda>(on, d). d = c) (rev ops) of None \<Rightarrow> mem c s | Some (on, _) \<Rightarrow> on)"
proof (induction ops rule: rev_induct)
  case (snoc op ops)
  then show ?case by (cases op) (auto simp: add_mem del_mem)
qed simp

end

lemma fs_step_simps [simp]:
  "fs_data (snd (fs_step s)) = fs_data s" "fs_path (snd (fs_step s)) = fs_path s"
  "fs_tmp (snd (fs_step s)) = fs_tmp s"
  by (simp_all add: fs_step_def Let_def split: list.split option.split)

lemma persist_data [simp]: "fs_data (snd (persistLocked C s)) = fs_data s"
proof -
  have d: "fs_data s' = fs_data s" if "fs_step s = (r, s')" for r s s' using fs_step_simps(1) [of s] that by simp
  show ?thesis
    by (auto simp: persistLocked_def write_tmp_def rename_tmp_def handle_e_def bind_e_def split: sum.splits prod.splits dest!: d)
qed

lemma set_recursive_data [simp]: "pf_Recursive (fs_data (set_recursive xs s)) = xs" "pf_Direct (fs_data (set_recursive xs s)) = pf_Direct (fs_data s)"
  "fs_path (set_recursive xs s) = fs_path s"
  by (simp_all add: set_recursive_def)

interpretation file_pins: pin_set "\<lambda>s. set (pf_Recursive (fs_data s))" "PinRecursive C" "UnpinRecursive C" IsPinnedRecursive
  for C
  by unfold_locales (auto simp: PinRecursive_def UnpinRecursive_def IsPinnedRecursive_def)

section \<open>The file\<close>

text \<open>What the text encoding promises, for the texts it can carry (valid UTF-8).\<close>

definition pin_texts :: "(string \<Rightarrow> bool) \<Rightarrow> pin_file \<Rightarrow> bool" where
  "pin_texts V d \<longleftrightarrow> list_all V (pf_Recursive d) \<and> list_all V (pf_Direct d)"

definition pin_codec_ok :: "(string \<Rightarrow> bool) \<Rightarrow> pin_codec \<Rightarrow> bool" where
  "pin_codec_ok V C \<longleftrightarrow>
     (\<forall>d b. pin_texts V d \<and> pc_MarshalIndent C d = Inr b \<longrightarrow> b \<noteq> [] \<and> pc_Unmarshal C b = Inr d) \<and>
     (\<forall>b d. pc_Unmarshal C b = Inr d \<longrightarrow> pin_texts V d)"

text \<open>The pins a restart finds in the file.\<close>

definition file_pins :: "pin_codec \<Rightarrow> pin_store \<Rightarrow> err + pin_file" where
  "file_pins C s = (case fs_path s of None \<Rightarrow> Inr empty_pins | Some b \<Rightarrow> if b = [] then Inr empty_pins else pc_Unmarshal C b)"

lemma restart_file_pins:
  "NewFileStore C (s\<lparr>fs_faults := []\<rparr>) =
     (case file_pins C s of
        Inl e \<Rightarrow> (Inl (wrap ''parse pins file'' e), s\<lparr>fs_faults := [], fs_data := empty_pins\<rparr>)
      | Inr d \<Rightarrow> (Inr (), s\<lparr>fs_faults := [], fs_data := d\<rparr>))"
  by (auto simp: NewFileStore_def file_pins_def fs_step_def bind_e_def map_err_def Let_def split: option.splits sum.splits)

lemma persist_file:
  assumes "pin_codec_ok V C" "pin_texts V (fs_data s)" "persistLocked C s = (r, s')"
  shows "if r = Inr () then file_pins C s' = Inr (fs_data s) else fs_path s' = fs_path s"
proof (cases "pc_MarshalIndent C (fs_data s)")
  case (Inl e)
  with assms(3) show ?thesis by (auto simp: persistLocked_def)
next
  case (Inr b)
  obtain r1 s1 where 1: "fs_step s = (r1, s1)" by fastforce
  let ?s1 = "s1\<lparr>fs_tmp := Some b\<rparr>"
  obtain r2 s2 where 2: "fs_step ?s1 = (r2, s2)" by fastforce
  have b: "b \<noteq> []" "pc_Unmarshal C b = Inr (fs_data s)" using assms(1,2) Inr unfolding pin_codec_ok_def by blast+
  have keep: "fs_path s1 = fs_path s" "fs_path s2 = fs_path s1" "fs_tmp s2 = Some b"
    using fs_step_simps [of s] fs_step_simps [of ?s1] 1 2 by simp_all
  show ?thesis
  proof (cases r1)
    case (Inl n)
    with assms(3) 1 Inr keep show ?thesis by (auto simp: persistLocked_def write_tmp_def handle_e_def bind_e_def)
  next
    case (Inr u)
    with assms(3) 1 \<open>pc_MarshalIndent C (fs_data s) = Inr b\<close> have "rename_tmp ?s1 = (r, s')"
      by (simp add: persistLocked_def write_tmp_def handle_e_def bind_e_def)
    with 2 b keep show ?thesis
      by (cases r2) (auto simp: rename_tmp_def handle_e_def file_pins_def)
  qed
qed

section \<open>Durability\<close>

datatype pin_op = PinOp string | UnpinOp string

fun pin_do :: "pin_codec \<Rightarrow> pin_op \<Rightarrow> (pin_store, err, unit) em" where
  "pin_do C (PinOp c) = PinRecursive C c"
| "pin_do C (UnpinOp c) = UnpinRecursive C c"

fun pin_text :: "pin_op \<Rightarrow> string" where
  "pin_text (PinOp c) = c"
| "pin_text (UnpinOp c) = c"

text \<open>A run of the pin store, and the contents it has had when a change was last reported done.\<close>

fun pin_run :: "pin_codec \<Rightarrow> pin_op list \<Rightarrow> pin_store \<Rightarrow> pin_store" where
  "pin_run C [] s = s"
| "pin_run C (op # ops) s = pin_run C ops (snd (pin_do C op s))"

fun last_saved :: "pin_codec \<Rightarrow> pin_op list \<Rightarrow> pin_store \<Rightarrow> pin_file \<Rightarrow> pin_file" where
  "last_saved C [] s d = d"
| "last_saved C (op # ops) s d =
     (case pin_do C op s of (r, s') \<Rightarrow> last_saved C ops s' (if r = Inr () then fs_data s' else d))"

lemma pin_do_file:
  assumes "pin_codec_ok V C" "pin_texts V (fs_data s)" "V (pin_text op)" "pin_do C op s = (r, s')"
  shows "pin_texts V (fs_data s')" "if r = Inr () then file_pins C s' = Inr (fs_data s') else fs_path s' = fs_path s"
proof -
  obtain t where t: "persistLocked C t = (r, s')" "pin_texts V (fs_data t)" "fs_path t = fs_path s"
    using assms(2-4)
    by (cases op) (auto simp: PinRecursive_def UnpinRecursive_def pin_texts_def list_all_iff split: if_splits)
  have d: "fs_data s' = fs_data t" using persist_data [of C t] t(1) by simp
  with t(2) show "pin_texts V (fs_data s')" by simp
  from persist_file [OF assms(1) t(2,1)] d t(3)
  show "if r = Inr () then file_pins C s' = Inr (fs_data s') else fs_path s' = fs_path s" by simp
qed

lemma pin_run_file:
  assumes C: "pin_codec_ok V C"
  shows "pin_texts V (fs_data s) \<Longrightarrow> list_all (\<lambda>op. V (pin_text op)) ops \<Longrightarrow> file_pins C s = Inr d \<Longrightarrow>
    file_pins C (pin_run C ops s) = Inr (last_saved C ops s d)"
proof (induction ops arbitrary: s d)
  case (Cons op ops)
  obtain r s' where st: "pin_do C op s = (r, s')" by fastforce
  have V: "V (pin_text op)" using Cons.prems(2) by simp
  note f = pin_do_file [OF C Cons.prems(1) V st]
  have "file_pins C s' = Inr (if r = Inr () then fs_data s' else d)"
    using f(2) Cons.prems(3) by (auto simp: file_pins_def split: if_splits)
  with Cons.IH f(1) Cons.prems(2) st show ?case by simp
qed simp

text \<open>
  C34: pins survive a crash. After any sequence of changes of the pin store, whichever calls of
  the file system fail in it and wherever it is cut off, a restart succeeds and finds exactly
  the pins that were there when a change was last reported as done: a torn write never
  reaches the file, and no reported change is lost.
\<close>

theorem pins_durable:
  assumes "pin_codec_ok V C" "pin_texts V (fs_data s)" "list_all (\<lambda>op. V (pin_text op)) ops"
    and "file_pins C s = Inr d"
  shows "\<exists>s'. NewFileStore C ((pin_run C ops s)\<lparr>fs_faults := []\<rparr>) = (Inr (), s') \<and>
    fs_data s' = last_saved C ops s d"
  using pin_run_file [OF assms] by (simp add: restart_file_pins)

text \<open>An encoding of two sets of pins, and a run in which the second write is torn.\<close>

definition ex_pin_file :: "string list \<Rightarrow> pin_file" where
  "ex_pin_file xs = \<lparr>pf_Recursive = xs, pf_Direct = []\<rparr>"

definition ex_codec :: pin_codec where
  "ex_codec = \<lparr>
     pc_MarshalIndent = \<lambda>d. if d = ex_pin_file [''a''] then Inr [1, 1] else if d = ex_pin_file [''a'', ''b''] then Inr [2, 2] else Inl DriverErr,
     pc_Unmarshal = \<lambda>b. if b = [1, 1] then Inr (ex_pin_file [''a'']) else if b = [2, 2] then Inr (ex_pin_file [''a'', ''b'']) else Inl DriverErr\<rparr>"

definition ex_pins :: pin_store where
  "ex_pins = \<lparr>fs_data = empty_pins, fs_path = None, fs_tmp = None, fs_faults = [None, None, Some 1]\<rparr>"

lemma ex_codec_ok: "pin_codec_ok (\<lambda>_. True) ex_codec"
  by (auto simp: pin_codec_ok_def ex_codec_def pin_texts_def list_all_iff ex_pin_file_def split: if_splits)

theorem pins_durable_witness:
  "\<exists>s'. NewFileStore ex_codec ((pin_run ex_codec [PinOp ''a'', PinOp ''b''] ex_pins)\<lparr>fs_faults := []\<rparr>) = (Inr (), s') \<and>
     IsPinnedRecursive ''a'' s' \<and> \<not> IsPinnedRecursive ''b'' s' \<and>
     fs_tmp (pin_run ex_codec [PinOp ''a'', PinOp ''b''] ex_pins) = Some [2]"
proof -
  have run: "last_saved ex_codec [PinOp ''a'', PinOp ''b''] ex_pins empty_pins = ex_pin_file [''a'']"
    "fs_tmp (pin_run ex_codec [PinOp ''a'', PinOp ''b''] ex_pins) = Some [2]"
    by (simp_all add: PinRecursive_def persistLocked_def write_tmp_def rename_tmp_def handle_e_def bind_e_def fs_step_def
        set_recursive_def ex_pins_def ex_codec_def ex_pin_file_def empty_pins_def)
  have "\<exists>s'. NewFileStore ex_codec ((pin_run ex_codec [PinOp ''a'', PinOp ''b''] ex_pins)\<lparr>fs_faults := []\<rparr>) = (Inr (), s') \<and>
      fs_data s' = last_saved ex_codec [PinOp ''a'', PinOp ''b''] ex_pins empty_pins"
    by (rule pins_durable [OF ex_codec_ok]) (simp_all add: pin_texts_def list_all_iff file_pins_def ex_pins_def)
  with run show ?thesis by (auto simp: IsPinnedRecursive_def ex_pin_file_def)
qed

end
