(* ===== verification/IPFS_Node.thy ===== *)
theory IPFS_Node
  imports HTTP_API IPFS_Pins
begin

text \<open>
  The embedded IPFS node: \<open>internal/ipfsnode\<close>, \<open>internal/ipfsunixfs\<close>, \<open>internal/ipfsstore\<close>,
  \<open>internal/ipfsgateway\<close> and its HTTP routes \<open>internal/api/ipfs_http.go\<close>.

  The block store with the DAG service, the importer and the reader of UnixFS, the identifiers
  and the read-only gateway are code of the IPFS libraries: the fields of \<open>ipfs_lib\<close>, over a
  type \<open>'d\<close> of block stores and a type \<open>'c\<close> of identifiers. The effects the code has are kept
  as state: the blocks, the pins, the resources that are open and the identifiers announced.
\<close>

section \<open>The libraries\<close>

text \<open>A node as the type switch of \<open>UnixFSFileSize\<close> sees it, with the number of its links.\<close>

datatype node_kind = RawNode "byte list" | ProtoNode "byte list" | OtherNode

record ipld_node =
  nd_kind :: node_kind
  nd_links :: nat

datatype fs_type = TRaw | TDirectory | TFile | TMetadata | TSymlink | THAMTShard

text \<open>
  Beside the importer of \<open>unixfs_lib\<close>, what the node uses of the libraries. \<open>il_Read\<close>:
  \<open>NewDagReader\<close> and the bytes it yields, with the error it ends with.
\<close>

record ('c, 'd) ipfs_lib = "('c, 'd) unixfs_lib" +
  il_String :: "'c \<Rightarrow> string"
  il_Decode :: "string \<Rightarrow> err + 'c"
  il_Has :: "'d \<Rightarrow> 'c \<Rightarrow> err + bool"
  il_Get :: "'d \<Rightarrow> 'c \<Rightarrow> err + ipld_node"
  il_FSNodeFromBytes :: "byte list \<Rightarrow> err + fs_type \<times> uint64"
  il_Read :: "'d \<Rightarrow> ipld_node \<Rightarrow> err + byte list \<times> err option"
  il_Provide :: "'c \<Rightarrow> err option"
  il_pins :: pin_codec

datatype resource = Datastore | Bitswap

record ('c, 'd) ipfs_state =
  ip_blocks :: 'd
  ip_pins :: pin_store
  ip_open :: "resource list"
  ip_provided :: "'c list"

type_synonym ('c, 'd, 'e, 'a) ipfs = "(('c, 'd) ipfs_state, 'e, 'a) em"

definition in_blocks :: "('d, err, 'a) em \<Rightarrow> ('c, 'd, err, 'a) ipfs" where
  "in_blocks m = lift_e ip_blocks (\<lambda>d s. s\<lparr>ip_blocks := d\<rparr>) m"

definition in_pins :: "(pin_store, err, 'a) em \<Rightarrow> ('c, 'd, err, 'a) ipfs" where
  "in_pins m = lift_e ip_pins (\<lambda>p s. s\<lparr>ip_pins := p\<rparr>) m"

section \<open>UnixFS\<close>

definition UnixFSFileSize :: "('c, 'd) ipfs_lib \<Rightarrow> ipld_node \<Rightarrow> err + int" where
  "UnixFSFileSize L n =
     (case nd_kind n of
        RawNode b \<Rightarrow> Inr (int (length b))
      | ProtoNode b \<Rightarrow>
          (case il_FSNodeFromBytes L b of
             Inl e \<Rightarrow> Inl e
           | Inr (t, fsize) \<Rightarrow> if t = TFile \<or> t = TRaw then Inr (sint fsize) else Inl (Errorf ''not a unixfs file node''))
      | OtherNode \<Rightarrow> Inl (Errorf ''unsupported node type for file size''))"

definition Cat :: "('c, 'd) ipfs_lib \<Rightarrow> 'd \<Rightarrow> 'c \<Rightarrow> err + byte list \<times> err option" where
  "Cat L d c = (case il_Get L d c of Inl e \<Rightarrow> Inl e | Inr n \<Rightarrow> il_Read L d n)"

text \<open>What \<open>Get\<close> has written to a writer that takes everything, and its error.\<close>

definition Get :: "('c, 'd) ipfs_lib \<Rightarrow> 'd \<Rightarrow> 'c \<Rightarrow> byte list \<times> err option" where
  "Get L d c = (case Cat L d c of Inl e \<Rightarrow> ([], Some e) | Inr (b, e) \<Rightarrow> (b, e))"

record stat_result =
  sr_Size :: int
  sr_NumLinks :: nat

definition unixfs_Stat :: "('c, 'd) ipfs_lib \<Rightarrow> 'd \<Rightarrow> 'c \<Rightarrow> err + stat_result" where
  "unixfs_Stat L d c =
     (case il_Get L d c of
        Inl e \<Rightarrow> Inl e
      | Inr n \<Rightarrow> Inr \<lparr>sr_Size = (case UnixFSFileSize L n of Inl e \<Rightarrow> 0 | Inr sz \<Rightarrow> sz), sr_NumLinks = nd_links n\<rparr>)"

section \<open>The service\<close>

record add_file_options =
  ao_Filename :: string
  ao_RawLeaves :: bool
  ao_CIDVersion :: int
  ao_HashFunction :: string
  ao_Chunker :: string
  ao_Pin :: bool

record object_stat =
  ob_CID :: string
  ob_Size :: int
  ob_NumLinks :: nat
  ob_Local :: bool
  ob_Pinned :: bool

definition ErrNotImplemented_pin :: err where
  "ErrNotImplemented_pin = Errorf ''direct pin not implemented in v1''"

text \<open>The routing is there: \<open>NewEmbeddedIPFS\<close> requires it.\<close>

definition provide :: "('c, 'd) ipfs_lib \<Rightarrow> 'c \<Rightarrow> ('c, 'd, err, unit) ipfs" where
  "provide L c s = (case il_Provide L c of Some e \<Rightarrow> (Inl e, s) | None \<Rightarrow> (Inr (), s\<lparr>ip_provided := ip_provided s @ [c]\<rparr>))"

definition AddFile :: "('c, 'd) ipfs_lib \<Rightarrow> ipfs_config \<Rightarrow> byte list \<times> bool \<Rightarrow> add_file_options \<Rightarrow> ('c, 'd, err, 'c) ipfs" where
  "AddFile L cfg r opt =
     (let n = ChunkSizeFromSpec (ao_Chunker opt); chunkSize = (if n \<le> 0 then 1048576 else n) in
      bind_e (in_blocks (AddFileFromReader L r chunkSize (ao_RawLeaves opt) (ao_CIDVersion opt) (ao_HashFunction opt))) (\<lambda>c.
      bind_e (if ao_Pin opt then in_pins (PinRecursive (il_pins L) (il_String L c)) else ret ()) (\<lambda>_.
      if ic_AutoProvide cfg then handle_e (provide L c) (\<lambda>_. ret c) (\<lambda>_. ret c) else ret c)))"

definition svc_Stat :: "('c, 'd) ipfs_lib \<Rightarrow> 'c \<Rightarrow> ('c, 'd) ipfs_state \<Rightarrow> err + object_stat" where
  "svc_Stat L c s =
     (case il_Has L (ip_blocks s) c of
        Inl e \<Rightarrow> Inl e
      | Inr here \<Rightarrow>
          (case unixfs_Stat L (ip_blocks s) c of
             Inl e \<Rightarrow> Inl e
           | Inr st \<Rightarrow> Inr \<lparr>ob_CID = il_String L c, ob_Size = sr_Size st, ob_NumLinks = sr_NumLinks st,
               ob_Local = here, ob_Pinned = IsPinnedRecursive (il_String L c) (ip_pins s)\<rparr>))"

definition svc_Pin :: "('c, 'd) ipfs_lib \<Rightarrow> 'c \<Rightarrow> bool \<Rightarrow> ('c, 'd, err, unit) ipfs" where
  "svc_Pin L c rec =
     (if \<not> rec then raise ErrNotImplemented_pin else in_pins (PinRecursive (il_pins L) (il_String L c)))"

definition svc_Unpin :: "('c, 'd) ipfs_lib \<Rightarrow> 'c \<Rightarrow> bool \<Rightarrow> ('c, 'd, err, unit) ipfs" where
  "svc_Unpin L c rec =
     (if \<not> rec then raise ErrNotImplemented_pin else in_pins (UnpinRecursive (il_pins L) (il_String L c)))"

text \<open>Importing a directory is not implemented.\<close>

definition svc_AddDir :: "string \<Rightarrow> ('c, 'd, err, 'c) ipfs" where
  "svc_AddDir path = raise (Errorf ''not implemented'')"

section \<open>The node\<close>

record embedded_ipfs =
  eb_cfg :: ipfs_config
  eb_maxUploadBytes :: int
  eb_gatewayEnabled :: bool
  eb_gatewayWritable :: bool
  eb_apiEnabled :: bool
  eb_autoPinOnAdd :: bool
  eb_cidVersion :: int
  eb_hashFunction :: string
  eb_chunker :: string
  eb_rawLeaves :: bool
  eb_retrievalTimeout :: int

definition MaxUploadBytes :: "embedded_ipfs \<Rightarrow> int" where
  "MaxUploadBytes e = (if eb_maxUploadBytes e \<le> 0 then 67108864 else eb_maxUploadBytes e)"

definition CIDVersion :: "embedded_ipfs \<Rightarrow> int" where
  "CIDVersion e = (if eb_cidVersion e \<le> 0 then 1 else eb_cidVersion e)"

definition HashFunction :: "embedded_ipfs \<Rightarrow> string" where
  "HashFunction e = (if eb_hashFunction e = [] then ''sha2-256'' else eb_hashFunction e)"

definition Chunker :: "embedded_ipfs \<Rightarrow> string" where
  "Chunker e = (if eb_chunker e = [] then ''size-1048576'' else eb_chunker e)"

text \<open>\<open>ipfsgateway.NewHandler\<close>: the timeout it hands to the gateway, whose default is an argument.\<close>

definition gateway_NewHandler :: "int \<Rightarrow> int \<Rightarrow> int" where
  "gateway_NewHandler DefaultRetrievalTimeout fetchTimeout = (if fetchTimeout \<le> 0 then DefaultRetrievalTimeout else fetchTimeout)"

text \<open>What the construction calls: the directory, LevelDB, and the backend of the gateway.\<close>

record ipfs_start =
  st_MkdirAll :: "err option"
  st_NewDatastore :: "err option"
  st_NewBlocksBackend :: "err option"
  st_DefaultRetrievalTimeout :: int
  st_routing :: bool

definition open_res :: "resource \<Rightarrow> ('c, 'd, 'e, unit) ipfs" where
  "open_res x s = (Inr (), s\<lparr>ip_open := ip_open s @ [x]\<rparr>)"

definition close_res :: "resource \<Rightarrow> ('c, 'd, 'e, unit) ipfs" where
  "close_res x s = (Inr (), s\<lparr>ip_open := remove1 x (ip_open s)\<rparr>)"

definition OpenLevelDB :: "ipfs_start \<Rightarrow> ('c, 'd, err, unit) ipfs" where
  "OpenLevelDB I =
     (case st_MkdirAll I of
        Some e \<Rightarrow> raise (wrap ''create datastore dir'' e)
      | None \<Rightarrow>
          (case st_NewDatastore I of
             Some e \<Rightarrow> raise (wrap ''open leveldb datastore'' e)
           | None \<Rightarrow> open_res Datastore))"

definition NewEmbeddedIPFS :: "('c, 'd) ipfs_lib \<Rightarrow> ipfs_start \<Rightarrow> ipfs_config \<Rightarrow> ('c, 'd, err, embedded_ipfs) ipfs" where
  "NewEmbeddedIPFS L I cfg =
     (if \<not> st_routing I then raise (Errorf ''ipfs: routing is required (DHT / ContentDiscovery)'')
      else
        bind_e (OpenLevelDB I) (\<lambda>_.
        bind_e (open_res Bitswap) (\<lambda>_.
        handle_e (in_pins (NewFileStore (il_pins L)))
          (\<lambda>e. bind_e (close_res Bitswap) (\<lambda>_. bind_e (close_res Datastore) (\<lambda>_. raise e)))
          (\<lambda>_.
            let ft = int64 (ic_FetchTimeoutSeconds cfg * 1000000000) in
            (case st_NewBlocksBackend I of
              Some e \<Rightarrow> bind_e (close_res Bitswap) (\<lambda>_. bind_e (close_res Datastore) (\<lambda>_. raise e))
            | None \<Rightarrow> ret \<lparr>eb_cfg = cfg, eb_maxUploadBytes = ic_MaxUploadBytes cfg, eb_gatewayEnabled = ic_GatewayEnabled cfg,
                eb_gatewayWritable = ic_GatewayWritable cfg, eb_apiEnabled = ic_APIEnabled cfg, eb_autoPinOnAdd = ic_AutoPinOnAdd cfg,
                eb_cidVersion = ic_CIDVersion cfg, eb_hashFunction = ic_HashFunction cfg, eb_chunker = ic_Chunker cfg,
                eb_rawLeaves = ic_RawLeaves cfg,
                eb_retrievalTimeout = gateway_NewHandler (st_DefaultRetrievalTimeout I) ft\<rparr>)))))"

text \<open>\<open>Close\<close>, with the results of closing bitswap and the datastore: both are closed in any case.\<close>

definition ipfs_Close :: "err option \<Rightarrow> err option \<Rightarrow> ('c, 'd) ipfs_state \<Rightarrow> err list \<times> ('c, 'd) ipfs_state" where
  "ipfs_Close eb ed s =
     (List.map_filter id [eb, ed], s\<lparr>ip_open := remove1 Datastore (remove1 Bitswap (ip_open s))\<rparr>)"

section \<open>HTTP routes\<close>

datatype form_outcome = FormTooLarge | FormInvalid | Form multipart_form

text \<open>
  The requests of these routes: with the URL path as a text, the outcome of reading a
  multipart form through a reader with a limit, the announced length of the body, and the
  decoder for the body of a pin request at the body that was sent (\<open>None\<close>: not decodable).
\<close>

record ipfs_request = http_request +
  rq_URLPath :: string
  rq_ParseForm :: "int \<Rightarrow> form_outcome"
  rq_ContentLength :: int
  rq_PinBody :: "bool option"

type_synonym ('c, 'd) ipfs_handler = "('c, 'd, http_reply, http_reply) ipfs"

definition writeIPFSError :: "string \<Rightarrow> string \<Rightarrow> nat \<Rightarrow> http_reply" where
  "writeIPFSError code msg status =
     writeJSON status (JObject [(''error'', JObj [(''code'', JStr code), (''message'', JStr msg)])])"

definition NotFound :: http_reply where
  "NotFound = writeJSON 404 (PlainText ''404 page not found'')"

definition bool_value :: "bool \<Rightarrow> string \<Rightarrow> bool" where
  "bool_value def v = (if v = [] then def else case ParseBool v of Some b \<Rightarrow> b | None \<Rightarrow> False)"

definition text_value :: "string \<Rightarrow> string \<Rightarrow> string" where
  "text_value def v = (if v = [] then def else v)"

definition int_value :: "int \<Rightarrow> string \<Rightarrow> int" where
  "int_value def v = (if v = [] then def else case ParseInt v of Some n \<Rightarrow> n | None \<Rightarrow> def)"

definition execIPFSAdd :: "('c, 'd) ipfs_lib \<Rightarrow> embedded_ipfs \<Rightarrow> ipfs_request \<Rightarrow> ('c, 'd) ipfs_handler" where
  "execIPFSAdd L e r =
     (case rq_ParseForm r (int64 (MaxUploadBytes e + 1)) of
        FormTooLarge \<Rightarrow> raise (writeIPFSError ''PAYLOAD_TOO_LARGE'' ''upload exceeds limit'' 413)
      | FormInvalid \<Rightarrow> raise (writeIPFSError ''BAD_REQUEST'' ''invalid multipart form'' 400)
      | Form form \<Rightarrow> (case mp_File form of
          None \<Rightarrow> raise (writeIPFSError ''BAD_REQUEST'' ''missing file field'' 400)
        | Some file \<Rightarrow>
            let val = mp_Value form;
                pin = bool_value (eb_autoPinOnAdd e) (val ''pin'');
                rawLeaves = bool_value (eb_rawLeaves e) (val ''rawLeaves'');
                hashFunction = text_value (HashFunction e) (val ''hashFunction'');
                chunker = text_value (Chunker e) (val ''chunker'');
                cidVer = int_value (CIDVersion e) (val ''cidVersion'')
            in if cidVer \<noteq> 1 then raise (writeIPFSError ''BAD_REQUEST'' ''only cidVersion=1 supported'' 400)
               else bind_e (map_err (\<lambda>_. writeIPFSError ''INTERNAL_ERROR'' ''add failed'' 500)
                   (AddFile L (eb_cfg e) (ff_Content file, ff_ReadFails file)
                     \<lparr>ao_Filename = val ''filename'', ao_RawLeaves = rawLeaves, ao_CIDVersion = cidVer,
                      ao_HashFunction = hashFunction, ao_Chunker = chunker, ao_Pin = pin\<rparr>)) (\<lambda>c s.
                 let (sz, pinned) = (case svc_Stat L c s of Inl _ \<Rightarrow> (0, pin) | Inr st \<Rightarrow> (ob_Size st, ob_Pinned st))
                 in (Inr (writeJSON 200 (JObject [(''cid'', JStr (il_String L c)), (''size'', JNum sz), (''pinned'', JBool pinned)])), s))))"

definition handleIPFSAdd :: "('c, 'd) ipfs_lib \<Rightarrow> embedded_ipfs \<Rightarrow> ipfs_request \<Rightarrow> ('c, 'd) ipfs_handler" where
  "handleIPFSAdd L e r =
     (if rq_Method r \<noteq> ''POST'' then raise (writeIPFSError ''BAD_REQUEST'' ''method not allowed'' 405)
      else if \<not> eb_apiEnabled e then raise NotFound
      else execIPFSAdd L e r)"

definition handleIPFSGatewayUpload :: "('c, 'd) ipfs_lib \<Rightarrow> embedded_ipfs \<Rightarrow> ipfs_request \<Rightarrow> ('c, 'd) ipfs_handler" where
  "handleIPFSGatewayUpload L e r =
     (if rq_Method r \<noteq> ''POST'' \<and> rq_Method r \<noteq> ''PUT'' then raise (writeIPFSError ''BAD_REQUEST'' ''method not allowed'' 405)
      else if \<not> eb_gatewayWritable e then raise NotFound
      else execIPFSAdd L e r)"

text \<open>The gateway of the library only reads: it is a function of the blocks.\<close>

definition serveIPFSGateway :: "('d \<Rightarrow> ipfs_request \<Rightarrow> http_reply) \<Rightarrow> ('c, 'd) ipfs_lib \<Rightarrow> embedded_ipfs \<Rightarrow> ipfs_request \<Rightarrow> ('c, 'd) ipfs_handler" where
  "serveIPFSGateway gw L e r =
     (let p = rq_URLPath r in
      if eb_gatewayWritable e \<and> (p = ''/ipfs'' \<or> p = ''/ipfs/'') \<and> (rq_Method r = ''POST'' \<or> rq_Method r = ''PUT'')
        then handleIPFSGatewayUpload L e r
      else if prefix ''/ipfs/'' p \<and> p \<noteq> ''/ipfs/'' \<and> rq_Method r \<noteq> ''GET'' \<and> rq_Method r \<noteq> ''HEAD''
        then raise (writeIPFSError ''BAD_REQUEST'' ''method not allowed'' 405)
      else (\<lambda>s. (Inr (gw (ip_blocks s) r), s)))"

definition handleIPFSAddDir :: "embedded_ipfs \<Rightarrow> ipfs_request \<Rightarrow> ('c, 'd) ipfs_handler" where
  "handleIPFSAddDir e r =
     (if \<not> eb_apiEnabled e then raise NotFound
      else if rq_Method r \<noteq> ''POST'' then raise (writeIPFSError ''BAD_REQUEST'' ''method not allowed'' 405)
      else ret (writeJSON 501 (JObject [(''error'', JStr ''not implemented'')])))"

definition trim_slashes :: "string \<Rightarrow> string" where
  "trim_slashes s = rev (dropWhile (\<lambda>c. c = CHR ''/'') (rev (dropWhile (\<lambda>c. c = CHR ''/'') s)))"

text \<open>The identifier at the end of the path.\<close>

definition path_cid :: "('c, 'd) ipfs_lib \<Rightarrow> string \<Rightarrow> ipfs_request \<Rightarrow> ('c, 'd, http_reply, 'c) ipfs" where
  "path_cid L route r =
     (let suf = trim_slashes (TrimPrefix (rq_URLPath r) route) in
      if suf = [] then raise (writeIPFSError ''BAD_REQUEST'' ''missing cid'' 400)
      else case il_Decode L suf of
          Inl e \<Rightarrow> raise (writeIPFSError ''INVALID_CID'' ''invalid cid'' 400)
        | Inr c \<Rightarrow> ret c)"

definition handleIPFSStat :: "('c, 'd) ipfs_lib \<Rightarrow> embedded_ipfs \<Rightarrow> ipfs_request \<Rightarrow> ('c, 'd) ipfs_handler" where
  "handleIPFSStat L e r =
     (if rq_Method r \<noteq> ''GET'' then raise (writeIPFSError ''BAD_REQUEST'' ''method not allowed'' 405)
      else if \<not> eb_apiEnabled e then raise NotFound
      else bind_e (path_cid L ''/api/ipfs/stat/'' r) (\<lambda>c s.
        case svc_Stat L c s of
          Inl _ \<Rightarrow> (Inl (writeIPFSError ''CID_NOT_FOUND'' ''content not found'' 404), s)
        | Inr st \<Rightarrow> (Inr (writeJSON 200 (JObject [(''cid'', JStr (ob_CID st)), (''size'', JNum (ob_Size st)),
            (''numLinks'', JNum (int (ob_NumLinks st))), (''local'', JBool (ob_Local st)), (''pinned'', JBool (ob_Pinned st))])), s)))"

definition pin_error :: "string \<Rightarrow> err \<Rightarrow> http_reply" where
  "pin_error code e =
     (if errors_is e ErrNotImplemented_pin then writeIPFSError ''NOT_IMPLEMENTED'' (error_text e) 501
      else writeIPFSError code (error_text e) 500)"

definition pin_done :: "('c, 'd) ipfs_lib \<Rightarrow> 'c \<Rightarrow> http_reply" where
  "pin_done L c = writeJSON 200 (JObject [(''ok'', JBool True), (''cid'', JStr (il_String L c))])"

definition handleIPFSPin :: "('c, 'd) ipfs_lib \<Rightarrow> embedded_ipfs \<Rightarrow> ipfs_request \<Rightarrow> ('c, 'd) ipfs_handler" where
  "handleIPFSPin L e r =
     (if \<not> eb_apiEnabled e then raise NotFound
      else bind_e (path_cid L ''/api/ipfs/pin/'' r) (\<lambda>c.
        if rq_Method r = ''POST'' then
          let rec = (if rq_ContentLength r > 0 then (case rq_PinBody r of Some b \<Rightarrow> b | None \<Rightarrow> True) else True) in
          bind_e (map_err (pin_error ''PIN_FAILED'') (svc_Pin L c rec)) (\<lambda>_. ret (pin_done L c))
        else if rq_Method r = ''DELETE'' then
          bind_e (map_err (pin_error ''UNPIN_FAILED'') (svc_Unpin L c True)) (\<lambda>_. ret (pin_done L c))
        else raise (writeIPFSError ''BAD_REQUEST'' ''method not allowed'' 405)))"

text \<open>
  The routes, for a clean path: \<open>None\<close> when none of them matches. A path that lacks the final
  slash of a route is redirected by the multiplexer.
\<close>

definition registerIPFSRoutes :: "('d \<Rightarrow> ipfs_request \<Rightarrow> http_reply) \<Rightarrow> ('c, 'd) ipfs_lib \<Rightarrow> embedded_ipfs option \<Rightarrow> ipfs_request
    \<Rightarrow> ('c, 'd) ipfs_handler option" where
  "registerIPFSRoutes gw L emb r =
     (case emb of
        None \<Rightarrow> None
      | Some e \<Rightarrow>
          let p = rq_URLPath r in
          if eb_gatewayEnabled e \<and> (p = ''/ipfs'' \<or> prefix ''/ipfs/'' p) then Some (serveIPFSGateway gw L e r)
          else if \<not> eb_apiEnabled e then None
          else if p = ''/api/ipfs/add'' then Some (handleIPFSAdd L e r)
          else if p = ''/api/ipfs/add-dir'' then Some (handleIPFSAddDir e r)
          else if prefix ''/api/ipfs/stat/'' p then Some (handleIPFSStat L e r)
          else if prefix ''/api/ipfs/pin/'' p then Some (handleIPFSPin L e r)
          else if p = ''/api/ipfs/stat'' \<or> p = ''/api/ipfs/pin'' then Some (ret (writeJSON 301 (PlainText (p @ ''/''))))
          else None)"

section \<open>Lemmas\<close>

lemma in_pins_iff [em_simps]: "in_pins m s = (r, s') \<longleftrightarrow> (\<exists>p. m (ip_pins s) = (r, p) \<and> s' = s\<lparr>ip_pins := p\<rparr>)"
  by (simp add: in_pins_def lift_e_iff)

lemma snd_in_pins: "snd (in_pins m s) = s\<lparr>ip_pins := snd (m (ip_pins s))\<rparr>"
  by (simp add: in_pins_def lift_e_def split: prod.splits)

lemma in_pins_keeps [simp]:
  "ip_blocks (snd (in_pins m s)) = ip_blocks s" "ip_open (snd (in_pins m s)) = ip_open s" "ip_provided (snd (in_pins m s)) = ip_provided s"
  by (simp_all add: snd_in_pins)

lemma path_cid_state [simp]: "snd (path_cid L route r s) = s"
  by (simp add: path_cid_def Let_def split: sum.splits)

text \<open>The size of a chunk is positive, and a specification with a number is read as this number.\<close>

text \<open>A construction that fails has released what it had opened; closing releases both.\<close>

lemma ipfs_start_clean:
  assumes "NewEmbeddedIPFS L I cfg s = (Inl e, s')" "Bitswap \<notin> set (ip_open s)" "Datastore \<notin> set (ip_open s)"
  shows "ip_open s' = ip_open s"
  using assms
  by (auto simp: NewEmbeddedIPFS_def OpenLevelDB_def open_res_def close_res_def bind_e_def handle_e_def em_simps Let_def
      remove1_append split: if_splits option.splits sum.splits prod.splits)

lemma ipfs_start_open:
  assumes "NewEmbeddedIPFS L I cfg s = (Inr e, s')"
  shows "ip_open s' = ip_open s @ [Datastore, Bitswap] \<and> ip_open (snd (ipfs_Close eb ed s')) = remove1 Datastore (remove1 Bitswap (ip_open s'))"
  using assms
  by (auto simp: NewEmbeddedIPFS_def OpenLevelDB_def open_res_def close_res_def ipfs_Close_def bind_e_def handle_e_def em_simps Let_def
      split: if_splits option.splits sum.splits prod.splits)

section \<open>Who changes the node\<close>

lemma execIPFSAdd_form:
  assumes "snd (execIPFSAdd L e r s) \<noteq> s"
  obtains form f where "rq_ParseForm r (int64 (MaxUploadBytes e + 1)) = Form form" "mp_File form = Some f"
  using assms by (cases "rq_ParseForm r (int64 (MaxUploadBytes e + 1))") (auto simp: execIPFSAdd_def split: option.splits)

lemma handleIPFSPin_state:
  "snd (handleIPFSPin L e r s) = s \<or>
     eb_apiEnabled e \<and> rq_Method r \<in> {''POST'', ''DELETE''} \<and> (\<exists>p. snd (handleIPFSPin L e r s) = s\<lparr>ip_pins := p\<rparr>)"
  by (auto simp: handleIPFSPin_def path_cid_def svc_Pin_def svc_Unpin_def bind_e_def map_err_def in_pins_def lift_e_def Let_def
      split: if_splits sum.splits prod.splits)

lemma handleIPFSStat_state [simp]: "snd (handleIPFSStat L e r s) = s"
proof -
  obtain x where "path_cid L ''/api/ipfs/stat/'' r s = (x, s)" by (metis path_cid_state surjective_pairing)
  then show ?thesis by (simp add: handleIPFSStat_def bind_e_def split: sum.splits)
qed

text \<open>The requests that may change the node.\<close>

definition upload_request :: "embedded_ipfs \<Rightarrow> ipfs_request \<Rightarrow> bool" where
  "upload_request e r \<longleftrightarrow>
     (eb_apiEnabled e \<and> rq_URLPath r = ''/api/ipfs/add'' \<and> rq_Method r = ''POST'' \<or>
      eb_gatewayEnabled e \<and> eb_gatewayWritable e \<and> rq_URLPath r \<in> {''/ipfs'', ''/ipfs/''} \<and> rq_Method r \<in> {''POST'', ''PUT''}) \<and>
     (\<exists>form. rq_ParseForm r (int64 (MaxUploadBytes e + 1)) = Form form \<and> mp_File form \<noteq> None)"

definition pin_request :: "embedded_ipfs \<Rightarrow> ipfs_request \<Rightarrow> bool" where
  "pin_request e r \<longleftrightarrow>
     eb_apiEnabled e \<and> prefix ''/api/ipfs/pin/'' (rq_URLPath r) \<and> rq_Method r \<in> {''POST'', ''DELETE''}"

text \<open>
  C35: the routes of the node change it only where the configuration allows it. A request that
  changes anything is an upload of a form within the limit, by POST to the add route of an
  enabled API or by POST or PUT to the root of a writable gateway, or it is a POST or DELETE
  of the pin route of an enabled API, and then it changes nothing but the pins. In particular
  reading through the gateway and asking for the status of an object change nothing, and a
  node without API and with a read-only gateway cannot be changed.
\<close>

theorem ipfs_write_gate:
  assumes "registerIPFSRoutes gw L (Some e) r = Some h" "snd (h s) \<noteq> s"
  shows "upload_request e r \<or> pin_request e r \<and> (\<exists>p. snd (h s) = s\<lparr>ip_pins := p\<rparr>)"
proof -
  let ?p = "rq_URLPath r"
  have up: "upload_request e r" if "snd (execIPFSAdd L e r s) \<noteq> s"
    "eb_apiEnabled e \<and> ?p = ''/api/ipfs/add'' \<and> rq_Method r = ''POST'' \<or>
     eb_gatewayEnabled e \<and> eb_gatewayWritable e \<and> ?p \<in> {''/ipfs'', ''/ipfs/''} \<and> rq_Method r \<in> {''POST'', ''PUT''}"
    using that execIPFSAdd_form [OF that(1)] unfolding upload_request_def by (metis option.distinct(1))
  consider (gw) "eb_gatewayEnabled e" "h = serveIPFSGateway gw L e r"
    | (add) "eb_apiEnabled e" "?p = ''/api/ipfs/add''" "h = handleIPFSAdd L e r"
    | (pin) "eb_apiEnabled e" "prefix ''/api/ipfs/pin/'' ?p" "h = handleIPFSPin L e r"
    | (other) "snd (h s) = s"
    using assms(1) by (auto simp: registerIPFSRoutes_def handleIPFSAddDir_def Let_def split: if_splits)
  then show ?thesis
  proof cases
    case gw
    with assms(2) have "snd (execIPFSAdd L e r s) \<noteq> s \<and> eb_gatewayEnabled e \<and> eb_gatewayWritable e \<and>
        ?p \<in> {''/ipfs'', ''/ipfs/''} \<and> rq_Method r \<in> {''POST'', ''PUT''}"
      by (auto simp: serveIPFSGateway_def handleIPFSGatewayUpload_def Let_def split: if_splits)
    with up show ?thesis by blast
  next
    case add
    with assms(2) have "snd (execIPFSAdd L e r s) \<noteq> s \<and> rq_Method r = ''POST''"
      by (simp add: handleIPFSAdd_def split: if_splits)
    with up add show ?thesis by blast
  next
    case pin
    with assms(2) handleIPFSPin_state [of L e r s] show ?thesis by (auto simp: pin_request_def)
  qed (use assms(2) in simp)
qed

text \<open>
  A change of the pins that is answered with 200 is in the file, and it is what a status query
  for the identifier then reports; for other identifiers the status is as before.
\<close>

lemma pin_answered:
  assumes codec: "pin_codec_ok V (il_pins L)" "pin_texts V (fs_data (ip_pins s))" "V (il_String L c)"
    and run: "handleIPFSPin L e r s = (Inr reply, s')" and c: "path_cid L ''/api/ipfs/pin/'' r s = (Inr c, s)"
  shows "file_pins (il_pins L) (ip_pins s') = Inr (fs_data (ip_pins s'))"
    "svc_Stat L d s' = (case svc_Stat L d s of Inl x \<Rightarrow> Inl x | Inr st \<Rightarrow>
       Inr (if il_String L d = il_String L c then st\<lparr>ob_Pinned := (rq_Method r = ''POST'')\<rparr> else st))"
proof -
  define op where "op = (if rq_Method r = ''POST'' then PinOp (il_String L c) else UnpinOp (il_String L c))"
  obtain p where p: "pin_do (il_pins L) op (ip_pins s) = (Inr (), p)" "s' = s\<lparr>ip_pins := p\<rparr>"
    using run c
    by (auto simp: handleIPFSPin_def op_def svc_Pin_def svc_Unpin_def em_simps Let_def split: if_splits)
  from pin_do_file [OF codec(1,2) _ p(1)] codec(3) p(2) show "file_pins (il_pins L) (ip_pins s') = Inr (fs_data (ip_pins s'))"
    by (simp add: op_def split: if_splits)
  have "IsPinnedRecursive d p \<longleftrightarrow>
      (if d = il_String L c then rq_Method r = ''POST'' else IsPinnedRecursive d (ip_pins s))" for d
    using p(1) file_pins.add_mem [of d "il_pins L" "il_String L c" "ip_pins s"]
      file_pins.del_mem [of d "il_pins L" "il_String L c" "ip_pins s"]
    by (auto simp: op_def split: if_splits)
  with p(2) show "svc_Stat L d s' = (case svc_Stat L d s of Inl x \<Rightarrow> Inl x | Inr st \<Rightarrow>
       Inr (if il_String L d = il_String L c then st\<lparr>ob_Pinned := (rq_Method r = ''POST'')\<rparr> else st))"
    by (simp add: svc_Stat_def split: sum.splits)
qed

section \<open>An example\<close>

definition ex_ipfs :: "(string, unit) ipfs_lib" where
  "ex_ipfs = \<lparr>ul_New = \<lambda>_. None, ul_Layout = \<lambda>_ _ _ d. (Inr ''a'', d), il_String = id, il_Decode = Inr, il_Has = \<lambda>_ _. Inr True,
     il_Get = \<lambda>_ _. Inl DriverErr, il_FSNodeFromBytes = \<lambda>_. Inl DriverErr, il_Read = \<lambda>_ _. Inl DriverErr,
     il_Provide = \<lambda>_. None, il_pins = ex_codec\<rparr>"

definition ex_ipfs_state :: "(string, unit) ipfs_state" where
  "ex_ipfs_state = \<lparr>ip_blocks = (), ip_pins = ex_pins, ip_open = [], ip_provided = []\<rparr>"

definition ex_embedded :: embedded_ipfs where
  "ex_embedded = \<lparr>eb_cfg = cf_IPFS defaults, eb_maxUploadBytes = 0, eb_gatewayEnabled = True, eb_gatewayWritable = False,
     eb_apiEnabled = True, eb_autoPinOnAdd = True, eb_cidVersion = 1, eb_hashFunction = [], eb_chunker = [], eb_rawLeaves = True,
     eb_retrievalTimeout = 1\<rparr>"

definition ex_pin_request :: ipfs_request where
  "ex_pin_request = \<lparr>rq_Method = ''POST'', rq_Path = [], rq_Authorization = [], rq_Query = \<lambda>_. [], rq_Body = [], rq_BodyFails = False,
     rq_Form = None, rq_URLPath = ''/api/ipfs/pin/a'', rq_ParseForm = \<lambda>_. FormInvalid, rq_ContentLength = 0, rq_PinBody = None\<rparr>"

theorem ipfs_write_gate_witness:
  "\<exists>h. registerIPFSRoutes (\<lambda>_ _. NotFound) ex_ipfs (Some ex_embedded) ex_pin_request = Some h \<and> snd (h ex_ipfs_state) \<noteq> ex_ipfs_state \<and>
     pin_request ex_embedded ex_pin_request"
proof -
  let ?h = "handleIPFSPin ex_ipfs ex_embedded ex_pin_request"
  have h: "registerIPFSRoutes (\<lambda>_ _. NotFound) ex_ipfs (Some ex_embedded) ex_pin_request = Some ?h"
    by (simp add: registerIPFSRoutes_def ex_embedded_def ex_pin_request_def)
  have n: "snd (?h ex_ipfs_state) \<noteq> ex_ipfs_state"
    by (simp add: handleIPFSPin_def path_cid_def trim_slashes_def TrimPrefix_def svc_Pin_def in_pins_def lift_e_def bind_e_def map_err_def
        PinRecursive_def persistLocked_def write_tmp_def rename_tmp_def handle_e_def fs_step_def set_recursive_def
        ex_ipfs_def ex_ipfs_state_def ex_embedded_def ex_pin_request_def ex_pins_def ex_codec_def ex_pin_file_def empty_pins_def)
  from ipfs_write_gate [OF h n] have "pin_request ex_embedded ex_pin_request"
    by (auto simp: upload_request_def ex_pin_request_def)
  with h n show ?thesis by blast
qed

end
