(* ===== verification/P2P_Node.thy ===== *)
theory P2P_Node
  imports App
begin

text \<open>
  The libp2p node, \<open>internal/libp2p/node.go\<close>: its construction from the key file and the
  configured bootstrap peers, its start, the loops that connect it to these peers and announce
  it, and its end. The libp2p host, the DHT and the address parser are third-party code: the
  fields of \<open>p2p_lib\<close>, and for the loops the sequence of what their calls return.
\<close>

section \<open>State\<close>

record addr_info =
  ai_ID :: string
  ai_Addrs :: "string list"

record ('k, 'm) p2p_lib =
  pl_key :: "'k key_lib"
  pl_DefaultPeers :: "addr_info list"
  pl_NewMultiaddr :: "string \<Rightarrow> err + 'm"
  pl_AddrInfoFromP2pAddr :: "'m \<Rightarrow> err + addr_info"
  pl_NewHost :: "'k \<Rightarrow> string list \<Rightarrow> addr_info list \<Rightarrow> err + bool"
  pl_ID :: "'k \<Rightarrow> string"
  pl_Addrs :: "string list"
  pl_Bootstrap :: "err option"

datatype loop_kind = ConnectLoop | AdvertiseLoop

text \<open>
  The node: \<open>nn_dht\<close> tells that the host has called back for its routing, \<open>nn_handlers\<close> are
  the protocols with a stream handler, \<open>nn_loops\<close> the goroutines that were started.
\<close>

record 'k p2p_node =
  nn_key :: 'k
  nn_bootstrapPeers :: "addr_info list"
  nn_discoveryNS :: string
  nn_protocolID :: string
  nn_sessionHandler :: bool
  nn_dht :: bool
  nn_handlers :: "string list"
  nn_loops :: "loop_kind list"

text \<open>The connections of the host, and the results of the calls of \<open>Connect\<close> to come.\<close>

record p2p_net =
  nt_connected :: "string list"
  nt_results :: "bool list"

section \<open>Construction\<close>

fun collect_extra :: "('k, 'm) p2p_lib \<Rightarrow> string list \<Rightarrow> err + addr_info list" where
  "collect_extra P [] = Inr []"
| "collect_extra P (a # extra) =
     (let addrStr = TrimSpace a in
      if addrStr = [] then collect_extra P extra
      else case pl_NewMultiaddr P addrStr of
          Inl e \<Rightarrow> Inl (wrap ''invalid dht bootstrap multiaddr'' e)
        | Inr m \<Rightarrow> (case pl_AddrInfoFromP2pAddr P m of
            Inl e \<Rightarrow> Inl (wrap ''parse dht bootstrap peer'' e)
          | Inr info \<Rightarrow> (case collect_extra P extra of Inl e \<Rightarrow> Inl e | Inr peers \<Rightarrow> Inr (info # peers))))"

definition collectDHTBootstrapPeers :: "('k, 'm) p2p_lib \<Rightarrow> string list \<Rightarrow> err + addr_info list" where
  "collectDHTBootstrapPeers P extra =
     (case collect_extra P extra of Inl e \<Rightarrow> Inl e | Inr peers \<Rightarrow> Inr (pl_DefaultPeers P @ peers))"

definition NewNode :: "('k, 'm) p2p_lib \<Rightarrow> config \<Rightarrow> bool \<Rightarrow> (key_fs, err, 'k p2p_node) em" where
  "NewNode P cfg sessionHandler =
     bind_e (LoadOrCreateIdentity (pl_key P)) (\<lambda>privKey.
     bind_e (from_result id (collectDHTBootstrapPeers P (cf_DHTBootstrapPeers cfg))) (\<lambda>peers.
     bind_e (from_result (wrap ''create libp2p host'') (pl_NewHost P privKey (cf_Libp2pListenAddrs cfg) peers)) (\<lambda>dht.
     ret \<lparr>nn_key = privKey, nn_bootstrapPeers = peers, nn_discoveryNS = cf_DHTDiscoveryNamespace cfg,
          nn_protocolID = cf_Libp2pProtocolID cfg, nn_sessionHandler = sessionHandler, nn_dht = dht, nn_handlers = [], nn_loops = []\<rparr>)))"

definition PublicAddrs :: "('k, 'm) p2p_lib \<Rightarrow> 'k p2p_node \<Rightarrow> string list" where
  "PublicAddrs P n = map (\<lambda>a. a @ ''/p2p/'' @ pl_ID P (nn_key n)) (pl_Addrs P)"

definition SetSessionHandler :: "'k p2p_node \<Rightarrow> 'k p2p_node" where
  "SetSessionHandler n = n\<lparr>nn_sessionHandler := True, nn_handlers := nn_handlers n @ [nn_protocolID n]\<rparr>"

section \<open>Connecting to the bootstrap peers\<close>

fun connect_each :: "addr_info list \<Rightarrow> bool \<Rightarrow> p2p_net \<Rightarrow> bool \<times> p2p_net" where
  "connect_each [] connected net = (connected, net)"
| "connect_each (info # infos) connected net =
     (if ai_ID info \<in> set (nt_connected net) then connect_each infos True net
      else
        let net1 = net\<lparr>nt_results := tl (nt_results net)\<rparr> in
        if nt_results net \<noteq> [] \<and> hd (nt_results net)
        then connect_each infos True (net1\<lparr>nt_connected := ai_ID info # nt_connected net1\<rparr>)
        else connect_each infos connected net1)"

definition connectBootstrapPeers :: "addr_info list \<Rightarrow> p2p_net \<Rightarrow> bool \<times> p2p_net" where
  "connectBootstrapPeers peers net = connect_each peers False net"

text \<open>\<open>ctxDone k\<close>: the context has ended when the k-th wait is over.\<close>

partial_function (option) connectBootstrapPeersLoop :: "(nat \<Rightarrow> bool) \<Rightarrow> addr_info list \<Rightarrow> nat \<Rightarrow> p2p_net \<Rightarrow> (bool \<times> p2p_net) option" where
  "connectBootstrapPeersLoop ctxDone peers k net =
     (let (connected, net1) = connectBootstrapPeers peers net in
      if connected then Some (True, net1)
      else if ctxDone k then Some (False, net1)
      else connectBootstrapPeersLoop ctxDone peers (Suc k) net1)"

section \<open>Announcing the node\<close>

text \<open>The pause in nanoseconds after a call of \<open>Advertise\<close>; Go's division rounds towards zero.\<close>

definition advertise_wait :: "err + int \<Rightarrow> int" where
  "advertise_wait res =
     (case res of
        Inl e \<Rightarrow> 30000000000
      | Inr ttl \<Rightarrow>
          let refreshEvery = 1800000000000;
              wait = (if ttl < 0 then - ((- ttl) div 2) else ttl div 2);
              wait1 = (if wait \<le> 0 then refreshEvery else wait)
          in if wait1 > refreshEvery then refreshEvery else wait1)"

text \<open>The loop, with the pauses it has made when the context ends.\<close>

partial_function (option) advertiseDiscoveryLoop :: "(nat \<Rightarrow> bool) \<Rightarrow> (nat \<Rightarrow> err + int) \<Rightarrow> nat \<Rightarrow> int list \<Rightarrow> int list option" where
  "advertiseDiscoveryLoop ctxDone advertise k waits =
     (let waits1 = waits @ [advertise_wait (advertise k)] in
      if ctxDone k then Some waits1 else advertiseDiscoveryLoop ctxDone advertise (Suc k) waits1)"

section \<open>Start and end\<close>

definition node_Start :: "('k, 'm) p2p_lib \<Rightarrow> 'k p2p_node \<Rightarrow> p2p_net \<Rightarrow> (err + unit) \<times> 'k p2p_node \<times> p2p_net" where
  "node_Start P n net =
     (let n1 = (if nn_sessionHandler n then n\<lparr>nn_handlers := nn_handlers n @ [nn_protocolID n]\<rparr> else n);
          (n2, net1) = (if nn_bootstrapPeers n1 \<noteq> []
            then (n1\<lparr>nn_loops := nn_loops n1 @ [ConnectLoop]\<rparr>, snd (connectBootstrapPeers (nn_bootstrapPeers n1) net))
            else (n1, net))
      in case (if nn_dht n2 then pl_Bootstrap P else None) of
           Some e \<Rightarrow> (Inl (wrap ''bootstrap dht'' e), n2, net1)
         | None \<Rightarrow>
             (Inr (), (if nn_dht n2 \<and> TrimSpace (nn_discoveryNS n2) \<noteq> [] then n2\<lparr>nn_loops := nn_loops n2 @ [AdvertiseLoop]\<rparr> else n2), net1))"

definition node_Close :: "err option \<Rightarrow> err option \<Rightarrow> 'k p2p_node \<Rightarrow> err list" where
  "node_Close dhtErr hostErr n =
     (if nn_dht n then (case dhtErr of Some e \<Rightarrow> [wrap ''close dht'' e] | None \<Rightarrow> []) else []) @
     (case hostErr of Some e \<Rightarrow> [wrap ''close host'' e] | None \<Rightarrow> [])"

section \<open>Lemmas\<close>

text \<open>Connecting keeps every connection, and reports one exactly when there is one to a bootstrap peer.\<close>

lemma connect_each_keeps:
  "set (nt_connected net) \<subseteq> set (nt_connected (snd (connect_each infos b net)))"
proof (induction infos arbitrary: b net)
  case (Cons info infos)
  from Cons [of net True] Cons [of "net\<lparr>nt_results := tl (nt_results net)\<rparr>" b]
    Cons [of "net\<lparr>nt_results := tl (nt_results net), nt_connected := ai_ID info # nt_connected net\<rparr>" True]
  show ?case by (auto simp: Let_def)
qed simp

lemma connect_new:
  "x \<in> set (nt_connected (snd (connect_each infos b net))) \<Longrightarrow> x \<in> set (nt_connected net) \<or> (\<exists>info \<in> set infos. ai_ID info = x)"
proof (induction infos arbitrary: b net)
  case (Cons info infos)
  let ?net1 = "net\<lparr>nt_results := tl (nt_results net)\<rparr>"
  let ?net2 = "?net1\<lparr>nt_connected := ai_ID info # nt_connected net\<rparr>"
  from Cons.prems consider "x \<in> set (nt_connected (snd (connect_each infos True net)))"
    | "x \<in> set (nt_connected (snd (connect_each infos True ?net2)))" | "x \<in> set (nt_connected (snd (connect_each infos b ?net1)))"
    by (auto simp: Let_def split: if_splits)
  then show ?case by cases (auto dest!: Cons.IH)
qed simp

lemma connect_each_reports:
  "fst (connect_each infos b net) \<longleftrightarrow>
     b \<or> (\<exists>info \<in> set infos. ai_ID info \<in> set (nt_connected (snd (connect_each infos b net))))"
proof (induction infos arbitrary: b net)
  case (Cons info infos)
  let ?net1 = "net\<lparr>nt_results := tl (nt_results net)\<rparr>"
  let ?net2 = "?net1\<lparr>nt_connected := ai_ID info # nt_connected net\<rparr>"
  show ?case
  proof (cases "ai_ID info \<in> set (nt_connected net) \<or> nt_results net \<noteq> [] \<and> hd (nt_results net)")
    case True
    with Cons [of True net] Cons [of True ?net2] connect_each_keeps [of net infos True] connect_each_keeps [of ?net2 infos True]
    show ?thesis by (auto simp: Let_def)
  next
    case False
    then have step: "connect_each (info # infos) b net = connect_each infos b ?net1" by (auto simp: Let_def)
    have "b \<or> fst (connect_each infos b ?net1)"
      if "ai_ID info \<in> set (nt_connected (snd (connect_each infos b ?net1)))"
    proof -
      from that False connect_new [of "ai_ID info" infos b ?net1] obtain info' where
        "info' \<in> set infos" "ai_ID info' = ai_ID info" by auto
      with that Cons [of b ?net1] show ?thesis by metis
    qed
    with Cons [of b ?net1] step show ?thesis by (metis list.set_intros(2) set_ConsD)
  qed
qed simp

lemma connectBootstrapPeers_reports:
  "connectBootstrapPeers peers net = (c, net') \<Longrightarrow> c \<longleftrightarrow> (\<exists>info \<in> set peers. ai_ID info \<in> set (nt_connected net'))"
  using connect_each_reports [of peers False net] by (simp add: connectBootstrapPeers_def)

lemma connect_loop_ends:
  "\<exists>c net'. connectBootstrapPeersLoop ctxDone peers j net = Some (c, net') \<and> (c \<longleftrightarrow> (\<exists>info \<in> set peers. ai_ID info \<in> set (nt_connected net')))"
  if "ctxDone (j + d)" for d
  using that
proof (induction d arbitrary: j net)
  case 0
  obtain c net' where "connectBootstrapPeers peers net = (c, net')" by fastforce
  with connectBootstrapPeers_reports [OF this] 0 show ?case
    by (subst connectBootstrapPeersLoop.simps) auto
next
  case (Suc d)
  obtain c net' where n: "connectBootstrapPeers peers net = (c, net')" by fastforce
  show ?case
  proof (cases "c \<or> ctxDone j")
    case True
    with connectBootstrapPeers_reports [OF n] n show ?thesis
      by (subst connectBootstrapPeersLoop.simps) auto
  next
    case False
    with Suc.IH [of "Suc j" net'] Suc.prems n show ?thesis
      by (subst connectBootstrapPeersLoop.simps) auto
  qed
qed

lemma advertise_wait_bounds:
  "0 < advertise_wait r" "advertise_wait r \<le> 1800000000000" "r = Inr ttl \<Longrightarrow> 2 \<le> ttl \<Longrightarrow> 2 * advertise_wait r \<le> ttl"
  by (auto simp: advertise_wait_def Let_def split: sum.splits)

lemma advertise_loop_ends:
  "\<exists>n. advertiseDiscoveryLoop ctxDone advertise j waits = Some (waits @ map (advertise_wait \<circ> advertise) [j..<j + n])"
  if "ctxDone (j + d)" for d
  using that
proof (induction d arbitrary: j waits)
  case 0
  then show ?case by (intro exI [of _ 1]) (subst advertiseDiscoveryLoop.simps, simp)
next
  case (Suc d)
  show ?case
  proof (cases "ctxDone j")
    case True
    then show ?thesis by (intro exI [of _ 1]) (subst advertiseDiscoveryLoop.simps, simp)
  next
    case False
    obtain n where "advertiseDiscoveryLoop ctxDone advertise (Suc j) (waits @ [advertise_wait (advertise j)]) =
        Some ((waits @ [advertise_wait (advertise j)]) @ map (advertise_wait \<circ> advertise) [Suc j..<Suc j + n])"
      using Suc by (metis add_Suc_shift)
    moreover have "[j..<j + Suc n] = j # [Suc j..<Suc j + n]" by (simp add: upt_conv_Cons del: upt_Suc)
    ultimately show ?thesis using False
      by (intro exI [of _ "Suc n"]) (subst advertiseDiscoveryLoop.simps, simp del: upt_Suc add_Suc_right)
  qed
qed

section \<open>Properties\<close>

text \<open>
  The background loops of the node come to an end when its context does. The loop that
  connects to the bootstrap peers reports a connection exactly when there is one. The loop
  that announces the node pauses after each announcement, for at most half an hour, and for
  no more than half of the time the announcement lasts.
\<close>

theorem background_loops_end:
  assumes "ctxDone k"
  shows "(\<exists>c net'. connectBootstrapPeersLoop ctxDone peers 0 net = Some (c, net') \<and>
      (c \<longleftrightarrow> (\<exists>info \<in> set peers. ai_ID info \<in> set (nt_connected net')))) \<and>
    (\<exists>waits. advertiseDiscoveryLoop ctxDone advertise 0 [] = Some waits \<and>
      (\<forall>i < length waits. 0 < waits ! i \<and> waits ! i \<le> 1800000000000 \<and>
         (\<forall>ttl. advertise i = Inr ttl \<and> 2 \<le> ttl \<longrightarrow> 2 * waits ! i \<le> ttl)))"
proof -
  obtain n where n: "advertiseDiscoveryLoop ctxDone advertise 0 [] = Some (map (advertise_wait \<circ> advertise) [0..<n])"
    using advertise_loop_ends [of ctxDone 0 k advertise "[]"] assms by auto
  show ?thesis
    using connect_loop_ends [of ctxDone 0 k peers net] assms
    by (intro conjI exI [of _ "map (advertise_wait \<circ> advertise) [0..<n]"]) (auto simp: n advertise_wait_bounds)
qed

theorem background_loops_end_witness:
  "\<exists>net' waits. connectBootstrapPeersLoop (\<lambda>k. k = 1) [\<lparr>ai_ID = ''b'', ai_Addrs = []\<rparr>] 0 \<lparr>nt_connected = [], nt_results = [False, True]\<rparr>
       = Some (True, net') \<and>
     advertiseDiscoveryLoop (\<lambda>k. k = 1) (\<lambda>k. if k = 0 then Inl DriverErr else Inr 10800000000000) 0 [] = Some waits \<and> 0 < waits ! 0"
proof -
  have l: "connectBootstrapPeersLoop (\<lambda>k. k = 1) [\<lparr>ai_ID = ''b'', ai_Addrs = []\<rparr>] 0 \<lparr>nt_connected = [], nt_results = [False, True]\<rparr>
      = Some (True, \<lparr>nt_connected = [''b''], nt_results = []\<rparr>)"
    by (simp add: connectBootstrapPeersLoop.simps connectBootstrapPeers_def)
  have w: "advertiseDiscoveryLoop (\<lambda>k. k = 1) (\<lambda>k. if k = 0 then Inl DriverErr else Inr 10800000000000) 0 [] =
      Some [30000000000, 1800000000000]"
    by (simp add: advertiseDiscoveryLoop.simps advertise_wait_def)
  show ?thesis
    using background_loops_end [of "\<lambda>k. k = 1" 1 "[]" undefined "\<lambda>k. if k = 0 then Inl DriverErr else Inr 10800000000000"] l w
    by simp
qed

text \<open>
  C36: a node keeps its peer identity over restarts. Once a node has been constructed, every
  later construction from the same key file that succeeds, with any configuration and even if
  a new key could be generated, has the same key and announces its addresses under the same
  identifier, provided the key library reads back what it has written and the file can be read.
\<close>

theorem peer_id_stable:
  assumes lib: "\<And>k raw. kl_Marshal (pl_key P) k = Inr raw \<Longrightarrow> kl_Unmarshal (pl_key P) raw = Inr k"
    and first: "NewNode P cfg h s = (Inr n, s1)"
    and later: "NewNode P' cfg' h' (s1\<lparr>kf_faults := []\<rparr>) = (Inr n', s2)"
    and same: "pl_key P' = (pl_key P)\<lparr>kl_Generate := g\<rparr>" "pl_ID P' = pl_ID P"
  shows "nn_key n' = nn_key n \<and> kf_file s2 = kf_file s1 \<and>
    PublicAddrs P' n' = map (\<lambda>a. a @ ''/p2p/'' @ pl_ID P (nn_key n)) (pl_Addrs P')"
proof -
  have id: "LoadOrCreateIdentity (pl_key P) s = (Inr (nn_key n), s1)"
    using first by (auto simp: NewNode_def em_simps from_result_def split: sum.splits)
  from key_saved [OF lib id] obtain raw where raw: "kf_file s1 = Some raw" "kl_Unmarshal (pl_key P) raw = Inr (nn_key n)" by blast
  have "LoadOrCreateIdentity (pl_key P') (s1\<lparr>kf_faults := []\<rparr>) = (Inr (nn_key n), s1\<lparr>kf_faults := []\<rparr>)"
    by (rule key_loaded) (use raw same in simp_all)
  with later have "nn_key n' = nn_key n \<and> s2 = s1\<lparr>kf_faults := []\<rparr>"
    by (auto simp: NewNode_def em_simps from_result_def split: sum.splits)
  with same show ?thesis by (simp add: PublicAddrs_def)
qed

definition ex_p2p :: "byte list \<Rightarrow> (byte list, unit) p2p_lib" where
  "ex_p2p k = \<lparr>pl_key = \<lparr>kl_Unmarshal = Inr, kl_Marshal = Inr, kl_Generate = Inr k\<rparr>, pl_DefaultPeers = [],
     pl_NewMultiaddr = \<lambda>_. Inl DriverErr, pl_AddrInfoFromP2pAddr = \<lambda>_. Inl DriverErr, pl_NewHost = \<lambda>_ _ _. Inr True,
     pl_ID = \<lambda>k. if k = [65] then ''A'' else ''B'', pl_Addrs = [''/ip4/1.2.3.4/tcp/4001''], pl_Bootstrap = None\<rparr>"

theorem peer_id_stable_witness:
  "\<exists>n s1 n' s2. NewNode (ex_p2p [65]) defaults True \<lparr>kf_file = None, kf_faults = []\<rparr> = (Inr n, s1) \<and>
     NewNode (ex_p2p [66]) defaults True s1 = (Inr n', s2) \<and> PublicAddrs (ex_p2p [66]) n' = [''/ip4/1.2.3.4/tcp/4001/p2p/A'']"
proof -
  obtain n where n: "NewNode (ex_p2p [65]) defaults True \<lparr>kf_file = None, kf_faults = []\<rparr> = (Inr n, \<lparr>kf_file = Some [65], kf_faults = []\<rparr>)"
    "nn_key n = [65]"
    by (simp add: NewNode_def LoadOrCreateIdentity_def read_key_def write_key_def from_result_def bind_e_def handle_e_def map_err_def
        key_step_def Let_def collectDHTBootstrapPeers_def defaults_def ex_p2p_def)
  obtain n' s2 where n': "NewNode (ex_p2p [66]) defaults True \<lparr>kf_file = Some [65], kf_faults = []\<rparr> = (Inr n', s2)"
    by (simp add: NewNode_def LoadOrCreateIdentity_def read_key_def write_key_def from_result_def bind_e_def handle_e_def map_err_def
        key_step_def Let_def collectDHTBootstrapPeers_def defaults_def ex_p2p_def)
  have "PublicAddrs (ex_p2p [66]) n' = [''/ip4/1.2.3.4/tcp/4001/p2p/A'']"
    using peer_id_stable [OF _ n(1), of "ex_p2p [66]" defaults True n' s2 "Inr [66]"] n' n(2)
    by (simp add: ex_p2p_def)
  with n n' show ?thesis by blast
qed

end
