(* ===== verification/Client.thy ===== *)
theory Client
  imports Session_Properties Websocket
begin

text \<open>
  The clients of \<open>examples/admin-client\<close> and \<open>examples/connect-client\<close> that speak the session
  protocol, together with the server at the other end of the stream. The two programs share
  their functions word for word.

  A \<open>link\<close> is one stream: the server with its session \<open>i\<close>, what the client has sent, how much
  of the server's output it has read, and its clock, which stands still during one call. When
  a request has been written completely the server takes its next turn of \<open>HandleStream\<close>. A
  client that waits for a frame nobody sends does not return (\<open>Blocked\<close>); \<open>mustEnvelope\<close>
  panics when a body cannot be encoded (\<open>Panic\<close>). The client's side of the protobuf library and
  its key are arguments; the body of a response decodes to the message of its type, so that the
  cases for the other constructors cannot be reached. The texts of \<open>%q\<close> arguments are left out.
\<close>

section \<open>State\<close>

datatype client_err = Failed err | Panic err | Blocked

datatype client_req =
    HelloReq hello
  | AuthProveReq auth_prove
  | ListSpacesReq
  | ListChannelsReq uint32
  | ListSpaceMembersReq list_space_members_req
  | CreateSpaceReq create_space_req
  | GetCreateSpacePermissionsReq
  | GetCreateGroupPermissionsReq uint32
  | SubscribeChannelReq uint32 uint64
  | AdminSetSpaceMemberRoleReq set_role_req
  | AdminSetSpaceChannelCreationReq uint32 bool
  | AdminSetGroupAutoDeleteReq uint32 uint32
  | JoinSpaceReq uint32
  | InviteSpaceMemberReq uint32 string
  | KickSpaceMemberReq uint32 string
  | BanSpaceMemberReq uint32 string
  | UnbanSpaceMemberReq uint32 string
  | CreateGroupReq create_channel_req
  | SendMessageReq send_message_req
  | SyncChannelReq sync_req

text \<open>\<open>ck_Unmarshal\<close> decodes the body of a response of the given type.\<close>

record client_lib =
  ck_Marshal :: "client_req \<Rightarrow> err + byte list"
  ck_Unmarshal :: "enum \<Rightarrow> byte list \<Rightarrow> err + body"
  ck_Sign :: "byte list \<Rightarrow> err + byte list"
  ck_MarshalPublicKey :: "err + byte list"

record link =
  ln_server :: manager
  ln_out :: wire
  ln_seen :: nat
  ln_clock :: int

type_synonym 'a client = "(link, client_err, 'a) em"

section \<open>Frames\<close>

definition requestID :: "string \<Rightarrow> link \<Rightarrow> string" where
  "requestID pre l = pre @ ''_'' @ show_int (ln_clock l)"

definition mustEnvelope :: "client_lib \<Rightarrow> enum \<Rightarrow> string \<Rightarrow> client_req \<Rightarrow> link \<Rightarrow> client_err + envelope" where
  "mustEnvelope C msgType rid req l =
     (case ck_Marshal C req of
        Inl e \<Rightarrow> Inl (Panic e)
      | Inr payload \<Rightarrow> Inr \<lparr>ev_Version = 1, ev_MsgType = msgType, ev_RequestId = rid,
          ev_TimestampMs = of_int (ln_clock l div 1000000), ev_Body = payload\<rparr>)"

text \<open>One turn of the server on the bytes that have come in.\<close>

definition server_turn :: "'pk env \<Rightarrow> nat \<Rightarrow> byte list \<Rightarrow> manager \<Rightarrow> manager" where
  "server_turn E i inp M = (case ReadEnvelope (en_pb E) inp of (Inl e, _) \<Rightarrow> M | (Inr ev, _) \<Rightarrow> serve E i ev M)"

definition client_writeEnvelope :: "'pk env \<Rightarrow> client_lib \<Rightarrow> nat \<Rightarrow> enum \<Rightarrow> string \<Rightarrow> client_req \<Rightarrow> unit client" where
  "client_writeEnvelope E C i msgType rid req l =
     (case mustEnvelope C msgType rid req l of
        Inl e \<Rightarrow> (Inl e, l)
      | Inr ev \<Rightarrow>
          (case WriteEnvelope (en_pb E) ev (ln_out l) of
             (Inl e, w) \<Rightarrow> (Inl (Failed e), l\<lparr>ln_out := w\<rparr>)
           | (Inr _, w) \<Rightarrow> (Inr (), l\<lparr>ln_out := w,
               ln_server := server_turn E i (drop (length (wi_out (ln_out l))) (wi_out w)) (ln_server l)\<rparr>)))"

definition unread :: "nat \<Rightarrow> link \<Rightarrow> byte list" where
  "unread i l = drop (ln_seen l) (wi_out (mn_wires (ln_server l) i))"

definition unexpected :: "'pk env \<Rightarrow> enum \<Rightarrow> enum \<Rightarrow> client_err" where
  "unexpected E got want =
     Failed (Errorf (''unexpected msg type '' @ en_MsgTypeString E got @ '', want '' @ en_MsgTypeString E want))"

definition readEnvelopeExpect :: "'pk env \<Rightarrow> nat \<Rightarrow> enum \<Rightarrow> envelope client" where
  "readEnvelopeExpect E i want l =
     (let (r, rest) = ReadEnvelope (en_pb E) (unread i l);
          l' = l\<lparr>ln_seen := ln_seen l + (length (unread i l) - length rest)\<rparr>
      in case r of
           Inl e \<Rightarrow> if e = EOF \<or> e = UnexpectedEOF then (Inl Blocked, l) else (Inl (Failed e), l')
         | Inr ev \<Rightarrow> if ev_MsgType ev \<noteq> want then (Inl (unexpected E (ev_MsgType ev) want), l') else (Inr ev, l'))"

section \<open>Calls\<close>

definition call :: "'pk env \<Rightarrow> client_lib \<Rightarrow> nat \<Rightarrow> enum \<Rightarrow> string \<Rightarrow> client_req \<Rightarrow> enum \<Rightarrow> string \<Rightarrow> body client" where
  "call E C i msgType pre req want what l =
     bind_e (client_writeEnvelope E C i msgType (requestID pre l) req) (\<lambda>_.
     bind_e (readEnvelopeExpect E i want) (\<lambda>ev.
     case ck_Unmarshal C want (ev_Body ev) of
       Inl e \<Rightarrow> raise (Failed (wrap (''unmarshal '' @ what) e))
     | Inr b \<Rightarrow> ret b)) l"

text \<open>The field \<open>ok\<close> of the responses that have one.\<close>

fun resp_Ok :: "body \<Rightarrow> bool" where
  "resp_Ok (AuthResultMsg ok _ _ _ _ _) = ok"
| "resp_Ok (CreateSpaceResp ok _ _ _) = ok"
| "resp_Ok (GetCreateSpacePermissionsResp ok _ _) = ok"
| "resp_Ok (GetCreateGroupPermissionsResp ok _ _ _ _ _) = ok"
| "resp_Ok (SubscribeChannelResp ok _ _ _) = ok"
| "resp_Ok (AdminSetSpaceMemberRoleResp ok _ _ _ _) = ok"
| "resp_Ok (AdminSetSpaceChannelCreationResp ok _ _ _) = ok"
| "resp_Ok (AdminSetGroupAutoDeleteResp ok _ _ _ _) = ok"
| "resp_Ok (JoinSpaceResp ok _ _ _) = ok"
| "resp_Ok (InviteSpaceMemberResp ok _ _ _ _) = ok"
| "resp_Ok (KickSpaceMemberResp ok _ _ _ _) = ok"
| "resp_Ok (BanSpaceMemberResp ok _ _ _ _) = ok"
| "resp_Ok (UnbanSpaceMemberResp ok _ _ _ _) = ok"
| "resp_Ok (CreateGroupResp ok _ _ _ _) = ok"
| "resp_Ok (SendMessageAck ack) = sa_Ok ack"
| "resp_Ok _ = False"

definition accepted :: "string \<Rightarrow> body \<Rightarrow> body client" where
  "accepted rejected b = (if \<not> resp_Ok b then raise (Failed (Errorf rejected)) else ret b)"

definition accepted_only :: "string \<Rightarrow> body \<Rightarrow> unit client" where
  "accepted_only rejected b = (if \<not> resp_Ok b then raise (Failed (Errorf rejected)) else ret ())"

definition setMemberRole :: "'pk env \<Rightarrow> client_lib \<Rightarrow> nat \<Rightarrow> uint32 \<Rightarrow> string \<Rightarrow> enum \<Rightarrow> unit client" where
  "setMemberRole E C i spaceID targetUserID rl =
     bind_e (call E C i MsgType_ADMIN_SET_SPACE_MEMBER_ROLE_REQ ''set-role''
       (AdminSetSpaceMemberRoleReq \<lparr>sr_SpaceId = spaceID, sr_TargetUserId = targetUserID, sr_Role = rl\<rparr>)
       MsgType_ADMIN_SET_SPACE_MEMBER_ROLE_RESP ''set member role resp'') (accepted_only ''set member role rejected'')"

definition setSpaceAllowChannelCreation :: "'pk env \<Rightarrow> client_lib \<Rightarrow> nat \<Rightarrow> uint32 \<Rightarrow> bool \<Rightarrow> unit client" where
  "setSpaceAllowChannelCreation E C i spaceID enabled =
     bind_e (call E C i MsgType_ADMIN_SET_SPACE_CHANNEL_CREATION_REQ ''set-create'' (AdminSetSpaceChannelCreationReq spaceID enabled)
       MsgType_ADMIN_SET_SPACE_CHANNEL_CREATION_RESP ''set channel creation resp'') (accepted_only ''set channel creation rejected'')"

definition createGroupChannel :: "'pk env \<Rightarrow> client_lib \<Rightarrow> nat \<Rightarrow> uint32 \<Rightarrow> string \<Rightarrow> string \<Rightarrow> body client" where
  "createGroupChannel E C i spaceID name description =
     bind_e (call E C i MsgType_CREATE_GROUP_REQ ''create-group''
       (CreateGroupReq \<lparr>cr_SpaceId = spaceID, cr_Name = name, cr_Description = description, cr_Visibility = Visibility_PUBLIC,
          cr_SlowModeSeconds = 0\<rparr>)
       MsgType_CREATE_GROUP_RESP ''create group resp'') (accepted ''create group rejected'')"

definition setGroupAutoDelete :: "'pk env \<Rightarrow> client_lib \<Rightarrow> nat \<Rightarrow> uint32 \<Rightarrow> uint32 \<Rightarrow> body client" where
  "setGroupAutoDelete E C i channelID seconds =
     bind_e (call E C i MsgType_ADMIN_SET_GROUP_AUTO_DELETE_REQ ''group-auto-delete'' (AdminSetGroupAutoDeleteReq channelID seconds)
       MsgType_ADMIN_SET_GROUP_AUTO_DELETE_RESP ''group auto delete resp'') (accepted ''set group auto delete rejected'')"

definition client_joinSpace :: "'pk env \<Rightarrow> client_lib \<Rightarrow> nat \<Rightarrow> uint32 \<Rightarrow> body client" where
  "client_joinSpace E C i spaceID =
     bind_e (call E C i MsgType_JOIN_SPACE_REQ ''join'' (JoinSpaceReq spaceID) MsgType_JOIN_SPACE_RESP ''join space resp'')
       (accepted ''join space rejected'')"

definition client_inviteSpaceMember :: "'pk env \<Rightarrow> client_lib \<Rightarrow> nat \<Rightarrow> uint32 \<Rightarrow> string \<Rightarrow> body client" where
  "client_inviteSpaceMember E C i spaceID targetUserID =
     bind_e (call E C i MsgType_INVITE_SPACE_MEMBER_REQ ''invite'' (InviteSpaceMemberReq spaceID targetUserID)
       MsgType_INVITE_SPACE_MEMBER_RESP ''invite space member resp'') (accepted ''invite space member rejected'')"

definition client_kickSpaceMember :: "'pk env \<Rightarrow> client_lib \<Rightarrow> nat \<Rightarrow> uint32 \<Rightarrow> string \<Rightarrow> body client" where
  "client_kickSpaceMember E C i spaceID targetUserID =
     bind_e (call E C i MsgType_KICK_SPACE_MEMBER_REQ ''kick'' (KickSpaceMemberReq spaceID targetUserID)
       MsgType_KICK_SPACE_MEMBER_RESP ''kick space member resp'') (accepted ''kick space member rejected'')"

definition client_banSpaceMember :: "'pk env \<Rightarrow> client_lib \<Rightarrow> nat \<Rightarrow> uint32 \<Rightarrow> string \<Rightarrow> body client" where
  "client_banSpaceMember E C i spaceID targetUserID =
     bind_e (call E C i MsgType_BAN_SPACE_MEMBER_REQ ''ban'' (BanSpaceMemberReq spaceID targetUserID)
       MsgType_BAN_SPACE_MEMBER_RESP ''ban space member resp'') (accepted ''ban space member rejected'')"

definition client_unbanSpaceMember :: "'pk env \<Rightarrow> client_lib \<Rightarrow> nat \<Rightarrow> uint32 \<Rightarrow> string \<Rightarrow> body client" where
  "client_unbanSpaceMember E C i spaceID targetUserID =
     bind_e (call E C i MsgType_UNBAN_SPACE_MEMBER_REQ ''unban'' (UnbanSpaceMemberReq spaceID targetUserID)
       MsgType_UNBAN_SPACE_MEMBER_RESP ''unban space member resp'') (accepted ''unban space member rejected'')"

definition client_listSpaces :: "'pk env \<Rightarrow> client_lib \<Rightarrow> nat \<Rightarrow> space_summary list client" where
  "client_listSpaces E C i =
     bind_e (call E C i MsgType_LIST_SPACES_REQ ''list-spaces'' ListSpacesReq MsgType_LIST_SPACES_RESP ''list spaces resp'') (\<lambda>b.
     case b of ListSpacesResp spaces \<Rightarrow> ret spaces | _ \<Rightarrow> raise (Failed DriverErr))"

definition client_listChannels :: "'pk env \<Rightarrow> client_lib \<Rightarrow> nat \<Rightarrow> uint32 \<Rightarrow> channel_summary list client" where
  "client_listChannels E C i spaceID =
     bind_e (call E C i MsgType_LIST_CHANNELS_REQ ''list-channels'' (ListChannelsReq spaceID)
       MsgType_LIST_CHANNELS_RESP ''list channels resp'') (\<lambda>b.
     case b of ListChannelsResp _ chans \<Rightarrow> ret chans | _ \<Rightarrow> raise (Failed DriverErr))"

definition client_listSpaceMembers :: "'pk env \<Rightarrow> client_lib \<Rightarrow> nat \<Rightarrow> uint32 \<Rightarrow> uint64 \<Rightarrow> uint32 \<Rightarrow> list_space_members_resp client" where
  "client_listSpaceMembers E C i spaceID afterMemberID limit =
     bind_e (call E C i MsgType_LIST_SPACE_MEMBERS_REQ ''list-members''
       (ListSpaceMembersReq \<lparr>lm_SpaceId = spaceID, lm_AfterMemberId = afterMemberID, lm_Limit = limit\<rparr>)
       MsgType_LIST_SPACE_MEMBERS_RESP ''list space members resp'') (\<lambda>b.
     case b of ListSpaceMembersResp resp \<Rightarrow> ret resp | _ \<Rightarrow> raise (Failed DriverErr))"

definition getCreateSpacePermissions :: "'pk env \<Rightarrow> client_lib \<Rightarrow> nat \<Rightarrow> body client" where
  "getCreateSpacePermissions E C i =
     bind_e (call E C i MsgType_GET_CREATE_SPACE_PERMISSIONS_REQ ''server-perms'' GetCreateSpacePermissionsReq
       MsgType_GET_CREATE_SPACE_PERMISSIONS_RESP ''get create-space permissions resp'') (accepted ''get create-space permissions rejected'')"

definition getSpacePermissions :: "'pk env \<Rightarrow> client_lib \<Rightarrow> nat \<Rightarrow> uint32 \<Rightarrow> body client" where
  "getSpacePermissions E C i spaceID =
     bind_e (call E C i MsgType_GET_CREATE_GROUP_PERMISSIONS_REQ ''space-perms'' (GetCreateGroupPermissionsReq spaceID)
       MsgType_GET_CREATE_GROUP_PERMISSIONS_RESP ''get create-group permissions resp'') (accepted ''get create-group permissions rejected'')"

definition createSpaceRPC :: "'pk env \<Rightarrow> client_lib \<Rightarrow> nat \<Rightarrow> string \<Rightarrow> string \<Rightarrow> enum \<Rightarrow> bool \<Rightarrow> body client" where
  "createSpaceRPC E C i name description vis allowChannelCreation =
     bind_e (call E C i MsgType_CREATE_SPACE_REQ ''create-space''
       (CreateSpaceReq \<lparr>cq_Name = name, cq_Description = description, cq_Visibility = vis, cq_AllowChannelCreation = allowChannelCreation\<rparr>)
       MsgType_CREATE_SPACE_RESP ''create space resp'') (accepted ''create space rejected'')"

definition subscribeChannel :: "'pk env \<Rightarrow> client_lib \<Rightarrow> nat \<Rightarrow> uint32 \<Rightarrow> uint64 \<Rightarrow> unit client" where
  "subscribeChannel E C i channelID lastSeenSeq =
     bind_e (call E C i MsgType_SUBSCRIBE_CHANNEL_REQ ''subscribe'' (SubscribeChannelReq channelID lastSeenSeq)
       MsgType_SUBSCRIBE_CHANNEL_RESP ''subscribe resp'') (accepted_only ''subscribe rejected'')"

definition client_syncChannel :: "'pk env \<Rightarrow> client_lib \<Rightarrow> nat \<Rightarrow> uint32 \<Rightarrow> uint64 \<Rightarrow> uint32 \<Rightarrow> (message_event list \<times> uint64 \<times> bool) client" where
  "client_syncChannel E C i channelID afterSeq limit =
     bind_e (call E C i MsgType_SYNC_CHANNEL_REQ ''sync''
       (SyncChannelReq \<lparr>sy_ChannelId = channelID, sy_AfterSeq = afterSeq, sy_Limit = limit\<rparr>)
       MsgType_SYNC_CHANNEL_RESP ''sync resp'') (\<lambda>b.
     case b of SyncChannelResp _ msgs nextAfterSeq hasMore \<Rightarrow> ret (msgs, nextAfterSeq, hasMore) | _ \<Rightarrow> raise (Failed DriverErr))"

definition sendTextMessage :: "'pk env \<Rightarrow> client_lib \<Rightarrow> nat \<Rightarrow> uint32 \<Rightarrow> string \<Rightarrow> body client" where
  "sendTextMessage E C i channelID text l =
     bind_e (call E C i MsgType_SEND_MESSAGE_REQ ''send''
       (SendMessageReq \<lparr>sq_ChannelId = channelID, sq_ClientMsgId = requestID ''client'' l, sq_MessageType = MessageType_TEXT,
          sq_Content = Some \<lparr>mc_Images = [], mc_Files = [], mc_Text = text\<rparr>\<rparr>)
       MsgType_SEND_MESSAGE_ACK ''send ack'') (accepted ''message rejected'') l"

text \<open>
  The login: the challenge of the server is signed and sent back.
\<close>

definition prove_challenge :: "'pk env \<Rightarrow> client_lib \<Rightarrow> nat \<Rightarrow> string \<Rightarrow> string \<Rightarrow> body \<Rightarrow> body client" where
  "prove_challenge E C i clientPeerID protocolID b =
     (case b of
        AuthChallengeMsg nodePeerId nonce issuedAtMs expiresAtMs _ \<Rightarrow>
          (let payload = BuildChallengePayload protocolID \<lparr>cl_ClientPeerID = clientPeerID, cl_NodePeerID = nodePeerId, cl_Nonce = nonce,
                 cl_IssuedAt = sint issuedAtMs, cl_ExpiresAt = sint expiresAtMs, cl_Payload = []\<rparr>
           in case ck_Sign C payload of
                Inl e \<Rightarrow> raise (Failed (wrap ''sign challenge'' e))
              | Inr signature \<Rightarrow> (case ck_MarshalPublicKey C of
                  Inl e \<Rightarrow> raise (Failed (wrap ''marshal public key'' e))
                | Inr publicKey \<Rightarrow>
                    bind_e (call E C i MsgType_AUTH_PROVE ''prove''
                      (AuthProveReq \<lparr>ap_ClientPeerId = clientPeerID, ap_Nonce = nonce, ap_IssuedAtMs = issuedAtMs,
                         ap_ExpiresAtMs = expiresAtMs, ap_Signature = signature, ap_PublicKey = publicKey\<rparr>)
                      MsgType_AUTH_RESULT ''auth result'') (accepted ''authentication rejected'')))
      | _ \<Rightarrow> raise (Failed DriverErr))"

definition authenticate :: "'pk env \<Rightarrow> client_lib \<Rightarrow> nat \<Rightarrow> string \<Rightarrow> string \<Rightarrow> string \<Rightarrow> body client" where
  "authenticate E C i clientPeerID clientAgent protocolID =
     bind_e (call E C i MsgType_HELLO ''hello''
       (HelloReq \<lparr>he_ClientPeerId = clientPeerID, he_ClientAgent = clientAgent, he_ProtocolVersion = ''1.0.0''\<rparr>)
       MsgType_AUTH_CHALLENGE ''auth challenge'') (prove_challenge E C i clientPeerID protocolID)"

section \<open>Flags\<close>

definition parseMemberRole :: "string \<Rightarrow> err + enum" where
  "parseMemberRole val =
     (let v = ToLower_ascii (TrimSpace val) in
      if v = ''owner'' then Inr MemberRole_OWNER
      else if v = ''admin'' then Inr MemberRole_ADMIN
      else if v = ''member'' then Inr MemberRole_MEMBER
      else if v = ''subscriber'' then Inr MemberRole_SUBSCRIBER
      else Inl (Errorf ''unsupported role''))"

definition parseVisibility :: "string \<Rightarrow> err + enum" where
  "parseVisibility val =
     (let v = ToLower_ascii (TrimSpace val) in
      if v = ''public'' then Inr Visibility_PUBLIC
      else if v = ''private'' then Inr Visibility_PRIVATE
      else Inl (Errorf ''unsupported visibility''))"

section \<open>Lemmas: one exchange\<close>

text \<open>Everything is ready for an exchange: both directions are writable and nothing is unread.\<close>

definition link_ready :: "nat \<Rightarrow> link \<Rightarrow> bool" where
  "link_ready i l \<longleftrightarrow> wi_faults (ln_out l) = [] \<and> wi_faults (mn_wires (ln_server l) i) = [] \<and>
     ln_seen l = length (wi_out (mn_wires (ln_server l) i))"

definition fits_frame :: "'pk env \<Rightarrow> envelope \<Rightarrow> bool" where
  "fits_frame E ev \<longleftrightarrow> (\<exists>p. pb_MarshalEnvelope (en_pb E) ev = Inr p \<and> length p \<le> MaxEnvelopeBytes)"

lemma client_write_served:
  assumes "pb_ok (en_pb E)" "wi_faults (ln_out l) = []" "mustEnvelope C ty rid req l = Inr ev" "fits_frame E ev"
  shows "\<exists>w. wi_faults w = [] \<and>
    client_writeEnvelope E C i ty rid req l = (Inr (), l\<lparr>ln_out := w, ln_server := serve E i ev (ln_server l)\<rparr>)"
proof -
  obtain p where p: "pb_MarshalEnvelope (en_pb E) ev = Inr p" "length p \<le> MaxEnvelopeBytes" using assms(4) by (auto simp: fits_frame_def)
  then have "pb_Envelope (en_pb E) p = Inr ev" using assms(1) by (simp add: pb_ok_def)
  then have "ReadEnvelope (en_pb E) (frame p @ []) = (Inr ev, [])" using p(2) by (rule ReadEnvelope_frame)
  with p assms(2,3) show ?thesis
    by (intro exI [of _ "ln_out l\<lparr>wi_out := wi_out (ln_out l) @ frame p\<rparr>"])
      (simp add: client_writeEnvelope_def WriteEnvelope_ok server_turn_def)
qed

lemma read_frame:
  assumes "pb_ok (en_pb E)" "pb_MarshalEnvelope (en_pb E) ans = Inr p" "length p \<le> MaxEnvelopeBytes" "unread i l = frame p @ rest"
  shows "readEnvelopeExpect E i want l =
    ((if ev_MsgType ans = want then Inr ans else Inl (unexpected E (ev_MsgType ans) want)), l\<lparr>ln_seen := ln_seen l + length (frame p)\<rparr>)"
proof -
  have "pb_Envelope (en_pb E) p = Inr ans" using assms(1,2) by (simp add: pb_ok_def)
  with assms(3,4) show ?thesis by (simp add: readEnvelopeExpect_def ReadEnvelope_frame)
qed

lemma read_nothing: "unread i l = [] \<Longrightarrow> readEnvelopeExpect E i want l = (Inl Blocked, l)"
  by (simp add: readEnvelopeExpect_def ReadEnvelope_def ReadFull_def bind_e_def)

lemma mustEnvelope_fields:
  "mustEnvelope C ty rid req l = Inr ev \<Longrightarrow> ev_MsgType ev = ty \<and> ev_RequestId ev = rid \<and> ck_Marshal C req = Inr (ev_Body ev)"
  by (auto simp: mustEnvelope_def split: sum.splits)

text \<open>After the client has written, the server's answer is the next frame after what was there.\<close>

lemma client_write_answered:
  assumes "pb_ok (en_pb E)" and wr: "wi_faults (ln_out l) = []" "wi_faults (mn_wires (ln_server l) i) = []"
    and ev: "mustEnvelope C ty rid req l = Inr ev" "fits_frame E ev"
    and fits: "\<And>e M'. dispatch E i ev (ln_server l) = (Inl e, M') \<Longrightarrow>
      event_bytes E (now_ms (mn_store M')) MsgType_ERROR rid (ErrorMsg 400 (error_text e)) \<noteq> None"
    and ty: "ty \<notin> {MsgType_CHANNEL_DELIVER_ACK, MsgType_CHANNEL_READ_UPDATE}"
    and seen: "ln_seen l \<le> length (wi_out (mn_wires (ln_server l) i))"
  obtains l1 p ans rest where "client_writeEnvelope E C i ty rid req l = (Inr (), l1)" "ln_server l1 = serve E i ev (ln_server l)"
    "unread i l1 = unread i l @ frame p @ rest" "pb_MarshalEnvelope (en_pb E) ans = Inr p" "length p \<le> MaxEnvelopeBytes"
    "ev_RequestId ans = rid"
proof -
  obtain w where w: "client_writeEnvelope E C i ty rid req l = (Inr (), l\<lparr>ln_out := w, ln_server := serve E i ev (ln_server l)\<rparr>)"
    (is "_ = (Inr (), ?l1)") using client_write_served [OF assms(1) wr(1) ev] by blast
  have "answered E i rid (wi_out (mn_wires (ln_server l) i)) (serve E i ev (ln_server l))"
    using serve_answered [of E i ev "ln_server l"] fits wr(2) ty mustEnvelope_fields [OF ev(1)] by simp
  then obtain p ans rest where a: "wi_out (mn_wires (serve E i ev (ln_server l)) i) = wi_out (mn_wires (ln_server l) i) @ frame p @ rest"
    "pb_MarshalEnvelope (en_pb E) ans = Inr p" "length p \<le> MaxEnvelopeBytes" "ev_RequestId ans = rid" by (auto simp: answered_def)
  have "unread i ?l1 = unread i l @ frame p @ rest" using seen by (simp add: unread_def a(1))
  with that [OF w] a(2-4) show ?thesis by simp
qed

text \<open>
  C12: a call of the client is answered. On a ready link, whatever request with a response the
  client sends, the server handles it exactly once, and the frame the client reads is the
  server's answer to this very request: it is returned when it has the expected type, and
  reported as an unexpected frame otherwise. The client neither waits for ever nor takes a
  later event for the answer. (If the request fails, the frame for its error has to be one
  that can be encoded.)
\<close>

theorem client_call_answered:
  assumes "pb_ok (en_pb E)" "link_ready i l" "mustEnvelope C ty rid req l = Inr ev" "fits_frame E ev"
    and "\<And>e M'. dispatch E i ev (ln_server l) = (Inl e, M') \<Longrightarrow>
      event_bytes E (now_ms (mn_store M')) MsgType_ERROR rid (ErrorMsg 400 (error_text e)) \<noteq> None"
    and "ty \<notin> {MsgType_CHANNEL_DELIVER_ACK, MsgType_CHANNEL_READ_UPDATE}"
  shows "\<exists>ans l'. bind_e (client_writeEnvelope E C i ty rid req) (\<lambda>_. readEnvelopeExpect E i want) l =
      ((if ev_MsgType ans = want then Inr ans else Inl (unexpected E (ev_MsgType ans) want)), l') \<and>
    ev_RequestId ans = rid \<and> ln_server l' = serve E i ev (ln_server l)"
proof -
  have r: "wi_faults (ln_out l) = []" "wi_faults (mn_wires (ln_server l) i) = []" "ln_seen l = length (wi_out (mn_wires (ln_server l) i))"
    using assms(2) by (simp_all add: link_ready_def)
  obtain l1 p ans rest where l1: "client_writeEnvelope E C i ty rid req l = (Inr (), l1)" "ln_server l1 = serve E i ev (ln_server l)"
    "unread i l1 = unread i l @ frame p @ rest" and ans: "pb_MarshalEnvelope (en_pb E) ans = Inr p" "length p \<le> MaxEnvelopeBytes"
    "ev_RequestId ans = rid"
    by (rule client_write_answered [OF assms(1) r(1,2) assms(3-6)]) (simp_all add: r(3))
  have "unread i l1 = frame p @ rest" using l1(3) r(3) by (simp add: unread_def)
  from read_frame [OF assms(1) ans(1,2) this, of want] l1 ans(3) show ?thesis
    by (intro exI [of _ ans]) (simp add: bind_e_def)
qed

text \<open>
  C38: an event that overtakes the answer makes the call fail. When another frame, such as the
  event for a message of somebody else, is still unread, the client reports it as unexpected
  although the server has handled the request: a message may be stored and reported as not
  sent.
\<close>

theorem client_call_overtaken:
  assumes "pb_ok (en_pb E)" "wi_faults (ln_out l) = []" "wi_faults (mn_wires (ln_server l) i) = []"
    and "mustEnvelope C ty rid req l = Inr ev" "fits_frame E ev"
    and "\<And>e M'. dispatch E i ev (ln_server l) = (Inl e, M') \<Longrightarrow>
      event_bytes E (now_ms (mn_store M')) MsgType_ERROR rid (ErrorMsg 400 (error_text e)) \<noteq> None"
    and "ty \<notin> {MsgType_CHANNEL_DELIVER_ACK, MsgType_CHANNEL_READ_UPDATE}"
    and event: "pb_MarshalEnvelope (en_pb E) event = Inr q" "length q \<le> MaxEnvelopeBytes" "unread i l = frame q @ later"
      "ev_MsgType event \<noteq> want"
  shows "\<exists>l'. bind_e (client_writeEnvelope E C i ty rid req) (\<lambda>_. readEnvelopeExpect E i want) l =
      (Inl (unexpected E (ev_MsgType event) want), l') \<and> ln_server l' = serve E i ev (ln_server l)"
proof -
  have "unread i l \<noteq> []" using event(3) by (simp add: frame_def be32_def)
  then have seen: "ln_seen l \<le> length (wi_out (mn_wires (ln_server l) i))" by (auto simp: unread_def)
  obtain l1 p ans rest where l1: "client_writeEnvelope E C i ty rid req l = (Inr (), l1)" "ln_server l1 = serve E i ev (ln_server l)"
    "unread i l1 = unread i l @ frame p @ rest"
    by (rule client_write_answered [OF assms(1-7) seen])
  have "unread i l1 = frame q @ (later @ frame p @ rest)" using l1(3) event(3) by simp
  from read_frame [OF assms(1) event(1,2) this, of want] l1 event(4) show ?thesis by (simp add: bind_e_def)
qed

section \<open>Agreement on the login\<close>

text \<open>The session has written one frame, an envelope of this type.\<close>

definition one_frame :: "'pk env \<Rightarrow> nat \<Rightarrow> byte list \<Rightarrow> enum \<Rightarrow> manager \<Rightarrow> bool" where
  "one_frame E i out ty M \<longleftrightarrow> (\<exists>p envl. mn_wires M i = \<lparr>wi_faults = [], wi_out = out @ frame p\<rparr> \<and>
     pb_MarshalEnvelope (en_pb E) envl = Inr p \<and> length p \<le> MaxEnvelopeBytes \<and> ev_MsgType envl = ty)"

lemma NewEnvelope_type: "NewEnvelope P nw ty rq b = Inr envl \<Longrightarrow> ev_MsgType envl = ty"
  by (auto simp: NewEnvelope_def split: sum.splits)

lemma sess_write_one:
  "triple (quiet i out) (sess_write E i ty rq b) (\<lambda>_. one_frame E i out ty) (\<lambda>_. quiet i out)"
  unfolding triple_def
  by (auto simp: sess_write_eq on_wire_def lift_e_def quiet_def WriteEnvelope_quiet one_frame_def not_less
      split: sum.splits prod.splits if_splits dest: NewEnvelope_type)

lemma hello_one: "triple (quiet i out) (handle_hello E i ev) (\<lambda>_. one_frame E i out MsgType_AUTH_CHALLENGE) (\<lambda>_. quiet i out)"
  unfolding handle_hello_def by (intro triple_intros triple_session sess_write_one)

text \<open>What the server says and does when it accepts a proof.\<close>

definition told :: "'pk env \<Rightarrow> nat \<Rightarrow> byte list \<Rightarrow> manager \<Rightarrow> bool" where
  "told E i out M \<longleftrightarrow> (\<exists>res spaces envl p. login i M = (True, Some res) \<and>
     pb_Marshal (en_pb E) (AuthResultMsg True (ar_SessionID res) (us_UserID (ar_User res)) (us_DisplayName (ar_User res))
       (ar_Message res) spaces) = Inr (ev_Body envl) \<and>
     mn_wires M i = \<lparr>wi_faults = [], wi_out = out @ frame p\<rparr> \<and>
     pb_MarshalEnvelope (en_pb E) envl = Inr p \<and> length p \<le> MaxEnvelopeBytes)"

lemma NewEnvelope_body: "NewEnvelope P nw ty rq b = Inr envl \<Longrightarrow> pb_Marshal P b = Inr (ev_Body envl)"
  by (auto simp: NewEnvelope_def MarshalBody_def split: sum.splits)

lemma request_Inr: "request dec ev M = (Inr x, M') \<longleftrightarrow> M' = M \<and> dec (ev_Body ev) = Inr x"
  by (auto simp: UnmarshalBody_def split: sum.splits)

lemma prove_challenge_Inr:
  "prove_challenge E C i peer proto b l = (Inr r, l') \<Longrightarrow>
     \<exists>req. call E C i MsgType_AUTH_PROVE ''prove'' req MsgType_AUTH_RESULT ''auth result'' l = (Inr r, l')"
  by (cases b) (auto simp: prove_challenge_def accepted_def bind_e_Inr Let_def split: sum.splits if_splits)

lemma sess_write_quiet:
  assumes "sess_write E i ty rq b M = (Inr x, M')" "quiet i out M"
  obtains envl p where "pb_Marshal (en_pb E) b = Inr (ev_Body envl)" "pb_MarshalEnvelope (en_pb E) envl = Inr p"
    "length p \<le> MaxEnvelopeBytes" "mn_sessions M' = mn_sessions M" "mn_wires M' i = \<lparr>wi_faults = [], wi_out = out @ frame p\<rparr>"
  using assms
  by (auto simp: sess_write_eq on_wire_def lift_e_def quiet_def WriteEnvelope_quiet not_less
      split: sum.splits prod.splits if_splits dest!: NewEnvelope_body)

lemma prove_told:
  assumes "handle_auth_prove E i ev M = (Inr x, M')" "quiet i out M"
  shows "told E i out M'"
proof -
  from assms(1) obtain prove M1 where a: "Authenticate E i prove M = (Inr (), M1)" and
    rest: "(case cs_authResult (mn_sessions M1 i) of
        None \<Rightarrow> raise (Errorf ''authentication required'')
      | Some res \<Rightarrow> (let u = ar_User res in
          bind_e (in_store (ListSpaces (en_coll E) (us_ID u))) (\<lambda>servers.
          bind_e (in_store (spaceSummariesForViewer E servers (us_ID u) (us_PeerID u))) (\<lambda>spaces.
          bind_e (modify (registerDirectUserSession i)) (\<lambda>_.
          sess_write E i MsgType_AUTH_RESULT (ev_RequestId ev)
            (AuthResultMsg True (ar_SessionID res) (us_UserID u) (us_DisplayName u) (ar_Message res) spaces)))))) M1 = (Inr x, M')"
    unfolding handle_auth_prove_def by (auto simp: bind_e_Inr request_Inr)
  from a obtain res s' where "M1 = set_session i (\<lambda>s. s\<lparr>cs_authenticated := True, cs_authResult := Some res\<rparr>) (M\<lparr>mn_store := s'\<rparr>)"
    by (rule Authenticate_Inr)
  then have M1: "login i M1 = (True, Some res)" "mn_wires M1 = mn_wires M" "cs_authResult (mn_sessions M1 i) = Some res"
    by (simp_all add: login_def set_session_def)
  from rest M1(3) obtain s2 spaces where w: "sess_write E i MsgType_AUTH_RESULT (ev_RequestId ev)
      (AuthResultMsg True (ar_SessionID res) (us_UserID (ar_User res)) (us_DisplayName (ar_User res)) (ar_Message res) spaces)
      (registerDirectUserSession i (M1\<lparr>mn_store := s2\<rparr>)) = (Inr x, M')"
    by (auto simp: Let_def bind_e_Inr in_store_iff modify_iff)
  have q: "quiet i out (registerDirectUserSession i (M1\<lparr>mn_store := s2\<rparr>))" using assms(2) M1(2) by (simp add: quiet_def)
  have "mn_sessions (registerDirectUserSession i (M1\<lparr>mn_store := s2\<rparr>)) = mn_sessions M1"
    by (simp add: registerDirectUserSession_def Let_def split: option.splits)
  with sess_write_quiet [OF w q] M1(1) show ?thesis unfolding told_def login_def by metis
qed

lemma serve_cases:
  assumes "triple (quiet i out) (dispatch E i ev) (\<lambda>_. Q) (\<lambda>_. quiet i out)" "quiet i out M"
  shows "(\<exists>x. dispatch E i ev M = (Inr x, serve E i ev M)) \<and> Q (serve E i ev M) \<or>
    one_frame E i out MsgType_ERROR (serve E i ev M) \<or> quiet i out (serve E i ev M)"
proof (cases "dispatch E i ev M")
  case (Pair r M1)
  show ?thesis
  proof (cases r)
    case (Inr x)
    with Pair assms show ?thesis by (auto simp: serve_def triple_def dest!: spec [of _ M])
  next
    case (Inl e)
    with Pair assms have "quiet i out M1" by (auto simp: triple_def dest!: spec [of _ M])
    with sess_write_one [of i out E MsgType_ERROR "ev_RequestId ev" "ErrorMsg 400 (error_text e)", unfolded triple_def, THEN spec, of M1]
      Pair Inl show ?thesis
      by (auto simp: serve_def writeError_def split: prod.splits sum.splits)
  qed
qed

lemma client_write_Inr:
  assumes "client_writeEnvelope E C i ty rid req l = (Inr x, l1)" "pb_ok (en_pb E)" "wi_faults (ln_out l) = []"
  obtains ev w where "mustEnvelope C ty rid req l = Inr ev" "wi_faults w = []" "l1 = l\<lparr>ln_out := w, ln_server := serve E i ev (ln_server l)\<rparr>"
proof -
  from assms(1) obtain ev where ev: "mustEnvelope C ty rid req l = Inr ev" by (auto simp: client_writeEnvelope_def split: sum.splits)
  with assms(1) obtain w where "WriteEnvelope (en_pb E) ev (ln_out l) = (Inr (), w)"
    by (auto simp: client_writeEnvelope_def split: sum.splits prod.splits)
  then have "fits_frame E ev" by (rule WriteEnvelope_Inr) (auto simp: fits_frame_def)
  from client_write_served [OF assms(2,3) ev this, of i] that [OF ev] assms(1) show ?thesis by auto
qed

text \<open>
  A call that returns on a ready link: the frame it has read is the first one the server has
  written for the request, and the server's part of the link is as it left it.
\<close>

definition took_answer :: "'pk env \<Rightarrow> client_lib \<Rightarrow> nat \<Rightarrow> link \<Rightarrow> enum \<Rightarrow> body \<Rightarrow> link \<Rightarrow> bool" where
  "took_answer E C i l want b l2 \<longleftrightarrow>
     (let out = wi_out (mn_wires (ln_server l) i) in
      \<not> quiet i out (ln_server l2) \<and>
      (\<forall>p envl. mn_wires (ln_server l2) i = \<lparr>wi_faults = [], wi_out = out @ frame p\<rparr> \<and>
         pb_MarshalEnvelope (en_pb E) envl = Inr p \<and> length p \<le> MaxEnvelopeBytes \<longrightarrow>
         ev_MsgType envl = want \<and> ck_Unmarshal C want (ev_Body envl) = Inr b \<and> link_ready i l2))"

lemma took_answerD:
  assumes "took_answer E C i l want b l2" "one_frame E i (wi_out (mn_wires (ln_server l) i)) ty (ln_server l2)"
  shows "ty = want" "link_ready i l2"
  using assms by (auto simp: took_answer_def one_frame_def Let_def)

lemma call_Inr:
  assumes "call E C i ty pre req want what l = (Inr b, l2)" "pb_ok (en_pb E)" "link_ready i l"
  obtains ev where "ev_MsgType ev = ty" "ln_server l2 = serve E i ev (ln_server l)" "took_answer E C i l want b l2"
proof -
  have r: "wi_faults (ln_out l) = []" "ln_seen l = length (wi_out (mn_wires (ln_server l) i))" using assms(3) by (simp_all add: link_ready_def)
  from assms(1) obtain l1 envl where w: "client_writeEnvelope E C i ty (requestID pre l) req l = (Inr (), l1)"
    and rd: "readEnvelopeExpect E i want l1 = (Inr envl, l2)" and dec: "ck_Unmarshal C want (ev_Body envl) = Inr b"
    by (auto simp: call_def bind_e_Inr case_sum_Inr)
  from w assms(2) r(1) obtain ev w' where ev: "mustEnvelope C ty (requestID pre l) req l = Inr ev" "wi_faults w' = []"
    "l1 = l\<lparr>ln_out := w', ln_server := serve E i ev (ln_server l)\<rparr>" by (rule client_write_Inr)
  have l2: "ln_server l2 = ln_server l1" "ln_out l2 = ln_out l1"
    using rd by (auto simp: readEnvelopeExpect_def Let_def split: prod.splits sum.splits if_splits)
  have un: "unread i l1 = drop (length (wi_out (mn_wires (ln_server l) i))) (wi_out (mn_wires (ln_server l1) i))"
    using r(2) ev(3) by (simp add: unread_def)
  have "ev_MsgType envl' = want \<and> ck_Unmarshal C want (ev_Body envl') = Inr b \<and> link_ready i l2"
    if a: "mn_wires (ln_server l2) i = \<lparr>wi_faults = [], wi_out = wi_out (mn_wires (ln_server l) i) @ frame p\<rparr>"
      "pb_MarshalEnvelope (en_pb E) envl' = Inr p" "length p \<le> MaxEnvelopeBytes" for p envl'
  proof -
    have "unread i l1 = frame p @ []" using un a(1) l2(1) by simp
    from read_frame [OF assms(2) a(2,3) this, of want] rd have "envl' = envl" "ev_MsgType envl = want"
      "l2 = l1\<lparr>ln_seen := ln_seen l1 + length (frame p)\<rparr>" by (auto split: if_splits)
    with dec a(1) ev r(2) show ?thesis by (simp add: link_ready_def)
  qed
  moreover have "\<not> quiet i (wi_out (mn_wires (ln_server l) i)) (ln_server l2)"
    using read_nothing [of i l1 E want] rd un l2(1) by (auto simp: quiet_def)
  ultimately have "took_answer E C i l want b l2" unfolding took_answer_def Let_def by blast
  with mustEnvelope_fields [OF ev(1)] ev(3) l2(1) show ?thesis by (intro that [of ev]) simp_all
qed

text \<open>
  C11: client and server agree on a login. When \<open>authenticate\<close> returns on a link that was
  ready, the server's session is authenticated, and the session identifier, the user and the
  display name the client was told are those of the session.
\<close>

theorem login_agreement:
  assumes pb: "pb_ok (en_pb E)"
    and dec: "\<And>ok sid uid dn msg sps bs. pb_Marshal (en_pb E) (AuthResultMsg ok sid uid dn msg sps) = Inr bs \<Longrightarrow>
        ck_Unmarshal C MsgType_AUTH_RESULT bs = Inr (AuthResultMsg ok sid uid dn msg sps)"
    and ready: "link_ready i l"
    and run: "authenticate E C i peer agent proto l = (Inr b, l')"
  shows "\<exists>res sps. login i (ln_server l') = (True, Some res) \<and>
    b = AuthResultMsg True (ar_SessionID res) (us_UserID (ar_User res)) (us_DisplayName (ar_User res)) (ar_Message res) sps"
proof -
  from run obtain b1 l1 req where one: "call E C i MsgType_HELLO ''hello''
       (HelloReq \<lparr>he_ClientPeerId = peer, he_ClientAgent = agent, he_ProtocolVersion = ''1.0.0''\<rparr>)
       MsgType_AUTH_CHALLENGE ''auth challenge'' l = (Inr b1, l1)"
    and two: "call E C i MsgType_AUTH_PROVE ''prove'' req MsgType_AUTH_RESULT ''auth result'' l1 = (Inr b, l')"
    unfolding authenticate_def bind_e_Inr by (blast dest: prove_challenge_Inr)
  let ?out = "wi_out (mn_wires (ln_server l) i)"
  have q: "quiet i ?out (ln_server l)" using ready by (simp add: quiet_def link_ready_def)
  from one pb ready obtain ev where ev: "ev_MsgType ev = MsgType_HELLO" "ln_server l1 = serve E i ev (ln_server l)"
    and took: "took_answer E C i l MsgType_AUTH_CHALLENGE b1 l1" by (rule call_Inr)
  have "triple (quiet i ?out) (dispatch E i ev) (\<lambda>_. one_frame E i ?out MsgType_AUTH_CHALLENGE) (\<lambda>_. quiet i ?out)"
    using hello_one [of i ?out E ev] ev(1) by (simp add: dispatch_def triple_def)
  moreover have "\<not> quiet i ?out (ln_server l1)" using took by (simp add: took_answer_def Let_def)
  ultimately have ready1: "link_ready i l1" using serve_cases [OF _ q] ev(2) took_answerD(2) [OF took] by metis
  let ?out1 = "wi_out (mn_wires (ln_server l1) i)"
  have q1: "quiet i ?out1 (ln_server l1)" using ready1 by (simp add: quiet_def link_ready_def)
  from two pb ready1 obtain ev1 where ev1: "ev_MsgType ev1 = MsgType_AUTH_PROVE" "ln_server l' = serve E i ev1 (ln_server l1)"
    and took1: "took_answer E C i l1 MsgType_AUTH_RESULT b l'" by (rule call_Inr)
  have ty1: "ev_MsgType ev1 \<notin> {MsgType_CHANNEL_DELIVER_ACK, MsgType_CHANNEL_READ_UPDATE}" using ev1(1) by simp
  have "\<not> one_frame E i ?out1 MsgType_ERROR (ln_server l')" using took_answerD(1) [OF took1] by fastforce
  with serve_cases [OF dispatch_answered [OF ty1] q1] took1 ev1(2) obtain x where
    "dispatch E i ev1 (ln_server l1) = (Inr x, ln_server l')" by (auto simp: took_answer_def Let_def)
  then have "handle_auth_prove E i ev1 (ln_server l1) = (Inr x, ln_server l')" using ev1(1) by (simp add: dispatch_def)
  from prove_told [OF this q1] obtain res sps envl p where t: "login i (ln_server l') = (True, Some res)"
    "pb_Marshal (en_pb E) (AuthResultMsg True (ar_SessionID res) (us_UserID (ar_User res)) (us_DisplayName (ar_User res))
       (ar_Message res) sps) = Inr (ev_Body envl)"
    "mn_wires (ln_server l') i = \<lparr>wi_faults = [], wi_out = ?out1 @ frame p\<rparr>"
    "pb_MarshalEnvelope (en_pb E) envl = Inr p" "length p \<le> MaxEnvelopeBytes" unfolding told_def by blast
  have "ck_Unmarshal C MsgType_AUTH_RESULT (ev_Body envl) = Inr b"
    using took1 t(3-5) unfolding took_answer_def Let_def by blast
  with dec [OF t(2)] t(1) show ?thesis by auto
qed

section \<open>Instances\<close>

text \<open>
  A codec for envelopes without a body: the type, the time stamp and the request identifier.
\<close>

unbundle bit_operations_syntax

definition ex_encode :: "envelope \<Rightarrow> err + byte list" where
  "ex_encode envl =
     (if ev_Version envl = 1 \<and> 0 \<le> ev_MsgType envl \<and> ev_MsgType envl < 256 \<and> length (ev_RequestId envl) < 256
      then Inr (of_int (ev_MsgType envl) # be32 (ucast (drop_bit 32 (ev_TimestampMs envl))) @ be32 (ucast (ev_TimestampMs envl)) @
        of_nat (length (ev_RequestId envl)) # string_bytes (ev_RequestId envl) @ ev_Body envl)
      else Inl DriverErr)"

definition ex_decode :: "byte list \<Rightarrow> err + envelope" where
  "ex_decode bs =
     (let n = unat (hd (drop 9 bs)) in
      Inr \<lparr>ev_Version = 1, ev_MsgType = uint (hd bs), ev_RequestId = map (\<lambda>b. char_of (unat b)) (take n (drop 10 bs)),
        ev_TimestampMs = push_bit 32 (ucast (be32_value (take 4 (drop 1 bs)))) OR ucast (be32_value (take 4 (drop 5 bs))),
        ev_Body = drop n (drop 10 bs)\<rparr>)"

lemma halves: "push_bit 32 (ucast (ucast (drop_bit 32 t) :: uint32)) OR ucast (ucast t :: uint32) = (t :: 64 word)"
  by (rule bit_word_eqI) (auto simp: bit_simps)

lemma char_back: "char_of (unat (word_of_nat (of_char c) :: byte)) = c"
proof -
  have "of_char c < (256 :: nat)" by (cases c) (simp add: of_char_def)
  then show ?thesis by (simp add: unat_of_nat)
qed

lemma ex_decode_encode: "ex_encode envl = Inr p \<Longrightarrow> ex_decode p = Inr envl"
  by (cases envl) (auto simp: ex_encode_def ex_decode_def halves string_bytes_def o_def char_back unsigned_of_int take_bit_eq_mod
      unat_of_nat Let_def simp del: drop_drop split: if_splits)

text \<open>
  The instance of \<open>Session_Properties\<close> with this encoding. The body of an error is its text, the
  other bodies are empty; of the results of a login only the given one can be encoded, so that
  decoding it is no guess.
\<close>

definition ex_link_env :: "body \<Rightarrow> byte list env" where
  "ex_link_env ar = ex_env\<lparr>en_pb := (en_pb ex_env)\<lparr>pb_MarshalEnvelope := ex_encode, pb_Envelope := ex_decode,
     pb_Marshal := \<lambda>b. case b of AuthResultMsg _ _ _ _ _ _ \<Rightarrow> if b = ar then Inr [] else Inl DriverErr
       | ErrorMsg _ msg \<Rightarrow> Inr (string_bytes msg) | _ \<Rightarrow> Inr []\<rparr>\<rparr>"

abbreviation ex_challenge_msg :: body where
  "ex_challenge_msg \<equiv> AuthChallengeMsg ''n1'' (replicate 32 7) 100000 400000 ''meshserver-session''"

definition ex_client :: "body \<Rightarrow> client_lib" where
  "ex_client ar = \<lparr>ck_Marshal = \<lambda>_. Inr [],
     ck_Unmarshal = \<lambda>ty _. if ty = MsgType_AUTH_CHALLENGE
       then Inr ex_challenge_msg else Inr ar,
     ck_Sign = \<lambda>_. Inr [1], ck_MarshalPublicKey = Inr [1]\<rparr>"

lemma ex_link_pb_ok: "pb_ok (en_pb (ex_link_env ar))"
  by (simp add: pb_ok_def ex_link_env_def ex_decode_encode)

lemma ex_link_bytes:
  assumes "pb_Marshal (en_pb (ex_link_env ar)) b = Inr bd" "0 \<le> ty" "ty < 256" "length rid < 256" "length bd < 1000"
  shows "\<exists>p envl. event_bytes (ex_link_env ar) nw ty rid b = Some (frame p) \<and> length p \<le> MaxEnvelopeBytes \<and>
    pb_MarshalEnvelope (en_pb (ex_link_env ar)) envl = Inr p \<and> ev_MsgType envl = ty \<and> ev_Body envl = bd"
proof -
  let ?e = "\<lparr>ev_Version = 1, ev_MsgType = ty, ev_RequestId = rid, ev_TimestampMs = of_int nw, ev_Body = bd\<rparr>"
  have "NewEnvelope (en_pb (ex_link_env ar)) nw ty rid b = Inr ?e"
    using assms(1) by (simp add: NewEnvelope_def MarshalBody_def)
  moreover obtain p where p: "pb_MarshalEnvelope (en_pb (ex_link_env ar)) ?e = Inr p" "length p \<le> MaxEnvelopeBytes"
    using assms(2-5) by (simp add: ex_link_env_def ex_encode_def string_bytes_def MaxEnvelopeBytes_def)
  ultimately show ?thesis by (intro exI [of _ p] exI [of _ ?e]) (simp add: event_bytes_def)
qed

definition ex_link :: "manager \<Rightarrow> link" where
  "ex_link M = \<lparr>ln_server = M, ln_out = \<lparr>wi_faults = [], wi_out = []\<rparr>, ln_seen = 0, ln_clock = 100000000000\<rparr>"

lemma ex_request:
  assumes "0 \<le> ty" "ty < 256" "length rid < 256"
  shows "\<exists>ev. mustEnvelope (ex_client ar) ty rid req l = Inr ev \<and> fits_frame (ex_link_env ar) ev"
  using assms by (simp add: mustEnvelope_def ex_client_def fits_frame_def ex_link_env_def ex_encode_def string_bytes_def MaxEnvelopeBytes_def)

text \<open>A session that is not authenticated: the request fails, and the frame of its error fits.\<close>

lemma ex_error_fits:
  assumes "mustEnvelope C MsgType_LIST_SPACES_REQ ''r1'' req l = Inr ev" "cs_authResult (mn_sessions (ln_server l) 3) = None"
    and "dispatch (ex_link_env ar) 3 ev (ln_server l) = (Inl e, M')"
  shows "event_bytes (ex_link_env ar) (now_ms (mn_store M')) MsgType_ERROR ''r1'' (ErrorMsg 400 (error_text e)) \<noteq> None"
proof -
  have "e = Errorf ''authentication required''"
    using assms mustEnvelope_fields [OF assms(1)] by (simp add: dispatch_def raise_def)
  moreover have "pb_Marshal (en_pb (ex_link_env ar)) (ErrorMsg 400 ''authentication required'') =
      Inr (string_bytes ''authentication required'')" by (simp add: ex_link_env_def)
  ultimately show ?thesis
    using ex_link_bytes [of ar "ErrorMsg 400 ''authentication required''" _ MsgType_ERROR "''r1''" "now_ms (mn_store M')"]
    by (fastforce simp: string_bytes_def)
qed

theorem client_call_answered_witness:
  "\<exists>ev ans l'. bind_e (client_writeEnvelope (ex_link_env (PongMsg 0)) (ex_client (PongMsg 0)) 3 MsgType_LIST_SPACES_REQ ''r1'' ListSpacesReq)
      (\<lambda>_. readEnvelopeExpect (ex_link_env (PongMsg 0)) 3 MsgType_LIST_SPACES_RESP) (ex_link ex_manager) =
      ((if ev_MsgType ans = MsgType_LIST_SPACES_RESP then Inr ans
        else Inl (unexpected (ex_link_env (PongMsg 0)) (ev_MsgType ans) MsgType_LIST_SPACES_RESP)), l') \<and>
    ev_RequestId ans = ''r1'' \<and> ln_server l' = serve (ex_link_env (PongMsg 0)) 3 ev ex_manager"
proof -
  obtain ev where ev: "mustEnvelope (ex_client (PongMsg 0)) MsgType_LIST_SPACES_REQ ''r1'' ListSpacesReq (ex_link ex_manager) = Inr ev"
    "fits_frame (ex_link_env (PongMsg 0)) ev"
    using ex_request [of MsgType_LIST_SPACES_REQ "''r1''" "PongMsg 0" ListSpacesReq "ex_link ex_manager"] by auto
  have ready: "link_ready 3 (ex_link ex_manager)" by (simp add: link_ready_def ex_link_def ex_manager_def)
  have srv: "ln_server (ex_link ex_manager) = ex_manager" by (simp add: ex_link_def)
  have none: "cs_authResult (mn_sessions (ln_server (ex_link ex_manager)) 3) = None" by (simp add: ex_link_def ex_manager_def new_session_def)
  have ty: "MsgType_LIST_SPACES_REQ \<notin> {MsgType_CHANNEL_DELIVER_ACK, MsgType_CHANNEL_READ_UPDATE}" by simp
  from client_call_answered [OF ex_link_pb_ok ready ev ex_error_fits [OF ev(1) none] ty, of MsgType_LIST_SPACES_RESP] srv
  show ?thesis by metis
qed

text \<open>The event of a message has been written to the session and not been read.\<close>

definition ex_event :: envelope where
  "ex_event = \<lparr>ev_Version = 1, ev_MsgType = MsgType_MESSAGE_EVENT, ev_RequestId = [], ev_TimestampMs = 0, ev_Body = []\<rparr>"

definition ex_event_link :: link where
  "ex_event_link = ex_link (ex_manager\<lparr>mn_wires := \<lambda>_. \<lparr>wi_faults = [], wi_out = frame (projr (ex_encode ex_event))\<rparr>\<rparr>)"

theorem client_call_overtaken_witness:
  "\<exists>ev l'. bind_e (client_writeEnvelope (ex_link_env (PongMsg 0)) (ex_client (PongMsg 0)) 3 MsgType_LIST_SPACES_REQ ''r1'' ListSpacesReq)
      (\<lambda>_. readEnvelopeExpect (ex_link_env (PongMsg 0)) 3 MsgType_LIST_SPACES_RESP) ex_event_link =
      (Inl (unexpected (ex_link_env (PongMsg 0)) MsgType_MESSAGE_EVENT MsgType_LIST_SPACES_RESP), l') \<and>
    ln_server l' = serve (ex_link_env (PongMsg 0)) 3 ev (ln_server ex_event_link)"
proof -
  obtain ev where ev: "mustEnvelope (ex_client (PongMsg 0)) MsgType_LIST_SPACES_REQ ''r1'' ListSpacesReq ex_event_link = Inr ev"
    "fits_frame (ex_link_env (PongMsg 0)) ev"
    using ex_request [of MsgType_LIST_SPACES_REQ "''r1''" "PongMsg 0" ListSpacesReq ex_event_link] by auto
  have wr: "wi_faults (ln_out ex_event_link) = []" "wi_faults (mn_wires (ln_server ex_event_link) 3) = []"
    by (simp_all add: ex_event_link_def ex_link_def)
  have enc: "pb_MarshalEnvelope (en_pb (ex_link_env (PongMsg 0))) ex_event = Inr (projr (ex_encode ex_event))"
    and len: "length (projr (ex_encode ex_event)) \<le> MaxEnvelopeBytes"
    by (simp_all add: ex_link_env_def ex_encode_def ex_event_def string_bytes_def MaxEnvelopeBytes_def)
  have un: "unread 3 ex_event_link = frame (projr (ex_encode ex_event)) @ []" by (simp add: unread_def ex_event_link_def ex_link_def)
  have none: "cs_authResult (mn_sessions (ln_server ex_event_link) 3) = None"
    by (simp add: ex_event_link_def ex_link_def ex_manager_def new_session_def)
  from client_call_overtaken [OF ex_link_pb_ok wr ev ex_error_fits [OF ev(1) none] _ enc len un, of MsgType_LIST_SPACES_RESP]
  show ?thesis by (simp add: ex_event_def) blast
qed

text \<open>The known peer, a member of no space, before its login on session 3.\<close>

definition ex_lone :: store where
  "ex_lone = ex_random\<lparr>tabs := (tabs ex_random)\<lparr>server_members := []\<rparr>\<rparr>"

lemma ex_issue_lone:
  obtains s1 where "IssueChallenge ex_auth defaults ''p1'' ''n1'' ex_lone = (Inr ex_challenge, s1)" "faults s1 = []"
    "now_ms s1 = 100000" "users (tabs s1) = users ex_tables" "server_members (tabs s1) = []" "entropy s1 = []"
proof -
  have ttl: "cf_ChallengeTTL defaults = 300000000000" by (simp add: defaults_def)
  have rnd: "rand_Read 32 ex_lone = (Inr (Some (replicate 32 7)) :: err + byte list option, ex_lone\<lparr>entropy := []\<rparr>)"
    by (simp add: rand_Read_def rand_buffer_def ex_lone_def ex_random_def)
  have clk: "now_ms ex_lone = 100000" by (simp add: now_ms_def ex_lone_def ex_random_def ex_store_def)
  obtain s1 where st: "StoreNonce ex_coll (nonceHash ex_auth (replicate 32 7)) ''p1'' ''n1'' 100000 400000
      (ex_lone\<lparr>entropy := []\<rparr>) = (Inr (), s1)" and s1: "faults s1 = []" "now_ms s1 = 100000" "users (tabs s1) = users ex_tables"
      "server_members (tabs s1) = []" "entropy s1 = []"
    by (simp add: StoreNonce_def bind_e_def now_def map_err_def sql_exec_def insert_row_def auto_id_def tick_def faulty_def
        now_ms_def ex_lone_def ex_random_def ex_store_def ex_tables_def empty_tables_def)
  have coll: "ae_coll ex_auth = ex_coll" by (simp add: ex_auth_def)
  show ?thesis
    using st s1 that by (simp add: IssueChallenge_def bind_e_def now_def ttl coll rnd clk ex_challenge_def Let_def)
qed

text \<open>The service adds no faults and no memberships.\<close>

lemma calm_sql: "keeps (\<lambda>s. faults s = []) (sql_exec f)" "keeps (\<lambda>s. faults s = []) (sql_select q)"
    "keeps (\<lambda>s. faults s = []) (rand_Read n)" "keeps (\<lambda>s. faults s = []) (sql_update g)"
  by (auto simp: keeps_def sql_exec_def sql_select_def rand_Read_def tick_def sql_update_def split: sum.splits list.splits)

lemma calm_verify: "keeps (\<lambda>s. faults s = []) (VerifyChallenge A cfg inp)"
  unfolding VerifyChallenge_def UseNonce_def CreateIfNotExistsByPeerID_def GetByPeerID_def fetchOne_def UpdateLogin_def newSessionID_def
    newExternalID_def
  by (intro keeps_intros calm_sql)

lemma lone_verify: "keeps (on_tabs (\<lambda>t. server_members t = [])) (VerifyChallenge A cfg inp)"
  unfolding VerifyChallenge_def UseNonce_def CreateIfNotExistsByPeerID_def GetByPeerID_def UpdateLogin_def newSessionID_def
  by (intro keeps_intros) (auto simp: upsert_user_def Let_def split: option.splits sum.splits)

lemma lone_list: "faults s = [] \<Longrightarrow> server_members (tabs s) = [] \<Longrightarrow> ListSpaces coll u s = (Inr [], tick s)"
proof -
  assume s: "faults s = []" "server_members (tabs s) = []"
  have "sort_key f xs = [] \<longleftrightarrow> xs = []" for f :: "server_row \<Rightarrow> nat list" and xs by (metis set_empty set_sort)
  with s show ?thesis by (simp add: ListSpaces_def ListByUserID_def map_err_def sql_select_def faulty_def)
qed

lemma ex_logged_in:
  assumes "IssueChallenge ex_auth defaults ''p1'' ''n1'' ex_lone = (Inr ex_challenge, s1)" "faults s1 = []"
    "now_ms s1 = 100000" "users (tabs s1) = users ex_tables" "server_members (tabs s1) = []"
  obtains res s2 where "VerifyChallenge ex_auth defaults (answer ex_challenge [1] [1]) s1 = (Inr res, s2)"
    "ListSpaces ex_coll (us_ID (ar_User res)) s2 = (Inr [], tick s2)"
proof -
  have "\<exists>u \<in> set (users (tabs s1)). ae_coll ex_auth (u_peer_id u) = ae_coll ex_auth ''p1''"
    by (simp add: assms(4) ex_tables_def ex_user_def)
  then obtain res s2 where v: "VerifyChallenge ex_auth defaults (answer ex_challenge [1] [1]) s1 = (Inr res, s2)"
    using answer_accepted [OF assms(1), of "[1]" "[1]" "[1]" s1] assms(2,3) by (auto simp: ex_auth_def ex_challenge_def Let_def)
  have "faults s2 = []" "server_members (tabs s2) = []"
    using calm_verify [of ex_auth defaults "answer ex_challenge [1] [1]"] lone_verify [of ex_auth defaults "answer ex_challenge [1] [1]"]
      assms(2,5) v by (auto simp: keeps_def on_tabs_def dest!: spec [of _ s1])
  with that [OF v] show ?thesis by (simp add: lone_list)
qed

text \<open>The envelope a call sends, and what the call returns when the server has answered it.\<close>

definition ex_sent :: "enum \<Rightarrow> string \<Rightarrow> link \<Rightarrow> envelope" where
  "ex_sent ty pre l = \<lparr>ev_Version = 1, ev_MsgType = ty, ev_RequestId = requestID pre l,
     ev_TimestampMs = of_int (ln_clock l div 1000000), ev_Body = []\<rparr>"

lemma ex_call:
  assumes "link_ready i l" "0 \<le> ty" "ty < 256" "length (requestID pre l) < 256"
    and srv: "mn_wires (serve (ex_link_env ar) i (ex_sent ty pre l) (ln_server l)) i =
      \<lparr>wi_faults = [], wi_out = wi_out (mn_wires (ln_server l) i) @ frame p\<rparr>"
    and ans: "pb_MarshalEnvelope (en_pb (ex_link_env ar)) ans = Inr p" "length p \<le> MaxEnvelopeBytes" "ev_MsgType ans = want"
    and dec: "ck_Unmarshal (ex_client ar) want (ev_Body ans) = Inr b"
  shows "\<exists>l'. call (ex_link_env ar) (ex_client ar) i ty pre req want what l = (Inr b, l') \<and>
    ln_server l' = serve (ex_link_env ar) i (ex_sent ty pre l) (ln_server l) \<and> link_ready i l' \<and> ln_clock l' = ln_clock l"
proof -
  have must: "mustEnvelope (ex_client ar) ty (requestID pre l) req l = Inr (ex_sent ty pre l)"
    by (simp add: mustEnvelope_def ex_client_def ex_sent_def)
  with ex_request [OF assms(2-4), of ar req l] have "fits_frame (ex_link_env ar) (ex_sent ty pre l)" by simp
  from client_write_served [OF ex_link_pb_ok _ must this, of i] assms(1) obtain w where w: "wi_faults w = []"
    "client_writeEnvelope (ex_link_env ar) (ex_client ar) i ty (requestID pre l) req l =
      (Inr (), l\<lparr>ln_out := w, ln_server := serve (ex_link_env ar) i (ex_sent ty pre l) (ln_server l)\<rparr>)" (is "_ = (Inr (), ?l1)")
    by (auto simp: link_ready_def)
  have "unread i ?l1 = frame p @ []" using assms(1) srv by (simp add: unread_def link_ready_def)
  from read_frame [OF ex_link_pb_ok ans(1,2) this, of want] ans(3) dec w assms(1) srv show ?thesis
    by (simp add: call_def bind_e_def link_ready_def)
qed

definition ex_before :: link where
  "ex_before = ex_link (ex_manager\<lparr>mn_store := ex_lone\<rparr>)"

lemma ex_link_env_simps [simp]:
  "en_auth (ex_link_env ar) = ex_auth" "en_cfg (ex_link_env ar) = defaults" "en_nodePeerID (ex_link_env ar) = ''n1''"
  "pb_Hello (en_pb (ex_link_env ar)) b = Inr \<lparr>he_ClientPeerId = ''p1'', he_ClientAgent = [], he_ProtocolVersion = []\<rparr>"
  "pb_AuthProve (en_pb (ex_link_env ar)) b = Inr \<lparr>ap_ClientPeerId = ''p1'', ap_Nonce = replicate 32 7, ap_IssuedAtMs = 100000,
     ap_ExpiresAtMs = 400000, ap_Signature = [1], ap_PublicKey = [1]\<rparr>"
  by (simp_all add: ex_link_env_def ex_env_def ex_pb_def)

lemma ex_hello:
  assumes "IssueChallenge ex_auth defaults ''p1'' ''n1'' (mn_store M) = (Inr ex_challenge, s1)" "wi_faults (mn_wires M i) = []"
    "ev_MsgType ev = MsgType_HELLO" "length (ev_RequestId ev) < 256"
  obtains p ans where "mn_store (serve (ex_link_env ar) i ev M) = s1"
    "cs_issuedChallenge (mn_sessions (serve (ex_link_env ar) i ev M) i) = Some ex_challenge"
    "mn_wires (serve (ex_link_env ar) i ev M) i = (mn_wires M i)\<lparr>wi_out := wi_out (mn_wires M i) @ frame p\<rparr>"
    "pb_MarshalEnvelope (en_pb (ex_link_env ar)) ans = Inr p" "length p \<le> MaxEnvelopeBytes" "ev_MsgType ans = MsgType_AUTH_CHALLENGE"
proof -
  have "pb_Marshal (en_pb (ex_link_env ar)) ex_challenge_msg = Inr []" by (simp add: ex_link_env_def)
  from ex_link_bytes [OF this, of MsgType_AUTH_CHALLENGE "ev_RequestId ev" "now_ms s1"] assms(4) obtain p ans where
    b: "event_bytes (ex_link_env ar) (now_ms s1) MsgType_AUTH_CHALLENGE (ev_RequestId ev) ex_challenge_msg = Some (frame p)"
    and a: "pb_MarshalEnvelope (en_pb (ex_link_env ar)) ans = Inr p" "length p \<le> MaxEnvelopeBytes" "ev_MsgType ans = MsgType_AUTH_CHALLENGE"
    by auto
  have ch: "cl_NodePeerID ex_challenge = ''n1''" "cl_Nonce ex_challenge = replicate 32 7" "cl_IssuedAt ex_challenge = 100000"
    "cl_ExpiresAt ex_challenge = 400000" by (simp_all add: ex_challenge_def Let_def)
  show ?thesis
    using b assms ch
    by (intro that [OF _ _ _ a]) (simp_all add: serve_def dispatch_def handle_hello_def bind_e_def UnmarshalBody_def modify_def in_store_def lift_e_def set_session_def
        sess_write_bytes)
qed

lemma ex_prove:
  assumes "VerifyChallenge ex_auth defaults (answer ex_challenge [1] [1]) (mn_store M) = (Inr res, s2)"
    "ListSpaces ex_coll (us_ID (ar_User res)) s2 = (Inr [], s3)" "wi_faults (mn_wires M i) = []"
    "cs_issuedChallenge (mn_sessions M i) = Some ch"
    "ev_MsgType ev = MsgType_AUTH_PROVE" "length (ev_RequestId ev) < 256"
    and ar: "ar = AuthResultMsg True (ar_SessionID res) (us_UserID (ar_User res)) (us_DisplayName (ar_User res)) (ar_Message res) []"
  obtains p ans where "mn_wires (serve (ex_link_env ar) i ev M) i = (mn_wires M i)\<lparr>wi_out := wi_out (mn_wires M i) @ frame p\<rparr>"
    "pb_MarshalEnvelope (en_pb (ex_link_env ar)) ans = Inr p" "length p \<le> MaxEnvelopeBytes" "ev_MsgType ans = MsgType_AUTH_RESULT"
proof -
  have "pb_Marshal (en_pb (ex_link_env ar)) ar = Inr []" by (simp add: ex_link_env_def ar)
  from ex_link_bytes [OF this, of MsgType_AUTH_RESULT "ev_RequestId ev" "now_ms s3"] assms(6) obtain p ans where
    b: "event_bytes (ex_link_env ar) (now_ms s3) MsgType_AUTH_RESULT (ev_RequestId ev) ar = Some (frame p)"
    and a: "pb_MarshalEnvelope (en_pb (ex_link_env ar)) ans = Inr p" "length p \<le> MaxEnvelopeBytes" "ev_MsgType ans = MsgType_AUTH_RESULT"
    by auto
  have an: "\<lparr>vi_ClientPeerID = ''p1'', vi_NodePeerID = ''n1'', vi_Nonce = replicate 32 7, vi_IssuedAt = 100000, vi_ExpiresAt = 400000,
      vi_Signature = [1], vi_PublicKey = [1]\<rparr> = answer ex_challenge [1] [1]" by (simp add: answer_def ex_challenge_def Let_def)
  have coll: "en_coll (ex_link_env ar) = ex_coll" by (simp add: ex_link_env_def ex_env_def ex_auth_def ex_blob_env_def)
  show ?thesis
    using b assms(1-5) an coll ar
    by (intro that [OF _ a]) (simp add: serve_def dispatch_def handle_auth_prove_def Authenticate_def bind_e_def UnmarshalBody_def modify_def in_store_def lift_e_def set_session_def
        registerDirectUserSession_def spaceSummariesForViewer_def Let_def
        sess_write_bytes)
qed

lemma ex_sent_simps [simp]: "ev_MsgType (ex_sent ty pre l) = ty" "ev_RequestId (ex_sent ty pre l) = requestID pre l"
  by (simp_all add: ex_sent_def)

lemma ex_rid: "length pre < 16 \<Longrightarrow> ln_clock l = 100000000000 \<Longrightarrow> length (requestID pre l) < 256"
  by (simp add: requestID_def show_int_def ex_clock_text)

lemma ex_client_simps [simp]:
  "ck_Unmarshal (ex_client ar) MsgType_AUTH_CHALLENGE bs = Inr ex_challenge_msg"
  "ck_Unmarshal (ex_client ar) MsgType_AUTH_RESULT bs = Inr ar"
  "ck_Sign (ex_client ar) m = Inr [1]" "ck_MarshalPublicKey (ex_client ar) = Inr [1]"
  by (simp_all add: ex_client_def)

lemma ex_before_simps:
  "link_ready 3 ex_before" "ln_clock ex_before = 100000000000" "mn_store (ln_server ex_before) = ex_lone"
  "wi_faults (mn_wires (ln_server ex_before) 3) = []"
  by (simp_all add: link_ready_def ex_before_def ex_link_def ex_manager_def)

lemma ex_hello_call:
  assumes "IssueChallenge ex_auth defaults ''p1'' ''n1'' ex_lone = (Inr ex_challenge, s1)"
  obtains l1 where "call (ex_link_env ar) (ex_client ar) 3 MsgType_HELLO ''hello'' req MsgType_AUTH_CHALLENGE ''auth challenge'' ex_before =
      (Inr ex_challenge_msg, l1)" "link_ready 3 l1" "ln_clock l1 = 100000000000" "mn_store (ln_server l1) = s1"
    "cs_issuedChallenge (mn_sessions (ln_server l1) 3) = Some ex_challenge"
proof -
  have rid: "length (requestID ''hello'' ex_before) < 256" by (rule ex_rid) (simp_all add: ex_before_simps)
  let ?M = "serve (ex_link_env ar) 3 (ex_sent MsgType_HELLO ''hello'' ex_before) (ln_server ex_before)"
  obtain p ans where M: "mn_store ?M = s1" "cs_issuedChallenge (mn_sessions ?M 3) = Some ex_challenge"
      "mn_wires ?M 3 = (mn_wires (ln_server ex_before) 3)\<lparr>wi_out := wi_out (mn_wires (ln_server ex_before) 3) @ frame p\<rparr>"
    and ans: "pb_MarshalEnvelope (en_pb (ex_link_env ar)) ans = Inr p" "length p \<le> MaxEnvelopeBytes" "ev_MsgType ans = MsgType_AUTH_CHALLENGE"
    using assms rid ex_before_simps(3,4)
    by (rule_tac ex_hello [of "ln_server ex_before" s1 3 "ex_sent MsgType_HELLO ''hello'' ex_before" ar]) simp_all
  have "\<exists>l1. call (ex_link_env ar) (ex_client ar) 3 MsgType_HELLO ''hello'' req MsgType_AUTH_CHALLENGE ''auth challenge'' ex_before =
      (Inr ex_challenge_msg, l1) \<and> ln_server l1 = ?M \<and> link_ready 3 l1 \<and> ln_clock l1 = ln_clock ex_before"
    by (intro ex_call [OF ex_before_simps(1) _ _ rid _ ans]) (simp_all add: M ex_before_simps)
  with that M(1,2) ex_before_simps(2) show ?thesis by auto
qed

lemma ex_authenticated:
  "\<exists>ar l'. authenticate (ex_link_env ar) (ex_client ar) 3 ''p1'' [] [] ex_before = (Inr ar, l')"
proof -
  obtain s1 where s1: "IssueChallenge ex_auth defaults ''p1'' ''n1'' ex_lone = (Inr ex_challenge, s1)" "faults s1 = []"
    "now_ms s1 = 100000" "users (tabs s1) = users ex_tables" "server_members (tabs s1) = []" by (rule ex_issue_lone)
  obtain res s2 where v: "VerifyChallenge ex_auth defaults (answer ex_challenge [1] [1]) s1 = (Inr res, s2)"
    "ListSpaces ex_coll (us_ID (ar_User res)) s2 = (Inr [], tick s2)" by (rule ex_logged_in [OF s1])
  define ar where "ar = AuthResultMsg True (ar_SessionID res) (us_UserID (ar_User res)) (us_DisplayName (ar_User res)) (ar_Message res) []"
  obtain l1 where one: "call (ex_link_env ar) (ex_client ar) 3 MsgType_HELLO ''hello''
      (HelloReq \<lparr>he_ClientPeerId = ''p1'', he_ClientAgent = [], he_ProtocolVersion = ''1.0.0''\<rparr>)
      MsgType_AUTH_CHALLENGE ''auth challenge'' ex_before = (Inr ex_challenge_msg, l1)" "link_ready 3 l1"
    "ln_clock l1 = 100000000000" "mn_store (ln_server l1) = s1" "cs_issuedChallenge (mn_sessions (ln_server l1) 3) = Some ex_challenge"
    by (rule ex_hello_call [OF s1(1)])
  have rid: "length (requestID ''prove'' l1) < 256" by (rule ex_rid) (simp_all add: one(3))
  have f1: "wi_faults (mn_wires (ln_server l1) 3) = []" using one(2) by (simp add: link_ready_def)
  obtain q ans where pr: "mn_wires (serve (ex_link_env ar) 3 (ex_sent MsgType_AUTH_PROVE ''prove'' l1) (ln_server l1)) 3 =
      (mn_wires (ln_server l1) 3)\<lparr>wi_out := wi_out (mn_wires (ln_server l1) 3) @ frame q\<rparr>"
    "pb_MarshalEnvelope (en_pb (ex_link_env ar)) ans = Inr q" "length q \<le> MaxEnvelopeBytes" "ev_MsgType ans = MsgType_AUTH_RESULT"
    using v one(4,5) f1 rid ar_def
    by (rule_tac ex_prove [of "ln_server l1" res s2 "tick s2" 3 ex_challenge "ex_sent MsgType_AUTH_PROVE ''prove'' l1" ar]) simp_all
  have "\<exists>l2. call (ex_link_env ar) (ex_client ar) 3 MsgType_AUTH_PROVE ''prove'' req MsgType_AUTH_RESULT ''auth result'' l1 = (Inr ar, l2)" for req
    using ex_call [OF one(2) _ _ rid _ pr(2-4), of MsgType_AUTH_PROVE ar req "''auth result''"] f1 pr(1) by auto
  then obtain l2 where two: "call (ex_link_env ar) (ex_client ar) 3 MsgType_AUTH_PROVE ''prove''
      (AuthProveReq \<lparr>ap_ClientPeerId = ''p1'', ap_Nonce = replicate 32 7, ap_IssuedAtMs = 100000, ap_ExpiresAtMs = 400000,
        ap_Signature = [1], ap_PublicKey = [1]\<rparr>) MsgType_AUTH_RESULT ''auth result'' l1 = (Inr ar, l2)" by blast
  have "resp_Ok ar" by (simp add: ar_def)
  with one(1) two show ?thesis
    by (intro exI [of _ ar] exI [of _ l2]) (simp add: authenticate_def bind_e_def prove_challenge_def Let_def accepted_def)
qed

theorem login_agreement_witness:
  "\<exists>ar l' res. authenticate (ex_link_env ar) (ex_client ar) 3 ''p1'' [] [] ex_before = (Inr ar, l') \<and>
     login 3 (ln_server l') = (True, Some res)"
proof -
  obtain ar l' where run: "authenticate (ex_link_env ar) (ex_client ar) 3 ''p1'' [] [] ex_before = (Inr ar, l')" using ex_authenticated by blast
  have "link_ready 3 ex_before" by (simp add: link_ready_def ex_before_def ex_link_def ex_manager_def)
  from login_agreement [OF ex_link_pb_ok _ this run] run show ?thesis by (force simp: ex_link_env_def ex_client_def split: if_splits)
qed

end
