(* ===== verification/Spec2Isabelle.thy ===== *)
theory Spec2Isabelle
  imports Config UnixFS Auth Store_Spaces Store_Channels Store_Messages Store_Direct Media Messaging Direct_Messaging
    Codec Session_API Session Session_Properties Store_Invariant Store_Contract HTTP_API HTTP_Properties Websocket Database App System
    IPFS_Pins IPFS_Node P2P_Node Client
begin

text \<open>
  Verification of meshserver, a chat server in Go. Paths below are relative to the repository.

  \<^bold>\<open>The program.\<close> A process loads its configuration, opens and migrates a MySQL database,
  opens the key of its libp2p node and serves two kinds of clients over the same database.
  Peers open libp2p streams and exchange length-prefixed protobuf envelopes with the session
  manager, after a challenge-response login with their peer key. HTTP clients log in the same
  way, get an access token and use a REST interface; they may also open a websocket. Users meet
  in spaces (with roles and bans), spaces have channels (with permissions, slow mode and
  automatic deletion), channels have numbered messages with attachments; two users may also
  have a direct conversation. A message that is stored is pushed to the sessions and websockets
  subscribed to its channel. A task deletes expired messages. An embedded IPFS node stores
  files and pins them.

  \<^bold>\<open>How it is modelled.\<close> Every operation of the source is one definition with the name of the
  function it translates, in the order and with the early returns of the source. An operation
  is a state transformer that returns a value or an error (\<open>em\<close> of \<open>Prelude\<close>, with \<open>bind_e\<close>,
  \<open>map_err\<close>, \<open>handle_e\<close>); error values carry the texts the code builds, and the texts of \<open>%q\<close> arguments are
  left out. The state of the repositories is the record \<open>store\<close> of \<open>Schema\<close>: the tables of the
  migrations as lists of rows with their \<open>AUTO_INCREMENT\<close> counters and unique keys, the blob
  files, a clock, the entropy source, the number of transactions left open, and a schedule of
  driver faults, which decides at every statement and every write to the file store whether it
  fails. A failing write may leave a beginning of the file. A method that opens a transaction
  ends with the value of its variable \<open>err\<close> and the error it returns; the deferred function looks
  at the former and rolls back, restoring the tables, or leaves the transaction open. Integers have the width of the source
  (\<open>uint32\<close>, \<open>uint64\<close> as words that wrap), times are milliseconds. The collation of the database, which
  decides when two texts are equal, is an argument.

  Code that is not in the repository is an argument as well, with what is relied on as a
  hypothesis: the protobuf encoding (\<open>pb\<close>; \<open>pb_ok\<close>: an envelope that can be encoded decodes to itself),
  SHA-256 and the key operations of libp2p (\<open>auth_env\<close>), the JWT library and JSON decoders
  (\<open>HTTP_Base\<close>), the websocket library, the MIME sniffer and image decoder (\<open>Media\<close>), the chunker and the
  DAG builder of IPFS (\<open>UnixFS\<close>, \<open>IPFS_Node\<close>), the DHT
  and the host (\<open>P2P_Node\<close>), the behaviour of a MySQL server at start-up (\<open>Database\<close>). Each theorem
  with hypotheses is followed by an instance on concrete functions and a concrete store.

  \<^bold>\<open>The theories.\<close>

  \<^item> \<open>Prelude\<close>, \<open>Schema\<close>, \<open>Paging\<close>: the combinators with their inversion rules (\<open>em_simps\<close>) and their
    proof rules for invariants (\<open>keeps\<close>, \<open>triple\<close>), strings as Go has them, tables and SQL clauses, the
    locales \<open>unique_key\<close> (interpreted for every unique key of the schema) and \<open>cursor_listing\<close> (what a
    client gets that follows a cursor; interpreted for channel synchronisation and pending direct
    messages). \<open>Example_Store\<close> has a populated database for the instances.
  \<^item> \<open>Config\<close>: \<open>internal/config\<close>. Defaults, file and environment, validation; where a setting comes from.
  \<^item> \<open>Store_Users\<close>, \<open>Store_Spaces\<close>, \<open>Store_Channels\<close>, \<open>Store_Messages\<close>, \<open>Store_Direct\<close>: \<open>internal/repository/mysql\<close>, one
    theory per file or pair of files. Each has the invariant of its tables, kept by each of its
    operations, and the effect of each operation: bans that hold through any other membership
    operations, kicks, ownership, idempotent creation of
    messages under the client's identifier, numbering without gaps, deletion of expired messages.
  \<^item> \<open>UnixFS\<close>: \<open>internal/ipfsunixfs/add.go\<close>, used by \<open>Media\<close> and \<open>IPFS_Node\<close>.
  \<^item> \<open>Media\<close>: \<open>internal/media\<close>, \<open>internal/storage\<close>, \<open>blob.go\<close> and \<open>internal/service/media.go\<close>. Content is stored
    once and read back unchanged, unless a failed write has left a part of it at its path: every
    file holds content of the digest in its name or a beginning of such content.
  \<^item> \<open>Auth\<close>: \<open>internal/auth\<close>. What an accepted proof implies; the step relation \<open>auth_run\<close> of any
    interleaving of challenges, proofs and other operations, with the absence of replays.
  \<^item> \<open>Messaging\<close>, \<open>Direct_Messaging\<close>: \<open>internal/service\<close>. Who may send what, complete synchronisation,
    monotone cursors, acknowledgement of direct messages.
  \<^item> \<open>Protocol\<close>, \<open>Codec\<close>: \<open>session.proto\<close> and \<open>internal/protocol\<close>. What was written is read.
  \<^item> \<open>Session_API\<close>, \<open>Session\<close>, \<open>Session_Properties\<close>: \<open>internal/session\<close>. The manager with its sessions,
    subscriptions and outgoing streams; \<open>dispatch\<close> has one handler per case. The gate in front of every
    request, how a session becomes authenticated, agreement of streams with the methods for the
    HTTP interface, ranks for moderation, deliveries, the end of a stream, and that every request
    is answered.
  \<^item> \<open>HTTP_Base\<close>, \<open>HTTP_API\<close>, \<open>HTTP_Properties\<close>: \<open>internal/api\<close>. Routes, handlers, tokens, the file route,
    the request that opens a websocket.
  \<^item> \<open>Websocket\<close>: \<open>internal/api/ws.go\<close>. Both pumps, the bounded send buffer, and the deliveries that have
    copied their targets and are still under way, each with the goroutine that runs it, so that a
    delivery can meet a closed channel.
  \<^item> \<open>Store_Invariant\<close>, \<open>Store_Contract\<close>: the invariant of the whole database, and the locale \<open>store_contract\<close> of what
    a client of the repositories keeps, interpreted for well-formedness and for the append-only log of the
    channels.
  \<^item> \<open>Database\<close>, \<open>App\<close>: \<open>internal/db\<close> and \<open>internal/app\<close>. Connecting with retries, privileges, migrations,
    start-up, shutdown, the clean-up task.
  \<^item> \<open>System\<close>: the step relation \<open>sys_step\<close> of the server, which interleaves requests on streams and over HTTP,
    websocket frames, single deliveries, the clean-up, the passing of time, faults and restarts.
    The invariant of every reachable state, the refinement of an append-only log per channel,
    access of websockets, the crash a delivery can cause, and the silence of a stream that has ended.
  \<^item> \<open>IPFS_Pins\<close>, \<open>IPFS_Node\<close>: \<open>internal/ipfspin\<close>, \<open>ipfsnode\<close>, \<open>ipfsunixfs\<close>, \<open>ipfsstore\<close>, \<open>ipfsgateway\<close> and
    \<open>internal/api/ipfs_http.go\<close>. The locale \<open>pin_set\<close>, interpreted for the file-backed pins; durability of pins
    under failing file operations; which requests can change the node.
  \<^item> \<open>P2P_Node\<close>: \<open>internal/libp2p/node.go\<close>. The stable identity, the bootstrap peers, the two background loops.
  \<^item> \<open>Client\<close>: the calls of \<open>examples/admin-client\<close> and \<open>examples/connect-client\<close> against the server at the other end
    of the stream. A call is answered by the answer to it unless an event is still unread, and
    client and server agree on a login.

  \<^bold>\<open>Loops.\<close> The loops over received bytes (\<open>read_stream\<close>, \<open>serve_stream\<close>) end because every envelope
    consumes bytes, and are total. The loops that may run for ever are partial functions into
    options, with no bound of their own: the clean-up (\<open>cleanup_loop\<close>, ends because every full batch deletes rows),
    the wait for the database (\<open>ping_loop\<close>, ends with the deadline), and the background loops of the
    node (they end when the context is cancelled or, for the first, a peer is connected); that they
    return is proved in each case.

  \<^bold>\<open>Concurrency.\<close> Requests of a session run one after the other, as in \<open>HandleStream\<close>. Between
    sessions, the manager's lock and the row locks of the transactions make a request one step;
    where the code leaves the lock before it acts on what it has read (the deliveries to
    websockets), the steps are separate.

  \<^bold>\<open>Not modelled.\<close> The main functions of \<open>cmd\<close> and of the example clients and the discovery of a
    peer by the latter, which parse flags, call what is modelled and print. Logging. The code
    generated from \<open>session.proto\<close>. Inside the IPFS node, the block store, the DAG service, the
    exchange and the read-only gateway, which are third-party code the sources only hand calls to.
    Isolation of concurrent transactions below the level of a request, and messages of MySQL
    other than the ones the code inspects. Two liberties are taken with MySQL: a rollback gives
    \<open>AUTO_INCREMENT\<close> values back, which only makes identifiers denser, and a \<open>COMMIT\<close> that reports an
    error has not been applied. How MySQL reads the literals of \<open>sqlStringLiteral\<close> is not modelled.
\<close>

end
